(* ===== verification/Prelude.thy ===== *)
theory Prelude
  imports Main "HOL-Library.AList"
begin

text \<open>
  Shared vocabulary of the development.

  \<^item> \<open>pyerr\<close> and \<open>'a res\<close>: the exceptions the modelled Python code raises, and results
    that are either an exception (\<open>Inl\<close>) or a value (\<open>Inr\<close>). \<open>res_bind\<close> sequences two
    computations the way an uncaught exception does, \<open>check\<close> is \<open>if not c: raise e\<close>.
  \<^item> ASCII versions of \<open>str.upper\<close>, \<open>str.lower\<close>, \<open>str.strip\<close>, \<open>str.split\<close>,
    \<open>str.startswith\<close> and the \<open>int()\<close> parser.
  \<^item> Python dictionaries that keep insertion order are association lists with
    \<open>AList.update\<close>; the lemmas on them that components share are collected here.
  \<^item> The collections \<open>res_simps\<close> (rules that turn a successful computation into the
    facts that made it succeed), \<open>frame\<close> (what an operation leaves unchanged) and
    \<open>model_defs\<close> (definitions unfolded when a closed term is evaluated).
\<close>

named_theorems res_simps
named_theorems frame
named_theorems model_defs

section \<open>Exceptions\<close>

datatype pyerr =
    ValueError string
  | KeyError string
  | InvalidOperation
  | DivisionByZero
  | RuntimeError string
  | TypeError
  | OverflowError

type_synonym 'a res = "pyerr + 'a"

definition res_bind :: "'e + 'a \<Rightarrow> ('a \<Rightarrow> 'e + 'b) \<Rightarrow> 'e + 'b" where
  "res_bind m f = (case m of Inl e \<Rightarrow> Inl e | Inr x \<Rightarrow> f x)"

definition check :: "bool \<Rightarrow> 'e \<Rightarrow> 'e + unit" where
  "check c e = (if c then Inr () else Inl e)"

lemma res_bind_Inl [simp]: "res_bind (Inl e) f = Inl e"
  by (simp add: res_bind_def)

lemma res_bind_Inr [simp]: "res_bind (Inr x) f = f x"
  by (simp add: res_bind_def)

lemma res_bind_eq_Inr [res_simps]: "res_bind m f = Inr y \<longleftrightarrow> (\<exists>x. m = Inr x \<and> f x = Inr y)"
  by (cases m) auto

lemma res_bind_eq_Inl [res_simps]:
  "res_bind m f = Inl e \<longleftrightarrow> m = Inl e \<or> (\<exists>x. m = Inr x \<and> f x = Inl e)"
  by (cases m) auto

lemma check_eq_Inr [res_simps]: "check c e = Inr u \<longleftrightarrow> c"
  by (simp add: check_def)

lemma check_eq_Inl [res_simps]: "check c e = Inl e' \<longleftrightarrow> \<not> c \<and> e' = e"
  by (auto simp: check_def)

lemma check_True [simp]: "check True e = Inr ()"
  by (simp add: check_def)

lemma check_False [simp]: "check False e = Inl e"
  by (simp add: check_def)

text \<open>\<open>res_map f [x, y, \<dots>]\<close> is a list comprehension whose body may raise: the first
  exception is the result.\<close>

primrec res_map :: "('a \<Rightarrow> 'e + 'b) \<Rightarrow> 'a list \<Rightarrow> 'e + 'b list" where
  "res_map f [] = Inr []"
| "res_map f (x # xs) = res_bind (f x) (\<lambda>y. res_bind (res_map f xs) (\<lambda>ys. Inr (y # ys)))"

lemma res_map_Inr_iff: "res_map f xs = Inr ys \<longleftrightarrow> map f xs = map Inr ys"
  by (induction xs arbitrary: ys) (auto simp: res_simps Cons_eq_map_conv)

text \<open>\<open>res_fold f [x, y, \<dots>] s\<close> is a \<open>for\<close> loop over a state whose body may raise.\<close>

primrec res_fold :: "('a \<Rightarrow> 's \<Rightarrow> 'e + 's) \<Rightarrow> 'a list \<Rightarrow> 's \<Rightarrow> 'e + 's" where
  "res_fold f [] s = Inr s"
| "res_fold f (x # xs) s = res_bind (f x s) (res_fold f xs)"

lemma res_fold_append: "res_fold f (xs @ ys) s = res_bind (res_fold f xs s) (res_fold f ys)"
  by (induction xs arbitrary: s) (auto simp: res_bind_def split: sum.splits)

lemma res_fold_invariant:
  assumes "res_fold f xs s = Inr s'" and "P s"
    and "\<And>x s s'. x \<in> set xs \<Longrightarrow> P s \<Longrightarrow> f x s = Inr s' \<Longrightarrow> P s'"
  shows "P s'"
  using assms
proof (induction xs arbitrary: s)
  case (Cons x xs)
  from Cons.prems(1) obtain s1 where "f x s = Inr s1" and rest: "res_fold f xs s1 = Inr s'"
    by (auto simp: res_simps)
  with Cons.prems(2,3) have "P s1" by auto
  then show ?case using Cons.IH[OF rest] Cons.prems(3) by auto
qed simp

lemma res_fold_element:
  assumes "res_fold f xs s = Inr s'" "x \<in> set xs"
    and "\<And>s s'. f x s = Inr s' \<Longrightarrow> Q s'" "\<And>y s s'. Q s \<Longrightarrow> f y s = Inr s' \<Longrightarrow> Q s'"
  shows "Q s'"
  using assms(1,2)
proof (induction xs arbitrary: s)
  case (Cons y xs)
  from Cons.prems(1) obtain s1 where s1: "f y s = Inr s1" and rest: "res_fold f xs s1 = Inr s'"
    by (auto simp: res_simps)
  show ?case
  proof (cases "x = y")
    case True
    show ?thesis by (rule res_fold_invariant[where P = Q, OF rest assms(3)[OF s1[folded True]]]) (rule assms(4))
  qed (use Cons.IH[OF rest] Cons.prems(2) in auto)
qed simp

section \<open>Strings\<close>

definition upper_char :: "char \<Rightarrow> char" where
  "upper_char c =
     (if 97 \<le> (of_char c :: nat) \<and> (of_char c :: nat) \<le> 122 then char_of (of_char c - 32 :: nat) else c)"

definition lower_char :: "char \<Rightarrow> char" where
  "lower_char c =
     (if 65 \<le> (of_char c :: nat) \<and> (of_char c :: nat) \<le> 90 then char_of (of_char c + 32 :: nat) else c)"

definition upper :: "string \<Rightarrow> string" where "upper s = map upper_char s"

definition lower :: "string \<Rightarrow> string" where "lower s = map lower_char s"

definition is_space :: "char \<Rightarrow> bool" where
  "is_space c = ((9 \<le> (of_char c :: nat) \<and> (of_char c :: nat) \<le> 13) \<or> (28 \<le> (of_char c :: nat) \<and> (of_char c :: nat) \<le> 32))"

definition is_digit :: "char \<Rightarrow> bool" where
  "is_digit c = (48 \<le> (of_char c :: nat) \<and> (of_char c :: nat) \<le> 57)"

definition lstrip :: "string \<Rightarrow> string" where "lstrip s = dropWhile is_space s"

definition strip :: "string \<Rightarrow> string" where
  "strip s = rev (lstrip (rev (lstrip s)))"

definition startswith :: "string \<Rightarrow> string \<Rightarrow> bool" where
  "startswith s p = (take (length p) s = p)"

text \<open>\<open>split_on c s\<close> is \<open>s.split(c)\<close> for a one-character separator; \<open>split_max c n s\<close> is
  \<open>s.split(c, n)\<close>.\<close>

fun split_on :: "char \<Rightarrow> string \<Rightarrow> string list" where
  "split_on c [] = [[]]"
| "split_on c (x # xs) =
     (if x = c then [] # split_on c xs
      else (case split_on c xs of [] \<Rightarrow> [[x]] | y # ys \<Rightarrow> (x # y) # ys))"

fun split_max :: "char \<Rightarrow> nat \<Rightarrow> string \<Rightarrow> string list" where
  "split_max c 0 s = [s]"
| "split_max c (Suc n) s =
     (case dropWhile (\<lambda>x. x \<noteq> c) s of
        [] \<Rightarrow> [s]
      | _ # rest \<Rightarrow> takeWhile (\<lambda>x. x \<noteq> c) s # split_max c n rest)"

lemma upper_char_idem [simp]: "upper_char (upper_char c) = upper_char c"
  by (auto simp: upper_char_def)

lemma upper_idem [simp]: "upper (upper s) = upper s"
  by (simp add: upper_def)

lemma upper_Nil [simp]: "upper s = [] \<longleftrightarrow> s = []"
  by (simp add: upper_def)

lemmas string_eval = upper_def lower_def upper_char_def lower_char_def strip_def lstrip_def
  is_space_def is_digit_def startswith_def

lemma split_max_1_no_sep: "c \<notin> set s \<Longrightarrow> split_max c (Suc 0) s = [s]"
proof -
  assume "c \<notin> set s"
  then have "dropWhile (\<lambda>x. x \<noteq> c) s = []" by (induction s) auto
  then show ?thesis by (simp only: split_max.simps list.case)
qed

lemma split_max_Suc_sep:
  "c \<notin> set a \<Longrightarrow> split_max c (Suc n) (a @ c # rest) = a # split_max c n rest"
proof -
  assume a: "c \<notin> set a"
  then have "dropWhile (\<lambda>x. x \<noteq> c) (a @ c # rest) = c # rest"
    by (induction a) auto
  moreover from a have "takeWhile (\<lambda>x. x \<noteq> c) (a @ c # rest) = a"
    by (induction a) auto
  ultimately show ?thesis by simp
qed

declare split_max.simps(2) [simp del]

section \<open>Integer literals\<close>

definition digit_value :: "char \<Rightarrow> nat" where "digit_value c = of_char c - 48"

definition nat_of_digits :: "string \<Rightarrow> nat" where
  "nat_of_digits s = foldl (\<lambda>n c. 10 * n + digit_value c) 0 s"

text \<open>Underscores may separate digits, never lead, trail or repeat (PEP 515).\<close>

fun underscores_inner :: "string \<Rightarrow> bool" where
  "underscores_inner [] = True"
| "underscores_inner [c] = (c \<noteq> CHR ''_'')"
| "underscores_inner (c # d # s) =
     ((c = CHR ''_'' \<longrightarrow> is_digit d) \<and> (d = CHR ''_'' \<longrightarrow> is_digit c) \<and> underscores_inner (d # s))"

definition underscores_ok :: "string \<Rightarrow> bool" where
  "underscores_ok s = (take 1 s \<noteq> ''_'' \<and> underscores_inner s)"

definition strip_sign :: "string \<Rightarrow> bool \<times> string" where
  "strip_sign s =
     (case s of
        c # r \<Rightarrow> if c = CHR ''-'' then (True, r) else if c = CHR ''+'' then (False, r) else (False, s)
      | [] \<Rightarrow> (False, []))"

definition parse_int :: "string \<Rightarrow> int option" where
  "parse_int raw =
     (let (neg, body) = strip_sign (strip raw);
          ds = filter (\<lambda>c. c \<noteq> CHR ''_'') body
      in if underscores_ok body \<and> ds \<noteq> [] \<and> list_all is_digit ds
         then Some (if neg then - int (nat_of_digits ds) else int (nat_of_digits ds))
         else None)"

section \<open>Insertion-ordered dictionaries\<close>

type_synonym ('k, 'v) dict = "('k \<times> 'v) list"

definition dict_ok :: "('k, 'v) dict \<Rightarrow> bool" where
  "dict_ok d = distinct (map fst d)"

lemma dict_ok_Nil [simp]: "dict_ok []"
  by (simp add: dict_ok_def)

lemma dict_ok_update [simp]: "dict_ok d \<Longrightarrow> dict_ok (AList.update k v d)"
  by (simp add: dict_ok_def distinct_update)

lemma dict_ok_map_of: "dict_ok d \<Longrightarrow> map_of d k = Some v \<longleftrightarrow> (k, v) \<in> set d"
  by (simp add: dict_ok_def)

lemma dict_update_same_keys:
  "map_of d k = Some w \<Longrightarrow> map fst (AList.update k v d) = map fst d"
  by (induction d) auto

lemma dict_update_set:
  assumes "dict_ok d"
  shows "set (map snd (AList.update k v d)) = insert v {w. \<exists>k'. k' \<noteq> k \<and> map_of d k' = Some w}"
proof -
  have "w \<in> set (map snd (AList.update k v d)) \<longleftrightarrow> (\<exists>k'. map_of (AList.update k v d) k' = Some w)" for w
    using dict_ok_map_of[OF dict_ok_update[OF assms, of k v]] by force
  then show ?thesis
    by (intro set_eqI, simp only:) (auto simp: update_conv' split: if_splits)
qed

end
