(* ===== verification/Rounding.thy ===== *)
theory Rounding
  imports Complex_Main
begin

text \<open>
  Correct rounding of rational numbers to \<open>p\<close> significant base-\<open>b\<close> digits, ties to even.
  With \<open>b = 10\<close> and \<open>p = 28\<close> this is the default context of Python's \<open>decimal\<close> module
  (\<open>ROUND_HALF_EVEN\<close>, precision 28); with \<open>b = 2\<close> and \<open>p = 53\<close> it is the rounding of
  a Python \<open>float\<close> (exponent range aside).

  \<^item> \<open>round_half_even\<close> rounds to an integer; \<open>magnitude b x\<close> is the exponent of the leading
    base-\<open>b\<close> digit; \<open>rnd b p x\<close> scales, rounds and scales back.
  \<^item> The lemmas the components use: rounding is monotone (\<open>rnd_mono\<close>), odd
    (\<open>rnd_uminus\<close>), keeps the sign (\<open>rnd_pos\<close>), is the identity on numbers of at most
    \<open>p\<close> digits (\<open>rnd_representable\<close>), has such a number as its result
    (\<open>representable_rnd\<close>), and is off by at most half a unit in the last place
    (\<open>rnd_error\<close>).
\<close>

section \<open>Rounding to an integer\<close>

definition round_half_even :: "rat \<Rightarrow> int" where
  "round_half_even x =
     (let f = \<lfloor>x\<rfloor>; d = x - of_int f in
      if d < 1 / 2 then f
      else if 1 / 2 < d then f + 1
      else if even f then f else f + 1)"

lemma round_half_even_int [simp]: "round_half_even (of_int n) = n"
  by (simp add: round_half_even_def)

lemma round_half_even_bounds:
  "\<lfloor>x\<rfloor> \<le> round_half_even x" "round_half_even x \<le> \<lfloor>x\<rfloor> + 1"
  by (auto simp: round_half_even_def Let_def)

lemma round_half_even_le_int: "x \<le> of_int n \<Longrightarrow> round_half_even x \<le> n"
proof -
  assume le: "x \<le> of_int n"
  then have "\<lfloor>x\<rfloor> \<le> n" by (simp add: floor_le_iff)
  show ?thesis
  proof (cases "\<lfloor>x\<rfloor> = n")
    case True
    with le have "x = of_int n" using of_int_floor_le[of x] by linarith
    then show ?thesis by simp
  next
    case False
    with \<open>\<lfloor>x\<rfloor> \<le> n\<close> show ?thesis using round_half_even_bounds(2)[of x] by linarith
  qed
qed

lemma round_half_even_ge_int: "of_int n \<le> x \<Longrightarrow> n \<le> round_half_even x"
  using round_half_even_bounds(1)[of x] by (simp add: le_floor_iff[symmetric])

lemma round_half_even_uminus: "round_half_even (- x) = - round_half_even x"
proof (cases "x = of_int \<lfloor>x\<rfloor>")
  case True
  then show ?thesis by (metis of_int_minus round_half_even_int)
next
  case False
  define f where "f = \<lfloor>x\<rfloor>"
  have f: "of_int f < x" "x < of_int f + 1"
    using False of_int_floor_le[of x] unfolding f_def by linarith+
  then have g: "\<lfloor>- x\<rfloor> = - f - 1" by linarith
  show ?thesis
    unfolding round_half_even_def Let_def f_def[symmetric] g by auto
qed

lemma round_half_even_mono: "x \<le> y \<Longrightarrow> round_half_even x \<le> round_half_even y"
proof (cases "\<lfloor>x\<rfloor> = \<lfloor>y\<rfloor>")
  case True
  assume "x \<le> y"
  with True show ?thesis by (auto simp: round_half_even_def Let_def)
next
  case False
  assume "x \<le> y"
  with False have "\<lfloor>x\<rfloor> + 1 \<le> \<lfloor>y\<rfloor>" using floor_mono[of x y] by linarith
  then show ?thesis using round_half_even_bounds[of x] round_half_even_bounds[of y] by linarith
qed

lemma round_half_even_error: "\<bar>of_int (round_half_even x) - x\<bar> \<le> 1 / 2"
proof -
  have "of_int \<lfloor>x\<rfloor> \<le> x" "x < of_int \<lfloor>x\<rfloor> + 1" by linarith+
  then show ?thesis by (auto simp: round_half_even_def Let_def abs_le_iff field_simps)
qed

section \<open>The exponent of the leading digit\<close>

fun ndigits :: "nat \<Rightarrow> nat \<Rightarrow> nat" where
  "ndigits b n = (if n = 0 \<or> b \<le> 1 then 0 else Suc (ndigits b (n div b)))"

declare ndigits.simps [simp del]

lemma ndigits_upper: "1 < b \<Longrightarrow> n < b ^ ndigits b n"
proof (induction b n rule: ndigits.induct)
  case (1 b n)
  show ?case
  proof (cases "n = 0")
    case True
    then show ?thesis using 1 by (simp add: ndigits.simps)
  next
    case False
    with 1 have "n div b < b ^ ndigits b (n div b)" by simp
    then have "n < b ^ ndigits b (n div b) * b"
      using \<open>1 < b\<close> by (simp add: div_less_iff_less_mult)
    then show ?thesis using False \<open>1 < b\<close> by (simp add: ndigits.simps[of b n] mult.commute)
  qed
qed

lemma ndigits_lower: "1 < b \<Longrightarrow> 0 < n \<Longrightarrow> b ^ (ndigits b n - 1) \<le> n"
proof (induction b n rule: ndigits.induct)
  case (1 b n)
  show ?case
  proof (cases "n < b")
    case True
    then show ?thesis using 1 by (simp add: ndigits.simps[of b n] ndigits.simps[of b 0])
  next
    case False
    with 1 have pos: "0 < n div b" by (simp add: div_greater_zero_iff)
    with 1 have le: "b ^ (ndigits b (n div b) - 1) \<le> n div b" by simp
    have nz: "ndigits b (n div b) \<noteq> 0" using pos \<open>1 < b\<close> by (simp add: ndigits.simps[of b "n div b"])
    have "b ^ (ndigits b n - 1) = b ^ (ndigits b (n div b) - 1) * b"
      using nz False \<open>1 < b\<close> \<open>0 < n\<close> by (cases "ndigits b (n div b)") (simp_all add: ndigits.simps[of b n])
    also have "\<dots> \<le> (n div b) * b" using le by simp
    also have "\<dots> \<le> n" by simp
    finally show ?thesis .
  qed
qed

lemma ndigits_pos: "1 < b \<Longrightarrow> 0 < n \<Longrightarrow> 0 < ndigits b n"
  by (simp add: ndigits.simps[of b n])

definition magnitude :: "nat \<Rightarrow> rat \<Rightarrow> int" where
  "magnitude b x =
     (if 1 \<le> x then int (ndigits b (nat \<lfloor>x\<rfloor>)) - 1
      else - int (ndigits b (nat (\<lceil>1 / x\<rceil> - 1))))"

lemma magnitude_bounds:
  assumes b: "1 < b" and x: "0 < x"
  shows "of_nat b powi magnitude b x \<le> x" "x < of_nat b powi (magnitude b x + 1)"
proof -
  have "of_nat b powi magnitude b x \<le> x \<and> x < of_nat b powi (magnitude b x + 1)"
  proof (cases "1 \<le> x")
    case True
    define n where "n = nat \<lfloor>x\<rfloor>"
    have n: "0 < n" "of_nat n \<le> x" "x < of_nat n + 1"
      using True unfolding n_def by (auto simp: of_nat_nat) linarith+
    define k where "k = ndigits b n"
    have k: "0 < k" "b ^ (k - 1) \<le> n" "n + 1 \<le> b ^ k"
      using ndigits_pos[OF b n(1)] ndigits_lower[OF b n(1)] ndigits_upper[OF b, of n] by (auto simp: k_def)
    have m: "magnitude b x = int (k - 1)" using True k(1) by (simp add: magnitude_def n_def k_def of_nat_diff)
    have "of_nat b ^ (k - 1) \<le> x" using k(2) n(2) by (metis of_nat_le_iff of_nat_power order_trans)
    moreover have "x < of_nat b ^ k"
    proof -
      have "x < of_nat (n + 1)" using n(3) by simp
      also have "\<dots> \<le> (of_nat (b ^ k) :: rat)" using k(3) of_nat_le_iff by blast
      finally show ?thesis by simp
    qed
    ultimately show ?thesis using k(1) by (simp add: m flip: power_int_of_nat)
  next
    case False
    define y where "y = 1 / x"
    have y: "1 < y" "x = 1 / y" using False x by (auto simp: y_def field_simps)
    define n where "n = nat (\<lceil>y\<rceil> - 1)"
    have n: "0 < n" "of_nat n < y" "y \<le> of_nat n + 1"
      using y unfolding n_def by (auto simp: of_nat_nat) linarith+
    define k where "k = ndigits b n"
    have k: "0 < k" "b ^ (k - 1) \<le> n" "n + 1 \<le> b ^ k"
      using ndigits_pos[OF b n(1)] ndigits_lower[OF b n(1)] ndigits_upper[OF b, of n] by (auto simp: k_def)
    have m: "magnitude b x = - int k" using False by (simp add: magnitude_def n_def k_def y_def)
    have 1: "of_nat b ^ (k - 1) < y" using k(2) n(2) by (metis of_nat_le_iff of_nat_power order_le_less_trans)
    have 2: "y \<le> of_nat b ^ k"
    proof -
      have "y \<le> of_nat (n + 1)" using n(3) by simp
      also have "\<dots> \<le> (of_nat (b ^ k) :: rat)" using k(3) of_nat_le_iff by blast
      finally show ?thesis by simp
    qed
    have p: "(of_nat b :: rat) powi (- int k) = 1 / of_nat b ^ k" by (simp add: power_int_minus field_simps)
    have e: "- int k + 1 = - int (k - 1)" using k(1) by simp
    have q: "(of_nat b :: rat) powi (- int k + 1) = 1 / of_nat b ^ (k - 1)"
      unfolding e power_int_minus power_int_of_nat by (simp add: inverse_eq_divide)
    have "1 / of_nat b ^ k \<le> 1 / y" using 2 y(1) b by (intro divide_left_mono) auto
    moreover have "1 / y < 1 / of_nat b ^ (k - 1)" using 1 y(1) b by (intro divide_strict_left_mono) auto
    ultimately show ?thesis unfolding m p q by (simp add: y(2))
  qed
  then show "of_nat b powi magnitude b x \<le> x" "x < of_nat b powi (magnitude b x + 1)" by auto
qed

section \<open>Rounding to significant digits\<close>

definition rnd :: "nat \<Rightarrow> nat \<Rightarrow> rat \<Rightarrow> rat" where
  "rnd b p x =
     (if x = 0 then 0
      else let u = of_nat b powi (magnitude b \<bar>x\<bar> - int p + 1)
           in of_int (round_half_even (x / u)) * u)"

definition representable :: "nat \<Rightarrow> nat \<Rightarrow> rat \<Rightarrow> bool" where
  "representable b p v \<longleftrightarrow> (\<exists>c e. v = of_int c * of_nat b powi e \<and> \<bar>c\<bar> \<le> int b ^ p)"

lemma rnd_zero [simp]: "rnd b p 0 = 0"
  by (simp add: rnd_def)

lemma rnd_uminus [simp]: "rnd b p (- x) = - rnd b p x"
  by (simp add: rnd_def Let_def round_half_even_uminus)

text \<open>The significand of a positive number lies between \<open>b ^ (p - 1)\<close> and \<open>b ^ p\<close>.\<close>

lemma significand_bounds:
  assumes b: "1 < b" and p: "0 < p" and x: "0 < x"
    and u: "u = of_nat b powi (magnitude b x - int p + 1)"
  shows "0 < u" "of_nat b ^ (p - 1) \<le> x / u" "x / u < of_nat b ^ p"
    "of_nat b ^ (p - 1) * u = of_nat b powi magnitude b x"
    "of_nat b ^ p * u = of_nat b powi (magnitude b x + 1)"
proof -
  have bz: "(of_nat b :: rat) \<noteq> 0" using b by simp
  show u0: "0 < u" using b by (simp add: u)
  have "int (p - 1) + (magnitude b x - int p + 1) = magnitude b x" using p by simp
  then show lo: "of_nat b ^ (p - 1) * u = of_nat b powi magnitude b x"
    unfolding u by (metis bz power_int_add power_int_of_nat)
  have "int p + (magnitude b x - int p + 1) = magnitude b x + 1" by simp
  then show hi: "of_nat b ^ p * u = of_nat b powi (magnitude b x + 1)"
    unfolding u by (metis bz power_int_add power_int_of_nat)
  show "of_nat b ^ (p - 1) \<le> x / u"
    by (subst pos_le_divide_eq[OF u0], subst lo, rule magnitude_bounds(1)[OF b x])
  show "x / u < of_nat b ^ p"
    by (subst pos_divide_less_eq[OF u0], subst hi, rule magnitude_bounds(2)[OF b x])
qed

lemma rnd_pos_bounds:
  assumes b: "1 < b" and p: "0 < p" and x: "0 < x"
  shows "of_nat b powi magnitude b x \<le> rnd b p x" "rnd b p x \<le> of_nat b powi (magnitude b x + 1)"
proof -
  define u :: rat where "u = of_nat b powi (magnitude b x - int p + 1)"
  note s = significand_bounds[OF b p x u_def]
  have r: "rnd b p x = of_int (round_half_even (x / u)) * u" using x by (simp add: rnd_def u_def Let_def)
  have "int b ^ (p - 1) \<le> round_half_even (x / u)"
    by (rule round_half_even_ge_int) (use s(2) in simp)
  then have "of_nat b ^ (p - 1) \<le> (of_int (round_half_even (x / u)) :: rat)"
    by (metis of_int_le_iff of_int_of_nat_eq of_int_power)
  then show "of_nat b powi magnitude b x \<le> rnd b p x"
    unfolding r s(4)[symmetric] using s(1) by simp
  have "round_half_even (x / u) \<le> int b ^ p"
    by (rule round_half_even_le_int) (use s(3) in simp)
  then have "(of_int (round_half_even (x / u)) :: rat) \<le> of_nat b ^ p"
    by (metis of_int_le_iff of_int_of_nat_eq of_int_power)
  then show "rnd b p x \<le> of_nat b powi (magnitude b x + 1)"
    unfolding r s(5)[symmetric] using s(1) by simp
qed

lemma rnd_pos: "1 < b \<Longrightarrow> 0 < p \<Longrightarrow> 0 < x \<Longrightarrow> 0 < rnd b p x"
  by (rule order_less_le_trans[OF _ rnd_pos_bounds(1)]) auto

lemma magnitude_mono:
  assumes b: "1 < b" and x: "0 < x" and le: "x \<le> y"
  shows "magnitude b x \<le> magnitude b y"
proof -
  have "(of_nat b :: rat) powi magnitude b x < of_nat b powi (magnitude b y + 1)"
    using magnitude_bounds[OF b x] magnitude_bounds[OF b, of y] x le by linarith
  then have "magnitude b x < magnitude b y + 1"
    using b by (metis linorder_not_le of_nat_1 of_nat_less_iff order_less_imp_le power_int_increasing)
  then show ?thesis by simp
qed

lemma rnd_mono_pos:
  assumes b: "1 < b" and p: "0 < p" and x: "0 < x" and le: "x \<le> y"
  shows "rnd b p x \<le> rnd b p y"
proof (cases "magnitude b x = magnitude b y")
  case True
  define u :: rat where "u = of_nat b powi (magnitude b x - int p + 1)"
  have u: "0 < u" using b by (simp add: u_def)
  have "round_half_even (x / u) \<le> round_half_even (y / u)"
    using le u by (intro round_half_even_mono) (simp add: divide_right_mono)
  then show ?thesis using True x le u by (simp add: rnd_def Let_def u_def)
next
  case False
  with magnitude_mono[OF b x le] have "magnitude b x + 1 \<le> magnitude b y" by simp
  then have "(of_nat b :: rat) powi (magnitude b x + 1) \<le> of_nat b powi magnitude b y"
    using b by (intro power_int_increasing) auto
  then show ?thesis
    using rnd_pos_bounds(2)[OF b p x] rnd_pos_bounds(1)[OF b p, of y] x le by linarith
qed

lemma rnd_nonneg: "1 < b \<Longrightarrow> 0 < p \<Longrightarrow> 0 \<le> x \<Longrightarrow> 0 \<le> rnd b p x"
  using rnd_pos[of b p x] by (cases "x = 0") auto

lemma rnd_mono:
  assumes b: "1 < b" and p: "0 < p" and le: "x \<le> y"
  shows "rnd b p x \<le> rnd b p y"
proof -
  consider "0 < x" | "x \<le> 0" "0 \<le> y" | "y < 0" using le by linarith
  then show ?thesis
  proof cases
    case 1 then show ?thesis by (rule rnd_mono_pos[OF b p _ le])
  next
    case 2
    have "0 \<le> rnd b p (- x)" by (rule rnd_nonneg[OF b p]) (use 2 in simp)
    moreover have "0 \<le> rnd b p y" by (rule rnd_nonneg[OF b p]) (use 2 in simp)
    ultimately show ?thesis by simp
  next
    case 3
    have "rnd b p (- y) \<le> rnd b p (- x)" by (rule rnd_mono_pos[OF b p]) (use 3 le in auto)
    then show ?thesis by simp
  qed
qed

lemma round_half_even_significand_exact:
  assumes b: "1 < b" and p: "0 < p" and x: "0 < x" and rep: "representable b p x"
    and u: "u = of_nat b powi (magnitude b x - int p + 1)"
  shows "\<exists>n. x / u = of_int n"
proof -
  have bz: "(of_nat b :: rat) \<noteq> 0" using b by simp
  from rep obtain c e where v: "x = of_int c * of_nat b powi e" and c: "\<bar>c\<bar> \<le> int b ^ p"
    by (auto simp: representable_def)
  define k where "k = magnitude b x"
  have bk: "(of_nat b :: rat) powi k \<le> x" using magnitude_bounds(1)[OF b x] by (simp add: k_def)
  have u': "u = of_nat b powi (k - int p + 1)" by (simp add: u k_def)
  have q: "x / u = of_int c * of_nat b powi (e - (k - int p + 1))"
    unfolding u' using bz by (subst v) (simp add: power_int_diff)
  show ?thesis
  proof (cases "k - int p + 1 \<le> e")
    case True
    then have "x / u = of_int (c * int b ^ nat (e - (k - int p + 1)))"
      unfolding q by (simp add: power_int_def)
    then show ?thesis by blast
  next
    case False
    have "(of_nat b :: rat) powi (k - e) \<le> of_int c"
    proof -
      have "(of_nat b :: rat) powi (k - e) * of_nat b powi e \<le> of_int c * of_nat b powi e"
        using bk v bz by (simp flip: power_int_add)
      then show ?thesis using b by simp
    qed
    moreover have "(of_nat b :: rat) powi int p \<le> of_nat b powi (k - e)"
      using False b by (intro power_int_increasing) auto
    moreover have "(of_int c :: rat) \<le> of_nat b powi int p"
    proof -
      have "c \<le> int b ^ p" using c by linarith
      then have "(of_int c :: rat) \<le> of_int (int b ^ p)" using of_int_le_iff by blast
      then show ?thesis by simp
    qed
    ultimately have ce: "(of_int c :: rat) = of_nat b powi (k - e)" by linarith
    have "x / u = of_nat b powi (int p - 1)"
      unfolding q ce using bz by (simp flip: power_int_add) 
    also have "\<dots> = of_int (int b ^ (p - 1))" using p by (simp add: power_int_def nat_diff_distrib)
    finally show ?thesis by blast
  qed
qed

lemma rnd_representable_pos:
  assumes b: "1 < b" and p: "0 < p" and x: "0 < x" and rep: "representable b p x"
  shows "rnd b p x = x"
proof -
  define u :: rat where "u = of_nat b powi (magnitude b x - int p + 1)"
  obtain n where n: "x / u = of_int n" using round_half_even_significand_exact[OF b p x rep u_def] by blast
  have "0 < u" using b by (simp add: u_def)
  then have "of_int n * u = x" using n by (metis less_numeral_extra(3) nonzero_eq_divide_eq)
  moreover have "rnd b p x = of_int (round_half_even (x / u)) * u"
    using x by (simp add: rnd_def Let_def u_def)
  ultimately show ?thesis by (simp add: n)
qed

lemma representable_uminus [simp]: "representable b p (- v) = representable b p v"
proof -
  have "representable b p v \<Longrightarrow> representable b p (- v)" for v
    unfolding representable_def by (metis abs_minus_cancel minus_mult_left of_int_minus)
  from this[of v] this[of "- v"] show ?thesis by auto
qed

lemma rnd_representable:
  assumes b: "1 < b" and p: "0 < p" and rep: "representable b p x"
  shows "rnd b p x = x"
proof -
  consider "0 < x" | "x = 0" | "0 < - x" by linarith
  then show ?thesis
  proof cases
    case 1 then show ?thesis using rnd_representable_pos[OF b p _ rep] by simp
  next
    case 2 then show ?thesis by simp
  next
    case 3
    then have "rnd b p (- x) = - x" using rnd_representable_pos[OF b p, of "- x"] rep by simp
    then show ?thesis by simp
  qed
qed

lemma representable_rnd:
  assumes b: "1 < b" and p: "0 < p"
  shows "representable b p (rnd b p x)"
proof -
  have pos: "representable b p (rnd b p x)" if x: "0 < x" for x
  proof -
    define u :: rat where "u = of_nat b powi (magnitude b x - int p + 1)"
    note s = significand_bounds[OF b p x u_def]
    have "0 \<le> round_half_even (x / u)"
      using s(1) x by (intro round_half_even_ge_int) simp
    moreover have "round_half_even (x / u) \<le> int b ^ p"
      by (rule round_half_even_le_int) (use s(3) in simp)
    ultimately have "\<bar>round_half_even (x / u)\<bar> \<le> int b ^ p" by simp
    then show ?thesis using x unfolding representable_def rnd_def Let_def u_def[symmetric] by (auto simp: u_def)
  qed
  consider "0 < x" | "x = 0" | "0 < - x" by linarith
  then show ?thesis
  proof cases
    case 2 then show ?thesis by (auto simp: representable_def intro: exI[of _ 0])
  qed (use pos[of x] pos[of "- x"] in auto)
qed

lemma rnd_error:
  assumes b: "1 < b" and p: "0 < p" and x: "0 < x"
  shows "\<bar>rnd b p x - x\<bar> \<le> of_nat b powi (magnitude b x - int p + 1) / 2"
proof -
  define u :: rat where "u = of_nat b powi (magnitude b x - int p + 1)"
  have u: "0 < u" using b by (simp add: u_def)
  have "\<bar>of_int (round_half_even (x / u)) - x / u\<bar> * u \<le> 1 / 2 * u"
    using round_half_even_error[of "x / u"] u by (intro mult_right_mono) auto
  moreover have "\<bar>of_int (round_half_even (x / u)) - x / u\<bar> * u = \<bar>rnd b p x - x\<bar>"
    using u x by (simp add: rnd_def Let_def abs_mult_pos left_diff_distrib flip: u_def)
  ultimately show ?thesis by (simp add: u_def)
qed

end
