(* ===== verification/Decimals.thy ===== *)
theory Decimals
  imports Prelude Rounding
begin

text \<open>
  The part of Python's \<open>decimal\<close> module and of \<open>float\<close> that the program uses.

  A \<open>decimal\<close> is its numeric value: a rational number, a signed infinity or a NaN.
  Two \<open>Decimal\<close> objects that compare equal (\<open>1.0\<close> and \<open>1.00\<close>, \<open>0\<close> and \<open>-0\<close>) are
  the same \<open>decimal\<close>; the exponent that tells them apart is read by the program only in
  \<open>SymbolTradingRules._decimal_places\<close>, where it is kept separately
  (\<open>literal_exponent\<close>). Arithmetic on finite values, \<open>dadd\<close>, \<open>dsub\<close>, \<open>dmul\<close>,
  \<open>ddiv\<close>, \<open>dneg\<close> and \<open>dabs\<close>, rounds its result to 28 digits as the default context
  does (unary minus and \<open>abs\<close> round too); comparisons are exact. The exponent range
  of the context (six digits) is not bounded in the model.

  A \<open>float\<close> is its value: \<open>fl\<close> rounds to 53 binary digits.
\<close>

section \<open>Decimal values\<close>

datatype decimal = Fin rat | Inf bool \<comment> \<open>\<open>Inf True\<close> is minus infinity\<close> | NaN

fun is_finite :: "decimal \<Rightarrow> bool" where
  "is_finite (Fin _) = True"
| "is_finite _ = False"

fun finite_value :: "decimal \<Rightarrow> rat" where
  "finite_value (Fin x) = x"
| "finite_value _ = 0"

text \<open>The value of a conversion \<open>Decimal(str(x))\<close> that the code accepts only when it is
  finite: \<open>None\<close> is a failed conversion.\<close>

definition finite_of :: "decimal option \<Rightarrow> rat option" where
  "finite_of d = (case d of Some (Fin x) \<Rightarrow> Some x | _ \<Rightarrow> None)"

lemma finite_of_simps [simp]:
  "finite_of None = None" "finite_of (Some (Fin x)) = Some x"
  "finite_of (Some (Inf b)) = None" "finite_of (Some NaN) = None"
  by (simp_all add: finite_of_def)

lemma is_finite_iff: "is_finite d \<longleftrightarrow> (\<exists>x. d = Fin x)"
  by (cases d) auto

section \<open>Context arithmetic on finite values\<close>

abbreviation dround :: "rat \<Rightarrow> rat" where "dround \<equiv> rnd 10 28"

abbreviation drep :: "rat \<Rightarrow> bool" where "drep \<equiv> representable 10 28"

definition dadd :: "rat \<Rightarrow> rat \<Rightarrow> rat" where "dadd x y = dround (x + y)"

definition dsub :: "rat \<Rightarrow> rat \<Rightarrow> rat" where "dsub x y = dround (x - y)"

definition dmul :: "rat \<Rightarrow> rat \<Rightarrow> rat" where "dmul x y = dround (x * y)"

definition ddiv :: "rat \<Rightarrow> rat \<Rightarrow> rat" where "ddiv x y = dround (x / y)"

definition dneg :: "rat \<Rightarrow> rat" where "dneg x = dround (- x)"

definition dabs :: "rat \<Rightarrow> rat" where "dabs x = dround \<bar>x\<bar>"

text \<open>\<open>int(d)\<close> truncates towards zero.\<close>

definition dint :: "rat \<Rightarrow> int" where
  "dint x = (if 0 \<le> x then \<lfloor>x\<rfloor> else - \<lfloor>- x\<rfloor>)"

lemmas dec_defs = dadd_def dsub_def dmul_def ddiv_def dneg_def dabs_def

lemma dround_mono: "x \<le> y \<Longrightarrow> dround x \<le> dround y"
  by (rule rnd_mono) auto

lemma dround_rep: "drep x \<Longrightarrow> dround x = x"
  by (rule rnd_representable) auto

lemma drep_dround [simp]: "drep (dround x)"
  by (rule representable_rnd) auto

lemma dround_idem [simp]: "dround (dround x) = dround x"
  by (rule dround_rep) simp

lemma dround_pos: "0 < x \<Longrightarrow> 0 < dround x"
  by (rule rnd_pos) auto

lemma dround_nonneg: "0 \<le> x \<Longrightarrow> 0 \<le> dround x"
  by (rule rnd_nonneg) auto

lemma dround_sign [simp]:
  "0 < dround x \<longleftrightarrow> 0 < x" "dround x < 0 \<longleftrightarrow> x < 0" "dround x = 0 \<longleftrightarrow> x = 0"
  "0 \<le> dround x \<longleftrightarrow> 0 \<le> x" "dround x \<le> 0 \<longleftrightarrow> x \<le> 0"
proof -
  have p: "0 < dround x" if "0 < x" for x using that by (rule dround_pos)
  have n: "dround x < 0" if "x < 0" for x using p[of "- x"] that by simp
  show "0 < dround x \<longleftrightarrow> 0 < x" "dround x < 0 \<longleftrightarrow> x < 0" "dround x = 0 \<longleftrightarrow> x = 0"
    "0 \<le> dround x \<longleftrightarrow> 0 \<le> x" "dround x \<le> 0 \<longleftrightarrow> x \<le> 0"
    using p[of x] n[of x] by (cases x "0 :: rat" rule: linorder_cases; fastforce)+
qed

lemma abs_dround: "\<bar>dround x\<bar> = dround \<bar>x\<bar>"
  by (cases "0 \<le> x") (simp_all add: abs_if)

lemma dround_abs_le: "\<bar>x\<bar> \<le> y \<Longrightarrow> \<bar>dround x\<bar> \<le> dround y"
  unfolding abs_dround by (rule dround_mono)

text \<open>A rounded value never crosses a representable bound.\<close>

lemma dround_le_rep: "x \<le> v \<Longrightarrow> drep v \<Longrightarrow> dround x \<le> v"
  using dround_mono[of x v] by (simp add: dround_rep)

lemma dround_ge_rep: "v \<le> x \<Longrightarrow> drep v \<Longrightarrow> v \<le> dround x"
  using dround_mono[of v x] by (simp add: dround_rep)

text \<open>The relative rounding error of a positive value.\<close>

lemma dround_upper: "0 < x \<Longrightarrow> dround x \<le> x * (1 + 1 / (2 * 10 ^ 27))"
proof -
  assume x: "0 < x"
  have "\<bar>dround x - x\<bar> \<le> of_nat 10 powi (magnitude 10 x - int 28 + 1) / 2"
    by (rule rnd_error) (use x in auto)
  also have "(of_nat 10 :: rat) powi (magnitude 10 x - int 28 + 1) = of_nat 10 powi magnitude 10 x / 10 ^ 27"
  proof -
    have "magnitude 10 x - int 28 + 1 = magnitude 10 x - int 27" by simp
    then show ?thesis by (simp only:) (simp add: power_int_diff)
  qed
  also have "of_nat 10 powi magnitude 10 x / 10 ^ 27 / 2 \<le> x / 10 ^ 27 / 2"
    using magnitude_bounds(1)[of 10 x] x by (intro divide_right_mono) auto
  finally have "dround x - x \<le> x / 10 ^ 27 / 2" by linarith
  then show ?thesis by (simp add: field_simps)
qed

lemma drep_0 [simp]: "drep 0"
  using drep_dround[of 0] by simp

lemma drep_of_int: "\<bar>n\<bar> \<le> 10 ^ 28 \<Longrightarrow> drep (of_int n)"
  unfolding representable_def by (rule exI[of _ n], rule exI[of _ 0]) simp

lemma drep_scaled: "\<bar>n\<bar> \<le> 10 ^ 28 \<Longrightarrow> drep (of_int n / 10 ^ k)"
  unfolding representable_def
  by (rule exI[of _ n], rule exI[of _ "- int k"]) (simp add: power_int_minus field_simps)

lemma dabs_rep: "drep x \<Longrightarrow> dabs x = \<bar>x\<bar>"
  by (simp add: dabs_def dround_rep abs_if)

lemma dneg_rep: "drep x \<Longrightarrow> dneg x = - x"
  by (simp add: dneg_def dround_rep)

lemma dec_sign [simp]:
  "0 < dabs x \<longleftrightarrow> x \<noteq> 0" "dabs x = 0 \<longleftrightarrow> x = 0" "0 \<le> dabs x"
  "dneg x < 0 \<longleftrightarrow> 0 < x" "0 < dneg x \<longleftrightarrow> x < 0" "dneg x = 0 \<longleftrightarrow> x = 0"
  by (auto simp: dabs_def dneg_def)

lemma dec_zero [simp]: "dabs 0 = 0" "dneg 0 = 0" "dmul 0 x = 0" "dmul x 0 = 0"
  by (simp_all add: dec_defs)

lemma dabs_uminus [simp]: "dabs (- x) = dabs x"
  by (simp add: dabs_def)

lemma dint_nonneg [simp]: "0 \<le> x \<Longrightarrow> dint x = \<lfloor>x\<rfloor>"
  by (simp add: dint_def)

section \<open>Operators on decimals\<close>

text \<open>Ordering comparisons raise \<open>InvalidOperation\<close> on a NaN; \<open>Inf True\<close> is the least value.\<close>

fun decimal_less :: "decimal \<Rightarrow> decimal \<Rightarrow> bool res" where
  "decimal_less NaN _ = Inl InvalidOperation"
| "decimal_less _ NaN = Inl InvalidOperation"
| "decimal_less (Fin x) (Fin y) = Inr (x < y)"
| "decimal_less (Fin x) (Inf b) = Inr (\<not> b)"
| "decimal_less (Inf b) (Fin x) = Inr b"
| "decimal_less (Inf a) (Inf b) = Inr (a \<and> \<not> b)"

definition decimal_ge :: "decimal \<Rightarrow> decimal \<Rightarrow> bool res" where
  "decimal_ge x y = res_bind (decimal_less x y) (\<lambda>b. Inr (\<not> b))"

fun decimal_neg :: "decimal \<Rightarrow> decimal" where
  "decimal_neg (Fin x) = Fin (dneg x)"
| "decimal_neg (Inf b) = Inf (\<not> b)"
| "decimal_neg NaN = NaN"

fun decimal_abs :: "decimal \<Rightarrow> decimal" where
  "decimal_abs (Fin x) = Fin (dabs x)"
| "decimal_abs (Inf b) = Inf False"
| "decimal_abs NaN = NaN"

text \<open>\<open>x * y\<close>; zero times infinity raises \<open>InvalidOperation\<close>.\<close>

fun decimal_mul :: "decimal \<Rightarrow> decimal \<Rightarrow> decimal res" where
  "decimal_mul NaN _ = Inr NaN"
| "decimal_mul _ NaN = Inr NaN"
| "decimal_mul (Fin x) (Fin y) = Inr (Fin (dmul x y))"
| "decimal_mul (Fin x) (Inf b) = (if x = 0 then Inl InvalidOperation else Inr (Inf ((x < 0) \<noteq> b)))"
| "decimal_mul (Inf b) (Fin x) = (if x = 0 then Inl InvalidOperation else Inr (Inf ((x < 0) \<noteq> b)))"
| "decimal_mul (Inf a) (Inf b) = Inr (Inf (a \<noteq> b))"

text \<open>\<open>min(x, y)\<close> returns its first argument unless the second is smaller.\<close>

definition decimal_min :: "decimal \<Rightarrow> decimal \<Rightarrow> decimal res" where
  "decimal_min x y = res_bind (decimal_less y x) (\<lambda>b. Inr (if b then y else x))"

lemma decimal_ops_Fin [simp]:
  "decimal_ge (Fin x) (Fin y) = Inr (y \<le> x)"
  "decimal_min (Fin x) (Fin y) = Inr (Fin (min x y))"
  by (auto simp: decimal_ge_def decimal_min_def min_def)

section \<open>Floats\<close>

definition fl :: "rat \<Rightarrow> rat" where "fl x = rnd 2 53 x"

lemma fl_mono: "x \<le> y \<Longrightarrow> fl x \<le> fl y"
  unfolding fl_def by (rule rnd_mono) auto

lemma fl_nonneg: "0 \<le> x \<Longrightarrow> 0 \<le> fl x"
  unfolding fl_def by (rule rnd_nonneg) auto

section \<open>Numeric literals\<close>

text \<open>
  \<open>parse_literal\<close> is the grammar of \<open>Decimal(text)\<close>: surrounding white space and all
  underscores are dropped, then an optional sign, digits with an optional point and an
  optional exponent, or \<open>inf\<close>, \<open>infinity\<close>, \<open>nan\<close>, \<open>snan\<close>, case-insensitively. The
  result carries the coefficient and the exponent of the \<open>Decimal\<close>.
\<close>

datatype literal = LNum int int | LInf bool | LNaN

definition parse_exponent :: "string \<Rightarrow> int option" where
  "parse_exponent s =
     (case s of
        [] \<Rightarrow> Some 0
      | c # r \<Rightarrow>
          let (neg, ds) = strip_sign r in
          if c = CHR ''e'' \<and> ds \<noteq> [] \<and> list_all is_digit ds
          then Some (if neg then - int (nat_of_digits ds) else int (nat_of_digits ds))
          else None)"

definition parse_unsigned :: "string \<Rightarrow> (nat \<times> int) option" where
  "parse_unsigned s =
     (let whole = takeWhile is_digit s; rest = dropWhile is_digit s;
          (frac, tail) =
            (case rest of
               c # r \<Rightarrow> if c = CHR ''.'' then (takeWhile is_digit r, dropWhile is_digit r) else ([], rest)
             | [] \<Rightarrow> ([], []))
      in if whole = [] \<and> frac = [] then None
         else map_option (\<lambda>e. (nat_of_digits (whole @ frac), e - int (length frac))) (parse_exponent tail))"

definition parse_literal :: "string \<Rightarrow> literal option" where
  "parse_literal text =
     (let (neg, body) = strip_sign (lower (filter (\<lambda>c. c \<noteq> CHR ''_'') (strip text))) in
      if body \<in> {''inf'', ''infinity''} then Some (LInf neg)
      else if (startswith body ''nan'' \<and> list_all is_digit (drop 3 body))
              \<or> (startswith body ''snan'' \<and> list_all is_digit (drop 4 body)) then Some LNaN
      else map_option (\<lambda>(n, e). LNum (if neg then - int n else int n) e) (parse_unsigned body))"

fun decimal_of_literal :: "literal \<Rightarrow> decimal" where
  "decimal_of_literal (LNum c e) = Fin (of_int c * 10 powi e)"
| "decimal_of_literal (LInf b) = Inf b"
| "decimal_of_literal LNaN = NaN"

text \<open>\<open>Decimal(text)\<close>: \<open>None\<close> is \<open>InvalidOperation\<close>.\<close>

definition parse_decimal :: "string \<Rightarrow> decimal option" where
  "parse_decimal text = map_option decimal_of_literal (parse_literal text)"

text \<open>\<open>Decimal(text).as_tuple().exponent\<close> of a numeric literal.\<close>

definition literal_exponent :: "string \<Rightarrow> int" where
  "literal_exponent text = (case parse_literal text of Some (LNum c e) \<Rightarrow> e | _ \<Rightarrow> 0)"

text \<open>\<open>float(text)\<close>: as above, but underscores only between digits and no signalling NaN;
  the value is rounded to a double.\<close>

definition parse_float :: "string \<Rightarrow> decimal option" where
  "parse_float text =
     (let (neg, body) = strip_sign (lower (strip text)) in
      if body \<in> {''inf'', ''infinity''} then Some (Inf neg)
      else if body = ''nan'' then Some NaN
      else if underscores_ok body
      then map_option (\<lambda>(n, e). Fin (fl (of_int (if neg then - int n else int n) * 10 powi e)))
             (parse_unsigned (filter (\<lambda>c. c \<noteq> CHR ''_'') body))
      else None)"

end
