(* ===== verification/Lease.thy ===== *)
theory Lease
  imports Decimals
begin

text \<open>
  Fenced execution leases (\<open>apps/trading_worker/execution_lease.py\<close>): the in-memory store and
  its handle, and the PostgreSQL lease, whose SQL statements act on a table
  \<open>scope_key \<rightharpoonup> row\<close>. Both stores are interpretations of the locale \<open>fenced_lease\<close>, which
  states what the execution path relies on (who may hold a scope, and how fencing tokens
  move); what follows from it for any sequence of store operations is proved once, in the
  locale.

  The clock readings of an operation are its arguments. The in-memory store compares
  \<open>time.monotonic()\<close> floats and adds the time to live with float rounding (\<open>fl\<close>); the
  database compares \<open>CURRENT_TIMESTAMP\<close> values, in microseconds.
\<close>

section \<open>The interface\<close>

text \<open>
  A lease is held by a pair of an owner and a fencing token. \<open>token s sc\<close> is the
  fencing high-water mark of a scope (0 before the first lease) and \<open>expiry now ttl\<close> the
  expiry that an operation at time \<open>now\<close> writes. \<open>renew\<close> reads the clock twice: when it
  checks the lease and when it extends it.
\<close>

datatype 't lease_op =
    OpAcquire 't string string rat
  | OpRenew 't 't string string int rat
  | OpRelease 't string string int
  | OpLose string

text \<open>
  A run of a store is a sequence of operations by any number of workers, in the order
  the store serialises them. \<open>granted\<close> collects the tokens it hands out for one scope.
\<close>

fun lease_step ::
  "('t \<Rightarrow> string \<Rightarrow> string \<Rightarrow> rat \<Rightarrow> 's \<Rightarrow> int option \<times> 's) \<Rightarrow>
   ('t \<Rightarrow> 't \<Rightarrow> string \<Rightarrow> string \<Rightarrow> int \<Rightarrow> rat \<Rightarrow> 's \<Rightarrow> bool \<times> 's) \<Rightarrow>
   ('t \<Rightarrow> string \<Rightarrow> string \<Rightarrow> int \<Rightarrow> 's \<Rightarrow> 's) \<Rightarrow> (string \<Rightarrow> 's \<Rightarrow> 's) \<Rightarrow>
   't lease_op \<Rightarrow> 's \<Rightarrow> 's" where
  "lease_step acq ren rel los (OpAcquire now sc ow ttl) s = snd (acq now sc ow ttl s)"
| "lease_step acq ren rel los (OpRenew now now' sc ow t ttl) s = snd (ren now now' sc ow t ttl s)"
| "lease_step acq ren rel los (OpRelease now sc ow t) s = rel now sc ow t s"
| "lease_step acq ren rel los (OpLose sc) s = los sc s"

fun lease_granted ::
  "('t \<Rightarrow> string \<Rightarrow> string \<Rightarrow> rat \<Rightarrow> 's \<Rightarrow> int option \<times> 's) \<Rightarrow> ('t lease_op \<Rightarrow> 's \<Rightarrow> 's) \<Rightarrow>
   string \<Rightarrow> 't lease_op list \<Rightarrow> 's \<Rightarrow> int list" where
  "lease_granted acq step sc [] s = []"
| "lease_granted acq step sc (op # ops) s =
     (case op of
        OpAcquire now sc' ow ttl \<Rightarrow>
          (case fst (acq now sc' ow ttl s) of
             Some t \<Rightarrow> if sc' = sc then [t] else []
           | None \<Rightarrow> [])
      | _ \<Rightarrow> []) @ lease_granted acq step sc ops (step op s)"

text \<open>
  An unexpired lease cannot be taken away: whatever the other owners do before it
  expires (acquire, renew and release with their own tokens, on any scope), it stays
  valid until its expiry (\<open>foreign_op sc ow t ex\<close> are the operations meant).
\<close>

fun foreign_op :: "string \<Rightarrow> string \<Rightarrow> int \<Rightarrow> 't::linorder \<Rightarrow> 't lease_op \<Rightarrow> bool" where
  "foreign_op sc ow t ex (OpAcquire now sc' ow' ttl) = (now < ex)"
| "foreign_op sc ow t ex (OpRenew now now' sc' ow' t' ttl) = ((sc', ow', t') \<noteq> (sc, ow, t))"
| "foreign_op sc ow t ex (OpRelease now sc' ow' t') = ((sc', ow', t') \<noteq> (sc, ow, t))"
| "foreign_op sc ow t ex (OpLose sc') = (sc' \<noteq> sc)"

locale fenced_lease =
  fixes expiry :: "'t::linorder \<Rightarrow> rat \<Rightarrow> 't"
    and acquire :: "'t \<Rightarrow> string \<Rightarrow> string \<Rightarrow> rat \<Rightarrow> 's \<Rightarrow> int option \<times> 's"
    and renew :: "'t \<Rightarrow> 't \<Rightarrow> string \<Rightarrow> string \<Rightarrow> int \<Rightarrow> rat \<Rightarrow> 's \<Rightarrow> bool \<times> 's"
    and release :: "'t \<Rightarrow> string \<Rightarrow> string \<Rightarrow> int \<Rightarrow> 's \<Rightarrow> 's"
    and lose :: "string \<Rightarrow> 's \<Rightarrow> 's"
    and valid :: "'t \<Rightarrow> string \<Rightarrow> string \<Rightarrow> int \<Rightarrow> 's \<Rightarrow> bool"
    and token :: "'s \<Rightarrow> string \<Rightarrow> int"
  assumes acquire_token: "acquire now sc ow ttl s = (Some t, s') \<Longrightarrow>
      t = token s sc + 1 \<and> token s' sc = t \<and> (\<forall>sc'. sc' \<noteq> sc \<longrightarrow> token s' sc' = token s sc')"
    and acquire_refused: "acquire now sc ow ttl s = (None, s') \<Longrightarrow> s' = s"
    and acquire_excluded: "valid now sc ow' t s \<Longrightarrow> fst (acquire now sc ow ttl s) = None"
    and acquire_valid: "acquire now sc ow ttl s = (Some t, s') \<Longrightarrow>
      valid later sc ow' t' s' \<longleftrightarrow> ow' = ow \<and> t' = t \<and> later < expiry now ttl"
    and acquire_other: "sc' \<noteq> sc \<Longrightarrow>
      valid later sc ow t (snd (acquire now sc' ow' ttl s)) \<longleftrightarrow> valid later sc ow t s"
    and renew_valid: "fst (renew now now' sc ow t ttl s) \<longleftrightarrow> valid now sc ow t s"
    and renew_extends: "valid now sc ow t s \<Longrightarrow> \<exists>n\<in>{now, now'}. \<forall>later.
      valid later sc ow t (snd (renew now now' sc ow t ttl s)) \<longleftrightarrow> later < expiry n ttl"
    and renew_other: "(sc', ow', t') \<noteq> (sc, ow, t) \<Longrightarrow> valid later sc ow t s \<Longrightarrow>
      valid later sc ow t (snd (renew now now' sc' ow' t' ttl s))"
    and renew_token: "token (snd (renew now now' sc ow t ttl s)) = token s"
    and release_token: "token (release now sc ow t s) = token s"
    and release_other: "(sc', ow', t') \<noteq> (sc, ow, t) \<Longrightarrow> valid later sc ow t s \<Longrightarrow>
      valid later sc ow t (release now sc' ow' t' s)"
    and lose_token: "token (lose sc s) = token s"
    and lose_other: "sc' \<noteq> sc \<Longrightarrow> valid later sc ow t s \<Longrightarrow> valid later sc ow t (lose sc' s)"
    and valid_current: "valid now sc ow t s \<Longrightarrow> t = token s sc"
    and valid_unique: "valid now sc ow t s \<Longrightarrow> valid now' sc ow' t' s \<Longrightarrow> ow' = ow \<and> t' = t"
begin

abbreviation step :: "'t lease_op \<Rightarrow> 's \<Rightarrow> 's" where
  "step \<equiv> lease_step acquire renew release lose"

abbreviation granted :: "string \<Rightarrow> 't lease_op list \<Rightarrow> 's \<Rightarrow> int list" where
  "granted \<equiv> lease_granted acquire step"

lemma acquire_token_mono: "token s sc \<le> token (snd (acquire now sc' ow ttl s)) sc"
proof (cases "acquire now sc' ow ttl s")
  case (Pair r s')
  show ?thesis
  proof (cases r)
    case None
    with Pair have "s' = s" by (simp add: acquire_refused)
    then show ?thesis by (simp add: Pair)
  next
    case (Some t)
    with Pair have "acquire now sc' ow ttl s = (Some t, s')" by simp
    from acquire_token[OF this] show ?thesis by (cases "sc = sc'") (simp_all add: Pair)
  qed
qed

lemma step_token_mono: "token s sc \<le> token (step op s) sc"
  by (cases op) (simp_all add: acquire_token_mono renew_token release_token lose_token)

lemma run_token_mono: "token s sc \<le> token (fold step ops s) sc"
proof (induction ops arbitrary: s)
  case (Cons op ops)
  have "token s sc \<le> token (step op s) sc" by (rule step_token_mono)
  also have "\<dots> \<le> token (fold step ops (step op s)) sc" by (rule Cons.IH)
  finally show ?case by simp
qed simp

lemma granted_above: "t \<in> set (granted sc ops s) \<Longrightarrow> token s sc < t"
proof (induction ops arbitrary: s)
  case (Cons op ops)
  show ?case
  proof (cases "t \<in> set (granted sc ops (step op s))")
    case True
    then show ?thesis using Cons.IH step_token_mono[of s sc op] by fastforce
  next
    case False
    with Cons.prems obtain now ow ttl where "op = OpAcquire now sc ow ttl"
      and "fst (acquire now sc ow ttl s) = Some t"
      by (auto split: lease_op.splits option.splits if_splits)
    then show ?thesis using acquire_token[of now sc ow ttl s t] by (metis less_add_one prod.collapse)
  qed
qed simp

theorem granted_strictly_increasing: "sorted_wrt (<) (granted sc ops s)"
proof (induction ops arbitrary: s)
  case (Cons op ops)
  have above: "t < t'" if "op = OpAcquire now sc ow ttl" "fst (acquire now sc ow ttl s) = Some t"
    "t' \<in> set (granted sc ops (step op s))" for now ow ttl t t'
  proof -
    have "token (step op s) sc = t"
      using that acquire_token[of now sc ow ttl s t "snd (acquire now sc ow ttl s)"] by (metis lease_step.simps(1) prod.collapse)
    then show ?thesis using granted_above[OF that(3)] by simp
  qed
  show ?case using Cons.IH[of "step op s"] above
    by (auto split: lease_op.splits option.splits)
qed simp

theorem stale_holder_excluded:
  assumes acq: "acquire now sc ow ttl s = (Some t, s')" and old: "t0 < t"
  shows "\<not> valid later sc ow0 t0 (fold step ops s')"
proof
  assume "valid later sc ow0 t0 (fold step ops s')"
  then have "t0 = token (fold step ops s') sc" by (rule valid_current)
  moreover have "t = token s' sc" using acquire_token[OF acq] by simp
  ultimately show False using run_token_mono[of s' sc ops] old by simp
qed

lemma step_foreign:
  assumes held: "\<And>later. later < ex \<Longrightarrow> valid later sc ow t s" and op: "foreign_op sc ow t ex op"
    and "later < ex"
  shows "valid later sc ow t (step op s)"
proof (cases op)
  case (OpAcquire now sc' ow' ttl)
  show ?thesis
  proof (cases "sc' = sc")
    case True
    from op OpAcquire have "valid now sc ow t s" by (simp add: held)
    then have "fst (acquire now sc' ow' ttl s) = None" using True by (simp add: acquire_excluded)
    then have "snd (acquire now sc' ow' ttl s) = s" using acquire_refused by (metis prod.collapse)
    then show ?thesis using OpAcquire held[OF \<open>later < ex\<close>] by simp
  next
    case False
    then show ?thesis using OpAcquire held[OF \<open>later < ex\<close>] by (simp add: acquire_other)
  qed
qed (use op held[OF \<open>later < ex\<close>] in \<open>auto intro: renew_other release_other lose_other\<close>)

theorem holder_protected:
  assumes acq: "acquire now sc ow ttl s = (Some t, s')"
    and ops: "list_all (foreign_op sc ow t (expiry now ttl)) ops" and "later < expiry now ttl"
  shows "valid later sc ow t (fold step ops s')"
proof -
  have "valid later sc ow t s'" if "later < expiry now ttl" for later
    using acquire_valid[OF acq] that by simp
  then show ?thesis using ops \<open>later < expiry now ttl\<close>
  proof (induction ops arbitrary: s' later)
    case (Cons op ops)
    then have "valid later' sc ow t (step op s')" if "later' < expiry now ttl" for later'
      using step_foreign[of "expiry now ttl" sc ow t s' op] that by simp
    then show ?case using Cons.IH[of "step op s'"] Cons.prems by simp
  qed simp
qed

end

section \<open>Which deployments need a lease\<close>

definition truthy_words :: "string set" where
  "truthy_words = {''1'', ''true'', ''yes'', ''on''}"

definition execution_lease_required :: "(string \<rightharpoonup> string) \<Rightarrow> bool" where
  "execution_lease_required environ =
     (case environ ''EXECUTION_LEASE_REQUIRED'' of
        Some raw \<Rightarrow> lower (strip raw) \<in> truthy_words
      | None \<Rightarrow>
          strip (case environ ''K_SERVICE'' of Some v \<Rightarrow> v | None \<Rightarrow> '''') \<noteq> [])"

section \<open>The in-memory store\<close>

record InMemoryLeaseRecord =
  owner_id :: string
  fencing_token :: int
  lease_expires_at :: rat

type_synonym lease_records = "string \<rightharpoonup> InMemoryLeaseRecord"

definition store_acquire :: "rat \<Rightarrow> string \<Rightarrow> string \<Rightarrow> rat \<Rightarrow> lease_records \<Rightarrow> int option \<times> lease_records" where
  "store_acquire now scope_key owner ttl_seconds records =
     (case records scope_key of
        Some current \<Rightarrow>
          if lease_expires_at current > now then (None, records)
          else (Some (fencing_token current + 1),
                records(scope_key \<mapsto> \<lparr>owner_id = owner, fencing_token = fencing_token current + 1,
                                       lease_expires_at = fl (now + ttl_seconds)\<rparr>))
      | None \<Rightarrow>
          (Some 1, records(scope_key \<mapsto> \<lparr>owner_id = owner, fencing_token = 1,
                                          lease_expires_at = fl (now + ttl_seconds)\<rparr>)))"

definition store_holds :: "rat \<Rightarrow> string \<Rightarrow> string \<Rightarrow> int \<Rightarrow> lease_records \<Rightarrow> bool" where
  "store_holds now scope_key owner tok records =
     (case records scope_key of
        None \<Rightarrow> False
      | Some current \<Rightarrow> \<not> (owner_id current \<noteq> owner \<or> fencing_token current \<noteq> tok \<or> lease_expires_at current \<le> now))"

definition store_renew ::
  "rat \<Rightarrow> rat \<Rightarrow> string \<Rightarrow> string \<Rightarrow> int \<Rightarrow> rat \<Rightarrow> lease_records \<Rightarrow> bool \<times> lease_records" where
  "store_renew now now' scope_key owner tok ttl_seconds records =
     (if \<not> store_holds now scope_key owner tok records then (False, records)
      else (True, records(scope_key := map_option
              (\<lambda>current. current\<lparr>lease_expires_at := fl (now' + ttl_seconds)\<rparr>) (records scope_key))))"

definition store_assert_valid :: "rat \<Rightarrow> string \<Rightarrow> string \<Rightarrow> int \<Rightarrow> lease_records \<Rightarrow> unit res" where
  "store_assert_valid now scope_key owner tok records =
     check (store_holds now scope_key owner tok records)
       (RuntimeError ''Execution lease is not valid for scope'')"

definition store_release :: "string \<Rightarrow> string \<Rightarrow> int \<Rightarrow> lease_records \<Rightarrow> lease_records" where
  "store_release scope_key owner tok records =
     (case records scope_key of
        Some current \<Rightarrow>
          if owner_id current = owner \<and> fencing_token current = tok
          then records(scope_key \<mapsto> current\<lparr>lease_expires_at := 0\<rparr>) else records
      | None \<Rightarrow> records)"

definition store_lose :: "string \<Rightarrow> lease_records \<Rightarrow> lease_records" where
  "store_lose scope_key records =
     (case records scope_key of
        Some current \<Rightarrow> records(scope_key \<mapsto> current\<lparr>lease_expires_at := 0\<rparr>)
      | None \<Rightarrow> records)"

definition store_token :: "lease_records \<Rightarrow> string \<Rightarrow> int" where
  "store_token records scope_key =
     (case records scope_key of Some current \<Rightarrow> fencing_token current | None \<Rightarrow> 0)"

lemmas store_defs = store_acquire_def store_holds_def store_renew_def store_release_def
  store_lose_def store_token_def

interpretation mem: fenced_lease "\<lambda>now ttl. fl (now + ttl)" store_acquire store_renew
  "\<lambda>now. store_release" store_lose store_holds store_token
  by (unfold_locales; (rule ext)?; auto simp: store_defs split: option.splits if_splits)

text \<open>A run of the in-memory store.\<close>

definition store_step :: "rat lease_op \<Rightarrow> lease_records \<Rightarrow> lease_records" where
  "store_step = lease_step store_acquire store_renew (\<lambda>now. store_release) store_lose"

definition store_run :: "rat lease_op list \<Rightarrow> lease_records \<Rightarrow> lease_records" where
  "store_run ops records = fold store_step ops records"

definition store_granted :: "string \<Rightarrow> rat lease_op list \<Rightarrow> lease_records \<Rightarrow> int list" where
  "store_granted = lease_granted store_acquire store_step"

section \<open>The lease handle of the in-memory store\<close>

record lease_handle =
  scope_key :: string
  handle_owner_id :: string
  ttl_seconds :: rat
  handle_fencing_token :: "int option"

text \<open>\<open>uuid\<close> is the value of \<open>uuid.uuid4().hex\<close>, used when no owner is given.\<close>

definition lease_init :: "string \<Rightarrow> string option \<Rightarrow> rat \<Rightarrow> string \<Rightarrow> lease_handle res" where
  "lease_init scope owner ttl uuid =
     res_bind (check (strip scope \<noteq> []) (ValueError ''Execution lease scope_key is required'')) (\<lambda>_.
     res_bind (check (\<not> ttl \<le> 0) (ValueError ''Execution lease ttl_seconds must be positive'')) (\<lambda>_.
     Inr \<lparr>scope_key = scope,
          handle_owner_id = (case owner of Some ow \<Rightarrow> if ow = [] then uuid else ow | None \<Rightarrow> uuid),
          ttl_seconds = ttl, handle_fencing_token = None\<rparr>))"

definition lease_acquire :: "rat \<Rightarrow> lease_handle \<Rightarrow> lease_records \<Rightarrow> bool \<times> lease_handle \<times> lease_records" where
  "lease_acquire now h records =
     (case store_acquire now (scope_key h) (handle_owner_id h) (ttl_seconds h) records of
        (None, records') \<Rightarrow> (False, h, records')
      | (Some tok, records') \<Rightarrow> (True, h\<lparr>handle_fencing_token := Some tok\<rparr>, records'))"

definition lease_renew :: "rat \<Rightarrow> rat \<Rightarrow> lease_handle \<Rightarrow> lease_records \<Rightarrow> bool \<times> lease_records" where
  "lease_renew now now' h records =
     (case handle_fencing_token h of
        None \<Rightarrow> (False, records)
      | Some tok \<Rightarrow> store_renew now now' (scope_key h) (handle_owner_id h) tok (ttl_seconds h) records)"

definition lease_assert_valid :: "rat \<Rightarrow> lease_handle \<Rightarrow> lease_records \<Rightarrow> unit res" where
  "lease_assert_valid now h records =
     (case handle_fencing_token h of
        None \<Rightarrow> Inl (RuntimeError ''Execution lease was never acquired'')
      | Some tok \<Rightarrow> store_assert_valid now (scope_key h) (handle_owner_id h) tok records)"

definition lease_release :: "lease_handle \<Rightarrow> lease_records \<Rightarrow> lease_handle \<times> lease_records" where
  "lease_release h records =
     (case handle_fencing_token h of
        None \<Rightarrow> (h, records)
      | Some tok \<Rightarrow> (h\<lparr>handle_fencing_token := None\<rparr>,
                    store_release (scope_key h) (handle_owner_id h) tok records))"

section \<open>The PostgreSQL lease\<close>

text \<open>A row of \<open>execution_leases\<close>; the key \<open>scope_key\<close> indexes the table. \<open>now\<close> is
  \<open>CURRENT_TIMESTAMP\<close> of the statement and \<open>pg_expiry\<close> adds an interval, which PostgreSQL
  keeps in whole microseconds.\<close>

record lease_row =
  row_owner_id :: string
  row_fencing_token :: int
  row_lease_until :: int
  row_updated_at :: int

type_synonym lease_table = "string \<rightharpoonup> lease_row"

definition pg_expiry :: "int \<Rightarrow> rat \<Rightarrow> int" where
  "pg_expiry now ttl = now + round_half_even (ttl * 1000000)"

definition pg_upsert :: "int \<Rightarrow> string \<Rightarrow> string \<Rightarrow> rat \<Rightarrow> lease_table \<Rightarrow> int option \<times> lease_table" where
  "pg_upsert now scope owner ttl table =
     (case table scope of
        None \<Rightarrow> (Some 1, table(scope \<mapsto> \<lparr>row_owner_id = owner, row_fencing_token = 1,
                    row_lease_until = pg_expiry now ttl, row_updated_at = now\<rparr>))
      | Some row \<Rightarrow>
          if row_lease_until row \<le> now
          then (Some (row_fencing_token row + 1),
                table(scope \<mapsto> row\<lparr>row_owner_id := owner, row_fencing_token := row_fencing_token row + 1,
                                 row_lease_until := pg_expiry now ttl, row_updated_at := now\<rparr>))
          else (None, table))"

definition pg_select :: "int \<Rightarrow> string \<Rightarrow> string \<Rightarrow> int \<Rightarrow> lease_table \<Rightarrow> bool" where
  "pg_select now scope owner tok table =
     (case table scope of
        None \<Rightarrow> False
      | Some row \<Rightarrow> row_owner_id row = owner \<and> row_fencing_token row = tok \<and> row_lease_until row > now)"

definition pg_update ::
  "int \<Rightarrow> string \<Rightarrow> string \<Rightarrow> int \<Rightarrow> rat \<Rightarrow> lease_table \<Rightarrow> bool \<times> lease_table" where
  "pg_update now scope owner tok ttl table =
     (if pg_select now scope owner tok table
      then (True, table(scope := map_option
              (\<lambda>row. row\<lparr>row_lease_until := pg_expiry now ttl, row_updated_at := now\<rparr>) (table scope)))
      else (False, table))"

definition pg_expire :: "int \<Rightarrow> string \<Rightarrow> string \<Rightarrow> int \<Rightarrow> lease_table \<Rightarrow> lease_table" where
  "pg_expire now scope owner tok table =
     (case table scope of
        Some row \<Rightarrow>
          if row_owner_id row = owner \<and> row_fencing_token row = tok
          then table(scope \<mapsto> row\<lparr>row_lease_until := now, row_updated_at := now\<rparr>) else table
      | None \<Rightarrow> table)"

definition pg_token :: "lease_table \<Rightarrow> string \<Rightarrow> int" where
  "pg_token table scope = (case table scope of Some row \<Rightarrow> row_fencing_token row | None \<Rightarrow> 0)"

lemmas pg_defs = pg_upsert_def pg_select_def pg_update_def pg_expire_def pg_token_def

text \<open>\<open>PostgresExecutionLease\<close> has no operation like \<open>lose\<close>, the test hook of the in-memory
  store: the interpretation has the identity there.\<close>

interpretation pg: fenced_lease pg_expiry pg_upsert "\<lambda>now now'. pg_update now"
  pg_expire "\<lambda>scope table. table" pg_select pg_token
  by (unfold_locales; (rule ext)?; auto simp: pg_defs split: option.splits if_splits)

definition pg_step :: "int lease_op \<Rightarrow> lease_table \<Rightarrow> lease_table" where
  "pg_step = lease_step pg_upsert (\<lambda>now now'. pg_update now) pg_expire (\<lambda>scope table. table)"

definition pg_run :: "int lease_op list \<Rightarrow> lease_table \<Rightarrow> lease_table" where
  "pg_run ops table = fold pg_step ops table"

definition pg_granted :: "string \<Rightarrow> int lease_op list \<Rightarrow> lease_table \<Rightarrow> int list" where
  "pg_granted = lease_granted pg_upsert pg_step"

definition pg_lease_init :: "string \<Rightarrow> string option \<Rightarrow> rat \<Rightarrow> string \<Rightarrow> lease_handle res" where
  "pg_lease_init = lease_init"

definition pg_lease_acquire :: "int \<Rightarrow> lease_handle \<Rightarrow> lease_table \<Rightarrow> bool \<times> lease_handle \<times> lease_table" where
  "pg_lease_acquire now h table =
     (case pg_upsert now (scope_key h) (handle_owner_id h) (ttl_seconds h) table of
        (None, table') \<Rightarrow> (False, h, table')
      | (Some tok, table') \<Rightarrow> (True, h\<lparr>handle_fencing_token := Some tok\<rparr>, table'))"

definition pg_lease_renew :: "int \<Rightarrow> lease_handle \<Rightarrow> lease_table \<Rightarrow> bool \<times> lease_table" where
  "pg_lease_renew now h table =
     (case handle_fencing_token h of
        None \<Rightarrow> (False, table)
      | Some tok \<Rightarrow> pg_update now (scope_key h) (handle_owner_id h) tok (ttl_seconds h) table)"

definition pg_lease_assert_valid :: "int \<Rightarrow> lease_handle \<Rightarrow> lease_table \<Rightarrow> unit res" where
  "pg_lease_assert_valid now h table =
     (case handle_fencing_token h of
        None \<Rightarrow> Inl (RuntimeError ''Execution lease was never acquired'')
      | Some tok \<Rightarrow> check (pg_select now (scope_key h) (handle_owner_id h) tok table)
                     (RuntimeError ''Execution lease is not valid for scope''))"

definition pg_lease_release :: "int \<Rightarrow> lease_handle \<Rightarrow> lease_table \<Rightarrow> lease_handle \<times> lease_table" where
  "pg_lease_release now h table =
     (case handle_fencing_token h of
        None \<Rightarrow> (h, table)
      | Some tok \<Rightarrow> (h\<lparr>handle_fencing_token := None\<rparr>,
                    pg_expire now (scope_key h) (handle_owner_id h) tok table))"

section \<open>Properties\<close>

lemmas store_run_defs = store_run_def store_step_def store_granted_def
lemmas pg_run_defs = pg_run_def pg_step_def pg_granted_def

lemma lease_acquire_True:
  "lease_acquire now h records = (True, h', records') \<Longrightarrow>
   \<exists>tok. handle_fencing_token h' = Some tok \<and>
     store_acquire now (scope_key h) (handle_owner_id h) (ttl_seconds h) records = (Some tok, records')"
  by (auto simp: lease_acquire_def split: prod.splits option.splits)

lemma pg_lease_acquire_True:
  "pg_lease_acquire now h table = (True, h', table') \<Longrightarrow>
   \<exists>tok. handle_fencing_token h' = Some tok \<and>
     pg_upsert now (scope_key h) (handle_owner_id h) (ttl_seconds h) table = (Some tok, table')"
  by (auto simp: pg_lease_acquire_def split: prod.splits option.splits)

text \<open>
  C1: The fencing tokens a lease store grants for a scope are strictly increasing over any
  sequence of acquire, renew, release and expiry operations by any workers, for the
  in-memory store and for the PostgreSQL table: no two grants ever share a token.
\<close>

theorem fencing_tokens_increase:
  "sorted_wrt (<) (store_granted sc ops records) \<and> sorted_wrt (<) (pg_granted sc pg_ops table)"
  using mem.granted_strictly_increasing[of sc ops records]
    pg.granted_strictly_increasing[of sc pg_ops table]
  by (simp add: store_run_defs pg_run_defs)

text \<open>
  C2: Once a worker has acquired the PostgreSQL lease, every handle that holds an older
  fencing token of the same scope fails \<open>assert_valid\<close> from then on, at any time and
  whatever operations the table serves in between (stale writers are fenced out).
\<close>

theorem pg_stale_handle_fenced:
  assumes "pg_lease_acquire now h table = (True, h', table')"
    and "scope_key h0 = scope_key h" and "handle_fencing_token h' = Some tok"
    and "handle_fencing_token h0 = Some tok0" and "tok0 < tok"
  shows "pg_lease_assert_valid later h0 (pg_run ops table')
    = Inl (RuntimeError ''Execution lease is not valid for scope'')"
proof -
  from pg_lease_acquire_True[OF assms(1)] assms(3)
  have "pg_upsert now (scope_key h) (handle_owner_id h) (ttl_seconds h) table = (Some tok, table')"
    by simp
  from pg.stale_holder_excluded[OF this assms(5)] assms(2,4) show ?thesis
    by (simp add: pg_lease_assert_valid_def pg_run_defs)
qed

theorem pg_stale_handle_fenced_witness:
  "pg_lease_assert_valid 20000000
     \<lparr>scope_key = ''k'', handle_owner_id = ''a'', ttl_seconds = 10, handle_fencing_token = Some 1\<rparr>
     (pg_run [OpRenew 15000000 15000000 ''k'' ''a'' 1 10]
       (snd (snd (pg_lease_acquire 12000000
          \<lparr>scope_key = ''k'', handle_owner_id = ''b'', ttl_seconds = 10, handle_fencing_token = None\<rparr>
          [''k'' \<mapsto> \<lparr>row_owner_id = ''a'', row_fencing_token = 1, row_lease_until = 11000000,
                     row_updated_at = 1000000\<rparr>]))))
   = Inl (RuntimeError ''Execution lease is not valid for scope'')"
proof -
  let ?h = "\<lparr>scope_key = ''k'', handle_owner_id = ''b'', ttl_seconds = 10, handle_fencing_token = None\<rparr>"
  let ?t = "[''k'' \<mapsto> \<lparr>row_owner_id = ''a'', row_fencing_token = 1, row_lease_until = 11000000,
    row_updated_at = 1000000\<rparr>] :: lease_table"
  have acq: "pg_lease_acquire 12000000 ?h ?t = (True, ?h\<lparr>handle_fencing_token := Some 2\<rparr>,
      snd (snd (pg_lease_acquire 12000000 ?h ?t)))"
    by (simp add: pg_lease_acquire_def pg_defs)
  show ?thesis by (rule pg_stale_handle_fenced[OF acq, of _ 2 1]) simp_all
qed

text \<open>
  C3: An unexpired in-memory lease cannot be taken away: after a successful acquire, and
  whatever other owners then do before it expires (acquire, renew or release with tokens of
  their own, or lose other scopes), \<open>assert_valid\<close> of the holder succeeds at every time
  before the expiry.
\<close>

theorem unexpired_lease_protected:
  assumes "lease_acquire now h records = (True, h', records')"
    and "handle_fencing_token h' = Some tok"
    and "list_all (foreign_op (scope_key h) (handle_owner_id h) tok (fl (now + ttl_seconds h))) ops"
    and "later < fl (now + ttl_seconds h)"
  shows "lease_assert_valid later h' (store_run ops records') = Inr ()"
proof -
  from lease_acquire_True[OF assms(1)] assms(2)
  have acq: "store_acquire now (scope_key h) (handle_owner_id h) (ttl_seconds h) records
    = (Some tok, records')" by simp
  from mem.holder_protected[OF acq assms(3,4)]
  have "store_holds later (scope_key h) (handle_owner_id h) tok (store_run ops records')"
    by (simp add: store_run_defs)
  moreover from assms(1) have "scope_key h' = scope_key h" "handle_owner_id h' = handle_owner_id h"
    by (auto simp: lease_acquire_def split: prod.splits option.splits)
  ultimately show ?thesis using assms(2) by (simp add: lease_assert_valid_def store_assert_valid_def)
qed

theorem unexpired_lease_protected_witness:
  "lease_assert_valid 8
     \<lparr>scope_key = ''k'', handle_owner_id = ''a'', ttl_seconds = 10, handle_fencing_token = Some 1\<rparr>
     (store_run [OpAcquire 3 ''k'' ''b'' 10, OpRelease 4 ''k'' ''b'' 1]
       (snd (snd (lease_acquire 0
          \<lparr>scope_key = ''k'', handle_owner_id = ''a'', ttl_seconds = 10, handle_fencing_token = None\<rparr>
          Map.empty)))) = Inr ()"
proof -
  let ?h = "\<lparr>scope_key = ''k'', handle_owner_id = ''a'', ttl_seconds = 10, handle_fencing_token = None\<rparr>"
  have acq: "lease_acquire 0 ?h Map.empty = (True, ?h\<lparr>handle_fencing_token := Some 1\<rparr>,
      snd (snd (lease_acquire 0 ?h Map.empty)))"
    by (simp add: lease_acquire_def store_defs)
  have ten: "fl (0 + 10) = 10" by code_simp
  show ?thesis
    using unexpired_lease_protected[OF acq, of 1
        "[OpAcquire 3 ''k'' ''b'' 10, OpRelease 4 ''k'' ''b'' 1]" 8] ten by simp
qed

end
