(* ===== verification/Domain.thy ===== *)
theory Domain
  imports Decimals
begin

text \<open>
  The shared data model: the enumerations of \<open>domain/enums.py\<close> and the records of
  \<open>domain/models.py\<close> that the trading pipeline passes around. An \<open>Enum\<close> is a datatype with
  one constructor per member, a pydantic model is a record. A timezone-aware \<open>datetime\<close> is
  the instant it denotes, in microseconds of UTC. Decimal fields that the pipeline
  re-validates before it uses them are \<open>decimal\<close> (so that a NaN or an infinity can occur);
  the others are finite by pydantic's validation and are rational numbers. The event times of a fill
  and of a position, which no modelled code reads, are left out.
\<close>

section \<open>Enumerations (domain/enums.py)\<close>

datatype MarketType = SPOT | USDM_FUTURES | COINM_FUTURES

datatype OrderSide = BUY | SELL

datatype PositionSide = LONG | SHORT | BOTH

datatype OrderType = LIMIT | MARKET | STOP | STOP_MARKET | TAKE_PROFIT | TAKE_PROFIT_MARKET

datatype TimeInForce = GTC | IOC | FOK | POST_ONLY

datatype RegimeType =
    R0_STRONG_MEAN_REVERSION | R1_RANGE | R2_WEAK_TREND | R3_STRONG_TREND
  | R4_BREAKOUT | R5_VOLATILITY_SHOCK | R6_CRISIS
  | RANGE | TREND | BREAKOUT | SHOCK | TRANSITION

datatype RiskState =
    RS_NORMAL | RS_CAUTION | RS_NO_NEW_RISK | RS_RECOVERY_ONLY | RS_DELEVERAGE
  | RS_LIQUIDATING | RS_EMERGENCY

datatype EconomicRiskClass =
    NOOP | NEW_RISK | INCREASE_RISK | REDUCE_RISK | RECOVERY | CLOSE | EMERGENCY

datatype RecoveryActionType =
    HOLD | PARTIAL_HEDGE | REDUCE_LONG | HARVEST_HEDGE | PROGRESSIVE_UNWIND | EMERGENCY_FLATTEN

text \<open>The string values of the members the program prints or parses.\<close>

fun order_side_value :: "OrderSide \<Rightarrow> string" where
  "order_side_value BUY = ''BUY''"
| "order_side_value SELL = ''SELL''"

fun position_side_value :: "PositionSide \<Rightarrow> string" where
  "position_side_value LONG = ''LONG''"
| "position_side_value SHORT = ''SHORT''"
| "position_side_value BOTH = ''BOTH''"

fun order_type_value :: "OrderType \<Rightarrow> string" where
  "order_type_value LIMIT = ''LIMIT''"
| "order_type_value MARKET = ''MARKET''"
| "order_type_value STOP = ''STOP''"
| "order_type_value STOP_MARKET = ''STOP_MARKET''"
| "order_type_value TAKE_PROFIT = ''TAKE_PROFIT''"
| "order_type_value TAKE_PROFIT_MARKET = ''TAKE_PROFIT_MARKET''"

fun time_in_force_value :: "TimeInForce \<Rightarrow> string" where
  "time_in_force_value GTC = ''GTC''"
| "time_in_force_value IOC = ''IOC''"
| "time_in_force_value FOK = ''FOK''"
| "time_in_force_value POST_ONLY = ''POST_ONLY''"

text \<open>\<open>Enum(text)\<close>: \<open>None\<close> is the \<open>ValueError\<close> of an unknown value.\<close>

definition OrderSide_of :: "string \<Rightarrow> OrderSide option" where
  "OrderSide_of s = find (\<lambda>x. order_side_value x = s) [BUY, SELL]"

definition PositionSide_of :: "string \<Rightarrow> PositionSide option" where
  "PositionSide_of s = find (\<lambda>x. position_side_value x = s) [LONG, SHORT, BOTH]"

definition TimeInForce_of :: "string \<Rightarrow> TimeInForce option" where
  "TimeInForce_of s = find (\<lambda>x. time_in_force_value x = s) [GTC, IOC, FOK, POST_ONLY]"

lemma enum_of_value [simp]:
  "OrderSide_of (order_side_value x) = Some x"
  "PositionSide_of (position_side_value y) = Some y"
  "TimeInForce_of (time_in_force_value z) = Some z"
  by ((cases x; simp add: OrderSide_of_def), (cases y; simp add: PositionSide_of_def),
      (cases z; simp add: TimeInForce_of_def))

section \<open>Time\<close>

datatype datetime = Aware int | Naive int

definition seconds :: "int \<Rightarrow> int" where "seconds n = n * 1000000"

section \<open>Records (domain/models.py)\<close>

record Instrument =
  ins_symbol :: string
  ins_venue :: string
  ins_market_type :: MarketType
  ins_base_asset :: string
  ins_quote_asset :: string
  ins_tick_size :: rat
  ins_step_size :: rat
  ins_min_notional :: rat
  ins_price_precision :: int
  ins_quantity_precision :: int
  ins_is_trading_enabled :: bool

record MarketEvent =
  me_symbol :: string
  me_event_time :: datetime
  me_last_price :: rat
  me_best_bid :: rat
  me_best_ask :: rat
  me_funding_rate :: "decimal option"

record PriceActionState =
  pa_symbol :: string
  pa_timestamp :: datetime
  swing_high :: rat
  swing_low :: rat
  prior_24h_high :: rat
  prior_24h_low :: rat
  displacement_velocity_pct :: rat
  displacement_acceleration :: rat
  range_expansion_ratio :: rat
  liquidity_swept :: bool
  is_reclaiming :: bool

record MarketState =
  ms_symbol :: string
  ms_timestamp :: datetime
  primary_regime :: RegimeType
  regime_probabilities :: "RegimeType \<Rightarrow> rat option"
  atr_1h :: rat
  volatility_zscore :: rat
  funding_zscore :: rat
  shock_active :: bool

datatype evidence_value = EvText string | EvDecimal rat | EvInt int | EvBool bool | EvRegime RegimeType

record StrategyIntent =
  intent_id :: string
  si_strategy_id :: string
  si_symbol :: string
  si_market_type :: MarketType
  si_direction :: PositionSide
  si_desired_delta_qty :: decimal
  opportunity_score :: decimal
  si_confidence :: decimal
  expected_holding_horizon_sec :: int
  si_evidence :: "(string, evidence_value) dict"
  si_timestamp :: datetime

record TargetExposure =
  te_symbol :: string
  te_market_type :: MarketType
  target_net_delta_qty :: decimal
  target_gross_limit_qty :: rat
  strategy_attributions :: "(string, rat) dict"
  te_created_at :: datetime
  expires_at :: "datetime option"
  exposure_id :: string
  te_source_intent_ids :: "string list"

record RiskSnapshot =
  portfolio_equity :: decimal
  rs_unrealized_pnl :: decimal
  realized_pnl_24h :: decimal
  rs_margin_utilization_pct :: decimal
  rs_effective_leverage :: decimal
  current_drawdown_pct :: decimal
  liquidation_distance_pct :: "decimal option"
  risk_state :: "RiskState option" \<comment> \<open>\<open>None\<close>: a value that names no risk state\<close>

record OrderIntent =
  oi_client_order_id :: string
  oi_symbol :: string
  oi_market_type :: MarketType
  oi_side :: OrderSide
  oi_position_side :: PositionSide
  oi_order_type :: OrderType
  oi_time_in_force :: TimeInForce
  oi_quantity :: decimal
  oi_price :: "decimal option"
  oi_reduce_only :: bool
  oi_post_only :: bool
  oi_strategy_id :: string
  oi_source_intent_ids :: "string list"
  oi_created_at :: datetime

record ('reason) ExecutionDecision =
  decision_id :: string
  ed_symbol :: string
  ed_action :: string
  ed_risk_class :: EconomicRiskClass
  ed_orders :: "OrderIntent list"
  ed_rational :: 'reason
  net_exposure_delta :: rat
  ed_timestamp :: datetime
  ed_target_exposure_id :: string
  ed_source_intent_ids :: "string list"

record ExecutionOrder =
  eo_symbol :: string
  eo_side :: OrderSide
  eo_quantity :: rat
  eo_price :: rat
  eo_order_type :: string
  eo_client_order_id :: string
  eo_status :: string
  eo_exchange_order_id :: "string option"
  eo_timestamp :: datetime
  eo_market_type :: MarketType
  eo_position_side :: PositionSide
  eo_reduce_only :: bool
  eo_time_in_force :: TimeInForce
  eo_strategy_id :: string
  eo_decision_id :: "string option"
  eo_target_exposure_id :: "string option"
  eo_source_intent_ids :: "string list"
  eo_risk_class :: EconomicRiskClass

record ExchangeFill =
  exchange_trade_id :: string
  ef_exchange_order_id :: string
  ef_client_order_id :: string
  ef_symbol :: string
  ef_side :: OrderSide
  ef_position_side :: PositionSide
  ef_quantity :: rat
  ef_price :: rat
  ef_commission :: rat
  ef_commission_asset :: string
  ef_realized_pnl :: rat
  ef_maker :: bool
  ef_source :: string
  ef_strategy_id :: string
  ef_decision_id :: "string option"
  ef_target_exposure_id :: "string option"
  ef_source_intent_ids :: "string list"

record ExchangePosition =
  ep_symbol :: string
  ep_position_side :: PositionSide
  ep_quantity :: rat
  ep_entry_price :: rat
  ep_mark_price :: "rat option"
  ep_unrealized_pnl :: rat
  ep_liquidation_price :: "rat option"
  ep_leverage :: rat
  ep_margin_type :: string
  ep_source :: string

end
