(* ===== verification/Calendar.thy ===== *)
theory Calendar
  imports Domain
begin

text \<open>
  The calendar part of \<open>datetime\<close> that the program's identifiers use: the proleptic Gregorian
  date of an instant, zero-padded decimal numbers, \<open>strftime("%Y%m%dT%H%M%S%fZ")\<close>
  (\<open>event_time_token\<close> of \<open>engines/identifiers.py\<close>) and what makes the generated
  identifiers distinct.
\<close>

section \<open>Decimal numerals\<close>

definition digit_char :: "nat \<Rightarrow> char" where "digit_char d = char_of (48 + d)"

fun show_nat :: "nat \<Rightarrow> string" where
  "show_nat n = (if n < 10 then [digit_char n] else show_nat (n div 10) @ [digit_char (n mod 10)])"

declare show_nat.simps [simp del]

text \<open>The format \<open>{n:0kd}\<close>.\<close>

definition show_padded :: "nat \<Rightarrow> nat \<Rightarrow> string" where
  "show_padded k n = (let s = show_nat n in replicate (k - length s) (CHR ''0'') @ s)"

lemma is_digit_digit_char: "d < 10 \<Longrightarrow> is_digit (digit_char d)"
  by (simp add: is_digit_def digit_char_def)

lemma digit_value_digit_char: "d < 10 \<Longrightarrow> digit_value (digit_char d) = d"
  by (simp add: digit_value_def digit_char_def)

lemma nat_of_digits_snoc: "nat_of_digits (s @ [c]) = 10 * nat_of_digits s + digit_value c"
  by (simp add: nat_of_digits_def)

lemma nat_of_digits_zeros: "nat_of_digits (replicate k (CHR ''0'') @ s) = nat_of_digits s"
  by (induction k) (auto simp: nat_of_digits_def digit_value_def)

lemma nat_of_digits_show_nat: "nat_of_digits (show_nat n) = n"
proof (induction n rule: show_nat.induct)
  case (1 n)
  show ?case
  proof (cases "n < 10")
    case True
    then show ?thesis
      by (subst show_nat.simps) (simp add: nat_of_digits_def digit_value_digit_char)
  next
    case False
    with 1 have "nat_of_digits (show_nat (n div 10)) = n div 10" by simp
    with False show ?thesis
      by (subst show_nat.simps) (simp add: nat_of_digits_snoc digit_value_digit_char)
  qed
qed

lemma show_nat_digits: "list_all is_digit (show_nat n)"
proof (induction n rule: show_nat.induct)
  case (1 n)
  then show ?case by (subst show_nat.simps) (simp add: is_digit_digit_char)
qed

lemma nat_of_digits_show_padded: "nat_of_digits (show_padded k n) = n"
  by (simp add: show_padded_def Let_def nat_of_digits_zeros nat_of_digits_show_nat)

lemma show_padded_inj: "show_padded k n = show_padded k' n' \<Longrightarrow> n = n'"
  by (metis nat_of_digits_show_padded)

lemma show_padded_digits: "list_all is_digit (show_padded k n)"
  using show_nat_digits[of n] by (auto simp: show_padded_def Let_def list_all_iff is_digit_def)

lemma show_padded_no_dash: "CHR ''-'' \<notin> set (show_padded k n)"
  using show_padded_digits[of k n] by (auto simp: list_all_iff is_digit_def)

section \<open>Dates\<close>

text \<open>The civil date of a day number (days since 1 January 1970).\<close>

definition civil_from_days :: "int \<Rightarrow> int \<times> int \<times> int" where
  "civil_from_days days =
     (let z = days + 719468; era = z div 146097; doe = z mod 146097;
          yoe = (doe - doe div 1460 + doe div 36524 - doe div 146096) div 365;
          doy = doe - (365 * yoe + yoe div 4 - yoe div 100);
          mp = (5 * doy + 2) div 153;
          d = doy - (153 * mp + 2) div 5 + 1;
          m = (if mp < 10 then mp + 3 else mp - 9)
      in (yoe + era * 400 + (if m \<le> 2 then 1 else 0), m, d))"

definition strftime_token :: "int \<Rightarrow> string" where
  "strftime_token us =
     (let (y, mo, d) = civil_from_days (us div 86400000000);
          r = us mod 86400000000;
          h = r div 3600000000; mi = r mod 3600000000 div 60000000;
          s = r mod 60000000 div 1000000; f = r mod 1000000
      in show_padded 4 (nat y) @ show_padded 2 (nat mo) @ show_padded 2 (nat d) @ ''T''
         @ show_padded 2 (nat h) @ show_padded 2 (nat mi) @ show_padded 2 (nat s)
         @ show_padded 6 (nat f) @ ''Z'')"

lemma strftime_token_no_dash: "CHR ''-'' \<notin> set (strftime_token us)"
  by (simp add: strftime_token_def Let_def show_padded_no_dash split: prod.splits)

definition event_time_token :: "datetime \<Rightarrow> string res" where
  "event_time_token timestamp =
     (case timestamp of
        Aware us \<Rightarrow> Inr (strftime_token us)
      | Naive _ \<Rightarrow> Inl (ValueError ''event timestamp must be timezone-aware''))"

text \<open>\<open>f"{prefix}-{token}-{sequence:06d}"\<close>.\<close>

definition sequence_id :: "string \<Rightarrow> int \<Rightarrow> nat \<Rightarrow> string" where
  "sequence_id prefix us n = prefix @ ''-'' @ strftime_token us @ ''-'' @ show_padded 6 n"

lemma suffix_after_dash:
  assumes "xs @ CHR ''-'' # u = ys @ CHR ''-'' # v" "CHR ''-'' \<notin> set u" "CHR ''-'' \<notin> set v"
  shows "u = v"
proof -
  have t: "takeWhile (\<lambda>c. c \<noteq> CHR ''-'') (rev (zs @ CHR ''-'' # w)) = rev w" if "CHR ''-'' \<notin> set w" for zs w
  proof -
    have "\<forall>c \<in> set (rev w). c \<noteq> CHR ''-''" using that by auto
    then show ?thesis by (simp add: takeWhile_tail)
  qed
  from t[of u xs] t[of v ys] assms show ?thesis by (metis rev_rev_ident)
qed

lemma sequence_id_inj: "sequence_id p t n = sequence_id p' t' n' \<Longrightarrow> n = n'"
proof -
  assume eq: "sequence_id p t n = sequence_id p' t' n'"
  have "show_padded 6 n = show_padded 6 n'"
    by (rule suffix_after_dash[of "p @ ''-'' @ strftime_token t" _ "p' @ ''-'' @ strftime_token t'"])
      (use eq in \<open>simp_all add: sequence_id_def show_padded_no_dash\<close>)
  then show ?thesis by (rule show_padded_inj)
qed

end
