(* ===== verification/Strategies.thy ===== *)
theory Strategies
  imports Calendar
begin

text \<open>
  The market-state classifier and the four strategy engines of the worker
  (\<open>engines/market_state.py\<close>, \<open>grid_strategy.py\<close>, \<open>trend_strategy.py\<close>,
  \<open>shock_strategy.py\<close>, \<open>funding_carry.py\<close>). An engine turns a price-action state and a market state into at most
  one \<open>StrategyIntent\<close>; it raises when the event time is not timezone-aware.
\<close>

section \<open>Regime classification\<close>

definition no_probabilities :: "RegimeType \<Rightarrow> rat option" where
  "no_probabilities r =
     (if r \<in> {R0_STRONG_MEAN_REVERSION, R1_RANGE, R2_WEAK_TREND, R3_STRONG_TREND, R4_BREAKOUT,
             R5_VOLATILITY_SHOCK, R6_CRISIS} then Some 0 else None)"

definition regime_of :: "PriceActionState \<Rightarrow> RegimeType \<times> (RegimeType \<Rightarrow> rat option) \<times> bool" where
  "regime_of pa =
     (let abs_vel = dabs (displacement_velocity_pct pa);
          abs_accel = dabs (displacement_acceleration pa);
          expansion = range_expansion_ratio pa
      in
      if expansion > 3 \<or> abs_vel > 8 / 10 \<or> abs_accel > 3 / 10 then
        (R5_VOLATILITY_SHOCK,
         no_probabilities(R5_VOLATILITY_SHOCK \<mapsto> 8 / 10, R4_BREAKOUT \<mapsto> 2 / 10), True)
      else if expansion > 18 / 10 \<and> abs_vel > 2 / 10 then
        (R4_BREAKOUT, no_probabilities(R4_BREAKOUT \<mapsto> 7 / 10, R3_STRONG_TREND \<mapsto> 3 / 10), False)
      else if expansion > 12 / 10 \<and> abs_vel > 1 / 10 then
        (R3_STRONG_TREND, no_probabilities(R3_STRONG_TREND \<mapsto> 6 / 10, R2_WEAK_TREND \<mapsto> 4 / 10), False)
      else if liquidity_swept pa then
        (R0_STRONG_MEAN_REVERSION,
         no_probabilities(R0_STRONG_MEAN_REVERSION \<mapsto> 8 / 10, R1_RANGE \<mapsto> 2 / 10), False)
      else if expansion > 8 / 10 \<and> abs_vel > 5 / 100 then
        (R2_WEAK_TREND, no_probabilities(R2_WEAK_TREND \<mapsto> 5 / 10, R1_RANGE \<mapsto> 5 / 10), False)
      else
        (R1_RANGE, no_probabilities(R1_RANGE \<mapsto> 8 / 10, R2_WEAK_TREND \<mapsto> 2 / 10), False))"

text \<open>The classifier keeps the last state per symbol.\<close>

definition classify ::
  "(string \<rightharpoonup> MarketState) \<Rightarrow> PriceActionState \<Rightarrow> MarketState \<times> (string \<rightharpoonup> MarketState)" where
  "classify last_state pa =
     (let (regime, probs, is_shock) = regime_of pa;
          state = \<lparr>ms_symbol = pa_symbol pa, ms_timestamp = pa_timestamp pa, primary_regime = regime,
            regime_probabilities = probs,
            atr_1h = dmul (dsub (prior_24h_high pa) (prior_24h_low pa)) (5 / 100),
            volatility_zscore = dsub (range_expansion_ratio pa) 1, funding_zscore = 0,
            shock_active = is_shock\<rparr>
      in (state, last_state(pa_symbol pa \<mapsto> state)))"

section \<open>Structural grid\<close>

definition RISK_OFF_REGIMES :: "RegimeType set" where
  "RISK_OFF_REGIMES =
     {R2_WEAK_TREND, R3_STRONG_TREND, R4_BREAKOUT, R5_VOLATILITY_SHOCK, R6_CRISIS,
      TREND, BREAKOUT, SHOCK, TRANSITION}"

record GridStrategyEngine =
  grid_strategy_id :: string
  max_grid_levels :: int
  base_order_qty :: "rat option"

definition grid_init :: "string \<Rightarrow> int \<Rightarrow> rat option \<Rightarrow> GridStrategyEngine res" where
  "grid_init strategy max_levels base_qty =
     (if max_levels < 1 then Inl (ValueError ''max_grid_levels must be positive'')
      else Inr \<lparr>grid_strategy_id = strategy, max_grid_levels = max_levels, base_order_qty = base_qty\<rparr>)"

datatype brake_reason = InvalidGridDepth | RegimeDisabled RegimeType | MaximumDepthReached int

definition brake_evidence :: "brake_reason \<Rightarrow> (string, evidence_value) dict" where
  "brake_evidence r =
     [(''brake_reason'', case r of InvalidGridDepth \<Rightarrow> EvText ''Invalid grid depth''
        | RegimeDisabled g \<Rightarrow> EvRegime g | MaximumDepthReached n \<Rightarrow> EvInt n)]"

definition brake_intent :: "GridStrategyEngine \<Rightarrow> PriceActionState \<Rightarrow> brake_reason \<Rightarrow> StrategyIntent res" where
  "brake_intent g pa reason =
     res_bind (event_time_token (pa_timestamp pa)) (\<lambda>token. Inr
       \<lparr>intent_id = ''GRID-BRAKE-'' @ pa_symbol pa @ ''-'' @ token,
        si_strategy_id = grid_strategy_id g, si_symbol = pa_symbol pa, si_market_type = USDM_FUTURES,
        si_direction = BOTH, si_desired_delta_qty = Fin 0, opportunity_score = Fin 0,
        si_confidence = Fin 1, expected_holding_horizon_sec = 0,
        si_evidence = brake_evidence reason, si_timestamp = pa_timestamp pa\<rparr>)"

text \<open>\<open>position_qty\<close> is \<open>None\<close> when it does not convert to a \<open>Decimal\<close>.\<close>

definition observed_depth :: "GridStrategyEngine \<Rightarrow> decimal option \<Rightarrow> int \<Rightarrow> int \<Rightarrow> int res" where
  "observed_depth g position_qty open_grid_orders filled_grid_orders =
     (case position_qty of
        None \<Rightarrow> Inl (ValueError ''position_qty must be Decimal-compatible'')
      | Some q \<Rightarrow>
          (case q of
             Fin quantity \<Rightarrow>
               if quantity < 0 then Inl (ValueError ''position_qty must be finite and non-negative'')
               else if open_grid_orders < 0 \<or> filled_grid_orders < 0
               then Inl (ValueError ''grid order counts must be non-negative integers'')
               else if quantity = 0 \<and> open_grid_orders = 0 then Inr 0
               else if quantity > 0 \<and> open_grid_orders + filled_grid_orders = 0
               then Inr (max_grid_levels g)
               else Inr (min (max_grid_levels g) (open_grid_orders + filled_grid_orders))
           | _ \<Rightarrow> Inl (ValueError ''position_qty must be finite and non-negative'')))"

definition grid_base_qty :: "GridStrategyEngine \<Rightarrow> string \<Rightarrow> rat" where
  "grid_base_qty g symbol =
     (case base_order_qty g of
        Some q \<Rightarrow> q
      | None \<Rightarrow> if upper symbol = ''ETHUSDC'' then 28 / 1000 else 1 / 10)"

definition grid_delta :: "GridStrategyEngine \<Rightarrow> string \<Rightarrow> int \<Rightarrow> rat" where
  "grid_delta g symbol grid_depth =
     ddiv (dmul (grid_base_qty g symbol) (of_int (max_grid_levels g - grid_depth)))
       (of_int (max_grid_levels g))"

definition grid_evaluate ::
  "GridStrategyEngine \<Rightarrow> PriceActionState \<Rightarrow> MarketState \<Rightarrow> int \<Rightarrow> StrategyIntent res" where
  "grid_evaluate g pa market grid_depth =
     (let regime = primary_regime market in
      if grid_depth < 0 then brake_intent g pa InvalidGridDepth
      else if shock_active market \<or> regime \<in> RISK_OFF_REGIMES
      then brake_intent g pa (RegimeDisabled regime)
      else if grid_depth \<ge> max_grid_levels g
      then brake_intent g pa (MaximumDepthReached (max_grid_levels g))
      else
        let (score, confidence) =
              (if regime = R0_STRONG_MEAN_REVERSION then (9 / 10, 9 / 10) else (5 / 10, 8 / 10));
            direction = (if is_reclaiming pa then LONG else BOTH);
            delta = (if direction = LONG then grid_delta g (pa_symbol pa) grid_depth else 0)
        in res_bind (event_time_token (pa_timestamp pa)) (\<lambda>token. Inr
             \<lparr>intent_id = ''GRID-INTENT-'' @ pa_symbol pa @ ''-'' @ token,
              si_strategy_id = grid_strategy_id g, si_symbol = pa_symbol pa,
              si_market_type = USDM_FUTURES, si_direction = direction,
              si_desired_delta_qty = Fin delta, opportunity_score = Fin score,
              si_confidence = Fin confidence, expected_holding_horizon_sec = 3600,
              si_evidence = [(''regime'', EvRegime regime), (''atr'', EvDecimal (atr_1h market)),
                (''grid_depth'', EvInt grid_depth), (''max_grid_levels'', EvInt (max_grid_levels g))],
              si_timestamp = pa_timestamp pa\<rparr>))"

section \<open>Trend and shock engines\<close>

definition trend_evaluate ::
  "string \<Rightarrow> PriceActionState \<Rightarrow> MarketState \<Rightarrow> StrategyIntent option res" where
  "trend_evaluate strategy_id pa market =
     (let regime = primary_regime market in
      if regime \<notin> {R3_STRONG_TREND, R4_BREAKOUT} then Inr None
      else
        let direction = (if displacement_velocity_pct pa > 0 then LONG else SHORT);
            delta = (if direction = LONG then 2 / 10 else - 2 / 10)
        in res_bind (event_time_token (pa_timestamp pa)) (\<lambda>token. Inr (Some
             \<lparr>intent_id = ''TREND-INTENT-'' @ pa_symbol pa @ ''-'' @ token,
              si_strategy_id = strategy_id, si_symbol = pa_symbol pa,
              si_market_type = USDM_FUTURES, si_direction = direction,
              si_desired_delta_qty = Fin delta, opportunity_score = Fin (8 / 10),
              si_confidence = Fin (7 / 10), expected_holding_horizon_sec = 14400,
              si_evidence = [(''regime'', EvRegime regime),
                (''velocity'', EvDecimal (displacement_velocity_pct pa))],
              si_timestamp = pa_timestamp pa\<rparr>)))"

definition shock_evaluate ::
  "string \<Rightarrow> PriceActionState \<Rightarrow> MarketState \<Rightarrow> StrategyIntent option res" where
  "shock_evaluate strategy_id pa market =
     (let is_shock = shock_active market; is_sweep = liquidity_swept pa in
      if \<not> (is_shock \<or> is_sweep) then Inr None
      else
        let direction = (if is_sweep then LONG
              else if displacement_velocity_pct pa > 0 then LONG else SHORT);
            delta = (if direction = LONG then 3 / 10 else - 3 / 10)
        in res_bind (event_time_token (pa_timestamp pa)) (\<lambda>token. Inr (Some
             \<lparr>intent_id = ''SHOCK-INTENT-'' @ pa_symbol pa @ ''-'' @ token,
              si_strategy_id = strategy_id, si_symbol = pa_symbol pa,
              si_market_type = USDM_FUTURES, si_direction = direction,
              si_desired_delta_qty = Fin delta, opportunity_score = Fin (9 / 10),
              si_confidence = Fin (6 / 10), expected_holding_horizon_sec = 300,
              si_evidence = [(''is_sweep'', EvBool is_sweep), (''is_shock'', EvBool is_shock)],
              si_timestamp = pa_timestamp pa\<rparr>)))"

section \<open>Funding carry\<close>

record FundingCarryCostInputs =
  maker_fee_rate :: rat
  taker_fee_rate :: rat
  entry_spread_bps :: rat
  exit_spread_bps :: rat
  entry_slippage_bps :: rat
  exit_slippage_bps :: rat
  annual_financing_rate :: rat
  funding_intervals_per_day :: int
  holding_horizon_sec :: int

text \<open>The validation of one decimal field in \<open>__post_init__\<close>; \<open>is_fee\<close> marks the fields
  whose name ends in \<open>fee_rate\<close>.\<close>

definition carry_field :: "bool \<Rightarrow> decimal option \<Rightarrow> rat res" where
  "carry_field is_fee raw =
     (case raw of
        None \<Rightarrow> Inl (ValueError ''must be Decimal-compatible'')
      | Some d \<Rightarrow>
          (case d of
             Fin x \<Rightarrow>
               if x < 0 then Inl (ValueError ''must be finite and non-negative'')
               else if is_fee \<and> x > 1 then Inl (ValueError ''must not exceed 1'')
               else Inr x
           | _ \<Rightarrow> Inl (ValueError ''must be finite and non-negative'')))"

definition carry_cost_inputs ::
  "decimal option \<Rightarrow> decimal option \<Rightarrow> decimal option \<Rightarrow> decimal option \<Rightarrow> decimal option \<Rightarrow>
   decimal option \<Rightarrow> decimal option \<Rightarrow> int \<Rightarrow> int \<Rightarrow> FundingCarryCostInputs res" where
  "carry_cost_inputs maker taker entry_spread exit_spread entry_slip exit_slip financing intervals horizon =
     res_bind (carry_field True maker) (\<lambda>mk. res_bind (carry_field True taker) (\<lambda>tk.
     res_bind (carry_field False entry_spread) (\<lambda>es. res_bind (carry_field False exit_spread) (\<lambda>xs.
     res_bind (carry_field False entry_slip) (\<lambda>el. res_bind (carry_field False exit_slip) (\<lambda>xl.
     res_bind (carry_field False financing) (\<lambda>fin.
     if intervals \<le> 0 then Inl (ValueError ''funding_intervals_per_day must be a positive integer'')
     else if horizon \<le> 0 then Inl (ValueError ''holding_horizon_sec must be a positive integer'')
     else Inr \<lparr>maker_fee_rate = mk, taker_fee_rate = tk, entry_spread_bps = es, exit_spread_bps = xs,
       entry_slippage_bps = el, exit_slippage_bps = xl, annual_financing_rate = fin,
       funding_intervals_per_day = intervals, holding_horizon_sec = horizon\<rparr>)))))))"

text \<open>\<open>from_environment\<close>: \<open>env name\<close> is \<open>os.getenv(name)\<close>; a partial or malformed configuration
  disables carry.\<close>

definition carry_from_environment :: "(string \<rightharpoonup> string) \<Rightarrow> FundingCarryCostInputs option" where
  "carry_from_environment env =
     (let val = (\<lambda>name. strip (case env name of Some v \<Rightarrow> v | None \<Rightarrow> []));
          vals = map val [''CARRY_MAKER_FEE_RATE'', ''CARRY_TAKER_FEE_RATE'', ''CARRY_ENTRY_SPREAD_BPS'',
            ''CARRY_EXIT_SPREAD_BPS'', ''CARRY_ENTRY_SLIPPAGE_BPS'', ''CARRY_EXIT_SLIPPAGE_BPS'',
            ''CARRY_ANNUAL_FINANCING_RATE'', ''CARRY_FUNDING_INTERVALS_PER_DAY'',
            ''CARRY_HOLDING_HORIZON_SEC'']
      in if list_all (\<lambda>v. v = []) vals then None
         else if list_ex (\<lambda>v. v = []) vals then None
         else
           (case (parse_int (vals ! 7), parse_int (vals ! 8)) of
              (Some intervals, Some horizon) \<Rightarrow>
                (case carry_cost_inputs (parse_decimal (vals ! 0)) (parse_decimal (vals ! 1))
                   (parse_decimal (vals ! 2)) (parse_decimal (vals ! 3)) (parse_decimal (vals ! 4))
                   (parse_decimal (vals ! 5)) (parse_decimal (vals ! 6)) intervals horizon of
                   Inr inputs \<Rightarrow> Some inputs
                 | Inl _ \<Rightarrow> None)
            | _ \<Rightarrow> None))"

record carry_economics =
  gross_funding_pct :: rat
  fee_cost_pct :: rat
  spread_cost_pct :: rat
  slippage_cost_pct :: rat
  financing_cost_pct :: rat
  net_horizon_pct :: rat
  net_annualized_pct :: rat

definition carry_economics_of :: "FundingCarryCostInputs \<Rightarrow> rat \<Rightarrow> carry_economics" where
  "carry_economics_of c funding_rate =
     (let horizon_days = ddiv (of_int (holding_horizon_sec c)) 86400;
          gross = dmul (dmul (dmul (dabs funding_rate) (of_int (funding_intervals_per_day c))) horizon_days) 100;
          fee = dmul (dadd (maker_fee_rate c) (taker_fee_rate c)) 100;
          spread = ddiv (dadd (entry_spread_bps c) (exit_spread_bps c)) 200;
          slippage = ddiv (dadd (entry_slippage_bps c) (exit_slippage_bps c)) 100;
          financing = dmul (ddiv (dmul (annual_financing_rate c) horizon_days) 365) 100;
          net = dsub (dsub (dsub (dsub gross fee) spread) slippage) financing
      in \<lparr>gross_funding_pct = gross, fee_cost_pct = fee, spread_cost_pct = spread,
          slippage_cost_pct = slippage, financing_cost_pct = financing, net_horizon_pct = net,
          net_annualized_pct = dmul (ddiv net horizon_days) 365\<rparr>)"

text \<open>\<open>min_yield\<close> is the engine's \<open>min_annualized_yield\<close>.\<close>

definition carry_evaluate ::
  "string \<Rightarrow> rat \<Rightarrow> FundingCarryCostInputs option \<Rightarrow> MarketEvent \<Rightarrow> StrategyIntent option res" where
  "carry_evaluate strategy_id min_yield cost_inputs event =
     (case (me_funding_rate event, cost_inputs) of
        (Some (Fin funding_rate), Some c) \<Rightarrow>
          let x = carry_economics_of c funding_rate in
          if net_annualized_pct x < min_yield then Inr None
          else
            let direction = (if funding_rate > 0 then SHORT else LONG);
                score = min 1 (max 0 (ddiv (net_annualized_pct x) (dmul min_yield 2)))
            in res_bind (event_time_token (me_event_time event)) (\<lambda>token. Inr (Some
                 \<lparr>intent_id = ''CARRY-INTENT-'' @ me_symbol event @ ''-'' @ token,
                  si_strategy_id = strategy_id, si_symbol = me_symbol event,
                  si_market_type = USDM_FUTURES, si_direction = direction,
                  si_desired_delta_qty = Fin (if direction = SHORT then - 1 / 10 else 1 / 10),
                  opportunity_score = Fin score, si_confidence = Fin (85 / 100),
                  expected_holding_horizon_sec = holding_horizon_sec c,
                  si_evidence = [(''gross_funding_pct'', EvDecimal (gross_funding_pct x)),
                    (''fee_cost_pct'', EvDecimal (fee_cost_pct x)),
                    (''spread_cost_pct'', EvDecimal (spread_cost_pct x)),
                    (''slippage_cost_pct'', EvDecimal (slippage_cost_pct x)),
                    (''financing_cost_pct'', EvDecimal (financing_cost_pct x)),
                    (''net_horizon_pct'', EvDecimal (net_horizon_pct x)),
                    (''net_annualized_pct'', EvDecimal (net_annualized_pct x)),
                    (''raw_funding'', EvDecimal funding_rate)],
                  si_timestamp = me_event_time event\<rparr>))
      | _ \<Rightarrow> Inr None)"

section \<open>The intents of one market event\<close>

record engines =
  grid_engine :: GridStrategyEngine
  trend_strategy_id :: string
  shock_strategy_id :: string
  carry_strategy_id :: string
  carry_min_yield :: rat
  carry_inputs :: "FundingCarryCostInputs option"

definition option_list :: "'a option \<Rightarrow> 'a list" where
  "option_list x = (case x of None \<Rightarrow> [] | Some y \<Rightarrow> [y])"

text \<open>\<open>handle_market_event\<close> asks every enabled engine, in this order.\<close>

definition tick_intents ::
  "engines \<Rightarrow> string set \<Rightarrow> MarketEvent \<Rightarrow> PriceActionState \<Rightarrow> MarketState \<Rightarrow> int \<Rightarrow> StrategyIntent list res" where
  "tick_intents e enabled event pa market grid_depth =
     res_bind (if ''grid'' \<in> enabled
       then res_bind (grid_evaluate (grid_engine e) pa market grid_depth) (\<lambda>i. Inr (Some i)) else Inr None) (\<lambda>grid.
     res_bind (if ''trend'' \<in> enabled then trend_evaluate (trend_strategy_id e) pa market else Inr None) (\<lambda>trend.
     res_bind (if ''shock'' \<in> enabled then shock_evaluate (shock_strategy_id e) pa market else Inr None) (\<lambda>shock.
     res_bind (if ''carry'' \<in> enabled
       then carry_evaluate (carry_strategy_id e) (carry_min_yield e) (carry_inputs e) event else Inr None) (\<lambda>carry.
     Inr (option_list grid @ option_list trend @ option_list shock @ option_list carry)))))"

section \<open>Lemmas\<close>

lemma set_option_list [simp]: "set (option_list x) = set_option x"
  by (cases x) (simp_all add: option_list_def)

lemma grid_delta_nonneg:
  assumes "0 \<le> grid_base_qty g s" "d \<le> max_grid_levels g" "0 < max_grid_levels g"
  shows "0 \<le> grid_delta g s d"
  using assms by (simp add: grid_delta_def dec_defs)

lemma grid_delta_antimono:
  assumes "0 \<le> grid_base_qty g s" "d \<le> d'" "0 < max_grid_levels g"
  shows "grid_delta g s d' \<le> grid_delta g s d"
  using assms by (auto simp: grid_delta_def dec_defs intro!: dround_mono divide_right_mono mult_left_mono)

lemma grid_delta_le_base:
  assumes base: "0 \<le> grid_base_qty g s" "drep (grid_base_qty g s)"
    and d: "0 \<le> d" and lv: "0 < max_grid_levels g"
    and exact: "drep (grid_base_qty g s * of_int (max_grid_levels g))"
  shows "grid_delta g s d \<le> grid_base_qty g s"
proof -
  have "grid_delta g s d \<le> grid_delta g s 0"
    by (rule grid_delta_antimono[OF base(1) d lv])
  also have "\<dots> = grid_base_qty g s"
    using lv by (simp add: grid_delta_def dec_defs dround_rep[OF exact] dround_rep[OF base(2)])
  finally show ?thesis .
qed

text \<open>
  What the allocator requires of an intent: a finite signed delta that agrees with the
  direction, finite scores, the event's symbol and time, and an identifier that starts with
  the engine's tag.
\<close>

definition well_formed_intent :: "string \<Rightarrow> string \<Rightarrow> datetime \<Rightarrow> StrategyIntent \<Rightarrow> bool" where
  "well_formed_intent tag symbol t i \<longleftrightarrow>
     (\<exists>r. intent_id i = tag @ r) \<and> si_symbol i = symbol \<and> si_market_type i = USDM_FUTURES
     \<and> si_timestamp i = t
     \<and> is_finite (si_desired_delta_qty i) \<and> is_finite (si_confidence i) \<and> is_finite (opportunity_score i)
     \<and> (si_direction i = LONG \<longrightarrow> 0 \<le> finite_value (si_desired_delta_qty i))
     \<and> (si_direction i = SHORT \<longrightarrow> finite_value (si_desired_delta_qty i) \<le> 0)
     \<and> (si_direction i = BOTH \<longrightarrow> finite_value (si_desired_delta_qty i) = 0)"

lemma grid_well_formed:
  assumes "grid_evaluate g pa market d = Inr i" "0 < max_grid_levels g" "0 \<le> grid_base_qty g (pa_symbol pa)"
  shows "well_formed_intent ''G'' (pa_symbol pa) (pa_timestamp pa) i"
  using assms grid_delta_nonneg[of g "pa_symbol pa" d]
  by (auto simp: grid_evaluate_def brake_intent_def well_formed_intent_def Let_def res_simps split: if_splits)

lemma trend_well_formed:
  assumes "trend_evaluate s pa market = Inr (Some i)"
  shows "well_formed_intent ''T'' (pa_symbol pa) (pa_timestamp pa) i"
  using assms
  by (auto simp: trend_evaluate_def well_formed_intent_def Let_def res_simps split: if_splits)

lemma shock_well_formed:
  assumes "shock_evaluate s pa market = Inr (Some i)"
  shows "well_formed_intent ''S'' (pa_symbol pa) (pa_timestamp pa) i"
  using assms
  by (auto simp: shock_evaluate_def well_formed_intent_def Let_def res_simps split: if_splits)

lemma carry_well_formed:
  assumes "carry_evaluate s y c event = Inr (Some i)"
  shows "well_formed_intent ''C'' (me_symbol event) (me_event_time event) i"
  using assms
  by (auto simp: carry_evaluate_def well_formed_intent_def Let_def res_simps
      split: option.splits decimal.splits prod.splits if_splits)

section \<open>The contract of a strategy engine\<close>

text \<open>
  What the allocator relies on: on a valid input an engine does not raise when the event time
  is timezone-aware, and whatever intent it returns is well formed, with an identifier that
  starts with the engine's own tag. The grid, trend, shock and carry engines meet it.
\<close>

locale strategy_engine =
  fixes evaluate :: "'c \<Rightarrow> StrategyIntent option res"
    and tag :: string
    and valid :: "'c \<Rightarrow> bool"
    and symbol_of :: "'c \<Rightarrow> string"
    and time_of :: "'c \<Rightarrow> datetime"
  assumes total: "valid c \<Longrightarrow> time_of c = Aware t \<Longrightarrow> \<exists>r. evaluate c = Inr r"
    and emits: "valid c \<Longrightarrow> evaluate c = Inr (Some i) \<Longrightarrow> well_formed_intent tag (symbol_of c) (time_of c) i"

definition grid_step :: "GridStrategyEngine \<times> PriceActionState \<times> MarketState \<times> int \<Rightarrow> StrategyIntent option res" where
  "grid_step = (\<lambda>(g, pa, market, d). res_bind (grid_evaluate g pa market d) (\<lambda>i. Inr (Some i)))"

lemma event_time_token_Aware [simp]: "event_time_token (Aware t) = Inr (strftime_token t)"
  by (simp add: event_time_token_def)

lemma grid_total: "pa_timestamp pa = Aware t \<Longrightarrow> \<exists>i. grid_evaluate g pa market d = Inr i"
  by (simp add: grid_evaluate_def brake_intent_def Let_def)

interpretation grid: strategy_engine grid_step "''G''"
  "\<lambda>(g, pa, market, d). 0 < max_grid_levels g \<and> 0 \<le> grid_base_qty g (pa_symbol pa)"
  "\<lambda>(g, pa, market, d). pa_symbol pa" "\<lambda>(g, pa, market, d). pa_timestamp pa"
  by unfold_locales
    (auto simp: grid_step_def res_simps grid_total intro: grid_well_formed split: prod.splits)

interpretation trend: strategy_engine "\<lambda>(s, pa, market). trend_evaluate s pa market" "''T''" "\<lambda>_. True"
  "\<lambda>(s, pa, market). pa_symbol pa" "\<lambda>(s, pa, market). pa_timestamp pa"
  by unfold_locales (auto intro: trend_well_formed, auto simp: trend_evaluate_def Let_def)

interpretation shock: strategy_engine "\<lambda>(s, pa, market). shock_evaluate s pa market" "''S''" "\<lambda>_. True"
  "\<lambda>(s, pa, market). pa_symbol pa" "\<lambda>(s, pa, market). pa_timestamp pa"
  by unfold_locales (auto intro: shock_well_formed, auto simp: shock_evaluate_def Let_def)

interpretation carry: strategy_engine "\<lambda>(s, y, c, event). carry_evaluate s y c event" "''C''" "\<lambda>_. True"
  "\<lambda>(s, y, c, event). me_symbol event" "\<lambda>(s, y, c, event). me_event_time event"
  by unfold_locales
    (auto intro: carry_well_formed,
     auto simp: carry_evaluate_def Let_def split: option.splits decimal.splits)

section \<open>Properties\<close>

text \<open>
  The grid never averages down faster: with a non-negative base quantity the delta it
  asks for is non-negative, never exceeds the base quantity, and never grows with the number
  of grid levels already used (context rounding included).
\<close>

theorem grid_never_scales_up:
  assumes "grid_evaluate g pa market d = Inr i" "grid_evaluate g pa market d' = Inr i'"
    and "0 \<le> d" "d \<le> d'" "0 < max_grid_levels g" "0 \<le> grid_base_qty g (pa_symbol pa)"
    and "drep (grid_base_qty g (pa_symbol pa))" "drep (grid_base_qty g (pa_symbol pa) * of_int (max_grid_levels g))"
  shows "0 \<le> finite_value (si_desired_delta_qty i')
    \<and> finite_value (si_desired_delta_qty i') \<le> finite_value (si_desired_delta_qty i)
    \<and> finite_value (si_desired_delta_qty i) \<le> grid_base_qty g (pa_symbol pa)"
  using assms grid_delta_nonneg[of g "pa_symbol pa" d'] grid_delta_nonneg[of g "pa_symbol pa" d]
    grid_delta_antimono[of g "pa_symbol pa" d d'] grid_delta_le_base[of g "pa_symbol pa" d]
  by (auto simp: grid_evaluate_def brake_intent_def Let_def res_simps split: if_splits)

definition sample_state :: "rat \<Rightarrow> rat \<Rightarrow> PriceActionState" where
  "sample_state velocity expansion = \<lparr>pa_symbol = ''BTCUSDT'', pa_timestamp = Aware 0, swing_high = 2, swing_low = 1,
     prior_24h_high = 2, prior_24h_low = 1, displacement_velocity_pct = velocity,
     displacement_acceleration = 0, range_expansion_ratio = expansion, liquidity_swept = False, is_reclaiming = True\<rparr>"

definition sample_grid :: GridStrategyEngine where
  "sample_grid = \<lparr>grid_strategy_id = ''grid'', max_grid_levels = 5, base_order_qty = Some 1\<rparr>"

definition range_market :: MarketState where
  "range_market = \<lparr>ms_symbol = ''BTCUSDT'', ms_timestamp = Aware 0, primary_regime = R1_RANGE,
     regime_probabilities = no_probabilities, atr_1h = 1, volatility_zscore = 0, funding_zscore = 0,
     shock_active = False\<rparr>"

theorem grid_never_scales_up_witness:
  "\<exists>i i'. grid_evaluate sample_grid (sample_state 0 1) range_market 0 = Inr i
     \<and> grid_evaluate sample_grid (sample_state 0 1) range_market 3 = Inr i'
     \<and> finite_value (si_desired_delta_qty i') \<le> finite_value (si_desired_delta_qty i)
     \<and> finite_value (si_desired_delta_qty i) \<le> 1"
proof -
  have aware: "pa_timestamp (sample_state 0 1) = Aware 0" by (simp add: sample_state_def)
  obtain i where i: "grid_evaluate sample_grid (sample_state 0 1) range_market 0 = Inr i"
    using grid_total[OF aware] by blast
  obtain i' where i': "grid_evaluate sample_grid (sample_state 0 1) range_market 3 = Inr i'"
    using grid_total[OF aware] by blast
  have base: "grid_base_qty sample_grid s = 1" for s by (simp add: grid_base_qty_def sample_grid_def)
  have "drep 1" "drep 5" using drep_of_int[of 1] drep_of_int[of 5] by simp_all
  then show ?thesis using i i' grid_never_scales_up[OF i i'] base
    by (simp add: sample_grid_def)
qed

text \<open>
  The classifier always returns a probability distribution: the probabilities of the
  seven regimes it reports are non-negative and sum to one, the reported regime carries the
  largest of them, and \<open>shock_active\<close> is set exactly for the volatility-shock regime.
\<close>

theorem classify_distribution:
  assumes "classify previous pa = (state, updated)"
  shows "sum_list (map (\<lambda>r. the (regime_probabilities state r))
      [R0_STRONG_MEAN_REVERSION, R1_RANGE, R2_WEAK_TREND, R3_STRONG_TREND, R4_BREAKOUT,
       R5_VOLATILITY_SHOCK, R6_CRISIS]) = 1
    \<and> (\<forall>r p. regime_probabilities state r = Some p \<longrightarrow> 0 \<le> p \<and> p \<le> the (regime_probabilities state (primary_regime state)))
    \<and> (shock_active state \<longleftrightarrow> primary_regime state = R5_VOLATILITY_SHOCK)
    \<and> updated (pa_symbol pa) = Some state"
  using assms
  by (auto simp: classify_def regime_of_def Let_def no_probabilities_def split: if_splits)

theorem classify_distribution_witness:
  "\<exists>state. fst (classify Map.empty (sample_state 1 1)) = state \<and> shock_active state
     \<and> primary_regime state = R5_VOLATILITY_SHOCK"
  using classify_distribution[of Map.empty "sample_state 1 1" "fst (classify Map.empty (sample_state 1 1))"
      "snd (classify Map.empty (sample_state 1 1))"]
  by (simp add: classify_def regime_of_def sample_state_def Let_def dabs_rep drep_of_int[of 1, simplified])

end
