(* ===== verification/Allocator.thy ===== *)
theory Allocator
  imports Strategies
begin

text \<open>
  The meta allocator (\<open>engines/meta_allocator.py\<close>): it validates the strategy intents of one
  symbol, weights each desired delta by confidence and opportunity score, totals them in
  context arithmetic and scales the totals down when the gross exposure exceeds the cap.
  The loop over the intents is a fold whose body may raise \<open>ValueError\<close>.
\<close>

section \<open>The allocator\<close>

definition allocator_init :: "decimal option \<Rightarrow> rat res" where
  "allocator_init configured_limit =
     (case configured_limit of
        None \<Rightarrow> Inl (ValueError ''max portfolio gross exposure must be Decimal-compatible'')
      | Some d \<Rightarrow>
          (case d of
             Fin x \<Rightarrow> if x \<le> 0 then Inl (ValueError ''max portfolio gross exposure must be positive and finite'')
                      else Inr x
           | _ \<Rightarrow> Inl (ValueError ''max portfolio gross exposure must be positive and finite'')))"

record allocation =
  net_delta :: rat
  gross_exposure :: rat
  attributions :: "(string, rat) dict"
  source_intent_ids :: "string list"
  seen_intent_ids :: "string set"

definition direction_matches :: "PositionSide \<Rightarrow> rat \<Rightarrow> bool" where
  "direction_matches direction desired_delta =
     (\<not> ((direction = LONG \<and> desired_delta < 0) \<or> (direction = SHORT \<and> desired_delta > 0)
         \<or> (direction = BOTH \<and> desired_delta \<noteq> 0)))"

text \<open>The weighted delta of one intent, after all its checks.\<close>

definition effective_delta :: "string \<Rightarrow> MarketType \<Rightarrow> string set \<Rightarrow> StrategyIntent \<Rightarrow> rat res" where
  "effective_delta symbol market_type seen intent =
     res_bind (check (upper (strip (si_symbol intent)) = symbol)
       (ValueError ''strategy intent symbol does not match allocation symbol'')) (\<lambda>_.
     res_bind (check (si_market_type intent = market_type)
       (ValueError ''strategy intents must use one market type'')) (\<lambda>_.
     res_bind (check (intent_id intent \<noteq> [] \<and> intent_id intent \<notin> seen)
       (ValueError ''strategy intent IDs must be present and unique'')) (\<lambda>_.
     (case decimal_mul (si_confidence intent) (opportunity_score intent) of
        Inl _ \<Rightarrow> Inl (ValueError ''strategy intent quantities and scores must be numeric'')
      | Inr weight \<Rightarrow>
          (case (si_desired_delta_qty intent, weight) of
             (Fin desired, Fin w) \<Rightarrow>
               res_bind (check (direction_matches (si_direction intent) desired)
                 (ValueError ''strategy intent direction does not match its signed delta'')) (\<lambda>_.
               Inr (dmul desired w))
           | _ \<Rightarrow> Inl (ValueError ''strategy intent quantities and scores must be finite''))))))"

definition allocate_intent :: "string \<Rightarrow> MarketType \<Rightarrow> StrategyIntent \<Rightarrow> allocation \<Rightarrow> allocation res" where
  "allocate_intent symbol market_type intent a =
     res_bind (effective_delta symbol market_type (seen_intent_ids a) intent) (\<lambda>e.
     Inr \<lparr>net_delta = dadd (net_delta a) e,
          gross_exposure = dadd (gross_exposure a) (dabs e),
          attributions = AList.update (si_strategy_id intent)
            (dadd (case map_of (attributions a) (si_strategy_id intent) of Some x \<Rightarrow> x | None \<Rightarrow> 0) e)
            (attributions a),
          source_intent_ids = source_intent_ids a @ [intent_id intent],
          seen_intent_ids = insert (intent_id intent) (seen_intent_ids a)\<rparr>)"

definition scale_allocation :: "rat \<Rightarrow> allocation \<Rightarrow> allocation" where
  "scale_allocation cap a =
     (if gross_exposure a > cap then
        let scale_factor = ddiv cap (gross_exposure a) in
        a\<lparr>net_delta := dmul (net_delta a) scale_factor, gross_exposure := cap,
          attributions := map (\<lambda>(k, v). (k, dmul v scale_factor)) (attributions a)\<rparr>
      else a)"

definition empty_allocation :: allocation where
  "empty_allocation = \<lparr>net_delta = 0, gross_exposure = 0, attributions = [],
     source_intent_ids = [], seen_intent_ids = {}\<rparr>"

text \<open>The timestamps of the intents, all of them timezone-aware.\<close>

definition aware_timestamps :: "StrategyIntent list \<Rightarrow> int list res" where
  "aware_timestamps intents =
     res_map (\<lambda>i. case si_timestamp i of Aware t \<Rightarrow> Inr t
       | Naive _ \<Rightarrow> Inl (ValueError ''strategy intent timestamps must be timezone-aware'')) intents"

text \<open>
  \<open>now\<close> is the clock of an empty allocation and \<open>uuid\<close> the fresh part of the exposure
  identifier; \<open>cap\<close> is the configured gross limit.
\<close>

definition allocate :: "rat \<Rightarrow> int \<Rightarrow> string \<Rightarrow> StrategyIntent list \<Rightarrow> string \<Rightarrow> TargetExposure res" where
  "allocate cap now uuid intents symbol =
     (let normalized_symbol = upper (strip symbol) in
      if normalized_symbol = [] then Inl (ValueError ''allocation symbol must not be empty'')
      else
        (case intents of
           [] \<Rightarrow> Inr \<lparr>te_symbol = normalized_symbol, te_market_type = USDM_FUTURES,
             target_net_delta_qty = Fin 0, target_gross_limit_qty = 0, strategy_attributions = [],
             te_created_at = Aware now, expires_at = Some (Aware (now + seconds 60)),
             exposure_id = ''EXP-'' @ uuid, te_source_intent_ids = []\<rparr>
         | first # _ \<Rightarrow>
             res_bind (res_fold (allocate_intent normalized_symbol (si_market_type first)) intents
               empty_allocation) (\<lambda>totals.
             let a = scale_allocation cap totals in
             res_bind (aware_timestamps intents) (\<lambda>ts.
             let as_of = Max (set ts) in
             Inr \<lparr>te_symbol = normalized_symbol, te_market_type = si_market_type first,
               target_net_delta_qty = Fin (net_delta a), target_gross_limit_qty = gross_exposure a,
               strategy_attributions = attributions a, te_created_at = Aware as_of,
               expires_at = Some (Aware (as_of + seconds 60)), exposure_id = ''EXP-'' @ uuid,
               te_source_intent_ids = source_intent_ids a\<rparr>))))"

section \<open>Lemmas\<close>

lemma effective_delta_Inr:
  assumes "effective_delta symbol mt seen i = Inr e"
  shows "upper (strip (si_symbol i)) = symbol" "si_market_type i = mt"
    "intent_id i \<noteq> []" "intent_id i \<notin> seen"
    "\<exists>desired w. si_desired_delta_qty i = Fin desired \<and> direction_matches (si_direction i) desired
       \<and> e = dmul desired w"
  using assms by (auto simp: effective_delta_def res_simps split: sum.splits decimal.splits prod.splits)

lemma drep_dmul [simp]: "drep (dmul x y)"
  by (simp add: dmul_def)

text \<open>Context arithmetic keeps the net exposure within the gross exposure.\<close>

lemma net_within_gross:
  assumes "allocate_intent symbol mt i a = Inr a'" "\<bar>net_delta a\<bar> \<le> gross_exposure a"
  shows "\<bar>net_delta a'\<bar> \<le> gross_exposure a'"
proof -
  from assms(1) obtain e where e: "effective_delta symbol mt (seen_intent_ids a) i = Inr e"
    and n: "net_delta a' = dadd (net_delta a) e" and g: "gross_exposure a' = dadd (gross_exposure a) (dabs e)"
    by (auto simp: allocate_intent_def res_simps)
  from effective_delta_Inr(5)[OF e] have abs_e: "dabs e = \<bar>e\<bar>" by (auto intro: dabs_rep)
  have "\<bar>net_delta a + e\<bar> \<le> gross_exposure a + \<bar>e\<bar>" using assms(2) by linarith
  from dround_abs_le[OF this] show ?thesis by (simp add: n g abs_e dadd_def)
qed

lemma allocation_fold_net:
  assumes "res_fold (allocate_intent symbol mt) intents empty_allocation = Inr a"
  shows "\<bar>net_delta a\<bar> \<le> gross_exposure a"
  by (rule res_fold_invariant[OF assms, where P = "\<lambda>a. \<bar>net_delta a\<bar> \<le> gross_exposure a"])
    (auto simp: empty_allocation_def intro: net_within_gross)

lemma allocate_intent_Inr:
  assumes "allocate_intent symbol mt i a = Inr a'"
  shows "source_intent_ids a' = source_intent_ids a @ [intent_id i]"
    "seen_intent_ids a' = insert (intent_id i) (seen_intent_ids a)"
    "intent_id i \<notin> seen_intent_ids a" "intent_id i \<noteq> []"
    "upper (strip (si_symbol i)) = symbol" "si_market_type i = mt"
  using assms effective_delta_Inr by (auto simp: allocate_intent_def res_simps)

lemma allocation_fold_ids:
  assumes "res_fold (allocate_intent symbol mt) intents a = Inr a'"
    and "seen_intent_ids a = set (source_intent_ids a)" "distinct (source_intent_ids a)"
  shows "source_intent_ids a' = source_intent_ids a @ map intent_id intents
    \<and> distinct (source_intent_ids a') \<and> (\<forall>i\<in>set intents. intent_id i \<noteq> []
    \<and> upper (strip (si_symbol i)) = symbol \<and> si_market_type i = mt)"
  using assms
proof (induction intents arbitrary: a)
  case (Cons i intents)
  then obtain a1 where a1: "allocate_intent symbol mt i a = Inr a1"
    and rest: "res_fold (allocate_intent symbol mt) intents a1 = Inr a'"
    by (auto simp: res_simps)
  note f = allocate_intent_Inr[OF a1]
  have "seen_intent_ids a1 = set (source_intent_ids a1)" "distinct (source_intent_ids a1)"
    using f Cons.prems(2,3) by auto
  note ih = Cons.IH[OF rest this]
  show ?case
  proof (intro conjI)
    show "distinct (source_intent_ids a')" using ih by blast
  qed (use ih f in auto)
qed simp

text \<open>Scaling overshoots the cap by at most the error of two roundings.\<close>

lemma scale_allocation_net:
  assumes cap: "0 < cap" and net: "\<bar>net_delta a\<bar> \<le> gross_exposure a"
  shows "\<bar>net_delta (scale_allocation cap a)\<bar> \<le> cap * (1 + 1 / 10 ^ 26)"
proof (cases "gross_exposure a > cap")
  case True
  define g where "g = gross_exposure a"
  define sf where "sf = ddiv cap g"
  have g: "0 < g" "cap < g" using True cap by (auto simp: g_def)
  have sf: "0 < sf" "sf \<le> cap / g * (1 + 1 / (2 * 10 ^ 27))"
    using dround_upper[of "cap / g"] cap g by (auto simp: sf_def ddiv_def)
  have "\<bar>dmul (net_delta a) sf\<bar> \<le> dround (g * sf)"
    unfolding dmul_def using net sf(1) by (intro dround_abs_le) (simp add: abs_mult g_def)
  also have "\<dots> \<le> g * sf * (1 + 1 / (2 * 10 ^ 27))" using g sf by (intro dround_upper) simp
  also have "\<dots> \<le> g * (cap / g * (1 + 1 / (2 * 10 ^ 27))) * (1 + 1 / (2 * 10 ^ 27))"
    using g sf(2) by (intro mult_right_mono mult_left_mono) auto
  also have "\<dots> = cap * ((1 + 1 / (2 * 10 ^ 27)) * (1 + 1 / (2 * 10 ^ 27)))" using g by simp
  also have "\<dots> \<le> cap * (1 + 1 / 10 ^ 26)" using cap by (intro mult_left_mono) simp_all
  finally show ?thesis using True by (simp add: scale_allocation_def Let_def g_def sf_def)
next
  case False
  then have "\<bar>net_delta (scale_allocation cap a)\<bar> \<le> cap" using net by (simp add: scale_allocation_def)
  also have "cap \<le> cap * (1 + 1 / 10 ^ 26)" using cap by simp
  finally show ?thesis .
qed

lemma allocate_Cons_Inr:
  assumes "allocate cap now uuid (i # rest) symbol = Inr t"
  obtains a ts where
    "res_fold (allocate_intent (upper (strip symbol)) (si_market_type i)) (i # rest) empty_allocation = Inr a"
    "aware_timestamps (i # rest) = Inr ts"
    "target_net_delta_qty t = Fin (net_delta (scale_allocation cap a))"
    "target_gross_limit_qty t = gross_exposure (scale_allocation cap a)"
    "te_source_intent_ids t = source_intent_ids a"
    "te_symbol t = upper (strip symbol)" "te_market_type t = si_market_type i"
    "expires_at t = Some (Aware (Max (set ts) + seconds 60))"
  using assms
  by (auto simp: allocate_def Let_def res_simps scale_allocation_def simp del: res_fold.simps split: if_splits)

section \<open>Properties\<close>

text \<open>
  C8: The target the allocator returns stays within the configured gross limit: its gross
  quantity is at most the cap, and its net quantity is at most the cap in absolute value, up
  to a relative error of \<open>10 ^ -26\<close> from the two roundings of the scaling step.
\<close>

theorem allocate_within_cap:
  assumes "allocate cap now uuid intents symbol = Inr t" and "0 < cap"
  shows "target_gross_limit_qty t \<le> cap
    \<and> (\<exists>n. target_net_delta_qty t = Fin n \<and> \<bar>n\<bar> \<le> cap * (1 + 1 / 10 ^ 26))"
proof (cases intents)
  case Nil
  then show ?thesis using assms by (auto simp: allocate_def Let_def split: if_splits)
next
  case (Cons i rest)
  with assms obtain a where
    f: "res_fold (allocate_intent (upper (strip symbol)) (si_market_type i)) (i # rest) empty_allocation = Inr a"
    and n: "target_net_delta_qty t = Fin (net_delta (scale_allocation cap a))"
    and g: "target_gross_limit_qty t = gross_exposure (scale_allocation cap a)"
    using allocate_Cons_Inr by metis
  show ?thesis
    using scale_allocation_net[OF assms(2) allocation_fold_net[OF f]] n g
    by (auto simp: scale_allocation_def Let_def)
qed

definition sample_intent :: "string \<Rightarrow> rat \<Rightarrow> StrategyIntent" where
  "sample_intent i q = \<lparr>intent_id = i, si_strategy_id = ''grid'', si_symbol = ''BTC'',
     si_market_type = USDM_FUTURES, si_direction = LONG, si_desired_delta_qty = Fin q,
     opportunity_score = Fin 1, si_confidence = Fin 1, expected_holding_horizon_sec = 60,
     si_evidence = [], si_timestamp = Aware 0\<rparr>"

lemma sample_allocation:
  "\<exists>t. allocate 5 0 ''u'' [sample_intent ''A'' 4, sample_intent ''B'' 3] ''BTC'' = Inr t"
  by (simp add: allocate_def Let_def allocate_intent_def effective_delta_def direction_matches_def
      sample_intent_def aware_timestamps_def empty_allocation_def string_eval)

theorem allocate_within_cap_witness:
  "\<exists>t. allocate 5 0 ''u'' [sample_intent ''A'' 4, sample_intent ''B'' 3] ''BTC'' = Inr t
     \<and> target_gross_limit_qty t \<le> 5"
proof -
  obtain t where "allocate 5 0 ''u'' [sample_intent ''A'' 4, sample_intent ''B'' 3] ''BTC'' = Inr t"
    using sample_allocation by blast
  with allocate_within_cap[OF this] show ?thesis by auto
qed

text \<open>
  A target is only ever built from valid intents: when \<open>allocate\<close> returns for a non-empty
  list, every intent names the allocation symbol and one common market type, the intent
  identifiers are non-empty and pairwise distinct, they are recorded in order as the lineage
  of the target, and the target expires 60 seconds after the newest intent.
\<close>

theorem allocate_validates:
  assumes "allocate cap now uuid (i # rest) symbol = Inr t"
  shows "te_source_intent_ids t = map intent_id (i # rest) \<and> distinct (map intent_id (i # rest))
    \<and> (\<forall>j\<in>set (i # rest). intent_id j \<noteq> [] \<and> upper (strip (si_symbol j)) = te_symbol t
         \<and> si_market_type j = te_market_type t)
    \<and> (\<exists>ts. map si_timestamp (i # rest) = map Aware ts
         \<and> expires_at t = Some (Aware (Max (set ts) + seconds 60)))"
proof -
  from assms obtain a ts where
    f: "res_fold (allocate_intent (upper (strip symbol)) (si_market_type i)) (i # rest) empty_allocation = Inr a"
    and ts: "aware_timestamps (i # rest) = Inr ts"
    and t: "te_source_intent_ids t = source_intent_ids a" "te_symbol t = upper (strip symbol)"
      "te_market_type t = si_market_type i" "expires_at t = Some (Aware (Max (set ts) + seconds 60))"
    by (rule allocate_Cons_Inr)
  have "map si_timestamp js = map Aware us" if "aware_timestamps js = Inr us" for js us
    using that unfolding aware_timestamps_def
    by (induction js arbitrary: us) (auto simp: res_simps split: datetime.splits)
  from this[OF ts] allocation_fold_ids[OF f] show ?thesis
    using t by (simp add: empty_allocation_def) (metis distinct.simps(2) list.set_map)
qed

theorem allocate_validates_witness:
  "\<exists>t. allocate 5 0 ''u'' [sample_intent ''A'' 4, sample_intent ''B'' 3] ''BTC'' = Inr t
     \<and> te_source_intent_ids t = [''A'', ''B'']"
proof -
  obtain t where "allocate 5 0 ''u'' [sample_intent ''A'' 4, sample_intent ''B'' 3] ''BTC'' = Inr t"
    using sample_allocation by blast
  with allocate_validates[OF this] show ?thesis by (auto simp: sample_intent_def)
qed

section \<open>The engines feed the allocator\<close>

context strategy_engine
begin

lemma accepted:
  assumes "valid c" "evaluate c = Inr (Some i)" "symbol = upper (strip (symbol_of c))"
    and "tag \<noteq> []" "\<forall>x\<in>seen. hd x \<noteq> hd tag"
  shows "\<exists>e. effective_delta symbol USDM_FUTURES seen i = Inr e" "hd (intent_id i) = hd tag"
proof -
  note w = emits[OF assms(1,2), unfolded well_formed_intent_def]
  then obtain r where r: "intent_id i = tag @ r" by blast
  then show hd: "hd (intent_id i) = hd tag" using assms(4) by simp
  with assms(5) have fresh: "intent_id i \<notin> seen" by auto
  from w obtain d s k where q: "si_desired_delta_qty i = Fin d" "opportunity_score i = Fin s" "si_confidence i = Fin k"
    by (auto simp: is_finite_iff)
  have "direction_matches (si_direction i) d" using w q(1) by (auto simp: direction_matches_def)
  then show "\<exists>e. effective_delta symbol USDM_FUTURES seen i = Inr e"
    using w assms(3,4) r fresh q by (simp add: effective_delta_def)
qed

text \<open>\<open>gate b c\<close> is the engine behind its enabled flag \<open>b\<close>.\<close>

definition gate :: "bool \<Rightarrow> 'c \<Rightarrow> StrategyIntent option res" where
  "gate b c = (if b then evaluate c else Inr None)"

lemma allocation_step:
  assumes "valid c" "time_of c = Aware t" "symbol = upper (strip (symbol_of c))"
    and "tag \<noteq> []" "hd ` seen_intent_ids a \<subseteq> T" "hd tag \<notin> T"
  obtains x a' where "gate b c = Inr x"
    "res_fold (allocate_intent symbol USDM_FUTURES) (option_list x) a = Inr a'"
    "hd ` seen_intent_ids a' \<subseteq> insert (hd tag) T"
    "\<forall>i\<in>set (option_list x). si_market_type i = USDM_FUTURES \<and> si_timestamp i = Aware t"
proof -
  from total[OF assms(1,2)] obtain r where r: "evaluate c = Inr r" by blast
  define x where "x = (if b then r else None)"
  have x: "gate b c = Inr x" "x \<noteq> None \<longrightarrow> evaluate c = Inr x"
    by (simp_all add: gate_def x_def r)
  have fresh: "\<forall>y\<in>seen_intent_ids a. hd y \<noteq> hd tag" using assms(5,6) by (metis image_subset_iff)
  show ?thesis
  proof (cases x)
    case None
    show ?thesis by (rule that[OF x(1), of a]) (simp_all add: None option_list_def subset_insertI2[OF assms(5)])
  next
    case (Some i)
    with x(2) have i: "evaluate c = Inr (Some i)" by simp
    note ok = accepted[OF assms(1) i assms(3,4) fresh]
    from ok(1) obtain e where "effective_delta symbol USDM_FUTURES (seen_intent_ids a) i = Inr e" by (rule exE)
    then have "\<exists>a'. allocate_intent symbol USDM_FUTURES i a = Inr a'" by (simp add: allocate_intent_def)
    then obtain a' where a': "allocate_intent symbol USDM_FUTURES i a = Inr a'" by (rule exE)
    have tags: "hd ` seen_intent_ids a' \<subseteq> insert (hd tag) T"
      by (simp add: allocate_intent_Inr(2)[OF a'] ok(2) subset_insertI2[OF assms(5)])
    have fields: "si_market_type i = USDM_FUTURES \<and> si_timestamp i = Aware t"
      using emits[OF assms(1) i] assms(2) by (simp add: well_formed_intent_def)
    show ?thesis by (rule that[OF x(1), of a']) (simp_all add: Some a' option_list_def tags fields)
  qed
qed

end

lemma aware_timestamps_total:
  "(\<forall>i\<in>set intents. si_timestamp i = Aware t) \<Longrightarrow> aware_timestamps intents = Inr (map (\<lambda>_. t) intents)"
  unfolding aware_timestamps_def by (induction intents) auto

lemma allocate_total:
  assumes "upper (strip symbol) \<noteq> []" "\<forall>i\<in>set intents. si_market_type i = USDM_FUTURES \<and> si_timestamp i = Aware t"
    and "res_fold (allocate_intent (upper (strip symbol)) USDM_FUTURES) intents empty_allocation = Inr a"
  shows "\<exists>target. allocate cap now uuid intents symbol = Inr target"
proof (cases intents)
  case (Cons i rest)
  then have "si_market_type i = USDM_FUTURES" using assms(2) by simp
  then show ?thesis using assms(1,3) aware_timestamps_total[of intents t] assms(2) Cons
    by (simp add: allocate_def Let_def del: res_fold.simps)
qed (use assms(1) in \<open>simp add: allocate_def Let_def\<close>)

lemma engine_gates:
  "grid.gate b (g, pa, market, d) = (if b then res_bind (grid_evaluate g pa market d) (\<lambda>i. Inr (Some i)) else Inr None)"
  "trend.gate b (s, pa, market) = (if b then trend_evaluate s pa market else Inr None)"
  "shock.gate b (s, pa, market) = (if b then shock_evaluate s pa market else Inr None)"
  "carry.gate b (s, y, c, event) = (if b then carry_evaluate s y c event else Inr None)"
  unfolding grid.gate_def trend.gate_def shock.gate_def carry.gate_def by (simp_all add: grid_step_def)

text \<open>
  C7: The allocator never rejects what the engines of one market event produce. For a
  price-action state and an event of the same non-blank symbol and the same timezone-aware
  time, and a grid with at least one level and a non-negative base quantity, every enabled
  engine returns without an error and \<open>allocate\<close> turns the collected intents into a target,
  whichever engines are enabled and whatever the market state.
\<close>

theorem tick_allocation_succeeds:
  assumes "pa_symbol pa = me_symbol event" "pa_timestamp pa = Aware t" "me_event_time event = Aware t"
    and "upper (strip (me_symbol event)) \<noteq> []"
    and "0 < max_grid_levels (grid_engine e)" "0 \<le> grid_base_qty (grid_engine e) (pa_symbol pa)"
  shows "\<exists>intents target. tick_intents e enabled event pa market depth = Inr intents
    \<and> allocate cap now uuid intents (me_symbol event) = Inr target"
proof -
  let ?sym = "upper (strip (me_symbol event))"
  let ?fold = "\<lambda>x. res_fold (allocate_intent ?sym USDM_FUTURES) (option_list x)"
  let ?ok = "\<lambda>x. \<forall>i\<in>set (option_list x). si_market_type i = USDM_FUTURES \<and> si_timestamp i = Aware t"
  obtain g a1 where g: "grid.gate (''grid'' \<in> enabled) (grid_engine e, pa, market, depth) = Inr g" "?ok g"
    and a1: "?fold g empty_allocation = Inr a1" "hd ` seen_intent_ids a1 \<subseteq> {CHR ''G''}"
    by (rule grid.allocation_step[of "(grid_engine e, pa, market, depth)" t ?sym empty_allocation "{}"])
      (use assms in \<open>auto simp: empty_allocation_def\<close>)
  obtain tr a2 where tr: "trend.gate (''trend'' \<in> enabled) (trend_strategy_id e, pa, market) = Inr tr" "?ok tr"
    and a2: "?fold tr a1 = Inr a2" "hd ` seen_intent_ids a2 \<subseteq> {CHR ''T'', CHR ''G''}"
    by (rule trend.allocation_step[of "(trend_strategy_id e, pa, market)" t ?sym a1 "{CHR ''G''}"])
      (use assms a1(2) in auto)
  obtain sh a3 where sh: "shock.gate (''shock'' \<in> enabled) (shock_strategy_id e, pa, market) = Inr sh" "?ok sh"
    and a3: "?fold sh a2 = Inr a3" "hd ` seen_intent_ids a3 \<subseteq> {CHR ''S'', CHR ''T'', CHR ''G''}"
    by (rule shock.allocation_step[of "(shock_strategy_id e, pa, market)" t ?sym a2 "{CHR ''T'', CHR ''G''}"])
      (use assms a2(2) in auto)
  obtain ca a4 where ca: "carry.gate (''carry'' \<in> enabled)
      (carry_strategy_id e, carry_min_yield e, carry_inputs e, event) = Inr ca" "?ok ca"
    and a4: "?fold ca a3 = Inr a4"
    by (rule carry.allocation_step[of "(carry_strategy_id e, carry_min_yield e, carry_inputs e, event)" t
          ?sym a3 "{CHR ''S'', CHR ''T'', CHR ''G''}"]) (use assms a3(2) in auto)
  let ?intents = "option_list g @ option_list tr @ option_list sh @ option_list ca"
  have tick: "tick_intents e enabled event pa market depth = Inr ?intents"
    using g(1) tr(1) sh(1) ca(1) unfolding engine_gates by (simp only: tick_intents_def res_bind_Inr)
  have "\<forall>i\<in>set ?intents. si_market_type i = USDM_FUTURES \<and> si_timestamp i = Aware t"
    using g(2) tr(2) sh(2) ca(2) by auto
  from allocate_total[OF assms(4) this] show ?thesis
    using tick a1(1) a2(1) a3(1) a4 by (simp add: res_fold_append)
qed

definition sample_event :: MarketEvent where
  "sample_event = \<lparr>me_symbol = ''BTCUSDT'', me_event_time = Aware 0, me_last_price = 100, me_best_bid = 99,
     me_best_ask = 101, me_funding_rate = None\<rparr>"

definition sample_engines :: engines where
  "sample_engines = \<lparr>grid_engine = sample_grid, trend_strategy_id = ''trend'', shock_strategy_id = ''shock'',
     carry_strategy_id = ''carry'', carry_min_yield = 1, carry_inputs = None\<rparr>"

theorem tick_allocation_succeeds_witness:
  "\<exists>intents target. tick_intents sample_engines {''grid'', ''trend'', ''shock''} sample_event (sample_state 1 1)
      range_market 2 = Inr intents \<and> allocate 5 0 ''u'' intents ''BTCUSDT'' = Inr target"
  using tick_allocation_succeeds[of "sample_state 1 1" sample_event 0 sample_engines
      "{''grid'', ''trend'', ''shock''}" range_market 2 5 0 "''u''"]
  by (simp add: sample_state_def sample_event_def sample_engines_def sample_grid_def grid_base_qty_def string_eval)

end
