(* ===== verification/Recovery.thy ===== *)
theory Recovery
  imports Domain
begin

text \<open>
  Exposure recovery (\<open>engines/exposure_recovery.py\<close>): when the drawdown reaches the trigger, the
  engine replaces the delta of a target by one that unwinds or hedges the existing position. It
  keeps one \<open>RecoveryState\<close> per symbol. \<open>process\<close> returns its result together with the engine,
  because the state it has already changed survives an exception (a NaN in a comparison raises
  \<open>InvalidOperation\<close>). The two clock readings of a call are arguments.
\<close>

section \<open>State\<close>

record RecoveryState =
  is_active :: bool
  action_type :: RecoveryActionType
  hedge_ratio :: rat
  last_update :: datetime
  locked_toxicity_level :: decimal

definition recovery_state_init :: "datetime \<Rightarrow> RecoveryState" where
  "recovery_state_init now = \<lparr>is_active = False, action_type = HOLD, hedge_ratio = 0, last_update = now,
     locked_toxicity_level = Fin 0\<rparr>"

definition recovery_state_reset :: "RecoveryState \<Rightarrow> RecoveryState" where
  "recovery_state_reset s = s\<lparr>is_active := False, action_type := HOLD, hedge_ratio := 0,
     locked_toxicity_level := Fin 0\<rparr>"

record ExposureRecoveryEngine =
  drawdown_trigger_pct :: rat
  max_hedge_ratio :: rat
  states :: "string \<rightharpoonup> RecoveryState"

definition get_or_create_state :: "ExposureRecoveryEngine \<Rightarrow> datetime \<Rightarrow> string \<Rightarrow> RecoveryState \<times> ExposureRecoveryEngine" where
  "get_or_create_state e now symbol =
     (case states e symbol of
        Some s \<Rightarrow> (s, e)
      | None \<Rightarrow> (recovery_state_init now, e\<lparr>states := (states e)(symbol \<mapsto> recovery_state_init now)\<rparr>))"

definition set_state :: "string \<Rightarrow> RecoveryState \<Rightarrow> ExposureRecoveryEngine \<Rightarrow> ExposureRecoveryEngine" where
  "set_state symbol s e = e\<lparr>states := (states e)(symbol \<mapsto> s)\<rparr>"

section \<open>Choice of the action\<close>

definition determine_action ::
  "ExposureRecoveryEngine \<Rightarrow> RiskSnapshot \<Rightarrow> decimal \<Rightarrow> decimal \<Rightarrow> (RecoveryActionType \<times> decimal) res" where
  "determine_action e risk current_qty target_delta =
     res_bind (decimal_ge (current_drawdown_pct risk) (Fin (dmul (drawdown_trigger_pct e) (25 / 10)))) (\<lambda>catastrophic.
     if catastrophic then Inr (EMERGENCY_FLATTEN, Fin (- 1)) else
     res_bind (decimal_ge (current_drawdown_pct risk) (Fin (dmul (drawdown_trigger_pct e) (15 / 10)))) (\<lambda>severe.
     if severe then Inr (PROGRESSIVE_UNWIND, Fin (- 25 / 100)) else
     res_bind (decimal_less (Fin 0) current_qty) (\<lambda>is_long.
     res_bind (decimal_less current_qty (Fin 0)) (\<lambda>is_short.
     res_bind (if is_long then decimal_less target_delta (Fin 0) else Inr False) (\<lambda>cuts_long.
     res_bind (if \<not> cuts_long \<and> is_short then decimal_less (Fin 0) target_delta else Inr False) (\<lambda>cuts_short.
     if cuts_long \<or> cuts_short then Inr (HARVEST_HEDGE, target_delta)
     else Inr (PARTIAL_HEDGE, Fin (3 / 10))))))))"

text \<open>The grid brake: no addition to the side already held.\<close>

definition grid_brake :: "bool \<Rightarrow> bool \<Rightarrow> decimal \<Rightarrow> decimal res" where
  "grid_brake is_long is_short delta =
     res_bind (if is_long then decimal_less (Fin 0) delta else Inr False) (\<lambda>adds_long.
     if adds_long then Inr (Fin 0) else
     res_bind (if is_short then decimal_less delta (Fin 0) else Inr False) (\<lambda>adds_short.
     Inr (if adds_short then Fin 0 else delta)))"

definition recovery_delta ::
  "ExposureRecoveryEngine \<Rightarrow> bool \<Rightarrow> bool \<Rightarrow> decimal \<Rightarrow> decimal \<Rightarrow> RecoveryActionType \<Rightarrow> decimal \<Rightarrow> decimal \<Rightarrow> decimal res" where
  "recovery_delta e is_long is_short current_qty delta action intensity volatility_factor =
     (case action of
        EMERGENCY_FLATTEN \<Rightarrow> Inr (decimal_neg current_qty)
      | PROGRESSIVE_UNWIND \<Rightarrow>
          res_bind (decimal_mul (decimal_abs current_qty) (decimal_abs intensity)) (\<lambda>reduction.
          Inr (if is_long then decimal_neg reduction else reduction))
      | PARTIAL_HEDGE \<Rightarrow>
          res_bind (decimal_mul (decimal_abs intensity) volatility_factor) (\<lambda>scaled.
          res_bind (decimal_min (Fin (max_hedge_ratio e)) scaled) (\<lambda>ratio.
          res_bind (decimal_mul (decimal_abs current_qty) ratio) (\<lambda>required_hedge_qty.
          let hedge_delta = (if is_long then decimal_neg required_hedge_qty else required_hedge_qty) in
          res_bind (if is_long then decimal_less hedge_delta delta else Inr False) (\<lambda>long_short_of_hedge.
          res_bind (if \<not> long_short_of_hedge \<and> is_short then decimal_less delta hedge_delta else Inr False)
            (\<lambda>short_short_of_hedge.
          Inr (if long_short_of_hedge \<or> short_short_of_hedge then hedge_delta else delta))))))
      | _ \<Rightarrow> Inr delta)"

section \<open>Processing a target\<close>

text \<open>The toxic branch of \<open>process\<close>, after the state has been activated. \<open>s\<close> is the state
  of the symbol.\<close>

definition process_toxic ::
  "ExposureRecoveryEngine \<Rightarrow> RecoveryState \<Rightarrow> TargetExposure \<Rightarrow> RiskSnapshot \<Rightarrow> decimal \<Rightarrow> decimal \<Rightarrow> bool \<Rightarrow> bool \<Rightarrow>
   TargetExposure res \<times> RecoveryState" where
  "process_toxic e s target risk current_qty volatility_factor is_long is_short =
     (if decimal_abs current_qty = Fin 0 then
        (Inr (target\<lparr>target_net_delta_qty := Fin 0\<rparr>), s\<lparr>action_type := HOLD\<rparr>)
      else
        (case grid_brake is_long is_short (target_net_delta_qty target) of
           Inl err \<Rightarrow> (Inl err, s)
         | Inr delta \<Rightarrow>
             (case determine_action e risk current_qty delta of
                Inl err \<Rightarrow> (Inl err, s)
              | Inr (action, intensity) \<Rightarrow>
                  (res_bind (recovery_delta e is_long is_short current_qty delta action intensity volatility_factor)
                     (\<lambda>d. Inr (target\<lparr>target_net_delta_qty := d\<rparr>)),
                   s\<lparr>action_type := action\<rparr>))))"

definition process ::
  "ExposureRecoveryEngine \<Rightarrow> datetime \<Rightarrow> datetime \<Rightarrow> TargetExposure \<Rightarrow> RiskSnapshot \<Rightarrow> decimal \<Rightarrow> decimal \<Rightarrow>
   TargetExposure res \<times> ExposureRecoveryEngine" where
  "process e created_now updated_now target risk current_qty volatility_factor =
     (let symbol = te_symbol target;
          (s, e1) = get_or_create_state e created_now symbol
      in
      case res_bind (decimal_less (Fin 0) current_qty) (\<lambda>is_long.
           res_bind (decimal_less current_qty (Fin 0)) (\<lambda>is_short.
           res_bind (decimal_ge (current_drawdown_pct risk) (Fin (drawdown_trigger_pct e))) (\<lambda>is_toxic.
           Inr (is_long, is_short, is_toxic)))) of
        Inl err \<Rightarrow> (Inl err, e1)
      | Inr (is_long, is_short, is_toxic) \<Rightarrow>
          if \<not> is_toxic \<and> \<not> is_active s then (Inr target, e1)
          else if \<not> is_toxic then (Inr target, set_state symbol (recovery_state_reset s) e1)
          else
            let s1 = (if is_active s then s
                      else s\<lparr>is_active := True, locked_toxicity_level := current_drawdown_pct risk\<rparr>);
                (r, s2) = process_toxic e (s1\<lparr>last_update := updated_now\<rparr>) target risk current_qty
                  volatility_factor is_long is_short
            in (r, set_state symbol s2 e1))"

section \<open>Lemmas\<close>

lemma drep_abs: "drep x \<Longrightarrow> drep \<bar>x\<bar>"
  using drep_dround[of "\<bar>x\<bar>"] by (metis abs_dround dround_rep)

lemma dmul_nonneg: "0 \<le> x \<Longrightarrow> 0 \<le> y \<Longrightarrow> 0 \<le> dmul x y"
  by (simp add: dmul_def)

lemma dmul_le_abs:
  assumes "drep q" "0 \<le> r" "r \<le> 1"
  shows "dmul (dabs q) r \<le> \<bar>q\<bar>"
proof -
  have "\<bar>q\<bar> * r \<le> \<bar>q\<bar>" using assms(2,3) mult_left_le by fastforce
  then show ?thesis unfolding dmul_def dabs_rep[OF assms(1)]
    by (rule dround_le_rep) (rule drep_abs[OF assms(1)])
qed

text \<open>What the action chosen for a position and a braked delta does to the delta, on finite values.\<close>

definition action_delta :: "ExposureRecoveryEngine \<Rightarrow> rat \<Rightarrow> rat \<Rightarrow> rat \<Rightarrow> rat \<Rightarrow> RecoveryActionType \<times> rat" where
  "action_delta e dd q d0 vf =
     (let signed = (\<lambda>x. if q > 0 then dneg x else x);
          d = (if (q > 0 \<and> d0 > 0) \<or> (q < 0 \<and> d0 < 0) then 0 else d0) in
      if dmul (drawdown_trigger_pct e) (25 / 10) \<le> dd then (EMERGENCY_FLATTEN, dneg q)
      else if dmul (drawdown_trigger_pct e) (15 / 10) \<le> dd then (PROGRESSIVE_UNWIND, signed (dmul (dabs q) (dabs (- 25 / 100))))
      else if d \<noteq> 0 then (HARVEST_HEDGE, d)
      else (PARTIAL_HEDGE,
        let h = signed (dmul (dabs q) (min (max_hedge_ratio e) (dmul (dabs (3 / 10)) vf))) in
        if (q > 0 \<and> 0 > h) \<or> (q < 0 \<and> 0 < h) then h else 0))"

lemma process_toxic_finite:
  assumes "current_drawdown_pct risk = Fin dd" "target_net_delta_qty target = Fin d0" "q \<noteq> 0"
  shows "process_toxic e s target risk (Fin q) (Fin vf) (0 < q) (q < 0)
    = (Inr (target\<lparr>target_net_delta_qty := Fin (snd (action_delta e dd q d0 vf))\<rparr>),
       s\<lparr>action_type := fst (action_delta e dd q d0 vf)\<rparr>)"
  using assms(3)
  by (cases q "0 :: rat" rule: linorder_cases; cases d0 "0 :: rat" rule: linorder_cases)
    (simp_all add: process_toxic_def grid_brake_def determine_action_def recovery_delta_def action_delta_def
      assms(1,2) Let_def)

lemma process_finite:
  assumes "current_drawdown_pct risk = Fin dd" "target_net_delta_qty target = Fin d0"
    and "get_or_create_state e c (te_symbol target) = (s, e1)"
  shows "process e c u target risk (Fin q) (Fin vf) =
    (if dd < drawdown_trigger_pct e
     then (Inr target, if is_active s then set_state (te_symbol target) (recovery_state_reset s) e1 else e1)
     else
       let s1 = (if is_active s then s else s\<lparr>is_active := True, locked_toxicity_level := Fin dd\<rparr>)\<lparr>last_update := u\<rparr>;
           (a, d) = (if q = 0 then (HOLD, 0) else action_delta e dd q d0 vf)
       in (Inr (target\<lparr>target_net_delta_qty := Fin d\<rparr>), set_state (te_symbol target) (s1\<lparr>action_type := a\<rparr>) e1))"
proof -
  have flat: "process_toxic e s' target risk (Fin 0) (Fin vf) False False
      = (Inr (target\<lparr>target_net_delta_qty := Fin 0\<rparr>), s'\<lparr>action_type := HOLD\<rparr>)" for s'
    by (simp add: process_toxic_def)
  show ?thesis
    using process_toxic_finite[OF assms(1,2)]
    by (cases "q = 0") (auto simp: process_def assms Let_def flat split: prod.splits)
qed

lemma action_delta_sign:
  assumes "q \<noteq> 0" "0 \<le> vf" "0 \<le> max_hedge_ratio e"
  shows "(0 < q \<longrightarrow> snd (action_delta e dd q d0 vf) \<le> 0) \<and> (q < 0 \<longrightarrow> 0 \<le> snd (action_delta e dd q d0 vf))"
proof -
  have "0 \<le> dmul (dabs q) r" if "0 \<le> r" for r using that by (intro dmul_nonneg) auto
  moreover have "0 \<le> min (max_hedge_ratio e) (dmul (dabs (3 / 10)) vf)" using assms(2,3) by (simp add: dmul_nonneg)
  ultimately show ?thesis using assms(1)
    by (auto simp: action_delta_def Let_def dneg_def)
qed

lemma action_delta_bound:
  assumes "q \<noteq> 0" "0 \<le> vf" "0 \<le> max_hedge_ratio e" "max_hedge_ratio e \<le> 1" "drep q"
    and "fst (action_delta e dd q d0 vf) \<noteq> HARVEST_HEDGE"
  shows "\<bar>snd (action_delta e dd q d0 vf)\<bar> \<le> \<bar>q\<bar>"
proof -
  have r: "0 \<le> min (max_hedge_ratio e) (dmul (dabs (3 / 10)) vf)" "min (max_hedge_ratio e) (dmul (dabs (3 / 10)) vf) \<le> 1"
    using assms(2-4) by (auto simp: dmul_nonneg)
  have quarter: "dabs (- 25 / 100) \<le> 1"
    unfolding dabs_def using dround_le_rep[of "\<bar>- 25 / 100\<bar>" 1] drep_of_int[of 1] by simp
  have drep: "drep (dmul (dabs q) x)" for x by (simp add: dmul_def)
  have abs: "\<bar>if 0 < q then dneg (dmul (dabs q) x) else dmul (dabs q) x\<bar> \<le> \<bar>q\<bar>" if "0 \<le> x" "x \<le> 1" for x
    using dmul_le_abs[OF assms(5) that] dmul_nonneg[of "dabs q" x] that(1) by (auto simp: dneg_rep[OF drep])
  show ?thesis
    using assms(6) abs[OF r] abs[OF _ quarter] by (auto simp: action_delta_def Let_def dneg_rep[OF assms(5)])
qed

section \<open>Properties\<close>

text \<open>
  In a drawdown at or above the trigger, recovery never adds exposure: for a finite target
  and position, a non-negative volatility factor and hedge ratio, the new delta is never on the
  side of the position, and a flat symbol gets delta zero. Unless the action is
  \<open>HARVEST_HEDGE\<close>, which keeps the strategy's own reduction, the delta is at most the position
  (hedge ratio at most one, position representable), so it cannot flip it.
\<close>

theorem recovery_never_adds:
  assumes "process e c u target risk (Fin q) (Fin vf) = (Inr t', e')"
    and "current_drawdown_pct risk = Fin dd" "drawdown_trigger_pct e \<le> dd"
    and "target_net_delta_qty target = Fin d0"
    and "0 \<le> vf" "0 \<le> max_hedge_ratio e" "max_hedge_ratio e \<le> 1" "drep q"
  shows "\<exists>d. target_net_delta_qty t' = Fin d
    \<and> (0 < q \<longrightarrow> d \<le> 0) \<and> (q < 0 \<longrightarrow> 0 \<le> d) \<and> (q = 0 \<longrightarrow> d = 0)
    \<and> (map_option action_type (states e' (te_symbol target)) \<noteq> Some HARVEST_HEDGE \<longrightarrow> \<bar>d\<bar> \<le> \<bar>q\<bar>)"
proof -
  obtain s e1 where s: "get_or_create_state e c (te_symbol target) = (s, e1)" by fastforce
  from assms(1) show ?thesis
    using process_finite[OF assms(2,4) s, of u q vf] assms(3)
      action_delta_sign[of q vf e dd d0] action_delta_bound[of q vf e dd d0] assms(5-8)
    by (auto simp: Let_def set_state_def split: prod.splits if_splits)
qed

definition sample_target :: "rat \<Rightarrow> TargetExposure" where
  "sample_target d = \<lparr>te_symbol = ''BTC'', te_market_type = USDM_FUTURES, target_net_delta_qty = Fin d,
     target_gross_limit_qty = 5, strategy_attributions = [], te_created_at = Aware 0,
     expires_at = Some (Aware 60000000), exposure_id = ''EXP-1'', te_source_intent_ids = [''A'']\<rparr>"

definition sample_risk :: "rat \<Rightarrow> RiskSnapshot" where
  "sample_risk dd = \<lparr>portfolio_equity = Fin 1000, rs_unrealized_pnl = Fin 0, realized_pnl_24h = Fin 0,
     rs_margin_utilization_pct = Fin 10, rs_effective_leverage = Fin 1, current_drawdown_pct = Fin dd,
     liquidation_distance_pct = None, risk_state = Some RS_NORMAL\<rparr>"

definition sample_recovery :: ExposureRecoveryEngine where
  "sample_recovery = \<lparr>drawdown_trigger_pct = 2, max_hedge_ratio = 8 / 10, states = Map.empty\<rparr>"

lemma sample_process:
  "\<exists>t' e'. process sample_recovery (Aware 0) (Aware 0) (sample_target d) (sample_risk dd) (Fin q) (Fin vf) = (Inr t', e')"
proof -
  obtain s e1 where s: "get_or_create_state sample_recovery (Aware 0) (te_symbol (sample_target d)) = (s, e1)" by fastforce
  have f: "current_drawdown_pct (sample_risk dd) = Fin dd" "target_net_delta_qty (sample_target d) = Fin d"
    by (simp_all add: sample_risk_def sample_target_def)
  show ?thesis unfolding process_finite[OF f s] by (auto simp: Let_def split: prod.splits)
qed

theorem recovery_never_adds_witness:
  "\<exists>t' e' d. process sample_recovery (Aware 0) (Aware 0) (sample_target 1) (sample_risk 4) (Fin 3) (Fin 1) = (Inr t', e')
     \<and> target_net_delta_qty t' = Fin d \<and> d \<le> 0"
proof -
  obtain t' e' where p: "process sample_recovery (Aware 0) (Aware 0) (sample_target 1) (sample_risk 4) (Fin 3) (Fin 1) = (Inr t', e')"
    using sample_process by blast
  have "drep 3" using drep_of_int[of 3] by simp
  with recovery_never_adds[OF p, of 4 1] p show ?thesis
    by (auto simp: sample_risk_def sample_target_def sample_recovery_def)
qed

text \<open>
  On finite inputs \<open>process\<close> always returns; it changes nothing of the target but its delta
  (and nothing at all below the trigger), afterwards the symbol is in recovery exactly when the
  drawdown reached the trigger, and the states of all other symbols are untouched.
\<close>

theorem recovery_tracks_drawdown:
  assumes "current_drawdown_pct risk = Fin dd" "target_net_delta_qty target = Fin d0"
  shows "\<exists>d s' e'. process e c u target risk (Fin q) (Fin vf) = (Inr (target\<lparr>target_net_delta_qty := Fin d\<rparr>), e')
    \<and> (dd < drawdown_trigger_pct e \<longrightarrow> d = d0)
    \<and> states e' (te_symbol target) = Some s' \<and> (is_active s' \<longleftrightarrow> drawdown_trigger_pct e \<le> dd)
    \<and> (\<forall>y. y \<noteq> te_symbol target \<longrightarrow> states e' y = states e y)"
proof -
  obtain s e1 where s: "get_or_create_state e c (te_symbol target) = (s, e1)" by fastforce
  have e1: "states e1 (te_symbol target) = Some s" "\<forall>y. y \<noteq> te_symbol target \<longrightarrow> states e1 y = states e y"
    using s by (auto simp: get_or_create_state_def split: option.splits)
  have same: "target\<lparr>target_net_delta_qty := Fin d0\<rparr> = target" using assms(2) by simp
  show ?thesis
    unfolding process_finite[OF assms s]
    using e1 same
    by (cases "dd < drawdown_trigger_pct e"; cases "is_active s"; cases "q = 0")
      (force simp: Let_def set_state_def recovery_state_reset_def split: prod.splits)+
qed

theorem recovery_tracks_drawdown_witness:
  "\<exists>d e' s'. process sample_recovery (Aware 0) (Aware 0) (sample_target 1) (sample_risk 4) (Fin 3) (Fin 1)
      = (Inr ((sample_target 1)\<lparr>target_net_delta_qty := Fin d\<rparr>), e')
     \<and> states e' ''BTC'' = Some s' \<and> is_active s'"
  using recovery_tracks_drawdown[of "sample_risk 4" 4 "sample_target 1" 1 sample_recovery "Aware 0" "Aware 0" 3 1]
  by (auto simp: sample_risk_def sample_target_def sample_recovery_def)

end
