(* ===== verification/Governor.thy ===== *)
theory Governor
  imports Recovery Calendar
begin

text \<open>
  The risk governor (\<open>engines/risk_governor.py\<close>): it turns a target delta into an execution
  decision, or a \<open>NOOP\<close> decision with a reason. The clock readings of a call are arguments
  (\<open>evaluate\<close> reads the clock once and \<open>_reject\<close> once more); \<open>None\<close> is a reading that is not a
  \<open>datetime\<close>. The sequence counter that numbers identifiers is the governor's state. The texts
  of the reasons are the constructors of a datatype.
\<close>

section \<open>State and clock\<close>

record RiskGovernor =
  max_leverage :: rat
  max_drawdown_pct :: rat
  max_margin_utilization_pct :: rat
  hedge_mode :: bool
  gov_sequence :: nat

definition RISK_OFF_STATES :: "RiskState set" where
  "RISK_OFF_STATES = {RS_NO_NEW_RISK, RS_RECOVERY_ONLY, RS_DELEVERAGE, RS_LIQUIDATING, RS_EMERGENCY}"

definition gov_now :: "datetime option \<Rightarrow> int res" where
  "gov_now reading =
     (case reading of
        None \<Rightarrow> Inl (ValueError ''RiskGovernor clock must return a datetime'')
      | Some (Naive _) \<Rightarrow> Inl (ValueError ''RiskGovernor clock must return a timezone-aware datetime'')
      | Some (Aware t) \<Rightarrow> Inr t)"

definition next_id :: "RiskGovernor \<Rightarrow> string \<Rightarrow> int \<Rightarrow> string \<times> RiskGovernor" where
  "next_id g prefix timestamp =
     (let n = gov_sequence g + 1 in (sequence_id prefix timestamp n, g\<lparr>gov_sequence := n\<rparr>))"

section \<open>Decisions\<close>

datatype risk_field = CurrentDrawdownPct | EffectiveLeverage | MarginUtilizationPct

datatype reason =
    NonFinite | Expired | ExpiryInvalid | UnknownRiskState | InvalidField risk_field
  | RiskOff RiskState | DrawdownLimit | LeverageLimit | MarginLimit | CrossesZero
  | BelowThreshold | Approved

definition gov_reject ::
  "RiskGovernor \<Rightarrow> datetime option \<Rightarrow> TargetExposure \<Rightarrow> reason \<Rightarrow> (reason ExecutionDecision \<times> RiskGovernor) res" where
  "gov_reject g reading target why =
     res_bind (gov_now reading) (\<lambda>now.
     let (i, g') = next_id g ''DEC'' now in
     Inr (\<lparr>decision_id = i, ed_symbol = te_symbol target, ed_action = ''NOOP'', ed_risk_class = NOOP, ed_orders = [],
           ed_rational = why, net_exposure_delta = 0, ed_timestamp = Aware now,
           ed_target_exposure_id = exposure_id target, ed_source_intent_ids = te_source_intent_ids target\<rparr>, g'))"

definition classify_risk :: "rat \<Rightarrow> rat \<Rightarrow> EconomicRiskClass option" where
  "classify_risk required_delta current_qty =
     (if current_qty = 0 then Some NEW_RISK
      else if (current_qty > 0 \<and> required_delta < 0) \<or> (current_qty < 0 \<and> required_delta > 0) then
        (if dabs required_delta > dabs current_qty then None
         else if dabs required_delta = dabs current_qty then Some CLOSE
         else Some REDUCE_RISK)
      else Some INCREASE_RISK)"

definition is_position_reduction :: "rat \<Rightarrow> rat \<Rightarrow> bool" where
  "is_position_reduction required_delta current_qty =
     (if current_qty > 0 then required_delta < 0 \<and> dabs required_delta \<le> dabs current_qty
      else if current_qty < 0 then required_delta > 0 \<and> dabs required_delta \<le> dabs current_qty
      else False)"

text \<open>The loop over the three fields of the snapshot: the first invalid one.\<close>

definition invalid_field :: "RiskSnapshot \<Rightarrow> risk_field option" where
  "invalid_field risk =
     (let bad = (\<lambda>d. case d of Fin x \<Rightarrow> x < 0 | _ \<Rightarrow> True) in
      if bad (current_drawdown_pct risk) then Some CurrentDrawdownPct
      else if bad (rs_effective_leverage risk) then Some EffectiveLeverage
      else if bad (rs_margin_utilization_pct risk) then Some MarginUtilizationPct
      else None)"

text \<open>The checks before a decision is built, in the order of the code: the reason of the
  rejection, if any.\<close>

definition gov_blocks :: "RiskGovernor \<Rightarrow> int \<Rightarrow> TargetExposure \<Rightarrow> RiskSnapshot \<Rightarrow> decimal \<Rightarrow> reason option" where
  "gov_blocks g now target risk current_position_qty =
     (case (target_net_delta_qty target, current_position_qty) of
        (Fin required_delta, Fin current_qty) \<Rightarrow>
          let is_reducing = is_position_reduction required_delta current_qty in
          (case expires_at target of
             None \<Rightarrow> Some ExpiryInvalid
           | Some (Naive _) \<Rightarrow> Some Expired
           | Some (Aware expiry) \<Rightarrow>
               if expiry \<le> now then Some Expired
               else if risk_state risk = None \<and> \<not> is_reducing then Some UnknownRiskState
               else
                 (case invalid_field risk of
                    Some f \<Rightarrow> Some (InvalidField f)
                  | None \<Rightarrow>
                      if \<not> is_reducing \<and> (\<exists>r \<in> RISK_OFF_STATES. risk_state risk = Some r)
                      then Some (RiskOff (the (risk_state risk)))
                      else if \<not> is_reducing \<and> finite_value (current_drawdown_pct risk) \<ge> max_drawdown_pct g
                      then Some DrawdownLimit
                      else if \<not> is_reducing \<and> finite_value (rs_effective_leverage risk) \<ge> max_leverage g
                      then Some LeverageLimit
                      else if \<not> is_reducing \<and> finite_value (rs_margin_utilization_pct risk) \<ge> max_margin_utilization_pct g
                      then Some MarginLimit
                      else None))
      | _ \<Rightarrow> Some NonFinite)"

definition gov_position_side :: "bool \<Rightarrow> EconomicRiskClass \<Rightarrow> rat \<Rightarrow> rat \<Rightarrow> PositionSide" where
  "gov_position_side hedge risk_class required_delta current_qty =
     (if \<not> hedge then BOTH
      else if risk_class \<in> {REDUCE_RISK, CLOSE} then (if current_qty > 0 then LONG else SHORT)
      else if required_delta > 0 then LONG else SHORT)"

definition gov_order :: "RiskGovernor \<Rightarrow> string \<Rightarrow> int \<Rightarrow> TargetExposure \<Rightarrow> EconomicRiskClass \<Rightarrow> rat \<Rightarrow> rat \<Rightarrow> OrderIntent" where
  "gov_order g i now target risk_class required_delta current_qty =
     \<lparr>oi_client_order_id = i, oi_symbol = te_symbol target, oi_market_type = te_market_type target,
      oi_side = (if required_delta > 0 then BUY else SELL),
      oi_position_side = gov_position_side (hedge_mode g) risk_class required_delta current_qty,
      oi_order_type = MARKET, oi_time_in_force = GTC, oi_quantity = Fin (dabs required_delta), oi_price = None,
      oi_reduce_only = (risk_class \<in> {REDUCE_RISK, CLOSE}), oi_post_only = False,
      oi_strategy_id = ''meta_allocator'', oi_source_intent_ids = te_source_intent_ids target,
      oi_created_at = Aware now\<rparr>"

definition gov_evaluate ::
  "RiskGovernor \<Rightarrow> datetime option \<Rightarrow> datetime option \<Rightarrow> TargetExposure \<Rightarrow> RiskSnapshot \<Rightarrow> decimal \<Rightarrow>
   (reason ExecutionDecision \<times> RiskGovernor) res" where
  "gov_evaluate g reading reject_reading target risk current_position_qty =
     res_bind (gov_now reading) (\<lambda>now.
     case gov_blocks g now target risk current_position_qty of
       Some why \<Rightarrow> gov_reject g reject_reading target why
     | None \<Rightarrow>
         let required_delta = finite_value (target_net_delta_qty target);
             current_qty = finite_value current_position_qty
         in if dabs required_delta < 1 / 1000 then
              (let (i, g') = next_id g ''DEC'' now in
               Inr (\<lparr>decision_id = i, ed_symbol = te_symbol target, ed_action = ''NOOP'', ed_risk_class = NOOP,
                 ed_orders = [], ed_rational = BelowThreshold, net_exposure_delta = 0, ed_timestamp = Aware now,
                 ed_target_exposure_id = exposure_id target, ed_source_intent_ids = te_source_intent_ids target\<rparr>, g'))
            else
              (case classify_risk required_delta current_qty of
                 None \<Rightarrow> gov_reject g reject_reading target CrossesZero
               | Some risk_class \<Rightarrow>
                   let (oid, g1) = next_id g ''B-SYS'' now;
                       order = gov_order g oid now target risk_class required_delta current_qty;
                       (did, g2) = next_id g1 ''DEC'' now
                   in Inr (\<lparr>decision_id = did, ed_symbol = te_symbol target, ed_action = ''SUBMIT_ORDER'',
                        ed_risk_class = risk_class, ed_orders = [order], ed_rational = Approved,
                        net_exposure_delta = required_delta, ed_timestamp = Aware now,
                        ed_target_exposure_id = exposure_id target,
                        ed_source_intent_ids = te_source_intent_ids target\<rparr>, g2)))"

section \<open>A run of the governor\<close>

text \<open>A sequence of calls on one governor; a call that raises leaves the counter alone. The
  result lists the identifiers handed out, decision and client order identifiers alike.\<close>

type_synonym gov_call = "datetime option \<times> datetime option \<times> TargetExposure \<times> RiskSnapshot \<times> decimal"

fun gov_run :: "RiskGovernor \<Rightarrow> gov_call list \<Rightarrow> string list \<times> RiskGovernor" where
  "gov_run g [] = ([], g)"
| "gov_run g ((r1, r2, target, risk, cur) # calls) =
     (case gov_evaluate g r1 r2 target risk cur of
        Inl _ \<Rightarrow> gov_run g calls
      | Inr (d, g') \<Rightarrow>
          let (ids, g'') = gov_run g' calls
          in (map oi_client_order_id (ed_orders d) @ decision_id d # ids, g''))"

section \<open>Lemmas\<close>

lemma gov_reject_Inr:
  assumes "gov_reject g reading target why = Inr (d, g')"
  shows "ed_orders d = []" "ed_risk_class d = NOOP" "net_exposure_delta d = 0"
    "\<exists>t. decision_id d = sequence_id ''DEC'' t (Suc (gov_sequence g))" "gov_sequence g' = Suc (gov_sequence g)"
  using assms by (auto simp: gov_reject_def next_id_def Let_def res_simps)

text \<open>The shape of every decision: either nothing to execute, or exactly one order for a target
  that passed all checks.\<close>

lemma gov_evaluate_cases:
  assumes "gov_evaluate g r1 r2 target risk cur = Inr (d, g')"
  obtains (noop) t where "ed_orders d = []" "ed_risk_class d = NOOP" "net_exposure_delta d = 0"
      "decision_id d = sequence_id ''DEC'' t (Suc (gov_sequence g))" "gov_sequence g' = Suc (gov_sequence g)"
  | (submit) now delta qty cls where "r1 = Some (Aware now)" "gov_blocks g now target risk cur = None"
      "target_net_delta_qty target = Fin delta" "cur = Fin qty" "1 / 1000 \<le> dabs delta"
      "classify_risk delta qty = Some cls" "ed_risk_class d = cls" "net_exposure_delta d = delta"
      "ed_orders d = [gov_order g (sequence_id ''B-SYS'' now (Suc (gov_sequence g))) now target cls delta qty]"
      "decision_id d = sequence_id ''DEC'' now (Suc (Suc (gov_sequence g)))" "gov_sequence g' = Suc (Suc (gov_sequence g))"
proof -
  from assms obtain now where r1: "r1 = Some (Aware now)"
    by (auto simp: gov_evaluate_def gov_now_def res_simps split: option.splits datetime.splits)
  have fin: "\<exists>delta qty. target_net_delta_qty target = Fin delta \<and> cur = Fin qty"
    if "gov_blocks g now target risk cur = None"
    using that by (auto simp: gov_blocks_def split: decimal.splits)
  show ?thesis
  proof (cases "gov_blocks g now target risk cur")
    case (Some why)
    with assms r1 have "gov_reject g r2 target why = Inr (d, g')" by (simp add: gov_evaluate_def gov_now_def)
    from gov_reject_Inr[OF this] show ?thesis using noop by blast
  next
    case None
    with fin obtain delta qty where q: "target_net_delta_qty target = Fin delta" "cur = Fin qty" by blast
    show ?thesis
    proof (cases "dabs delta < 1 / 1000")
      case True
      with assms r1 None q show ?thesis
        by (intro noop) (auto simp: gov_evaluate_def gov_now_def next_id_def Let_def)
    next
      case small: False
      show ?thesis
      proof (cases "classify_risk delta qty")
        case no_class: None
        with assms r1 None q small have "gov_reject g r2 target CrossesZero = Inr (d, g')"
          by (simp add: gov_evaluate_def gov_now_def)
        from gov_reject_Inr[OF this] show ?thesis using noop by blast
      next
        case (Some cls)
        with assms r1 None q small show ?thesis
          by (intro submit[OF r1 None q _ Some]) (auto simp: gov_evaluate_def gov_now_def next_id_def Let_def)
      qed
    qed
  qed
qed

text \<open>With working clocks the governor always decides.\<close>

lemma gov_evaluate_total:
  "\<exists>d g'. gov_evaluate g (Some (Aware t1)) (Some (Aware t2)) target risk cur = Inr (d, g')"
  by (auto simp: gov_evaluate_def gov_now_def gov_reject_def next_id_def Let_def split: option.splits)

lemma invalid_field_None:
  "invalid_field risk = None \<longleftrightarrow>
     (\<exists>a b c. current_drawdown_pct risk = Fin a \<and> rs_effective_leverage risk = Fin b
        \<and> rs_margin_utilization_pct risk = Fin c \<and> 0 \<le> a \<and> 0 \<le> b \<and> 0 \<le> c)"
  by (auto simp: invalid_field_def Let_def not_less split: decimal.splits if_splits)

lemma classify_risk_reduces:
  assumes "drep delta" "drep qty" "classify_risk delta qty = Some cls"
  shows "is_position_reduction delta qty \<longleftrightarrow> cls \<in> {REDUCE_RISK, CLOSE}"
  using assms(3)
  by (auto simp: classify_risk_def is_position_reduction_def dabs_rep[OF assms(1)] dabs_rep[OF assms(2)]
      split: if_splits)

lemma classify_risk_effect:
  assumes "drep delta" "drep qty" "classify_risk delta qty = Some cls" "delta \<noteq> 0"
  shows "if cls \<in> {REDUCE_RISK, CLOSE} then \<bar>qty + delta\<bar> = \<bar>qty\<bar> - \<bar>delta\<bar> \<and> 0 \<le> qty * (qty + delta)
    else \<bar>qty + delta\<bar> = \<bar>qty\<bar> + \<bar>delta\<bar>"
proof -
  note cls = assms(3)[unfolded classify_risk_def dabs_rep[OF assms(1)] dabs_rep[OF assms(2)]]
  consider "qty = 0" | "0 < qty" "0 < delta" | "qty < 0" "delta < 0" | "0 < qty" "delta < 0" | "qty < 0" "0 < delta"
    using assms(4) by linarith
  then show ?thesis
  proof cases
    case 4
    then have "0 \<le> qty + delta" "cls \<in> {REDUCE_RISK, CLOSE}" using cls by (auto split: if_splits)
    then show ?thesis using 4 by simp
  next
    case 5
    then have "qty + delta \<le> 0" "cls \<in> {REDUCE_RISK, CLOSE}" using cls by (auto split: if_splits)
    then show ?thesis using 5 by (simp add: mult_nonpos_nonpos)
  qed (use cls in auto)
qed

definition issued_after :: "nat \<Rightarrow> string \<Rightarrow> bool" where
  "issued_after k x \<longleftrightarrow> (\<exists>p t n. x = sequence_id p t n \<and> k < n)"

lemma issued_after_sequence_id [simp]: "issued_after k (sequence_id p t n) \<longleftrightarrow> k < n"
  unfolding issued_after_def using sequence_id_inj by blast

lemma issued_after_mono:
  assumes "issued_after k x" "j \<le> k"
  shows "issued_after j x"
proof -
  from assms(1) obtain p t n where x: "x = sequence_id p t n" unfolding issued_after_def by blast
  show ?thesis using assms unfolding x by simp
qed

definition signed_quantity :: "OrderIntent \<Rightarrow> rat" where
  "signed_quantity od = (case oi_side od of BUY \<Rightarrow> finite_value (oi_quantity od) | SELL \<Rightarrow> - finite_value (oi_quantity od))"

section \<open>Properties\<close>

text \<open>
  C4: The governor is fail-closed. Whenever its decision carries an order that is not
  reduce-only, the target had not expired at the clock reading, the risk state was known and
  not one of the five risk-off states, and drawdown, leverage and margin utilization were
  finite, non-negative and strictly below their limits.
\<close>

theorem new_risk_within_limits:
  assumes "gov_evaluate g r1 r2 target risk cur = Inr (d, g')"
    and "od \<in> set (ed_orders d)" "\<not> oi_reduce_only od"
  shows "\<exists>now expiry st dd lev marg. r1 = Some (Aware now) \<and> expires_at target = Some (Aware expiry) \<and> now < expiry
    \<and> risk_state risk = Some st \<and> st \<notin> RISK_OFF_STATES
    \<and> current_drawdown_pct risk = Fin dd \<and> 0 \<le> dd \<and> dd < max_drawdown_pct g
    \<and> rs_effective_leverage risk = Fin lev \<and> 0 \<le> lev \<and> lev < max_leverage g
    \<and> rs_margin_utilization_pct risk = Fin marg \<and> 0 \<le> marg \<and> marg < max_margin_utilization_pct g"
  using assms(1)
proof (cases rule: gov_evaluate_cases)
  case (submit now delta qty cls)
  have "cls \<notin> {REDUCE_RISK, CLOSE}" using assms(2,3) submit(9) by (auto simp: gov_order_def)
  then have nr: "\<not> is_position_reduction delta qty"
    using submit(6) by (auto simp: classify_risk_def is_position_reduction_def split: if_splits)
  from submit(2) nr show ?thesis
    unfolding submit(1)
    by (auto simp: gov_blocks_def submit(3,4) Let_def invalid_field_None not_le
        split: option.splits datetime.splits if_splits)
qed (use assms(2) in simp)


text \<open>
  What an approved decision does to the position. On representable quantities there is at
  most one order, its signed quantity is the decision's net exposure delta and the target's
  delta; a reduce-only order shrinks the position without crossing zero; any other order grows
  it (or opens one); a decision without an order has delta zero.
\<close>

theorem decision_moves_position:
  assumes "gov_evaluate g r1 r2 target risk (Fin qty) = Inr (d, g')"
    and "target_net_delta_qty target = Fin delta" "drep delta" "drep qty"
  shows "(ed_orders d = [] \<and> net_exposure_delta d = 0 \<and> ed_risk_class d = NOOP) \<or>
    (\<exists>od. ed_orders d = [od] \<and> signed_quantity od = delta \<and> net_exposure_delta d = delta
      \<and> oi_symbol od = te_symbol target \<and> delta \<noteq> 0
      \<and> (if oi_reduce_only od then \<bar>qty + delta\<bar> = \<bar>qty\<bar> - \<bar>delta\<bar> \<and> 0 \<le> qty * (qty + delta)
         else \<bar>qty + delta\<bar> = \<bar>qty\<bar> + \<bar>delta\<bar>))"
  using assms(1)
proof (cases rule: gov_evaluate_cases)
  case (submit now delta' qty' cls)
  then have eq: "delta' = delta" "qty' = qty" using assms(2) by auto
  have nz: "delta \<noteq> 0" using submit(5) eq by auto
  define od where "od = gov_order g (sequence_id ''B-SYS'' now (Suc (gov_sequence g))) now target cls delta qty"
  have "signed_quantity od = delta" "oi_symbol od = te_symbol target" "oi_reduce_only od \<longleftrightarrow> cls \<in> {REDUCE_RISK, CLOSE}"
    by (auto simp: od_def gov_order_def signed_quantity_def dabs_rep[OF assms(3)])
  moreover have "ed_orders d = [od]" using submit(9) by (simp only: eq od_def)
  moreover have "net_exposure_delta d = delta" using submit(8) by (simp only: eq)
  moreover note nz classify_risk_effect[OF assms(3,4) submit(6)[unfolded eq] nz]
  ultimately show ?thesis by metis
qed simp

text \<open>
  Identifiers are never reused: over any sequence of evaluations, rejections and clock
  failures included, all decision identifiers and client order identifiers that the governor
  hands out are pairwise distinct.
\<close>

theorem governor_ids_unique: "distinct (fst (gov_run g calls))"
proof -
  have "distinct (fst (gov_run g calls)) \<and> list_all (issued_after (gov_sequence g)) (fst (gov_run g calls))"
  proof (induction g calls rule: gov_run.induct)
    case (2 g r1 r2 target risk cur calls)
    show ?case
    proof (cases "gov_evaluate g r1 r2 target risk cur")
      case (Inr dg)
      obtain d g' where dg: "dg = (d, g')" by fastforce
      note ih = "2.IH"(2)[OF Inr dg[symmetric]]
      have fresh: "sequence_id p t n \<notin> set (fst (gov_run g' calls))" if "n \<le> gov_sequence g'" for p t n
        using ih that by (fastforce simp: list_all_iff)
      have later: "list_all (issued_after (gov_sequence g)) (fst (gov_run g' calls))"
        if "gov_sequence g \<le> gov_sequence g'"
        using ih issued_after_mono[OF _ that] by (auto simp: list_all_iff)
      from Inr dg have ev: "gov_evaluate g r1 r2 target risk cur = Inr (d, g')" by simp
      have out: "fst (gov_run g ((r1, r2, target, risk, cur) # calls))
          = map oi_client_order_id (ed_orders d) @ decision_id d # fst (gov_run g' calls)"
        using ev by (simp split: prod.splits)
      from ev show ?thesis
      proof (cases rule: gov_evaluate_cases)
        case (noop t)
        then show ?thesis unfolding out using ih fresh[of "Suc (gov_sequence g)" "''DEC''" t] later by simp
      next
        case (submit now delta qty cls)
        then show ?thesis unfolding out
          using ih fresh[of "Suc (gov_sequence g)" "''B-SYS''" now] fresh[of "Suc (Suc (gov_sequence g))" "''DEC''" now] later
            sequence_id_inj[of "''B-SYS''" now "Suc (gov_sequence g)" "''DEC''" now "Suc (Suc (gov_sequence g))"]
          by (auto simp: gov_order_def)
      qed
    qed (use "2.IH" in simp)
  qed simp
  then show ?thesis by blast
qed

text \<open>
  C5: Recovery and governor together: once the drawdown reaches the recovery trigger, no target
  that went through \<open>process\<close> is ever executed as \<open>NEW_RISK\<close> or \<open>INCREASE_RISK\<close>: the
  governor's decision on it is a reduction, a close or a \<open>NOOP\<close>, for every strategy target.
\<close>

theorem toxic_drawdown_never_adds_risk:
  assumes "process e c u target risk (Fin q) (Fin vf) = (Inr t', e')"
    and "gov_evaluate g r1 r2 t' risk (Fin q) = Inr (d, g')"
    and "current_drawdown_pct risk = Fin dd" "drawdown_trigger_pct e \<le> dd"
    and "target_net_delta_qty target = Fin d0" "0 \<le> vf" "0 \<le> max_hedge_ratio e"
  shows "ed_risk_class d \<in> {NOOP, REDUCE_RISK, CLOSE}"
proof -
  obtain s e1 where s: "get_or_create_state e c (te_symbol target) = (s, e1)" by fastforce
  have sign: "\<exists>x. target_net_delta_qty t' = Fin x \<and> (0 < q \<longrightarrow> x \<le> 0) \<and> (q < 0 \<longrightarrow> 0 \<le> x) \<and> (q = 0 \<longrightarrow> x = 0)"
    using assms(1) process_finite[OF assms(3,5) s, of u q vf] assms(4) action_delta_sign[of q vf e dd d0] assms(6,7)
    by (auto simp: Let_def split: prod.splits if_splits)
  from assms(2) show ?thesis
  proof (cases rule: gov_evaluate_cases)
    case (submit now delta qty cls)
    then have "delta \<noteq> 0" by auto
    with submit sign show ?thesis by (auto simp: classify_risk_def split: if_splits)
  qed simp
qed

section \<open>Witnesses\<close>

definition sample_governor :: RiskGovernor where
  "sample_governor = \<lparr>max_leverage = 2, max_drawdown_pct = 6, max_margin_utilization_pct = 70,
     hedge_mode = False, gov_sequence = 0\<rparr>"

lemma drep_small [simp]: "drep 1" "drep 2" "drep 3" "drep (- 1)" "drep (- 2)"
  using drep_of_int[of 1] drep_of_int[of 2] drep_of_int[of 3] drep_of_int[of "- 1"] drep_of_int[of "- 2"] by simp_all

lemmas sample_defs = sample_governor_def sample_target_def sample_risk_def sample_recovery_def

lemma sample_decision:
  "\<exists>d g'. gov_evaluate sample_governor (Some (Aware 0)) None (sample_target 2) (sample_risk 1) (Fin 0) = Inr (d, g')
     \<and> (\<exists>od. ed_orders d = [od] \<and> \<not> oi_reduce_only od)"
  by (simp add: gov_evaluate_def gov_now_def gov_blocks_def invalid_field_def is_position_reduction_def
      classify_risk_def RISK_OFF_STATES_def next_id_def gov_order_def dabs_rep sample_defs)

theorem new_risk_within_limits_witness:
  "\<exists>d g'. gov_evaluate sample_governor (Some (Aware 0)) None (sample_target 2) (sample_risk 1) (Fin 0) = Inr (d, g')
     \<and> ed_orders d \<noteq> [] \<and> (\<exists>lev. rs_effective_leverage (sample_risk 1) = Fin lev \<and> lev < max_leverage sample_governor)"
proof -
  obtain d g' od where "gov_evaluate sample_governor (Some (Aware 0)) None (sample_target 2) (sample_risk 1) (Fin 0) = Inr (d, g')"
    and "ed_orders d = [od]" "\<not> oi_reduce_only od" using sample_decision by blast
  with new_risk_within_limits[OF this(1), of od] show ?thesis by auto
qed


theorem decision_moves_position_witness:
  "\<exists>d g' od. gov_evaluate sample_governor (Some (Aware 0)) None (sample_target 2) (sample_risk 1) (Fin 0) = Inr (d, g')
     \<and> ed_orders d = [od] \<and> signed_quantity od = 2"
proof -
  obtain d g' od where ev: "gov_evaluate sample_governor (Some (Aware 0)) None (sample_target 2) (sample_risk 1) (Fin 0) = Inr (d, g')"
    and od: "ed_orders d = [od]" using sample_decision by blast
  have "target_net_delta_qty (sample_target 2) = Fin 2" by (simp add: sample_defs)
  from decision_moves_position[OF ev this] od ev show ?thesis by auto
qed

theorem toxic_drawdown_never_adds_risk_witness:
  "\<exists>t' e' d g'. process sample_recovery (Aware 0) (Aware 0) (sample_target 1) (sample_risk 3) (Fin 2) (Fin 1) = (Inr t', e')
     \<and> gov_evaluate sample_governor (Some (Aware 0)) (Some (Aware 0)) t' (sample_risk 3) (Fin 2) = Inr (d, g')
     \<and> ed_risk_class d \<in> {NOOP, REDUCE_RISK, CLOSE}"
proof -
  obtain t' e' where p: "process sample_recovery (Aware 0) (Aware 0) (sample_target 1) (sample_risk 3) (Fin 2) (Fin 1) = (Inr t', e')"
    using sample_process by blast
  obtain d g' where ev: "gov_evaluate sample_governor (Some (Aware 0)) (Some (Aware 0)) t' (sample_risk 3) (Fin 2) = Inr (d, g')"
    using gov_evaluate_total by blast
  have "ed_risk_class d \<in> {NOOP, REDUCE_RISK, CLOSE}"
    by (rule toxic_drawdown_never_adds_risk[OF p ev, of 3 1]) (simp_all add: sample_defs)
  with p ev show ?thesis by blast
qed

end
