(* ===== verification/Json.thy ===== *)
theory Json
  imports Calendar Domain
begin

text \<open>
  JSON values as \<open>json.loads\<close> delivers them, and the Python operations the venue adapter applies
  to them. A float is carried by its \<open>repr\<close>, which is all the program uses of it. The \<open>str\<close> of
  a list or an object is abbreviated: it parses as no number and equals no keyword, which is all
  the modelled code can observe of it.
\<close>

datatype json =
    JNull | JBool bool | JInt int | JFloat string | JStr string
  | JList "json list" | JObject "(string \<times> json) list"

definition show_int :: "int \<Rightarrow> string" where
  "show_int n = (if n < 0 then ''-'' @ show_nat (nat (- n)) else show_nat (nat n))"

fun py_str :: "json \<Rightarrow> string" where
  "py_str JNull = ''None''"
| "py_str (JBool b) = (if b then ''True'' else ''False'')"
| "py_str (JInt n) = show_int n"
| "py_str (JFloat r) = r"
| "py_str (JStr s) = s"
| "py_str (JList _) = ''[...]''"
| "py_str (JObject _) = ''{...}''"

text \<open>\<open>d.get(key)\<close> and \<open>d.get(key, default)\<close>.\<close>

definition json_get :: "(string \<times> json) list \<Rightarrow> string \<Rightarrow> json" where
  "json_get d key = (case map_of d key of Some v \<Rightarrow> v | None \<Rightarrow> JNull)"

definition json_get_or :: "(string \<times> json) list \<Rightarrow> string \<Rightarrow> json \<Rightarrow> json" where
  "json_get_or d key dflt = (case map_of d key of Some v \<Rightarrow> v | None \<Rightarrow> dflt)"

text \<open>\<open>value in (None, "")\<close>.\<close>

definition json_missing :: "json \<Rightarrow> bool" where
  "json_missing v = (v = JNull \<or> v = JStr [])"

text \<open>\<open>bool(value)\<close>.\<close>

fun json_truthy :: "json \<Rightarrow> bool" where
  "json_truthy JNull = False"
| "json_truthy (JBool b) = b"
| "json_truthy (JInt n) = (n \<noteq> 0)"
| "json_truthy (JFloat r) = (parse_float r \<noteq> Some (Fin 0))"
| "json_truthy (JStr s) = (s \<noteq> [])"
| "json_truthy (JList xs) = (xs \<noteq> [])"
| "json_truthy (JObject d) = (d \<noteq> [])"

text \<open>\<open>a or b\<close>.\<close>

definition json_or :: "json \<Rightarrow> json \<Rightarrow> json" where
  "json_or a b = (if json_truthy a then a else b)"

text \<open>\<open>Decimal(str(value))\<close>; \<open>None\<close> is \<open>InvalidOperation\<close>.\<close>

definition json_decimal :: "json \<Rightarrow> decimal option" where
  "json_decimal v = parse_decimal (py_str v)"

text \<open>\<open>int(value)\<close>: a string is parsed, a float truncated.\<close>

definition json_int :: "json \<Rightarrow> int res" where
  "json_int v =
     (case v of
        JInt n \<Rightarrow> Inr n
      | JBool b \<Rightarrow> Inr (if b then 1 else 0)
      | JStr s \<Rightarrow> (case parse_int s of Some n \<Rightarrow> Inr n | None \<Rightarrow> Inl (ValueError ''invalid literal for int()''))
      | JFloat r \<Rightarrow>
          (case parse_float r of
             Some (Fin x) \<Rightarrow> Inr (dint x)
           | Some (Inf _) \<Rightarrow> Inl OverflowError
           | _ \<Rightarrow> Inl (ValueError ''cannot convert float NaN to integer''))
      | _ \<Rightarrow> Inl TypeError)"

text \<open>Iteration over a value: the items of a list, the characters of a string, the keys of an
  object; other values are not iterable.\<close>

fun json_iter :: "json \<Rightarrow> json list res" where
  "json_iter (JList xs) = Inr xs"
| "json_iter (JStr s) = Inr (map (\<lambda>c. JStr [c]) s)"
| "json_iter (JObject d) = Inr (map (\<lambda>(k, v). JStr k) d)"
| "json_iter _ = Inl TypeError"

end
