(* ===== verification/SymbolRules.thy ===== *)
theory SymbolRules
  imports Json
begin

text \<open>
  Exchange trading rules of one symbol (\<open>venues/binance/symbol_rules.py\<close>): parsing of the exchange
  information, readiness, notional and percent-price limits, and the normalisation of quantities
  and prices to the exchange's step and tick. The only caller of \<open>parse_exchange_info\<close> drops the
  object when it raises, so the operation returns the new rules or the exception. All decimals of
  the rules are finite, which \<open>decimal_filter_value\<close> checks.
\<close>

section \<open>Rules\<close>

record SymbolTradingRules =
  r_symbol :: string
  base_asset :: string
  quote_asset :: string
  margin_asset :: string
  contract_type :: string
  price_precision :: "int option"
  quantity_precision :: "int option"
  r_status :: string
  tick_size :: rat
  tick_exponent :: int \<comment> \<open>\<open>tick_size.as_tuple().exponent\<close>\<close>
  min_price :: rat
  max_price :: rat
  step_size :: rat
  step_exponent :: int
  min_qty :: rat
  max_qty :: rat
  market_min_qty :: "rat option"
  market_max_qty :: "rat option"
  market_step_size :: "rat option"
  min_notional :: rat
  max_notional :: rat
  min_notional_apply_to_market :: bool
  max_notional_apply_to_market :: bool
  percent_price_multiplier_up :: "rat option"
  percent_price_multiplier_down :: "rat option"
  percent_price_bid_multiplier_up :: "rat option"
  percent_price_bid_multiplier_down :: "rat option"
  percent_price_ask_multiplier_up :: "rat option"
  percent_price_ask_multiplier_down :: "rat option"
  supported_order_types :: "string list"
  parsed_from_exchange_info :: bool
  seen_filter_types :: "string set"
  min_notional_constraints :: "(rat \<times> bool) list"
  max_notional_constraints :: "(rat \<times> bool) list"

definition rules_init :: "string \<Rightarrow> SymbolTradingRules" where
  "rules_init symbol = \<lparr>r_symbol = symbol, base_asset = [], quote_asset = [], margin_asset = [],
     contract_type = [], price_precision = None, quantity_precision = None, r_status = ''UNKNOWN'',
     tick_size = 0, tick_exponent = - 1, min_price = 0, max_price = 0, step_size = 0, step_exponent = - 1,
     min_qty = 0, max_qty = 0, market_min_qty = None, market_max_qty = None, market_step_size = None,
     min_notional = 0, max_notional = 0, min_notional_apply_to_market = True,
     max_notional_apply_to_market = True, percent_price_multiplier_up = None,
     percent_price_multiplier_down = None, percent_price_bid_multiplier_up = None,
     percent_price_bid_multiplier_down = None, percent_price_ask_multiplier_up = None,
     percent_price_ask_multiplier_down = None, supported_order_types = [],
     parsed_from_exchange_info = False, seen_filter_types = {}, min_notional_constraints = [],
     max_notional_constraints = []\<rparr>"

definition has_percent_price_filter :: "SymbolTradingRules \<Rightarrow> bool" where
  "has_percent_price_filter r =
     (''PERCENT_PRICE'' \<in> seen_filter_types r \<or> ''PERCENT_PRICE_BY_SIDE'' \<in> seen_filter_types r)"

section \<open>Parsing\<close>

definition parse_precision :: "json \<Rightarrow> int option res" where
  "parse_precision v =
     (if json_missing v then Inr None
      else
        (case json_int v of
           Inr n \<Rightarrow> if n < 0 then Inl (ValueError ''Exchange symbol has invalid precision'') else Inr (Some n)
         | Inl OverflowError \<Rightarrow> Inl OverflowError
         | Inl _ \<Rightarrow> Inl (ValueError ''Exchange symbol has invalid precision'')))"

definition decimal_places :: "rat \<Rightarrow> int \<Rightarrow> int" where
  "decimal_places x exponent = (if x \<le> 0 then 0 else max 0 (- exponent))"

text \<open>The value and the exponent of the first of the named fields that is present.\<close>

definition decimal_filter_literal :: "(string \<times> json) list \<Rightarrow> string list \<Rightarrow> (rat \<times> int) res" where
  "decimal_filter_literal f names =
     (case find (\<lambda>name. \<not> json_missing (json_get f name)) names of
        None \<Rightarrow> Inl (ValueError ''Exchange filter is missing a field'')
      | Some name \<Rightarrow>
          (case parse_literal (py_str (json_get f name)) of
             None \<Rightarrow> Inl (ValueError ''Exchange filter has an invalid field'')
           | Some (LNum c e) \<Rightarrow> Inr (of_int c * 10 powi e, e)
           | Some _ \<Rightarrow> Inl (ValueError ''Exchange filter has a non-finite field'')))"

definition decimal_filter_value :: "(string \<times> json) list \<Rightarrow> string list \<Rightarrow> rat res" where
  "decimal_filter_value f names = res_bind (decimal_filter_literal f names) (\<lambda>(x, e). Inr x)"

definition bool_filter_value :: "(string \<times> json) list \<Rightarrow> string \<Rightarrow> bool res" where
  "bool_filter_value f name =
     (let raw = json_get f name; invalid = Inl (ValueError ''Exchange filter has an invalid flag'') in
      if json_missing raw then Inr True
      else
        (case raw of
           JBool b \<Rightarrow> Inr b
         | JInt n \<Rightarrow> Inr (n \<noteq> 0)
         | JFloat r \<Rightarrow> Inr (json_truthy raw)
         | JStr s \<Rightarrow>
             let normalized = lower (strip s) in
             if normalized \<in> {''1'', ''true'', ''yes'', ''on''} then Inr True
             else if normalized \<in> {''0'', ''false'', ''no'', ''off''} then Inr False
             else invalid
         | _ \<Rightarrow> invalid))"

definition add_min_notional :: "rat \<Rightarrow> bool \<Rightarrow> SymbolTradingRules \<Rightarrow> SymbolTradingRules res" where
  "add_min_notional v applies r =
     (if v \<le> 0 then Inl (ValueError ''Exchange minimum notional must be positive'')
      else
        let cs = min_notional_constraints r @ [(v, applies)] in
        Inr (r\<lparr>min_notional_constraints := cs, min_notional := max (min_notional r) v,
               min_notional_apply_to_market := list_ex snd cs\<rparr>))"

definition add_max_notional :: "rat \<Rightarrow> bool \<Rightarrow> SymbolTradingRules \<Rightarrow> SymbolTradingRules res" where
  "add_max_notional v applies r =
     (if v < 0 then Inl (ValueError ''Exchange maximum notional must be non-negative'')
      else if v = 0 then Inr r
      else
        let cs = max_notional_constraints r @ [(v, applies)] in
        Inr (r\<lparr>max_notional_constraints := cs, max_notional := Min (set (map fst cs)),
               max_notional_apply_to_market := list_all snd cs\<rparr>))"

definition parse_percent_by_side :: "(string \<times> json) list \<Rightarrow> SymbolTradingRules \<Rightarrow> SymbolTradingRules res" where
  "parse_percent_by_side f r =
     res_bind (decimal_filter_value f [''bidMultiplierUp'']) (\<lambda>bu.
     res_bind (decimal_filter_value f [''bidMultiplierDown'']) (\<lambda>bd.
     res_bind (decimal_filter_value f [''askMultiplierUp'']) (\<lambda>au.
     res_bind (decimal_filter_value f [''askMultiplierDown'']) (\<lambda>ad.
     Inr (r\<lparr>percent_price_bid_multiplier_up := Some bu, percent_price_bid_multiplier_down := Some bd,
       percent_price_ask_multiplier_up := Some au, percent_price_ask_multiplier_down := Some ad\<rparr>)))))"

definition parse_notional :: "(string \<times> json) list \<Rightarrow> SymbolTradingRules \<Rightarrow> SymbolTradingRules res" where
  "parse_notional f r =
     res_bind (decimal_filter_value f [''minNotional'', ''notional'']) (\<lambda>lo.
     res_bind (bool_filter_value f ''applyMinToMarket'') (\<lambda>lo_market.
     res_bind (add_min_notional lo lo_market r) (\<lambda>r1.
     if json_missing (json_get f ''maxNotional'')
     then Inl (ValueError ''Exchange NOTIONAL filter is missing maxNotional'')
     else
       res_bind (decimal_filter_value f [''maxNotional'']) (\<lambda>hi.
       res_bind (bool_filter_value f ''applyMaxToMarket'') (\<lambda>hi_market.
       add_max_notional hi hi_market r1)))))"

text \<open>\<open>f.get("filterType", "")\<close>, upper-cased.\<close>

definition filter_type :: "(string \<times> json) list \<Rightarrow> string" where
  "filter_type f = upper (py_str (json_get_or f ''filterType'' (JStr [])))"

definition parse_filter_fields :: "(string \<times> json) list \<Rightarrow> SymbolTradingRules \<Rightarrow> SymbolTradingRules res" where
  "parse_filter_fields f r =
     (let t = filter_type f in
      if t = ''PRICE_FILTER'' then
        res_bind (decimal_filter_value f [''minPrice'']) (\<lambda>lo.
        res_bind (decimal_filter_value f [''maxPrice'']) (\<lambda>hi.
        res_bind (decimal_filter_literal f [''tickSize'']) (\<lambda>(tick, e).
        Inr (r\<lparr>min_price := lo, max_price := hi, tick_size := tick, tick_exponent := e\<rparr>))))
      else if t = ''LOT_SIZE'' then
        res_bind (decimal_filter_value f [''minQty'']) (\<lambda>lo.
        res_bind (decimal_filter_value f [''maxQty'']) (\<lambda>hi.
        res_bind (decimal_filter_literal f [''stepSize'']) (\<lambda>(stp, e).
        Inr (r\<lparr>min_qty := lo, max_qty := hi, step_size := stp, step_exponent := e\<rparr>))))
      else if t = ''MARKET_LOT_SIZE'' then
        res_bind (decimal_filter_value f [''minQty'']) (\<lambda>lo.
        res_bind (decimal_filter_value f [''maxQty'']) (\<lambda>hi.
        res_bind (decimal_filter_value f [''stepSize'']) (\<lambda>stp.
        Inr (r\<lparr>market_min_qty := Some lo, market_max_qty := Some hi, market_step_size := Some stp\<rparr>))))
      else if t = ''MIN_NOTIONAL'' then
        res_bind (decimal_filter_value f [''notional'', ''minNotional'']) (\<lambda>v.
        res_bind (bool_filter_value f ''applyToMarket'') (\<lambda>applies. add_min_notional v applies r))
      else if t = ''NOTIONAL'' then parse_notional f r
      else if t = ''PERCENT_PRICE'' then
        res_bind (decimal_filter_value f [''multiplierUp'']) (\<lambda>up.
        res_bind (decimal_filter_value f [''multiplierDown'']) (\<lambda>down.
        Inr (r\<lparr>percent_price_multiplier_up := Some up, percent_price_multiplier_down := Some down\<rparr>)))
      else if t = ''PERCENT_PRICE_BY_SIDE'' then parse_percent_by_side f r
      else Inr r)"

definition parse_filter :: "json \<Rightarrow> SymbolTradingRules \<Rightarrow> SymbolTradingRules res" where
  "parse_filter v r =
     (case v of
        JObject f \<Rightarrow> parse_filter_fields f (r\<lparr>seen_filter_types := insert (filter_type f) (seen_filter_types r)\<rparr>)
      | _ \<Rightarrow> Inl (ValueError ''Exchange symbol filter must be an object''))"

definition parse_exchange_info :: "SymbolTradingRules \<Rightarrow> json \<Rightarrow> SymbolTradingRules res" where
  "parse_exchange_info r0 symbol_data =
     (case symbol_data of
        JObject d \<Rightarrow>
          let text = (\<lambda>key dflt. upper (py_str (json_get_or d key (JStr dflt)))) in
          res_bind (json_iter (json_get_or d ''orderTypes'' (JList []))) (\<lambda>types.
          res_bind (parse_precision (json_get d ''pricePrecision'')) (\<lambda>pp.
          res_bind (parse_precision (json_get d ''quantityPrecision'')) (\<lambda>qp.
          let r1 = (rules_init (r_symbol r0))\<lparr>r_status := text ''status'' ''UNKNOWN'',
                base_asset := text ''baseAsset'' [], quote_asset := text ''quoteAsset'' [],
                margin_asset := text ''marginAsset'' [], contract_type := text ''contractType'' [],
                supported_order_types := map (\<lambda>t. upper (py_str t)) types,
                price_precision := pp, quantity_precision := qp, parsed_from_exchange_info := True\<rparr>
          in case json_get_or d ''filters'' (JList []) of
               JList filters \<Rightarrow>
                 res_bind (res_fold parse_filter filters r1) (\<lambda>r.
                 Inr (r\<lparr>price_precision := Some (case price_precision r of Some n \<Rightarrow> n
                          | None \<Rightarrow> decimal_places (tick_size r) (tick_exponent r)),
                        quantity_precision := Some (case quantity_precision r of Some n \<Rightarrow> n
                          | None \<Rightarrow> decimal_places (step_size r) (step_exponent r))\<rparr>))
             | _ \<Rightarrow> Inl (ValueError ''Exchange symbol filters must be a list''))))
      | _ \<Rightarrow> Inl (ValueError ''Exchange symbol information must be an object''))"

section \<open>Readiness and limits\<close>

definition valid_multiplier :: "rat option \<Rightarrow> bool" where
  "valid_multiplier v = (case v of Some x \<Rightarrow> x > 0 | None \<Rightarrow> False)"

definition percent_price_rules_ready :: "SymbolTradingRules \<Rightarrow> bool" where
  "percent_price_rules_ready r =
     ((''PERCENT_PRICE'' \<in> seen_filter_types r \<longrightarrow>
         valid_multiplier (percent_price_multiplier_up r) \<and> valid_multiplier (percent_price_multiplier_down r)
         \<and> the (percent_price_multiplier_up r) \<ge> the (percent_price_multiplier_down r))
      \<and> (''PERCENT_PRICE_BY_SIDE'' \<in> seen_filter_types r \<longrightarrow>
         valid_multiplier (percent_price_bid_multiplier_up r) \<and> valid_multiplier (percent_price_bid_multiplier_down r)
         \<and> valid_multiplier (percent_price_ask_multiplier_up r) \<and> valid_multiplier (percent_price_ask_multiplier_down r)
         \<and> the (percent_price_bid_multiplier_up r) \<ge> the (percent_price_bid_multiplier_down r)
         \<and> the (percent_price_ask_multiplier_up r) \<ge> the (percent_price_ask_multiplier_down r)))"

definition min_notional_for :: "SymbolTradingRules \<Rightarrow> string \<Rightarrow> rat" where
  "min_notional_for r order_type =
     (if upper order_type \<noteq> ''MARKET'' \<or> min_notional_constraints r = [] then min_notional r
      else
        let applicable = map fst (filter snd (min_notional_constraints r))
        in if applicable = [] then 0 else Max (set applicable))"

definition max_notional_for :: "SymbolTradingRules \<Rightarrow> string \<Rightarrow> rat" where
  "max_notional_for r order_type =
     (if upper order_type \<noteq> ''MARKET'' \<or> max_notional_constraints r = [] then max_notional r
      else
        let applicable = map fst (filter snd (max_notional_constraints r))
        in if applicable = [] then 0 else Min (set applicable))"

datatype percent_price_reason =
    PercentIncomplete | PercentNoReference | PercentBadSide | PercentOutside rat "rat option"

definition intersect_band :: "rat \<Rightarrow> rat option \<Rightarrow> rat option \<Rightarrow> rat \<times> rat option \<Rightarrow> rat \<times> rat option" where
  "intersect_band reference down up band =
     (let candidate = dmul reference (the up) in
      (max (fst band) (dmul reference (the down)),
       Some (case snd band of None \<Rightarrow> candidate | Some u \<Rightarrow> min u candidate)))"

text \<open>\<open>None\<close> is acceptance.\<close>

definition validate_percent_price :: "SymbolTradingRules \<Rightarrow> rat \<Rightarrow> string \<Rightarrow> decimal option \<Rightarrow> percent_price_reason option" where
  "validate_percent_price r price side reference_price =
     (if \<not> has_percent_price_filter r then None
      else if \<not> percent_price_rules_ready r then Some PercentIncomplete
      else
        (case finite_of reference_price of
           None \<Rightarrow> Some PercentNoReference
         | Some reference \<Rightarrow>
             if reference \<le> 0 then Some PercentNoReference
             else if upper side \<notin> {''BUY'', ''SELL''} then Some PercentBadSide
             else
               let b1 = (if ''PERCENT_PRICE'' \<in> seen_filter_types r
                     then intersect_band reference (percent_price_multiplier_down r) (percent_price_multiplier_up r) (0, None)
                     else (0, None));
                   (lo, hi) = (if ''PERCENT_PRICE_BY_SIDE'' \<in> seen_filter_types r
                     then if upper side = ''BUY''
                          then intersect_band reference (percent_price_bid_multiplier_down r) (percent_price_bid_multiplier_up r) b1
                          else intersect_band reference (percent_price_ask_multiplier_down r) (percent_price_ask_multiplier_up r) b1
                     else b1)
               in if price < lo \<or> (case hi of Some u \<Rightarrow> price > u | None \<Rightarrow> False)
                  then Some (PercentOutside lo hi) else None))"

definition market_lot_ready :: "SymbolTradingRules \<Rightarrow> bool" where
  "market_lot_ready r =
     (case (market_step_size r, market_min_qty r, market_max_qty r) of
        (Some stp, Some lo, Some hi) \<Rightarrow> stp > 0 \<and> lo > 0 \<and> hi \<ge> lo
      | _ \<Rightarrow> False)"

definition is_ready_for :: "SymbolTradingRules \<Rightarrow> string \<Rightarrow> bool" where
  "is_ready_for r order_type =
     (r_status r = ''TRADING'' \<and> tick_size r > 0
      \<and> (parsed_from_exchange_info r \<longrightarrow> min_price r > 0 \<and> max_price r \<ge> min_price r)
      \<and> step_size r > 0 \<and> min_qty r > 0 \<and> max_qty r \<ge> min_qty r \<and> min_notional r > 0
      \<and> (parsed_from_exchange_info r \<longrightarrow>
           {''PRICE_FILTER'', ''LOT_SIZE''} \<subseteq> seen_filter_types r
           \<and> (''MIN_NOTIONAL'' \<in> seen_filter_types r \<or> ''NOTIONAL'' \<in> seen_filter_types r)
           \<and> (upper order_type = ''MARKET'' \<and> ''MARKET_LOT_SIZE'' \<in> seen_filter_types r \<longrightarrow> market_lot_ready r)
           \<and> percent_price_rules_ready r \<and> supported_order_types r \<noteq> [])
      \<and> (supported_order_types r = [] \<or> upper order_type \<in> set (supported_order_types r)))"

definition is_usdc_perpetual :: "SymbolTradingRules \<Rightarrow> bool" where
  "is_usdc_perpetual r = (r_status r = ''TRADING'' \<and> contract_type r = ''PERPETUAL''
     \<and> quote_asset r = ''USDC'' \<and> margin_asset r = ''USDC'')"

definition to_instrument :: "string \<Rightarrow> MarketType \<Rightarrow> SymbolTradingRules \<Rightarrow> Instrument res" where
  "to_instrument venue market_type r =
     (if base_asset r = [] \<or> quote_asset r = [] then Inl (ValueError ''Exchange asset metadata is missing'')
      else if \<not> is_ready_for r ''LIMIT'' then Inl (ValueError ''Exchange trading rules are incomplete'')
      else
        (case (price_precision r, quantity_precision r) of
           (Some pp, Some qp) \<Rightarrow>
             Inr \<lparr>ins_symbol = upper (r_symbol r), ins_venue = venue, ins_market_type = market_type,
               ins_base_asset = base_asset r, ins_quote_asset = quote_asset r, ins_tick_size = tick_size r,
               ins_step_size = step_size r, ins_min_notional = min_notional r, ins_price_precision = pp,
               ins_quantity_precision = qp, ins_is_trading_enabled = (r_status r = ''TRADING'')\<rparr>
         | _ \<Rightarrow> Inl (ValueError ''Exchange precision metadata is missing'')))"

section \<open>Normalisation\<close>

definition normalize_quantity :: "SymbolTradingRules \<Rightarrow> rat \<Rightarrow> bool \<Rightarrow> rat" where
  "normalize_quantity r quantity is_market =
     (let stp = (case market_step_size r of
            Some ms \<Rightarrow> if is_market \<and> ms \<noteq> 0 then ms else step_size r
          | None \<Rightarrow> step_size r)
      in if stp = 0 then quantity
         else if quantity \<le> 0 then 0
         else dmul (of_int (dint (ddiv quantity stp))) stp)"

definition normalize_price :: "SymbolTradingRules \<Rightarrow> rat \<Rightarrow> bool \<Rightarrow> rat" where
  "normalize_price r price round_up =
     (if tick_size r = 0 then price
      else if price \<le> 0 then 0
      else
        let steps = dint (ddiv price (tick_size r));
            steps' = (if round_up \<and> dmul (of_int steps) (tick_size r) < price then steps + 1 else steps)
        in dmul (of_int steps') (tick_size r))"

section \<open>Lemmas: rounding to a grid\<close>

text \<open>
  Values that are multiples of \<open>10 ^ -e\<close> below \<open>10 ^ 27\<close> units divide exactly enough: the rounded
  quotient has the same integer part as the true one.
\<close>

lemma dint_quotient:
  assumes "0 < m" "n \<le> 10 ^ 27"
  shows "dint (ddiv (of_nat n / 10 ^ e) (of_nat m / 10 ^ e)) = int (n div m)"
proof -
  let ?x = "of_nat n / of_nat m :: rat"
  have q: "ddiv (of_nat n / 10 ^ e) (of_nat m / 10 ^ e) = dround ?x" by (simp add: ddiv_def)
  have m: "(0 :: rat) < of_nat m" using assms(1) by simp
  have split: "(of_nat n :: rat) = of_nat (n div m) * of_nat m + of_nat (n mod m)"
    by (metis div_mult_mod_eq of_nat_add of_nat_mult)
  have lower: "of_nat (n div m) \<le> ?x"
    using m split by (simp add: le_divide_eq)
  have "n div m \<le> 10 ^ 27" using assms(2) div_le_dividend le_trans by blast
  then have rep: "drep (of_int (int (n div m)))" by (intro drep_of_int) (simp add: of_nat_diff flip: of_nat_power)
  have ge: "of_nat (n div m) \<le> dround ?x" using dround_ge_rep[OF lower] rep by simp
  have lt: "dround ?x < of_nat (n div m) + 1"
  proof (cases "n = 0")
    case False
    then have "dround ?x \<le> ?x * (1 + 1 / (2 * 10 ^ 27))" using m by (intro dround_upper) simp
    also have "\<dots> = (of_nat n + of_nat n / (2 * 10 ^ 27)) / of_nat m" by (simp add: field_simps)
    also have "\<dots> < (of_nat n + 1) / of_nat m"
    proof -
      have "(of_nat n :: rat) \<le> 10 ^ 27" using assms(2) by (metis of_nat_le_iff of_nat_numeral of_nat_power)
      then show ?thesis using m by (intro divide_strict_right_mono) auto
    qed
    also have "\<dots> \<le> of_nat (n div m) + 1"
    proof -
      have "n mod m + 1 \<le> m" using assms(1) by (simp add: Suc_leI)
      then have "(of_nat (n mod m) + 1 :: rat) \<le> of_nat m" by (metis of_nat_1 of_nat_add of_nat_le_iff)
      then show ?thesis using m by (subst split) (simp add: divide_le_eq algebra_simps)
    qed
    finally show ?thesis .
  qed simp
  have "0 \<le> dround ?x" using m by simp
  then show ?thesis using ge lt unfolding q by (simp add: floor_eq_iff)
qed

lemma dmul_grid:
  assumes "k * m \<le> 10 ^ 28"
  shows "dmul (of_nat k) (of_nat m / 10 ^ e) = of_nat (k * m) / 10 ^ e"
proof -
  have "drep (of_int (int (k * m)) / 10 ^ e)" by (rule drep_scaled) (use assms in \<open>simp flip: of_nat_mult of_nat_power\<close>)
  then show ?thesis by (simp add: dmul_def dround_rep)
qed

section \<open>Lemmas: notional constraints\<close>

definition notional_ok :: "SymbolTradingRules \<Rightarrow> bool" where
  "notional_ok r \<longleftrightarrow>
     min_notional r = Max (insert 0 (fst ` set (min_notional_constraints r)))
     \<and> (\<forall>c \<in> set (min_notional_constraints r). 0 < fst c)
     \<and> max_notional r = (if max_notional_constraints r = [] then 0 else Min (fst ` set (max_notional_constraints r)))
     \<and> (\<forall>c \<in> set (max_notional_constraints r). 0 < fst c)"

lemma notional_ok_add_min:
  assumes "add_min_notional v b r = Inr r'" "notional_ok r"
  shows "notional_ok r'"
proof -
  have "Max (insert 0 (insert v S)) = max (Max (insert 0 S)) v" if "finite S" for S
    using that by (subst insert_commute) (simp add: max.commute)
  then show ?thesis using assms by (auto simp: add_min_notional_def notional_ok_def Let_def split: if_splits)
qed

lemma notional_ok_add_max: "add_max_notional v b r = Inr r' \<Longrightarrow> notional_ok r \<Longrightarrow> notional_ok r'"
  by (auto simp: add_max_notional_def notional_ok_def Let_def split: if_splits)

lemma notional_ok_updates [simp]:
  "notional_ok (r\<lparr>seen_filter_types := x\<rparr>) = notional_ok r"
  "notional_ok (r\<lparr>min_price := a, max_price := b, tick_size := c, tick_exponent := e\<rparr>) = notional_ok r"
  "notional_ok (r\<lparr>min_qty := a, max_qty := b, step_size := c, step_exponent := e\<rparr>) = notional_ok r"
  "notional_ok (r\<lparr>market_min_qty := ma, market_max_qty := mb, market_step_size := mc\<rparr>) = notional_ok r"
  "notional_ok (r\<lparr>percent_price_multiplier_up := ma, percent_price_multiplier_down := mb\<rparr>) = notional_ok r"
  "notional_ok (r\<lparr>percent_price_bid_multiplier_up := ma, percent_price_bid_multiplier_down := mb,
     percent_price_ask_multiplier_up := mc, percent_price_ask_multiplier_down := md\<rparr>) = notional_ok r"
  by (simp_all add: notional_ok_def)

text \<open>A \<open>NOTIONAL\<close> filter adds a minimum and, when it is not zero, a maximum.\<close>

lemma parse_notional_Inr:
  assumes "parse_notional f r = Inr r'"
  obtains lo lb r1 hi hb where "decimal_filter_value f [''minNotional'', ''notional''] = Inr lo"
    "add_min_notional lo lb r = Inr r1" "decimal_filter_value f [''maxNotional''] = Inr hi"
    "add_max_notional hi hb r1 = Inr r'"
  using assms by (auto simp: parse_notional_def res_simps split: if_splits)

lemma parse_notional_ok: "parse_notional f r = Inr r' \<Longrightarrow> notional_ok r \<Longrightarrow> notional_ok r'"
  by (elim parse_notional_Inr) (metis notional_ok_add_min notional_ok_add_max)

lemma parse_filter_notional_ok:
  assumes "parse_filter v r = Inr r'" "notional_ok r"
  shows "notional_ok r'"
  using assms
  by (auto simp: parse_filter_def parse_filter_fields_def Let_def res_simps parse_percent_by_side_def
      split: json.splits if_splits prod.splits intro: notional_ok_add_min parse_notional_ok)

lemma add_notional_mono:
  "add_min_notional v b r = Inr r' \<Longrightarrow> set (min_notional_constraints r') = insert (v, b) (set (min_notional_constraints r))"
  "add_min_notional v b r = Inr r' \<Longrightarrow> max_notional_constraints r' = max_notional_constraints r"
  "add_max_notional v b r = Inr r' \<Longrightarrow> min_notional_constraints r' = min_notional_constraints r"
  "add_max_notional v b r = Inr r' \<Longrightarrow> set (max_notional_constraints r) \<subseteq> set (max_notional_constraints r')"
  "add_max_notional v b r = Inr r' \<Longrightarrow> v \<noteq> 0 \<Longrightarrow> (v, b) \<in> set (max_notional_constraints r')"
  by (auto simp: add_min_notional_def add_max_notional_def Let_def split: if_splits)

lemma parse_notional_mono:
  assumes "parse_notional f r = Inr r'"
  shows "set (min_notional_constraints r) \<subseteq> set (min_notional_constraints r')"
    "set (max_notional_constraints r) \<subseteq> set (max_notional_constraints r')"
proof -
  from assms obtain lo lb r1 hi hb where a: "add_min_notional lo lb r = Inr r1" "add_max_notional hi hb r1 = Inr r'"
    by (rule parse_notional_Inr)
  show "set (min_notional_constraints r) \<subseteq> set (min_notional_constraints r')"
    "set (max_notional_constraints r) \<subseteq> set (max_notional_constraints r')"
    using add_notional_mono(1,2)[OF a(1)] add_notional_mono(3,4)[OF a(2)] by auto
qed

lemma parse_filter_mono:
  assumes "parse_filter v r = Inr r'"
  shows "set (min_notional_constraints r) \<subseteq> set (min_notional_constraints r')"
    "set (max_notional_constraints r) \<subseteq> set (max_notional_constraints r')"
  using assms
  by (auto simp: parse_filter_def parse_filter_fields_def Let_def res_simps
      parse_percent_by_side_def add_notional_mono(1,2) dest: parse_notional_mono[THEN subsetD]
      split: json.splits if_splits prod.splits)

lemma notional_ok_init [simp]:
  "notional_ok ((rules_init s)\<lparr>r_status := a, base_asset := b, quote_asset := c, margin_asset := ma, contract_type := ct,
     supported_order_types := ts, price_precision := pp, quantity_precision := qp, parsed_from_exchange_info := pe\<rparr>)"
  by (simp add: notional_ok_def rules_init_def)

lemma parse_exchange_info_Inr:
  assumes "parse_exchange_info r0 (JObject d) = Inr r"
  obtains filters r1 r2 where "json_get_or d ''filters'' (JList []) = JList filters"
    "res_fold parse_filter filters r1 = Inr r2" "notional_ok r1"
    "min_notional r = min_notional r2" "max_notional r = max_notional r2"
    "min_notional_constraints r = min_notional_constraints r2" "max_notional_constraints r = max_notional_constraints r2"
proof (cases "json_get_or d ''filters'' (JList [])")
  case (JList filters)
  then show ?thesis using assms that[OF JList]
    by (auto simp: parse_exchange_info_def Let_def res_simps)
qed (use assms in \<open>auto simp: parse_exchange_info_def Let_def res_simps\<close>)

lemma notional_ok_bounds:
  assumes "notional_ok r"
  shows "(v, b) \<in> set (min_notional_constraints r) \<Longrightarrow> v \<le> min_notional_for r ''LIMIT'' \<and> (b \<longrightarrow> v \<le> min_notional_for r ''MARKET'')"
    and "(v, b) \<in> set (max_notional_constraints r) \<Longrightarrow>
      0 < max_notional_for r ''LIMIT'' \<and> max_notional_for r ''LIMIT'' \<le> v
      \<and> (b \<longrightarrow> 0 < max_notional_for r ''MARKET'' \<and> max_notional_for r ''MARKET'' \<le> v)"
proof -
  have up: "upper ''LIMIT'' = ''LIMIT''" "upper ''MARKET'' = ''MARKET''" by (simp_all add: string_eval)
  let ?mins = "min_notional_constraints r" and ?maxs = "max_notional_constraints r"
  {
    assume c: "(v, b) \<in> set ?mins"
    then have "v \<in> insert 0 (fst ` set ?mins)" by force
    then have lim: "v \<le> min_notional r" using assms by (simp add: notional_ok_def)
    have in_applicable: "v \<in> set (map fst (filter snd ?mins))" if b using c that by force
    have "v \<le> min_notional_for r ''MARKET''" if b
      using in_applicable[OF that] c by (auto simp: min_notional_for_def up Let_def filter_empty_conv)
    then show "v \<le> min_notional_for r ''LIMIT'' \<and> (b \<longrightarrow> v \<le> min_notional_for r ''MARKET'')"
      using lim by (simp add: min_notional_for_def up)
  }
  {
    assume c: "(v, b) \<in> set ?maxs"
    then have ne: "?maxs \<noteq> []" and v: "v \<in> fst ` set ?maxs" by force+
    have lim: "0 < max_notional r" "max_notional r \<le> v" using assms ne v by (auto simp: notional_ok_def)
    have in_applicable: "v \<in> set (map fst (filter snd ?maxs))" if b using c that by force
    let ?S = "set (map fst (filter snd ?maxs))"
    have "\<forall>w \<in> ?S. 0 < w" using assms by (auto simp: notional_ok_def)
    then have "0 < Min ?S \<and> Min ?S \<le> v" if b
      using in_applicable[OF that] Min_in[of ?S] Min_le[of ?S v] by (metis List.finite_set empty_iff)
    moreover have "max_notional_for r ''MARKET'' = Min ?S" if b
      using in_applicable[OF that] ne by (auto simp: max_notional_for_def up Let_def filter_empty_conv)
    ultimately have "0 < max_notional_for r ''MARKET'' \<and> max_notional_for r ''MARKET'' \<le> v" if b
      using that by simp
    then show "0 < max_notional_for r ''LIMIT'' \<and> max_notional_for r ''LIMIT'' \<le> v
      \<and> (b \<longrightarrow> 0 < max_notional_for r ''MARKET'' \<and> max_notional_for r ''MARKET'' \<le> v)"
      using lim by (simp add: max_notional_for_def up)
  }
qed

text \<open>What each notional filter leaves among the constraints.\<close>

lemma parse_filter_min:
  assumes "parse_filter (JObject f) r = Inr r'" "filter_type f = ''MIN_NOTIONAL''"
  shows "\<exists>v b. decimal_filter_value f [''notional'', ''minNotional''] = Inr v
    \<and> bool_filter_value f ''applyToMarket'' = Inr b \<and> (v, b) \<in> set (min_notional_constraints r')"
  using assms by (auto simp: parse_filter_def parse_filter_fields_def res_simps add_notional_mono(1))

lemma parse_filter_max:
  assumes "parse_filter (JObject f) r = Inr r'" "filter_type f = ''NOTIONAL''"
  shows "\<exists>v. decimal_filter_value f [''maxNotional''] = Inr v
    \<and> (v \<noteq> 0 \<longrightarrow> (\<exists>b. (v, b) \<in> set (max_notional_constraints r')))"
proof -
  from assms have "parse_notional f (r\<lparr>seen_filter_types := insert (filter_type f) (seen_filter_types r)\<rparr>) = Inr r'"
    by (simp add: parse_filter_def parse_filter_fields_def)
  then show ?thesis by (rule parse_notional_Inr) (use add_notional_mono(5) in blast)
qed

section \<open>Properties\<close>

text \<open>
  No notional filter of the exchange is lost. After \<open>parse_exchange_info\<close> succeeds, the value
  of every \<open>MIN_NOTIONAL\<close> filter is at most the minimum the gate applies to limit orders, and to
  market orders when the filter applies to them; the non-zero maximum of every \<open>NOTIONAL\<close> filter
  is at least the (positive) maximum applied to limit orders. Several filters combine to the
  strictest one.
\<close>

theorem notional_filters_enforced:
  assumes "parse_exchange_info r0 (JObject d) = Inr r"
    and "json_get_or d ''filters'' (JList []) = JList filters" "JObject f \<in> set filters"
  shows "(filter_type f = ''MIN_NOTIONAL'' \<longrightarrow>
      (\<exists>v b. decimal_filter_value f [''notional'', ''minNotional''] = Inr v \<and> bool_filter_value f ''applyToMarket'' = Inr b
        \<and> v \<le> min_notional_for r ''LIMIT'' \<and> (b \<longrightarrow> v \<le> min_notional_for r ''MARKET'')))
    \<and> (filter_type f = ''NOTIONAL'' \<longrightarrow>
      (\<exists>v. decimal_filter_value f [''maxNotional''] = Inr v
        \<and> (v \<noteq> 0 \<longrightarrow> 0 < max_notional_for r ''LIMIT'' \<and> max_notional_for r ''LIMIT'' \<le> v)))"
proof -
  from assms(1) obtain r1 r2 where fold: "res_fold parse_filter filters r1 = Inr r2" and ok1: "notional_ok r1"
    and eqs: "min_notional r = min_notional r2" "max_notional r = max_notional r2"
      "min_notional_constraints r = min_notional_constraints r2" "max_notional_constraints r = max_notional_constraints r2"
    by (rule parse_exchange_info_Inr) (use assms(2) in auto)
  have "notional_ok r2" by (rule res_fold_invariant[where P = notional_ok, OF fold ok1]) (rule parse_filter_notional_ok)
  then have ok: "notional_ok r" using eqs by (simp add: notional_ok_def)
  have mins: "\<exists>v b. decimal_filter_value f [''notional'', ''minNotional''] = Inr v
      \<and> bool_filter_value f ''applyToMarket'' = Inr b \<and> (v, b) \<in> set (min_notional_constraints r2)"
    if "filter_type f = ''MIN_NOTIONAL''"
    by (rule res_fold_element[OF fold assms(3)]) (use that parse_filter_min parse_filter_mono(1) in blast)+
  have maxs: "\<exists>v. decimal_filter_value f [''maxNotional''] = Inr v
      \<and> (v \<noteq> 0 \<longrightarrow> (\<exists>b. (v, b) \<in> set (max_notional_constraints r2)))"
    if "filter_type f = ''NOTIONAL''"
    by (rule res_fold_element[OF fold assms(3)]) (use that parse_filter_max parse_filter_mono(2) in blast)+
  show ?thesis using mins maxs notional_ok_bounds[OF ok] unfolding eqs by blast
qed

text \<open>
  C10: Quantities are rounded down to the exchange step. For a quantity and a step on a common
  decimal grid with fewer than 27 digits, the normalized quantity is a multiple of the step, does
  not exceed the requested quantity and is less than one step below it.
\<close>

theorem normalize_quantity_floors:
  assumes "quantity = of_nat n / 10 ^ e" "n \<le> 10 ^ 27" "0 < n" "0 < m"
    and "(if is_market then (case market_step_size r of Some ms \<Rightarrow> if ms \<noteq> 0 then ms else step_size r | None \<Rightarrow> step_size r)
          else step_size r) = of_nat m / 10 ^ e"
  shows "\<exists>k. normalize_quantity r quantity is_market = of_nat k * (of_nat m / 10 ^ e)
    \<and> normalize_quantity r quantity is_market \<le> quantity
    \<and> quantity < normalize_quantity r quantity is_market + of_nat m / 10 ^ e"
proof -
  let ?step = "of_nat m / 10 ^ e :: rat"
  have pos: "\<not> quantity \<le> 0" using assms(1,3) by (simp add: not_le)
  have "normalize_quantity r quantity is_market = dmul (of_int (dint (ddiv quantity ?step))) ?step"
    using assms(4,5) pos by (auto simp: normalize_quantity_def Let_def split: option.splits if_splits)
  also have "\<dots> = dmul (of_nat (n div m)) ?step" using dint_quotient[OF assms(4,2)] assms(1) by simp
  also have "\<dots> = of_nat (n div m * m) / 10 ^ e"
  proof (rule dmul_grid)
    have "n div m * m \<le> n" by simp
    also have "n \<le> 10 ^ 28" using assms(2) by simp
    finally show "n div m * m \<le> 10 ^ 28" .
  qed
  finally have r: "normalize_quantity r quantity is_market = of_nat (n div m * m) / 10 ^ e" .
  have "n div m * m \<le> n" "n < n div m * m + m" using assms(4) dividend_less_div_times[of m n] by (simp_all add: add.commute)
  then have "(of_nat (n div m * m) :: rat) \<le> of_nat n" "(of_nat n :: rat) < of_nat (n div m * m) + of_nat m"
    by (simp_all only: of_nat_le_iff of_nat_less_iff flip: of_nat_add)
  then show ?thesis unfolding r
    by (intro exI[of _ "n div m"]) (simp add: assms(1) divide_right_mono divide_strict_right_mono flip: add_divide_distrib)
qed

text \<open>
  Prices stay on the exchange tick and never move against the requested limit: a BUY price is
  rounded down to a multiple of the tick, a SELL price (\<open>round_up\<close>) up, by less than one tick.
\<close>

theorem normalize_price_directed:
  assumes "price = of_nat n / 10 ^ e" "n + m \<le> 10 ^ 27" "0 < n" "0 < m" "tick_size r = of_nat m / 10 ^ e"
  shows "\<exists>k. normalize_price r price round_up = of_nat k * tick_size r
    \<and> (if round_up then price \<le> normalize_price r price round_up \<and> normalize_price r price round_up < price + tick_size r
       else normalize_price r price round_up \<le> price \<and> price < normalize_price r price round_up + tick_size r)"
proof -
  let ?k = "n div m"
  have "n \<le> 10 ^ 27" using assms(2) by simp
  note q = dint_quotient[OF assms(4) this]
  have km: "?k * m \<le> n" "n < ?k * m + m" using assms(4) dividend_less_div_times[of m n] by (simp_all add: add.commute)
  have "n \<le> 10 ^ 28" "m + n \<le> 10 ^ 28" using assms(2) by simp_all
  with km(1) have small: "?k * m \<le> 10 ^ 28" "Suc ?k * m \<le> 10 ^ 28"
    unfolding mult_Suc by (meson le_trans add_left_mono)+
  have d: "dmul (of_nat j) (tick_size r) = of_nat (j * m) / 10 ^ e" if "j * m \<le> 10 ^ 28" for j
    unfolding assms(5) using that by (rule dmul_grid)
  have below: "dmul (of_int (int ?k)) (tick_size r) < price \<longleftrightarrow> ?k * m < n"
    using d[OF small(1)] of_nat_less_iff[of "?k * m" n, where ?'a = rat] by (simp add: assms(1) divide_less_cancel)
  define j where "j = (if round_up \<and> ?k * m < n then Suc ?k else ?k)"
  have pos: "\<not> price \<le> 0" "tick_size r \<noteq> 0" using assms(1,3,4,5) by (simp_all add: not_le)
  have steps: "dint (ddiv price (tick_size r)) = int ?k" unfolding assms(1,5) by (rule q)
  have "normalize_price r price round_up = dmul (of_nat j) (tick_size r)"
    unfolding normalize_price_def steps below Let_def using pos by (simp add: j_def add.commute)
  also have "\<dots> = of_nat (j * m) / 10 ^ e" by (rule d) (use small in \<open>simp add: j_def\<close>)
  finally have r: "normalize_price r price round_up = of_nat (j * m) / 10 ^ e" .
  have bounds: "if up then n \<le> w' \<and> w' < n + m else w' \<le> n \<and> n < w' + m"
    if "w \<le> n" "n < w + m" "w' = (if up \<and> w < n then w + m else w)" for w w' up
    using that assms(4) by auto
  have "if round_up then n \<le> j * m \<and> j * m < n + m else j * m \<le> n \<and> n < j * m + m"
    by (rule bounds[OF km]) (simp add: j_def)
  then have "if round_up then (of_nat n :: rat) \<le> of_nat (j * m) \<and> of_nat (j * m) < (of_nat n + of_nat m :: rat)
      else (of_nat (j * m) :: rat) \<le> of_nat n \<and> of_nat n < (of_nat (j * m) + of_nat m :: rat)"
    by (simp only: of_nat_le_iff of_nat_less_iff flip: of_nat_add)
  then show ?thesis unfolding r
    by (intro exI[of _ j]) (auto simp: assms(1,5) divide_right_mono divide_strict_right_mono simp flip: add_divide_distrib split: if_splits)
qed

text \<open>
  A price the percent-price check accepts lies in every band the exchange declared: for a
  valid reference price, within reference times multiplier (in context arithmetic) of the
  symmetric filter and of the filter of the order's side; without a usable reference the check
  rejects.
\<close>

theorem percent_price_bands_hold:
  assumes "validate_percent_price r price side reference_price = None" "has_percent_price_filter r"
  shows "\<exists>ref. reference_price = Some (Fin ref) \<and> 0 < ref
    \<and> (''PERCENT_PRICE'' \<in> seen_filter_types r \<longrightarrow>
        dmul ref (the (percent_price_multiplier_down r)) \<le> price \<and> price \<le> dmul ref (the (percent_price_multiplier_up r)))
    \<and> (''PERCENT_PRICE_BY_SIDE'' \<in> seen_filter_types r \<longrightarrow>
        (if upper side = ''BUY''
         then dmul ref (the (percent_price_bid_multiplier_down r)) \<le> price \<and> price \<le> dmul ref (the (percent_price_bid_multiplier_up r))
         else dmul ref (the (percent_price_ask_multiplier_down r)) \<le> price \<and> price \<le> dmul ref (the (percent_price_ask_multiplier_up r))))"
proof -
  have ready: "percent_price_rules_ready r" using assms by (simp add: validate_percent_price_def split: if_splits)
  obtain ref where ref: "finite_of reference_price = Some ref" "\<not> ref \<le> 0" "upper side \<in> {''BUY'', ''SELL''}"
    using assms ready by (auto simp: validate_percent_price_def split: option.splits if_splits)
  have "reference_price = Some (Fin ref)" using ref(1) by (auto simp: finite_of_def split: option.splits decimal.splits)
  then show ?thesis using assms ready ref(2,3)
    by (cases "''PERCENT_PRICE'' \<in> seen_filter_types r"; cases "''PERCENT_PRICE_BY_SIDE'' \<in> seen_filter_types r";
        cases "upper side = ''BUY''")
      (auto simp: validate_percent_price_def intersect_band_def Let_def split: if_splits)
qed

section \<open>Witnesses\<close>

definition sample_rules :: SymbolTradingRules where
  "sample_rules = (rules_init ''ETHUSDC'')\<lparr>r_status := ''TRADING'', tick_size := 1 / 100, step_size := 1 / 1000,
     min_qty := 1 / 1000, max_qty := 1000, min_notional := 5, seen_filter_types := {''PERCENT_PRICE''},
     percent_price_multiplier_up := Some 2, percent_price_multiplier_down := Some (1 / 2)\<rparr>"

theorem normalize_quantity_floors_witness:
  "\<exists>k. normalize_quantity sample_rules (12345 / 10 ^ 4) False = of_nat k * (of_nat 10 / 10 ^ 4)
    \<and> normalize_quantity sample_rules (12345 / 10 ^ 4) False \<le> 12345 / 10 ^ 4"
  using normalize_quantity_floors[of "12345 / 10 ^ 4" 12345 4 10 False sample_rules]
  by (auto simp: sample_rules_def rules_init_def)

theorem normalize_price_directed_witness:
  "\<exists>k. normalize_price sample_rules (12345 / 10 ^ 4) True = of_nat k * tick_size sample_rules
    \<and> 12345 / 10 ^ 4 \<le> normalize_price sample_rules (12345 / 10 ^ 4) True"
  using normalize_price_directed[of "12345 / 10 ^ 4" 12345 4 100 sample_rules True]
  by (auto simp: sample_rules_def rules_init_def)

theorem percent_price_bands_hold_witness:
  "validate_percent_price sample_rules 100 ''BUY'' (Some (Fin 100)) = None
    \<and> (\<exists>ref. dmul ref (1 / 2) \<le> 100 \<and> 100 \<le> dmul ref 2)"
proof -
  have one: "drep (of_int n)" if "\<bar>n\<bar> \<le> 1000" for n using that by (intro drep_of_int) simp
  have d: "dmul 100 2 = 200" "dmul 100 (1 / 2) = 50"
    using dround_rep[OF one[of 200]] dround_rep[OF one[of 50]] by (simp_all add: dmul_def)
  have v: "validate_percent_price sample_rules 100 ''BUY'' (Some (Fin 100)) = None"
    by (simp add: validate_percent_price_def has_percent_price_filter_def percent_price_rules_ready_def
        valid_multiplier_def intersect_band_def sample_rules_def rules_init_def d string_eval)
  have h: "has_percent_price_filter sample_rules" by (simp add: has_percent_price_filter_def sample_rules_def)
  from percent_price_bands_hold[OF v h] v show ?thesis by (auto simp: sample_rules_def)
qed

definition sample_filter :: "(string \<times> json) list" where
  "sample_filter = [(''filterType'', JStr ''MIN_NOTIONAL''), (''notional'', JStr ''5'')]"

theorem notional_filters_enforced_witness:
  "\<exists>r v. parse_exchange_info (rules_init ''E'') (JObject [(''filters'', JList [JObject sample_filter])]) = Inr r
     \<and> decimal_filter_value sample_filter [''notional'', ''minNotional''] = Inr v \<and> v \<le> min_notional_for r ''LIMIT''"
proof -
  let ?d = "[(''filters'', JList [JObject sample_filter])]"
  have lit: "decimal_filter_value sample_filter [''notional'', ''minNotional''] = Inr 5"
    by (simp add: decimal_filter_value_def decimal_filter_literal_def sample_filter_def json_get_def json_missing_def
        parse_literal_def parse_unsigned_def parse_exponent_def show_int_def show_nat.simps digit_char_def strip_sign_def
        nat_of_digits_def digit_value_def string_eval)
  have t: "filter_type sample_filter = ''MIN_NOTIONAL''"
    by (simp add: filter_type_def sample_filter_def json_get_or_def string_eval)
  have b: "bool_filter_value sample_filter ''applyToMarket'' = Inr True"
    by (simp add: bool_filter_value_def sample_filter_def json_get_def json_missing_def)
  have "\<exists>r. parse_exchange_info (rules_init ''E'') (JObject ?d) = Inr r"
    by (simp add: parse_exchange_info_def json_get_or_def json_get_def parse_precision_def json_missing_def
        parse_filter_def parse_filter_fields_def t lit b add_min_notional_def Let_def)
  then obtain r where r: "parse_exchange_info (rules_init ''E'') (JObject ?d) = Inr r" by blast
  from notional_filters_enforced[OF r, of "[JObject sample_filter]" sample_filter] t r lit show ?thesis
    by (auto simp: json_get_or_def)
qed

end
