(* ===== verification/SafetyLimits.thy ===== *)
theory SafetyLimits
  imports Domain
begin

text \<open>
  Venue configuration: the two exchange environments (\<open>venues/binance/config.py\<close>), the safety
  limits and the account snapshot (\<open>venues/binance/models.py\<close>). The process environment is a map
  from names to texts. Limits are loaded per environment; overrides may narrow them, and widen
  them only on Testnet with an explicit acknowledgement.
\<close>

type_synonym environ = "string \<rightharpoonup> string"

section \<open>Environments\<close>

datatype BinanceEnvironment = TESTNET | MAINNET

fun environment_value :: "BinanceEnvironment \<Rightarrow> string" where
  "environment_value TESTNET = ''TESTNET''"
| "environment_value MAINNET = ''MAINNET''"

definition environment_label :: "BinanceEnvironment \<Rightarrow> string" where
  "environment_label env = ''BINANCE_'' @ environment_value env"

definition parse_environment :: "string \<Rightarrow> BinanceEnvironment res" where
  "parse_environment text =
     (let t = upper (strip text) in
      if t = ''TESTNET'' then Inr TESTNET
      else if t = ''MAINNET'' then Inr MAINNET
      else Inl (ValueError ''Binance environment must be TESTNET or MAINNET''))"

fun get_rest_url :: "BinanceEnvironment \<Rightarrow> string" where
  "get_rest_url TESTNET = ''https://testnet.binancefuture.com''"
| "get_rest_url MAINNET = ''https://fapi.binance.com''"

fun get_ws_url :: "BinanceEnvironment \<Rightarrow> string" where
  "get_ws_url TESTNET = ''wss://stream.binancefuture.com/ws''"
| "get_ws_url MAINNET = ''wss://fstream.binance.com/ws''"

definition is_portfolio_margin_enabled :: "environ \<Rightarrow> bool" where
  "is_portfolio_margin_enabled env =
     (lower (case env ''BINANCE_PORTFOLIO_MARGIN'' of Some v \<Rightarrow> v | None \<Rightarrow> ''false'') \<in> {''true'', ''1'', ''yes''})"

text \<open>\<open>_env_flag(name, default)\<close> of the gates and the flag test of \<open>from_environment\<close>.\<close>

definition env_flag :: "environ \<Rightarrow> string \<Rightarrow> bool \<Rightarrow> bool" where
  "env_flag env name dflt =
     (case env name of None \<Rightarrow> dflt | Some raw \<Rightarrow> lower (strip raw) \<in> {''1'', ''true'', ''yes'', ''on''})"

section \<open>Account snapshot and connection state\<close>

record ExchangeAccountSnapshot =
  wallet_balance :: decimal
  margin_balance :: decimal
  available_balance :: decimal
  as_unrealized_pnl :: decimal
  total_initial_margin :: decimal
  total_maint_margin :: decimal
  position_initial_margin :: decimal
  total_position_notional :: decimal
  as_effective_leverage :: decimal
  as_margin_utilization_pct :: decimal
  min_liquidation_distance_pct :: "decimal option"
  liquidation_safety :: string
  daily_realized_pnl :: "decimal option"
  daily_loss_known :: bool
  collateral_asset :: string
  risk_currency :: string
  daily_loss_asset :: string
  daily_pnl_includes_fees :: bool
  daily_pnl_includes_funding :: bool
  daily_loss_window_start :: "datetime option"
  daily_loss_window_end :: "datetime option"
  configured_leverage :: "decimal option"
  configured_leverage_known :: bool
  margin_mode :: string
  margin_mode_known :: bool
  as_valid :: bool
  exchange_environment :: string
  as_timestamp :: datetime

datatype ConnectionState =
    DISCONNECTED | CONNECTING | AUTHENTICATING | STREAM_STARTING | SYNCING | READY
  | DEGRADED | RECONNECTING | RECONCILING

section \<open>Safety limits\<close>

record TestnetSafetyLimits =
  sl_environment :: string
  allowed_symbols :: "string set"
  max_single_order_notional :: rat
  max_total_open_notional :: rat
  max_open_orders :: int
  max_active_exposure_chains :: int
  max_collateral :: rat
  max_daily_loss :: rat
  sl_max_leverage :: rat

definition limit_defaults :: "BinanceEnvironment \<Rightarrow> TestnetSafetyLimits" where
  "limit_defaults env =
     (case env of
        TESTNET \<Rightarrow> \<lparr>sl_environment = ''TESTNET'', allowed_symbols = {''BTCUSDT''},
          max_single_order_notional = 100, max_total_open_notional = 100, max_open_orders = 1,
          max_active_exposure_chains = 1, max_collateral = 100, max_daily_loss = 5, sl_max_leverage = 2\<rparr>
      | MAINNET \<Rightarrow> \<lparr>sl_environment = ''MAINNET'', allowed_symbols = {''ETHUSDC''},
          max_single_order_notional = 50, max_total_open_notional = 1000, max_open_orders = 1,
          max_active_exposure_chains = 1, max_collateral = 250, max_daily_loss = 5, sl_max_leverage = 10\<rparr>)"

definition positive_decimal :: "environ \<Rightarrow> string \<Rightarrow> rat \<Rightarrow> rat" where
  "positive_decimal env name fallback =
     (case env name of
        None \<Rightarrow> fallback
      | Some raw \<Rightarrow>
          if strip raw = [] then fallback
          else (case finite_of (parse_decimal raw) of Some v \<Rightarrow> if v > 0 then v else fallback | None \<Rightarrow> fallback))"

definition positive_int :: "environ \<Rightarrow> string \<Rightarrow> int \<Rightarrow> int" where
  "positive_int env name fallback =
     (case env name of
        None \<Rightarrow> fallback
      | Some raw \<Rightarrow>
          if strip raw = [] then fallback
          else (case parse_int raw of Some v \<Rightarrow> if v > 0 then v else fallback | None \<Rightarrow> fallback))"

definition parse_symbols :: "string \<Rightarrow> string set" where
  "parse_symbols raw = set (map (\<lambda>x. upper (strip x)) (filter (\<lambda>x. strip x \<noteq> []) (split_on (CHR '','') raw)))"

text \<open>\<open>a or b\<close> on sets.\<close>

definition or_set :: "'a set \<Rightarrow> 'a set \<Rightarrow> 'a set" where
  "or_set a b = (if a = {} then b else a)"

definition limits_from_environment :: "environ \<Rightarrow> string \<Rightarrow> TestnetSafetyLimits res" where
  "limits_from_environment env environment_name =
     res_bind (parse_environment environment_name) (\<lambda>which.
     let d = limit_defaults which;
         approved = (which = TESTNET \<and> env_flag env ''TESTNET_LIMITS_OVERRIDE_APPROVED'' False);
         key = (\<lambda>suffix. environment_value which @ suffix);
         symbols = (case env (key ''_ALLOWED_SYMBOLS'') of
             None \<Rightarrow> allowed_symbols d
           | Some raw \<Rightarrow>
               let s = or_set (parse_symbols raw) (allowed_symbols d)
               in if approved then s else or_set (s \<inter> allowed_symbols d) (allowed_symbols d));
         dec = (\<lambda>suffix fallback. let v = positive_decimal env (key suffix) fallback
           in if approved then v else min v fallback);
         int_of = (\<lambda>suffix fallback. let v = positive_int env (key suffix) fallback
           in if approved then v else min v fallback);
         single_order = dec ''_MAX_SINGLE_ORDER_NOTIONAL'' (max_single_order_notional d);
         total_open = dec ''_MAX_TOTAL_OPEN_NOTIONAL'' (max_total_open_notional d)
     in Inr \<lparr>sl_environment = environment_value which, allowed_symbols = symbols,
          max_single_order_notional = single_order, max_total_open_notional = max total_open single_order,
          max_open_orders = int_of ''_MAX_OPEN_ORDERS'' (max_open_orders d),
          max_active_exposure_chains = int_of ''_MAX_ACTIVE_EXPOSURE_CHAINS'' (max_active_exposure_chains d),
          max_collateral = dec ''_MAX_COLLATERAL'' (max_collateral d),
          max_daily_loss = dec ''_MAX_DAILY_LOSS'' (max_daily_loss d),
          sl_max_leverage = dec ''_MAX_LEVERAGE'' (sl_max_leverage d)\<rparr>)"

section \<open>Lemmas\<close>

lemma positive_decimal_pos: "0 < fallback \<Longrightarrow> 0 < positive_decimal env name fallback"
  by (auto simp: positive_decimal_def split: option.splits)

lemma positive_int_pos: "0 < fallback \<Longrightarrow> 0 < positive_int env name fallback"
  by (auto simp: positive_int_def split: option.splits)

lemma or_set_ne [simp]: "or_set a {x} \<noteq> {}"
  by (simp add: or_set_def)

lemma or_set_Int [simp]: "or_set (s \<inter> {x}) {x} = {x}"
  by (auto simp: or_set_def)

lemma mainnet_limits_ok:
  assumes "limits_from_environment env ''MAINNET'' = Inr l"
  shows "allowed_symbols l = {''ETHUSDC''} \<and> max_open_orders l = 1 \<and> max_active_exposure_chains l = 1
    \<and> 0 < max_single_order_notional l \<and> max_single_order_notional l \<le> 50
    \<and> max_single_order_notional l \<le> max_total_open_notional l \<and> max_total_open_notional l \<le> 1000
    \<and> 0 < max_collateral l \<and> max_collateral l \<le> 250
    \<and> 0 < max_daily_loss l \<and> max_daily_loss l \<le> 5 \<and> 0 < sl_max_leverage l \<and> sl_max_leverage l \<le> 10"
proof -
  have m: "parse_environment ''MAINNET'' = Inr MAINNET" by (simp add: parse_environment_def string_eval)
  note pd = positive_decimal_pos[of _ env] and pi = positive_int_pos[of _ env]
  have one: "min (positive_int env name 1) 1 = 1" for name using pi[of 1 name] by linarith
  show ?thesis
    using assms by (auto simp: limits_from_environment_def m limit_defaults_def Let_def pd one split: option.splits)
qed

section \<open>Properties\<close>

text \<open>
  C11: The process environment can never widen the limits of a Mainnet run: whatever variables are
  set, orders go to ETHUSDC only, at most 50 per order, 1000 in total, one open order, one exposure
  chain, collateral at most 250, daily loss at most 5 and leverage at most 10; every limit stays
  positive and the total never falls below a single order.
\<close>

theorem mainnet_limits_never_widen:
  assumes "limits_from_environment env ''MAINNET'' = Inr l"
  shows "allowed_symbols l = {''ETHUSDC''} \<and> max_open_orders l = 1 \<and> max_active_exposure_chains l = 1
    \<and> 0 < max_single_order_notional l \<and> max_single_order_notional l \<le> 50
    \<and> max_single_order_notional l \<le> max_total_open_notional l \<and> max_total_open_notional l \<le> 1000
    \<and> 0 < max_collateral l \<and> max_collateral l \<le> 250
    \<and> 0 < max_daily_loss l \<and> max_daily_loss l \<le> 5 \<and> 0 < sl_max_leverage l \<and> sl_max_leverage l \<le> 10"
  using assms by (rule mainnet_limits_ok)

text \<open>
  On Testnet too, limits exceed the defaults only when the override is acknowledged: without
  \<open>TESTNET_LIMITS_OVERRIDE_APPROVED\<close> every limit is positive and at most its default and only
  default symbols are allowed; with it they are still positive, and the total limit is always at
  least the single-order limit.
\<close>

theorem testnet_limits_need_approval:
  assumes "limits_from_environment env ''TESTNET'' = Inr l"
  shows "(\<not> env_flag env ''TESTNET_LIMITS_OVERRIDE_APPROVED'' False \<longrightarrow>
      allowed_symbols l = {''BTCUSDT''} \<and> max_single_order_notional l \<le> 100 \<and> max_total_open_notional l \<le> 100
      \<and> max_open_orders l = 1 \<and> max_active_exposure_chains l = 1 \<and> max_collateral l \<le> 100 \<and> max_daily_loss l \<le> 5
      \<and> sl_max_leverage l \<le> 2)
    \<and> allowed_symbols l \<noteq> {} \<and> 0 < max_single_order_notional l \<and> max_single_order_notional l \<le> max_total_open_notional l
    \<and> 0 < max_open_orders l \<and> 0 < max_active_exposure_chains l \<and> 0 < max_collateral l \<and> 0 < max_daily_loss l
    \<and> 0 < sl_max_leverage l"
proof -
  have t: "parse_environment ''TESTNET'' = Inr TESTNET" by (simp add: parse_environment_def string_eval)
  note pd = positive_decimal_pos[of _ env] and pi = positive_int_pos[of _ env]
  have one: "min (positive_int env name 1) 1 = 1" for name using pi[of 1 name] by linarith
  show ?thesis
  proof (cases "env_flag env ''TESTNET_LIMITS_OVERRIDE_APPROVED'' False")
    case True
    have "allowed_symbols l \<noteq> {}" using assms True
      by (auto simp: limits_from_environment_def t limit_defaults_def Let_def split: option.splits)
    then show ?thesis using assms True
      by (auto simp: limits_from_environment_def t limit_defaults_def Let_def pd pi)
  next
    case False
    then show ?thesis using assms
      by (auto simp: limits_from_environment_def t limit_defaults_def Let_def pd one split: option.splits)
  qed
qed

text \<open>
  The default collateral cap of Mainnet is 250, not the 100 that the documentation of
  \<open>from_environment\<close> announces; the other caps are the documented ones (1000 gross, 50 per order,
  daily loss 5, leverage 10, one chain).
\<close>

theorem mainnet_default_collateral:
  "limits_from_environment Map.empty ''MAINNET'' = Inr \<lparr>sl_environment = ''MAINNET'', allowed_symbols = {''ETHUSDC''},
     max_single_order_notional = 50, max_total_open_notional = 1000, max_open_orders = 1, max_active_exposure_chains = 1,
     max_collateral = 250, max_daily_loss = 5, sl_max_leverage = 10\<rparr>"
  by (simp add: limits_from_environment_def parse_environment_def limit_defaults_def positive_decimal_def
      positive_int_def string_eval Let_def)

section \<open>Witnesses\<close>

theorem mainnet_limits_never_widen_witness:
  "\<exists>l. limits_from_environment [''MAINNET_MAX_OPEN_ORDERS'' \<mapsto> ''99''] ''MAINNET'' = Inr l \<and> max_open_orders l = 1"
proof -
  obtain l where l: "limits_from_environment [''MAINNET_MAX_OPEN_ORDERS'' \<mapsto> ''99''] ''MAINNET'' = Inr l"
    by (simp add: limits_from_environment_def parse_environment_def string_eval Let_def)
  with mainnet_limits_never_widen[OF l] show ?thesis by blast
qed

theorem testnet_limits_need_approval_witness:
  "\<exists>l. limits_from_environment [''TESTNET_MAX_OPEN_ORDERS'' \<mapsto> ''99''] ''TESTNET'' = Inr l \<and> max_open_orders l = 1"
proof -
  obtain l where l: "limits_from_environment [''TESTNET_MAX_OPEN_ORDERS'' \<mapsto> ''99''] ''TESTNET'' = Inr l"
    by (simp add: limits_from_environment_def parse_environment_def string_eval Let_def)
  moreover have "\<not> env_flag [''TESTNET_MAX_OPEN_ORDERS'' \<mapsto> ''99''] ''TESTNET_LIMITS_OVERRIDE_APPROVED'' False"
    by (simp add: env_flag_def)
  ultimately show ?thesis using testnet_limits_need_approval[OF l] by blast
qed

end
