(* ===== verification/Ledger.thy ===== *)
theory Ledger
  imports Json SafetyLimits Strategies
begin

text \<open>
  The in-memory execution ledger (\<open>venues/binance/ledger.py\<close>) and the worker's cached grid depth
  that is computed from it (\<open>_observed_grid_depth\<close> in \<open>main.py\<close>). The callbacks the worker installs
  are modelled as a log of notifications, \<open>notified\<close>, in the order they are made. An operation
  that raises leaves the ledger as it was.
\<close>

section \<open>Ledger state\<close>

datatype notification =
    OrderUpdate ExecutionOrder | FillUpdate ExchangeFill | PositionUpdate ExchangePosition

record InMemoryLedger =
  orders :: "(string, ExecutionOrder) dict"
  fills :: "ExchangeFill list"
  fill_keys :: "string set"
  positions :: "ExchangePosition list"
  version :: nat
  initialized :: bool
  lg_wallet_balance :: decimal
  lg_margin_balance :: decimal
  account_snapshot :: "ExchangeAccountSnapshot option"
  notified :: "notification list"

definition ledger_init :: InMemoryLedger where
  "ledger_init = \<lparr>orders = [], fills = [], fill_keys = {}, positions = [], version = 0, initialized = False,
     lg_wallet_balance = Fin 0, lg_margin_balance = Fin 0, account_snapshot = None, notified = []\<rparr>"

definition notify :: "notification \<Rightarrow> InMemoryLedger \<Rightarrow> InMemoryLedger" where
  "notify n l = l\<lparr>notified := notified l @ [n]\<rparr>"

definition set_account_snapshot :: "ExchangeAccountSnapshot option \<Rightarrow> InMemoryLedger \<Rightarrow> InMemoryLedger" where
  "set_account_snapshot s l = l\<lparr>account_snapshot := s\<rparr>"

definition update_balances :: "decimal \<Rightarrow> decimal \<Rightarrow> InMemoryLedger \<Rightarrow> InMemoryLedger" where
  "update_balances wallet margin l = l\<lparr>lg_wallet_balance := wallet, lg_margin_balance := margin\<rparr>"

definition mark_initialized :: "InMemoryLedger \<Rightarrow> InMemoryLedger" where
  "mark_initialized l = l\<lparr>initialized := True\<rparr>"

section \<open>Orders\<close>

definition upsert_order :: "ExecutionOrder \<Rightarrow> InMemoryLedger \<Rightarrow> InMemoryLedger" where
  "upsert_order od l = l\<lparr>orders := AList.update (eo_client_order_id od) od (orders l)\<rparr>"

fun exchange_bool :: "json \<Rightarrow> bool" where
  "exchange_bool (JBool b) = b"
| "exchange_bool (JInt n) = (n \<noteq> 0)"
| "exchange_bool (JFloat r) = json_truthy (JFloat r)"
| "exchange_bool (JStr s) = (lower (strip s) \<in> {''1'', ''true'', ''yes'', ''on''})"
| "exchange_bool _ = False"

text \<open>The validation of a text field and of a finite decimal field by the record types.\<close>

definition text_field :: "json \<Rightarrow> string res" where
  "text_field v = (case v of JStr s \<Rightarrow> Inr s | _ \<Rightarrow> Inl (ValueError ''Input should be a valid string''))"

definition finite_field :: "decimal \<Rightarrow> rat res" where
  "finite_field d = (case d of Fin x \<Rightarrow> Inr x | _ \<Rightarrow> Inl (ValueError ''Input should be a finite number''))"

definition of_option :: "pyerr \<Rightarrow> 'a option \<Rightarrow> 'a res" where
  "of_option e x = (case x of Some y \<Rightarrow> Inr y | None \<Rightarrow> Inl e)"

definition parse_order_tif :: "json \<Rightarrow> TimeInForce res" where
  "parse_order_tif v =
     (let t = upper (py_str v) in
      if t = ''GTX'' then Inr POST_ONLY
      else of_option (ValueError ''invalid TimeInForce'') (TimeInForce_of t))"

text \<open>The order built from a raw exchange order: exchange fields from \<open>raw\<close>, the lineage from the
  order already known under the client order id, if any.\<close>

definition raw_exchange_order :: "(string \<times> json) list \<Rightarrow> datetime \<Rightarrow> InMemoryLedger \<Rightarrow> ExecutionOrder res" where
  "raw_exchange_order raw now l =
     (if list_ex (\<lambda>f. json_missing (json_get raw f))
           [''symbol'', ''clientOrderId'', ''status'', ''side'', ''origQty'', ''orderId'']
      then Inl (ValueError ''Exchange order is missing required fields'')
      else
        res_bind (case json_get raw ''side'' of
            JStr s \<Rightarrow> of_option (ValueError ''Unsupported exchange order side'') (OrderSide_of s)
          | _ \<Rightarrow> Inl (ValueError ''Unsupported exchange order side'')) (\<lambda>side.
        res_bind (parse_order_tif (json_get_or raw ''timeInForce'' (JStr ''GTC''))) (\<lambda>tif.
        res_bind (of_option InvalidOperation (json_decimal (json_get raw ''origQty''))) (\<lambda>raw_quantity.
        res_bind (of_option InvalidOperation (json_decimal (json_get_or raw ''price'' (JStr ''0'')))) (\<lambda>raw_price.
        res_bind (of_option (ValueError ''invalid PositionSide'')
          (PositionSide_of (upper (py_str (json_get_or raw ''positionSide'' (JStr ''BOTH'')))))) (\<lambda>pos_side.
        res_bind (finite_field raw_quantity) (\<lambda>quantity.
        res_bind (finite_field raw_price) (\<lambda>price.
        res_bind (text_field (json_get_or raw ''type'' (JStr ''LIMIT''))) (\<lambda>order_type.
        res_bind (text_field (json_get raw ''clientOrderId'')) (\<lambda>client_oid.
        res_bind (text_field (json_get raw ''status'')) (\<lambda>status.
        let known = map_of (orders l) client_oid in
        Inr \<lparr>eo_symbol = upper (py_str (json_get raw ''symbol'')), eo_side = side, eo_quantity = quantity,
          eo_price = price, eo_order_type = order_type, eo_client_order_id = client_oid, eo_status = status,
          eo_exchange_order_id = Some (py_str (json_get raw ''orderId'')), eo_timestamp = now,
          eo_market_type = USDM_FUTURES, eo_position_side = pos_side,
          eo_reduce_only = exchange_bool (json_get_or raw ''reduceOnly'' (JBool False)),
          eo_time_in_force = tif,
          eo_strategy_id = (case known of Some k \<Rightarrow> eo_strategy_id k | None \<Rightarrow> ''portfolio''),
          eo_decision_id = (case known of Some k \<Rightarrow> eo_decision_id k | None \<Rightarrow> None),
          eo_target_exposure_id = (case known of Some k \<Rightarrow> eo_target_exposure_id k | None \<Rightarrow> None),
          eo_source_intent_ids = (case known of Some k \<Rightarrow> eo_source_intent_ids k | None \<Rightarrow> []),
          eo_risk_class = (case known of Some k \<Rightarrow> eo_risk_class k | None \<Rightarrow> NOOP)\<rparr>)))))))))))"

definition upsert_raw_exchange_order :: "(string \<times> json) list \<Rightarrow> datetime \<Rightarrow> InMemoryLedger \<Rightarrow> InMemoryLedger res" where
  "upsert_raw_exchange_order raw now l =
     res_bind (raw_exchange_order raw now l) (\<lambda>od.
     Inr (notify (OrderUpdate od)
       (l\<lparr>orders := AList.update (eo_client_order_id od) od (orders l), version := version l + 1\<rparr>)))"

definition get_order_by_client_id :: "InMemoryLedger \<Rightarrow> string \<Rightarrow> ExecutionOrder option" where
  "get_order_by_client_id l client_oid = map_of (orders l) client_oid"

text \<open>\<open>str(None)\<close> is \<open>"None"\<close>.\<close>

definition get_order_by_exchange_id :: "InMemoryLedger \<Rightarrow> string \<Rightarrow> ExecutionOrder option" where
  "get_order_by_exchange_id l xid =
     find (\<lambda>od. (case eo_exchange_order_id od of Some x \<Rightarrow> x | None \<Rightarrow> ''None'') = xid) (map snd (orders l))"

definition get_open_orders :: "InMemoryLedger \<Rightarrow> ExecutionOrder list" where
  "get_open_orders l = filter (\<lambda>od. eo_status od \<in> {''NEW'', ''PARTIALLY_FILLED''}) (map snd (orders l))"

definition get_all_orders :: "InMemoryLedger \<Rightarrow> ExecutionOrder list" where
  "get_all_orders l = map snd (orders l)"

section \<open>Fills\<close>

definition fill_venue :: "ExchangeFill \<Rightarrow> string" where
  "fill_venue f =
     (let source = (let t = upper (strip (ef_source f)) in if t = [] then ''UNKNOWN'' else t) in
      case find (\<lambda>label. source = label \<or> startswith source (label @ ''_'')) [''BINANCE_TESTNET'', ''BINANCE_MAINNET''] of
        Some label \<Rightarrow> label
      | None \<Rightarrow> source)"

definition get_fill_key :: "ExchangeFill \<Rightarrow> string" where
  "get_fill_key f = fill_venue f @ '':'' @ upper (ef_symbol f) @ '':'' @ exchange_trade_id f"

definition has_fill :: "InMemoryLedger \<Rightarrow> string \<Rightarrow> bool" where
  "has_fill l key =
     (key \<in> fill_keys l \<or>
      (case split_max (CHR '':'') 2 key of
         [source, symbol, trade_id] \<Rightarrow>
           list_ex (\<lambda>f. hd (split_max (CHR '':'') 1 (get_fill_key f)) = upper source
             \<and> upper (ef_symbol f) = upper symbol \<and> exchange_trade_id f = trade_id) (fills l)
       | [symbol, trade_id] \<Rightarrow>
           list_ex (\<lambda>f. upper (ef_symbol f) = upper symbol \<and> exchange_trade_id f = trade_id) (fills l)
       | _ \<Rightarrow> list_ex (\<lambda>f. exchange_trade_id f = key) (fills l)))"

definition append_fill :: "ExchangeFill \<Rightarrow> InMemoryLedger \<Rightarrow> InMemoryLedger" where
  "append_fill f l =
     (let key = get_fill_key f in
      if key \<in> fill_keys l \<or> has_fill l key then l
      else notify (FillUpdate f)
        (l\<lparr>fill_keys := insert key (fill_keys l), fills := fills l @ [f], version := version l + 1\<rparr>))"

section \<open>Positions\<close>

datatype raw_position = Typed ExchangePosition | Raw json

text \<open>\<open>parse_decimal\<close> of \<open>_to_exchange_position\<close>: \<open>dflt\<close> is returned, unchecked, for a missing field.\<close>

definition position_decimal :: "(string \<times> json) list \<Rightarrow> string \<Rightarrow> rat option \<Rightarrow> bool \<Rightarrow> bool \<Rightarrow> rat res" where
  "position_decimal pos field dflt positive nonnegative =
     (let raw = json_get pos field in
      if json_missing raw then of_option (ValueError ''Exchange position is missing required field'') dflt
      else
        (case json_decimal raw of
           None \<Rightarrow> Inl (ValueError ''Exchange position has an invalid field'')
         | Some (Fin x) \<Rightarrow>
             if positive \<and> x \<le> 0 then Inl (ValueError ''Exchange position has an unusable field'')
             else if nonnegative \<and> x < 0 then Inl (ValueError ''Exchange position has a negative field'')
             else Inr x
         | Some _ \<Rightarrow> Inl (ValueError ''Exchange position has a non-finite field'')))"

definition position_margin_type :: "json \<Rightarrow> string res" where
  "position_margin_type v =
     (if json_missing v then Inr ''UNKNOWN''
      else
        (case v of
           JStr s \<Rightarrow> if strip s = [] then Inl (ValueError ''Exchange position has invalid marginType'') else Inr s
         | _ \<Rightarrow> Inl (ValueError ''Exchange position has invalid marginType'')))"

definition position_of_object :: "(string \<times> json) list \<Rightarrow> ExchangePosition res" where
  "position_of_object pos =
     (if list_ex (\<lambda>f. json_missing (json_get pos f)) [''symbol'', ''positionAmt'']
      then Inl (ValueError ''Exchange position is missing required fields'')
      else
        res_bind (of_option (ValueError ''Exchange position has an invalid positionAmt'')
          (finite_of (json_decimal (json_get pos ''positionAmt'')))) (\<lambda>quantity.
        let active = (quantity \<noteq> 0) in
        res_bind (check (active \<longrightarrow> \<not> json_missing (json_get pos ''positionSide'') \<and> \<not> json_missing (json_get pos ''markPrice''))
          (ValueError ''Active exchange position is missing required fields'')) (\<lambda>_.
        res_bind (of_option (ValueError ''Unsupported exchange position side'')
          (PositionSide_of (upper (py_str (json_get_or pos ''positionSide'' (JStr ''BOTH'')))))) (\<lambda>pos_side.
        res_bind (position_decimal pos ''entryPrice'' (Some 0) active False) (\<lambda>entry.
        res_bind (if json_missing (json_get pos ''markPrice'') \<and> \<not> active then Inr None
          else res_bind (position_decimal pos ''markPrice'' None active (\<not> active)) (\<lambda>x. Inr (Some x))) (\<lambda>mark.
        res_bind (position_decimal pos ''unRealizedProfit'' (Some 0) False False) (\<lambda>upnl.
        res_bind (position_margin_type (json_get pos ''marginType'')) (\<lambda>margin_type.
        res_bind (position_decimal pos ''leverage'' (Some 0) active True) (\<lambda>leverage.
        res_bind (if json_missing (json_get pos ''liquidationPrice'') then Inr None
          else res_bind (position_decimal pos ''liquidationPrice'' None False True)
            (\<lambda>x. Inr (if x > 0 then Some x else None))) (\<lambda>liquidation.
        res_bind (text_field (json_get_or pos ''source'' (JStr ''UNKNOWN''))) (\<lambda>source.
        Inr \<lparr>ep_symbol = upper (py_str (json_get pos ''symbol'')), ep_position_side = pos_side,
          ep_quantity = quantity, ep_entry_price = entry, ep_mark_price = mark, ep_unrealized_pnl = upnl,
          ep_liquidation_price = liquidation, ep_leverage = leverage, ep_margin_type = margin_type,
          ep_source = source\<rparr>)))))))))))"

definition to_exchange_position :: "raw_position \<Rightarrow> ExchangePosition res" where
  "to_exchange_position p =
     (case p of
        Typed q \<Rightarrow> Inr q
      | Raw (JObject pos) \<Rightarrow> position_of_object pos
      | Raw _ \<Rightarrow> Inl (ValueError ''Exchange position must be an object''))"

definition position_key :: "ExchangePosition \<Rightarrow> string \<times> PositionSide" where
  "position_key p = (ep_symbol p, ep_position_side p)"

definition replace_positions :: "raw_position list \<Rightarrow> bool \<Rightarrow> InMemoryLedger \<Rightarrow> InMemoryLedger res" where
  "replace_positions raws mark_init l =
     res_bind (res_map to_exchange_position raws) (\<lambda>ps.
     let old_active = position_key ` set (filter (\<lambda>p. ep_quantity p \<noteq> 0) (positions l));
         updates = filter (\<lambda>p. ep_quantity p \<noteq> 0 \<or> position_key p \<in> old_active) ps
     in Inr (l\<lparr>positions := ps, notified := notified l @ map PositionUpdate updates,
               initialized := (mark_init \<or> initialized l)\<rparr>))"

text \<open>The loop of \<open>upsert_position\<close>: the old quantity and the new list, if the key was present.\<close>

fun replace_first :: "ExchangePosition \<Rightarrow> ExchangePosition list \<Rightarrow> (rat \<times> ExchangePosition list) option" where
  "replace_first q [] = None"
| "replace_first q (p # ps) =
     (if position_key p = position_key q then Some (ep_quantity p, q # ps)
      else map_option (\<lambda>(old, ps'). (old, p # ps')) (replace_first q ps))"

definition upsert_position :: "raw_position \<Rightarrow> InMemoryLedger \<Rightarrow> InMemoryLedger res" where
  "upsert_position raw l =
     res_bind (to_exchange_position raw) (\<lambda>q.
     let (old, ps) = (case replace_first q (positions l) of
           Some (old, ps) \<Rightarrow> (old, ps)
         | None \<Rightarrow> (0, positions l @ [q]));
         l' = l\<lparr>positions := ps, version := version l + 1\<rparr>
     in Inr (if ep_quantity q \<noteq> 0 \<or> old \<noteq> 0 then notify (PositionUpdate q) l' else l'))"

definition clear_positions_for_symbol :: "string \<Rightarrow> InMemoryLedger \<Rightarrow> InMemoryLedger" where
  "clear_positions_for_symbol symbol l =
     l\<lparr>positions := filter (\<lambda>p. upper (ep_symbol p) \<noteq> upper symbol) (positions l), version := version l + 1\<rparr>"

section \<open>The worker's grid depth\<close>

datatype WorkerExecutionMode = WM_PAPER | WM_TESTNET | WM_LIVE

definition has_grid_lineage :: "string list \<Rightarrow> string \<Rightarrow> bool" where
  "has_grid_lineage intent_ids client_order_id =
     (list_ex (\<lambda>i. startswith (upper i) ''GRID-'') intent_ids
      \<or> (client_order_id \<noteq> []
         \<and> (let cid = upper client_order_id in
            startswith cid ''BAI-'' \<or> startswith cid ''B-'' \<or> startswith cid ''GRID-'')))"

definition is_grid_strategy :: "string \<Rightarrow> bool" where
  "is_grid_strategy strategy = (lower (strip strategy) \<in> {''grid'', ''structural grid''})"

text \<open>The depth computed by scanning the ledger.\<close>

definition scan_grid_depth :: "GridStrategyEngine \<Rightarrow> InMemoryLedger \<Rightarrow> string \<Rightarrow> int res" where
  "scan_grid_depth g l symbol =
     (let position_qty = foldl (\<lambda>acc p. dadd acc (dabs (ep_quantity p))) 0
            (filter (\<lambda>p. upper (ep_symbol p) = symbol \<and> ep_quantity p \<noteq> 0) (positions l));
          grid_orders = filter (\<lambda>od. upper (eo_symbol od) = symbol
            \<and> (has_grid_lineage (eo_source_intent_ids od) (eo_client_order_id od) \<or> is_grid_strategy (eo_strategy_id od)))
            (get_all_orders l);
          open_grid_orders = length (filter (\<lambda>od. upper (eo_status od) \<in> {''NEW'', ''PARTIALLY_FILLED''}) grid_orders);
          grid_order_ids = eo_client_order_id ` set grid_orders;
          filled_ids = ef_client_order_id ` set (filter (\<lambda>f. upper (ef_symbol f) = symbol
            \<and> (ef_client_order_id f \<in> grid_order_ids
               \<or> has_grid_lineage (ef_source_intent_ids f) (ef_client_order_id f)
               \<or> is_grid_strategy (ef_strategy_id f))) (fills l))
      in observed_depth g (Some (Fin position_qty)) (int open_grid_orders) (int (card filled_ids)))"

text \<open>
  \<open>_observed_grid_depth\<close> in an exchange mode with an adapter: the cache maps a symbol to the ledger
  version and the depth of the last scan.
\<close>

definition observed_grid_depth ::
  "GridStrategyEngine \<Rightarrow> WorkerExecutionMode \<Rightarrow> InMemoryLedger option \<Rightarrow> (string \<rightharpoonup> nat \<times> int) \<Rightarrow> string \<Rightarrow>
   int \<times> (string \<rightharpoonup> nat \<times> int)" where
  "observed_grid_depth g mode ledger cache symbol =
     (if mode \<notin> {WM_TESTNET, WM_LIVE} then (0, cache)
      else
        (case ledger of
           None \<Rightarrow> (max_grid_levels g, cache)
         | Some l \<Rightarrow>
             let normalized = upper symbol;
                 scan = (case scan_grid_depth g l normalized of
                    Inr depth \<Rightarrow> (depth, cache(normalized \<mapsto> (version l, depth)))
                  | Inl _ \<Rightarrow> (max_grid_levels g, cache))
             in case cache normalized of
                  Some (v, depth) \<Rightarrow> if v = version l then (depth, cache) else scan
                | None \<Rightarrow> scan))"

section \<open>Reachable ledgers\<close>

inductive ledger_reach :: "InMemoryLedger \<Rightarrow> bool" where
  init: "ledger_reach ledger_init"
| order: "ledger_reach l \<Longrightarrow> ledger_reach (upsert_order od l)"
| raw_order: "ledger_reach l \<Longrightarrow> upsert_raw_exchange_order raw now l = Inr l' \<Longrightarrow> ledger_reach l'"
| fill: "ledger_reach l \<Longrightarrow> ledger_reach (append_fill f l)"
| replace: "ledger_reach l \<Longrightarrow> replace_positions raws b l = Inr l' \<Longrightarrow> ledger_reach l'"
| position: "ledger_reach l \<Longrightarrow> upsert_position raw l = Inr l' \<Longrightarrow> ledger_reach l'"
| clear: "ledger_reach l \<Longrightarrow> ledger_reach (clear_positions_for_symbol symbol l)"
| balances: "ledger_reach l \<Longrightarrow> ledger_reach (update_balances w m l)"
| snapshot: "ledger_reach l \<Longrightarrow> ledger_reach (set_account_snapshot s l)"
| mark: "ledger_reach l \<Longrightarrow> ledger_reach (mark_initialized l)"

definition ledger_ok :: "InMemoryLedger \<Rightarrow> bool" where
  "ledger_ok l \<longleftrightarrow> dict_ok (orders l) \<and> (\<forall>(k, od) \<in> set (orders l). eo_client_order_id od = k)
     \<and> fill_keys l = get_fill_key ` set (fills l) \<and> distinct (map get_fill_key (fills l))"

text \<open>The parts of the ledger an operation leaves unchanged.\<close>

lemma upsert_position_Inr:
  assumes "upsert_position raw l = Inr l'"
  obtains q where "to_exchange_position raw = Inr q"
    "positions l' = (case replace_first q (positions l) of Some (old, ps) \<Rightarrow> ps | None \<Rightarrow> positions l @ [q])"
    "orders l' = orders l" "fills l' = fills l" "fill_keys l' = fill_keys l" "version l' = Suc (version l)"
proof -
  from assms obtain q where q: "to_exchange_position raw = Inr q" by (auto simp: upsert_position_def res_simps)
  show ?thesis
  proof (cases "replace_first q (positions l)")
    case None
    then show ?thesis using that[OF q] assms q by (cases "ep_quantity q = 0") (auto simp: upsert_position_def notify_def)
  next
    case (Some r)
    obtain old ps where "r = (old, ps)" by fastforce
    with Some show ?thesis using that[OF q] assms q
      by (cases "ep_quantity q = 0 \<and> old = 0") (auto simp: upsert_position_def notify_def)
  qed
qed

lemma position_frame [frame]:
  "upsert_position raw l = Inr l' \<Longrightarrow> orders l' = orders l \<and> fills l' = fills l \<and> fill_keys l' = fill_keys l"
  "replace_positions raws b l = Inr l' \<Longrightarrow> orders l' = orders l \<and> fills l' = fills l \<and> fill_keys l' = fill_keys l"
  by (auto simp: replace_positions_def res_simps Let_def elim: upsert_position_Inr)

lemma raw_order_Inr:
  assumes "upsert_raw_exchange_order raw now l = Inr l'"
  obtains od where "raw_exchange_order raw now l = Inr od" "orders l' = AList.update (eo_client_order_id od) od (orders l)"
    "fills l' = fills l" "fill_keys l' = fill_keys l" "positions l' = positions l" "version l' = Suc (version l)"
  using assms by (auto simp: upsert_raw_exchange_order_def res_simps notify_def)

lemma dict_update_keys_ok:
  assumes "dict_ok d" "\<forall>(k, od) \<in> set d. key od = k"
  shows "\<forall>(k, od) \<in> set (AList.update (key od) od d). key od = k"
  using assms
proof (induction d)
  case (Cons x d)
  then show ?case by (cases x) (auto simp: dict_ok_def)
qed simp

lemma ledger_ok_orders:
  "ledger_ok l \<Longrightarrow> orders l' = AList.update (eo_client_order_id od) od (orders l) \<Longrightarrow> fills l' = fills l \<Longrightarrow>
   fill_keys l' = fill_keys l \<Longrightarrow> ledger_ok l'"
  using dict_update_keys_ok[of "orders l" eo_client_order_id od] by (simp add: ledger_ok_def)

lemma ledger_ok_frame:
  "ledger_ok l \<Longrightarrow> orders l' = orders l \<Longrightarrow> fills l' = fills l \<Longrightarrow> fill_keys l' = fill_keys l \<Longrightarrow> ledger_ok l'"
  by (simp add: ledger_ok_def)

lemma reachable_ledger_ok: "ledger_reach l \<Longrightarrow> ledger_ok l"
proof (induction rule: ledger_reach.induct)
  case (order l od)
  from order.IH show ?case by (rule ledger_ok_orders) (simp_all add: upsert_order_def)
next
  case (raw_order l raw now l')
  then show ?case by (auto elim!: raw_order_Inr intro: ledger_ok_orders)
next
  case (fill l f)
  then show ?case by (auto simp: append_fill_def ledger_ok_def Let_def notify_def)
next
  case (replace l raws b l')
  then show ?case using position_frame(2) by (blast intro: ledger_ok_frame)
next
  case (position l raw l')
  then show ?case using position_frame(1) by (blast intro: ledger_ok_frame)
qed (auto simp: ledger_init_def clear_positions_for_symbol_def update_balances_def set_account_snapshot_def
    mark_initialized_def ledger_ok_def)

section \<open>Lemmas\<close>

lemma upper_fill_venue [simp]: "upper (fill_venue f) = fill_venue f"
  by (auto simp: fill_venue_def Let_def string_eval split: option.splits dest!: find_Some_iff[THEN iffD1])

definition plain :: "string \<Rightarrow> bool" where "plain s \<longleftrightarrow> CHR '':'' \<notin> set s"

definition fill_identity :: "ExchangeFill \<Rightarrow> string \<times> string \<times> string" where
  "fill_identity f = (fill_venue f, upper (ef_symbol f), exchange_trade_id f)"

lemma split_fill_key:
  assumes "plain (fill_venue f)" "plain (upper (ef_symbol f))"
  shows "split_max (CHR '':'') 2 (get_fill_key f) = [fill_venue f, upper (ef_symbol f), exchange_trade_id f]"
    and "hd (split_max (CHR '':'') 1 (get_fill_key f)) = fill_venue f"
proof -
  have "split_max (CHR '':'') (Suc (Suc 0)) (get_fill_key f) = [fill_venue f, upper (ef_symbol f), exchange_trade_id f]"
    using assms by (simp add: get_fill_key_def plain_def split_max_Suc_sep)
  then show "split_max (CHR '':'') 2 (get_fill_key f) = [fill_venue f, upper (ef_symbol f), exchange_trade_id f]"
    by (simp only: numeral_2_eq_2)
  have "split_max (CHR '':'') (Suc 0) (get_fill_key f) = fill_venue f # [upper (ef_symbol f) @ '':'' @ exchange_trade_id f]"
    using assms(1) by (simp add: get_fill_key_def plain_def split_max_Suc_sep)
  then show "hd (split_max (CHR '':'') 1 (get_fill_key f)) = fill_venue f" by (simp only: One_nat_def list.sel)
qed

lemma fill_key_inj:
  assumes "plain (fill_venue f)" "plain (upper (ef_symbol f))" "plain (fill_venue g)" "plain (upper (ef_symbol g))"
  shows "get_fill_key f = get_fill_key g \<longleftrightarrow> fill_identity f = fill_identity g"
  using split_fill_key(1)[OF assms(1,2)] split_fill_key(1)[OF assms(3,4)]
  by (auto simp: fill_identity_def) (auto simp: get_fill_key_def)

lemma replace_first_None: "replace_first q ps = None \<longleftrightarrow> position_key q \<notin> position_key ` set ps"
  by (induction ps) auto

lemma replace_first_Some:
  "replace_first q ps = Some (old, ps') \<Longrightarrow>
     map position_key ps' = map position_key ps \<and> find (\<lambda>p. position_key p = position_key q) ps' = Some q
     \<and> (\<forall>k. k \<noteq> position_key q \<longrightarrow> find (\<lambda>p. position_key p = k) ps' = find (\<lambda>p. position_key p = k) ps)"
  by (induction ps arbitrary: ps') (auto split: if_splits)

lemma find_append: "find P (xs @ ys) = (case find P xs of Some x \<Rightarrow> Some x | None \<Rightarrow> find P ys)"
  by (induction xs) auto

section \<open>Properties\<close>

text \<open>
  C9: A fill is recorded at most once, however often the exchange reports it: in every ledger
  reachable by any sequence of operations the deduplication keys of the recorded fills are
  pairwise distinct and are exactly the indexed keys, and orders are indexed by their own client
  order id, one order per id.
\<close>

theorem fills_never_duplicated:
  assumes "ledger_reach l"
  shows "distinct (map get_fill_key (fills l)) \<and> fill_keys l = get_fill_key ` set (fills l)
    \<and> distinct (map eo_client_order_id (get_all_orders l))
    \<and> (\<forall>od \<in> set (get_all_orders l). get_order_by_client_id l (eo_client_order_id od) = Some od)"
proof -
  have ok: "ledger_ok l" by (rule reachable_ledger_ok[OF assms])
  have "map eo_client_order_id (get_all_orders l) = map fst (orders l)"
    using ok by (auto simp: ledger_ok_def get_all_orders_def)
  moreover have "distinct (map fst (orders l))" using ok by (simp add: ledger_ok_def dict_ok_def)
  ultimately have "distinct (map eo_client_order_id (get_all_orders l))" by (simp only:)
  moreover have "\<forall>od \<in> set (get_all_orders l). get_order_by_client_id l (eo_client_order_id od) = Some od"
    using ok by (auto simp: ledger_ok_def get_order_by_client_id_def get_all_orders_def dict_ok_def)
  ultimately show ?thesis using ok by (simp add: ledger_ok_def)
qed

text \<open>
  Deduplication is exact: when venue labels and symbols contain no colon, \<open>append_fill\<close> records a
  fill, exactly when no recorded fill has the same venue, symbol and trade id; a fill that was
  recorded once is ignored from then on (\<open>append_fill\<close> is idempotent).
\<close>

theorem append_fill_exact:
  assumes "ledger_reach l"
    and "\<forall>g \<in> insert f (set (fills l)). plain (fill_venue g) \<and> plain (upper (ef_symbol g))"
  shows "fills (append_fill f l) = (if fill_identity f \<in> fill_identity ` set (fills l) then fills l else fills l @ [f])
    \<and> append_fill f (append_fill f l) = append_fill f l"
proof -
  have keys: "fill_keys l = get_fill_key ` set (fills l)" using reachable_ledger_ok[OF assms(1)] by (simp add: ledger_ok_def)
  have same: "get_fill_key g = get_fill_key f \<longleftrightarrow> fill_identity g = fill_identity f" if "g \<in> set (fills l)" for g
    using fill_key_inj assms(2) that by simp
  define seen where "seen \<longleftrightarrow> (\<exists>g \<in> set (fills l). fill_identity g = fill_identity f)"
  have image: "fill_identity f \<in> fill_identity ` set (fills l) \<longleftrightarrow> seen" unfolding seen_def image_iff by metis
  have key: "get_fill_key f \<in> fill_keys l \<longleftrightarrow> seen" unfolding keys seen_def image_iff using same by metis
  have "list_ex (\<lambda>g. hd (split_max (CHR '':'') 1 (get_fill_key g)) = upper (fill_venue f)
      \<and> upper (ef_symbol g) = upper (upper (ef_symbol f)) \<and> exchange_trade_id g = exchange_trade_id f) (fills l) \<longleftrightarrow> seen"
    using assms(2) split_fill_key(2) by (auto simp: list_ex_iff fill_identity_def seen_def)
  then have "has_fill l (get_fill_key f) \<longleftrightarrow> seen"
    using split_fill_key(1)[of f] assms(2) key by (simp add: has_fill_def)
  with key show ?thesis unfolding image by (auto simp: append_fill_def notify_def Let_def)
qed

text \<open>
  Exchange order updates never lose lineage: after a successful \<open>upsert_raw_exchange_order\<close> the
  order is stored under its client order id with the exchange's data, and its strategy, decision,
  target exposure, source intents and risk class are those of the order known before; all other
  orders, the fills and the positions are unchanged.
\<close>

theorem raw_order_keeps_lineage:
  assumes "upsert_raw_exchange_order raw now l = Inr l'"
  shows "\<exists>od. get_order_by_client_id l' (eo_client_order_id od) = Some od
    \<and> JStr (eo_client_order_id od) = json_get raw ''clientOrderId'' \<and> JStr (eo_status od) = json_get raw ''status''
    \<and> (\<forall>old. get_order_by_client_id l (eo_client_order_id od) = Some old \<longrightarrow>
        eo_strategy_id od = eo_strategy_id old \<and> eo_decision_id od = eo_decision_id old
        \<and> eo_target_exposure_id od = eo_target_exposure_id old \<and> eo_source_intent_ids od = eo_source_intent_ids old
        \<and> eo_risk_class od = eo_risk_class old)
    \<and> (\<forall>k. k \<noteq> eo_client_order_id od \<longrightarrow> get_order_by_client_id l' k = get_order_by_client_id l k)
    \<and> fills l' = fills l \<and> positions l' = positions l"
proof -
  from assms obtain od where od: "raw_exchange_order raw now l = Inr od"
    and l': "orders l' = AList.update (eo_client_order_id od) od (orders l)" "fills l' = fills l" "positions l' = positions l"
    by (rule raw_order_Inr)
  from od have "JStr (eo_client_order_id od) = json_get raw ''clientOrderId''" "JStr (eo_status od) = json_get raw ''status''"
    "\<forall>old. map_of (orders l) (eo_client_order_id od) = Some old \<longrightarrow> eo_strategy_id od = eo_strategy_id old
       \<and> eo_decision_id od = eo_decision_id old \<and> eo_target_exposure_id od = eo_target_exposure_id old
       \<and> eo_source_intent_ids od = eo_source_intent_ids old \<and> eo_risk_class od = eo_risk_class old"
    by (auto simp: raw_exchange_order_def text_field_def res_simps Let_def split: if_splits json.splits)
  then show ?thesis using l' by (auto simp: get_order_by_client_id_def update_conv')
qed

text \<open>
  \<open>upsert_position\<close> writes one position: on success the first position under the symbol and side
  is the one given, no key is duplicated that was not before, and every other key keeps its
  position.
\<close>

theorem upsert_position_writes_one:
  assumes "upsert_position raw l = Inr l'"
  shows "\<exists>q. to_exchange_position raw = Inr q
    \<and> find (\<lambda>p. position_key p = position_key q) (positions l') = Some q
    \<and> (\<forall>k. k \<noteq> position_key q \<longrightarrow> find (\<lambda>p. position_key p = k) (positions l') = find (\<lambda>p. position_key p = k) (positions l))
    \<and> (distinct (map position_key (positions l)) \<longrightarrow> distinct (map position_key (positions l')))"
proof -
  from assms obtain q where q: "to_exchange_position raw = Inr q"
    and ps: "positions l' = (case replace_first q (positions l) of Some (old, ps) \<Rightarrow> ps | None \<Rightarrow> positions l @ [q])"
    by (rule upsert_position_Inr)
  show ?thesis
  proof (cases "replace_first q (positions l)")
    case None
    then have "position_key q \<notin> position_key ` set (positions l)" by (simp add: replace_first_None)
    moreover from this have "find (\<lambda>p. position_key p = position_key q) (positions l) = None"
      by (auto simp: find_None_iff image_iff)
    ultimately show ?thesis using q ps None by (auto simp: find_append split: option.splits)
  next
    case (Some r)
    obtain old ps' where "r = (old, ps')" by fastforce
    with replace_first_Some[of q "positions l" old ps'] Some q ps show ?thesis by auto
  qed
qed

section \<open>The depth cache\<close>

text \<open>The ledger operations that the version counter records, or that touch nothing it covers.\<close>

inductive versioned_step :: "InMemoryLedger \<Rightarrow> InMemoryLedger \<Rightarrow> bool" where
  "upsert_raw_exchange_order raw now l = Inr l' \<Longrightarrow> versioned_step l l'"
| "versioned_step l (append_fill f l)"
| "upsert_position raw l = Inr l' \<Longrightarrow> versioned_step l l'"
| "versioned_step l (clear_positions_for_symbol symbol l)"
| "versioned_step l (update_balances w m l)"
| "versioned_step l (set_account_snapshot s l)"
| "versioned_step l (mark_initialized l)"

inductive_cases versioned_stepE: "versioned_step l l'"

definition cache_coherent :: "GridStrategyEngine \<Rightarrow> InMemoryLedger \<Rightarrow> (string \<rightharpoonup> nat \<times> int) \<Rightarrow> bool" where
  "cache_coherent g l cache \<longleftrightarrow>
     (\<forall>s v d. cache s = Some (v, d) \<longrightarrow> v \<le> version l \<and> (v = version l \<longrightarrow> scan_grid_depth g l s = Inr d))"

lemma versioned_step_cases:
  assumes "versioned_step l l'"
  shows "version l < version l' \<or>
    (version l' = version l \<and> orders l' = orders l \<and> fills l' = fills l \<and> positions l' = positions l)"
  using assms
  by (cases rule: versioned_step.cases)
    (auto simp: append_fill_def notify_def Let_def clear_positions_for_symbol_def update_balances_def
      set_account_snapshot_def mark_initialized_def elim!: raw_order_Inr upsert_position_Inr)

lemma scan_grid_depth_cong:
  "orders l' = orders l \<Longrightarrow> fills l' = fills l \<Longrightarrow> positions l' = positions l \<Longrightarrow>
   scan_grid_depth g l' s = scan_grid_depth g l s"
  by (simp add: scan_grid_depth_def get_all_orders_def)

text \<open>
  Reading the grid depth through the cache is as good as scanning the ledger, as long as the
  ledger changes only through operations that bump its version: along any sequence of such
  operations a coherent cache stays coherent, and with a coherent cache \<open>_observed_grid_depth\<close>
  returns the depth of a fresh scan (the maximum depth when the scan fails) and leaves the cache
  coherent.
\<close>

theorem grid_depth_cache_fresh:
  assumes "cache_coherent g l cache" "versioned_step\<^sup>*\<^sup>* l l'" "mode \<in> {WM_TESTNET, WM_LIVE}"
    and "observed_grid_depth g mode (Some l') cache symbol = (depth, cache')"
  shows "depth = (case scan_grid_depth g l' (upper symbol) of Inr d \<Rightarrow> d | Inl _ \<Rightarrow> max_grid_levels g)
    \<and> cache_coherent g l' cache'"
proof -
  from assms(2) have "cache_coherent g l' cache"
  proof (induction rule: rtranclp_induct)
    case (step y z)
    show ?case unfolding cache_coherent_def
    proof (intro allI impI)
      fix s v d assume c: "cache s = Some (v, d)"
      with step.IH have y: "v \<le> version y" "v = version y \<longrightarrow> scan_grid_depth g y s = Inr d"
        by (auto simp: cache_coherent_def)
      from versioned_step_cases[OF step.hyps(2)] show "v \<le> version z \<and> (v = version z \<longrightarrow> scan_grid_depth g z s = Inr d)"
        using y scan_grid_depth_cong[of z y g s] by auto
    qed
  qed (rule assms(1))
  then show ?thesis using assms(3,4)
    by (auto simp: observed_grid_depth_def cache_coherent_def Let_def split: option.splits prod.splits sum.splits if_splits)
qed

definition grid_order :: ExecutionOrder where
  "grid_order = \<lparr>eo_symbol = ''ETHUSDC'', eo_side = BUY, eo_quantity = 1, eo_price = 1, eo_order_type = ''MARKET'',
     eo_client_order_id = ''B-1'', eo_status = ''NEW'', eo_exchange_order_id = None, eo_timestamp = Aware 0,
     eo_market_type = USDM_FUTURES, eo_position_side = BOTH, eo_reduce_only = False, eo_time_in_force = GTC,
     eo_strategy_id = ''grid'', eo_decision_id = None, eo_target_exposure_id = None, eo_source_intent_ids = [],
     eo_risk_class = NEW_RISK\<rparr>"

lemmas depth_eval = observed_grid_depth_def scan_grid_depth_def observed_depth_def has_grid_lineage_def
  is_grid_strategy_def get_all_orders_def upsert_order_def ledger_init_def sample_grid_def grid_order_def

theorem grid_depth_cache_fresh_witness:
  "\<exists>depth cache'. observed_grid_depth sample_grid WM_LIVE (Some (mark_initialized ledger_init)) Map.empty ''ETHUSDC'' = (depth, cache')
     \<and> depth = 0 \<and> cache_coherent sample_grid (mark_initialized ledger_init) cache'"
proof -
  let ?l = "mark_initialized ledger_init"
  obtain depth cache' where d: "observed_grid_depth sample_grid WM_LIVE (Some ?l) Map.empty ''ETHUSDC'' = (depth, cache')"
    by fastforce
  have "versioned_step\<^sup>*\<^sup>* ledger_init ?l" by (rule r_into_rtranclp) (rule versioned_step.intros)
  moreover have "scan_grid_depth sample_grid ?l (upper ''ETHUSDC'') = Inr 0"
    by (simp add: depth_eval mark_initialized_def)
  ultimately show ?thesis using grid_depth_cache_fresh[of sample_grid ledger_init Map.empty ?l WM_LIVE "''ETHUSDC''" depth cache'] d
    by (simp add: cache_coherent_def)
qed

text \<open>
  \<open>upsert_order\<close>, which the execution adapter uses to record the orders it plans, submits and
  amends, and \<open>replace_positions\<close> do not bump the version although every mutation is meant to;
  so the cache goes stale: after the depth of an empty ledger has been read, recording an open
  grid order leaves the reported depth at 0 while a scan of the ledger gives 1, and the grid may
  expand by a level it has already used.
\<close>

theorem grid_depth_cache_stale:
  "(\<forall>od l. version (upsert_order od l) = version l)
   \<and> (\<forall>raws b l l'. replace_positions raws b l = Inr l' \<longrightarrow> version l' = version l)
   \<and> (let cache = snd (observed_grid_depth sample_grid WM_LIVE (Some ledger_init) Map.empty ''ETHUSDC'');
          l = upsert_order grid_order ledger_init
      in fst (observed_grid_depth sample_grid WM_LIVE (Some l) cache ''ETHUSDC'') = 0
         \<and> scan_grid_depth sample_grid l ''ETHUSDC'' = Inr 1)"
proof (intro conjI allI impI)
  show "version l' = version l" if "replace_positions raws b l = Inr l'" for raws b l l'
    using that by (auto simp: replace_positions_def res_simps Let_def)
  show "let cache = snd (observed_grid_depth sample_grid WM_LIVE (Some ledger_init) Map.empty ''ETHUSDC'');
          l = upsert_order grid_order ledger_init
      in fst (observed_grid_depth sample_grid WM_LIVE (Some l) cache ''ETHUSDC'') = 0
         \<and> scan_grid_depth sample_grid l ''ETHUSDC'' = Inr 1"
    by (simp add: depth_eval string_eval Let_def)
qed (simp add: upsert_order_def)

theorem grid_depth_cache_stale_witness:
  "replace_positions [] True ledger_init = Inr (mark_initialized ledger_init)
   \<and> version (mark_initialized ledger_init) = version ledger_init"
proof -
  have r: "replace_positions [] True ledger_init = Inr (mark_initialized ledger_init)"
    by (simp add: replace_positions_def mark_initialized_def ledger_init_def)
  with grid_depth_cache_stale show ?thesis by blast
qed

section \<open>Witnesses\<close>

definition sample_fill :: ExchangeFill where
  "sample_fill = \<lparr>exchange_trade_id = ''7'', ef_exchange_order_id = ''1'', ef_client_order_id = ''B-1'', ef_symbol = ''ETHUSDC'',
     ef_side = BUY, ef_position_side = BOTH, ef_quantity = 1, ef_price = 1, ef_commission = 0, ef_commission_asset = ''USDC'',
     ef_realized_pnl = 0, ef_maker = False, ef_source = ''BINANCE_TESTNET'', ef_strategy_id = ''grid'', ef_decision_id = None,
     ef_target_exposure_id = None, ef_source_intent_ids = []\<rparr>"

lemma sample_fill_plain: "plain (fill_venue sample_fill)" "plain (upper (ef_symbol sample_fill))"
  by (simp_all add: plain_def fill_venue_def sample_fill_def string_eval Let_def)

theorem fills_never_duplicated_witness:
  "distinct (map get_fill_key (fills (append_fill sample_fill (append_fill sample_fill ledger_init))))"
  using fills_never_duplicated[OF ledger_reach.fill[OF ledger_reach.fill[OF ledger_reach.init]]] by blast

theorem append_fill_exact_witness:
  "fills (append_fill sample_fill ledger_init) = [sample_fill]
   \<and> append_fill sample_fill (append_fill sample_fill ledger_init) = append_fill sample_fill ledger_init"
  using append_fill_exact[OF ledger_reach.init, of sample_fill] sample_fill_plain by (simp add: ledger_init_def)

definition sample_raw_order :: "(string \<times> json) list" where
  "sample_raw_order = [(''symbol'', JStr ''ETHUSDC''), (''clientOrderId'', JStr ''B-1''), (''status'', JStr ''FILLED''),
     (''side'', JStr ''BUY''), (''origQty'', JStr ''1''), (''orderId'', JInt 9)]"

theorem raw_order_keeps_lineage_witness:
  "\<exists>l'. upsert_raw_exchange_order sample_raw_order (Aware 0) (upsert_order grid_order ledger_init) = Inr l'
     \<and> (\<exists>od. get_order_by_client_id l' ''B-1'' = Some od \<and> eo_risk_class od = NEW_RISK)"
proof -
  let ?l = "upsert_order grid_order ledger_init"
  have lits: "json_decimal (JStr ''1'') = Some (Fin 1)" "json_decimal (JStr ''0'') = Some (Fin 0)"
    by (simp_all add: json_decimal_def parse_decimal_def parse_literal_def parse_unsigned_def parse_exponent_def
        strip_sign_def nat_of_digits_def digit_value_def string_eval)
  have "\<exists>l'. upsert_raw_exchange_order sample_raw_order (Aware 0) ?l = Inr l'"
    by (simp add: upsert_raw_exchange_order_def raw_exchange_order_def sample_raw_order_def json_get_def json_get_or_def
        json_missing_def of_option_def OrderSide_of_def parse_order_tif_def TimeInForce_of_def PositionSide_of_def
        finite_field_def text_field_def lits string_eval Let_def)
  then obtain l' where l': "upsert_raw_exchange_order sample_raw_order (Aware 0) ?l = Inr l'" by blast
  have "get_order_by_client_id ?l ''B-1'' = Some grid_order"
    by (simp add: get_order_by_client_id_def upsert_order_def ledger_init_def grid_order_def)
  with raw_order_keeps_lineage[OF l'] l' show ?thesis
    by (auto simp: sample_raw_order_def json_get_def grid_order_def)
qed

definition sample_position :: ExchangePosition where
  "sample_position = \<lparr>ep_symbol = ''ETHUSDC'', ep_position_side = BOTH, ep_quantity = 1, ep_entry_price = 1,
     ep_mark_price = Some 1, ep_unrealized_pnl = 0, ep_liquidation_price = None, ep_leverage = 1,
     ep_margin_type = ''cross'', ep_source = ''BINANCE_TESTNET''\<rparr>"

theorem upsert_position_writes_one_witness:
  "\<exists>l'. upsert_position (Typed sample_position) ledger_init = Inr l'
     \<and> find (\<lambda>p. position_key p = position_key sample_position) (positions l') = Some sample_position"
proof -
  obtain l' where l': "upsert_position (Typed sample_position) ledger_init = Inr l'"
    by (simp add: upsert_position_def to_exchange_position_def ledger_init_def Let_def)
  with upsert_position_writes_one[OF l'] show ?thesis by (auto simp: to_exchange_position_def)
qed

end
