(* ===== verification/Gates.thy ===== *)
theory Gates
  imports Governor SymbolRules Ledger
begin

text \<open>
  The execution gates (\<open>venues/binance/gates.py\<close>): the decision gate of the worker and the order
  gate of the adapter, with the snapshot and market-sample checks they call
  (\<open>venues/binance/execution.py\<close>, \<open>main.py\<close>). A gate returns a reason to refuse (\<open>Inl\<close>) or its
  result (\<open>Inr\<close>); an exception that would leave the gate is the reason \<open>Raised\<close>. The process
  environment and the clock readings of a call are arguments: \<open>clock 0\<close> dates the account snapshot,
  the later readings the market samples. Price discovery over the network,
  \<open>get_fresh_market_price\<close>, is a parameter that returns a price or nothing and the adapter as it
  is afterwards; nothing is assumed of it.
\<close>

section \<open>Worker and adapter\<close>

datatype WorkerEngineState =
    DISARMED | ARMING | ARMED | PAUSED_NEW_RISK | ES_RECOVERY_ONLY | ES_DEGRADED | ES_EMERGENCY

record BinanceAdapter =
  ad_env :: BinanceEnvironment
  connection_state :: ConnectionState
  authenticated :: bool
  trade_authorized :: bool
  ad_hedge_mode :: bool
  private_stream_healthy :: bool
  reconciliation_status :: string
  ledger :: InMemoryLedger
  safety_limits :: TestnetSafetyLimits
  symbol_rules :: "string \<rightharpoonup> SymbolTradingRules"
  ad_last_market_event_at :: "string \<rightharpoonup> datetime"
  last_market_event_source :: "string \<rightharpoonup> string"
  last_market_event_venue :: "string \<rightharpoonup> string"
  last_market_event_market_type :: "string \<rightharpoonup> string"
  last_market_ask_qty :: "string \<rightharpoonup> decimal"
  last_market_bid_qty :: "string \<rightharpoonup> decimal"
  last_market_reference_price :: "string \<rightharpoonup> decimal"
  last_market_reference_at :: "string \<rightharpoonup> datetime"

record TradingWorker =
  execution_mode :: WorkerExecutionMode
  engine_state :: WorkerEngineState
  kill_switch_active :: bool
  pause_new_risk :: bool
  recovery_only :: bool
  market_data_healthy :: bool
  wk_last_market_event_at :: "string \<rightharpoonup> datetime"
  enabled_strategies :: "string set"
  execution_adapter :: "BinanceAdapter option"

datatype (plugins only: ) gate_reason =
    NotExchangeMode | LiveNotApproved | NotArmed | KillSwitch | NotConfigured | NoAdapter | NotReady
  | NotAuthenticated | TradeNotAuthorized | StreamDisconnected | NotInSync | NoRiskClass | NoOrders | NoopAction
  | StrategyUnknown string | StrategyDisabled string | PausedNewRisk | RecoveryOnlyMode | SnapshotNotReady
  | BalanceNotPositive | MarginUnsafe | LiquidationUnknown | MarketDataStale | NoMarketSample string | SymbolStale string
  | MainnetUnknown | MainnetCollateralAsset | MainnetMarginMode | MainnetCollateralInvalid | MainnetCollateralCap
  | MainnetLeverageCap | MainnetConfiguredLeverage | MainnetDailyUnknown | MainnetWindowUnknown | MainnetWindowNaive
  | MainnetWindowInvalid | MainnetDailyInvalid | MainnetDailyLossCap
  | SymbolNotAllowed | MarketTypeUnsupported | OrderTypeUnsupported | RulesUnavailable | HedgeNeedsSide | OneWayNeedsBoth
  | PostOnlyNotLimit | PostOnlyTif | QuantityInvalid | QuantityZero | QuantityBelowMin | QuantityAboveMax
  | LimitNeedsPrice | LimitPriceInvalid | LimitPriceNotPositive | LimitPriceOutside | MarketTif | MarketWithPrice
  | NoFreshPrice | PercentPrice percent_price_reason | DepthUnknown | DepthExceeded
  | NotionalInvalid | NotionalBelowMin | NotionalAboveMax | ReduceOnlyButIncreasing | MustBeReduceOnly
  | ExceedsExposure | TooManyOpenOrders | OpenNotionalUnknown | PositionNotionalUnknown | TotalNotionalExceeded
  | SingleNotionalExceeded | TooManyChains | Raised pyerr

type_synonym 'a gate = "gate_reason + 'a"

section \<open>Classification and lineage\<close>

definition is_risk_increasing :: "EconomicRiskClass \<Rightarrow> bool" where
  "is_risk_increasing c = (c \<in> {NEW_RISK, INCREASE_RISK})"

definition is_risk_reducing :: "EconomicRiskClass \<Rightarrow> bool" where
  "is_risk_reducing c = (c \<in> {REDUCE_RISK, RECOVERY, CLOSE, EMERGENCY})"

definition KNOWN_ALPHA_STRATEGIES :: "string set" where
  "KNOWN_ALPHA_STRATEGIES = {''grid'', ''trend'', ''shock'', ''carry''}"

definition SYSTEM_STRATEGIES :: "string set" where
  "SYSTEM_STRATEGIES = {''meta_allocator'', ''portfolio'', ''recovery'', ''manual_testnet_trial''}"

definition STRATEGY_ALIASES :: "(string \<times> string) list" where
  "STRATEGY_ALIASES = [(''structural grid'', ''grid''), (''trend / breakout'', ''trend''), (''trend/breakout'', ''trend''),
     (''shock momentum'', ''shock''), (''funding carry'', ''carry''), (''funding_carry'', ''carry'')]"

definition LINEAGE_PREFIX_TO_STRATEGY :: "(string \<times> string) list" where
  "LINEAGE_PREFIX_TO_STRATEGY = [(''GRID'', ''grid''), (''TREND'', ''trend''), (''SHOCK'', ''shock''), (''CARRY'', ''carry'')]"

definition canonical_strategy_id :: "string \<Rightarrow> string option" where
  "canonical_strategy_id v =
     (let normalized = lower (strip v) in
      if normalized \<in> KNOWN_ALPHA_STRATEGIES then Some normalized else map_of STRATEGY_ALIASES normalized)"

text \<open>The check of one order's strategy and of one lineage identifier.\<close>

definition order_strategy_reason :: "string set \<Rightarrow> string \<Rightarrow> gate_reason option" where
  "order_strategy_reason enabled raw =
     (let strategy = lower (strip raw) in
      if strategy \<in> SYSTEM_STRATEGIES then None
      else
        (case canonical_strategy_id strategy of
           None \<Rightarrow> Some (StrategyUnknown strategy)
         | Some c \<Rightarrow> if c \<notin> enabled then Some (StrategyDisabled c) else None))"

definition lineage_reason :: "string set \<Rightarrow> string \<Rightarrow> gate_reason option" where
  "lineage_reason enabled lineage_id =
     (case map_of LINEAGE_PREFIX_TO_STRATEGY (hd (split_max (CHR ''-'') 1 (upper (strip lineage_id)))) of
        Some c \<Rightarrow> if c \<notin> enabled then Some (StrategyDisabled c) else None
      | None \<Rightarrow> None)"

text \<open>The first reason of a list of checks.\<close>

primrec first_reason :: "gate_reason option list \<Rightarrow> gate_reason option" where
  "first_reason [] = None"
| "first_reason (x # xs) = (case x of Some r \<Rightarrow> Some r | None \<Rightarrow> first_reason xs)"

definition disabled_strategy_reason :: "TradingWorker \<Rightarrow> 'r ExecutionDecision \<Rightarrow> gate_reason option" where
  "disabled_strategy_reason w d =
     (if \<not> is_risk_increasing (ed_risk_class d) then None
      else
        let enabled = enabled_strategies w \<inter> KNOWN_ALPHA_STRATEGIES;
            lineage = ed_source_intent_ids d @ concat (map oi_source_intent_ids (ed_orders d))
        in first_reason (map (\<lambda>i. order_strategy_reason enabled (oi_strategy_id i)) (ed_orders d)
             @ map (lineage_reason enabled) lineage))"

section \<open>Snapshot and clock checks\<close>

definition liquidation_safety_is_known_and_positive :: "ExchangeAccountSnapshot option \<Rightarrow> bool" where
  "liquidation_safety_is_known_and_positive snapshot =
     (case snapshot of
        None \<Rightarrow> False
      | Some s \<Rightarrow>
          liquidation_safety s = ''KNOWN''
          \<and> (case min_liquidation_distance_pct s of
               None \<Rightarrow> total_position_notional s = Fin 0
             | Some d \<Rightarrow> is_finite d \<and> finite_value d > 0))"

definition available_balance_is_positive :: "ExchangeAccountSnapshot option \<Rightarrow> bool" where
  "available_balance_is_positive snapshot =
     (case snapshot of None \<Rightarrow> False | Some s \<Rightarrow> is_finite (available_balance s) \<and> finite_value (available_balance s) > 0)"

definition configured_margin_limit :: "environ \<Rightarrow> rat" where
  "configured_margin_limit env =
     (case finite_of (parse_decimal (case env ''MAX_MARGIN_UTILIZATION_PCT'' of Some raw \<Rightarrow> raw | None \<Rightarrow> ''70'')) of
        Some x \<Rightarrow> if x \<le> 0 \<or> x > 100 then 70 else x
      | None \<Rightarrow> 70)"

definition margin_utilization_is_safe :: "environ \<Rightarrow> ExchangeAccountSnapshot option \<Rightarrow> bool" where
  "margin_utilization_is_safe env snapshot =
     (case snapshot of
        None \<Rightarrow> False
      | Some s \<Rightarrow> is_finite (as_margin_utilization_pct s) \<and> finite_value (as_margin_utilization_pct s) \<ge> 0
          \<and> finite_value (as_margin_utilization_pct s) < configured_margin_limit env)"

definition positive_float :: "environ \<Rightarrow> string \<Rightarrow> rat \<Rightarrow> rat" where
  "positive_float env name fallback =
     (case env name of
        None \<Rightarrow> fallback
      | Some raw \<Rightarrow>
          if strip raw = [] then fallback
          else (case finite_of (parse_float raw) of Some x \<Rightarrow> if x > 0 then x else fallback | None \<Rightarrow> fallback))"

definition age_seconds :: "int \<Rightarrow> datetime option \<Rightarrow> rat option" where
  "age_seconds now timestamp =
     (case timestamp of Some (Aware t) \<Rightarrow> Some (fl (of_int (now - t) / 1000000)) | _ \<Rightarrow> None)"

definition is_fresh :: "int \<Rightarrow> rat \<Rightarrow> datetime option \<Rightarrow> bool" where
  "is_fresh now max_age timestamp =
     (case age_seconds now timestamp of None \<Rightarrow> False | Some age \<Rightarrow> 0 \<le> age \<and> age \<le> max_age)"

text \<open>The decimal fields of a snapshot that must be finite; all but the unrealized PnL must not be
  negative.\<close>

definition snapshot_amounts :: "ExchangeAccountSnapshot \<Rightarrow> decimal list" where
  "snapshot_amounts s = [wallet_balance s, margin_balance s, available_balance s, total_initial_margin s,
     total_maint_margin s, position_initial_margin s, total_position_notional s, as_effective_leverage s,
     as_margin_utilization_pct s]"

definition snapshot_amounts_ok :: "ExchangeAccountSnapshot \<Rightarrow> bool" where
  "snapshot_amounts_ok s =
     (is_finite (as_unrealized_pnl s) \<and> list_all (\<lambda>d. is_finite d \<and> finite_value d \<ge> 0) (snapshot_amounts s))"

definition snapshot_fresh :: "string \<Rightarrow> int \<Rightarrow> rat \<Rightarrow> ExchangeAccountSnapshot option \<Rightarrow> bool" where
  "snapshot_fresh label now max_age snapshot =
     (case snapshot of
        None \<Rightarrow> False
      | Some s \<Rightarrow> as_valid s \<and> exchange_environment s = label \<and> is_fresh now max_age (Some (as_timestamp s))
          \<and> snapshot_amounts_ok s)"

text \<open>The adapter's check rejects every snapshot when the configured age is not a positive number;
  the worker's check falls back to 30 seconds.\<close>

definition is_account_snapshot_fresh :: "environ \<Rightarrow> int \<Rightarrow> BinanceAdapter \<Rightarrow> bool" where
  "is_account_snapshot_fresh env now a =
     (case parse_float (case env ''ACCOUNT_SNAPSHOT_MAX_AGE_SEC'' of Some raw \<Rightarrow> raw | None \<Rightarrow> ''30'') of
        None \<Rightarrow> snapshot_fresh (environment_label (ad_env a)) now 30 (account_snapshot (ledger a))
      | Some (Fin max_age) \<Rightarrow>
          max_age > 0 \<and> snapshot_fresh (environment_label (ad_env a)) now max_age (account_snapshot (ledger a))
      | Some _ \<Rightarrow> False)"

definition current_exchange_environment :: "TradingWorker \<Rightarrow> BinanceEnvironment" where
  "current_exchange_environment w = (if execution_mode w = WM_LIVE then MAINNET else TESTNET)"

definition is_account_snapshot_ready :: "environ \<Rightarrow> int \<Rightarrow> TradingWorker \<Rightarrow> bool" where
  "is_account_snapshot_ready env now w =
     (case execution_adapter w of
        None \<Rightarrow> False
      | Some a \<Rightarrow> snapshot_fresh (environment_label (current_exchange_environment w)) now
          (positive_float env ''ACCOUNT_SNAPSHOT_MAX_AGE_SEC'' 30) (account_snapshot (ledger a)))"

definition has_authoritative_market_sample :: "BinanceAdapter \<Rightarrow> string \<Rightarrow> bool" where
  "has_authoritative_market_sample a symbol =
     (let s = upper symbol; label = environment_label (ad_env a) in
      (last_market_event_source a s = Some (label @ ''_WS'') \<or> last_market_event_source a s = Some (label @ ''_REST''))
      \<and> last_market_event_venue a s = Some label \<and> last_market_event_market_type a s = Some ''USDM_FUTURES'')"

definition market_data_max_age :: "environ \<Rightarrow> rat" where
  "market_data_max_age env =
     (case parse_float (case env ''MAX_MARKET_DATA_AGE_SEC'' of Some raw \<Rightarrow> raw | None \<Rightarrow> ''3.0'') of
        Some (Fin x) \<Rightarrow> if x > 0 then x else 3
      | _ \<Rightarrow> 3)"

definition get_market_reference_price :: "environ \<Rightarrow> int \<Rightarrow> BinanceAdapter \<Rightarrow> string \<Rightarrow> decimal option" where
  "get_market_reference_price env now a symbol =
     (let s = upper symbol in
      case last_market_reference_price a s of
        Some (Fin p) \<Rightarrow>
          if p > 0 \<and> is_fresh now (market_data_max_age env) (last_market_reference_at a s) then Some (Fin p) else None
      | _ \<Rightarrow> None)"

definition env_text_set :: "environ \<Rightarrow> string \<Rightarrow> bool" where
  "env_text_set env name = (case env name of Some v \<Rightarrow> strip v \<noteq> [] | None \<Rightarrow> False)"

definition testnet_configured :: "environ \<Rightarrow> bool" where
  "testnet_configured env = (env_text_set env ''BINANCE_TESTNET_API_KEY'' \<and> env_text_set env ''BINANCE_TESTNET_API_SECRET''
     \<and> env_flag env ''BINANCE_TESTNET'' False)"

definition mainnet_configured :: "environ \<Rightarrow> bool" where
  "mainnet_configured env = (env_text_set env ''BINANCE_MAINNET_API_KEY'' \<and> env_text_set env ''BINANCE_MAINNET_API_SECRET'')"

section \<open>The decision gate\<close>

text \<open>The conditions on worker and adapter that hold for every decision.\<close>

definition decision_gate_worker :: "environ \<Rightarrow> TradingWorker \<Rightarrow> BinanceAdapter gate" where
  "decision_gate_worker env w =
     res_bind (check (execution_mode w \<in> {WM_TESTNET, WM_LIVE}) NotExchangeMode) (\<lambda>_.
     res_bind (check (execution_mode w = WM_LIVE \<longrightarrow> env_flag env ''MAINNET_LIVE_APPROVED'' False) LiveNotApproved) (\<lambda>_.
     res_bind (check (engine_state w \<in> {ARMED, PAUSED_NEW_RISK, ES_RECOVERY_ONLY}) NotArmed) (\<lambda>_.
     res_bind (check (\<not> kill_switch_active w) KillSwitch) (\<lambda>_.
     res_bind (check (if execution_mode w = WM_LIVE then mainnet_configured env else testnet_configured env) NotConfigured) (\<lambda>_.
     case execution_adapter w of
       None \<Rightarrow> Inl NoAdapter
     | Some a \<Rightarrow>
         res_bind (check (connection_state a = READY) NotReady) (\<lambda>_.
         res_bind (check (authenticated a) NotAuthenticated) (\<lambda>_.
         res_bind (check (trade_authorized a) TradeNotAuthorized) (\<lambda>_.
         res_bind (check (private_stream_healthy a) StreamDisconnected) (\<lambda>_.
         res_bind (check (reconciliation_status a = ''IN_SYNC'') NotInSync) (\<lambda>_. Inr a))))))))))"

text \<open>The freshness loop over the orders; \<open>clock i\<close> is the reading for the \<open>i\<close>-th order.\<close>

fun decision_gate_freshness ::
  "environ \<Rightarrow> TradingWorker \<Rightarrow> BinanceAdapter \<Rightarrow> (nat \<Rightarrow> int) \<Rightarrow> nat \<Rightarrow> OrderIntent list \<Rightarrow> unit gate" where
  "decision_gate_freshness env w a clock i [] = Inr ()"
| "decision_gate_freshness env w a clock i (od # rest) =
     (let symbol = upper (oi_symbol od);
          last_event = (case wk_last_market_event_at w symbol of Some t \<Rightarrow> Some t | None \<Rightarrow> ad_last_market_event_at a symbol)
      in
      res_bind (check (has_authoritative_market_sample a symbol) (NoMarketSample symbol)) (\<lambda>_.
      res_bind (check (is_fresh (clock i) (positive_float env ''MAX_MARKET_DATA_AGE_SEC'' 3) last_event) (SymbolStale symbol)) (\<lambda>_.
      decision_gate_freshness env w a clock (Suc i) rest)))"

definition decision_gate_increasing ::
  "environ \<Rightarrow> (nat \<Rightarrow> int) \<Rightarrow> TradingWorker \<Rightarrow> BinanceAdapter \<Rightarrow> 'r ExecutionDecision \<Rightarrow> unit gate" where
  "decision_gate_increasing env clock w a d =
     (let snapshot = account_snapshot (ledger a) in
      res_bind (check (\<not> (pause_new_risk w \<or> engine_state w = PAUSED_NEW_RISK)) PausedNewRisk) (\<lambda>_.
      res_bind (check (\<not> (recovery_only w \<or> engine_state w = ES_RECOVERY_ONLY)) RecoveryOnlyMode) (\<lambda>_.
      res_bind (check (is_account_snapshot_ready env (clock 0) w) SnapshotNotReady) (\<lambda>_.
      res_bind (check (available_balance_is_positive snapshot) BalanceNotPositive) (\<lambda>_.
      res_bind (check (margin_utilization_is_safe env snapshot) MarginUnsafe) (\<lambda>_.
      res_bind (check (liquidation_safety_is_known_and_positive snapshot) LiquidationUnknown) (\<lambda>_.
      res_bind (check (market_data_healthy w) MarketDataStale) (\<lambda>_.
      decision_gate_freshness env w a clock 1 (ed_orders d)))))))))"

definition decision_gate_check :: "environ \<Rightarrow> (nat \<Rightarrow> int) \<Rightarrow> TradingWorker \<Rightarrow> 'r ExecutionDecision \<Rightarrow> unit gate" where
  "decision_gate_check env clock w d =
     res_bind (decision_gate_worker env w) (\<lambda>a.
     res_bind (check (ed_risk_class d \<noteq> NOOP) NoRiskClass) (\<lambda>_.
     res_bind (check (ed_orders d \<noteq> []) NoOrders) (\<lambda>_.
     res_bind (check (upper (ed_action d) \<noteq> ''NOOP'') NoopAction) (\<lambda>_.
     case disabled_strategy_reason w d of
       Some r \<Rightarrow> Inl r
     | None \<Rightarrow>
         if is_risk_increasing (ed_risk_class d) then decision_gate_increasing env clock w a d else Inr ()))))"

section \<open>The order gate\<close>

record PreparedOrder =
  po_symbol :: string
  po_order_type :: string
  po_quantity :: rat
  po_price :: "rat option"
  po_estimated_price :: rat
  po_notional :: rat

text \<open>Lines before the account checks; \<open>emergency_fallback\<close> lifts the connectivity conditions.\<close>

definition order_gate_entry :: "environ \<Rightarrow> BinanceAdapter \<Rightarrow> EconomicRiskClass \<Rightarrow> bool \<Rightarrow> unit gate" where
  "order_gate_entry env a risk emergency_fallback =
     res_bind (check (risk \<noteq> NOOP) NoRiskClass) (\<lambda>_.
     res_bind (check (emergency_fallback \<or> connection_state a = READY) NotReady) (\<lambda>_.
     res_bind (check (authenticated a) NotAuthenticated) (\<lambda>_.
     res_bind (check (trade_authorized a) TradeNotAuthorized) (\<lambda>_.
     res_bind (check (\<not> (ad_env a = MAINNET \<and> \<not> emergency_fallback \<and> \<not> env_flag env ''MAINNET_LIVE_APPROVED'' False)) LiveNotApproved) (\<lambda>_.
     res_bind (check (emergency_fallback \<or> private_stream_healthy a) StreamDisconnected) (\<lambda>_.
     check (emergency_fallback \<or> reconciliation_status a = ''IN_SYNC'') NotInSync))))))"

text \<open>\<open>max(0, -(realized + unrealized))\<close>.\<close>

definition daily_loss :: "rat \<Rightarrow> rat \<Rightarrow> rat" where
  "daily_loss realized unrealized = max 0 (dneg (dadd realized unrealized))"

definition mainnet_leverage_gate :: "TestnetSafetyLimits \<Rightarrow> ExchangeAccountSnapshot \<Rightarrow> unit gate" where
  "mainnet_leverage_gate limits s =
     (case configured_leverage s of
        None \<Rightarrow> Inl MainnetUnknown
      | Some conf \<Rightarrow>
          res_bind (check (upper (collateral_asset s) = ''USDC'' \<and> upper (risk_currency s) = ''USDC'') MainnetCollateralAsset) (\<lambda>_.
          res_bind (check (margin_mode_known s \<and> upper (margin_mode s) \<in> {''CROSS'', ''ISOLATED'', ''SINGLE_ASSET_CROSS''})
            MainnetMarginMode) (\<lambda>_.
          res_bind (check (is_finite (margin_balance s) \<and> finite_value (margin_balance s) > 0) MainnetCollateralInvalid) (\<lambda>_.
          res_bind (check (is_finite (wallet_balance s) \<and> finite_value (wallet_balance s) > 0
              \<and> finite_value (wallet_balance s) \<le> max_collateral limits \<and> finite_value (margin_balance s) \<le> max_collateral limits)
            MainnetCollateralCap) (\<lambda>_.
          res_bind (check (is_finite (as_effective_leverage s) \<and> finite_value (as_effective_leverage s) \<ge> 0
              \<and> finite_value (as_effective_leverage s) \<le> sl_max_leverage limits) MainnetLeverageCap) (\<lambda>_.
          check (configured_leverage_known s \<and> is_finite conf \<and> finite_value conf > 0 \<and> finite_value conf \<le> 10
              \<and> finite_value conf \<le> sl_max_leverage limits) MainnetConfiguredLeverage))))))"

definition mainnet_daily_gate :: "TestnetSafetyLimits \<Rightarrow> ExchangeAccountSnapshot \<Rightarrow> unit gate" where
  "mainnet_daily_gate limits s =
     res_bind (check (daily_loss_known s \<and> upper (daily_loss_asset s) = ''USDC'' \<and> daily_pnl_includes_fees s
         \<and> daily_pnl_includes_funding s) MainnetDailyUnknown) (\<lambda>_.
     (case (daily_loss_window_start s, daily_loss_window_end s) of
        (Some (Aware b), Some (Aware e)) \<Rightarrow>
          res_bind (check (b mod seconds 86400 = 0 \<and> b \<le> e \<and> e \<le> b + seconds 86400) MainnetWindowInvalid) (\<lambda>_.
          (case (daily_realized_pnl s, as_unrealized_pnl s) of
             (Some (Fin realized), Fin unrealized) \<Rightarrow>
               check (daily_loss realized unrealized < max_daily_loss limits) MainnetDailyLossCap
           | _ \<Rightarrow> Inl MainnetDailyInvalid))
      | (Some _, Some _) \<Rightarrow> Inl MainnetWindowNaive
      | _ \<Rightarrow> Inl MainnetWindowUnknown))"

text \<open>The account conditions of a risk-increasing order.\<close>

definition order_gate_account :: "environ \<Rightarrow> int \<Rightarrow> BinanceAdapter \<Rightarrow> unit gate" where
  "order_gate_account env now a =
     (let snapshot = account_snapshot (ledger a) in
      res_bind (check (is_account_snapshot_fresh env now a) SnapshotNotReady) (\<lambda>_.
      res_bind (check (available_balance_is_positive snapshot) BalanceNotPositive) (\<lambda>_.
      res_bind (check (margin_utilization_is_safe env snapshot) MarginUnsafe) (\<lambda>_.
      res_bind (check (liquidation_safety_is_known_and_positive snapshot) LiquidationUnknown) (\<lambda>_.
      if ad_env a = MAINNET
      then res_bind (mainnet_leverage_gate (safety_limits a) (the snapshot)) (\<lambda>_.
             mainnet_daily_gate (safety_limits a) (the snapshot))
      else Inr ())))))"

text \<open>Symbol, type, side and time in force of the intent; the result is the symbol's rules.\<close>

definition order_gate_intent :: "BinanceAdapter \<Rightarrow> OrderIntent \<Rightarrow> SymbolTradingRules gate" where
  "order_gate_intent a intent =
     (let symbol = upper (oi_symbol intent); otype = oi_order_type intent in
      res_bind (check (symbol \<in> allowed_symbols (safety_limits a)) SymbolNotAllowed) (\<lambda>_.
      res_bind (check (oi_market_type intent = USDM_FUTURES) MarketTypeUnsupported) (\<lambda>_.
      res_bind (check (otype \<in> {LIMIT, MARKET}) OrderTypeUnsupported) (\<lambda>_.
      (case symbol_rules a symbol of
         None \<Rightarrow> Inl RulesUnavailable
       | Some rules \<Rightarrow>
           res_bind (check (is_ready_for rules (order_type_value otype)) RulesUnavailable) (\<lambda>_.
           res_bind (check (\<not> (ad_hedge_mode a \<and> oi_position_side intent = BOTH)) HedgeNeedsSide) (\<lambda>_.
           res_bind (check (\<not> (\<not> ad_hedge_mode a \<and> oi_position_side intent \<noteq> BOTH)) OneWayNeedsBoth) (\<lambda>_.
           res_bind (check (\<not> (oi_post_only intent \<and> otype \<noteq> LIMIT)) PostOnlyNotLimit) (\<lambda>_.
           res_bind (check (\<not> (oi_post_only intent \<and> oi_time_in_force intent \<notin> {GTC, POST_ONLY})) PostOnlyTif) (\<lambda>_.
           Inr rules)))))))))) "

definition order_gate_quantity :: "SymbolTradingRules \<Rightarrow> OrderIntent \<Rightarrow> rat gate" where
  "order_gate_quantity rules intent =
     (let is_market = (oi_order_type intent = MARKET);
          truthy_or = (\<lambda>x dflt. case x of Some v \<Rightarrow> if v \<noteq> 0 then v else dflt | None \<Rightarrow> dflt);
          lo = (if is_market then truthy_or (market_min_qty rules) (min_qty rules) else min_qty rules);
          hi = (if is_market then truthy_or (market_max_qty rules) (max_qty rules) else max_qty rules)
      in case oi_quantity intent of
           Fin raw \<Rightarrow>
             res_bind (check (raw > 0) QuantityInvalid) (\<lambda>_.
             let quantity = normalize_quantity rules raw is_market in
             res_bind (check (quantity > 0) QuantityZero) (\<lambda>_.
             res_bind (check (quantity \<ge> lo) QuantityBelowMin) (\<lambda>_.
             res_bind (check (\<not> (hi > 0 \<and> quantity > hi)) QuantityAboveMax) (\<lambda>_.
             Inr quantity))))
         | _ \<Rightarrow> Inl QuantityInvalid)"

text \<open>The limit price, normalized and within the exchange's bounds. A positive infinity leaves
  \<open>normalize_price\<close> as \<open>OverflowError\<close>, a NaN is an invalid price.\<close>

definition order_gate_limit_price :: "SymbolTradingRules \<Rightarrow> OrderIntent \<Rightarrow> rat gate" where
  "order_gate_limit_price rules intent =
     (case oi_price intent of
        None \<Rightarrow> Inl LimitNeedsPrice
      | Some NaN \<Rightarrow> Inl LimitPriceInvalid
      | Some (Inf negative) \<Rightarrow> if negative then Inl LimitPriceNotPositive else Inl (Raised OverflowError)
      | Some (Fin raw) \<Rightarrow>
          let price = normalize_price rules raw (oi_side intent = SELL) in
          res_bind (check (price > 0) LimitPriceNotPositive) (\<lambda>_.
          res_bind (check (\<not> (parsed_from_exchange_info rules \<and> (price < min_price rules \<or> price > max_price rules)))
            LimitPriceOutside) (\<lambda>_.
          Inr price)))"

type_synonym price_discovery = "string \<Rightarrow> OrderSide option \<Rightarrow> BinanceAdapter \<Rightarrow> decimal option \<times> BinanceAdapter"

definition reference_price ::
  "environ \<Rightarrow> int \<Rightarrow> price_discovery \<Rightarrow> BinanceAdapter \<Rightarrow> SymbolTradingRules \<Rightarrow> string \<Rightarrow> decimal option \<times> BinanceAdapter" where
  "reference_price env now discover a rules symbol =
     (case get_market_reference_price env now a symbol of
        Some p \<Rightarrow> (Some p, a)
      | None \<Rightarrow> if has_percent_price_filter rules then discover symbol None a else (None, a))"

text \<open>The price of the order and the price its notional is estimated with, and the adapter after
  price discovery.\<close>

definition order_gate_price ::
  "environ \<Rightarrow> int \<Rightarrow> price_discovery \<Rightarrow> BinanceAdapter \<Rightarrow> SymbolTradingRules \<Rightarrow> OrderIntent \<Rightarrow>
   (rat option \<times> decimal \<times> BinanceAdapter) gate" where
  "order_gate_price env now discover a rules intent =
     (let symbol = upper (oi_symbol intent) in
      if oi_order_type intent = LIMIT then
        res_bind (order_gate_limit_price rules intent) (\<lambda>price.
        let (reference, a') = reference_price env now discover a rules symbol in
        case validate_percent_price rules price (order_side_value (oi_side intent)) reference of
          Some r \<Rightarrow> Inl (PercentPrice r)
        | None \<Rightarrow> Inr (Some price, Fin price, a'))
      else
        res_bind (check (oi_time_in_force intent = GTC) MarketTif) (\<lambda>_.
        res_bind (check (oi_price intent = None) MarketWithPrice) (\<lambda>_.
        case discover symbol (Some (oi_side intent)) a of
          (None, a') \<Rightarrow> Inl NoFreshPrice
        | (Some p, a') \<Rightarrow> Inr (None, p, a'))))"

text \<open>Market freshness and top-of-book depth, after price discovery.\<close>

definition order_gate_market :: "environ \<Rightarrow> int \<Rightarrow> BinanceAdapter \<Rightarrow> OrderIntent \<Rightarrow> rat \<Rightarrow> unit gate" where
  "order_gate_market env now a intent quantity =
     (let symbol = upper (oi_symbol intent) in
      res_bind (check (has_authoritative_market_sample a symbol) (NoMarketSample symbol)) (\<lambda>_.
      res_bind (check (is_fresh now (positive_float env ''MAX_MARKET_DATA_AGE_SEC'' 3) (ad_last_market_event_at a symbol))
        (SymbolStale symbol)) (\<lambda>_.
      if oi_order_type intent = MARKET then
        (case finite_of (if oi_side intent = BUY then last_market_ask_qty a symbol else last_market_bid_qty a symbol) of
           None \<Rightarrow> Inl DepthUnknown
         | Some depth \<Rightarrow>
             res_bind (check (depth > 0) DepthUnknown) (\<lambda>_. check (\<not> quantity > depth) DepthExceeded))
      else Inr ())))"

definition order_gate_notional :: "SymbolTradingRules \<Rightarrow> OrderIntent \<Rightarrow> rat \<Rightarrow> decimal \<Rightarrow> rat gate" where
  "order_gate_notional rules intent quantity estimated =
     (let otype = order_type_value (oi_order_type intent);
          lo = min_notional_for rules otype; hi = max_notional_for rules otype
      in case estimated of
           Fin p \<Rightarrow>
             let notional = dmul quantity p in
             res_bind (check (notional > 0) NotionalInvalid) (\<lambda>_.
             res_bind (check (\<not> (lo > 0 \<and> notional < lo)) NotionalBelowMin) (\<lambda>_.
             res_bind (check (\<not> (hi > 0 \<and> notional > hi)) NotionalAboveMax) (\<lambda>_. Inr notional)))
         | _ \<Rightarrow> Inl NotionalInvalid)"

text \<open>The known exposure that an order of this side and position side can reduce.\<close>

definition reduces_position :: "OrderSide \<Rightarrow> PositionSide \<Rightarrow> string \<Rightarrow> ExchangePosition \<Rightarrow> bool" where
  "reduces_position side pos_side symbol p =
     (ep_symbol p = symbol \<and> (pos_side = BOTH \<or> ep_position_side p \<in> {pos_side, BOTH}) \<and> ep_quantity p \<noteq> 0
      \<and> ((side = SELL \<and> ep_quantity p > 0) \<or> (side = BUY \<and> ep_quantity p < 0)))"

definition reducible_exposure :: "OrderSide \<Rightarrow> PositionSide \<Rightarrow> string \<Rightarrow> ExchangePosition list \<Rightarrow> rat" where
  "reducible_exposure side pos_side symbol ps =
     foldl (\<lambda>acc p. dadd acc (dabs (ep_quantity p))) 0 (filter (reduces_position side pos_side symbol) ps)"

definition order_gate_reduction :: "BinanceAdapter \<Rightarrow> OrderIntent \<Rightarrow> EconomicRiskClass \<Rightarrow> bool \<Rightarrow> rat \<Rightarrow> unit gate" where
  "order_gate_reduction a intent risk require_reduce_only quantity =
     res_bind (check (\<not> (oi_reduce_only intent \<and> is_risk_increasing risk)) ReduceOnlyButIncreasing) (\<lambda>_.
     res_bind (check (\<not> (require_reduce_only \<and> is_risk_reducing risk \<and> \<not> oi_reduce_only intent)) MustBeReduceOnly) (\<lambda>_.
     if oi_reduce_only intent \<and> is_risk_reducing risk
     then check (quantity \<le> reducible_exposure (oi_side intent) (oi_position_side intent) (upper (oi_symbol intent))
            (positions (ledger a))) ExceedsExposure
     else Inr ()))"

definition add_order_notional :: "ExecutionOrder \<Rightarrow> rat \<Rightarrow> rat gate" where
  "add_order_notional od acc =
     (if eo_price od \<le> 0 then Inl OpenNotionalUnknown else Inr (dadd acc (dabs (dmul (eo_quantity od) (eo_price od)))))"

definition add_position_notional :: "ExchangePosition \<Rightarrow> rat \<Rightarrow> rat gate" where
  "add_position_notional p acc =
     (if ep_quantity p = 0 then Inr acc
      else
        (case ep_mark_price p of
           Some mark \<Rightarrow> if mark \<le> 0 then Inl PositionNotionalUnknown else Inr (dadd acc (dabs (dmul (ep_quantity p) mark)))
         | None \<Rightarrow> Inl PositionNotionalUnknown))"

text \<open>The portfolio limits of a risk-increasing order.\<close>

definition order_gate_exposure ::
  "TestnetSafetyLimits \<Rightarrow> InMemoryLedger \<Rightarrow> string \<Rightarrow> int \<Rightarrow> rat \<Rightarrow> string option \<Rightarrow> rat \<Rightarrow> unit gate" where
  "order_gate_exposure limits l symbol reserved_orders reserved_notional exclude notional =
     (let current = filter (\<lambda>od. Some (eo_client_order_id od) \<noteq> exclude) (get_open_orders l);
          active = eo_symbol ` set current \<union> ep_symbol ` set (filter (\<lambda>p. ep_quantity p \<noteq> 0) (positions l))
      in
      res_bind (check (\<not> int (length current) + reserved_orders \<ge> max_open_orders limits) TooManyOpenOrders) (\<lambda>_.
      res_bind (res_fold add_order_notional current 0) (\<lambda>from_orders.
      res_bind (res_fold add_position_notional (positions l) from_orders) (\<lambda>existing.
      res_bind (check (\<not> dadd (dadd existing reserved_notional) notional > max_total_open_notional limits) TotalNotionalExceeded) (\<lambda>_.
      res_bind (check (\<not> notional > max_single_order_notional limits) SingleNotionalExceeded) (\<lambda>_.
      check (\<not> (symbol \<notin> active \<and> int (card active) \<ge> max_active_exposure_chains limits)) TooManyChains))))))"

definition order_gate_check ::
  "environ \<Rightarrow> (nat \<Rightarrow> int) \<Rightarrow> price_discovery \<Rightarrow> BinanceAdapter \<Rightarrow> OrderIntent \<Rightarrow> EconomicRiskClass \<Rightarrow>
   int \<Rightarrow> rat \<Rightarrow> string option \<Rightarrow> bool \<Rightarrow> bool \<Rightarrow> PreparedOrder gate" where
  "order_gate_check env clock discover a intent risk reserved_orders reserved_notional exclude require_reduce_only allow_emergency =
     (let emergency_fallback = (allow_emergency \<and> risk = EMERGENCY);
          increasing = is_risk_increasing risk;
          symbol = upper (oi_symbol intent)
      in
      res_bind (order_gate_entry env a risk emergency_fallback) (\<lambda>_.
      res_bind (if increasing \<and> \<not> emergency_fallback then order_gate_account env (clock 0) a else Inr ()) (\<lambda>_.
      res_bind (order_gate_intent a intent) (\<lambda>rules.
      res_bind (order_gate_quantity rules intent) (\<lambda>quantity.
      res_bind (order_gate_price env (clock 1) discover a rules intent) (\<lambda>(price, estimated, a').
      res_bind (if increasing \<and> \<not> emergency_fallback then order_gate_market env (clock 2) a' intent quantity else Inr ()) (\<lambda>_.
      res_bind (order_gate_notional rules intent quantity estimated) (\<lambda>notional.
      res_bind (order_gate_reduction a' intent risk require_reduce_only quantity) (\<lambda>_.
      res_bind (if increasing
          then order_gate_exposure (safety_limits a) (ledger a') symbol reserved_orders reserved_notional exclude notional
          else Inr ()) (\<lambda>_.
      Inr \<lparr>po_symbol = symbol, po_order_type = order_type_value (oi_order_type intent), po_quantity = quantity,
        po_price = price, po_estimated_price = finite_value estimated, po_notional = notional\<rparr>))))))))))"

section \<open>Lemmas\<close>

lemma decision_gate_worker_Inr:
  "decision_gate_worker env w = Inr a \<longleftrightarrow>
     execution_mode w \<in> {WM_TESTNET, WM_LIVE} \<and> (execution_mode w = WM_LIVE \<longrightarrow> env_flag env ''MAINNET_LIVE_APPROVED'' False)
     \<and> engine_state w \<in> {ARMED, PAUSED_NEW_RISK, ES_RECOVERY_ONLY} \<and> \<not> kill_switch_active w
     \<and> (if execution_mode w = WM_LIVE then mainnet_configured env else testnet_configured env)
     \<and> execution_adapter w = Some a \<and> connection_state a = READY \<and> authenticated a \<and> trade_authorized a
     \<and> private_stream_healthy a \<and> reconciliation_status a = ''IN_SYNC''"
  by (auto simp: decision_gate_worker_def res_simps split: option.splits)

lemma decision_gate_freshness_Inr:
  "decision_gate_freshness env w a clock i ods = Inr u \<Longrightarrow> od \<in> set ods \<Longrightarrow>
     has_authoritative_market_sample a (upper (oi_symbol od))
     \<and> (\<exists>j t. is_fresh (clock j) (positive_float env ''MAX_MARKET_DATA_AGE_SEC'' 3) (Some t)
          \<and> (wk_last_market_event_at w (upper (oi_symbol od)) = Some t \<or> ad_last_market_event_at a (upper (oi_symbol od)) = Some t))"
proof (induction ods arbitrary: i)
  case (Cons x ods)
  have some: "\<exists>t. ts = Some t" if "is_fresh n m ts" for n m ts
    using that by (cases ts) (auto simp: is_fresh_def age_seconds_def)
  from Cons.prems(1) have here: "has_authoritative_market_sample a (upper (oi_symbol x))"
    "is_fresh (clock i) (positive_float env ''MAX_MARKET_DATA_AGE_SEC'' 3)
       (case wk_last_market_event_at w (upper (oi_symbol x)) of Some t \<Rightarrow> Some t | None \<Rightarrow> ad_last_market_event_at a (upper (oi_symbol x)))"
    and rest: "decision_gate_freshness env w a clock (Suc i) ods = Inr u"
    by (auto simp: res_simps Let_def)
  show ?case
  proof (cases "od = x")
    case True
    then show ?thesis using here some[OF here(2)] by (auto split: option.splits)
  qed (use Cons.IH[OF rest] Cons.prems(2) in auto)
qed simp

lemma first_reason_None: "first_reason xs = None \<longleftrightarrow> (\<forall>x \<in> set xs. x = None)"
  by (induction xs) (auto split: option.splits)

lemma order_gate_check_Inr:
  assumes "order_gate_check env clock discover a intent risk ro rn ex req allow = Inr po"
  obtains rules price estimated a' where
    "order_gate_entry env a risk (allow \<and> risk = EMERGENCY) = Inr ()"
    "is_risk_increasing risk \<longrightarrow> order_gate_account env (clock 0) a = Inr ()"
    "order_gate_intent a intent = Inr rules" "order_gate_quantity rules intent = Inr (po_quantity po)"
    "order_gate_price env (clock 1) discover a rules intent = Inr (price, estimated, a')"
    "is_risk_increasing risk \<longrightarrow> order_gate_market env (clock 2) a' intent (po_quantity po) = Inr ()"
    "order_gate_notional rules intent (po_quantity po) estimated = Inr (po_notional po)"
    "order_gate_reduction a' intent risk req (po_quantity po) = Inr ()"
    "is_risk_increasing risk \<longrightarrow> order_gate_exposure (safety_limits a) (ledger a') (po_symbol po) ro rn ex (po_notional po) = Inr ()"
    "po_symbol po = upper (oi_symbol intent)" "po_price po = price" "po_estimated_price po = finite_value estimated"
  using assms
  by (auto simp: order_gate_check_def res_simps Let_def is_risk_increasing_def split: if_splits prod.splits)

text \<open>Price discovery that leaves the ledger alone leaves it alone through the whole gate.\<close>

lemma reference_price_ledger:
  assumes "\<And>s sd b. ledger (snd (discover s sd b)) = ledger b"
  shows "ledger (snd (reference_price env now discover a rules symbol)) = ledger a"
  by (simp add: reference_price_def assms split: option.splits)

lemma order_gate_price_adapter:
  assumes "order_gate_price env now discover a rules intent = Inr (price, estimated, a')"
    and "\<And>s sd b. ledger (snd (discover s sd b)) = ledger b"
  shows "ledger a' = ledger a"
proof (cases "oi_order_type intent = LIMIT")
  case True
  obtain r b where rp: "reference_price env now discover a rules (upper (oi_symbol intent)) = (r, b)" by fastforce
  with assms(1) True have "a' = b"
    by (auto simp: order_gate_price_def res_simps split: option.splits)
  with rp reference_price_ledger[where discover = discover, OF assms(2), of env now a rules "upper (oi_symbol intent)"]
  show ?thesis by simp
next
  case False
  obtain r b where d: "discover (upper (oi_symbol intent)) (Some (oi_side intent)) a = (r, b)" by fastforce
  with assms(1) False have "a' = b"
    by (auto simp: order_gate_price_def res_simps split: option.splits)
  with d assms(2)[of "upper (oi_symbol intent)" "Some (oi_side intent)" a] show ?thesis by simp
qed

lemma mainnet_leverage_gate_Inr:
  assumes "mainnet_leverage_gate limits s = Inr u"
  obtains lev where "configured_leverage s = Some (Fin lev)" "0 < lev" "lev \<le> 10"
    "0 < finite_value (wallet_balance s)" "finite_value (wallet_balance s) \<le> max_collateral limits"
    "0 < finite_value (margin_balance s)" "finite_value (margin_balance s) \<le> max_collateral limits"
    "finite_value (as_effective_leverage s) \<le> sl_max_leverage limits"
proof (cases "configured_leverage s")
  case (Some conf)
  show ?thesis
    by (rule that[of "finite_value conf"]; use assms Some in \<open>cases conf; simp add: mainnet_leverage_gate_def res_simps\<close>)
qed (use assms in \<open>simp add: mainnet_leverage_gate_def\<close>)

lemma mainnet_daily_gate_Inr:
  assumes "mainnet_daily_gate limits s = Inr u"
  obtains realized unrealized where "daily_realized_pnl s = Some (Fin realized)" "as_unrealized_pnl s = Fin unrealized"
    "daily_loss realized unrealized < max_daily_loss limits"
proof -
  from assms obtain b e where "daily_loss_window_start s = Some (Aware b)" "daily_loss_window_end s = Some (Aware e)"
    by (auto simp: mainnet_daily_gate_def res_simps split: option.splits datetime.splits)
  with assms have "(case (daily_realized_pnl s, as_unrealized_pnl s) of
      (Some (Fin realized), Fin unrealized) \<Rightarrow> check (daily_loss realized unrealized < max_daily_loss limits) MainnetDailyLossCap
    | _ \<Rightarrow> Inl MainnetDailyInvalid) = Inr u"
    by (simp add: mainnet_daily_gate_def res_simps)
  then show ?thesis by (cases "daily_realized_pnl s") (auto simp: res_simps split: decimal.splits intro: that)
qed

lemma order_gate_account_mainnet:
  assumes "order_gate_account env now a = Inr u" "ad_env a = MAINNET"
  obtains s where "account_snapshot (ledger a) = Some s"
    "mainnet_leverage_gate (safety_limits a) s = Inr ()" "mainnet_daily_gate (safety_limits a) s = Inr u"
proof (cases "account_snapshot (ledger a)")
  case None
  then show ?thesis using assms by (simp add: order_gate_account_def res_simps available_balance_is_positive_def Let_def)
next
  case (Some s)
  then show ?thesis using assms that[OF Some] by (simp add: order_gate_account_def res_simps Let_def)
qed

lemma foldl_dadd_nonneg: "0 \<le> acc \<Longrightarrow> 0 \<le> foldl (\<lambda>acc p. dadd acc (dabs (f p))) acc ps"
  by (induction ps arbitrary: acc) (auto simp: dadd_def)

lemma reducible_exposure_pos:
  assumes "0 < reducible_exposure side pos_side symbol ps"
  shows "\<exists>p \<in> set ps. reduces_position side pos_side symbol p"
proof (rule ccontr)
  assume "\<not> ?thesis"
  then have "filter (reduces_position side pos_side symbol) ps = []" by (simp add: filter_empty_conv)
  with assms show False by (simp add: reducible_exposure_def)
qed

lemma order_gate_quantity_Inr:
  "order_gate_quantity rules intent = Inr q \<Longrightarrow> 0 < q \<and> (oi_order_type intent = LIMIT \<longrightarrow> min_qty rules \<le> q \<and> (0 < max_qty rules \<longrightarrow> q \<le> max_qty rules))"
  by (auto simp: order_gate_quantity_def Let_def res_simps not_less split: decimal.splits)

lemma order_gate_intent_Inr:
  "order_gate_intent a intent = Inr rules \<Longrightarrow>
     upper (oi_symbol intent) \<in> allowed_symbols (safety_limits a) \<and> symbol_rules a (upper (oi_symbol intent)) = Some rules
     \<and> is_ready_for rules (order_type_value (oi_order_type intent))"
  by (simp add: order_gate_intent_def res_simps Let_def split: option.splits)

lemma order_gate_exposure_Inr:
  assumes "order_gate_exposure limits l symbol ro rn ex notional = Inr u"
  shows "notional \<le> max_single_order_notional limits"
    "int (length (filter (\<lambda>od. Some (eo_client_order_id od) \<noteq> ex) (get_open_orders l))) + ro < max_open_orders limits"
    "\<exists>existing from_orders.
       res_fold add_order_notional (filter (\<lambda>od. Some (eo_client_order_id od) \<noteq> ex) (get_open_orders l)) 0 = Inr from_orders
       \<and> res_fold add_position_notional (positions l) from_orders = Inr existing
       \<and> dadd (dadd existing rn) notional \<le> max_total_open_notional limits"
  using assms by (auto simp: order_gate_exposure_def res_simps Let_def not_le not_less)

section \<open>Properties\<close>


text \<open>
  C13: Pausing never traps inventory. For a decision that does not increase risk, the verdict of the
  decision gate does not depend on the pause and recovery-only flags, on whether the engine is
  armed, paused or recovery-only, on the health and age of market data, on the account snapshot,
  on the enabled strategies or on the clock.
\<close>

theorem reductions_ignore_pauses:
  assumes "\<not> is_risk_increasing (ed_risk_class d)" "engine_state w \<in> {ARMED, PAUSED_NEW_RISK, ES_RECOVERY_ONLY}"
    and "est \<in> {ARMED, PAUSED_NEW_RISK, ES_RECOVERY_ONLY}" "execution_adapter w = Some a"
  shows "decision_gate_check env clock w d = decision_gate_check env clock'
    (w\<lparr>pause_new_risk := p, recovery_only := r, market_data_healthy := h, engine_state := est, enabled_strategies := en,
       wk_last_market_event_at := ts, execution_adapter := Some (a\<lparr>ledger := l\<rparr>)\<rparr>) d"
proof -
  let ?w = "w\<lparr>pause_new_risk := p, recovery_only := r, market_data_healthy := h, engine_state := est, enabled_strategies := en,
       wk_last_market_event_at := ts, execution_adapter := Some (a\<lparr>ledger := l\<rparr>)\<rparr>"
  have "decision_gate_worker env w = (if decision_gate_worker env ?w = Inr (a\<lparr>ledger := l\<rparr>) then Inr a else decision_gate_worker env ?w)"
    using assms(2-4) by (auto simp: decision_gate_worker_def check_def)
  moreover have "decision_gate_worker env ?w = Inr b \<Longrightarrow> b = a\<lparr>ledger := l\<rparr>" for b
    by (simp add: decision_gate_worker_Inr)
  ultimately show ?thesis
    using assms(1) by (cases "decision_gate_worker env ?w") (auto simp: decision_gate_check_def disabled_strategy_reason_def)
qed



text \<open>
  C16: The Mainnet pilot caps hold end to end. With limits loaded from any process environment, a
  risk-increasing order that the gate prepares on Mainnet is for ETHUSDC, worth at most 50, needs
  the live approval flag, and is made on an account whose wallet and margin balance are positive
  and at most 250, whose configured and effective leverage are at most 10 and whose known loss of
  the UTC day is below 5.
\<close>

theorem mainnet_order_within_pilot_caps:
  assumes "order_gate_check env clock discover a intent risk ro rn ex req allow = Inr po" "is_risk_increasing risk"
    and "ad_env a = MAINNET" "limits_from_environment env ''MAINNET'' = Inr (safety_limits a)"
    and "\<And>s sd b. ledger (snd (discover s sd b)) = ledger b"
  shows "po_symbol po = ''ETHUSDC'' \<and> po_notional po \<le> 50 \<and> env_flag env ''MAINNET_LIVE_APPROVED'' False
    \<and> (\<exists>s lev. account_snapshot (ledger a) = Some s \<and> 0 < finite_value (wallet_balance s) \<and> finite_value (wallet_balance s) \<le> 250
        \<and> 0 < finite_value (margin_balance s) \<and> finite_value (margin_balance s) \<le> 250
        \<and> finite_value (as_effective_leverage s) \<le> 10 \<and> configured_leverage s = Some (Fin lev) \<and> 0 < lev \<and> lev \<le> 10
        \<and> (\<exists>realized unrealized. daily_realized_pnl s = Some (Fin realized) \<and> as_unrealized_pnl s = Fin unrealized
            \<and> daily_loss realized unrealized < 5))"
proof -
  from assms(1) obtain rules price estimated a' where g:
    "order_gate_entry env a risk (allow \<and> risk = EMERGENCY) = Inr ()"
    "is_risk_increasing risk \<longrightarrow> order_gate_account env (clock 0) a = Inr ()"
    "order_gate_intent a intent = Inr rules"
    "is_risk_increasing risk \<longrightarrow> order_gate_exposure (safety_limits a) (ledger a') (po_symbol po) ro rn ex (po_notional po) = Inr ()"
    "po_symbol po = upper (oi_symbol intent)" "order_gate_price env (clock 1) discover a rules intent = Inr (price, estimated, a')"
    by (rule order_gate_check_Inr)
  define limits where "limits = safety_limits a"
  note caps = mainnet_limits_ok[OF assms(4), folded limits_def]
  then have pilot: "allowed_symbols limits = {''ETHUSDC''}" "max_single_order_notional limits \<le> 50"
    "max_collateral limits \<le> 250" "sl_max_leverage limits \<le> 10" "max_daily_loss limits \<le> 5" by simp_all
  have "\<not> risk = EMERGENCY" using assms(2) by (auto simp: is_risk_increasing_def)
  then have flag: "env_flag env ''MAINNET_LIVE_APPROVED'' False"
    using g(1) assms(3) by (simp add: order_gate_entry_def res_simps)
  have symbol: "po_symbol po = ''ETHUSDC''"
    using order_gate_intent_Inr[OF g(3)] pilot(1) unfolding g(5) limits_def by simp
  have notional: "po_notional po \<le> 50"
    using order_gate_exposure_Inr(1)[OF g(4)[rule_format, OF assms(2)]] pilot(2) unfolding limits_def by (rule order_trans)
  from order_gate_account_mainnet[OF g(2)[rule_format, OF assms(2)] assms(3)] obtain s where s: "account_snapshot (ledger a) = Some s"
    and lg: "mainnet_leverage_gate limits s = Inr ()" and dg: "mainnet_daily_gate limits s = Inr ()"
    unfolding limits_def by blast
  from lg obtain lev where lev: "configured_leverage s = Some (Fin lev)" "0 < lev" "lev \<le> 10"
    and bal: "0 < finite_value (wallet_balance s)" "finite_value (wallet_balance s) \<le> max_collateral limits"
      "0 < finite_value (margin_balance s)" "finite_value (margin_balance s) \<le> max_collateral limits"
      "finite_value (as_effective_leverage s) \<le> sl_max_leverage limits"
    by (rule mainnet_leverage_gate_Inr)
  from dg obtain realized unrealized where daily: "daily_realized_pnl s = Some (Fin realized)" "as_unrealized_pnl s = Fin unrealized"
    "daily_loss realized unrealized < max_daily_loss limits"
    by (rule mainnet_daily_gate_Inr)
  note bounds = order_trans[OF bal(2) pilot(3)] order_trans[OF bal(4) pilot(3)] order_trans[OF bal(5) pilot(4)]
    less_le_trans[OF daily(3) pilot(5)]
  show ?thesis
    by (intro conjI exI) (rule symbol notional flag s bal(1,3) bounds lev daily(1,2))+
qed

text \<open>
  What the governor emits has the shape the order gate wants: on representable quantities an
  order of a governor decision is a MARKET order with GTC and without a price, its reduce-only flag
  agrees with the risk class, so the gate never refuses it as a mislabelled reduction, and its
  position side fits the hedge mode when governor and account agree on it.
\<close>

theorem governor_orders_fit_gate:
  assumes "gov_evaluate g r1 r2 target risk cur = Inr (d, g')" "od \<in> set (ed_orders d)"
  shows "oi_order_type od = MARKET \<and> oi_time_in_force od = GTC \<and> oi_price od = None \<and> \<not> oi_post_only od
    \<and> order_gate_reduction a od (ed_risk_class d) True q \<notin> {Inl ReduceOnlyButIncreasing, Inl MustBeReduceOnly}
    \<and> (hedge_mode g \<longleftrightarrow> oi_position_side od \<noteq> BOTH)"
  using assms(1)
proof (cases rule: gov_evaluate_cases)
  case (submit now delta qty cls)
  from submit(6) have "cls \<in> {NEW_RISK, INCREASE_RISK, REDUCE_RISK, CLOSE}"
    by (auto simp: classify_risk_def split: if_splits)
  with submit assms(2) show ?thesis
    by (auto simp: gov_order_def gov_position_side_def order_gate_reduction_def is_risk_increasing_def is_risk_reducing_def
        check_def res_bind_def split: if_splits)
qed (use assms(2) in simp)

section \<open>Witnesses\<close>

definition sample_env :: environ where
  "sample_env = [''ACCOUNT_SNAPSHOT_MAX_AGE_SEC'' \<mapsto> ''?'', ''MAINNET_LIVE_APPROVED'' \<mapsto> ''true'',
     ''BINANCE_MAINNET_API_KEY'' \<mapsto> ''k'', ''BINANCE_MAINNET_API_SECRET'' \<mapsto> ''s'', ''MAX_MARGIN_UTILIZATION_PCT'' \<mapsto> ''?'']"

definition sample_snapshot :: ExchangeAccountSnapshot where
  "sample_snapshot = \<lparr>wallet_balance = Fin 200, margin_balance = Fin 200, available_balance = Fin 100, as_unrealized_pnl = Fin 0,
     total_initial_margin = Fin 0, total_maint_margin = Fin 0, position_initial_margin = Fin 0, total_position_notional = Fin 0,
     as_effective_leverage = Fin 1, as_margin_utilization_pct = Fin 10, min_liquidation_distance_pct = None,
     liquidation_safety = ''KNOWN'', daily_realized_pnl = Some (Fin 0), daily_loss_known = True, collateral_asset = ''USDC'',
     risk_currency = ''USDC'', daily_loss_asset = ''USDC'', daily_pnl_includes_fees = True, daily_pnl_includes_funding = True,
     daily_loss_window_start = Some (Aware 0), daily_loss_window_end = Some (Aware 0), configured_leverage = Some (Fin 2),
     configured_leverage_known = True, margin_mode = ''CROSS'', margin_mode_known = True, as_valid = True,
     exchange_environment = ''BINANCE_MAINNET'', as_timestamp = Aware 0\<rparr>"

definition sample_symbol_rules :: SymbolTradingRules where
  "sample_symbol_rules = (rules_init ''ETHUSDC'')\<lparr>r_status := ''TRADING'', tick_size := 1, step_size := 1, min_qty := 1,
     max_qty := 100, min_notional := 1\<rparr>"

definition sample_adapter :: "ExchangePosition list \<Rightarrow> BinanceAdapter" where
  "sample_adapter ps = \<lparr>ad_env = MAINNET, connection_state = READY, authenticated = True, trade_authorized = True,
     ad_hedge_mode = False, private_stream_healthy = True, reconciliation_status = ''IN_SYNC'',
     ledger = ledger_init\<lparr>account_snapshot := Some sample_snapshot, positions := ps\<rparr>, safety_limits = limit_defaults MAINNET,
     symbol_rules = [''ETHUSDC'' \<mapsto> sample_symbol_rules], ad_last_market_event_at = [''ETHUSDC'' \<mapsto> Aware 0],
     last_market_event_source = [''ETHUSDC'' \<mapsto> ''BINANCE_MAINNET_WS''], last_market_event_venue = [''ETHUSDC'' \<mapsto> ''BINANCE_MAINNET''],
     last_market_event_market_type = [''ETHUSDC'' \<mapsto> ''USDM_FUTURES''], last_market_ask_qty = [''ETHUSDC'' \<mapsto> Fin 5],
     last_market_bid_qty = [''ETHUSDC'' \<mapsto> Fin 5], last_market_reference_price = Map.empty, last_market_reference_at = Map.empty\<rparr>"

definition sample_order :: "OrderSide \<Rightarrow> bool \<Rightarrow> OrderIntent" where
  "sample_order side ro = \<lparr>oi_client_order_id = ''B-1'', oi_symbol = ''ETHUSDC'', oi_market_type = USDM_FUTURES, oi_side = side,
     oi_position_side = BOTH, oi_order_type = MARKET, oi_time_in_force = GTC, oi_quantity = Fin 1, oi_price = None,
     oi_reduce_only = ro, oi_post_only = False, oi_strategy_id = ''meta_allocator'', oi_source_intent_ids = [],
     oi_created_at = Aware 0\<rparr>"

definition sample_discover :: price_discovery where
  "sample_discover s sd b = (Some (Fin 10), b)"

lemma sample_discover_ledger: "ledger (snd (sample_discover s sd b)) = ledger b"
  by (simp add: sample_discover_def)

lemma fl_0 [simp]: "fl 0 = 0"
  by (simp add: fl_def)

lemma dec_small [simp]: "ddiv 1 1 = 1" "dmul 1 1 = 1" "dmul 1 10 = 10" "dadd 0 0 = 0" "dadd 0 10 = 10" "dadd 0 1 = 1" "dabs 1 = 1" "drep 10"
  using drep_of_int[of 10] by (simp_all add: dec_defs dround_rep)

lemma sample_env_values [simp]:
  "positive_float sample_env ''MAX_MARKET_DATA_AGE_SEC'' f = f" "env_flag sample_env ''MAINNET_LIVE_APPROVED'' False"
  "configured_margin_limit sample_env = 70" "mainnet_configured sample_env"
  "positive_float sample_env ''ACCOUNT_SNAPSHOT_MAX_AGE_SEC'' f = f" "parse_float ''?'' = None"
  by (simp_all add: sample_env_def positive_float_def env_flag_def configured_margin_limit_def mainnet_configured_def
      env_text_set_def parse_decimal_def parse_literal_def parse_float_def parse_unsigned_def strip_sign_def string_eval
      underscores_ok_def)

lemma sample_snapshot_ok: "snapshot_fresh ''BINANCE_MAINNET'' 0 30 (Some sample_snapshot)"
  by (simp add: snapshot_fresh_def sample_snapshot_def snapshot_amounts_ok_def snapshot_amounts_def is_fresh_def age_seconds_def)

lemma sample_snapshot_gates:
  "available_balance_is_positive (Some sample_snapshot)" "margin_utilization_is_safe sample_env (Some sample_snapshot)"
  "liquidation_safety_is_known_and_positive (Some sample_snapshot)"
  "mainnet_leverage_gate (limit_defaults MAINNET) sample_snapshot = Inr ()"
  "mainnet_daily_gate (limit_defaults MAINNET) sample_snapshot = Inr ()"
  by (simp_all add: available_balance_is_positive_def margin_utilization_is_safe_def
      liquidation_safety_is_known_and_positive_def mainnet_leverage_gate_def mainnet_daily_gate_def daily_loss_def
      sample_snapshot_def limit_defaults_def seconds_def string_eval)

lemma sample_gate_parts:
  "upper ''ETHUSDC'' = ''ETHUSDC''"
  "order_gate_entry sample_env (sample_adapter ps) NEW_RISK False = Inr ()"
  "order_gate_entry sample_env (sample_adapter ps) CLOSE False = Inr ()"
  "order_gate_account sample_env 0 (sample_adapter ps) = Inr ()"
  "order_gate_intent (sample_adapter ps) (sample_order side ro) = Inr sample_symbol_rules"
  "order_gate_quantity sample_symbol_rules (sample_order side ro) = Inr 1"
  "order_gate_price sample_env 0 sample_discover (sample_adapter ps) sample_symbol_rules (sample_order side ro)
     = Inr (None, Fin 10, sample_adapter ps)"
  "order_gate_market sample_env 0 (sample_adapter ps) (sample_order side ro) 1 = Inr ()"
  "order_gate_notional sample_symbol_rules (sample_order side ro) 1 (Fin 10) = Inr 10"
proof -
  show up: "upper ''ETHUSDC'' = ''ETHUSDC''" by (simp add: string_eval)
  have m: "upper ''MARKET'' = ''MARKET''" by (simp add: string_eval)
  have label: "environment_label MAINNET = ''BINANCE_MAINNET''" by (simp add: environment_label_def)
  show "order_gate_entry sample_env (sample_adapter ps) NEW_RISK False = Inr ()"
    "order_gate_entry sample_env (sample_adapter ps) CLOSE False = Inr ()"
    by (simp_all add: order_gate_entry_def sample_adapter_def)
  have "is_account_snapshot_fresh sample_env 0 (sample_adapter ps)"
    using sample_snapshot_ok by (simp add: is_account_snapshot_fresh_def sample_adapter_def sample_env_def label
        sample_env_values(6))
  then show "order_gate_account sample_env 0 (sample_adapter ps) = Inr ()"
    using sample_snapshot_gates by (simp add: order_gate_account_def sample_adapter_def)
  show "order_gate_intent (sample_adapter ps) (sample_order side ro) = Inr sample_symbol_rules"
    by (simp add: order_gate_intent_def sample_adapter_def sample_order_def up limit_defaults_def is_ready_for_def
        sample_symbol_rules_def rules_init_def)
  show "order_gate_quantity sample_symbol_rules (sample_order side ro) = Inr 1"
    by (simp add: order_gate_quantity_def sample_order_def normalize_quantity_def sample_symbol_rules_def rules_init_def)
  show "order_gate_price sample_env 0 sample_discover (sample_adapter ps) sample_symbol_rules (sample_order side ro)
     = Inr (None, Fin 10, sample_adapter ps)"
    by (simp add: order_gate_price_def sample_order_def sample_discover_def)
  show "order_gate_market sample_env 0 (sample_adapter ps) (sample_order side ro) 1 = Inr ()"
    by (simp add: order_gate_market_def sample_adapter_def sample_order_def up has_authoritative_market_sample_def label
        is_fresh_def age_seconds_def Let_def)
  show "order_gate_notional sample_symbol_rules (sample_order side ro) 1 (Fin 10) = Inr 10"
    by (simp add: order_gate_notional_def sample_order_def min_notional_for_def max_notional_for_def sample_symbol_rules_def
        rules_init_def m)
qed

lemma sample_gate_passes:
  "order_gate_check sample_env (\<lambda>_. 0) sample_discover (sample_adapter []) (sample_order BUY False) NEW_RISK 0 0 None True False
     = Inr \<lparr>po_symbol = ''ETHUSDC'', po_order_type = ''MARKET'', po_quantity = 1, po_price = None, po_estimated_price = 10, po_notional = 10\<rparr>"
proof -
  have "order_gate_reduction (sample_adapter []) (sample_order BUY False) NEW_RISK True 1 = Inr ()"
    by (simp add: order_gate_reduction_def sample_order_def is_risk_increasing_def is_risk_reducing_def)
  moreover have "order_gate_exposure (safety_limits (sample_adapter [])) (ledger (sample_adapter [])) ''ETHUSDC'' 0 0 None 10 = Inr ()"
    by (simp add: order_gate_exposure_def sample_adapter_def ledger_init_def limit_defaults_def get_open_orders_def)
  moreover have "upper (oi_symbol (sample_order BUY False)) = ''ETHUSDC''" "oi_order_type (sample_order BUY False) = MARKET"
    by (simp_all add: sample_order_def string_eval)
  ultimately show ?thesis
    by (simp add: order_gate_check_def is_risk_increasing_def sample_gate_parts)
qed


lemma sample_env_key: "s \<noteq> ''_LIVE_APPROVED'' \<Longrightarrow> sample_env (''MAINNET'' @ s) = None"
  by (simp add: sample_env_def)

lemma sample_limits: "limits_from_environment sample_env ''MAINNET'' = Inr (limit_defaults MAINNET)"
proof -
  have p: "parse_environment ''MAINNET'' = Inr MAINNET" by (simp add: parse_environment_def string_eval)
  have pd: "positive_decimal sample_env (''MAINNET'' @ s) f = f" "positive_int sample_env (''MAINNET'' @ s) i = i"
    if "s \<noteq> ''_LIVE_APPROVED''" for s f i
    using that by (simp_all add: positive_decimal_def positive_int_def sample_env_key del: append.simps)
  show ?thesis
    unfolding limits_from_environment_def p res_bind_def sum.case
    by (simp add: limit_defaults_def pd sample_env_key Let_def del: append.simps)
qed

theorem mainnet_order_within_pilot_caps_witness:
  "\<exists>po. order_gate_check sample_env (\<lambda>_. 0) sample_discover (sample_adapter []) (sample_order BUY False) NEW_RISK 0 0 None True False = Inr po
     \<and> po_symbol po = ''ETHUSDC'' \<and> po_notional po \<le> 50"
proof -
  have "limits_from_environment sample_env ''MAINNET'' = Inr (safety_limits (sample_adapter []))"
    by (simp add: sample_limits sample_adapter_def)
  from mainnet_order_within_pilot_caps[OF sample_gate_passes _ _ this sample_discover_ledger] sample_gate_passes
  show ?thesis by (simp add: is_risk_increasing_def sample_adapter_def)
qed


definition sample_worker :: TradingWorker where
  "sample_worker = \<lparr>execution_mode = WM_LIVE, engine_state = ARMED, kill_switch_active = False, pause_new_risk = False,
     recovery_only = False, market_data_healthy = True, wk_last_market_event_at = Map.empty, enabled_strategies = {''grid''},
     execution_adapter = Some (sample_adapter [])\<rparr>"

definition sample_execution_decision :: "EconomicRiskClass \<Rightarrow> reason ExecutionDecision" where
  "sample_execution_decision c = \<lparr>decision_id = ''DEC-1'', ed_symbol = ''ETHUSDC'', ed_action = ''SUBMIT_ORDER'', ed_risk_class = c,
     ed_orders = [sample_order BUY False], ed_rational = Approved, net_exposure_delta = 1, ed_timestamp = Aware 0,
     ed_target_exposure_id = ''EXP-1'', ed_source_intent_ids = [''GRID-INTENT-1'']\<rparr>"

lemma sample_decision_gate_worker: "decision_gate_worker sample_env sample_worker = Inr (sample_adapter [])"
  by (simp add: decision_gate_worker_def sample_worker_def) (simp add: sample_adapter_def)

lemma sample_decision_passes:
  "decision_gate_check sample_env (\<lambda>_. 0) sample_worker (sample_execution_decision NEW_RISK) = Inr ()"
proof -
  have up: "upper ''SUBMIT_ORDER'' = ''SUBMIT_ORDER''" "upper ''ETHUSDC'' = ''ETHUSDC''" by (simp_all add: string_eval)
  have label: "environment_label MAINNET = ''BINANCE_MAINNET''" by (simp add: environment_label_def)
  have "disabled_strategy_reason sample_worker (sample_execution_decision NEW_RISK) = None"
    by (simp add: disabled_strategy_reason_def sample_worker_def sample_execution_decision_def is_risk_increasing_def
        order_strategy_reason_def SYSTEM_STRATEGIES_def sample_order_def lineage_reason_def LINEAGE_PREFIX_TO_STRATEGY_def
        KNOWN_ALPHA_STRATEGIES_def split_max.simps string_eval Let_def)
  moreover have "decision_gate_increasing sample_env (\<lambda>_. 0) sample_worker (sample_adapter []) (sample_execution_decision NEW_RISK) = Inr ()"
    using sample_snapshot_ok sample_snapshot_gates
    by (simp add: decision_gate_increasing_def sample_worker_def is_account_snapshot_ready_def current_exchange_environment_def
        label sample_execution_decision_def sample_order_def up)
      (simp add: sample_adapter_def has_authoritative_market_sample_def label up is_fresh_def age_seconds_def)
  ultimately show ?thesis
    by (simp add: decision_gate_check_def sample_decision_gate_worker is_risk_increasing_def)
      (simp add: sample_execution_decision_def up)
qed


theorem reductions_ignore_pauses_witness:
  "decision_gate_check sample_env (\<lambda>_. 0) sample_worker (sample_execution_decision CLOSE) =
   decision_gate_check sample_env (\<lambda>_. 9) (sample_worker\<lparr>pause_new_risk := True, recovery_only := True, market_data_healthy := False,
     engine_state := PAUSED_NEW_RISK, enabled_strategies := {}, wk_last_market_event_at := Map.empty,
     execution_adapter := Some ((sample_adapter [])\<lparr>ledger := ledger_init\<rparr>)\<rparr>) (sample_execution_decision CLOSE)"
  by (rule reductions_ignore_pauses)
    (simp_all add: sample_execution_decision_def is_risk_increasing_def sample_worker_def)

theorem governor_orders_fit_gate_witness:
  "\<exists>d g' od. gov_evaluate sample_governor (Some (Aware 0)) None (sample_target 2) (sample_risk 1) (Fin 0) = Inr (d, g')
     \<and> ed_orders d = [od] \<and> oi_order_type od = MARKET \<and> oi_position_side od = BOTH"
proof -
  obtain d g' od where ev: "gov_evaluate sample_governor (Some (Aware 0)) None (sample_target 2) (sample_risk 1) (Fin 0) = Inr (d, g')"
    and od: "ed_orders d = [od]" using sample_decision by blast
  from governor_orders_fit_gate[OF ev, of od] od ev show ?thesis by (auto simp: sample_governor_def)
qed

end
