(* ===== verification/Redaction.thy ===== *)
theory Redaction
  imports Json "HOL-Library.Multiset" "HOL-Library.Char_ord" "HOL-Library.List_Lexorder" "HOL-Library.Product_Lexorder"
begin

text \<open>
  Redaction of queue-owned data (\<open>apps/agy_queue/security.py\<close>). The three regular expressions
  have one way to match at a position, so each is a function from the rest of the text to the
  length of the match; \<open>re_sub\<close> and \<open>re_finditer\<close> are the leftmost, non-overlapping scans of
  \<open>re.sub\<close> and \<open>re.finditer\<close>. Texts are ASCII. \<open>canonical\<close> is what \<open>sort_keys=True\<close> makes of
  a value: two values have the same serialised text exactly when it is equal for them.
\<close>

section \<open>Scanning\<close>

text \<open>A matcher reads the previous character (for a word boundary) and the rest of the text, and
  returns the length of the match, which is positive for the expressions at hand.\<close>

type_synonym matcher = "char option \<Rightarrow> string \<Rightarrow> nat option"

function (sequential) re_sub :: "matcher \<Rightarrow> (string \<Rightarrow> string) \<Rightarrow> char option \<Rightarrow> string \<Rightarrow> string" where
  "re_sub m replace prev [] = []"
| "re_sub m replace prev (c # cs) =
     (case m prev (c # cs) of
        Some n \<Rightarrow> let found = take n (c # cs) in
          replace found @ re_sub m replace (Some (List.last (c # take (n - 1) cs))) (drop (n - 1) cs)
      | None \<Rightarrow> c # re_sub m replace (Some c) cs)"
  by pat_completeness auto
termination by (relation "measure (\<lambda>(m, r, p, s). length s)") auto

function (sequential) re_finditer :: "matcher \<Rightarrow> char option \<Rightarrow> string \<Rightarrow> string list" where
  "re_finditer m prev [] = []"
| "re_finditer m prev (c # cs) =
     (case m prev (c # cs) of
        Some n \<Rightarrow> take n (c # cs) # re_finditer m (Some (List.last (c # take (n - 1) cs))) (drop (n - 1) cs)
      | None \<Rightarrow> re_finditer m (Some c) cs)"
  by pat_completeness auto
termination by (relation "measure (\<lambda>(m, p, s). length s)") auto

fun re_search :: "matcher \<Rightarrow> char option \<Rightarrow> string \<Rightarrow> bool" where
  "re_search m prev [] = False"
| "re_search m prev (c # cs) = (m prev (c # cs) \<noteq> None \<or> re_search m (Some c) cs)"

section \<open>The expressions\<close>

definition is_upper_char :: "char \<Rightarrow> bool" where
  "is_upper_char c = (65 \<le> (of_char c :: nat) \<and> (of_char c :: nat) \<le> 90)"

definition is_lower_char :: "char \<Rightarrow> bool" where
  "is_lower_char c = (97 \<le> (of_char c :: nat) \<and> (of_char c :: nat) \<le> 122)"

definition is_alnum :: "char \<Rightarrow> bool" where
  "is_alnum c = (is_upper_char c \<or> is_lower_char c \<or> is_digit c)"

definition is_word :: "char \<Rightarrow> bool" where "is_word c = (is_alnum c \<or> c = CHR ''_'')"

definition endswith :: "string \<Rightarrow> string \<Rightarrow> bool" where
  "endswith s p = startswith (rev s) (rev p)"

text \<open>\<open>-----BEGIN [A-Z ]*PRIVATE KEY-----\<close>\<close>

definition match_private_key :: matcher where
  "match_private_key prev s =
     (let run = takeWhile (\<lambda>c. is_upper_char c \<or> c = CHR '' '') (drop 11 s) in
      if startswith s ''-----BEGIN '' \<and> endswith run ''PRIVATE KEY'' \<and> startswith (drop (11 + length run) s) ''-----''
      then Some (16 + length run) else None)"

text \<open>\<open>(?i)\bbearer\s+[A-Za-z0-9._~+/=-]{16,}\<close>\<close>

definition match_bearer :: matcher where
  "match_bearer prev s =
     (let ws = takeWhile is_space (drop 6 s);
          run = takeWhile (\<lambda>c. is_alnum c \<or> c \<in> set ''._~+/=-'') (drop (6 + length ws) s) in
      if (\<forall>c \<in> set_option prev. \<not> is_word c) \<and> lower (take 6 s) = ''bearer'' \<and> ws \<noteq> [] \<and> 16 \<le> length run
      then Some (6 + length ws + length run) else None)"

definition joined_labels :: "string \<Rightarrow> string \<Rightarrow> string list" where
  "joined_labels a b = [a @ ''_'' @ b, a @ ''-'' @ b, a @ b]"

definition secret_labels :: "string list" where
  "secret_labels = joined_labels ''api'' ''key'' @ joined_labels ''api'' ''secret'' @ [''password'', ''token'', ''authorization'']
     @ joined_labels ''private'' ''key'' @ joined_labels ''client'' ''secret'' @ joined_labels ''service'' ''account''"

definition find_label :: "string list \<Rightarrow> string \<Rightarrow> nat option" where
  "find_label labels s = map_option length (find (\<lambda>l. lower (take (length l) s) = l) labels)"

text \<open>\<open>(label)\s*[:=]\s*(['"]?)([^\s,'"}]+)\1\<close>; the result holds the second group as well.\<close>

definition match_labeled :: "string \<Rightarrow> (nat \<times> string) option" where
  "match_labeled s =
     (case find_label secret_labels s of
        None \<Rightarrow> None
      | Some n \<Rightarrow>
          let w1 = takeWhile is_space (drop n s);
              r1 = drop (n + length w1) s;
              w2 = takeWhile is_space (tl r1);
              r2 = drop (length w2) (tl r1);
              quote = (if r2 \<noteq> [] \<and> hd r2 \<in> {CHR 0x27, CHR 0x22} then [hd r2] else []);
              group2 = takeWhile (\<lambda>c. \<not> is_space c \<and> c \<notin> {CHR '','', CHR 0x27, CHR 0x22, CHR ''}''}) (drop (length quote) r2)
          in if r1 \<noteq> [] \<and> hd r1 \<in> {CHR '':'', CHR ''=''} \<and> group2 \<noteq> []
               \<and> startswith (drop (length quote + length group2) r2) quote
             then Some (n + length w1 + 1 + length w2 + 2 * length quote + length group2, group2)
             else None)"

definition match_labeled_secret :: matcher where
  "match_labeled_secret prev s = map_option fst (match_labeled s)"

text \<open>The expression that \<open>redact_json\<close> searches in a key; \<open>token\<close> must not be followed by an s.\<close>

definition key_labels :: "string list" where
  "key_labels = joined_labels ''api'' ''key'' @ joined_labels ''api'' ''secret'' @ [''password'', ''authorization'']
     @ joined_labels ''private'' ''key'' @ joined_labels ''client'' ''secret''"

definition match_key :: matcher where
  "match_key prev s =
     (case find_label key_labels s of
        Some n \<Rightarrow> Some n
      | None \<Rightarrow> if lower (take 5 s) = ''token'' \<and> lower (take 1 (drop 5 s)) \<noteq> ''s'' then Some 5 else None)"

section \<open>Credentials in a text\<close>

definition PLACEHOLDERS :: "string set" where
  "PLACEHOLDERS = {[], ''<redacted>'', ''<secret>'', ''***'', ''changeme'', ''example''}"

definition is_placeholder :: "string \<Rightarrow> bool" where
  "is_placeholder value = (lower (strip value) \<in> PLACEHOLDERS)"

definition secret_of :: "string \<Rightarrow> string" where
  "secret_of found = (case match_labeled found of Some (_, v) \<Rightarrow> v | None \<Rightarrow> [])"

definition contains_credential_like_content :: "string \<Rightarrow> bool" where
  "contains_credential_like_content value =
     (re_search match_private_key None value \<or> re_search match_bearer None value
      \<or> list_ex (\<lambda>found. \<not> is_placeholder (secret_of found)) (re_finditer match_labeled_secret None value))"

datatype prompt_error = PromptEmpty | PromptTooLong | CredentialLikeContent

definition validate_prompt :: "string \<Rightarrow> prompt_error + string" where
  "validate_prompt prompt =
     res_bind (check (strip prompt \<noteq> []) PromptEmpty) (\<lambda>_.
     res_bind (check (length prompt \<le> 200000) PromptTooLong) (\<lambda>_.
     res_bind (check (\<not> contains_credential_like_content prompt) CredentialLikeContent) (\<lambda>_. Inr prompt)))"

section \<open>Redaction\<close>

text \<open>\<open>s.split(sub, 1)[0]\<close>: what precedes the first occurrence of \<open>sub\<close>.\<close>

fun before_sub :: "string \<Rightarrow> string \<Rightarrow> string" where
  "before_sub sub [] = []"
| "before_sub sub (c # cs) = (if startswith (c # cs) sub then [] else c # before_sub sub cs)"

definition replace_secret :: "string \<Rightarrow> string" where
  "replace_secret found = before_sub (secret_of found) found @ ''<REDACTED>''"

definition redact_text :: "string \<Rightarrow> string" where
  "redact_text value =
     re_sub match_labeled_secret replace_secret None
       (re_sub match_bearer (\<lambda>_. ''Bearer <REDACTED_TOKEN>'') None
         (re_sub match_private_key (\<lambda>_. ''<REDACTED_PRIVATE_KEY>'') None value))"

definition secret_key :: "string \<Rightarrow> bool" where
  "secret_key key = re_search match_key None key"

fun redact_json :: "json \<Rightarrow> json" where
  "redact_json (JStr s) = JStr (redact_text s)"
| "redact_json (JList xs) = JList (map redact_json xs)"
| "redact_json (JObject d) =
     JObject (map (\<lambda>(k, v). (k, if secret_key k then JStr ''<REDACTED>'' else redact_json v)) d)"
| "redact_json v = v"

text \<open>\<open>json.loads(json.dumps(value, sort_keys=True))\<close>.\<close>

fun canonical :: "json \<Rightarrow> json" where
  "canonical (JList xs) = JList (map canonical xs)"
| "canonical (JObject d) = JObject (sort_key fst (map (\<lambda>(k, v). (k, canonical v)) d))"
| "canonical v = v"

section \<open>Laws\<close>

text \<open>A text without a match is left alone.\<close>

lemma re_sub_unmatched: "\<not> re_search m prev s \<Longrightarrow> re_sub m replace prev s = s"
  by (induction m prev s rule: re_search.induct) auto

lemma re_finditer_unmatched: "\<not> re_search m prev s \<Longrightarrow> re_finditer m prev s = []"
  by (induction m prev s rule: re_search.induct) auto

lemma redact_text_unmatched:
  assumes "\<not> re_search match_private_key None s" "\<not> re_search match_bearer None s" "\<not> re_search match_labeled_secret None s"
  shows "redact_text s = s"
  using assms by (simp add: redact_text_def re_sub_unmatched)

lemma re_search_suffix:
  "re_search m prev s \<Longrightarrow> \<exists>prev' t. m prev' t \<noteq> None \<and> set t \<subseteq> set s"
proof (induction m prev s rule: re_search.induct)
  case (2 m prev c cs)
  show ?case
  proof (cases "m prev (c # cs) = None")
    case True
    with 2 show ?thesis by fastforce
  qed blast
qed simp

lemma match_labeled_separator:
  assumes "match_labeled t \<noteq> None"
  shows "\<exists>n. find_label secret_labels t = Some n \<and> (\<exists>c \<in> set t. c \<in> set '':='')"
proof (cases "find_label secret_labels t")
  case (Some n)
  have found: "(if P then Some x else None) \<noteq> None \<Longrightarrow> P" for P and x :: "nat \<times> string" by (simp split: if_splits)
  from found[OF assms[unfolded match_labeled_def Some option.case Let_def]]
  have "\<exists>k. drop k t \<noteq> [] \<and> hd (drop k t) \<in> {CHR '':'', CHR ''=''}" by (elim conjE, intro exI conjI)
  then obtain k where k: "drop k t \<noteq> []" "hd (drop k t) \<in> {CHR '':'', CHR ''=''}" by blast
  then have "hd (drop k t) \<in> set t" by (meson in_set_dropD hd_in_set)
  with Some k(2) show ?thesis by auto
qed (use assms in \<open>simp add: match_labeled_def\<close>)

lemma labels_io: "list_all (list_ex (\<lambda>c. c \<in> set ''io'')) secret_labels"
  by (simp add: secret_labels_def joined_labels_def)

lemma no_space_private_key: "\<forall>c \<in> set t. \<not> is_space c \<Longrightarrow> match_private_key prev t = None"
proof -
  assume "\<forall>c \<in> set t. \<not> is_space c"
  moreover have "is_space (CHR '' '')" by (simp add: is_space_def)
  moreover have "CHR '' '' \<in> set t" if "startswith t ''-----BEGIN ''"
    using that set_take_subset[of 11 t] by (auto simp: startswith_def numeral_eq_Suc)
  ultimately have "\<not> startswith t ''-----BEGIN ''" by blast
  then show ?thesis by (simp only: match_private_key_def Let_def) simp
qed

lemma no_space_bearer: "\<forall>c \<in> set t. \<not> is_space c \<Longrightarrow> match_bearer prev t = None"
proof -
  assume "\<forall>c \<in> set t. \<not> is_space c"
  then have "\<forall>c \<in> set (drop 6 t). \<not> is_space c" by (meson in_set_dropD)
  then have "takeWhile is_space (drop 6 t) = []" by (cases "drop 6 t") simp_all
  then show ?thesis by (simp only: match_bearer_def Let_def) simp
qed

lemma match_labeled_chars:
  assumes "match_labeled t \<noteq> None"
  shows "\<exists>c \<in> set t. c \<in> set '':=''" "\<exists>c \<in> set t. lower_char c \<in> set ''io''"
proof -
  from match_labeled_separator[OF assms] obtain n where n: "find_label secret_labels t = Some n" by blast
  then obtain l where l: "l \<in> set secret_labels" "lower (take (length l) t) = l"
    by (auto simp: find_label_def find_Some_iff dest: nth_mem)
  from labels_io l(1) have "list_ex (\<lambda>c. c \<in> set ''io'') l" by (simp only: list_all_iff)
  then have "list_ex (\<lambda>c. c \<in> set ''io'') (lower (take (length l) t))" by (simp only: l(2))
  then show "\<exists>c \<in> set t. lower_char c \<in> set ''io''"
    by (force simp only: list_ex_iff lower_def set_map dest: in_set_takeD)
qed (use match_labeled_separator[OF assms] in blast)

text \<open>A text without white space has no private key and no bearer token in it; without a colon and
  an equals sign, or without the letters that every label has one of, it has no labelled secret.\<close>

lemma redact_plain:
  assumes "\<forall>c \<in> set s. \<not> is_space c" "(\<forall>c \<in> set s. c \<notin> set '':='') \<or> (\<forall>c \<in> set s. lower_char c \<notin> set ''io'')"
  shows "redact_text s = s"
proof (rule redact_text_unmatched)
  have sub: "\<forall>c \<in> set t. \<not> is_space c" if "set t \<subseteq> set s" for t using assms(1) that by blast
  have none: "\<not> re_search m None s" if "\<And>prev t. set t \<subseteq> set s \<Longrightarrow> m prev t = None" for m
    using re_search_suffix[of m None s] that by metis
  show "\<not> re_search match_private_key None s" by (rule none) (rule no_space_private_key[OF sub])
  show "\<not> re_search match_bearer None s" by (rule none) (rule no_space_bearer[OF sub])
  have "match_labeled t = None" if "set t \<subseteq> set s" for t
  proof (rule ccontr)
    assume "match_labeled t \<noteq> None"
    from match_labeled_chars[OF this] obtain c d
      where "c \<in> set t" "c \<in> set '':=''" "d \<in> set t" "lower_char d \<in> set ''io''" by (elim bexE)
    with assms(2) that show False by (metis subsetD)
  qed
  then show "\<not> re_search match_labeled_secret None s" by (intro none) (simp add: match_labeled_secret_def)
qed

lemma redact_text_Nil [simp]: "redact_text [] = []"
  by (simp add: redact_text_def)

lemma insort_key_map: "insort_key fst (h x) (map h xs) = map h (insort_key fst x xs)"
  if "\<And>y. fst (h y) = fst y" for h :: "('a::linorder \<times> 'b) \<Rightarrow> 'a \<times> 'c"
  using that by (induction xs) auto

lemma sort_key_map: "sort_key fst (map h xs) = map h (sort_key fst xs)"
  if "\<And>y. fst (h y) = fst y" for h :: "('a::linorder \<times> 'b) \<Rightarrow> 'a \<times> 'c"
  using that insort_key_map[of h] by (induction xs) auto

lemma map_of_sort_key:
  assumes "distinct (map fst d)"
  shows "map_of (sort_key fst d) = map_of (d :: ('a::linorder \<times> 'b) list)"
proof (rule map_of_inject_set[THEN iffD2])
  have "mset (map fst (sort_key fst d)) = mset (map fst d)" by simp
  then show "distinct (map fst (sort_key fst d))" using assms mset_eq_imp_distinct_iff by blast
qed (use assms in simp_all)

lemma canonical_idem [simp]: "canonical (canonical v) = canonical v"
proof (induction v rule: canonical.induct)
  case (2 d)
  have "map (\<lambda>(k, v). (k, canonical v)) (sort_key fst (map (\<lambda>(k, v). (k, canonical v)) d))
      = sort_key fst (map (\<lambda>(k, v). (k, canonical v)) (map (\<lambda>(k, v). (k, canonical v)) d))"
    by (rule sort_key_map[symmetric]) auto
  also have "map (\<lambda>(k, v). (k, canonical v)) (map (\<lambda>(k, v). (k, canonical v)) d) = map (\<lambda>(k, v). (k, canonical v)) d"
    using 2 by (fastforce simp: list.map_comp)
  finally show ?case by (simp only: canonical.simps) (simp add: sort_key_id_if_sorted)
qed simp_all

lemma canonical_redact: "canonical (redact_json v) = redact_json (canonical v)"
proof (induction v rule: canonical.induct)
  case (2 d)
  let ?r = "\<lambda>(k, v). (k, if secret_key k then JStr ''<REDACTED>'' else redact_json v)"
  have "map (\<lambda>(k, v). (k, canonical v)) (map ?r d) = map ?r (map (\<lambda>(k, v). (k, canonical v)) d)"
    using 2 by (fastforce simp: list.map_comp)
  moreover have "sort_key fst (map ?r e) = map ?r (sort_key fst e)" for e :: "(string \<times> json) list"
    by (rule sort_key_map) auto
  ultimately show ?case by (simp only: canonical.simps redact_json.simps)
qed simp_all

end
