(* ===== verification/QueueModel.thy ===== *)
theory QueueModel
  imports Redaction
begin

text \<open>
  The durable job queue (\<open>apps/agy_queue\<close>): the records of \<open>models.py\<close>, their serialised form
  (\<open>_job_payload\<close> and \<open>_payload_to_job\<close> of \<open>storage.py\<close>) and its round trip, and the changes of a job
  that both storage backends make. What a backend promises is stated in \<open>QueueSpec\<close>.

  Time stamps are the strings that \<open>utc_iso\<close> writes, compared as strings; clock readings are
  arguments of the operations.
\<close>

section \<open>Records\<close>

datatype JobStatus = JS_PENDING | JS_RUNNING | JS_SUCCEEDED | JS_FAILED | JS_CANCELLED

datatype GateState = GS_READY | GS_WAITING_AUTHORIZATION | GS_WAITING_VERIFICATION | GS_VERIFIED | GS_BLOCKED

datatype JobKind =
    JK_READ_ONLY | JK_REPO_CHANGE | JK_RELEASE_GATE_EVALUATE | JK_MAINNET_PREFLIGHT | JK_VERIFY_EXTERNAL
  | JK_CLOUD_WRITE | JK_TRADING_ORDER | JK_EMERGENCY_KILL_SWITCH

datatype ExternalEffectClass = EC_NONE | EC_REPO_CHANGE | EC_CLOUD_WRITE | EC_EXCHANGE_ORDER | EC_EMERGENCY_CONTROL

fun status_value :: "JobStatus \<Rightarrow> string" where
  "status_value JS_PENDING = ''pending''"
| "status_value JS_RUNNING = ''running''"
| "status_value JS_SUCCEEDED = ''succeeded''"
| "status_value JS_FAILED = ''failed''"
| "status_value JS_CANCELLED = ''cancelled''"

fun gate_value :: "GateState \<Rightarrow> string" where
  "gate_value GS_READY = ''READY''"
| "gate_value GS_WAITING_AUTHORIZATION = ''WAITING_AUTHORIZATION''"
| "gate_value GS_WAITING_VERIFICATION = ''WAITING_VERIFICATION''"
| "gate_value GS_VERIFIED = ''VERIFIED''"
| "gate_value GS_BLOCKED = ''BLOCKED''"

fun kind_value :: "JobKind \<Rightarrow> string" where
  "kind_value JK_READ_ONLY = ''READ_ONLY''"
| "kind_value JK_REPO_CHANGE = ''REPO_CHANGE''"
| "kind_value JK_RELEASE_GATE_EVALUATE = ''RELEASE_GATE_EVALUATE''"
| "kind_value JK_MAINNET_PREFLIGHT = ''MAINNET_PREFLIGHT''"
| "kind_value JK_VERIFY_EXTERNAL = ''VERIFY_EXTERNAL''"
| "kind_value JK_CLOUD_WRITE = ''CLOUD_WRITE''"
| "kind_value JK_TRADING_ORDER = ''TRADING_ORDER''"
| "kind_value JK_EMERGENCY_KILL_SWITCH = ''EMERGENCY_KILL_SWITCH''"

fun effect_value :: "ExternalEffectClass \<Rightarrow> string" where
  "effect_value EC_NONE = ''NONE''"
| "effect_value EC_REPO_CHANGE = ''REPO_CHANGE''"
| "effect_value EC_CLOUD_WRITE = ''CLOUD_WRITE''"
| "effect_value EC_EXCHANGE_ORDER = ''EXCHANGE_ORDER''"
| "effect_value EC_EMERGENCY_CONTROL = ''EMERGENCY_CONTROL''"

fun JOB_EFFECT_CLASS :: "JobKind \<Rightarrow> ExternalEffectClass" where
  "JOB_EFFECT_CLASS JK_REPO_CHANGE = EC_REPO_CHANGE"
| "JOB_EFFECT_CLASS JK_CLOUD_WRITE = EC_CLOUD_WRITE"
| "JOB_EFFECT_CLASS JK_TRADING_ORDER = EC_EXCHANGE_ORDER"
| "JOB_EFFECT_CLASS JK_EMERGENCY_KILL_SWITCH = EC_EMERGENCY_CONTROL"
| "JOB_EFFECT_CLASS _ = EC_NONE"

definition AGY_JOB_KINDS :: "JobKind set" where
  "AGY_JOB_KINDS = {JK_READ_ONLY, JK_REPO_CHANGE, JK_RELEASE_GATE_EVALUATE}"

text \<open>\<open>Enum(value)\<close>: the member with that value, or \<open>ValueError\<close>.\<close>

definition enum_of :: "('a \<Rightarrow> string) \<Rightarrow> 'a list \<Rightarrow> string \<Rightarrow> 'a res" where
  "enum_of value members s =
     (case find (\<lambda>x. value x = s) members of Some x \<Rightarrow> Inr x | None \<Rightarrow> Inl (ValueError s))"

abbreviation all_statuses :: "JobStatus list" where
  "all_statuses \<equiv> [JS_PENDING, JS_RUNNING, JS_SUCCEEDED, JS_FAILED, JS_CANCELLED]"

abbreviation all_gates :: "GateState list" where
  "all_gates \<equiv> [GS_READY, GS_WAITING_AUTHORIZATION, GS_WAITING_VERIFICATION, GS_VERIFIED, GS_BLOCKED]"

abbreviation all_kinds :: "JobKind list" where
  "all_kinds \<equiv> [JK_READ_ONLY, JK_REPO_CHANGE, JK_RELEASE_GATE_EVALUATE, JK_MAINNET_PREFLIGHT, JK_VERIFY_EXTERNAL,
     JK_CLOUD_WRITE, JK_TRADING_ORDER, JK_EMERGENCY_KILL_SWITCH]"

abbreviation all_effects :: "ExternalEffectClass list" where
  "all_effects \<equiv> [EC_NONE, EC_REPO_CHANGE, EC_CLOUD_WRITE, EC_EXCHANGE_ORDER, EC_EMERGENCY_CONTROL]"

definition normalize_job_kind :: "string \<Rightarrow> JobKind res" where
  "normalize_job_kind value =
     enum_of kind_value all_kinds (upper (map (\<lambda>c. if c = CHR ''-'' then CHR ''_'' else c) (strip value)))"

text \<open>A JSON object is its list of keys and values.\<close>

type_synonym jobject = "(string \<times> json) list"

record JobRecord =
  jb_job_id :: string
  jb_created_at :: string
  jb_updated_at :: string
  jb_prompt :: string
  jb_repo :: string
  jb_base_sha :: "string option"
  jb_model :: string
  jb_effort :: string
  jb_timeout_sec :: int
  jb_status :: JobStatus
  jb_attempt :: int
  jb_max_attempts :: int
  jb_lease_until :: "string option"
  jb_worker_id :: "string option"
  jb_conversation_id :: "string option"
  jb_result_path :: "string option"
  jb_raw_events_path :: "string option"
  jb_error_code :: "string option"
  jb_stderr :: "string option"
  jb_started_at :: "string option"
  jb_finished_at :: "string option"
  jb_branch :: "string option"
  jb_head_sha :: "string option"
  jb_next_attempt_at :: "string option"
  jb_session_key :: "string option"
  jb_scope_key :: "string option"
  jb_job_kind :: JobKind
  jb_external_effect_class :: ExternalEffectClass
  jb_gate_state :: GateState
  jb_authorization_ref :: "string option"
  jb_verification_job_id :: "string option"
  jb_expected_output_schema :: "jobject option"
  jb_result_json :: "jobject option"

definition unsafe_effect :: "ExternalEffectClass \<Rightarrow> bool" where
  "unsafe_effect e = (e \<in> {EC_CLOUD_WRITE, EC_EXCHANGE_ORDER, EC_EMERGENCY_CONTROL})"

definition is_terminal :: "JobRecord \<Rightarrow> bool" where
  "is_terminal j = (jb_status j \<in> {JS_SUCCEEDED, JS_FAILED, JS_CANCELLED})"

definition can_retry :: "JobRecord \<Rightarrow> bool" where
  "can_retry j = (jb_status j = JS_FAILED \<and> jb_attempt j < jb_max_attempts j \<and> \<not> unsafe_effect (jb_external_effect_class j))"

section \<open>Serialised jobs\<close>

definition opt_string :: "string option \<Rightarrow> json" where
  "opt_string x = (case x of None \<Rightarrow> JNull | Some s \<Rightarrow> JStr s)"

definition opt_object :: "jobject option \<Rightarrow> json" where
  "opt_object x = (case x of None \<Rightarrow> JNull | Some d \<Rightarrow> JObject d)"

definition job_payload :: "JobRecord \<Rightarrow> jobject" where
  "job_payload j =
     [(''job_id'', JStr (jb_job_id j)), (''created_at'', JStr (jb_created_at j)), (''updated_at'', JStr (jb_updated_at j)),
      (''prompt'', JStr (jb_prompt j)), (''repo'', JStr (jb_repo j)), (''base_sha'', opt_string (jb_base_sha j)),
      (''model'', JStr (jb_model j)), (''effort'', JStr (jb_effort j)), (''timeout_sec'', JInt (jb_timeout_sec j)),
      (''status'', JStr (status_value (jb_status j))), (''attempt'', JInt (jb_attempt j)),
      (''max_attempts'', JInt (jb_max_attempts j)), (''lease_until'', opt_string (jb_lease_until j)),
      (''worker_id'', opt_string (jb_worker_id j)), (''conversation_id'', opt_string (jb_conversation_id j)),
      (''result_path'', opt_string (jb_result_path j)), (''raw_events_path'', opt_string (jb_raw_events_path j)),
      (''result_json'', opt_object (jb_result_json j)), (''stderr'', opt_string (jb_stderr j)),
      (''error_code'', opt_string (jb_error_code j)), (''started_at'', opt_string (jb_started_at j)),
      (''finished_at'', opt_string (jb_finished_at j)), (''branch'', opt_string (jb_branch j)),
      (''head_sha'', opt_string (jb_head_sha j)), (''next_attempt_at'', opt_string (jb_next_attempt_at j)),
      (''session_key'', opt_string (jb_session_key j)), (''scope_key'', opt_string (jb_scope_key j)),
      (''job_kind'', JStr (kind_value (jb_job_kind j))),
      (''external_effect_class'', JStr (effect_value (jb_external_effect_class j))),
      (''gate_state'', JStr (gate_value (jb_gate_state j))), (''authorization_ref'', opt_string (jb_authorization_ref j)),
      (''verification_job_id'', opt_string (jb_verification_job_id j)),
      (''expected_output_schema'', opt_object (jb_expected_output_schema j))]"

text \<open>Reading a payload. \<open>payload[key]\<close> raises \<open>KeyError\<close>. The values that Python takes over
  untyped (\<open>payload.get(key)\<close>) are strings, objects or null in what the store writes; any other
  type is the error \<open>TypeError\<close> here.\<close>

definition get_str :: "jobject \<Rightarrow> string \<Rightarrow> string res" where
  "get_str d key = (case map_of d key of Some v \<Rightarrow> Inr (py_str v) | None \<Rightarrow> Inl (KeyError key))"

definition get_opt :: "jobject \<Rightarrow> string \<Rightarrow> string option res" where
  "get_opt d key = (case json_get d key of JNull \<Rightarrow> Inr None | JStr s \<Rightarrow> Inr (Some s) | _ \<Rightarrow> Inl TypeError)"

definition get_obj :: "jobject \<Rightarrow> string \<Rightarrow> jobject option res" where
  "get_obj d key = (case json_get d key of JNull \<Rightarrow> Inr None | JObject o' \<Rightarrow> Inr (Some o') | _ \<Rightarrow> Inl TypeError)"

definition get_enum :: "('a \<Rightarrow> string) \<Rightarrow> 'a list \<Rightarrow> jobject \<Rightarrow> string \<Rightarrow> 'a \<Rightarrow> 'a res" where
  "get_enum value members d key dflt = enum_of value members (py_str (json_get_or d key (JStr (value dflt))))"

definition payload_to_job :: "jobject \<Rightarrow> JobRecord res" where
  "payload_to_job d =
     res_bind (get_str d ''job_id'') (\<lambda>job_id. res_bind (get_str d ''created_at'') (\<lambda>created_at.
     res_bind (get_str d ''updated_at'') (\<lambda>updated_at. res_bind (get_str d ''prompt'') (\<lambda>prompt.
     res_bind (get_str d ''repo'') (\<lambda>repo. res_bind (get_opt d ''base_sha'') (\<lambda>base_sha.
     res_bind (get_str d ''model'') (\<lambda>model. res_bind (get_str d ''effort'') (\<lambda>effort.
     res_bind (json_int (json_get_or d ''timeout_sec'' (JInt 300))) (\<lambda>timeout_sec.
     res_bind (res_bind (get_str d ''status'') (enum_of status_value all_statuses)) (\<lambda>status.
     res_bind (json_int (json_get_or d ''attempt'' (JInt 0))) (\<lambda>attempt.
     res_bind (json_int (json_get_or d ''max_attempts'' (JInt 3))) (\<lambda>max_attempts.
     res_bind (get_opt d ''lease_until'') (\<lambda>lease_until. res_bind (get_opt d ''worker_id'') (\<lambda>worker_id.
     res_bind (get_opt d ''conversation_id'') (\<lambda>conversation_id. res_bind (get_opt d ''result_path'') (\<lambda>result_path.
     res_bind (get_opt d ''raw_events_path'') (\<lambda>raw_events_path. res_bind (get_opt d ''error_code'') (\<lambda>error_code.
     res_bind (get_opt d ''stderr'') (\<lambda>stderr. res_bind (get_opt d ''started_at'') (\<lambda>started_at.
     res_bind (get_opt d ''finished_at'') (\<lambda>finished_at. res_bind (get_opt d ''branch'') (\<lambda>branch.
     res_bind (get_opt d ''head_sha'') (\<lambda>head_sha. res_bind (get_opt d ''next_attempt_at'') (\<lambda>next_attempt_at.
     res_bind (get_opt d ''session_key'') (\<lambda>session_key. res_bind (get_opt d ''scope_key'') (\<lambda>scope_key.
     res_bind (get_enum kind_value all_kinds d ''job_kind'' JK_READ_ONLY) (\<lambda>job_kind.
     res_bind (get_enum effect_value all_effects d ''external_effect_class'' EC_NONE) (\<lambda>effect.
     res_bind (get_enum gate_value all_gates d ''gate_state'' GS_READY) (\<lambda>gate_state.
     res_bind (get_opt d ''authorization_ref'') (\<lambda>authorization_ref.
     res_bind (get_opt d ''verification_job_id'') (\<lambda>verification_job_id.
     res_bind (get_obj d ''expected_output_schema'') (\<lambda>schema. res_bind (get_obj d ''result_json'') (\<lambda>result_json.
     Inr \<lparr>jb_job_id = job_id, jb_created_at = created_at, jb_updated_at = updated_at, jb_prompt = prompt, jb_repo = repo,
       jb_base_sha = base_sha, jb_model = model, jb_effort = effort, jb_timeout_sec = timeout_sec, jb_status = status,
       jb_attempt = attempt, jb_max_attempts = max_attempts, jb_lease_until = lease_until, jb_worker_id = worker_id,
       jb_conversation_id = conversation_id, jb_result_path = result_path, jb_raw_events_path = raw_events_path,
       jb_error_code = error_code, jb_stderr = stderr, jb_started_at = started_at, jb_finished_at = finished_at,
       jb_branch = branch, jb_head_sha = head_sha, jb_next_attempt_at = next_attempt_at, jb_session_key = session_key,
       jb_scope_key = scope_key, jb_job_kind = job_kind, jb_external_effect_class = effect, jb_gate_state = gate_state,
       jb_authorization_ref = authorization_ref, jb_verification_job_id = verification_job_id,
       jb_expected_output_schema = schema, jb_result_json = result_json\<rparr>)))))))))))))))))))))))))))))))))"

lemma queue_enum_of_value [simp]:
  "enum_of status_value all_statuses (status_value s) = Inr s" "enum_of gate_value all_gates (gate_value g) = Inr g"
  "enum_of kind_value all_kinds (kind_value k) = Inr k" "enum_of effect_value all_effects (effect_value e) = Inr e"
  by (cases s, simp_all add: enum_of_def, cases g, simp_all, cases k, simp_all, cases e, simp_all)

text \<open>Only the values stored under the keys matter, not their order.\<close>

lemma payload_to_job_cong: "map_of d = map_of d' \<Longrightarrow> payload_to_job d = payload_to_job d'"
  by (simp add: payload_to_job_def get_str_def get_opt_def get_obj_def get_enum_def json_get_def json_get_or_def)

lemma payload_keys_distinct: "distinct (map fst (job_payload j))"
  by (simp add: job_payload_def)

lemma payload_lookup:
  "map_of (job_payload j) ''job_id'' = Some (JStr (jb_job_id j))"
  "map_of (job_payload j) ''created_at'' = Some (JStr (jb_created_at j))"
  "map_of (job_payload j) ''updated_at'' = Some (JStr (jb_updated_at j))"
  "map_of (job_payload j) ''prompt'' = Some (JStr (jb_prompt j))"
  "map_of (job_payload j) ''repo'' = Some (JStr (jb_repo j))"
  "map_of (job_payload j) ''base_sha'' = Some (opt_string (jb_base_sha j))"
  "map_of (job_payload j) ''model'' = Some (JStr (jb_model j))"
  "map_of (job_payload j) ''effort'' = Some (JStr (jb_effort j))"
  "map_of (job_payload j) ''timeout_sec'' = Some (JInt (jb_timeout_sec j))"
  "map_of (job_payload j) ''status'' = Some (JStr (status_value (jb_status j)))"
  "map_of (job_payload j) ''attempt'' = Some (JInt (jb_attempt j))"
  "map_of (job_payload j) ''max_attempts'' = Some (JInt (jb_max_attempts j))"
  "map_of (job_payload j) ''lease_until'' = Some (opt_string (jb_lease_until j))"
  "map_of (job_payload j) ''worker_id'' = Some (opt_string (jb_worker_id j))"
  "map_of (job_payload j) ''conversation_id'' = Some (opt_string (jb_conversation_id j))"
  "map_of (job_payload j) ''result_path'' = Some (opt_string (jb_result_path j))"
  "map_of (job_payload j) ''raw_events_path'' = Some (opt_string (jb_raw_events_path j))"
  "map_of (job_payload j) ''result_json'' = Some (opt_object (jb_result_json j))"
  "map_of (job_payload j) ''stderr'' = Some (opt_string (jb_stderr j))"
  "map_of (job_payload j) ''error_code'' = Some (opt_string (jb_error_code j))"
  "map_of (job_payload j) ''started_at'' = Some (opt_string (jb_started_at j))"
  "map_of (job_payload j) ''finished_at'' = Some (opt_string (jb_finished_at j))"
  "map_of (job_payload j) ''branch'' = Some (opt_string (jb_branch j))"
  "map_of (job_payload j) ''head_sha'' = Some (opt_string (jb_head_sha j))"
  "map_of (job_payload j) ''next_attempt_at'' = Some (opt_string (jb_next_attempt_at j))"
  "map_of (job_payload j) ''session_key'' = Some (opt_string (jb_session_key j))"
  "map_of (job_payload j) ''scope_key'' = Some (opt_string (jb_scope_key j))"
  "map_of (job_payload j) ''job_kind'' = Some (JStr (kind_value (jb_job_kind j)))"
  "map_of (job_payload j) ''external_effect_class'' = Some (JStr (effect_value (jb_external_effect_class j)))"
  "map_of (job_payload j) ''gate_state'' = Some (JStr (gate_value (jb_gate_state j)))"
  "map_of (job_payload j) ''authorization_ref'' = Some (opt_string (jb_authorization_ref j))"
  "map_of (job_payload j) ''verification_job_id'' = Some (opt_string (jb_verification_job_id j))"
  "map_of (job_payload j) ''expected_output_schema'' = Some (opt_object (jb_expected_output_schema j))"
  by (simp_all add: job_payload_def)

lemma opt_json_cases [simp]:
  "(case opt_string x of JNull \<Rightarrow> Inr None | JBool b \<Rightarrow> Inl e | JInt n \<Rightarrow> Inl e | JFloat r \<Rightarrow> Inl e | JStr s \<Rightarrow> Inr (Some s)
     | JList xs \<Rightarrow> Inl e | JObject d \<Rightarrow> Inl e) = Inr x"
  "(case opt_object y of JNull \<Rightarrow> Inr None | JBool b \<Rightarrow> Inl e | JInt n \<Rightarrow> Inl e | JFloat r \<Rightarrow> Inl e | JStr s \<Rightarrow> Inl e
     | JList xs \<Rightarrow> Inl e | JObject d \<Rightarrow> Inr (Some d)) = Inr y"
  by (simp_all add: opt_string_def opt_object_def split: option.splits)

lemma payload_roundtrip: "payload_to_job (job_payload j) = Inr j"
  by (simp add: payload_to_job_def get_str_def get_opt_def get_obj_def get_enum_def json_get_def json_get_or_def
      payload_lookup json_int_def)

section \<open>What redaction does to a stored job\<close>

definition redact_obj :: "jobject \<Rightarrow> jobject" where
  "redact_obj d = map (\<lambda>(k, v). (k, if secret_key k then JStr ''<REDACTED>'' else redact_json v)) d"

definition canonical_obj :: "jobject \<Rightarrow> jobject" where
  "canonical_obj d = sort_key fst (map (\<lambda>(k, v). (k, canonical v)) d)"

lemma redact_json_object: "redact_json (JObject d) = JObject (redact_obj d)"
  by (simp add: redact_obj_def)

lemma canonical_object: "canonical (JObject d) = JObject (canonical_obj d)"
  by (simp add: canonical_obj_def)

lemma canonical_obj_idem [simp]: "canonical_obj (canonical_obj d) = canonical_obj d"
  using canonical_idem[of "JObject d"] unfolding canonical_object by simp

lemma canonical_redact_obj: "canonical_obj (redact_obj d) = redact_obj (canonical_obj d)"
  using canonical_redact[of "JObject d"] unfolding canonical_object redact_json_object by simp

lemma map_of_redact:
  "map_of (redact_obj d) k = map_option (\<lambda>v. if secret_key k then JStr ''<REDACTED>'' else redact_json v) (map_of d k)"
  by (induction d) (auto simp: redact_obj_def)

lemma map_of_canonical:
  assumes "distinct (map fst d)"
  shows "map_of (canonical_obj d) k = map_option canonical (map_of d k)"
proof -
  have "map fst (map (\<lambda>(k, v). (k, canonical v)) d) = map fst d" by auto
  with assms have "distinct (map fst (map (\<lambda>(k, v). (k, canonical v)) d))" by metis
  then have "map_of (canonical_obj d) k = map_of (map (\<lambda>(k, v). (k, canonical v)) d) k"
    unfolding canonical_obj_def by (simp only: map_of_sort_key)
  then show ?thesis by (simp add: map_of_map)
qed

text \<open>The stored form of a job, as the JSONL backend reads it back.\<close>

definition redact_job :: "JobRecord \<Rightarrow> JobRecord" where
  "redact_job j =
     \<lparr>jb_job_id = redact_text (jb_job_id j), jb_created_at = redact_text (jb_created_at j),
      jb_updated_at = redact_text (jb_updated_at j), jb_prompt = redact_text (jb_prompt j), jb_repo = redact_text (jb_repo j),
      jb_base_sha = map_option redact_text (jb_base_sha j), jb_model = redact_text (jb_model j),
      jb_effort = redact_text (jb_effort j), jb_timeout_sec = jb_timeout_sec j, jb_status = jb_status j,
      jb_attempt = jb_attempt j, jb_max_attempts = jb_max_attempts j, jb_lease_until = map_option redact_text (jb_lease_until j),
      jb_worker_id = map_option redact_text (jb_worker_id j), jb_conversation_id = map_option redact_text (jb_conversation_id j),
      jb_result_path = map_option redact_text (jb_result_path j), jb_raw_events_path = map_option redact_text (jb_raw_events_path j),
      jb_error_code = map_option redact_text (jb_error_code j), jb_stderr = map_option redact_text (jb_stderr j),
      jb_started_at = map_option redact_text (jb_started_at j), jb_finished_at = map_option redact_text (jb_finished_at j),
      jb_branch = map_option redact_text (jb_branch j), jb_head_sha = map_option redact_text (jb_head_sha j),
      jb_next_attempt_at = map_option redact_text (jb_next_attempt_at j),
      jb_session_key = map_option redact_text (jb_session_key j), jb_scope_key = map_option redact_text (jb_scope_key j),
      jb_job_kind = jb_job_kind j, jb_external_effect_class = jb_external_effect_class j, jb_gate_state = jb_gate_state j,
      jb_authorization_ref = Some ''<REDACTED>'', jb_verification_job_id = map_option redact_text (jb_verification_job_id j),
      jb_expected_output_schema = map_option (canonical_obj \<circ> redact_obj) (jb_expected_output_schema j),
      jb_result_json = map_option (canonical_obj \<circ> redact_obj) (jb_result_json j)\<rparr>"

text \<open>Searching a key, on its lower-case form and character by character.\<close>

fun is_prefix :: "string \<Rightarrow> string \<Rightarrow> bool" where
  "is_prefix [] s = True"
| "is_prefix (x # xs) [] = False"
| "is_prefix (x # xs) (y # ys) = (x = y \<and> is_prefix xs ys)"

fun label_inside :: "string \<Rightarrow> bool" where
  "label_inside [] = False"
| "label_inside (c # cs) =
     (list_ex (\<lambda>l. is_prefix l (c # cs)) key_labels \<or> (is_prefix ''token'' (c # cs) \<and> \<not> is_prefix ''tokens'' (c # cs))
      \<or> label_inside cs)"

lemma is_prefix_take: "is_prefix l s \<longleftrightarrow> take (length l) s = l"
  by (induction l s rule: is_prefix.induct) auto

lemma secret_key_label: "lower k = k \<Longrightarrow> secret_key k = label_inside k"
proof -
  have t: "take 5 s = ''token'' \<and> take 1 (drop 5 s) \<noteq> ''s'' \<longleftrightarrow> is_prefix ''token'' s \<and> \<not> is_prefix ''tokens'' s" for s :: string
  proof -
    have "is_prefix ''token'' s \<longleftrightarrow> take 5 s = ''token''" "is_prefix ''tokens'' s \<longleftrightarrow> take 6 s = ''tokens''"
      by (simp_all add: is_prefix_take numeral_eq_Suc)
    moreover have "take 6 s = take 5 s @ take 1 (drop 5 s)" using take_add[of 5 1 s] by simp
    ultimately show ?thesis by auto
  qed
  have m: "match_key prev s \<noteq> None \<longleftrightarrow> list_ex (\<lambda>l. is_prefix l s) key_labels \<or> (is_prefix ''token'' s \<and> \<not> is_prefix ''tokens'' s)"
    if "lower s = s" for prev s
  proof -
    from that have low: "lower (take n s) = take n s" "lower (take n (drop i s)) = take n (drop i s)" for n i
      by (simp_all add: lower_def flip: take_map drop_map)
    show ?thesis unfolding match_key_def low t
      by (auto simp: find_label_def low list_ex_iff find_None_iff find_Some_iff is_prefix_take split: option.splits)
  qed
  have "re_search match_key prev k = label_inside k" if "lower k = k" for prev
    using that
  proof (induction k arbitrary: prev)
    case (Cons c cs)
    from Cons.prems have "lower cs = cs" by (simp add: lower_def)
    with Cons m[of "c # cs" prev] show ?case by simp
  qed simp
  then show "lower k = k \<Longrightarrow> secret_key k = label_inside k" by (simp add: secret_key_def)
qed

lemma payload_keys:
  "secret_key ''authorization_ref''" "\<not> secret_key ''job_id''" "\<not> secret_key ''created_at''" "\<not> secret_key ''updated_at''"
  "\<not> secret_key ''prompt''" "\<not> secret_key ''repo''" "\<not> secret_key ''base_sha''" "\<not> secret_key ''model''" "\<not> secret_key ''effort''"
  "\<not> secret_key ''timeout_sec''" "\<not> secret_key ''status''" "\<not> secret_key ''attempt''" "\<not> secret_key ''max_attempts''"
  "\<not> secret_key ''lease_until''" "\<not> secret_key ''worker_id''" "\<not> secret_key ''conversation_id''" "\<not> secret_key ''result_path''"
  "\<not> secret_key ''raw_events_path''" "\<not> secret_key ''result_json''" "\<not> secret_key ''stderr''" "\<not> secret_key ''error_code''"
  "\<not> secret_key ''started_at''" "\<not> secret_key ''finished_at''" "\<not> secret_key ''branch''" "\<not> secret_key ''head_sha''"
  "\<not> secret_key ''next_attempt_at''" "\<not> secret_key ''session_key''" "\<not> secret_key ''scope_key''" "\<not> secret_key ''job_kind''"
  "\<not> secret_key ''external_effect_class''" "\<not> secret_key ''gate_state''" "\<not> secret_key ''verification_job_id''"
  "\<not> secret_key ''expected_output_schema''"
  by (simp_all add: secret_key_label lower_def lower_char_def key_labels_def joined_labels_def)

text \<open>A stored job reads back as its redacted form.\<close>

lemma redact_values [simp]:
  "redact_text (status_value st) = status_value st" "redact_text (gate_value g) = gate_value g"
  "redact_text (kind_value k) = kind_value k" "redact_text (effect_value e) = effect_value e"
proof -
  have "list_all (\<lambda>c. \<not> is_space c \<and> c \<notin> set '':='') (status_value st)" by (cases st) (simp_all add: is_space_def)
  moreover have "list_all (\<lambda>c. \<not> is_space c \<and> c \<notin> set '':='') (gate_value g)" by (cases g) (simp_all add: is_space_def)
  moreover have "list_all (\<lambda>c. \<not> is_space c \<and> c \<notin> set '':='') (kind_value k)" by (cases k) (simp_all add: is_space_def)
  moreover have "list_all (\<lambda>c. \<not> is_space c \<and> c \<notin> set '':='') (effect_value e)" by (cases e) (simp_all add: is_space_def)
  ultimately show "redact_text (status_value st) = status_value st" "redact_text (gate_value g) = gate_value g"
    "redact_text (kind_value k) = kind_value k" "redact_text (effect_value e) = effect_value e"
    by (simp_all add: redact_plain list_all_iff)
qed

lemma redact_opt [simp]:
  "redact_json (opt_string x) = opt_string (map_option redact_text x)"
  "redact_json (opt_object y) = opt_object (map_option redact_obj y)"
  "canonical (opt_string x) = opt_string x" "canonical (opt_object y) = opt_object (map_option canonical_obj y)"
  by (cases x; cases y; simp add: opt_string_def opt_object_def redact_obj_def canonical_obj_def)+

lemma payload_redacted: "payload_to_job (canonical_obj (redact_obj (job_payload j))) = Inr (redact_job j)"
proof -
  have keys: "distinct (map fst (redact_obj (job_payload j)))"
  proof -
    have "map fst (redact_obj d) = map fst d" for d by (auto simp: redact_obj_def)
    then show ?thesis by (simp only: payload_keys_distinct)
  qed
  note look = map_of_canonical[OF keys] map_of_redact payload_lookup payload_keys
  show ?thesis
    by (simp add: payload_to_job_def get_str_def get_opt_def get_obj_def get_enum_def json_get_def json_get_or_def look
        json_int_def redact_job_def option.map_comp)
qed

end
