(* ===== verification/QueueSpec.thy ===== *)
theory QueueSpec
  imports QueueModel
begin

text \<open>
  What a storage backend of the job queue promises. The abstract queue is the list of its jobs in
  creation order, with the fields removed on which the backends may differ (\<open>erase\<close>: the time of
  the last write, the authorisation reference and the order of keys in JSON objects); \<open>spec_run\<close>
  is the answer to an operation and its effect on the queue. \<open>job_step\<close> is the life cycle of one
  job, and the locale \<open>queue_store\<close> asks of a backend that its operations refine \<open>spec_run\<close>; what
  then holds for every sequence of operations by any number of workers is proved once.

  Time stamps are the strings that \<open>utc_iso\<close> writes, compared as strings; clock readings are
  arguments of the operations.
\<close>

section \<open>Time stamps\<close>

definition days_from_civil :: "int \<Rightarrow> int \<Rightarrow> int \<Rightarrow> int" where
  "days_from_civil y m d =
     (let y' = (if m \<le> 2 then y - 1 else y); era = y' div 400; yoe = y' mod 400; mp = (m + 9) mod 12;
          doy = (153 * mp + 2) div 5 + d - 1; doe = yoe * 365 + yoe div 4 - yoe div 100 + doy
      in era * 146097 + doe - 719468)"

text \<open>\<open>isoformat(timespec="milliseconds")\<close> in UTC, with \<open>Z\<close> for the offset; an instant is a number of
  microseconds.\<close>

definition utc_iso :: "int \<Rightarrow> string" where
  "utc_iso us =
     (let (y, mo, d) = civil_from_days (us div 86400000000); r = us mod 86400000000
      in show_padded 4 (nat y) @ ''-'' @ show_padded 2 (nat mo) @ ''-'' @ show_padded 2 (nat d) @ ''T''
         @ show_padded 2 (nat (r div 3600000000)) @ '':'' @ show_padded 2 (nat (r mod 3600000000 div 60000000)) @ '':''
         @ show_padded 2 (nat (r mod 60000000 div 1000000)) @ ''.'' @ show_padded 3 (nat (r mod 1000000 div 1000)) @ ''Z'')"

text \<open>\<open>datetime.fromisoformat\<close> on stamps of that form.\<close>

definition from_iso :: "string \<Rightarrow> int option" where
  "from_iso s =
     (let num = (\<lambda>i k. int (nat_of_digits (take k (drop i s))));
          y = num 0 4; mo = num 5 2; d = num 8 2; h = num 11 2; mi = num 14 2; sec = num 17 2; ms = num 20 3;
          days = days_from_civil y mo d
      in if length s = 24 \<and> map (\<lambda>i. s ! i) [4, 7, 10, 13, 16, 19, 23] = ''--T::.Z''
            \<and> list_all (\<lambda>i. is_digit (s ! i)) [0, 1, 2, 3, 5, 6, 8, 9, 11, 12, 14, 15, 17, 18, 20, 21, 22]
            \<and> 1 \<le> y \<and> civil_from_days days = (y, mo, d) \<and> h < 24 \<and> mi < 60 \<and> sec < 60
         then Some (days * 86400000000 + h * 3600000000 + mi * 60000000 + sec * 1000000 + ms * 1000)
         else None)"

datatype queue_error =
    QueueConflictError string | QueueStorageError string | IntegrityError | StampError | PayloadError pyerr

text \<open>\<open>_lease_expiry\<close>; instants outside the years 1 to 9999 overflow.\<close>

definition lease_expiry :: "string \<Rightarrow> int \<Rightarrow> queue_error + string" where
  "lease_expiry now ttl =
     (case from_iso now of
        None \<Rightarrow> Inl StampError
      | Some us \<Rightarrow>
          let t = us + ttl * 1000000
          in if - 62135596800000000 \<le> t \<and> t < 253402300800000000 then Inr (utc_iso t) else Inl StampError)"

section \<open>Operations\<close>

text \<open>The operations of the protocol \<open>QueueStore\<close> that change the queue, with the clock readings they
  take: the first dates what the operation records, a second one only the time of the last write.\<close>

datatype queue_op =
    Create JobRecord
  | ClaimNext string string int "JobKind list option"
  | Heartbeat string string string string
  | RecoverExpired string
  | AppendEvent string json "string option" string
  | UpdateConversation string string string
  | MarkSuccess string string jobject string "string option" "string option" GateState string string
  | MarkFailure string string string "string option" "jobject option" "string option" GateState string string
  | ScheduleRetry string string string "string option" string
  | RetryFailed string string string
  | Cancel string string string

datatype outcome =
    OutJob JobRecord | OutClaim "JobRecord option" | OutBool bool | OutIds "string list" | OutUnit | OutError queue_error

text \<open>\<open>ORDER BY created_at, job_id LIMIT 1\<close>, and Python's \<open>min\<close> with that key.\<close>

definition first_job :: "JobRecord list \<Rightarrow> JobRecord option" where
  "first_job js = (case sort_key (\<lambda>j. (jb_created_at j, jb_job_id j)) js of [] \<Rightarrow> None | j # _ \<Rightarrow> Some j)"

definition coalesce :: "'a option \<Rightarrow> 'a option \<Rightarrow> 'a option" where
  "coalesce x y = (case x of None \<Rightarrow> y | Some v \<Rightarrow> Some v)"

section \<open>The abstract queue\<close>

definition erase :: "JobRecord \<Rightarrow> JobRecord" where
  "erase j = j\<lparr>jb_updated_at := [], jb_authorization_ref := None,
     jb_expected_output_schema := map_option canonical_obj (jb_expected_output_schema j),
     jb_result_json := map_option canonical_obj (jb_result_json j)\<rparr>"

definition find_job :: "string \<Rightarrow> JobRecord list \<Rightarrow> JobRecord option" where
  "find_job i q = find (\<lambda>j. jb_job_id j = i) q"

definition update_job :: "string \<Rightarrow> (JobRecord \<Rightarrow> JobRecord) \<Rightarrow> JobRecord list \<Rightarrow> JobRecord list" where
  "update_job i f q = map (\<lambda>j. if jb_job_id j = i then f j else j) q"

definition scope_busy :: "JobRecord list \<Rightarrow> JobRecord \<Rightarrow> bool" where
  "scope_busy q j = (\<exists>a \<in> set q. jb_status a = JS_RUNNING \<and> jb_scope_key a \<noteq> None \<and> jb_scope_key a = jb_scope_key j)"

definition claimable :: "string \<Rightarrow> JobKind list option \<Rightarrow> JobRecord list \<Rightarrow> JobRecord \<Rightarrow> bool" where
  "claimable now kinds q j =
     (jb_status j = JS_PENDING \<and> jb_gate_state j = GS_READY \<and> jb_attempt j < jb_max_attempts j
      \<and> (\<forall>t \<in> set_option (jb_next_attempt_at j). t \<le> now) \<and> \<not> scope_busy q j
      \<and> (\<forall>ks \<in> set_option kinds. jb_job_kind j \<in> set ks))"

definition claimed :: "string \<Rightarrow> string \<Rightarrow> string \<Rightarrow> JobRecord \<Rightarrow> JobRecord" where
  "claimed w now lease j = j\<lparr>jb_status := JS_RUNNING, jb_attempt := jb_attempt j + 1, jb_lease_until := Some lease,
     jb_worker_id := Some w, jb_started_at := coalesce (jb_started_at j) (Some now), jb_error_code := None, jb_stderr := None\<rparr>"

definition expired :: "string \<Rightarrow> JobRecord \<Rightarrow> bool" where
  "expired now j = (jb_status j = JS_RUNNING \<and> (\<exists>t \<in> set_option (jb_lease_until j). t < now))"

definition recovered :: "string \<Rightarrow> JobRecord \<Rightarrow> JobRecord" where
  "recovered now j =
     (let unsafe = unsafe_effect (jb_external_effect_class j) in
      if unsafe \<or> jb_attempt j \<ge> jb_max_attempts j
      then j\<lparr>jb_status := JS_FAILED, jb_gate_state := GS_BLOCKED,
        jb_error_code := Some (if unsafe then ''external_effect_uncertain'' else ''lease_expired_attempts_exhausted''),
        jb_finished_at := Some now, jb_lease_until := None, jb_worker_id := None\<rparr>
      else j\<lparr>jb_status := JS_PENDING, jb_gate_state := GS_READY, jb_error_code := Some ''lease_expired'',
        jb_next_attempt_at := Some now, jb_lease_until := None, jb_worker_id := None\<rparr>)"

text \<open>A worker may finish a running job it owns, or confirm what it already finished.\<close>

definition may_finish :: "string \<Rightarrow> JobStatus \<Rightarrow> JobRecord \<Rightarrow> bool" where
  "may_finish w final j = (jb_status j = final \<or> (jb_status j = JS_RUNNING \<and> jb_worker_id j = Some w))"

definition succeeded ::
  "jobject \<Rightarrow> string \<Rightarrow> string option \<Rightarrow> string option \<Rightarrow> GateState \<Rightarrow> string \<Rightarrow> JobRecord \<Rightarrow> JobRecord" where
  "succeeded result path conv head gate now j = j\<lparr>jb_status := JS_SUCCEEDED, jb_gate_state := gate, jb_result_path := Some path,
     jb_result_json := Some (canonical_obj (redact_obj result)), jb_conversation_id := coalesce conv (jb_conversation_id j),
     jb_head_sha := coalesce head (jb_head_sha j), jb_finished_at := Some now, jb_lease_until := None, jb_worker_id := None,
     jb_error_code := None, jb_stderr := None\<rparr>"

definition failed ::
  "string \<Rightarrow> string option \<Rightarrow> jobject option \<Rightarrow> string option \<Rightarrow> GateState \<Rightarrow> string \<Rightarrow> JobRecord \<Rightarrow> JobRecord" where
  "failed code stderr result head gate now j = j\<lparr>jb_status := JS_FAILED, jb_gate_state := gate, jb_error_code := Some code,
     jb_stderr := stderr, jb_result_json := coalesce (map_option (canonical_obj \<circ> redact_obj) result) (jb_result_json j),
     jb_head_sha := coalesce head (jb_head_sha j), jb_finished_at := Some now, jb_lease_until := None, jb_worker_id := None\<rparr>"

definition retryable :: "JobStatus \<Rightarrow> JobRecord \<Rightarrow> bool" where
  "retryable st j = (jb_status j = st \<and> \<not> unsafe_effect (jb_external_effect_class j) \<and> jb_attempt j < jb_max_attempts j)"

definition rescheduled :: "string \<Rightarrow> string \<Rightarrow> string option \<Rightarrow> JobRecord \<Rightarrow> JobRecord" where
  "rescheduled next_at code stderr j = j\<lparr>jb_status := JS_PENDING, jb_gate_state := GS_READY, jb_next_attempt_at := Some next_at,
     jb_error_code := Some code, jb_stderr := stderr, jb_lease_until := None, jb_worker_id := None\<rparr>"

definition retried :: "string \<Rightarrow> JobRecord \<Rightarrow> JobRecord" where
  "retried now j = j\<lparr>jb_status := JS_PENDING, jb_gate_state := GS_READY, jb_next_attempt_at := Some now,
     jb_error_code := Some ''manual_retry'', jb_stderr := None, jb_finished_at := None\<rparr>"

definition cancelled :: "string \<Rightarrow> JobRecord \<Rightarrow> JobRecord" where
  "cancelled now j = j\<lparr>jb_status := JS_CANCELLED, jb_gate_state := GS_BLOCKED, jb_finished_at := Some now,
     jb_lease_until := None, jb_worker_id := None\<rparr>"

definition stored :: "JobRecord \<Rightarrow> JobRecord" where
  "stored j = erase (j\<lparr>jb_expected_output_schema := map_option redact_obj (jb_expected_output_schema j), jb_result_json := None\<rparr>)"

text \<open>The effect of an operation that changes one job when a condition holds of it.\<close>

definition change_job :: "string \<Rightarrow> (JobRecord \<Rightarrow> bool) \<Rightarrow> (JobRecord \<Rightarrow> JobRecord) \<Rightarrow> JobRecord list \<Rightarrow> outcome \<times> JobRecord list" where
  "change_job i c f q =
     (case find_job i q of
        Some j \<Rightarrow> if c j then (OutBool True, update_job i f q) else (OutBool False, q)
      | None \<Rightarrow> (OutBool False, q))"

fun spec_run :: "queue_op \<Rightarrow> JobRecord list \<Rightarrow> outcome \<times> JobRecord list" where
  "spec_run (Create j) q =
     (if find_job (jb_job_id j) q \<noteq> None then (OutError (QueueConflictError (jb_job_id j)), q)
      else (OutJob (erase j), q @ [stored j]))"
| "spec_run (ClaimNext w now ttl kinds) q =
     (case first_job (filter (claimable now kinds q) q) of
        None \<Rightarrow> (OutClaim None, q)
      | Some j \<Rightarrow>
          (case lease_expiry now ttl of
             Inl e \<Rightarrow> (OutError e, q)
           | Inr lease \<Rightarrow> (OutClaim (Some (claimed w now lease j)), update_job (jb_job_id j) (claimed w now lease) q)))"
| "spec_run (Heartbeat i w lease t) q =
     change_job i (\<lambda>j. jb_status j = JS_RUNNING \<and> jb_worker_id j = Some w) (\<lambda>j. j\<lparr>jb_lease_until := Some lease\<rparr>) q"
| "spec_run (RecoverExpired now) q =
     (OutIds (map jb_job_id (filter (expired now) q)), map (\<lambda>j. if expired now j then recovered now j else j) q)"
| "spec_run (AppendEvent i e ty t) q = (OutUnit, q)"
| "spec_run (UpdateConversation i c t) q = (OutUnit, update_job i (\<lambda>j. j\<lparr>jb_conversation_id := Some c\<rparr>) q)"
| "spec_run (MarkSuccess i w result path conv head gate t t') q =
     (case find_job i q of
        Some j \<Rightarrow>
          if may_finish w JS_SUCCEEDED j \<and> jb_result_json j \<notin> {None, Some (canonical_obj (redact_obj result))}
          then (OutError (QueueConflictError i), q)
          else change_job i (may_finish w JS_SUCCEEDED) (succeeded result path conv head gate t) q
      | None \<Rightarrow> (OutBool False, q))"
| "spec_run (MarkFailure i w code stderr result head gate t t') q =
     change_job i (may_finish w JS_FAILED) (failed code stderr result head gate t) q"
| "spec_run (ScheduleRetry i next_at code stderr t) q =
     change_job i (retryable JS_RUNNING) (rescheduled next_at code stderr) q"
| "spec_run (RetryFailed i now t) q = change_job i (retryable JS_FAILED) (retried now) q"
| "spec_run (Cancel i t t') q =
     change_job i (\<lambda>j. jb_status j \<in> {JS_PENDING, JS_RUNNING}) (cancelled t) q"

text \<open>A run is a sequence of operations in the order the store serialises them.\<close>

fun spec_runs :: "queue_op list \<Rightarrow> JobRecord list \<Rightarrow> JobRecord list" where
  "spec_runs [] q = q"
| "spec_runs (op # ops) q = spec_runs ops (snd (spec_run op q))"

section \<open>The life cycle of a job\<close>

text \<open>The steps that an operation may take one job through.\<close>

definition same_job :: "JobRecord \<Rightarrow> JobRecord \<Rightarrow> bool" where
  "same_job j j' = (jb_job_id j' = jb_job_id j \<and> jb_max_attempts j' = jb_max_attempts j \<and> jb_scope_key j' = jb_scope_key j
     \<and> jb_external_effect_class j' = jb_external_effect_class j \<and> jb_job_kind j' = jb_job_kind j)"

inductive job_step :: "JobRecord \<Rightarrow> JobRecord \<Rightarrow> bool" where
  stay: "same_job j j' \<Longrightarrow> jb_status j' = jb_status j \<Longrightarrow> jb_attempt j' = jb_attempt j \<Longrightarrow> jb_gate_state j' = jb_gate_state j \<Longrightarrow>
    jb_worker_id j' = jb_worker_id j \<Longrightarrow> jb_lease_until j' = None \<longleftrightarrow> jb_lease_until j = None \<Longrightarrow>
    jb_result_json j' = jb_result_json j \<Longrightarrow> job_step j j'"
| start: "same_job j j' \<Longrightarrow> jb_status j = JS_PENDING \<Longrightarrow> jb_gate_state j = GS_READY \<Longrightarrow> jb_attempt j < jb_max_attempts j \<Longrightarrow>
    jb_status j' = JS_RUNNING \<Longrightarrow> jb_attempt j' = jb_attempt j + 1 \<Longrightarrow> jb_worker_id j' \<noteq> None \<Longrightarrow> jb_lease_until j' \<noteq> None \<Longrightarrow> job_step j j'"
| finish: "same_job j j' \<Longrightarrow> jb_status j = JS_RUNNING \<Longrightarrow> jb_status j' \<in> {JS_SUCCEEDED, JS_FAILED, JS_CANCELLED} \<Longrightarrow>
    jb_attempt j' = jb_attempt j \<Longrightarrow> jb_worker_id j' = None \<Longrightarrow> jb_lease_until j' = None \<Longrightarrow>
    jb_status j' = JS_SUCCEEDED \<longrightarrow> jb_result_json j' \<noteq> None \<Longrightarrow> job_step j j'"
| confirm: "same_job j j' \<Longrightarrow> jb_status j \<in> {JS_SUCCEEDED, JS_FAILED} \<Longrightarrow> jb_status j' = jb_status j \<Longrightarrow>
    jb_attempt j' = jb_attempt j \<Longrightarrow> jb_worker_id j' = None \<Longrightarrow> jb_lease_until j' = None \<Longrightarrow>
    jb_status j = JS_SUCCEEDED \<longrightarrow> jb_result_json j' = jb_result_json j \<Longrightarrow> job_step j j'"
| requeue: "same_job j j' \<Longrightarrow> jb_status j = JS_RUNNING \<Longrightarrow> \<not> unsafe_effect (jb_external_effect_class j) \<Longrightarrow>
    jb_attempt j < jb_max_attempts j \<Longrightarrow> jb_status j' = JS_PENDING \<Longrightarrow> jb_gate_state j' = GS_READY \<Longrightarrow> jb_attempt j' = jb_attempt j \<Longrightarrow>
    jb_worker_id j' = None \<Longrightarrow> jb_lease_until j' = None \<Longrightarrow> job_step j j'"
| retry: "same_job j j' \<Longrightarrow> jb_status j = JS_FAILED \<Longrightarrow> \<not> unsafe_effect (jb_external_effect_class j) \<Longrightarrow>
    jb_attempt j < jb_max_attempts j \<Longrightarrow> jb_status j' = JS_PENDING \<Longrightarrow> jb_gate_state j' = GS_READY \<Longrightarrow> jb_attempt j' = jb_attempt j \<Longrightarrow>
    jb_worker_id j' = jb_worker_id j \<Longrightarrow> jb_lease_until j' = jb_lease_until j \<Longrightarrow> job_step j j'"
| abandon: "same_job j j' \<Longrightarrow> jb_status j = JS_PENDING \<Longrightarrow> jb_status j' = JS_CANCELLED \<Longrightarrow> jb_attempt j' = jb_attempt j \<Longrightarrow>
    jb_worker_id j' = None \<Longrightarrow> jb_lease_until j' = None \<Longrightarrow> job_step j j'"

text \<open>What holds of a job at every moment of its life: it is attempted at most \<open>max_attempts\<close> times, it
  has an owner and a lease exactly while it runs and a result when it succeeded, a job with an external effect that cannot be
  repeated is attempted at most once, and a job that waits for a gate was never attempted.\<close>

definition job_ok :: "JobRecord \<Rightarrow> bool" where
  "job_ok j =
     (0 \<le> jb_attempt j \<and> jb_attempt j \<le> jb_max_attempts j
      \<and> (jb_worker_id j \<noteq> None \<longleftrightarrow> jb_status j = JS_RUNNING) \<and> (jb_lease_until j \<noteq> None \<longleftrightarrow> jb_status j = JS_RUNNING)
      \<and> (jb_status j = JS_RUNNING \<longrightarrow> 1 \<le> jb_attempt j) \<and> (jb_status j = JS_SUCCEEDED \<longrightarrow> jb_result_json j \<noteq> None)
      \<and> (unsafe_effect (jb_external_effect_class j) \<longrightarrow> jb_attempt j \<le> 1 \<and> (jb_status j = JS_PENDING \<longrightarrow> jb_attempt j = 0))
      \<and> (jb_status j = JS_PENDING \<and> jb_gate_state j \<noteq> GS_READY \<longrightarrow> jb_attempt j = 0))"

definition queue_ok :: "JobRecord list \<Rightarrow> bool" where
  "queue_ok q =
     (distinct (map jb_job_id q) \<and> list_all job_ok q
      \<and> (\<forall>a \<in> set q. \<forall>b \<in> set q. jb_status a = JS_RUNNING \<and> jb_status b = JS_RUNNING \<and> jb_scope_key a \<noteq> None
           \<and> jb_scope_key a = jb_scope_key b \<longrightarrow> a = b))"

text \<open>A job as it is submitted.\<close>

definition fresh_job :: "JobRecord \<Rightarrow> bool" where
  "fresh_job j = (jb_status j = JS_PENDING \<and> jb_attempt j = 0 \<and> 1 \<le> jb_max_attempts j \<and> jb_worker_id j = None
     \<and> jb_lease_until j = None \<and> jb_result_json j = None)"

definition fresh_op :: "queue_op \<Rightarrow> bool" where
  "fresh_op op = (case op of Create j \<Rightarrow> fresh_job j | _ \<Rightarrow> True)"

lemma job_step_same: "job_step j j' \<Longrightarrow> same_job j j'"
  by (induction rule: job_step.induct)

lemma job_step_ok: "job_step j j' \<Longrightarrow> job_ok j \<Longrightarrow> job_ok j'"
  by (induction rule: job_step.induct) (auto simp: job_ok_def same_job_def)

lemma job_step_attempt: "job_step j j' \<Longrightarrow> jb_attempt j \<le> jb_attempt j'"
  by (induction rule: job_step.induct) auto

lemma same_job_refl [simp]: "same_job j j"
  by (simp add: same_job_def)

lemma job_step_refl [simp, intro]: "job_step j j"
  by (rule stay) simp_all

section \<open>Every operation takes jobs through their life cycle\<close>

lemma find_job_Some: "find_job i q = Some j \<Longrightarrow> j \<in> set q \<and> jb_job_id j = i"
  by (auto simp: find_job_def find_Some_iff)

lemma find_job_None: "find_job i q = None \<longleftrightarrow> i \<notin> jb_job_id ` set q"
  by (auto simp: find_job_def find_None_iff)

lemma find_job_distinct: "distinct (map jb_job_id q) \<Longrightarrow> j \<in> set q \<Longrightarrow> find_job (jb_job_id j) q = Some j"
  by (induction q) (auto simp: find_job_def)

lemma first_job_Some: "first_job js = Some j \<Longrightarrow> j \<in> set js"
proof -
  assume "first_job js = Some j"
  then obtain js' where "sort_key (\<lambda>j. (jb_created_at j, jb_job_id j)) js = j # js'" by (auto simp: first_job_def split: list.splits)
  then have "j \<in> set (sort_key (\<lambda>j. (jb_created_at j, jb_job_id j)) js)" by (simp only: list.set_intros)
  then show ?thesis by (simp only: set_sort)
qed

lemma first_job_None: "first_job js = None \<longleftrightarrow> js = []"
proof -
  have "sort_key (\<lambda>j. (jb_created_at j, jb_job_id j)) js = [] \<longleftrightarrow> js = []" by (metis length_0_conv length_sort)
  then show ?thesis by (cases "sort_key (\<lambda>j. (jb_created_at j, jb_job_id j)) js") (simp_all add: first_job_def)
qed

text \<open>An operation other than \<open>Create\<close> rewrites each job on its own.\<close>

lemma update_job_map:
  assumes "\<And>j. j \<in> set q \<Longrightarrow> jb_job_id j = i \<Longrightarrow> R j (f j)" "\<And>j. R j j"
  shows "\<exists>g. update_job i f q = map g q \<and> (\<forall>j \<in> set q. R j (g j))"
  unfolding update_job_def by (rule exI[of _ "\<lambda>j. if jb_job_id j = i then f j else j"]) (use assms in auto)

lemma change_job_map:
  assumes "distinct (map jb_job_id q)" "\<And>j. j \<in> set q \<Longrightarrow> c j \<Longrightarrow> R j (f j)" "\<And>j. R j j"
  shows "\<exists>g. snd (change_job i c f q) = map g q \<and> (\<forall>j \<in> set q. R j (g j))"
proof -
  have keep: "\<exists>g. q = map g q \<and> (\<forall>j \<in> set q. R j (g j))" by (rule exI[of _ id]) (simp add: assms(3))
  have "\<exists>g. update_job i f q = map g q \<and> (\<forall>j \<in> set q. R j (g j))" if j: "find_job i q = Some j" "c j" for j
  proof (rule update_job_map)
    fix k assume "k \<in> set q" "jb_job_id k = i"
    with find_job_distinct[OF assms(1), of k] j have "k = j" by simp
    with assms(2) j(2) \<open>k \<in> set q\<close> show "R k (f k)" by simp
  qed (rule assms(3))
  with keep show ?thesis by (simp add: change_job_def split: option.splits)
qed

text \<open>No operation but \<open>ClaimNext\<close> starts a job.\<close>

definition quiet_step :: "JobRecord \<Rightarrow> JobRecord \<Rightarrow> bool" where
  "quiet_step j j' = (job_step j j' \<and> (jb_status j' = JS_RUNNING \<longrightarrow> jb_status j = JS_RUNNING))"

lemma quiet_step_refl [simp]: "quiet_step j j"
  by (simp add: quiet_step_def)

lemmas job_changes = claimed_def recovered_def succeeded_def failed_def rescheduled_def retried_def cancelled_def

lemma recovered_step: "expired now j \<Longrightarrow> quiet_step j (recovered now j)"
  by (auto simp: quiet_step_def recovered_def expired_def Let_def same_job_def intro: finish requeue)

lemma quiet_changes:
  "jb_status j = JS_RUNNING \<Longrightarrow> jb_lease_until j \<noteq> None \<Longrightarrow> quiet_step j (j\<lparr>jb_lease_until := Some lease\<rparr>)"
  "quiet_step j (j\<lparr>jb_conversation_id := Some c\<rparr>)"
  "may_finish w JS_SUCCEEDED j \<Longrightarrow> jb_result_json j \<in> {None, Some (canonical_obj (redact_obj result))} \<Longrightarrow> job_ok j \<Longrightarrow>
     quiet_step j (succeeded result path conv head gate t j)"
  "may_finish w JS_FAILED j \<Longrightarrow> quiet_step j (failed code stderr res head gate t j)"
  "retryable JS_RUNNING j \<Longrightarrow> quiet_step j (rescheduled next_at code stderr j)"
  "retryable JS_FAILED j \<Longrightarrow> quiet_step j (retried t j)"
  "jb_status j \<in> {JS_PENDING, JS_RUNNING} \<Longrightarrow> quiet_step j (cancelled t j)"
  unfolding quiet_step_def job_changes may_finish_def retryable_def
        apply (auto simp: same_job_def intro: stay)[2]
      apply (auto simp: same_job_def job_ok_def intro: finish confirm)[2]
    apply (auto simp: same_job_def intro: requeue)[1]
   apply (auto simp: same_job_def intro: retry)[1]
  apply (auto simp: same_job_def intro: abandon finish)[1]
  done

lemma spec_run_quiet:
  assumes "queue_ok q" "\<not> (\<exists>j. op = Create j)" "\<not> (\<exists>w now ttl ks. op = ClaimNext w now ttl ks)"
  shows "\<exists>g. snd (spec_run op q) = map g q \<and> (\<forall>j \<in> set q. quiet_step j (g j))"
proof -
  have d: "distinct (map jb_job_id q)" and ok: "\<And>j. j \<in> set q \<Longrightarrow> job_ok j"
    using assms(1) by (auto simp: queue_ok_def list_all_iff)
  have keep: "\<exists>g. q = map g q \<and> (\<forall>j \<in> set q. quiet_step j (g j))" by (rule exI[of _ id]) simp
  note change = change_job_map[where R = quiet_step, OF d _ quiet_step_refl]
  show ?thesis
  proof (cases op)
    case (Heartbeat i w lease t)
    then show ?thesis using ok by (auto intro!: change quiet_changes simp: job_ok_def)
  next
    case (RecoverExpired now)
    then show ?thesis
      by (intro exI[of _ "\<lambda>j. if expired now j then recovered now j else j"]) (simp add: recovered_step)
  next
    case (UpdateConversation i c t)
    then show ?thesis by (simp, intro update_job_map) (simp_all add: quiet_changes)
  next
    case (MarkSuccess i w result path conv head gate t t')
    have "\<exists>g. snd (change_job i (may_finish w JS_SUCCEEDED) (succeeded result path conv head gate t) q) = map g q
        \<and> (\<forall>j \<in> set q. quiet_step j (g j))"
      if j: "find_job i q = Some j" "\<not> (may_finish w JS_SUCCEEDED j \<and> jb_result_json j \<notin> {None, Some (canonical_obj (redact_obj result))})" for j
    proof -
      have "change_job i (may_finish w JS_SUCCEEDED) f q
          = change_job i (\<lambda>j. may_finish w JS_SUCCEEDED j \<and> jb_result_json j \<in> {None, Some (canonical_obj (redact_obj result))}) f q" for f
        using j by (auto simp: change_job_def)
      then show ?thesis by (simp only:) (rule change, elim conjE, rule quiet_changes(3)[OF _ _ ok])
    qed
    with MarkSuccess keep show ?thesis by (simp split: option.splits)
  next
    case (MarkFailure i w code stderr result head gate t t')
    then show ?thesis by (auto intro!: change quiet_changes(4))
  qed (use assms(2,3) keep in \<open>auto intro!: change quiet_changes(5-7)\<close>)
qed

lemma map_step_ok:
  assumes "queue_ok q" "\<forall>j \<in> set q. job_step j (g j)"
    and unique: "\<And>a b. a \<in> set q \<Longrightarrow> b \<in> set q \<Longrightarrow> jb_status (g a) = JS_RUNNING \<Longrightarrow> jb_status (g b) = JS_RUNNING \<Longrightarrow>
      jb_scope_key a \<noteq> None \<Longrightarrow> jb_scope_key a = jb_scope_key b \<Longrightarrow> a = b"
  shows "queue_ok (map g q)"
proof -
  have same: "same_job j (g j)" if "j \<in> set q" for j using assms(2) job_step_same that by blast
  then have "map jb_job_id (map g q) = map jb_job_id q" by (simp add: same_job_def)
  moreover have "list_all job_ok (map g q)" using assms(1,2) job_step_ok by (auto simp: queue_ok_def list_all_iff)
  moreover have "\<forall>a \<in> set q. jb_scope_key (g a) = jb_scope_key a" using same by (simp add: same_job_def)
  ultimately show ?thesis using assms(1) unique unfolding queue_ok_def by (metis (no_types, lifting) imageE list.set_map)
qed

lemma claimable_step:
  "claimable now kinds q j \<Longrightarrow> job_step j (claimed w now lease j)"
  by (rule start) (auto simp: claimable_def claimed_def same_job_def)

lemma create_ok:
  assumes "queue_ok q" "fresh_job j" "jb_job_id j \<notin> jb_job_id ` set q"
  shows "queue_ok (q @ [stored j])"
proof -
  have s: "job_ok (stored j)" "jb_status (stored j) \<noteq> JS_RUNNING" "jb_job_id (stored j) = jb_job_id j"
    using assms(2) by (simp_all add: fresh_job_def stored_def erase_def job_ok_def)
  have "distinct (map jb_job_id (q @ [stored j]))" using assms(1,3) s(3) by (simp add: queue_ok_def)
  moreover have "list_all job_ok (q @ [stored j])" using assms(1) s(1) by (simp add: queue_ok_def)
  moreover have "a \<in> set q" if "a \<in> set (q @ [stored j])" "jb_status a = JS_RUNNING" for a
    using that s(2) by auto
  ultimately show ?thesis using assms(1) unfolding queue_ok_def by blast
qed

lemma claim_ok:
  assumes "queue_ok q" "j \<in> set q" "claimable now ks q j"
  shows "queue_ok (update_job (jb_job_id j) (claimed w now lease) q)"
  unfolding update_job_def
proof (rule map_step_ok[OF assms(1)])
  have d: "distinct (map jb_job_id q)" using assms(1) by (simp add: queue_ok_def)
  have only: "k = j" if "k \<in> set q" "jb_job_id k = jb_job_id j" for k
    by (metis find_job_distinct[OF d] that assms(2) option.inject)
  let ?g = "\<lambda>k. if jb_job_id k = jb_job_id j then claimed w now lease k else k"
  show "\<forall>k \<in> set q. job_step k (?g k)"
  proof
    fix k assume k: "k \<in> set q"
    show "job_step k (?g k)"
    proof (cases "jb_job_id k = jb_job_id j")
      case True
      show ?thesis unfolding only[OF k True] using claimable_step[OF assms(3)] by simp
    qed simp
  qed
  have idle: "\<not> (jb_status k = JS_RUNNING \<and> jb_scope_key k \<noteq> None \<and> jb_scope_key k = jb_scope_key j)" if "k \<in> set q" for k
    using that assms(3) unfolding claimable_def scope_busy_def by blast
  fix a b assume ab: "a \<in> set q" "b \<in> set q" "jb_status (?g a) = JS_RUNNING" "jb_status (?g b) = JS_RUNNING"
    "jb_scope_key a \<noteq> None" "jb_scope_key a = jb_scope_key b"
  have "jb_status a = JS_RUNNING \<or> a = j" using ab(3) by (cases "jb_job_id a = jb_job_id j") (blast dest: only[OF ab(1)], simp)
  moreover have "jb_status b = JS_RUNNING \<or> b = j"
    using ab(4) by (cases "jb_job_id b = jb_job_id j") (blast dest: only[OF ab(2)], simp)
  moreover have "a = b" if "jb_status a = JS_RUNNING" "jb_status b = JS_RUNNING"
    using assms(1) ab(1,2,5,6) that unfolding queue_ok_def by blast
  moreover have "\<not> (jb_status b = JS_RUNNING \<and> a = j)" using idle[OF ab(2)] ab(5,6) by metis
  moreover have "\<not> (jb_status a = JS_RUNNING \<and> b = j)" using idle[OF ab(1)] ab(5,6) by metis
  ultimately show "a = b" by blast
qed

lemma spec_run_ok:
  assumes "queue_ok q" "fresh_op op"
  shows "queue_ok (snd (spec_run op q))"
proof -
  consider (create) j where "op = Create j" | (claim) w now ttl ks where "op = ClaimNext w now ttl ks"
    | (other) "\<not> (\<exists>j. op = Create j)" "\<not> (\<exists>w now ttl ks. op = ClaimNext w now ttl ks)" by blast
  then show ?thesis
  proof cases
    case create
    then show ?thesis using assms create_ok[of q j] by (simp add: fresh_op_def find_job_None)
  next
    case claim
    have "queue_ok (update_job (jb_job_id j) (claimed w now lease) q)"
      if "first_job (filter (claimable now ks q) q) = Some j" for j lease
      using first_job_Some[OF that] claim_ok[OF assms(1), of j now ks] by simp
    with claim assms(1) show ?thesis by (simp split: option.splits sum.splits)
  next
    case other
    from spec_run_quiet[OF assms(1) this] obtain g where g: "snd (spec_run op q) = map g q" "\<forall>j \<in> set q. quiet_step j (g j)" by blast
    have "queue_ok (map g q)"
    proof (rule map_step_ok[OF assms(1)])
      show "\<forall>j \<in> set q. job_step j (g j)" using g(2) by (simp add: quiet_step_def)
      fix a b assume ab: "a \<in> set q" "b \<in> set q" "jb_status (g a) = JS_RUNNING" "jb_status (g b) = JS_RUNNING"
        "jb_scope_key a \<noteq> None" "jb_scope_key a = jb_scope_key b"
      then have "jb_status a = JS_RUNNING" "jb_status b = JS_RUNNING" using g(2) by (auto simp: quiet_step_def)
      with ab assms(1) show "a = b" unfolding queue_ok_def by blast
    qed
    with g(1) show ?thesis by simp
  qed
qed

section \<open>Runs\<close>

lemma spec_runs_ok: "queue_ok q \<Longrightarrow> list_all fresh_op ops \<Longrightarrow> queue_ok (spec_runs ops q)"
  by (induction ops arbitrary: q) (simp_all add: spec_run_ok)

lemma queue_ok_Nil [simp]: "queue_ok []"
  by (simp add: queue_ok_def)

lemma find_job_map:
  assumes "\<forall>j \<in> set q. jb_job_id (g j) = jb_job_id j"
  shows "find_job i (map g q) = map_option g (find_job i q)"
  using assms by (induction q) (auto simp: find_job_def)

lemma find_job_append: "find_job i (q @ r) = (case find_job i q of Some j \<Rightarrow> Some j | None \<Rightarrow> find_job i r)"
  by (induction q) (auto simp: find_job_def)

text \<open>A job stays in the queue and only goes through steps of its life cycle.\<close>

lemma spec_run_step:
  assumes "queue_ok q" "find_job i q = Some j"
  shows "\<exists>j'. find_job i (snd (spec_run op q)) = Some j' \<and> job_step j j'"
proof -
  have d: "distinct (map jb_job_id q)" using assms(1) by (simp add: queue_ok_def)
  have mapped: "\<exists>j'. find_job i (map g q) = Some j' \<and> job_step j j'" if "\<forall>k \<in> set q. job_step k (g k)" for g
  proof -
    have "\<forall>k \<in> set q. jb_job_id (g k) = jb_job_id k" using that job_step_same by (auto simp: same_job_def)
    then show ?thesis using that find_job_Some[OF assms(2)] assms(2) by (simp add: find_job_map)
  qed
  consider (create) k where "op = Create k" | (claim) w now ttl ks where "op = ClaimNext w now ttl ks"
    | (other) "\<not> (\<exists>j. op = Create j)" "\<not> (\<exists>w now ttl ks. op = ClaimNext w now ttl ks)" by blast
  then show ?thesis
  proof cases
    case create
    then show ?thesis using assms(2) by (auto simp: find_job_append)
  next
    case claim
    have "\<exists>j'. find_job i (update_job (jb_job_id k) (claimed w now lease) q) = Some j' \<and> job_step j j'"
      if k: "first_job (filter (claimable now ks q) q) = Some k" for k lease
    proof -
      from first_job_Some[OF k] have kq: "k \<in> set q" and c: "claimable now ks q k" by auto
      have "job_step x (claimed w now lease x)" if "x \<in> set q" "jb_job_id x = jb_job_id k" for x
      proof -
        have "x = k" by (metis find_job_distinct[OF d] that kq option.inject)
        then show ?thesis using claimable_step[OF c] by simp
      qed
      then show ?thesis unfolding update_job_def by (intro mapped) simp
    qed
    with claim assms(2) show ?thesis by (auto split: option.splits sum.splits)
  next
    case other
    from spec_run_quiet[OF assms(1) this] obtain g where "snd (spec_run op q) = map g q" "\<forall>j \<in> set q. quiet_step j (g j)" by blast
    with mapped[of g] show ?thesis by (simp add: quiet_step_def)
  qed
qed

lemma spec_runs_steps:
  "queue_ok q \<Longrightarrow> list_all fresh_op ops \<Longrightarrow> find_job i q = Some j \<Longrightarrow>
     \<exists>j'. find_job i (spec_runs ops q) = Some j' \<and> job_step\<^sup>*\<^sup>* j j'"
proof (induction ops arbitrary: q j)
  case (Cons op ops)
  from spec_run_step[OF Cons.prems(1,3)] obtain k where "find_job i (snd (spec_run op q)) = Some k" "job_step j k" by blast
  with Cons.IH[of "snd (spec_run op q)" k] Cons.prems(1,2) show ?case
    by (auto simp: spec_run_ok intro: converse_rtranclp_into_rtranclp)
qed simp

text \<open>A success and a cancellation are final, the result of a success included.\<close>

lemma terminal_step:
  "job_step j j' \<Longrightarrow> jb_status j \<in> {JS_SUCCEEDED, JS_CANCELLED} \<Longrightarrow>
     jb_status j' = jb_status j \<and> (jb_status j = JS_SUCCEEDED \<longrightarrow> jb_result_json j' = jb_result_json j)"
  by (induction rule: job_step.induct) auto

lemma terminal_steps:
  "job_step\<^sup>*\<^sup>* j j' \<Longrightarrow> jb_status j \<in> {JS_SUCCEEDED, JS_CANCELLED} \<Longrightarrow>
     jb_status j' = jb_status j \<and> (jb_status j = JS_SUCCEEDED \<longrightarrow> jb_result_json j' = jb_result_json j)"
  by (induction rule: rtranclp_induct) (auto dest: terminal_step)

text \<open>A job that waits for a gate never runs: it goes on waiting or is cancelled.\<close>

definition waiting :: "JobRecord \<Rightarrow> bool" where
  "waiting j = (jb_status j = JS_CANCELLED \<or> (jb_status j = JS_PENDING \<and> jb_gate_state j \<noteq> GS_READY))"

lemma waiting_step: "job_step j j' \<Longrightarrow> waiting j \<Longrightarrow> waiting j' \<and> jb_attempt j' = jb_attempt j"
  by (induction rule: job_step.induct) (auto simp: waiting_def)

lemma waiting_steps: "job_step\<^sup>*\<^sup>* j j' \<Longrightarrow> waiting j \<Longrightarrow> waiting j' \<and> jb_attempt j' = jb_attempt j"
  by (induction rule: rtranclp_induct) (auto dest: waiting_step)

section \<open>Ownership\<close>

text \<open>Operations that are not the owner's: other workers finish or renew with their own name, expired
  leases are recovered at a time when this one has not expired, and nobody cancels or reschedules
  the job.\<close>

fun not_by_owner :: "string \<Rightarrow> string \<Rightarrow> string \<Rightarrow> queue_op \<Rightarrow> bool" where
  "not_by_owner i w lease (Heartbeat i' w' _ _) = (i' = i \<longrightarrow> w' \<noteq> w)"
| "not_by_owner i w lease (RecoverExpired now) = (now \<le> lease)"
| "not_by_owner i w lease (MarkSuccess i' w' _ _ _ _ _ _ _) = (i' = i \<longrightarrow> w' \<noteq> w)"
| "not_by_owner i w lease (MarkFailure i' w' _ _ _ _ _ _ _) = (i' = i \<longrightarrow> w' \<noteq> w)"
| "not_by_owner i w lease (ScheduleRetry i' _ _ _ _) = (i' \<noteq> i)"
| "not_by_owner i w lease (Cancel i' _ _) = (i' \<noteq> i)"
| "not_by_owner i w lease _ = True"

definition held :: "string \<Rightarrow> string \<Rightarrow> string \<Rightarrow> JobRecord list \<Rightarrow> bool" where
  "held i w lease q = (\<exists>j. find_job i q = Some j \<and> jb_status j = JS_RUNNING \<and> jb_worker_id j = Some w \<and> jb_lease_until j = Some lease)"

lemma find_job_update: "find_job i (update_job i' f q) = (if i' = i then map_option f (find_job i q) else find_job i q)"
  if "\<And>j. jb_job_id (f j) = jb_job_id j"
  using that by (induction q) (auto simp: find_job_def update_job_def)

lemma job_changes_id [simp]:
  "jb_job_id (claimed w now lease j) = jb_job_id j" "jb_job_id (recovered now j) = jb_job_id j"
  "jb_job_id (succeeded result path conv head gate t j) = jb_job_id j" "jb_job_id (failed code stderr res head gate t j) = jb_job_id j"
  "jb_job_id (rescheduled next_at code stderr j) = jb_job_id j" "jb_job_id (retried now j) = jb_job_id j"
  "jb_job_id (cancelled t j) = jb_job_id j"
  by (simp_all add: job_changes Let_def)

lemma change_job_held:
  assumes "held i w lease q" "i' = i \<Longrightarrow> \<forall>j. jb_status j = JS_RUNNING \<longrightarrow> jb_worker_id j = Some w \<longrightarrow> \<not> c j"
    "\<And>j. jb_job_id (f j) = jb_job_id j"
  shows "held i w lease (snd (change_job i' c f q))"
  using assms by (auto simp: held_def change_job_def find_job_update split: option.splits)

lemma others_keep_held:
  assumes "held i w lease q" "not_by_owner i w lease op" "distinct (map jb_job_id q)"
  shows "held i w lease (snd (spec_run op q))"
proof (cases op)
  case (Create j)
  with assms(1) show ?thesis by (auto simp: held_def find_job_append)
next
  case (ClaimNext w' now ttl ks)
  have "held i w lease (update_job (jb_job_id j) (claimed w' now l) q)"
    if "first_job (filter (claimable now ks q) q) = Some j" for j l
  proof -
    from first_job_Some[OF that] have "jb_status j = JS_PENDING" "j \<in> set q" by (auto simp: claimable_def)
    show ?thesis
    proof (cases "jb_job_id j = i")
      case True
      with find_job_distinct[OF assms(3) \<open>j \<in> set q\<close>] assms(1) \<open>jb_status j = JS_PENDING\<close> show ?thesis by (simp add: held_def)
    qed (use assms(1) in \<open>simp add: held_def find_job_update\<close>)
  qed
  with ClaimNext assms(1) show ?thesis by (simp split: option.splits sum.splits)
next
  case (RecoverExpired now)
  let ?g = "\<lambda>j. if expired now j then recovered now j else j"
  have "find_job i (map ?g q) = map_option ?g (find_job i q)" by (rule find_job_map) simp
  moreover obtain j where j: "find_job i q = Some j" "jb_status j = JS_RUNNING" "jb_worker_id j = Some w" "jb_lease_until j = Some lease"
    using assms(1) by (auto simp: held_def)
  moreover have "\<not> expired now j" using assms(2) RecoverExpired j by (simp add: expired_def)
  ultimately show ?thesis using RecoverExpired by (simp add: held_def)
next
  case (MarkSuccess i' w' result path conv head gate t t')
  with assms change_job_held[OF assms(1), of i' "may_finish w' JS_SUCCEEDED" "succeeded result path conv head gate t"]
  show ?thesis by (auto simp: may_finish_def split: option.splits)
next
  case (UpdateConversation i' c t)
  with assms(1) show ?thesis by (auto simp: held_def find_job_update)
qed (use assms in \<open>auto intro!: change_job_held simp: may_finish_def retryable_def\<close>)

lemma others_keep_held_runs:
  "queue_ok q \<Longrightarrow> list_all fresh_op ops \<Longrightarrow> held i w lease q \<Longrightarrow> list_all (not_by_owner i w lease) ops \<Longrightarrow>
     held i w lease (spec_runs ops q)"
proof (induction ops arbitrary: q)
  case (Cons op ops)
  then have "held i w lease (snd (spec_run op q))" by (simp add: others_keep_held queue_ok_def)
  with Cons show ?case by (simp add: spec_run_ok)
qed simp

section \<open>The number of attempts\<close>

text \<open>The attempts that the jobs of a queue have left.\<close>

definition budget :: "JobRecord list \<Rightarrow> int" where
  "budget q = sum_list (map (\<lambda>j. jb_max_attempts j - jb_attempt j) q)"

fun created_attempts :: "queue_op \<Rightarrow> int" where
  "created_attempts (Create j) = jb_max_attempts j"
| "created_attempts _ = 0"

fun started_job :: "outcome \<Rightarrow> bool" where
  "started_job (OutClaim (Some j)) = True"
| "started_job _ = False"

lemma budget_mono:
  assumes "\<forall>j \<in> set q. job_step j (g j)"
  shows "budget (map g q) \<le> budget q"
proof -
  have "jb_max_attempts (g j) - jb_attempt (g j) \<le> jb_max_attempts j - jb_attempt j" if "j \<in> set q" for j
    using assms that job_step_same[of j "g j"] job_step_attempt[of j "g j"] by (simp add: same_job_def)
  then show ?thesis unfolding budget_def by (simp add: sum_list_mono)
qed

lemma update_job_Cons: "update_job i f (k # q) = (if jb_job_id k = i then f k else k) # update_job i f q"
  by (simp add: update_job_def)

lemma update_job_other: "i \<notin> jb_job_id ` set q \<Longrightarrow> update_job i f q = q"
  by (induction q) (auto simp: update_job_def)

lemma budget_Cons: "budget (k # q) = jb_max_attempts k - jb_attempt k + budget q"
  by (simp add: budget_def)

lemma budget_claim:
  assumes "distinct (map jb_job_id q)" "j \<in> set q"
  shows "budget (update_job (jb_job_id j) (claimed w now lease) q) = budget q - 1"
  using assms
proof (induction q)
  case (Cons k q)
  show ?case
  proof (cases "jb_job_id k = jb_job_id j")
    case True
    then have "update_job (jb_job_id j) (claimed w now lease) q = q"
      using Cons.prems(1) by (simp add: update_job_other)
    moreover have "jb_attempt (claimed w now lease k) = jb_attempt k + 1" "jb_max_attempts (claimed w now lease k) = jb_max_attempts k"
      by (simp_all add: claimed_def)
    ultimately show ?thesis using True by (simp add: budget_Cons update_job_Cons)
  next
    case False
    with Cons show ?thesis by (auto simp: budget_Cons update_job_Cons)
  qed
qed simp

lemma spec_run_budget:
  assumes "queue_ok q" "fresh_op op"
  shows "budget (snd (spec_run op q)) + (if started_job (fst (spec_run op q)) then 1 else 0) \<le> budget q + created_attempts op"
proof -
  consider (create) j where "op = Create j" | (claim) w now ttl ks where "op = ClaimNext w now ttl ks"
    | (other) "\<not> (\<exists>j. op = Create j)" "\<not> (\<exists>w now ttl ks. op = ClaimNext w now ttl ks)" by blast
  then show ?thesis
  proof cases
    case create
    have "jb_attempt (stored j) = jb_attempt j" "jb_max_attempts (stored j) = jb_max_attempts j" by (simp_all add: stored_def erase_def)
    with create assms(2) show ?thesis by (simp add: budget_def fresh_op_def fresh_job_def)
  next
    case claim
    have "budget (update_job (jb_job_id j) (claimed w now lease) q) = budget q - 1"
      if "first_job (filter (claimable now ks q) q) = Some j" for j lease
      using budget_claim first_job_Some[OF that] assms(1) by (simp add: queue_ok_def)
    with claim show ?thesis by (simp split: option.splits sum.splits)
  next
    case other
    from spec_run_quiet[OF assms(1) this] obtain g where g: "snd (spec_run op q) = map g q" "\<forall>j \<in> set q. quiet_step j (g j)" by blast
    have "\<not> started_job (fst (spec_run op q))" using other by (cases op) (simp_all add: change_job_def split: option.splits)
    moreover have "created_attempts op = 0" using other by (cases op) auto
    ultimately show ?thesis using budget_mono[of q g] g by (simp add: quiet_step_def)
  qed
qed

section \<open>Erased fields\<close>

lemma erase_fields [simp]:
  "jb_job_id (erase j) = jb_job_id j" "jb_created_at (erase j) = jb_created_at j" "jb_status (erase j) = jb_status j"
  "jb_gate_state (erase j) = jb_gate_state j" "jb_attempt (erase j) = jb_attempt j" "jb_max_attempts (erase j) = jb_max_attempts j"
  "jb_next_attempt_at (erase j) = jb_next_attempt_at j" "jb_scope_key (erase j) = jb_scope_key j" "jb_job_kind (erase j) = jb_job_kind j"
  "jb_worker_id (erase j) = jb_worker_id j" "jb_lease_until (erase j) = jb_lease_until j"
  "jb_external_effect_class (erase j) = jb_external_effect_class j"
  "jb_result_json (erase j) = map_option canonical_obj (jb_result_json j)"
  by (simp_all add: erase_def)

lemma map_comp_canonical [simp]: "map_option canonical_obj (map_option canonical_obj x) = map_option canonical_obj x"
  by (cases x) simp_all

lemma erase_idem [simp]: "erase (erase j) = erase j"
  by (simp add: erase_def)

lemma find_job_erase: "find_job i (map erase q) = map_option erase (find_job i q)"
  by (rule find_job_map) simp

lemma sort_key_map_comp: "sort_key k (map f xs) = map f (sort_key (\<lambda>x. k (f x)) xs)"
proof -
  have "insort_key k (f x) (map f xs) = map f (insort_key (\<lambda>x. k (f x)) x xs)" for x xs by (induction xs) auto
  then show ?thesis by (induction xs) simp_all
qed

lemma first_job_erase: "first_job (map erase js) = map_option erase (first_job js)"
  by (simp add: first_job_def sort_key_map_comp split: list.splits)

lemma erase_changes:
  "erase (claimed w now lease j) = claimed w now lease (erase j)" "erase (recovered now j) = recovered now (erase j)"
  "erase (succeeded result path conv head gate t j) = succeeded result path conv head gate t (erase j)"
  "erase (failed code stderr res head gate t j) = failed code stderr res head gate t (erase j)"
  "erase (rescheduled next_at code stderr j) = rescheduled next_at code stderr (erase j)"
  "erase (retried now j) = retried now (erase j)" "erase (cancelled t j) = cancelled t (erase j)"
  "erase (j\<lparr>jb_updated_at := t\<rparr>) = erase j"
  by (simp_all add: job_changes Let_def) (simp_all add: erase_def coalesce_def split: option.splits)

lemma change_job_alt:
  assumes "distinct (map jb_job_id q)"
  shows "change_job i c f q = (OutBool (list_ex (\<lambda>j. jb_job_id j = i \<and> c j) q), map (\<lambda>j. if jb_job_id j = i \<and> c j then f j else j) q)"
proof (cases "find_job i q")
  case None
  then have no: "jb_job_id j \<noteq> i" if "j \<in> set q" for j using that by (auto simp: find_job_None)
  then have "map (\<lambda>j. if jb_job_id j = i \<and> c j then f j else j) q = q" by (intro map_idI) simp
  with None no show ?thesis by (auto simp: change_job_def list_ex_iff)
next
  case (Some j)
  have only: "k = j" if "k \<in> set q" "jb_job_id k = i" for k by (metis Some assms find_job_distinct option.inject that)
  show ?thesis
  proof (cases "c j")
    case True
    then have "map (\<lambda>k. if jb_job_id k = i \<and> c k then f k else k) q = update_job i f q"
      unfolding update_job_def using only by (intro map_cong) auto
    with True Some find_job_Some[OF Some] show ?thesis by (auto simp: change_job_def list_ex_iff)
  next
    case False
    then have "map (\<lambda>k. if jb_job_id k = i \<and> c k then f k else k) q = q" using only by (intro map_idI) auto
    with False Some only show ?thesis by (auto simp: change_job_def list_ex_iff)
  qed
qed

lemma count_one:
  assumes "distinct (map jb_job_id q)" "\<And>j. w j \<Longrightarrow> jb_job_id j = i"
  shows "length (filter w q) = (if list_ex w q then 1 else 0)"
  using assms
proof (induction q)
  case (Cons k q)
  show ?case
  proof (cases "w k")
    case True
    then have "filter w q = []" using Cons.prems by (auto simp: filter_empty_conv)
    with True show ?thesis by simp
  qed (use Cons in simp)
qed simp

section \<open>The interface of a backend\<close>

fun erase_outcome :: "outcome \<Rightarrow> outcome" where
  "erase_outcome (OutJob j) = OutJob (erase j)"
| "erase_outcome (OutClaim r) = OutClaim (map_option erase r)"
| "erase_outcome out = out"

text \<open>Recording an event does not change the queue, and the backends answer it differently.\<close>

definition answers :: "queue_op \<Rightarrow> bool" where
  "answers op = (case op of AppendEvent _ _ _ _ \<Rightarrow> False | _ \<Rightarrow> True)"

fun run_all :: "(queue_op \<Rightarrow> 's \<Rightarrow> outcome \<times> 's) \<Rightarrow> queue_op list \<Rightarrow> 's \<Rightarrow> 's" where
  "run_all run [] s = s"
| "run_all run (op # ops) s = run_all run ops (snd (run op s))"

fun starts :: "(queue_op \<Rightarrow> 's \<Rightarrow> outcome \<times> 's) \<Rightarrow> queue_op list \<Rightarrow> 's \<Rightarrow> nat" where
  "starts run [] s = 0"
| "starts run (op # ops) s = (if started_job (fst (run op s)) then 1 else 0) + starts run ops (snd (run op s))"

locale queue_store =
  fixes run :: "queue_op \<Rightarrow> 's \<Rightarrow> outcome \<times> 's"
    and init :: 's
    and view :: "'s \<Rightarrow> JobRecord list"
    and good :: "'s \<Rightarrow> bool"
    and admits :: "queue_op \<Rightarrow> bool"
  assumes init_good: "good init" and init_view: "view init = []"
    and run_good: "good s \<Longrightarrow> admits op \<Longrightarrow> good (snd (run op s))"
    and run_view: "good s \<Longrightarrow> admits op \<Longrightarrow> view (snd (run op s)) = snd (spec_run op (view s))"
    and run_answer: "good s \<Longrightarrow> admits op \<Longrightarrow> answers op \<Longrightarrow> erase_outcome (fst (run op s)) = fst (spec_run op (view s))"
    and run_event: "\<not> answers op \<Longrightarrow> \<not> started_job (fst (run op s))"
begin

abbreviation runs :: "queue_op list \<Rightarrow> 's \<Rightarrow> 's" where "runs \<equiv> run_all run"

lemma runs_good: "good s \<Longrightarrow> list_all admits ops \<Longrightarrow> good (runs ops s)"
  by (induction ops arbitrary: s) (simp_all add: run_good)

lemma runs_view: "good s \<Longrightarrow> list_all admits ops \<Longrightarrow> view (runs ops s) = spec_runs ops (view s)"
  by (induction ops arbitrary: s) (simp_all add: run_good run_view)

lemma started_run: "good s \<Longrightarrow> admits op \<Longrightarrow> started_job (fst (run op s)) \<longleftrightarrow> started_job (fst (spec_run op (view s)))"
proof (cases "answers op")
  case True
  have "started_job (erase_outcome out) = started_job out" for out
    by (cases out) (simp_all, metis (no_types) option.exhaust option.map_disc_iff option.simps(9) started_job.simps(1,3))
  with True show "good s \<Longrightarrow> admits op \<Longrightarrow> ?thesis" by (metis run_answer)
next
  case False
  then show ?thesis using run_event[of op s] by (auto simp: answers_def split: queue_op.splits)
qed

lemma starts_view: "good s \<Longrightarrow> list_all admits ops \<Longrightarrow> starts run ops s = starts spec_run ops (view s)"
  by (induction ops arbitrary: s) (simp_all add: run_good run_view started_run)

lemma reachable_ok: "list_all admits ops \<Longrightarrow> list_all fresh_op ops \<Longrightarrow> queue_ok (view (runs ops init))"
  by (simp add: runs_view init_good init_view spec_runs_ok)

text \<open>However operations follow each other, jobs are started at most as often as their attempts allow.\<close>

lemma starts_bounded:
  assumes "list_all admits ops" "list_all fresh_op ops"
  shows "int (starts run ops init) \<le> sum_list (map created_attempts ops)"
proof -
  have "int (starts spec_run ops q) + budget (spec_runs ops q) \<le> budget q + sum_list (map created_attempts ops)" if "queue_ok q" for q
    using that assms(2)
  proof (induction ops arbitrary: q)
    case (Cons op ops)
    from Cons.IH[of "snd (spec_run op q)"] spec_run_budget[of q op] Cons.prems show ?case
      by (cases "started_job (fst (spec_run op q))") (simp_all add: spec_run_ok)
  qed simp
  moreover have "0 \<le> budget (spec_runs ops [])"
    using spec_runs_ok[OF queue_ok_Nil assms(2)] by (auto simp: budget_def queue_ok_def list_all_iff job_ok_def intro!: sum_list_nonneg)
  ultimately show ?thesis
    using starts_view[OF init_good assms(1)] queue_ok_Nil by (fastforce simp: init_view budget_def)
qed

text \<open>What becomes of a job in a run that starts in a reachable state.\<close>

lemma job_history:
  assumes "list_all admits (ops @ ops')" "list_all fresh_op (ops @ ops')" "find_job i (view (runs ops init)) = Some j"
  shows "\<exists>j'. find_job i (view (runs ops' (runs ops init))) = Some j' \<and> job_step\<^sup>*\<^sup>* j j'"
proof -
  have "good (runs ops init)" using assms(1) by (simp add: runs_good init_good)
  then show ?thesis using spec_runs_steps[OF reachable_ok] assms by (simp add: runs_view)
qed

lemma owner_keeps_job:
  assumes "list_all admits (ops @ ops')" "list_all fresh_op (ops @ ops')" "held i w lease (view (runs ops init))"
    "list_all (not_by_owner i w lease) ops'"
  shows "held i w lease (view (runs ops' (runs ops init)))"
proof -
  have "good (runs ops init)" using assms(1) by (simp add: runs_good init_good)
  then show ?thesis using others_keep_held_runs[OF reachable_ok] assms by (simp add: runs_view)
qed

end

end
