(* ===== verification/SqliteQueue.thy ===== *)
theory SqliteQueue
  imports QueueSpec
begin

text \<open>
  The SQLite backend of the job queue (\<open>SQLiteQueueStore\<close> in \<open>apps/agy_queue/storage.py\<close>). The
  database is its three tables; a statement \<open>UPDATE jobs SET \<dots> WHERE \<dots>\<close> is \<open>sql_update\<close>, which
  also counts the rows. Each operation runs in one transaction and takes effect at one moment, and
  an exception rolls it back. The JSON columns hold serialised text, which is represented by the
  value with sorted keys that it stands for; rows that a query returns without \<open>ORDER BY\<close> come in
  table order. At the end the backend is an interpretation of \<open>queue_store\<close>.
\<close>

section \<open>Tables\<close>

record SqliteDb =
  db_jobs :: "JobRecord list"
  db_results :: "(string, jobject \<times> string) dict"
  db_events :: "(string \<times> int \<times> string \<times> json \<times> string) list"

definition sqlite_init :: SqliteDb where
  "sqlite_init = \<lparr>db_jobs = [], db_results = [], db_events = []\<rparr>"

definition sql_update :: "(JobRecord \<Rightarrow> bool) \<Rightarrow> (JobRecord \<Rightarrow> JobRecord) \<Rightarrow> SqliteDb \<Rightarrow> nat \<times> SqliteDb" where
  "sql_update w f s = (length (filter w (db_jobs s)), s\<lparr>db_jobs := map (\<lambda>j. if w j then f j else j) (db_jobs s)\<rparr>)"

text \<open>\<open>_json_dumps\<close>.\<close>

definition json_dumps :: "jobject \<Rightarrow> jobject" where "json_dumps d = canonical_obj (redact_obj d)"

definition row_to_job :: "SqliteDb \<Rightarrow> JobRecord \<Rightarrow> JobRecord" where
  "row_to_job s row = row\<lparr>jb_result_json :=
     (case map_of (db_results s) (jb_job_id row) of Some (r, _) \<Rightarrow> Some r | None \<Rightarrow> jb_result_json row)\<rparr>"

definition select_job :: "SqliteDb \<Rightarrow> string \<Rightarrow> JobRecord option" where
  "select_job s i = map_option (row_to_job s) (find_job i (db_jobs s))"

text \<open>\<open>INSERT INTO job_results \<dots> ON CONFLICT(job_id) DO UPDATE SET result_json\<close>.\<close>

definition upsert_result :: "string \<Rightarrow> jobject \<Rightarrow> string \<Rightarrow> SqliteDb \<Rightarrow> SqliteDb" where
  "upsert_result i r now s =
     s\<lparr>db_results := AList.update i (r, case map_of (db_results s) i of Some (_, t) \<Rightarrow> t | None \<Rightarrow> now) (db_results s)\<rparr>"

section \<open>Operations\<close>

definition sqlite_create_job :: "JobRecord \<Rightarrow> SqliteDb \<Rightarrow> outcome \<times> SqliteDb" where
  "sqlite_create_job job s =
     (if find_job (jb_job_id job) (db_jobs s) \<noteq> None then (OutError (QueueConflictError (jb_job_id job)), s)
      else (OutJob job, s\<lparr>db_jobs := db_jobs s @
             [job\<lparr>jb_result_json := None, jb_expected_output_schema := map_option json_dumps (jb_expected_output_schema job)\<rparr>]\<rparr>))"

definition sqlite_get :: "string \<Rightarrow> SqliteDb \<Rightarrow> JobRecord option" where
  "sqlite_get i s = select_job s i"

definition sqlite_list :: "JobStatus option \<Rightarrow> JobKind option \<Rightarrow> int \<Rightarrow> SqliteDb \<Rightarrow> JobRecord list" where
  "sqlite_list status kind limit s =
     (let safe_limit = max 1 (min limit 1000);
          rows = filter (\<lambda>j. (\<forall>x \<in> set_option status. jb_status j = x) \<and> (\<forall>k \<in> set_option kind. jb_job_kind j = k)) (db_jobs s)
      in map (row_to_job s) (take (nat safe_limit) (rev (sort_key (\<lambda>j. (jb_created_at j, jb_job_id j)) rows))))"

definition sql_claimable :: "string \<Rightarrow> JobKind list option \<Rightarrow> JobRecord list \<Rightarrow> JobRecord \<Rightarrow> bool" where
  "sql_claimable now kinds jobs j =
     (jb_status j = JS_PENDING \<and> jb_gate_state j = GS_READY \<and> jb_attempt j < jb_max_attempts j
      \<and> (case jb_next_attempt_at j of None \<Rightarrow> True | Some t \<Rightarrow> t \<le> now)
      \<and> \<not> list_ex (\<lambda>a. jb_status a = JS_RUNNING \<and> jb_scope_key a \<noteq> None \<and> jb_scope_key a = jb_scope_key j) jobs
      \<and> (case kinds of None \<Rightarrow> True | Some ks \<Rightarrow> jb_job_kind j \<in> set ks))"

definition sqlite_claim_next :: "string \<Rightarrow> string \<Rightarrow> int \<Rightarrow> JobKind list option \<Rightarrow> SqliteDb \<Rightarrow> outcome \<times> SqliteDb" where
  "sqlite_claim_next worker now ttl kinds s =
     (if kinds = Some [] then (OutClaim None, s)
      else
        (case first_job (filter (sql_claimable now kinds (db_jobs s)) (db_jobs s)) of
           None \<Rightarrow> (OutClaim None, s)
         | Some row \<Rightarrow>
             (case lease_expiry now ttl of
                Inl e \<Rightarrow> (OutError e, s)
              | Inr lease \<Rightarrow>
                  let (_, s') = sql_update (\<lambda>j. jb_job_id j = jb_job_id row \<and> jb_status j = JS_PENDING)
                        (\<lambda>j. j\<lparr>jb_status := JS_RUNNING, jb_attempt := jb_attempt j + 1, jb_lease_until := Some lease,
                           jb_worker_id := Some worker, jb_started_at := coalesce (jb_started_at j) (Some now),
                           jb_updated_at := now, jb_error_code := None, jb_stderr := None\<rparr>) s
                  in (OutClaim (select_job s' (jb_job_id row)), s'))))"

definition sqlite_heartbeat :: "string \<Rightarrow> string \<Rightarrow> string \<Rightarrow> string \<Rightarrow> SqliteDb \<Rightarrow> outcome \<times> SqliteDb" where
  "sqlite_heartbeat i worker lease now s =
     (let (updated, s') = sql_update (\<lambda>j. jb_job_id j = i \<and> jb_status j = JS_RUNNING \<and> jb_worker_id j = Some worker)
            (\<lambda>j. j\<lparr>jb_lease_until := Some lease, jb_updated_at := now\<rparr>) s
      in (OutBool (updated = 1), s'))"

text \<open>One iteration of the loop over the expired rows.\<close>

definition sqlite_recover_row :: "string \<Rightarrow> JobRecord \<Rightarrow> SqliteDb \<Rightarrow> SqliteDb" where
  "sqlite_recover_row now row s =
     (let unsafe = unsafe_effect (jb_external_effect_class row); exhausted = jb_attempt row \<ge> jb_max_attempts row;
          w = (\<lambda>j. jb_job_id j = jb_job_id row \<and> jb_status j = JS_RUNNING)
      in if unsafe \<or> exhausted
         then snd (sql_update w (\<lambda>j. j\<lparr>jb_status := JS_FAILED, jb_gate_state := GS_BLOCKED,
                jb_error_code := Some (if unsafe then ''external_effect_uncertain'' else ''lease_expired_attempts_exhausted''),
                jb_finished_at := Some now, jb_updated_at := now, jb_lease_until := None, jb_worker_id := None\<rparr>) s)
         else snd (sql_update w (\<lambda>j. j\<lparr>jb_status := JS_PENDING, jb_gate_state := GS_READY,
                jb_error_code := Some ''lease_expired'', jb_next_attempt_at := Some now, jb_updated_at := now,
                jb_lease_until := None, jb_worker_id := None\<rparr>) s))"

definition sqlite_recover_expired :: "string \<Rightarrow> SqliteDb \<Rightarrow> outcome \<times> SqliteDb" where
  "sqlite_recover_expired now s =
     (let rows = filter (\<lambda>j. jb_status j = JS_RUNNING \<and> (case jb_lease_until j of None \<Rightarrow> False | Some t \<Rightarrow> t < now)) (db_jobs s)
      in (OutIds (map jb_job_id rows), foldl (\<lambda>s row. sqlite_recover_row now row s) s rows))"

definition event_name :: "string option \<Rightarrow> json \<Rightarrow> string" where
  "event_name ty payload =
     (if ty \<notin> {None, Some []} then the ty
      else
        (case payload of
           JObject d \<Rightarrow> if json_truthy (json_get d ''event'') then py_str (json_get d ''event'') else ''unknown''
         | _ \<Rightarrow> ''unknown''))"

definition sqlite_append_event :: "string \<Rightarrow> json \<Rightarrow> string option \<Rightarrow> string \<Rightarrow> SqliteDb \<Rightarrow> outcome \<times> SqliteDb" where
  "sqlite_append_event i event ty now s =
     (let current = foldl (\<lambda>m (i', n, _). if i' = i then max m n else m) 0 (db_events s);
          payload = redact_json event
      in if find_job i (db_jobs s) = None then (OutError IntegrityError, s)
         else (OutUnit, s\<lparr>db_events := db_events s @ [(i, current + 1, event_name ty payload, canonical payload, now)]\<rparr>))"

definition sqlite_update_conversation_id :: "string \<Rightarrow> string \<Rightarrow> string \<Rightarrow> SqliteDb \<Rightarrow> outcome \<times> SqliteDb" where
  "sqlite_update_conversation_id i conv now s =
     (OutUnit, snd (sql_update (\<lambda>j. jb_job_id j = i) (\<lambda>j. j\<lparr>jb_conversation_id := Some conv, jb_updated_at := now\<rparr>) s))"

definition sqlite_mark_success ::
  "string \<Rightarrow> string \<Rightarrow> jobject \<Rightarrow> string \<Rightarrow> string option \<Rightarrow> string option \<Rightarrow> GateState \<Rightarrow> string \<Rightarrow> SqliteDb \<Rightarrow> outcome \<times> SqliteDb" where
  "sqlite_mark_success i worker result path conv head gate now s =
     (let serialized = json_dumps result in
      case find_job i (db_jobs s) of
        None \<Rightarrow> (OutBool False, s)
      | Some row \<Rightarrow>
          if jb_status row \<notin> {JS_RUNNING, JS_SUCCEEDED} \<or> (jb_status row = JS_RUNNING \<and> jb_worker_id row \<noteq> Some worker)
          then (OutBool False, s)
          else if (case map_of (db_results s) i of Some (r, _) \<Rightarrow> r \<noteq> serialized | None \<Rightarrow> False)
          then (OutError (QueueConflictError i), s)
          else
            let (updated, s') = sql_update
                  (\<lambda>j. jb_job_id j = i \<and> (jb_status j = JS_SUCCEEDED \<or> (jb_status j = JS_RUNNING \<and> jb_worker_id j = Some worker)))
                  (\<lambda>j. j\<lparr>jb_status := JS_SUCCEEDED, jb_gate_state := gate, jb_result_path := Some path,
                     jb_result_json := Some serialized, jb_conversation_id := coalesce conv (jb_conversation_id j),
                     jb_head_sha := coalesce head (jb_head_sha j), jb_finished_at := Some now, jb_updated_at := now,
                     jb_lease_until := None, jb_worker_id := None, jb_error_code := None, jb_stderr := None\<rparr>)
                  (upsert_result i serialized now s)
            in (OutBool (0 < updated), s'))"

definition sqlite_mark_failure ::
  "string \<Rightarrow> string \<Rightarrow> string \<Rightarrow> string option \<Rightarrow> jobject option \<Rightarrow> string option \<Rightarrow> GateState \<Rightarrow> string \<Rightarrow> SqliteDb \<Rightarrow> outcome \<times> SqliteDb" where
  "sqlite_mark_failure i worker code stderr result head gate now s =
     (let serialized = map_option json_dumps result in
      case find_job i (db_jobs s) of
        None \<Rightarrow> (OutBool False, s)
      | Some row \<Rightarrow>
          if jb_status row \<notin> {JS_RUNNING, JS_FAILED} \<or> (jb_status row = JS_RUNNING \<and> jb_worker_id row \<noteq> Some worker)
          then (OutBool False, s)
          else
            let s1 = (case serialized of Some r \<Rightarrow> upsert_result i r now s | None \<Rightarrow> s);
                (updated, s') = sql_update
                  (\<lambda>j. jb_job_id j = i \<and> (jb_status j = JS_FAILED \<or> (jb_status j = JS_RUNNING \<and> jb_worker_id j = Some worker)))
                  (\<lambda>j. j\<lparr>jb_status := JS_FAILED, jb_gate_state := gate, jb_error_code := Some code, jb_stderr := stderr,
                     jb_result_json := coalesce serialized (jb_result_json j), jb_head_sha := coalesce head (jb_head_sha j),
                     jb_finished_at := Some now, jb_updated_at := now, jb_lease_until := None, jb_worker_id := None\<rparr>) s1
            in (OutBool (0 < updated), s'))"

definition sqlite_schedule_retry :: "string \<Rightarrow> string \<Rightarrow> string \<Rightarrow> string option \<Rightarrow> string \<Rightarrow> SqliteDb \<Rightarrow> outcome \<times> SqliteDb" where
  "sqlite_schedule_retry i next_at code stderr now s =
     (case find_job i (db_jobs s) of
        None \<Rightarrow> (OutBool False, s)
      | Some row \<Rightarrow>
          if jb_status row \<noteq> JS_RUNNING \<or> unsafe_effect (jb_external_effect_class row) \<or> jb_attempt row \<ge> jb_max_attempts row
          then (OutBool False, s)
          else (OutBool True, snd (sql_update (\<lambda>j. jb_job_id j = i \<and> jb_status j = JS_RUNNING)
                 (\<lambda>j. j\<lparr>jb_status := JS_PENDING, jb_gate_state := GS_READY, jb_next_attempt_at := Some next_at,
                    jb_error_code := Some code, jb_stderr := stderr, jb_updated_at := now, jb_lease_until := None,
                    jb_worker_id := None\<rparr>) s)))"

definition sqlite_retry_failed :: "string \<Rightarrow> string \<Rightarrow> SqliteDb \<Rightarrow> outcome \<times> SqliteDb" where
  "sqlite_retry_failed i now s =
     (case find_job i (db_jobs s) of
        None \<Rightarrow> (OutBool False, s)
      | Some row \<Rightarrow>
          if jb_status row \<noteq> JS_FAILED \<or> unsafe_effect (jb_external_effect_class row) \<or> jb_attempt row \<ge> jb_max_attempts row
          then (OutBool False, s)
          else (OutBool True, snd (sql_update (\<lambda>j. jb_job_id j = i \<and> jb_status j = JS_FAILED)
                 (\<lambda>j. j\<lparr>jb_status := JS_PENDING, jb_gate_state := GS_READY, jb_next_attempt_at := Some now,
                    jb_error_code := Some ''manual_retry'', jb_stderr := None, jb_finished_at := None, jb_updated_at := now\<rparr>) s)))"

definition sqlite_cancel :: "string \<Rightarrow> string \<Rightarrow> string \<Rightarrow> SqliteDb \<Rightarrow> outcome \<times> SqliteDb" where
  "sqlite_cancel i now now' s =
     (let (updated, s') = sql_update (\<lambda>j. jb_job_id j = i \<and> jb_status j \<in> {JS_PENDING, JS_RUNNING})
            (\<lambda>j. j\<lparr>jb_status := JS_CANCELLED, jb_gate_state := GS_BLOCKED, jb_finished_at := Some now, jb_updated_at := now',
               jb_lease_until := None, jb_worker_id := None\<rparr>) s
      in (OutBool (updated = 1), s'))"

fun sqlite_run :: "queue_op \<Rightarrow> SqliteDb \<Rightarrow> outcome \<times> SqliteDb" where
  "sqlite_run (Create j) s = sqlite_create_job j s"
| "sqlite_run (ClaimNext w now ttl kinds) s = sqlite_claim_next w now ttl kinds s"
| "sqlite_run (Heartbeat i w lease t) s = sqlite_heartbeat i w lease t s"
| "sqlite_run (RecoverExpired now) s = sqlite_recover_expired now s"
| "sqlite_run (AppendEvent i e ty t) s = sqlite_append_event i e ty t s"
| "sqlite_run (UpdateConversation i c t) s = sqlite_update_conversation_id i c t s"
| "sqlite_run (MarkSuccess i w result path conv head gate t _) s = sqlite_mark_success i w result path conv head gate t s"
| "sqlite_run (MarkFailure i w code stderr result head gate t _) s = sqlite_mark_failure i w code stderr result head gate t s"
| "sqlite_run (ScheduleRetry i next_at code stderr t) s = sqlite_schedule_retry i next_at code stderr t s"
| "sqlite_run (RetryFailed i now _) s = sqlite_retry_failed i now s"
| "sqlite_run (Cancel i t t') s = sqlite_cancel i t t' s"

section \<open>Representation\<close>

definition sqlite_good :: "SqliteDb \<Rightarrow> bool" where
  "sqlite_good s =
     (distinct (map jb_job_id (db_jobs s))
      \<and> (\<forall>row \<in> set (db_jobs s). map_option fst (map_of (db_results s) (jb_job_id row)) = jb_result_json row
           \<and> map_option canonical_obj (jb_result_json row) = jb_result_json row
           \<and> map_option canonical_obj (jb_expected_output_schema row) = jb_expected_output_schema row)
      \<and> fst ` set (db_results s) \<subseteq> jb_job_id ` set (db_jobs s))"

definition sqlite_view :: "SqliteDb \<Rightarrow> JobRecord list" where
  "sqlite_view s = map (\<lambda>row. erase (row_to_job s row)) (db_jobs s)"

lemma row_to_job_good: "sqlite_good s \<Longrightarrow> row \<in> set (db_jobs s) \<Longrightarrow> row_to_job s row = row"
  by (auto simp: sqlite_good_def row_to_job_def split: option.splits)

lemma sqlite_view_good: "sqlite_good s \<Longrightarrow> sqlite_view s = map erase (db_jobs s)"
  by (simp add: sqlite_view_def row_to_job_good)

text \<open>An \<open>UPDATE\<close> of one job is a change of the abstract queue; it keeps the representation when it
  leaves the JSON columns alone or writes the results table with them.\<close>

lemma sql_update_change:
  assumes "distinct (map jb_job_id (db_jobs s))" "\<And>j. w j \<longleftrightarrow> jb_job_id j = i \<and> c (erase j)"
    "\<And>j. j \<in> set (db_jobs s) \<Longrightarrow> erase (f j) = F (erase j)"
  shows "(OutBool (0 < fst (sql_update w f s)), map erase (db_jobs (snd (sql_update w f s)))) = change_job i c F (map erase (db_jobs s))"
    "fst (sql_update w f s) \<le> 1"
proof -
  have d: "distinct (map jb_job_id (map erase (db_jobs s)))" using assms(1) by (simp add: comp_def)
  have "map erase (map (\<lambda>j. if w j then f j else j) (db_jobs s))
      = map (\<lambda>j. if jb_job_id j = i \<and> c j then F j else j) (map erase (db_jobs s))"
    using assms(2,3) by simp
  moreover have "list_ex w (db_jobs s) = list_ex (\<lambda>j. jb_job_id j = i \<and> c j) (map erase (db_jobs s))"
    using assms(2) by (simp add: list_ex_iff)
  ultimately show "(OutBool (0 < fst (sql_update w f s)), map erase (db_jobs (snd (sql_update w f s)))) = change_job i c F (map erase (db_jobs s))"
    unfolding change_job_alt[OF d] using count_one[OF assms(1), of w i] assms(2) by (simp add: sql_update_def)
  show "fst (sql_update w f s) \<le> 1" using count_one[OF assms(1), of w i] assms(2) by (simp add: sql_update_def)
qed

lemma sqlite_good_distinct: "sqlite_good s \<Longrightarrow> distinct (map jb_job_id (db_jobs s))"
  by (simp add: sqlite_good_def)

lemma sql_update_good:
  assumes "sqlite_good s" "\<And>j. jb_job_id (f j) = jb_job_id j" "\<And>j. jb_result_json (f j) = jb_result_json j"
    "\<And>j. jb_expected_output_schema (f j) = jb_expected_output_schema j"
  shows "sqlite_good (snd (sql_update w f s))"
proof -
  let ?g = "\<lambda>j. if w j then f j else j"
  have ids: "map jb_job_id (map ?g (db_jobs s)) = map jb_job_id (db_jobs s)" using assms(2) by simp
  then have "distinct (map jb_job_id (map ?g (db_jobs s)))" using sqlite_good_distinct[OF assms(1)] by metis
  moreover have "jb_job_id ` set (map ?g (db_jobs s)) = jb_job_id ` set (db_jobs s)" using ids by (metis list.set_map)
  ultimately show ?thesis using assms by (auto simp: sqlite_good_def sql_update_def)
qed

text \<open>The operation whose transaction is one such update.\<close>

definition refines_change :: "string \<Rightarrow> (JobRecord \<Rightarrow> bool) \<Rightarrow> (JobRecord \<Rightarrow> JobRecord) \<Rightarrow> SqliteDb \<Rightarrow> outcome \<times> SqliteDb \<Rightarrow> bool" where
  "refines_change i c F s r =
     (sqlite_good (snd r) \<and> (fst r, map erase (db_jobs (snd r))) = change_job i c F (map erase (db_jobs s)))"

lemma refines_changeI:
  assumes "sqlite_good s" "\<And>j. w j \<longleftrightarrow> jb_job_id j = i \<and> c (erase j)" "\<And>j. erase (f j) = F (erase j)"
    "\<And>j. jb_job_id (f j) = jb_job_id j" "\<And>j. jb_result_json (f j) = jb_result_json j"
    "\<And>j. jb_expected_output_schema (f j) = jb_expected_output_schema j"
    "out = OutBool (0 < fst (sql_update w f s))"
  shows "refines_change i c F s (out, snd (sql_update w f s))"
  using sql_update_change(1)[OF sqlite_good_distinct[OF assms(1)], of w i c f F] sql_update_good[OF assms(1,4,5,6)] assms(2,3,7)
  by (simp add: refines_change_def)

lemma sqlite_heartbeat_refines:
  assumes "sqlite_good s"
  shows "refines_change i (\<lambda>j. jb_status j = JS_RUNNING \<and> jb_worker_id j = Some w) (\<lambda>j. j\<lparr>jb_lease_until := Some lease\<rparr>) s
    (sqlite_heartbeat i w lease now s)"
proof -
  let ?w = "\<lambda>j. jb_job_id j = i \<and> jb_status j = JS_RUNNING \<and> jb_worker_id j = Some w"
  let ?f = "\<lambda>j. j\<lparr>jb_lease_until := Some lease, jb_updated_at := now\<rparr>"
  have one: "fst (sql_update ?w ?f s) \<le> 1"
    by (rule sql_update_change(2)[OF sqlite_good_distinct[OF assms], where i = i and c = "\<lambda>j. jb_status j = JS_RUNNING \<and> jb_worker_id j = Some w" and F = "\<lambda>j. erase (?f j)"])
      (auto simp: erase_def)
  show ?thesis unfolding sqlite_heartbeat_def Let_def case_prod_beta
    by (rule refines_changeI[OF assms]) (use one in \<open>auto simp: erase_def\<close>)
qed

lemma sqlite_cancel_refines:
  assumes "sqlite_good s"
  shows "refines_change i (\<lambda>j. jb_status j \<in> {JS_PENDING, JS_RUNNING}) (cancelled now) s (sqlite_cancel i now now' s)"
proof -
  let ?w = "\<lambda>j. jb_job_id j = i \<and> jb_status j \<in> {JS_PENDING, JS_RUNNING}"
  let ?f = "\<lambda>j. j\<lparr>jb_status := JS_CANCELLED, jb_gate_state := GS_BLOCKED, jb_finished_at := Some now, jb_updated_at := now',
               jb_lease_until := None, jb_worker_id := None\<rparr>"
  have one: "fst (sql_update ?w ?f s) \<le> 1"
    by (rule sql_update_change(2)[OF sqlite_good_distinct[OF assms], where i = i and c = "\<lambda>j. jb_status j \<in> {JS_PENDING, JS_RUNNING}" and F = "cancelled now"])
      (auto simp: erase_def cancelled_def)
  show ?thesis unfolding sqlite_cancel_def Let_def case_prod_beta
    by (rule refines_changeI[OF assms]) (use one in \<open>auto simp: erase_def cancelled_def\<close>)
qed

text \<open>Operations that look at the row first.\<close>

lemma guarded_refines:
  assumes "sqlite_good s" "\<And>j. g j \<longleftrightarrow> \<not> c (erase j)"
    "\<And>row. find_job i (db_jobs s) = Some row \<Longrightarrow> c (erase row) \<Longrightarrow> refines_change i c F s (r row)"
  shows "refines_change i c F s
    (case find_job i (db_jobs s) of None \<Rightarrow> (OutBool False, s) | Some row \<Rightarrow> if g row then (OutBool False, s) else r row)"
  using assms by (auto simp: refines_change_def change_job_def find_job_erase split: option.splits)

lemma change_True:
  assumes "find_job i q = Some j" "c j"
  shows "fst (change_job i c F q) = OutBool True"
  using assms by (simp add: change_job_def)

lemma changed_count:
  assumes "sqlite_good s" "\<And>j. w j \<longleftrightarrow> jb_job_id j = i \<and> c (erase j)" "find_job i (db_jobs s) = Some row" "c (erase row)"
  shows "0 < fst (sql_update w f s)"
  using assms find_job_Some[OF assms(3)] by (auto simp: sql_update_def filter_empty_conv)

lemma sqlite_schedule_retry_refines:
  assumes "sqlite_good s"
  shows "refines_change i (retryable JS_RUNNING) (rescheduled next_at code stderr) s (sqlite_schedule_retry i next_at code stderr now s)"
  unfolding sqlite_schedule_retry_def
proof (rule guarded_refines[OF assms])
  fix row assume row: "find_job i (db_jobs s) = Some row" "retryable JS_RUNNING (erase row)"
  let ?w = "\<lambda>j. jb_job_id j = i \<and> jb_status j = JS_RUNNING"
  let ?f = "\<lambda>j. j\<lparr>jb_status := JS_PENDING, jb_gate_state := GS_READY, jb_next_attempt_at := Some next_at,
                    jb_error_code := Some code, jb_stderr := stderr, jb_updated_at := now, jb_lease_until := None, jb_worker_id := None\<rparr>"
  have same: "change_job i (retryable JS_RUNNING) F (map erase (db_jobs s)) = change_job i (\<lambda>j. jb_status j = JS_RUNNING) F (map erase (db_jobs s))" for F
    using row by (simp add: change_job_def find_job_erase retryable_def)
  have "refines_change i (\<lambda>j. jb_status j = JS_RUNNING) (rescheduled next_at code stderr) s (OutBool True, snd (sql_update ?w ?f s))"
    by (rule refines_changeI[OF assms])
      (use changed_count[OF assms, of ?w i "\<lambda>j. jb_status j = JS_RUNNING" row ?f] row in \<open>auto simp: erase_def rescheduled_def retryable_def\<close>)
  then show "refines_change i (retryable JS_RUNNING) (rescheduled next_at code stderr) s (OutBool True, snd (sql_update ?w ?f s))"
    by (simp add: refines_change_def same)
qed (auto simp: retryable_def)

lemma sqlite_retry_failed_refines:
  assumes "sqlite_good s"
  shows "refines_change i (retryable JS_FAILED) (retried now) s (sqlite_retry_failed i now s)"
  unfolding sqlite_retry_failed_def
proof (rule guarded_refines[OF assms])
  fix row assume row: "find_job i (db_jobs s) = Some row" "retryable JS_FAILED (erase row)"
  let ?w = "\<lambda>j. jb_job_id j = i \<and> jb_status j = JS_FAILED"
  let ?f = "\<lambda>j. j\<lparr>jb_status := JS_PENDING, jb_gate_state := GS_READY, jb_next_attempt_at := Some now,
                    jb_error_code := Some ''manual_retry'', jb_stderr := None, jb_finished_at := None, jb_updated_at := now\<rparr>"
  have same: "change_job i (retryable JS_FAILED) F (map erase (db_jobs s)) = change_job i (\<lambda>j. jb_status j = JS_FAILED) F (map erase (db_jobs s))" for F
    using row by (simp add: change_job_def find_job_erase retryable_def)
  have "refines_change i (\<lambda>j. jb_status j = JS_FAILED) (retried now) s (OutBool True, snd (sql_update ?w ?f s))"
    by (rule refines_changeI[OF assms])
      (use changed_count[OF assms, of ?w i "\<lambda>j. jb_status j = JS_FAILED" row ?f] row in \<open>auto simp: erase_def retried_def retryable_def\<close>)
  then show "refines_change i (retryable JS_FAILED) (retried now) s (OutBool True, snd (sql_update ?w ?f s))"
    by (simp add: refines_change_def same)
qed (auto simp: retryable_def)

text \<open>Results: the row and the results table are written together.\<close>

lemma result_write_good:
  assumes "sqlite_good s" "\<And>j. w j \<longleftrightarrow> jb_job_id j = i \<and> c (erase j)" "find_job i (db_jobs s) = Some row" "c (erase row)"
    "\<And>j. jb_job_id (f j) = jb_job_id j" "\<And>j. jb_result_json (f j) = Some r" "canonical_obj r = r"
    "\<And>j. jb_expected_output_schema (f j) = jb_expected_output_schema j"
  shows "sqlite_good (snd (sql_update w f (upsert_result i r now s)))"
proof -
  let ?g = "\<lambda>j. if w j then f j else j"
  have ids: "map jb_job_id (map ?g (db_jobs s)) = map jb_job_id (db_jobs s)" using assms(5) by simp
  then have d: "distinct (map jb_job_id (map ?g (db_jobs s)))" using sqlite_good_distinct[OF assms(1)] by metis
  have set_ids: "jb_job_id ` set (map ?g (db_jobs s)) = jb_job_id ` set (db_jobs s)" using ids by (metis list.set_map)
  have only: "k = row" if "k \<in> set (db_jobs s)" "jb_job_id k = i" for k
    by (metis assms(3) find_job_distinct[OF sqlite_good_distinct[OF assms(1)]] option.inject that)
  have rows: "map_option fst (map_of (AList.update i (r, t) (db_results s)) (jb_job_id (?g k))) = jb_result_json (?g k)
      \<and> map_option canonical_obj (jb_result_json (?g k)) = jb_result_json (?g k)
      \<and> map_option canonical_obj (jb_expected_output_schema (?g k)) = jb_expected_output_schema (?g k)" if k: "k \<in> set (db_jobs s)" for k t
  proof (cases "jb_job_id k = i")
    case True
    with only[OF k] assms(2,4) have "w k" by simp
    with True k assms show ?thesis by (auto simp: update_conv' sqlite_good_def)
  next
    case False
    with assms(2) have "\<not> w k" by simp
    with False k assms(1) show ?thesis by (auto simp: update_conv' sqlite_good_def)
  qed
  have "fst ` set (AList.update i (r, t) (db_results s)) \<subseteq> jb_job_id ` set (db_jobs s)" for t
  proof -
    have "fst ` set (AList.update i (r, t) (db_results s)) = insert i (fst ` set (db_results s))"
      by (auto simp: update_keys insert_absorb set_map[symmetric] simp del: set_map)
    then show ?thesis using assms(1) find_job_Some[OF assms(3)] by (auto simp: sqlite_good_def)
  qed
  note keys = this
  let ?t = "case map_of (db_results s) i of Some (_, t) \<Rightarrow> t | None \<Rightarrow> now"
  have db: "db_jobs (snd (sql_update w f (upsert_result i r now s))) = map ?g (db_jobs s)"
    "db_results (snd (sql_update w f (upsert_result i r now s))) = AList.update i (r, ?t) (db_results s)"
    by (simp_all add: sql_update_def upsert_result_def)
  show ?thesis unfolding sqlite_good_def db set_ids
  proof (intro conjI d keys ballI)
    fix x assume "x \<in> set (map ?g (db_jobs s))"
    then obtain k where k: "k \<in> set (db_jobs s)" "x = ?g k" by (simp only: set_map image_iff) blast
    from rows[OF k(1), of ?t] show "map_option fst (map_of (AList.update i (r, ?t) (db_results s)) (jb_job_id x)) = jb_result_json x"
      "map_option canonical_obj (jb_result_json x) = jb_result_json x"
      "map_option canonical_obj (jb_expected_output_schema x) = jb_expected_output_schema x"
      by (simp_all only: k(2))
  qed
qed

lemma result_write_refines:
  assumes "sqlite_good s" "\<And>j. w j \<longleftrightarrow> jb_job_id j = i \<and> c (erase j)" "find_job i (db_jobs s) = Some row" "c (erase row)"
    "\<And>j. jb_job_id (f j) = jb_job_id j" "\<And>j. jb_result_json (f j) = Some r" "canonical_obj r = r"
    "\<And>j. jb_expected_output_schema (f j) = jb_expected_output_schema j" "\<And>j. erase (f j) = F (erase j)"
  shows "refines_change i c F s (OutBool (0 < fst (sql_update w f (upsert_result i r now s))), snd (sql_update w f (upsert_result i r now s)))"
proof -
  have jobs: "db_jobs (upsert_result i r now s) = db_jobs s" by (simp add: upsert_result_def)
  have "distinct (map jb_job_id (db_jobs (upsert_result i r now s)))" using sqlite_good_distinct[OF assms(1)] by (simp add: jobs)
  from sql_update_change(1)[OF this, where w = w and i = i and c = c and f = f and F = F, OF assms(2) assms(9)] result_write_good[OF assms(1-8)]
  show ?thesis unfolding refines_change_def jobs fst_conv snd_conv by blast
qed

lemma sqlite_mark_success_refines:
  assumes "sqlite_good s"
  shows "sqlite_good (snd (sqlite_mark_success i w result path conv head gate now s))
    \<and> (fst (sqlite_mark_success i w result path conv head gate now s), map erase (db_jobs (snd (sqlite_mark_success i w result path conv head gate now s))))
      = spec_run (MarkSuccess i w result path conv head gate now t) (map erase (db_jobs s))"
proof (cases "find_job i (db_jobs s)")
  case None
  with assms show ?thesis by (simp add: sqlite_mark_success_def find_job_erase)
next
  case (Some row)
  have row: "row \<in> set (db_jobs s)" "jb_job_id row = i" using find_job_Some[OF Some] by auto
  then have res: "map_option fst (map_of (db_results s) i) = jb_result_json row" "map_option canonical_obj (jb_result_json row) = jb_result_json row"
    using assms by (auto simp: sqlite_good_def)
  show ?thesis
  proof (cases "may_finish w JS_SUCCEEDED row")
    case False
    with Some assms show ?thesis
      by (auto simp: sqlite_mark_success_def find_job_erase may_finish_def change_job_def Let_def)
  next
    case True
    have conflict: "(case map_of (db_results s) i of Some (r, _) \<Rightarrow> r \<noteq> json_dumps result | None \<Rightarrow> False)
        \<longleftrightarrow> jb_result_json row \<notin> {None, Some (json_dumps result)}"
      by (cases "map_of (db_results s) i") (auto simp: res(1)[symmetric])
    let ?w = "\<lambda>j. jb_job_id j = i \<and> (jb_status j = JS_SUCCEEDED \<or> (jb_status j = JS_RUNNING \<and> jb_worker_id j = Some w))"
    let ?f = "\<lambda>j. j\<lparr>jb_status := JS_SUCCEEDED, jb_gate_state := gate, jb_result_path := Some path,
                     jb_result_json := Some (json_dumps result), jb_conversation_id := coalesce conv (jb_conversation_id j),
                     jb_head_sha := coalesce head (jb_head_sha j), jb_finished_at := Some now, jb_updated_at := now,
                     jb_lease_until := None, jb_worker_id := None, jb_error_code := None, jb_stderr := None\<rparr>"
    have wr: "refines_change i (may_finish w JS_SUCCEEDED) (succeeded result path conv head gate now) s
      (OutBool (0 < fst (sql_update ?w ?f (upsert_result i (json_dumps result) now s))), snd (sql_update ?w ?f (upsert_result i (json_dumps result) now s)))"
      by (rule result_write_refines[OF assms _ Some])
        (use True in \<open>auto simp: may_finish_def json_dumps_def erase_def succeeded_def coalesce_def split: option.splits\<close>)
    have guard: "\<not> (jb_status row \<notin> {JS_RUNNING, JS_SUCCEEDED} \<or> (jb_status row = JS_RUNNING \<and> jb_worker_id row \<noteq> Some w))"
      using True by (auto simp: may_finish_def)
    show ?thesis
    proof (rule case_split[of "jb_result_json row \<in> {None, Some (json_dumps result)}"])
      assume clean: "jb_result_json row \<in> {None, Some (json_dumps result)}"
      have "sqlite_mark_success i w result path conv head gate now s
          = (OutBool (0 < fst (sql_update ?w ?f (upsert_result i (json_dumps result) now s))), snd (sql_update ?w ?f (upsert_result i (json_dumps result) now s)))"
        unfolding sqlite_mark_success_def Let_def Some option.case if_not_P[OF guard] conflict using clean by (auto simp: case_prod_beta)
      moreover have "spec_run (MarkSuccess i w result path conv head gate now t) (map erase (db_jobs s))
          = change_job i (may_finish w JS_SUCCEEDED) (succeeded result path conv head gate now) (map erase (db_jobs s))"
        using clean Some res(2) by (auto simp: find_job_erase json_dumps_def)
      ultimately show ?thesis using wr by (simp only: refines_change_def fst_conv snd_conv)
    next
      assume differs: "jb_result_json row \<notin> {None, Some (json_dumps result)}"
      have "sqlite_mark_success i w result path conv head gate now s = (OutError (QueueConflictError i), s)"
        unfolding sqlite_mark_success_def Let_def Some option.case if_not_P[OF guard] conflict using differs by auto
      moreover have "spec_run (MarkSuccess i w result path conv head gate now t) (map erase (db_jobs s))
          = (OutError (QueueConflictError i), map erase (db_jobs s))"
        using differs True Some res(2) by (auto simp: find_job_erase json_dumps_def may_finish_def)
      ultimately show ?thesis using assms by simp
    qed
  qed
qed

lemma sqlite_mark_failure_refines:
  assumes "sqlite_good s"
  shows "refines_change i (may_finish w JS_FAILED) (failed code stderr result head gate now) s
    (sqlite_mark_failure i w code stderr result head gate now s)"
  unfolding sqlite_mark_failure_def Let_def case_prod_beta
proof (rule guarded_refines[OF assms])
  fix row assume row: "find_job i (db_jobs s) = Some row" "may_finish w JS_FAILED (erase row)"
  let ?w = "\<lambda>j. jb_job_id j = i \<and> (jb_status j = JS_FAILED \<or> (jb_status j = JS_RUNNING \<and> jb_worker_id j = Some w))"
  let ?f = "\<lambda>j. j\<lparr>jb_status := JS_FAILED, jb_gate_state := gate, jb_error_code := Some code, jb_stderr := stderr,
      jb_result_json := coalesce (map_option json_dumps result) (jb_result_json j), jb_head_sha := coalesce head (jb_head_sha j),
      jb_finished_at := Some now, jb_updated_at := now, jb_lease_until := None, jb_worker_id := None\<rparr>"
  let ?s = "case map_option json_dumps result of Some r \<Rightarrow> upsert_result i r now s | None \<Rightarrow> s"
  show "refines_change i (may_finish w JS_FAILED) (failed code stderr result head gate now) s
      (OutBool (0 < fst (sql_update ?w ?f ?s)), snd (sql_update ?w ?f ?s))"
  proof (cases result)
    case None
    show ?thesis unfolding None option.map option.case
      by (rule refines_changeI[OF assms]) (auto simp: may_finish_def erase_def failed_def coalesce_def split: option.splits)
  next
    case (Some r)
    show ?thesis unfolding Some option.map option.case
      by (rule result_write_refines[OF assms _ row(1)])
        (use row(2) in \<open>auto simp: may_finish_def erase_def failed_def coalesce_def json_dumps_def split: option.splits\<close>)
  qed
qed (auto simp: may_finish_def)

lemma claimable_erase: "sql_claimable now kinds q j \<longleftrightarrow> claimable now kinds (map erase q) (erase j)"
  by (auto simp: sql_claimable_def claimable_def scope_busy_def list_ex_iff split: option.splits)

lemma sqlite_claim_next_refines:
  assumes "sqlite_good s"
  shows "sqlite_good (snd (sqlite_claim_next w now ttl kinds s))
    \<and> (erase_outcome (fst (sqlite_claim_next w now ttl kinds s)), map erase (db_jobs (snd (sqlite_claim_next w now ttl kinds s))))
      = spec_run (ClaimNext w now ttl kinds) (map erase (db_jobs s))"
proof -
  let ?jobs = "db_jobs s"
  have pick: "first_job (filter (claimable now kinds (map erase ?jobs)) (map erase ?jobs))
      = map_option erase (first_job (filter (sql_claimable now kinds ?jobs) ?jobs))"
    by (simp add: filter_map comp_def claimable_erase[abs_def] first_job_erase)
  show ?thesis
  proof (cases "kinds = Some [] \<or> first_job (filter (sql_claimable now kinds ?jobs) ?jobs) = None")
    case True
    then have "first_job (filter (sql_claimable now kinds ?jobs) ?jobs) = None"
      by (auto simp: first_job_None filter_empty_conv sql_claimable_def)
    with True assms show ?thesis by (auto simp: sqlite_claim_next_def pick)
  next
    case False
    then obtain row where row: "first_job (filter (sql_claimable now kinds ?jobs) ?jobs) = Some row" by blast
    then have in_jobs: "row \<in> set ?jobs" and c: "sql_claimable now kinds ?jobs row" using first_job_Some by fastforce+
    show ?thesis
    proof (cases "lease_expiry now ttl")
      case (Inl e)
      with row False assms show ?thesis by (simp add: sqlite_claim_next_def pick)
    next
      case (Inr lease)
      let ?w = "\<lambda>j. jb_job_id j = jb_job_id row \<and> jb_status j = JS_PENDING"
      let ?f = "\<lambda>j. j\<lparr>jb_status := JS_RUNNING, jb_attempt := jb_attempt j + 1, jb_lease_until := Some lease,
                           jb_worker_id := Some w, jb_started_at := coalesce (jb_started_at j) (Some now),
                           jb_updated_at := now, jb_error_code := None, jb_stderr := None\<rparr>"
      let ?s = "snd (sql_update ?w ?f s)"
      have d: "distinct (map jb_job_id ?jobs)" using sqlite_good_distinct[OF assms] .
      have ch: "refines_change (jb_job_id row) (\<lambda>j. jb_status j = JS_PENDING) (claimed w now lease) s
          (OutBool (0 < fst (sql_update ?w ?f s)), ?s)"
        by (rule refines_changeI[OF assms]) (auto simp: erase_def claimed_def)
      have found: "find_job (jb_job_id row) (map erase ?jobs) = Some (erase row)"
        using find_job_distinct[OF d in_jobs] by (simp add: find_job_erase)
      have view: "map erase (db_jobs ?s) = update_job (jb_job_id row) (claimed w now lease) (map erase ?jobs)"
        and good: "sqlite_good ?s"
        using ch found c by (simp_all add: refines_change_def change_job_def sql_claimable_def)
      have "find_job (jb_job_id row) (map erase (db_jobs ?s)) = Some (claimed w now lease (erase row))"
        using found by (simp add: view find_job_update)
      then obtain row' where row': "find_job (jb_job_id row) (db_jobs ?s) = Some row'" "erase row' = claimed w now lease (erase row)"
        by (auto simp: find_job_erase)
      then have "map_option erase (select_job ?s (jb_job_id row)) = Some (claimed w now lease (erase row))"
        using row_to_job_good[OF good] find_job_Some[OF row'(1)] by (simp add: select_job_def)
      moreover have "sqlite_claim_next w now ttl kinds s = (OutClaim (select_job ?s (jb_job_id row)), ?s)"
        using False by (simp only: sqlite_claim_next_def row Inr option.case sum.case Let_def case_prod_beta) simp
      ultimately show ?thesis using good by (simp add: view pick row Inr)
    qed
  qed
qed

text \<open>The loop over the expired rows reaches each of them once.\<close>

lemma recover_row_jobs:
  assumes "jb_status row = JS_RUNNING"
  shows "db_jobs (sqlite_recover_row now row s)
    = map (\<lambda>j. if jb_job_id j = jb_job_id row \<and> jb_status j = JS_RUNNING
         then (if unsafe_effect (jb_external_effect_class row) \<or> jb_attempt row \<ge> jb_max_attempts row
           then j\<lparr>jb_status := JS_FAILED, jb_gate_state := GS_BLOCKED,
                jb_error_code := Some (if unsafe_effect (jb_external_effect_class row) then ''external_effect_uncertain'' else ''lease_expired_attempts_exhausted''),
                jb_finished_at := Some now, jb_updated_at := now, jb_lease_until := None, jb_worker_id := None\<rparr>
           else j\<lparr>jb_status := JS_PENDING, jb_gate_state := GS_READY,
                jb_error_code := Some ''lease_expired'', jb_next_attempt_at := Some now, jb_updated_at := now,
                jb_lease_until := None, jb_worker_id := None\<rparr>) else j) (db_jobs s)"
  by (auto simp: sqlite_recover_row_def sql_update_def Let_def)

lemma recover_row_good: "sqlite_good s \<Longrightarrow> sqlite_good (sqlite_recover_row now row s)"
  unfolding sqlite_recover_row_def Let_def by (auto intro!: sql_update_good)

lemma recover_row_view:
  assumes "distinct (map jb_job_id (db_jobs s))" "row \<in> set (db_jobs s)" "jb_status row = JS_RUNNING"
  shows "map erase (db_jobs (sqlite_recover_row now row s)) = update_job (jb_job_id row) (recovered now) (map erase (db_jobs s))"
proof -
  have only: "k = row" if "k \<in> set (db_jobs s)" "jb_job_id k = jb_job_id row" for k
    by (metis find_job_distinct[OF assms(1)] assms(2) that option.inject)
  show ?thesis unfolding recover_row_jobs[OF assms(3)] update_job_def
    by (auto simp: recovered_def erase_def assms(3) dest: only)
qed

lemma recover_loop:
  assumes "sqlite_good s" "\<forall>row \<in> set rows. row \<in> set (db_jobs s) \<and> jb_status row = JS_RUNNING" "distinct (map jb_job_id rows)"
  shows "sqlite_good (foldl (\<lambda>s row. sqlite_recover_row now row s) s rows)
    \<and> map erase (db_jobs (foldl (\<lambda>s row. sqlite_recover_row now row s) s rows))
      = map (\<lambda>j. if jb_job_id j \<in> jb_job_id ` set rows then recovered now j else j) (map erase (db_jobs s))"
  using assms
proof (induction rows arbitrary: s)
  case (Cons row rows)
  let ?s = "sqlite_recover_row now row s"
  have run: "row \<in> set (db_jobs s)" "jb_status row = JS_RUNNING" using Cons.prems(2) by simp_all
  have "r \<in> set (db_jobs ?s)" if "r \<in> set rows" for r
  proof -
    from that Cons.prems(2) have "r \<in> set (db_jobs s)" by simp
    moreover have "jb_job_id r \<noteq> jb_job_id row" using that Cons.prems(3) by (metis distinct.simps(2) image_eqI list.set_map list.simps(9))
    ultimately have "r \<in> set (db_jobs s)" "jb_job_id r \<noteq> jb_job_id row" by simp_all
    then show ?thesis unfolding recover_row_jobs[OF run(2)] by (force intro: image_eqI[of _ _ r])
  qed
  with Cons.IH[OF recover_row_good[OF Cons.prems(1)], of now row] Cons.prems(2,3)
  have ih: "sqlite_good (foldl (\<lambda>s row. sqlite_recover_row now row s) ?s rows)"
    "map erase (db_jobs (foldl (\<lambda>s row. sqlite_recover_row now row s) ?s rows))
      = map (\<lambda>j. if jb_job_id j \<in> jb_job_id ` set rows then recovered now j else j) (map erase (db_jobs ?s))"
    by auto
  have "jb_job_id row \<notin> jb_job_id ` set rows" using Cons.prems(3) by simp
  then have "map (\<lambda>j. if jb_job_id j \<in> jb_job_id ` set rows then recovered now j else j) (map erase (db_jobs ?s))
      = map (\<lambda>j. if jb_job_id j \<in> jb_job_id ` set (row # rows) then recovered now j else j) (map erase (db_jobs s))"
    unfolding recover_row_view[OF sqlite_good_distinct[OF Cons.prems(1)] run] update_job_def by auto
  with ih show ?case by simp
qed simp

lemma sqlite_recover_expired_refines:
  assumes "sqlite_good s"
  shows "sqlite_good (snd (sqlite_recover_expired now s))
    \<and> (fst (sqlite_recover_expired now s), map erase (db_jobs (snd (sqlite_recover_expired now s))))
      = spec_run (RecoverExpired now) (map erase (db_jobs s))"
proof -
  let ?e = "\<lambda>j. jb_status j = JS_RUNNING \<and> (case jb_lease_until j of None \<Rightarrow> False | Some t \<Rightarrow> t < now)"
  let ?rows = "filter ?e (db_jobs s)"
  have e: "?e j \<longleftrightarrow> expired now (erase j)" for j by (auto simp: expired_def split: option.splits)
  have d: "distinct (map jb_job_id (db_jobs s))" using sqlite_good_distinct[OF assms] .
  then have "distinct (map jb_job_id ?rows)" by (rule distinct_map_filter)
  with recover_loop[OF assms, of ?rows now] have loop:
    "sqlite_good (foldl (\<lambda>s row. sqlite_recover_row now row s) s ?rows)"
    "map erase (db_jobs (foldl (\<lambda>s row. sqlite_recover_row now row s) s ?rows))
      = map (\<lambda>j. if jb_job_id j \<in> jb_job_id ` set ?rows then recovered now j else j) (map erase (db_jobs s))"
    by auto
  have "jb_job_id j \<in> jb_job_id ` set ?rows \<longleftrightarrow> expired now (erase j)" if "j \<in> set (db_jobs s)" for j
  proof
    assume "jb_job_id j \<in> jb_job_id ` set ?rows"
    then obtain k where "k \<in> set (db_jobs s)" "?e k" "jb_job_id k = jb_job_id j" by auto
    then have "k = j" by (metis find_job_distinct[OF d] that option.inject)
    with \<open>?e k\<close> e show "expired now (erase j)" by simp
  qed (use that e in auto)
  then have "map (\<lambda>j. if jb_job_id j \<in> jb_job_id ` set ?rows then recovered now j else j) (map erase (db_jobs s))
      = map (\<lambda>j. if expired now j then recovered now j else j) (map erase (db_jobs s))" by simp
  moreover have "map jb_job_id ?rows = map jb_job_id (filter (expired now) (map erase (db_jobs s)))"
    by (simp add: filter_map comp_def e)
  ultimately show ?thesis using loop by (simp add: sqlite_recover_expired_def Let_def)
qed

section \<open>The backend refines the abstract queue\<close>

lemma sqlite_create_job_refines:
  assumes "sqlite_good s"
  shows "sqlite_good (snd (sqlite_create_job j s))
    \<and> (erase_outcome (fst (sqlite_create_job j s)), map erase (db_jobs (snd (sqlite_create_job j s)))) = spec_run (Create j) (map erase (db_jobs s))"
proof (cases "find_job (jb_job_id j) (db_jobs s)")
  case None
  then have new: "jb_job_id j \<notin> jb_job_id ` set (db_jobs s)" by (simp add: find_job_None)
  then have "map_of (db_results s) (jb_job_id j) = None" using assms by (auto simp: sqlite_good_def map_of_eq_None_iff)
  with None new assms show ?thesis
    by (auto simp: sqlite_create_job_def find_job_erase sqlite_good_def stored_def json_dumps_def option.map_comp comp_def)
      (simp_all add: erase_def json_dumps_def[abs_def] comp_def option.map_comp)
qed (use assms in \<open>simp add: sqlite_create_job_def find_job_erase\<close>)

lemma sqlite_run_refines:
  assumes "sqlite_good s"
  shows "sqlite_good (snd (sqlite_run op s)) \<and> map erase (db_jobs (snd (sqlite_run op s))) = snd (spec_run op (map erase (db_jobs s)))
    \<and> (answers op \<longrightarrow> erase_outcome (fst (sqlite_run op s)) = fst (spec_run op (map erase (db_jobs s))))"
proof -
  have bool: "erase_outcome (fst (change_job i c F q)) = fst (change_job i c F q)" for i c F q
    by (simp add: change_job_def split: option.splits)
  have one: "sqlite_good (snd r) \<and> map erase (db_jobs (snd r)) = snd (change_job i c F (map erase (db_jobs s)))
      \<and> erase_outcome (fst r) = fst (change_job i c F (map erase (db_jobs s)))" if "refines_change i c F s r" for i c F r
    using that bool unfolding refines_change_def by (metis fst_conv snd_conv)
  show ?thesis
  proof (cases op)
    case (Create j)
    then show ?thesis using sqlite_create_job_refines[OF assms, of j] by (metis fst_conv snd_conv sqlite_run.simps(1))
  next
    case (ClaimNext w now ttl kinds)
    then show ?thesis using sqlite_claim_next_refines[OF assms, of w now ttl kinds] by (metis fst_conv snd_conv sqlite_run.simps(2))
  next
    case (Heartbeat i w lease t)
    then show ?thesis using one[OF sqlite_heartbeat_refines[OF assms, of i w lease t]] by simp
  next
    case (RecoverExpired now)
    then show ?thesis using sqlite_recover_expired_refines[OF assms, of now] by (simp add: sqlite_recover_expired_def Let_def)
  next
    case (AppendEvent i e ty t)
    then show ?thesis using assms by (simp add: sqlite_append_event_def answers_def sqlite_good_def Let_def)
  next
    case (UpdateConversation i c t)
    have "map erase (db_jobs (snd (sqlite_update_conversation_id i c t s)))
        = update_job i (\<lambda>j. j\<lparr>jb_conversation_id := Some c\<rparr>) (map erase (db_jobs s))"
      by (simp add: sqlite_update_conversation_id_def sql_update_def update_job_def erase_def)
    moreover have "sqlite_good (snd (sqlite_update_conversation_id i c t s))"
      unfolding sqlite_update_conversation_id_def by (auto intro!: sql_update_good[OF assms])
    ultimately show ?thesis using UpdateConversation by (simp add: sqlite_update_conversation_id_def)
  next
    case (MarkSuccess i w result path conv head gate t t')
    have "erase_outcome (fst (sqlite_mark_success i w result path conv head gate t s)) = fst (sqlite_mark_success i w result path conv head gate t s)"
      by (simp add: sqlite_mark_success_def Let_def case_prod_beta split: option.splits)
    with MarkSuccess show ?thesis using sqlite_mark_success_refines[OF assms, of i w result path conv head gate t t']
      by (metis fst_conv snd_conv sqlite_run.simps(7))
  next
    case (MarkFailure i w code stderr result head gate t t')
    then show ?thesis using one[OF sqlite_mark_failure_refines[OF assms, of i w code stderr result head gate t]] by simp
  next
    case (ScheduleRetry i next_at code stderr t)
    then show ?thesis using one[OF sqlite_schedule_retry_refines[OF assms, of i next_at code stderr t]] by simp
  next
    case (RetryFailed i now t)
    then show ?thesis using one[OF sqlite_retry_failed_refines[OF assms, of i now]] by simp
  next
    case (Cancel i t t')
    then show ?thesis using one[OF sqlite_cancel_refines[OF assms, of i t t']] by simp
  qed
qed

interpretation sqlite: queue_store sqlite_run sqlite_init sqlite_view sqlite_good "\<lambda>_. True"
proof
  show "sqlite_good sqlite_init" "sqlite_view sqlite_init = []" by (simp_all add: sqlite_good_def sqlite_init_def sqlite_view_def)
  fix s op assume good: "sqlite_good s"
  show "sqlite_good (snd (sqlite_run op s))" using sqlite_run_refines[OF good] by blast
  then show "sqlite_view (snd (sqlite_run op s)) = snd (spec_run op (sqlite_view s))"
    using sqlite_run_refines[OF good, of op] good by (simp add: sqlite_view_good)
  show "answers op \<Longrightarrow> erase_outcome (fst (sqlite_run op s)) = fst (spec_run op (sqlite_view s))"
    using sqlite_run_refines[OF good, of op] good by (simp add: sqlite_view_good)
next
  fix s op assume "\<not> answers op"
  then show "\<not> started_job (fst (sqlite_run op s))"
    by (auto simp: answers_def sqlite_append_event_def Let_def split: queue_op.splits)
qed

end
