(* ===== verification/JsonlQueue.thy ===== *)
theory JsonlQueue
  imports QueueSpec
begin

text \<open>
  The JSONL backend of the job queue (\<open>JsonlQueueStore\<close> in \<open>apps/agy_queue/storage.py\<close>): two files
  of JSON lines, replayed in full before every operation. A line that does not parse is
  \<open>Malformed\<close>; what is appended is redacted and has its keys sorted. The writer lock makes each
  operation one step; waiting for it is not modelled. At the end the backend is an interpretation of
  \<open>queue_store\<close> for operations whose texts redaction leaves alone.
\<close>

section \<open>Files\<close>

datatype jsonl_line = Line json | Malformed

record JsonlStore =
  jl_inbox :: "jsonl_line list"
  jl_event_log :: "jsonl_line list"

definition jsonl_init :: JsonlStore where
  "jsonl_init = \<lparr>jl_inbox = [], jl_event_log = []\<rparr>"

text \<open>\<open>_append\<close>: the line that is written for a payload.\<close>

definition append_line :: "jobject \<Rightarrow> jsonl_line" where
  "append_line payload = Line (canonical (redact_json (JObject payload)))"

text \<open>One iteration of \<open>_read_jobs\<close>. \<open>record.get\<close> on a value that is no object and an unhashable
  record type raise (\<open>TypeError\<close> here).\<close>

definition line_job :: "jsonl_line \<Rightarrow> queue_error + JobRecord option" where
  "line_job l =
     (case l of
        Malformed \<Rightarrow> Inl (QueueStorageError ''Malformed JSONL record'')
      | Line (JObject d) \<Rightarrow>
          (case json_get d ''record_type'' of
             JStr ty \<Rightarrow>
               if ty \<in> {''job'', ''job_update''}
               then (case map_of d ''job'' of
                       None \<Rightarrow> Inl (PayloadError (KeyError ''job''))
                     | Some (JObject p) \<Rightarrow> (case payload_to_job p of Inl e \<Rightarrow> Inl (PayloadError e) | Inr j \<Rightarrow> Inr (Some j))
                     | Some _ \<Rightarrow> Inl (PayloadError TypeError))
               else Inr None
           | JList _ \<Rightarrow> Inl (PayloadError TypeError)
           | JObject _ \<Rightarrow> Inl (PayloadError TypeError)
           | _ \<Rightarrow> Inr None)
      | Line _ \<Rightarrow> Inl (PayloadError TypeError))"

definition read_line :: "jsonl_line \<Rightarrow> (string, JobRecord) dict \<Rightarrow> queue_error + (string, JobRecord) dict" where
  "read_line l jobs =
     res_bind (line_job l) (\<lambda>r. Inr (case r of Some j \<Rightarrow> AList.update (jb_job_id j) j jobs | None \<Rightarrow> jobs))"

definition read_jobs :: "JsonlStore \<Rightarrow> queue_error + (string, JobRecord) dict" where
  "read_jobs s = res_fold read_line (jl_inbox s @ jl_event_log s) []"

definition append_update :: "JobRecord \<Rightarrow> JsonlStore \<Rightarrow> JsonlStore" where
  "append_update job s = s\<lparr>jl_event_log := jl_event_log s @
     [append_line [(''record_type'', JStr ''job_update''), (''job'', JObject (job_payload job))]]\<rparr>"

text \<open>\<open>_mutate\<close>: the operation returns the job as it assigned it and whether it changed it. The
  update is appended in either case.\<close>

definition jsonl_mutate ::
  "string \<Rightarrow> (JobRecord \<Rightarrow> queue_error + JobRecord \<times> bool) \<Rightarrow> string \<Rightarrow> JsonlStore \<Rightarrow> outcome \<times> JsonlStore" where
  "jsonl_mutate i operation now s =
     (case read_jobs s of
        Inl e \<Rightarrow> (OutError e, s)
      | Inr jobs \<Rightarrow>
          (case map_of jobs i of
             None \<Rightarrow> (OutBool False, s)
           | Some j \<Rightarrow>
               (case operation j of
                  Inl e \<Rightarrow> (OutError e, s)
                | Inr (j', changed) \<Rightarrow> (OutBool changed, append_update (j'\<lparr>jb_updated_at := now\<rparr>) s))))"

section \<open>Operations\<close>

definition jsonl_create_job :: "JobRecord \<Rightarrow> JsonlStore \<Rightarrow> outcome \<times> JsonlStore" where
  "jsonl_create_job job s =
     (case read_jobs s of
        Inl e \<Rightarrow> (OutError e, s)
      | Inr jobs \<Rightarrow>
          if map_of jobs (jb_job_id job) \<noteq> None then (OutError (QueueConflictError (jb_job_id job)), s)
          else (OutJob job, s\<lparr>jl_inbox := jl_inbox s @
                 [append_line [(''record_type'', JStr ''job''), (''job'', JObject (job_payload job))]]\<rparr>))"

definition jsonl_get :: "string \<Rightarrow> JsonlStore \<Rightarrow> queue_error + JobRecord option" where
  "jsonl_get i s = res_bind (read_jobs s) (\<lambda>jobs. Inr (map_of jobs i))"

definition jsonl_list :: "JobStatus option \<Rightarrow> JobKind option \<Rightarrow> int \<Rightarrow> JsonlStore \<Rightarrow> queue_error + JobRecord list" where
  "jsonl_list status kind limit s =
     res_bind (read_jobs s) (\<lambda>d.
       let jobs = filter (\<lambda>j. (\<forall>x \<in> set_option status. jb_status j = x) \<and> (\<forall>k \<in> set_option kind. jb_job_kind j = k)) (map snd d)
       in Inr (take (nat (max 1 (min limit 1000))) (rev (sort_key (\<lambda>j. (jb_created_at j, jb_job_id j)) jobs))))"

definition jsonl_claimable :: "string \<Rightarrow> JobKind list option \<Rightarrow> string option set \<Rightarrow> JobRecord \<Rightarrow> bool" where
  "jsonl_claimable now eligible running_scopes j =
     (jb_status j = JS_PENDING \<and> jb_gate_state j = GS_READY \<and> jb_attempt j < jb_max_attempts j
      \<and> (jb_next_attempt_at j = None \<or> the (jb_next_attempt_at j) \<le> now)
      \<and> (eligible = None \<or> jb_job_kind j \<in> set (the eligible))
      \<and> (jb_scope_key j = None \<or> jb_scope_key j \<notin> running_scopes))"

definition jsonl_claim_next :: "string \<Rightarrow> string \<Rightarrow> int \<Rightarrow> JobKind list option \<Rightarrow> JsonlStore \<Rightarrow> outcome \<times> JsonlStore" where
  "jsonl_claim_next worker now ttl kinds s =
     (case read_jobs s of
        Inl e \<Rightarrow> (OutError e, s)
      | Inr d \<Rightarrow>
          let jobs = map snd d;
              running_scopes = jb_scope_key ` set (filter (\<lambda>j. jb_status j = JS_RUNNING \<and> jb_scope_key j \<noteq> None) jobs)
          in (case first_job (filter (jsonl_claimable now kinds running_scopes) jobs) of
                None \<Rightarrow> (OutClaim None, s)
              | Some j \<Rightarrow>
                  (case lease_expiry now ttl of
                     Inl e \<Rightarrow> (OutError e, s)
                   | Inr lease \<Rightarrow>
                       let j' = j\<lparr>jb_status := JS_RUNNING, jb_attempt := jb_attempt j + 1, jb_lease_until := Some lease,
                             jb_worker_id := Some worker,
                             jb_started_at := (if jb_started_at j \<in> {None, Some []} then Some now else jb_started_at j),
                             jb_updated_at := now, jb_error_code := None, jb_stderr := None\<rparr>
                       in (OutClaim (Some j'), append_update j' s))))"

definition jsonl_heartbeat :: "string \<Rightarrow> string \<Rightarrow> string \<Rightarrow> string \<Rightarrow> JsonlStore \<Rightarrow> outcome \<times> JsonlStore" where
  "jsonl_heartbeat i worker lease now s =
     jsonl_mutate i (\<lambda>j. Inr (if jb_status j = JS_RUNNING \<and> jb_worker_id j = Some worker then (j\<lparr>jb_lease_until := Some lease\<rparr>, True)
       else (j, False))) now s"

definition jsonl_recovered :: "string \<Rightarrow> JobRecord \<Rightarrow> JobRecord" where
  "jsonl_recovered now j =
     (let unsafe = unsafe_effect (jb_external_effect_class j); exhausted = jb_attempt j \<ge> jb_max_attempts j;
          j1 = (if unsafe \<or> exhausted
                then j\<lparr>jb_status := JS_FAILED, jb_gate_state := GS_BLOCKED,
                  jb_error_code := Some (if unsafe then ''external_effect_uncertain'' else ''lease_expired_attempts_exhausted''),
                  jb_finished_at := Some now\<rparr>
                else j\<lparr>jb_status := JS_PENDING, jb_gate_state := GS_READY, jb_error_code := Some ''lease_expired'',
                  jb_next_attempt_at := Some now\<rparr>)
      in j1\<lparr>jb_lease_until := None, jb_worker_id := None, jb_updated_at := now\<rparr>)"

definition jsonl_recover_expired :: "string \<Rightarrow> JsonlStore \<Rightarrow> outcome \<times> JsonlStore" where
  "jsonl_recover_expired now s =
     (case read_jobs s of
        Inl e \<Rightarrow> (OutError e, s)
      | Inr d \<Rightarrow>
          let rows = filter (\<lambda>j. \<not> (jb_status j \<noteq> JS_RUNNING \<or> jb_lease_until j \<in> {None, Some []} \<or> the (jb_lease_until j) \<ge> now)) (map snd d)
          in (OutIds (map jb_job_id rows), foldl (\<lambda>s j. append_update (jsonl_recovered now j) s) s rows))"

definition jsonl_append_event :: "string \<Rightarrow> json \<Rightarrow> string option \<Rightarrow> string \<Rightarrow> JsonlStore \<Rightarrow> outcome \<times> JsonlStore" where
  "jsonl_append_event i event ty now s =
     (OutUnit, s\<lparr>jl_event_log := jl_event_log s @
        [append_line [(''record_type'', JStr ''event''), (''job_id'', JStr i),
           (''event_type'', JStr (if ty \<in> {None, Some []} then ''unknown'' else the ty)), (''event'', redact_json event),
           (''created_at'', JStr now)]]\<rparr>)"

definition jsonl_update_conversation_id :: "string \<Rightarrow> string \<Rightarrow> string \<Rightarrow> JsonlStore \<Rightarrow> outcome \<times> JsonlStore" where
  "jsonl_update_conversation_id i conv now s =
     (case jsonl_mutate i (\<lambda>j. Inr (j\<lparr>jb_conversation_id := Some conv\<rparr>, True)) now s of
        (OutError e, s') \<Rightarrow> (OutError e, s')
      | (_, s') \<Rightarrow> (OutUnit, s'))"

text \<open>Python's \<open>x or y\<close> on optional strings.\<close>

definition or_else :: "string option \<Rightarrow> string option \<Rightarrow> string option" where
  "or_else x y = (if x \<in> {None, Some []} then y else x)"

definition jsonl_mark_success ::
  "string \<Rightarrow> string \<Rightarrow> jobject \<Rightarrow> string \<Rightarrow> string option \<Rightarrow> string option \<Rightarrow> GateState \<Rightarrow> string \<Rightarrow> string \<Rightarrow> JsonlStore \<Rightarrow> outcome \<times> JsonlStore" where
  "jsonl_mark_success i worker result path conv head gate now now' s =
     jsonl_mutate i (\<lambda>j.
       if jb_status j = JS_RUNNING \<and> jb_worker_id j \<noteq> Some worker then Inr (j, False)
       else if jb_status j \<notin> {JS_RUNNING, JS_SUCCEEDED} then Inr (j, False)
       else if (case jb_result_json j of None \<Rightarrow> False | Some r \<Rightarrow> canonical_obj (redact_obj r) \<noteq> canonical_obj (redact_obj result))
       then Inl (QueueConflictError i)
       else Inr (j\<lparr>jb_status := JS_SUCCEEDED, jb_gate_state := gate, jb_result_json := Some (redact_obj result),
              jb_result_path := Some path, jb_conversation_id := or_else conv (jb_conversation_id j),
              jb_head_sha := or_else head (jb_head_sha j), jb_finished_at := Some now, jb_lease_until := None,
              jb_worker_id := None, jb_error_code := None, jb_stderr := None\<rparr>, True)) now' s"

definition jsonl_mark_failure ::
  "string \<Rightarrow> string \<Rightarrow> string \<Rightarrow> string option \<Rightarrow> jobject option \<Rightarrow> string option \<Rightarrow> GateState \<Rightarrow> string \<Rightarrow> string \<Rightarrow> JsonlStore \<Rightarrow> outcome \<times> JsonlStore" where
  "jsonl_mark_failure i worker code stderr result head gate now now' s =
     jsonl_mutate i (\<lambda>j.
       if jb_status j = JS_RUNNING \<and> jb_worker_id j \<noteq> Some worker then Inr (j, False)
       else if jb_status j \<notin> {JS_RUNNING, JS_FAILED} then Inr (j, False)
       else Inr (j\<lparr>jb_status := JS_FAILED, jb_gate_state := gate, jb_error_code := Some code, jb_stderr := stderr,
              jb_result_json := (case result of Some r \<Rightarrow> Some (redact_obj r) | None \<Rightarrow> jb_result_json j),
              jb_head_sha := or_else head (jb_head_sha j), jb_finished_at := Some now, jb_lease_until := None,
              jb_worker_id := None\<rparr>, True)) now' s"

definition jsonl_schedule_retry :: "string \<Rightarrow> string \<Rightarrow> string \<Rightarrow> string option \<Rightarrow> string \<Rightarrow> JsonlStore \<Rightarrow> outcome \<times> JsonlStore" where
  "jsonl_schedule_retry i next_at code stderr now s =
     jsonl_mutate i (\<lambda>j.
       if jb_status j \<noteq> JS_RUNNING \<or> jb_attempt j \<ge> jb_max_attempts j \<or> unsafe_effect (jb_external_effect_class j) then Inr (j, False)
       else Inr (j\<lparr>jb_status := JS_PENDING, jb_gate_state := GS_READY, jb_next_attempt_at := Some next_at,
              jb_error_code := Some code, jb_stderr := stderr, jb_lease_until := None, jb_worker_id := None\<rparr>, True)) now s"

definition jsonl_retry_failed :: "string \<Rightarrow> string \<Rightarrow> string \<Rightarrow> JsonlStore \<Rightarrow> outcome \<times> JsonlStore" where
  "jsonl_retry_failed i now now' s =
     jsonl_mutate i (\<lambda>j.
       if jb_status j \<noteq> JS_FAILED \<or> jb_attempt j \<ge> jb_max_attempts j \<or> unsafe_effect (jb_external_effect_class j) then Inr (j, False)
       else Inr (j\<lparr>jb_status := JS_PENDING, jb_gate_state := GS_READY, jb_next_attempt_at := Some now,
              jb_error_code := Some ''manual_retry'', jb_stderr := None, jb_finished_at := None\<rparr>, True)) now' s"

definition jsonl_cancel :: "string \<Rightarrow> string \<Rightarrow> string \<Rightarrow> JsonlStore \<Rightarrow> outcome \<times> JsonlStore" where
  "jsonl_cancel i now now' s =
     jsonl_mutate i (\<lambda>j.
       if jb_status j \<in> {JS_PENDING, JS_RUNNING}
       then Inr (j\<lparr>jb_status := JS_CANCELLED, jb_gate_state := GS_BLOCKED, jb_finished_at := Some now, jb_lease_until := None,
              jb_worker_id := None\<rparr>, True)
       else Inr (j, False)) now' s"

fun jsonl_run :: "queue_op \<Rightarrow> JsonlStore \<Rightarrow> outcome \<times> JsonlStore" where
  "jsonl_run (Create j) s = jsonl_create_job j s"
| "jsonl_run (ClaimNext w now ttl kinds) s = jsonl_claim_next w now ttl kinds s"
| "jsonl_run (Heartbeat i w lease t) s = jsonl_heartbeat i w lease t s"
| "jsonl_run (RecoverExpired now) s = jsonl_recover_expired now s"
| "jsonl_run (AppendEvent i e ty t) s = jsonl_append_event i e ty t s"
| "jsonl_run (UpdateConversation i c t) s = jsonl_update_conversation_id i c t s"
| "jsonl_run (MarkSuccess i w result path conv head gate t t') s = jsonl_mark_success i w result path conv head gate t t' s"
| "jsonl_run (MarkFailure i w code stderr result head gate t t') s = jsonl_mark_failure i w code stderr result head gate t t' s"
| "jsonl_run (ScheduleRetry i next_at code stderr t) s = jsonl_schedule_retry i next_at code stderr t s"
| "jsonl_run (RetryFailed i now t) s = jsonl_retry_failed i now t s"
| "jsonl_run (Cancel i t t') s = jsonl_cancel i t t' s"

section \<open>Texts that redaction leaves alone\<close>

definition unredacted :: "string \<Rightarrow> bool" where "unredacted t = (redact_text t = t)"

definition stable_opt :: "string option \<Rightarrow> bool" where "stable_opt x = (\<forall>t \<in> set_option x. unredacted t)"

definition stable_obj :: "jobject option \<Rightarrow> bool" where "stable_obj x = (\<forall>d \<in> set_option x. redact_obj d = d)"

definition stable_job :: "JobRecord \<Rightarrow> bool" where
  "stable_job j =
     (list_all unredacted [jb_job_id j, jb_created_at j, jb_updated_at j, jb_prompt j, jb_repo j, jb_model j, jb_effort j]
      \<and> list_all stable_opt [jb_base_sha j, jb_lease_until j, jb_worker_id j, jb_conversation_id j, jb_result_path j,
           jb_raw_events_path j, jb_error_code j, jb_stderr j, jb_started_at j, jb_finished_at j, jb_branch j, jb_head_sha j,
           jb_next_attempt_at j, jb_session_key j, jb_scope_key j, jb_verification_job_id j]
      \<and> stable_obj (jb_expected_output_schema j) \<and> stable_obj (jb_result_json j)
      \<and> jb_lease_until j \<noteq> Some [] \<and> jb_started_at j \<noteq> Some [])"

text \<open>The stored form of such a job.\<close>

definition normal_job :: "JobRecord \<Rightarrow> JobRecord" where
  "normal_job j = j\<lparr>jb_authorization_ref := Some ''<REDACTED>'',
     jb_expected_output_schema := map_option canonical_obj (jb_expected_output_schema j),
     jb_result_json := map_option canonical_obj (jb_result_json j)\<rparr>"

lemma stable_opt_redact: "stable_opt x \<Longrightarrow> map_option redact_text x = x"
  by (cases x) (simp_all add: stable_opt_def unredacted_def)

lemma stable_obj_redact: "stable_obj x \<Longrightarrow> map_option (canonical_obj \<circ> redact_obj) x = map_option canonical_obj x"
  by (cases x) (simp_all add: stable_obj_def)

lemma stable_obj_canonical: "stable_obj x \<Longrightarrow> stable_obj (map_option canonical_obj x)"
  by (cases x) (simp_all add: stable_obj_def canonical_redact_obj[symmetric])

lemma redact_stable_job: "stable_job j \<Longrightarrow> redact_job j = normal_job j"
  by (simp add: stable_job_def redact_job_def normal_job_def stable_opt_redact stable_obj_redact unredacted_def)

lemma stable_normal_job: "stable_job j \<Longrightarrow> stable_job (normal_job j)"
  by (simp add: stable_job_def normal_job_def stable_obj_canonical)

lemma erase_normal_job [simp]: "erase (normal_job j) = erase j"
  by (simp add: erase_def normal_job_def)

lemma normal_job_id [simp]: "jb_job_id (normal_job j) = jb_job_id j"
  by (simp add: normal_job_def)

text \<open>Stamps are stable.\<close>

lemma stable_padded: "c \<in> set (show_padded k n) \<Longrightarrow> is_digit c"
  using show_padded_digits[of k n] by (simp add: list_all_iff)

lemma utc_iso_stable: "unredacted (utc_iso us)"
proof -
  have digit: "\<not> is_space c \<and> lower_char c \<notin> set ''io''" if "is_digit c" for c
    using that by (auto simp: is_digit_def is_space_def lower_char_def)
  have "\<not> is_space c \<and> lower_char c \<notin> set ''io''" if "c \<in> set (utc_iso us)" for c
  proof -
    from that consider "is_digit c" | "c \<in> set ''-T:.Z''"
      by (auto simp: utc_iso_def Let_def split: prod.splits dest: stable_padded)
    then show ?thesis using digit by cases (auto simp: is_space_def lower_char_def char_of_def)
  qed
  then show ?thesis unfolding unredacted_def by (intro redact_plain) blast+
qed

lemma stable_codes:
  "unredacted ''external_effect_uncertain''" "unredacted ''lease_expired_attempts_exhausted''" "unredacted ''lease_expired''" "unredacted ''manual_retry''"
  by (simp_all add: unredacted_def redact_plain is_space_def)

lemma lease_expiry_stable: "lease_expiry now ttl = Inr lease \<Longrightarrow> unredacted lease \<and> lease \<noteq> []"
  by (auto simp: lease_expiry_def Let_def utc_iso_stable split: option.splits if_splits) (auto simp: utc_iso_def Let_def split: prod.splits)

section \<open>Replay\<close>

text \<open>What is read back from the lines that the store appends.\<close>

lemma line_keys: "\<not> secret_key ''record_type''" "\<not> secret_key ''job''"
  by (simp_all add: secret_key_label lower_def lower_char_def key_labels_def joined_labels_def)

lemma redact_types: "redact_text ''job'' = ''job''" "redact_text ''job_update'' = ''job_update''" "redact_text ''event'' = ''event''"
  by (simp_all add: redact_plain is_space_def)

lemma line_job_append:
  assumes "distinct (map fst d)" "map_of d ''record_type'' = Some (JStr ty)" "redact_text ty = ty"
  shows "line_job (append_line d) =
    (if ty \<in> {''job'', ''job_update''}
     then (case map_of d ''job'' of
         None \<Rightarrow> Inl (PayloadError (KeyError ''job''))
       | Some v \<Rightarrow> (case canonical (redact_json v) of
             JObject p \<Rightarrow> (case payload_to_job p of Inl e \<Rightarrow> Inl (PayloadError e) | Inr j \<Rightarrow> Inr (Some j))
           | _ \<Rightarrow> Inl (PayloadError TypeError)))
     else Inr None)"
proof -
  have "map fst (redact_obj d) = map fst d" by (auto simp: redact_obj_def)
  with assms(1) have "distinct (map fst (redact_obj d))" by metis
  from map_of_canonical[OF this] assms(2,3) line_keys show ?thesis
    unfolding append_line_def redact_json_object canonical_object line_job_def
    by (simp add: map_of_redact json_get_def split: option.splits)
qed

lemma job_line: "line_job (append_line [(''record_type'', JStr ''job''), (''job'', JObject (job_payload j))]) = Inr (Some (redact_job j))"
  by (subst line_job_append[where ty = "''job''"]) (simp_all add: redact_types redact_json_object canonical_object payload_redacted del: redact_json.simps canonical.simps)

lemma update_line:
  "line_job (append_line [(''record_type'', JStr ''job_update''), (''job'', JObject (job_payload j))]) = Inr (Some (redact_job j))"
  by (subst line_job_append[where ty = "''job_update''"]) (simp_all add: redact_types redact_json_object canonical_object payload_redacted del: redact_json.simps canonical.simps)

lemma event_line:
  "line_job (append_line [(''record_type'', JStr ''event''), (''job_id'', a), (''event_type'', b), (''event'', c), (''created_at'', e)]) = Inr None"
  by (subst line_job_append[where ty = "''event''"]) (simp_all add: redact_types)

section \<open>Representation\<close>

text \<open>The inbox introduces every job, the event log only changes jobs of the inbox, and the jobs that
  replay yields are stored forms.\<close>

definition stored_jobs :: "(string, JobRecord) dict \<Rightarrow> bool" where
  "stored_jobs d = (distinct (map fst d) \<and> (\<forall>(k, j) \<in> set d. jb_job_id j = k \<and> stable_job j \<and> normal_job j = j))"

definition jsonl_good :: "JsonlStore \<Rightarrow> bool" where
  "jsonl_good s =
     (\<exists>d0 d. res_fold read_line (jl_inbox s) [] = Inr d0 \<and> res_fold read_line (jl_event_log s) d0 = Inr d
        \<and> map fst d = map fst d0 \<and> stored_jobs d
        \<and> (\<forall>l \<in> set (jl_event_log s). \<forall>j. line_job l = Inr (Some j) \<longrightarrow> jb_job_id j \<in> set (map fst d0)))"

definition jsonl_view :: "JsonlStore \<Rightarrow> JobRecord list" where
  "jsonl_view s = (case read_jobs s of Inr d \<Rightarrow> map (\<lambda>(k, j). erase j) d | Inl _ \<Rightarrow> [])"

lemma good_read:
  assumes "jsonl_good s"
  obtains d where "read_jobs s = Inr d" "stored_jobs d" "jsonl_view s = map (\<lambda>(k, j). erase j) d"
  using assms by (auto simp: jsonl_good_def read_jobs_def res_fold_append jsonl_view_def)

lemma stored_jobs_lookup: "stored_jobs d \<Longrightarrow> map_of d i = Some j \<Longrightarrow> jb_job_id j = i \<and> stable_job j \<and> normal_job j = j"
  by (auto simp: stored_jobs_def dest: map_of_SomeD)

lemma find_stored: "stored_jobs d \<Longrightarrow> find_job i (map (\<lambda>(k, j). erase j) d) = map_option erase (map_of d i)"
  by (induction d) (auto simp: stored_jobs_def find_job_def)

lemma stored_ids: "stored_jobs d \<Longrightarrow> map jb_job_id (map (\<lambda>(k, j). erase j) d) = map fst d"
  by (induction d) (auto simp: stored_jobs_def)

lemma stored_distinct: "stored_jobs d \<Longrightarrow> distinct (map jb_job_id (map (\<lambda>(k, j). erase j) d))"
  by (simp only: stored_ids) (simp add: stored_jobs_def)

lemma stored_update:
  assumes "stored_jobs d" "map_of d (jb_job_id j) = Some k" "stable_job j"
  shows "stored_jobs (AList.update (jb_job_id j) (normal_job j) d)"
    "map (\<lambda>(k, j). erase j) (AList.update (jb_job_id j) (normal_job j) d)
       = update_job (jb_job_id j) (\<lambda>_. erase j) (map (\<lambda>(k, j). erase j) d)"
proof -
  have new: "jb_job_id (normal_job j) = jb_job_id j" "stable_job (normal_job j)" "normal_job (normal_job j) = normal_job j"
    using stable_normal_job[OF assms(3)] by (simp_all add: normal_job_def)
  have member: "x \<in> set (AList.update i v d) \<Longrightarrow> x = (i, v) \<or> x \<in> set d" for x :: "string \<times> JobRecord" and i v
    by (induction d) (auto split: if_splits)
  show "stored_jobs (AList.update (jb_job_id j) (normal_job j) d)"
    unfolding stored_jobs_def
  proof (intro conjI ballI)
    show "distinct (map fst (AList.update (jb_job_id j) (normal_job j) d))" using assms(1) by (simp add: stored_jobs_def distinct_update)
    fix x assume "x \<in> set (AList.update (jb_job_id j) (normal_job j) d)"
    with member have "x = (jb_job_id j, normal_job j) \<or> x \<in> set d" by blast
    then show "case x of (k, j) \<Rightarrow> jb_job_id j = k \<and> stable_job j \<and> normal_job j = j"
      using new assms(1) unfolding stored_jobs_def by (elim disjE) (simp, blast)
  qed
  show "map (\<lambda>(k, j). erase j) (AList.update (jb_job_id j) (normal_job j) d)
       = update_job (jb_job_id j) (\<lambda>_. erase j) (map (\<lambda>(k, j). erase j) d)"
    using assms(1,2)
  proof (induction d)
    case (Cons x d)
    obtain k' j' where x: "x = (k', j')" by force
    have j': "jb_job_id j' = k'" "stored_jobs d" using Cons.prems(1) by (auto simp: x stored_jobs_def)
    show ?case
    proof (cases "k' = jb_job_id j")
      case True
      then have "jb_job_id j \<notin> set (map fst d)" using Cons.prems(1) by (simp add: x stored_jobs_def)
      then have "jb_job_id j \<notin> set (map jb_job_id (map (\<lambda>(k, j). erase j) d))" by (simp only: stored_ids[OF j'(2)]) simp
      then have "update_job (jb_job_id j) (\<lambda>_. erase j) (map (\<lambda>(k, j). erase j) d) = map (\<lambda>(k, j). erase j) d"
        by (intro update_job_other) (simp only: set_map not_False_eq_True)
      with True j'(1) show ?thesis by (simp add: x update_job_Cons)
    next
      case False
      with Cons.IH[OF j'(2)] Cons.prems(2) j'(1) show ?thesis by (simp add: x update_job_Cons)
    qed
  qed simp
qed

lemma append_update_good:
  assumes "jsonl_good s" "read_jobs s = Inr d" "map_of d (jb_job_id j) = Some k" "stable_job j"
  shows "jsonl_good (append_update j s)" "read_jobs (append_update j s) = Inr (AList.update (jb_job_id j) (normal_job j) d)"
    "jsonl_view (append_update j s) = update_job (jb_job_id j) (\<lambda>_. erase j) (jsonl_view s)"
proof -
  from assms(1) obtain d0 d' where g: "res_fold read_line (jl_inbox s) [] = Inr d0" "res_fold read_line (jl_event_log s) d0 = Inr d'"
    "map fst d' = map fst d0" "stored_jobs d'"
    "\<forall>l \<in> set (jl_event_log s). \<forall>j. line_job l = Inr (Some j) \<longrightarrow> jb_job_id j \<in> set (map fst d0)"
    unfolding jsonl_good_def by blast
  then have "d' = d" using assms(2) by (simp add: read_jobs_def res_fold_append)
  let ?l = "append_line [(''record_type'', JStr ''job_update''), (''job'', JObject (job_payload j))]"
  have line: "line_job ?l = Inr (Some (normal_job j))" using update_line[of j] redact_stable_job[OF assms(4)] by simp
  then have "read_line ?l d = Inr (AList.update (jb_job_id j) (normal_job j) d)" by (simp add: read_line_def)
  then have fold: "res_fold read_line (jl_event_log s @ [?l]) d0 = Inr (AList.update (jb_job_id j) (normal_job j) d)"
    using g(2) \<open>d' = d\<close> by (simp add: res_fold_append)
  have known: "jb_job_id j \<in> set (map fst d0)" using assms(3) g(3) \<open>d' = d\<close> by (metis image_eqI fst_conv list.set_map map_of_SomeD)
  have keys: "map fst (AList.update (jb_job_id j) (normal_job j) d) = map fst d0"
    using dict_update_same_keys[OF assms(3)] g(3) \<open>d' = d\<close> by simp
  have "stored_jobs d" using g(4) \<open>d' = d\<close> by simp
  note up = stored_update[OF this assms(3,4)]
  show read: "read_jobs (append_update j s) = Inr (AList.update (jb_job_id j) (normal_job j) d)"
    using g(1) fold by (simp add: read_jobs_def append_update_def res_fold_append)
  show "jsonl_good (append_update j s)"
    unfolding jsonl_good_def
  proof (intro exI conjI)
    show "res_fold read_line (jl_inbox (append_update j s)) [] = Inr d0" using g(1) by (simp add: append_update_def)
    show "res_fold read_line (jl_event_log (append_update j s)) d0 = Inr (AList.update (jb_job_id j) (normal_job j) d)"
      using fold by (simp add: append_update_def)
    show "\<forall>l \<in> set (jl_event_log (append_update j s)). \<forall>j. line_job l = Inr (Some j) \<longrightarrow> jb_job_id j \<in> set (map fst d0)"
      using g(5) line known by (auto simp: append_update_def)
  qed (rule keys up)+
  show "jsonl_view (append_update j s) = update_job (jb_job_id j) (\<lambda>_. erase j) (jsonl_view s)"
    using up(2) by (simp add: jsonl_view_def read assms(2))
qed

lemma update_job_const:
  assumes "distinct (map jb_job_id q)" "find_job i q = Some x"
  shows "update_job i (\<lambda>_. F x) q = update_job i F q" "update_job i (\<lambda>_. x) q = q"
proof -
  have only: "k = x" if "k \<in> set q" "jb_job_id k = i" for k by (metis assms find_job_distinct option.inject that)
  then show "update_job i (\<lambda>_. F x) q = update_job i F q" unfolding update_job_def by (intro map_cong) auto
  from only show "update_job i (\<lambda>_. x) q = q" unfolding update_job_def by (intro map_idI) auto
qed

text \<open>An operation on one job is a change of the abstract queue.\<close>

lemma jsonl_mutate_refines:
  assumes "jsonl_good s" "unredacted now"
    and op: "\<And>j. stable_job j \<Longrightarrow> normal_job j = j \<Longrightarrow> operation j = Inr (if c (erase j) then f j else j, c (erase j))"
    and f: "\<And>j. stable_job j \<Longrightarrow> stable_job (f j)" "\<And>j. erase (f j) = F (erase j)" "\<And>j. jb_job_id (f j) = jb_job_id j"
  shows "jsonl_good (snd (jsonl_mutate i operation now s))
    \<and> (fst (jsonl_mutate i operation now s), jsonl_view (snd (jsonl_mutate i operation now s))) = change_job i c F (jsonl_view s)"
proof -
  from assms(1) obtain d where d: "read_jobs s = Inr d" "stored_jobs d" "jsonl_view s = map (\<lambda>(k, j). erase j) d" by (rule good_read)
  note found = find_stored[OF d(2), of i]
  show ?thesis
  proof (cases "map_of d i")
    case None
    with assms(1) d found show ?thesis by (simp add: jsonl_mutate_def change_job_def)
  next
    case (Some j)
    from stored_jobs_lookup[OF d(2) Some] have j: "jb_job_id j = i" "stable_job j" "normal_job j = j" by simp_all
    define j' where "j' = (if c (erase j) then f j else j)\<lparr>jb_updated_at := now\<rparr>"
    have run: "jsonl_mutate i operation now s = (OutBool (c (erase j)), append_update j' s)"
      using op[OF j(2,3)] by (simp add: jsonl_mutate_def d(1) Some j'_def)
    have "stable_job (if c (erase j) then f j else j)" using j(2) f(1) by simp
    then have stable: "stable_job j'" using assms(2) by (simp add: j'_def stable_job_def)
    have e: "erase j' = (if c (erase j) then F (erase j) else erase j)" using f(2) by (simp add: j'_def erase_changes)
    have id: "jb_job_id j' = i" using f(3) j(1) by (simp add: j'_def)
    note up = append_update_good[OF assms(1) d(1) _ stable, unfolded id, OF Some]
    have "update_job i (\<lambda>_. erase j') (jsonl_view s) = snd (change_job i c F (jsonl_view s))"
    proof -
      have "find_job i (jsonl_view s) = Some (erase j)" using found Some by (simp add: d(3))
      with update_job_const(1)[OF stored_distinct[OF d(2), folded d(3)] this, of F]
        update_job_const(2)[OF stored_distinct[OF d(2), folded d(3)] this] show ?thesis
        by (cases "c (erase j)") (simp_all only: e if_True if_False change_job_def option.case snd_conv)
    qed
    moreover have "fst (change_job i c F (jsonl_view s)) = OutBool (c (erase j))" using found Some by (simp add: d(3) change_job_def)
    ultimately show ?thesis unfolding run fst_conv snd_conv using up(1,3) by (simp add: prod_eq_iff)
  qed
qed

text \<open>The texts of an operation: those that redaction changes are outside the contract, as are empty
  strings where Python's \<open>or\<close> skips them.\<close>

fun stable_op :: "queue_op \<Rightarrow> bool" where
  "stable_op (Create j) = (stable_job j \<and> jb_result_json j = None)"
| "stable_op (ClaimNext w now ttl kinds) = (unredacted w \<and> unredacted now \<and> now \<noteq> [])"
| "stable_op (Heartbeat i w lease t) = (unredacted lease \<and> lease \<noteq> [] \<and> unredacted t)"
| "stable_op (RecoverExpired now) = unredacted now"
| "stable_op (AppendEvent i e ty t) = True"
| "stable_op (UpdateConversation i c t) = (unredacted c \<and> unredacted t)"
| "stable_op (MarkSuccess i w result path conv head gate t t') =
     (redact_obj result = result \<and> unredacted path \<and> stable_opt conv \<and> stable_opt head \<and> unredacted t \<and> unredacted t' \<and> conv \<noteq> Some [] \<and> head \<noteq> Some [])"
| "stable_op (MarkFailure i w code stderr result head gate t t') =
     (stable_obj result \<and> unredacted code \<and> stable_opt stderr \<and> stable_opt head \<and> unredacted t \<and> unredacted t' \<and> head \<noteq> Some [])"
| "stable_op (ScheduleRetry i next_at code stderr t) = (unredacted next_at \<and> unredacted code \<and> stable_opt stderr \<and> unredacted t)"
| "stable_op (RetryFailed i now t) = (unredacted now \<and> unredacted t)"
| "stable_op (Cancel i t t') = (unredacted t \<and> unredacted t')"

lemma stable_opt_simps [simp]: "stable_opt None" "stable_opt (Some t) = unredacted t"
  by (simp_all add: stable_opt_def)

lemma stable_obj_simps [simp]: "stable_obj None" "stable_obj (Some d) \<longleftrightarrow> redact_obj d = d"
  by (simp_all add: stable_obj_def)

lemma or_else_coalesce: "x \<noteq> Some [] \<Longrightarrow> or_else x y = coalesce x y"
  by (cases x) (simp_all add: or_else_def coalesce_def)

lemma stable_coalesce: "stable_opt x \<Longrightarrow> stable_opt y \<Longrightarrow> stable_opt (coalesce x y)"
  by (cases x) (simp_all add: coalesce_def)

definition refines :: "queue_op \<Rightarrow> JsonlStore \<Rightarrow> outcome \<times> JsonlStore \<Rightarrow> bool" where
  "refines op s r = (jsonl_good (snd r) \<and> (erase_outcome (fst r), jsonl_view (snd r)) = spec_run op (jsonl_view s))"

lemma refines_change:
  assumes "spec_run op (jsonl_view s) = change_job i c F (jsonl_view s)"
    "jsonl_good (snd r) \<and> (fst r, jsonl_view (snd r)) = change_job i c F (jsonl_view s)"
  shows "refines op s r"
proof -
  have "erase_outcome (fst (change_job i c F q)) = fst (change_job i c F q)" for q
    by (simp add: change_job_def split: option.splits)
  with assms show ?thesis unfolding refines_def by (metis fst_conv prod.collapse)
qed

lemma jsonl_simple_refines:
  assumes "jsonl_good s"
  shows "stable_op (Heartbeat i w lease t) \<Longrightarrow> refines (Heartbeat i w lease t) s (jsonl_heartbeat i w lease t s)"
    "stable_op (ScheduleRetry i next_at code stderr t) \<Longrightarrow> refines (ScheduleRetry i next_at code stderr t) s (jsonl_schedule_retry i next_at code stderr t s)"
    "stable_op (RetryFailed i now t) \<Longrightarrow> refines (RetryFailed i now t) s (jsonl_retry_failed i now t s)"
    "stable_op (Cancel i now t) \<Longrightarrow> refines (Cancel i now t) s (jsonl_cancel i now t s)"
proof -
  show "refines (Heartbeat i w lease t) s (jsonl_heartbeat i w lease t s)" if "stable_op (Heartbeat i w lease t)"
    unfolding jsonl_heartbeat_def
    by (rule refines_change[OF spec_run.simps(3)], rule jsonl_mutate_refines[OF assms, where f = "\<lambda>j. j\<lparr>jb_lease_until := Some lease\<rparr>"])
      (use that in \<open>simp_all add: stable_job_def erase_def\<close>)
  show "refines (ScheduleRetry i next_at code stderr t) s (jsonl_schedule_retry i next_at code stderr t s)"
    if "stable_op (ScheduleRetry i next_at code stderr t)"
    unfolding jsonl_schedule_retry_def
    by (rule refines_change[OF spec_run.simps(9)], rule jsonl_mutate_refines[OF assms, where f = "rescheduled next_at code stderr"])
      (use that in \<open>auto simp: stable_job_def erase_def rescheduled_def retryable_def\<close>)
  show "refines (RetryFailed i now t) s (jsonl_retry_failed i now t s)" if "stable_op (RetryFailed i now t)"
    unfolding jsonl_retry_failed_def
    by (rule refines_change[OF spec_run.simps(10)], rule jsonl_mutate_refines[OF assms, where f = "retried now"])
      (use that stable_codes in \<open>auto simp: stable_job_def erase_def retried_def retryable_def\<close>)
  show "refines (Cancel i now t) s (jsonl_cancel i now t s)" if "stable_op (Cancel i now t)"
    unfolding jsonl_cancel_def
    by (rule refines_change[OF spec_run.simps(11)], rule jsonl_mutate_refines[OF assms, where f = "cancelled now"])
      (use that in \<open>auto simp: stable_job_def erase_def cancelled_def\<close>)
qed

lemma jsonl_mutate_cong:
  assumes "read_jobs s = Inr d" "map_of d i = Some j" "operation j = operation' j"
  shows "jsonl_mutate i operation now s = jsonl_mutate i operation' now s"
  using assms by (simp add: jsonl_mutate_def)

lemma jsonl_mark_success_refines:
  assumes "jsonl_good s" "stable_op (MarkSuccess i w result path conv head gate t t')"
  shows "refines (MarkSuccess i w result path conv head gate t t') s (jsonl_mark_success i w result path conv head gate t t' s)"
proof -
  from assms(1) obtain d where d: "read_jobs s = Inr d" "stored_jobs d" "jsonl_view s = map (\<lambda>(k, j). erase j) d" by (rule good_read)
  note found = find_stored[OF d(2), of i]
  show ?thesis
  proof (cases "map_of d i")
    case None
    with assms(1) d found show ?thesis by (simp add: jsonl_mark_success_def jsonl_mutate_def refines_def)
  next
    case (Some j)
    from stored_jobs_lookup[OF d(2) Some] have j: "stable_job j" "normal_job j = j" by simp_all
    have "map_option canonical_obj (jb_result_json j) = jb_result_json j" using arg_cong[OF j(2), of jb_result_json] by (simp add: normal_job_def)
    moreover have "stable_obj (jb_result_json j)" using j(1) by (simp add: stable_job_def)
    ultimately have res: "jb_result_json (erase j) = jb_result_json j"
      and clash: "(case jb_result_json j of None \<Rightarrow> False | Some r \<Rightarrow> canonical_obj (redact_obj r) \<noteq> canonical_obj (redact_obj result))
        \<longleftrightarrow> jb_result_json j \<notin> {None, Some (canonical_obj (redact_obj result))}"
      by (auto split: option.splits)
    have view: "find_job i (jsonl_view s) = Some (erase j)" using found Some by (simp add: d(3))
    show ?thesis
    proof (cases "may_finish w JS_SUCCEEDED j \<and> jb_result_json j \<notin> {None, Some (canonical_obj (redact_obj result))}")
      case True
      then have "jsonl_mark_success i w result path conv head gate t t' s = (OutError (QueueConflictError i), s)"
        using d(1) Some clash by (auto simp: jsonl_mark_success_def jsonl_mutate_def may_finish_def)
      with True assms(1) view res show ?thesis by (simp add: refines_def may_finish_def)
    next
      case False
      let ?c = "may_finish w JS_SUCCEEDED" and ?f = "\<lambda>j. j\<lparr>jb_status := JS_SUCCEEDED, jb_gate_state := gate, jb_result_json := Some (redact_obj result),
              jb_result_path := Some path, jb_conversation_id := or_else conv (jb_conversation_id j),
              jb_head_sha := or_else head (jb_head_sha j), jb_finished_at := Some t, jb_lease_until := None,
              jb_worker_id := None, jb_error_code := None, jb_stderr := None\<rparr>"
      have run: "jsonl_mark_success i w result path conv head gate t t' s
          = jsonl_mutate i (\<lambda>j. Inr (if ?c (erase j) then ?f j else j, ?c (erase j))) t' s"
        unfolding jsonl_mark_success_def
        by (rule jsonl_mutate_cong[OF d(1) Some]) (use False clash in \<open>auto simp: may_finish_def\<close>)
      have spec: "spec_run (MarkSuccess i w result path conv head gate t t') (jsonl_view s)
          = change_job i ?c (succeeded result path conv head gate t) (jsonl_view s)"
        using False view res by (auto simp: may_finish_def)
      have "jsonl_good (snd (jsonl_mutate i (\<lambda>j. Inr (if ?c (erase j) then ?f j else j, ?c (erase j))) t' s))
          \<and> (fst (jsonl_mutate i (\<lambda>j. Inr (if ?c (erase j) then ?f j else j, ?c (erase j))) t' s),
             jsonl_view (snd (jsonl_mutate i (\<lambda>j. Inr (if ?c (erase j) then ?f j else j, ?c (erase j))) t' s)))
            = change_job i ?c (succeeded result path conv head gate t) (jsonl_view s)"
        by (rule jsonl_mutate_refines[OF assms(1), where f = ?f])
          (use assms(2) in \<open>auto simp: stable_job_def stable_coalesce or_else_coalesce erase_def succeeded_def\<close>)
      then show ?thesis unfolding run by (rule refines_change[OF spec])
    qed
  qed
qed

lemma jsonl_mark_failure_refines:
  assumes "jsonl_good s" "stable_op (MarkFailure i w code stderr result head gate t t')"
  shows "refines (MarkFailure i w code stderr result head gate t t') s (jsonl_mark_failure i w code stderr result head gate t t' s)"
  unfolding jsonl_mark_failure_def
  by (rule refines_change[OF spec_run.simps(8)], rule jsonl_mutate_refines[OF assms(1), where f = "\<lambda>j. j\<lparr>jb_status := JS_FAILED, jb_gate_state := gate,
       jb_error_code := Some code, jb_stderr := stderr,
       jb_result_json := (case result of Some r \<Rightarrow> Some (redact_obj r) | None \<Rightarrow> jb_result_json j),
       jb_head_sha := or_else head (jb_head_sha j), jb_finished_at := Some t, jb_lease_until := None, jb_worker_id := None\<rparr>"])
    (use assms(2) in \<open>auto simp: stable_job_def stable_coalesce or_else_coalesce erase_def failed_def may_finish_def coalesce_def split: option.splits\<close>)

lemma jsonl_update_conversation_refines:
  assumes "jsonl_good s" "stable_op (UpdateConversation i c t)"
  shows "refines (UpdateConversation i c t) s (jsonl_update_conversation_id i c t s)"
proof -
  let ?m = "jsonl_mutate i (\<lambda>j. Inr (j\<lparr>jb_conversation_id := Some c\<rparr>, True)) t s"
  have m: "jsonl_good (snd ?m) \<and> (fst ?m, jsonl_view (snd ?m)) = change_job i (\<lambda>_. True) (\<lambda>j. j\<lparr>jb_conversation_id := Some c\<rparr>) (jsonl_view s)"
    by (rule jsonl_mutate_refines[OF assms(1), where f = "\<lambda>j. j\<lparr>jb_conversation_id := Some c\<rparr>"])
      (use assms(2) in \<open>auto simp: stable_job_def erase_def\<close>)
  then obtain b where "fst ?m = OutBool b" by (auto simp: change_job_def split: option.splits)
  then have "jsonl_update_conversation_id i c t s = (OutUnit, snd ?m)"
    by (cases ?m) (simp add: jsonl_update_conversation_id_def)
  moreover have "snd (change_job i (\<lambda>_. True) F q) = update_job i F q" for F q
  proof (cases "find_job i q")
    case None
    then have "i \<notin> jb_job_id ` set q" by (simp add: find_job_None)
    with None show ?thesis by (simp add: change_job_def update_job_other)
  qed (simp add: change_job_def)
  ultimately show ?thesis using m by (simp add: refines_def) (metis snd_conv)
qed

lemma jsonl_append_event_refines:
  assumes "jsonl_good s"
  shows "jsonl_good (snd (jsonl_append_event i e ty t s)) \<and> jsonl_view (snd (jsonl_append_event i e ty t s)) = jsonl_view s"
proof -
  let ?l = "append_line [(''record_type'', JStr ''event''), (''job_id'', JStr i),
           (''event_type'', JStr (if ty \<in> {None, Some []} then ''unknown'' else the ty)), (''event'', redact_json e), (''created_at'', JStr t)]"
  have same: "res_fold read_line (xs @ [?l]) d = res_fold read_line xs d" for xs d
    by (cases "res_fold read_line xs d") (simp_all add: res_fold_append read_line_def event_line)
  show ?thesis using assms same event_line by (simp add: jsonl_append_event_def jsonl_good_def jsonl_view_def read_jobs_def flip: append_assoc)
qed

lemma replay_append:
  assumes "\<forall>l \<in> set ls. \<forall>j. line_job l = Inr (Some j) \<longrightarrow> jb_job_id j \<in> set (map fst d)" "res_fold read_line ls d = Inr d'"
  shows "res_fold read_line ls (d @ [x]) = Inr (d' @ [x])"
  using assms
proof (induction ls arbitrary: d)
  case (Cons l ls)
  have upd: "AList.update k v (d @ [x]) = AList.update k v d @ [x]" if "k \<in> set (map fst d)" for k v
    using that by (induction d) auto
  from Cons.prems(2) obtain r where r: "line_job l = Inr r" by (cases "line_job l") (auto simp: read_line_def)
  show ?case
  proof (cases r)
    case None
    with r Cons show ?thesis by (simp add: read_line_def)
  next
    case (Some j)
    with r Cons.prems(1) have j: "jb_job_id j \<in> set (map fst d)" by simp
    then have keys: "map fst (AList.update (jb_job_id j) j d) = map fst d" by (simp add: update_keys)
    have step: "read_line l (d @ [x]) = Inr (AList.update (jb_job_id j) j d @ [x])" "read_line l d = Inr (AList.update (jb_job_id j) j d)"
      using r Some upd[OF j] by (simp_all add: read_line_def)
    have "\<forall>l \<in> set ls. \<forall>k. line_job l = Inr (Some k) \<longrightarrow> jb_job_id k \<in> set (map fst (AList.update (jb_job_id j) j d))"
      using Cons.prems(1) by (simp only: keys) simp
    from Cons.IH[OF this] Cons.prems(2) step show ?thesis by simp
  qed
qed simp

lemma jsonl_create_read:
  assumes "jsonl_good s" "read_jobs s = Inr d" "stored_jobs d" "map_of d (jb_job_id j) = None" "stable_job j"
  defines "s' \<equiv> s\<lparr>jl_inbox := jl_inbox s @ [append_line [(''record_type'', JStr ''job''), (''job'', JObject (job_payload j))]]\<rparr>"
  shows "read_jobs s' = Inr (d @ [(jb_job_id j, normal_job j)])" "jsonl_good s'"
proof -
  from assms(1) obtain d0 d' where g: "res_fold read_line (jl_inbox s) [] = Inr d0" "res_fold read_line (jl_event_log s) d0 = Inr d'"
    "map fst d' = map fst d0" "stored_jobs d'"
    "\<forall>l \<in> set (jl_event_log s). \<forall>j. line_job l = Inr (Some j) \<longrightarrow> jb_job_id j \<in> set (map fst d0)"
    unfolding jsonl_good_def by blast
  then have eq: "d' = d" using assms(2) by (simp add: read_jobs_def res_fold_append)
  let ?l = "append_line [(''record_type'', JStr ''job''), (''job'', JObject (job_payload j))]"
  let ?x = "(jb_job_id j, normal_job j)"
  have line: "line_job ?l = Inr (Some (normal_job j))" using job_line[of j] redact_stable_job[OF assms(5)] by simp
  have fresh: "jb_job_id j \<notin> set (map fst d)" using assms(4) by (simp add: map_of_eq_None_iff)
  then have "jb_job_id j \<notin> fst ` set d0" using g(3) eq by (metis list.set_map)
  then have "AList.update (jb_job_id j) (normal_job j) d0 = d0 @ [?x]" by (induction d0) auto
  then have inbox: "res_fold read_line (jl_inbox s @ [?l]) [] = Inr (d0 @ [?x])"
    using g(1) line by (simp add: res_fold_append read_line_def)
  have log: "res_fold read_line (jl_event_log s) (d0 @ [?x]) = Inr (d @ [?x])" using replay_append[OF g(5,2)] eq by simp
  have "normal_job (normal_job j) = normal_job j" by (simp add: normal_job_def)
  then have ok: "stored_jobs (d @ [?x])" using assms(3) fresh stable_normal_job[OF assms(5)] by (auto simp: stored_jobs_def)
  show "jsonl_good s'" unfolding jsonl_good_def
  proof (intro exI conjI)
    show "res_fold read_line (jl_inbox s') [] = Inr (d0 @ [?x])" using inbox by (simp add: s'_def)
    show "res_fold read_line (jl_event_log s') (d0 @ [?x]) = Inr (d @ [?x])" using log by (simp add: s'_def)
    show "map fst (d @ [?x]) = map fst (d0 @ [?x])" using g(3) eq by simp
    show "\<forall>l \<in> set (jl_event_log s'). \<forall>k. line_job l = Inr (Some k) \<longrightarrow> jb_job_id k \<in> set (map fst (d0 @ [?x]))"
      using g(5) by (auto simp: s'_def)
  qed (rule ok)
  have "res_fold read_line ((jl_inbox s @ [?l]) @ jl_event_log s) [] = Inr (d @ [?x])"
    by (subst res_fold_append) (simp only: inbox res_bind_Inr log)
  then show "read_jobs s' = Inr (d @ [?x])" by (simp add: read_jobs_def s'_def)
qed

lemma jsonl_create_job_refines:
  assumes "jsonl_good s" "stable_op (Create j)"
  shows "refines (Create j) s (jsonl_create_job j s)"
proof -
  from assms(1) obtain d where d: "read_jobs s = Inr d" "stored_jobs d" "jsonl_view s = map (\<lambda>(k, j). erase j) d" by (rule good_read)
  note found = find_stored[OF d(2), of "jb_job_id j"]
  have stable: "stable_job j" "jb_result_json j = None" using assms(2) by simp_all
  show ?thesis
  proof (cases "map_of d (jb_job_id j)")
    case (Some k)
    with assms(1) d found show ?thesis by (simp add: refines_def jsonl_create_job_def)
  next
    case None
    let ?s = "s\<lparr>jl_inbox := jl_inbox s @ [append_line [(''record_type'', JStr ''job''), (''job'', JObject (job_payload j))]]\<rparr>"
    note created = jsonl_create_read[OF assms(1) d(1,2) None stable(1)]
    have view: "jsonl_view ?s = jsonl_view s @ [erase j]" using created(1) d(3) by (simp add: jsonl_view_def)
    have "redact_obj o' = o'" if "jb_expected_output_schema j = Some o'" for o'
      using stable(1) that by (simp add: stable_job_def)
    then have "stored j = erase j" using stable(2) by (cases "jb_expected_output_schema j") (simp_all add: stored_def erase_def)
    then show ?thesis using created(2) view None found d by (simp add: refines_def jsonl_create_job_def)
  qed
qed

lemma jsonl_claim_next_refines:
  assumes "jsonl_good s" "stable_op (ClaimNext w now ttl kinds)"
  shows "refines (ClaimNext w now ttl kinds) s (jsonl_claim_next w now ttl kinds s)"
proof -
  from assms(1) obtain d where d: "read_jobs s = Inr d" "stored_jobs d" "jsonl_view s = map (\<lambda>(k, j). erase j) d" by (rule good_read)
  let ?jobs = "map snd d"
  let ?scopes = "jb_scope_key ` set (filter (\<lambda>j. jb_status j = JS_RUNNING \<and> jb_scope_key j \<noteq> None) ?jobs)"
  have view: "jsonl_view s = map erase ?jobs" by (simp add: d(3) case_prod_beta)
  have c: "jsonl_claimable now kinds ?scopes j \<longleftrightarrow> claimable now kinds (map erase ?jobs) (erase j)" for j
  proof -
    have "(jb_scope_key j = None \<or> jb_scope_key j \<notin> ?scopes) \<longleftrightarrow> \<not> scope_busy (map erase ?jobs) (erase j)"
      by (auto simp: scope_busy_def image_iff)
    then show ?thesis unfolding jsonl_claimable_def claimable_def by (cases "jb_next_attempt_at j"; cases kinds) auto
  qed
  have pick: "first_job (filter (claimable now kinds (map erase ?jobs)) (map erase ?jobs))
      = map_option erase (first_job (filter (jsonl_claimable now kinds ?scopes) ?jobs))"
  proof -
    have "filter (claimable now kinds (map erase ?jobs) \<circ> erase) ?jobs = filter (jsonl_claimable now kinds ?scopes) ?jobs"
      by (rule filter_cong) (simp_all only: comp_def c)
    then show ?thesis by (simp only: filter_map[of _ erase ?jobs] first_job_erase)
  qed
  show ?thesis
  proof (cases "first_job (filter (jsonl_claimable now kinds ?scopes) ?jobs)")
    case None
    then have "jsonl_claim_next w now ttl kinds s = (OutClaim None, s)" unfolding jsonl_claim_next_def by (simp only: d(1) sum.case Let_def) simp
    with None pick assms(1) view show ?thesis by (simp add: refines_def)
  next
    case (Some j)
    from first_job_Some[OF Some] have jd: "(jb_job_id j, j) \<in> set d" using d(2) by (auto simp: stored_jobs_def)
    then have look: "map_of d (jb_job_id j) = Some j" using d(2) by (simp add: stored_jobs_def)
    have stable: "stable_job j" using stored_jobs_lookup[OF d(2) look] by simp
    show ?thesis
    proof (cases "lease_expiry now ttl")
      case (Inl e)
      then have "jsonl_claim_next w now ttl kinds s = (OutError e, s)"
        unfolding jsonl_claim_next_def by (simp only: d(1) sum.case Let_def Some option.case)
      with Some Inl pick assms(1) view show ?thesis by (simp add: refines_def)
    next
      case (Inr lease)
      define j' where "j' = j\<lparr>jb_status := JS_RUNNING, jb_attempt := jb_attempt j + 1, jb_lease_until := Some lease,
         jb_worker_id := Some w, jb_started_at := (if jb_started_at j \<in> {None, Some []} then Some now else jb_started_at j),
         jb_updated_at := now, jb_error_code := None, jb_stderr := None\<rparr>"
      have run: "jsonl_claim_next w now ttl kinds s = (OutClaim (Some j'), append_update j' s)"
        unfolding jsonl_claim_next_def j'_def by (simp only: d(1) sum.case Let_def Some option.case Inr)
      have e: "erase j' = claimed w now lease (erase j)" and id: "jb_job_id j' = jb_job_id j"
        using stable by (cases "jb_started_at j"; simp add: j'_def claimed_def erase_def coalesce_def stable_job_def)+
      have "stable_job j'" using stable assms(2) lease_expiry_stable[OF Inr] by (auto simp: j'_def stable_job_def)
      note up = append_update_good[OF assms(1) d(1) _ this, unfolded id, OF look]
      have found: "find_job (jb_job_id j) (jsonl_view s) = Some (erase j)" using find_stored[OF d(2)] look by (simp add: d(3))
      have "jsonl_view (append_update j' s) = update_job (jb_job_id j) (claimed w now lease) (jsonl_view s)"
        using up(3) update_job_const(1)[OF stored_distinct[OF d(2), folded d(3)] found] by (simp add: e)
      with up(1) e Some Inr pick view show ?thesis by (simp add: refines_def run)
    qed
  qed
qed

text \<open>Recovery appends one update per expired job.\<close>

lemma jsonl_recovered_props:
  "erase (jsonl_recovered now j) = recovered now (erase j)" "jb_job_id (jsonl_recovered now j) = jb_job_id j"
  "stable_job j \<Longrightarrow> unredacted now \<Longrightarrow> stable_job (jsonl_recovered now j)"
  using stable_codes by (auto simp: jsonl_recovered_def recovered_def erase_def stable_job_def Let_def)

lemma fold_updates:
  assumes "distinct (map jb_job_id rows)" "\<And>j. jb_job_id (g j) = jb_job_id j"
  shows "foldl (\<lambda>q j. update_job (jb_job_id j) (\<lambda>_. g j) q) q rows
    = map (\<lambda>e. case find_job (jb_job_id e) rows of Some j \<Rightarrow> g j | None \<Rightarrow> e) q"
  using assms(1)
proof (induction rows arbitrary: q)
  case (Cons r rows)
  have "find_job (jb_job_id r) rows = None" using Cons.prems by (simp add: find_job_None)
  with Cons assms(2) show ?case by (auto simp: update_job_def find_job_def)
qed (simp add: find_job_def)

lemma append_updates_good:
  assumes "jsonl_good s" "distinct (map jb_job_id rows)"
    and "\<forall>j \<in> set rows. stable_job (f j) \<and> jb_job_id (f j) = jb_job_id j \<and> find_job (jb_job_id j) (jsonl_view s) \<noteq> None"
  shows "jsonl_good (foldl (\<lambda>s j. append_update (f j) s) s rows)
    \<and> jsonl_view (foldl (\<lambda>s j. append_update (f j) s) s rows)
      = foldl (\<lambda>q j. update_job (jb_job_id j) (\<lambda>_. erase (f j)) q) (jsonl_view s) rows"
  using assms
proof (induction rows arbitrary: s)
  case (Cons r rows)
  from Cons.prems(1) obtain d where d: "read_jobs s = Inr d" "stored_jobs d" "jsonl_view s = map (\<lambda>(k, j). erase j) d" by (rule good_read)
  have r: "stable_job (f r)" "jb_job_id (f r) = jb_job_id r" "find_job (jb_job_id r) (jsonl_view s) \<noteq> None" using Cons.prems(3) by simp_all
  from r(3) obtain k where k: "map_of d (jb_job_id r) = Some k" using find_stored[OF d(2)] by (auto simp: d(3))
  note up = append_update_good[OF Cons.prems(1) d(1) _ r(1), unfolded r(2), OF k]
  have "jb_job_id ` set (update_job (jb_job_id r) (\<lambda>_. erase (f r)) q) = jb_job_id ` set q" for q
    using r(2) by (induction q) (simp add: update_job_def, auto simp: update_job_Cons)
  then have "find_job i (update_job (jb_job_id r) (\<lambda>_. erase (f r)) q) \<noteq> None \<longleftrightarrow> find_job i q \<noteq> None" for i q
    by (simp add: find_job_None)
  then show ?case using Cons.IH[OF up(1)] Cons.prems(2,3) up(3) by simp
qed simp

lemma jsonl_recover_expired_refines:
  assumes "jsonl_good s" "unredacted now"
  shows "refines (RecoverExpired now) s (jsonl_recover_expired now s)"
proof -
  from assms(1) obtain d where d: "read_jobs s = Inr d" "stored_jobs d" "jsonl_view s = map (\<lambda>(k, j). erase j) d" by (rule good_read)
  let ?e = "\<lambda>j. \<not> (jb_status j \<noteq> JS_RUNNING \<or> jb_lease_until j \<in> {None, Some []} \<or> the (jb_lease_until j) \<ge> now)"
  let ?rows = "filter ?e (map snd d)"
  have view: "jsonl_view s = map erase (map snd d)" by (simp add: d(3) case_prod_beta)
  have st: "stable_job j" "map_of d (jb_job_id j) = Some j" if "j \<in> set (map snd d)" for j
    using that d(2) by (auto simp: stored_jobs_def)
  have e: "?e j \<longleftrightarrow> expired now (erase j)" if "j \<in> set (map snd d)" for j
    using st(1)[OF that] by (cases "jb_lease_until j") (auto simp: expired_def stable_job_def not_le)
  have dist: "distinct (map jb_job_id (map snd d))" using stored_distinct[OF d(2)] by (simp add: comp_def case_prod_beta)
  have known: "find_job (jb_job_id j) (jsonl_view s) = Some (erase j)" if "j \<in> set (map snd d)" for j
    using find_stored[OF d(2)] st(2)[OF that] by (simp add: d(3))
  have "\<forall>j \<in> set ?rows. stable_job (jsonl_recovered now j) \<and> jb_job_id (jsonl_recovered now j) = jb_job_id j
      \<and> find_job (jb_job_id j) (jsonl_view s) \<noteq> None"
    using st(1) known assms(2) by (auto simp: jsonl_recovered_props)
  note loop = append_updates_good[OF assms(1) distinct_map_filter[OF dist] this]
  have rows: "find_job (jb_job_id (erase j)) ?rows = (if expired now (erase j) then Some j else None)" if j: "j \<in> set (map snd d)" for j
  proof (cases "expired now (erase j)")
    case True
    then have "j \<in> set ?rows" using j e by simp
    with True find_job_distinct[OF distinct_map_filter[OF dist]] show ?thesis by simp
  next
    case False
    have "jb_job_id j \<notin> jb_job_id ` set ?rows"
    proof
      assume "jb_job_id j \<in> jb_job_id ` set ?rows"
      then obtain k where k: "jb_job_id j = jb_job_id k" "k \<in> set ?rows" by (rule imageE)
      then have kd: "k \<in> set (map snd d)" "?e k" by (simp_all only: set_filter mem_Collect_eq not_False_eq_True)
      from st(2)[OF kd(1)] st(2)[OF j] k(1) have "k = j" by (metis option.inject)
      with kd(2) e[OF j] False show False by metis
    qed
    with False show ?thesis by (simp add: find_job_None)
  qed
  let ?g = "\<lambda>j. erase (jsonl_recovered now j)"
  have ids: "jb_job_id (?g j) = jb_job_id j" for j by (simp add: jsonl_recovered_props)
  have fold: "jsonl_view (foldl (\<lambda>s j. append_update (jsonl_recovered now j) s) s ?rows)
      = map (\<lambda>e. case find_job (jb_job_id e) ?rows of Some j \<Rightarrow> ?g j | None \<Rightarrow> e) (jsonl_view s)"
    by (rule trans[OF conjunct2[OF loop] fold_updates[where g = ?g, OF distinct_map_filter[OF dist] ids]])
  have "map (\<lambda>e. case find_job (jb_job_id e) ?rows of Some j \<Rightarrow> ?g j | None \<Rightarrow> e) (jsonl_view s)
      = map (\<lambda>j. if expired now j then recovered now j else j) (jsonl_view s)"
  proof (rule map_cong[OF refl])
    fix x assume "x \<in> set (jsonl_view s)"
    then obtain j where j: "j \<in> set (map snd d)" "x = erase j" unfolding view set_map[of erase] by (rule imageE)
    show "(case find_job (jb_job_id x) ?rows of Some j \<Rightarrow> ?g j | None \<Rightarrow> x) = (if expired now x then recovered now x else x)"
      unfolding j(2) rows[OF j(1)] jsonl_recovered_props by simp
  qed
  with fold have "jsonl_view (foldl (\<lambda>s j. append_update (jsonl_recovered now j) s) s ?rows)
      = map (\<lambda>j. if expired now j then recovered now j else j) (jsonl_view s)" by (rule trans)
  moreover have "map jb_job_id ?rows = map jb_job_id (filter (expired now) (jsonl_view s))"
  proof -
    have "?rows = filter (\<lambda>j. expired now (erase j)) (map snd d)" using e by (intro filter_cong) simp_all
    then show ?thesis by (simp add: view filter_map comp_def)
  qed
  moreover have "jsonl_recover_expired now s = (OutIds (map jb_job_id ?rows), foldl (\<lambda>s j. append_update (jsonl_recovered now j) s) s ?rows)"
    unfolding jsonl_recover_expired_def by (simp only: d(1) sum.case Let_def)
  ultimately show ?thesis using loop by (simp add: refines_def)
qed

section \<open>The backend refines the abstract queue\<close>

lemma jsonl_run_refines:
  assumes "jsonl_good s" "stable_op op" "answers op"
  shows "refines op s (jsonl_run op s)"
  using assms by (cases op) (simp_all add: answers_def jsonl_create_job_refines jsonl_claim_next_refines jsonl_simple_refines
      jsonl_recover_expired_refines jsonl_update_conversation_refines jsonl_mark_success_refines jsonl_mark_failure_refines
      del: spec_run.simps)

interpretation jsonl: queue_store jsonl_run jsonl_init jsonl_view jsonl_good stable_op
proof
  show "jsonl_good jsonl_init" "jsonl_view jsonl_init = []"
    by (simp_all add: jsonl_good_def jsonl_init_def jsonl_view_def read_jobs_def stored_jobs_def)
  fix s op assume good: "jsonl_good s" and op: "stable_op op"
  have event: "jsonl_good (snd (jsonl_run op s)) \<and> jsonl_view (snd (jsonl_run op s)) = snd (spec_run op (jsonl_view s))" if "\<not> answers op"
    using that jsonl_append_event_refines[OF good] by (auto simp: answers_def split: queue_op.splits)
  show "jsonl_good (snd (jsonl_run op s))" "jsonl_view (snd (jsonl_run op s)) = snd (spec_run op (jsonl_view s))"
    using event jsonl_run_refines[OF good op] unfolding refines_def by (metis snd_conv)+
  show "answers op \<Longrightarrow> erase_outcome (fst (jsonl_run op s)) = fst (spec_run op (jsonl_view s))"
    using jsonl_run_refines[OF good op] unfolding refines_def by (metis fst_conv)
next
  fix s op assume "\<not> answers op"
  then show "\<not> started_job (fst (jsonl_run op s))"
    by (auto simp: answers_def jsonl_append_event_def split: queue_op.splits)
qed

end
