(* ===== verification/QueueService.thy ===== *)
theory QueueService
  imports SqliteQueue JsonlQueue
begin

text \<open>
  Clients of the job queue: submission (\<open>QueueService.submit\<close> and \<open>retry\<close> in
  \<open>apps/agy_queue/service.py\<close>), the result files (\<open>ResultArtifactStore\<close> in \<open>storage.py\<close>) and the
  error path of the worker (\<open>worker.py\<close>). Each is written over a store's \<open>run\<close> function, so that it
  works with either backend. The state of the git repository (\<open>snapshot_repository\<close>) is an argument,
  as are clock readings, fresh job identifiers and what the AGY session returned.
\<close>

section \<open>Submission\<close>

record JobRequest =
  rq_prompt :: string
  rq_repo :: string
  rq_kind :: string
  rq_model :: string
  rq_effort :: "string option"
  rq_session_key :: "string option"
  rq_max_attempts :: int
  rq_timeout_sec :: int
  rq_expected_output_schema :: "jobject option"
  rq_authorization_ref :: "string option"
  rq_verification_job_id :: "string option"
  rq_branch :: "string option"
  rq_base_sha :: "string option"
  rq_scope_key :: "string option"

record RepositorySnapshot =
  rs_root :: string
  rs_branch :: string
  rs_sha :: string

record QueueConfig =
  qc_root :: string
  qc_default_effort :: string
  qc_max_attempts :: int
  qc_lease_ttl_sec :: int

datatype policy =
    OutsideAuthority | BadModel | EffortConflict | BadEffort | BadMaxAttempts | BadTimeout | SchemaWithoutTests
  | BranchMismatch | BaseShaMismatch | MainBranch | BadReference

datatype submit_error =
    PromptError prompt_error | UnsupportedKind pyerr | QueuePolicyError policy | CredentialInReference
  | RepositoryError string

definition model_effort_suffix :: "string \<Rightarrow> string option" where
  "model_effort_suffix model =
     (if endswith model ''-low'' then Some ''low'' else if endswith model ''-medium'' then Some ''medium''
      else if endswith model ''-high'' then Some ''high'' else None)"

definition validate_reference :: "string option \<Rightarrow> submit_error + string option" where
  "validate_reference value =
     (case value of
        None \<Rightarrow> Inr None
      | Some v \<Rightarrow>
          let n = strip v in
          res_bind (check (n \<noteq> [] \<and> length n \<le> 512 \<and> CHR 0x0A \<notin> set n \<and> CHR 0x0D \<notin> set n) (QueuePolicyError BadReference)) (\<lambda>_.
          res_bind (check (\<not> contains_credential_like_content n) CredentialInReference) (\<lambda>_. Inr (Some n))))"

definition requires_tests :: "jobject option \<Rightarrow> bool" where
  "requires_tests schema =
     (case schema of
        Some (x # d) \<Rightarrow> (case json_get (x # d) ''required'' of JList xs \<Rightarrow> JStr ''tests_passed'' \<in> set xs | _ \<Rightarrow> False)
      | _ \<Rightarrow> False)"

definition effort_of :: "QueueConfig \<Rightarrow> JobRequest \<Rightarrow> string \<Rightarrow> submit_error + string" where
  "effort_of config rq model =
     (case rq_effort rq of
        None \<Rightarrow> Inr (case model_effort_suffix model of Some x \<Rightarrow> x | None \<Rightarrow> qc_default_effort config)
      | Some e \<Rightarrow>
          (case model_effort_suffix model of
             Some x \<Rightarrow> if e \<noteq> x then Inl (QueuePolicyError EffortConflict) else Inr e
           | None \<Rightarrow> Inr e))"

definition initial_gate :: "JobKind \<Rightarrow> string option \<Rightarrow> string option \<Rightarrow> GateState" where
  "initial_gate kind authorization verification =
     (if kind \<in> {JK_REPO_CHANGE, JK_CLOUD_WRITE, JK_MAINNET_PREFLIGHT} \<and> authorization = None then GS_WAITING_AUTHORIZATION
      else if kind = JK_CLOUD_WRITE \<and> verification = None then GS_WAITING_VERIFICATION
      else GS_READY)"

text \<open>The optional branch and base of a request are compared when they are not empty.\<close>

definition matches :: "string option \<Rightarrow> string \<Rightarrow> bool" where
  "matches wanted actual = (case wanted of Some w \<Rightarrow> w = [] \<or> w = actual | None \<Rightarrow> True)"

definition submit_job ::
  "QueueConfig \<Rightarrow> (string \<Rightarrow> submit_error + RepositorySnapshot) \<Rightarrow> string \<Rightarrow> string \<Rightarrow> JobRequest \<Rightarrow> submit_error + JobRecord" where
  "submit_job config snapshot_repository job_id now rq =
     res_bind (case validate_prompt (rq_prompt rq) of Inl e \<Rightarrow> Inl (PromptError e) | Inr p \<Rightarrow> Inr p) (\<lambda>prompt.
     res_bind (case normalize_job_kind (rq_kind rq) of Inl e \<Rightarrow> Inl (UnsupportedKind e) | Inr k \<Rightarrow> Inr k) (\<lambda>kind.
     res_bind (check (kind \<notin> {JK_TRADING_ORDER, JK_EMERGENCY_KILL_SWITCH}) (QueuePolicyError OutsideAuthority)) (\<lambda>_.
     let model = strip (rq_model rq) in
     res_bind (check (model \<noteq> [] \<and> length model \<le> 160) (QueuePolicyError BadModel)) (\<lambda>_.
     res_bind (effort_of config rq model) (\<lambda>effort.
     res_bind (check (strip effort \<noteq> [] \<and> length effort \<le> 40) (QueuePolicyError BadEffort)) (\<lambda>_.
     res_bind (check (1 \<le> rq_max_attempts rq \<and> rq_max_attempts rq \<le> min 3 (qc_max_attempts config)) (QueuePolicyError BadMaxAttempts)) (\<lambda>_.
     res_bind (check (1 \<le> rq_timeout_sec rq \<and> rq_timeout_sec rq \<le> 3600) (QueuePolicyError BadTimeout)) (\<lambda>_.
     res_bind (check (kind = JK_REPO_CHANGE \<longrightarrow> requires_tests (rq_expected_output_schema rq)) (QueuePolicyError SchemaWithoutTests)) (\<lambda>_.
     res_bind (snapshot_repository (rq_repo rq)) (\<lambda>snapshot.
     res_bind (check (matches (rq_branch rq) (rs_branch snapshot)) (QueuePolicyError BranchMismatch)) (\<lambda>_.
     res_bind (check (matches (rq_base_sha rq) (rs_sha snapshot)) (QueuePolicyError BaseShaMismatch)) (\<lambda>_.
     res_bind (check (\<not> (kind = JK_REPO_CHANGE \<and> rs_branch snapshot \<in> {''main'', ''master''})) (QueuePolicyError MainBranch)) (\<lambda>_.
     res_bind (validate_reference (rq_authorization_ref rq)) (\<lambda>authorization_ref.
     res_bind (validate_reference (rq_verification_job_id rq)) (\<lambda>verification_job_id.
     res_bind (validate_reference (rq_session_key rq)) (\<lambda>session_key.
     res_bind (validate_reference (rq_scope_key rq)) (\<lambda>scope.
     Inr \<lparr>jb_job_id = job_id, jb_created_at = now, jb_updated_at = now, jb_prompt = prompt, jb_repo = rs_root snapshot,
       jb_base_sha = Some (rs_sha snapshot), jb_model = model, jb_effort = strip effort, jb_timeout_sec = rq_timeout_sec rq,
       jb_status = JS_PENDING, jb_attempt = 0, jb_max_attempts = rq_max_attempts rq, jb_lease_until = None, jb_worker_id = None,
       jb_conversation_id = None, jb_result_path = Some (qc_root config @ ''/results/'' @ job_id @ ''.json''),
       jb_raw_events_path = Some (qc_root config @ ''/events/'' @ job_id @ ''.jsonl''), jb_error_code = None, jb_stderr = None,
       jb_started_at = None, jb_finished_at = None, jb_branch = Some (rs_branch snapshot), jb_head_sha = None,
       jb_next_attempt_at = None, jb_session_key = session_key,
       jb_scope_key = (case scope of Some x \<Rightarrow> Some x | None \<Rightarrow> Some (rs_root snapshot)), jb_job_kind = kind,
       jb_external_effect_class = JOB_EFFECT_CLASS kind, jb_gate_state = initial_gate kind authorization_ref verification_job_id,
       jb_authorization_ref = authorization_ref, jb_verification_job_id = verification_job_id,
       jb_expected_output_schema = rq_expected_output_schema rq, jb_result_json = None\<rparr>)))))))))))))))))"

text \<open>\<open>submit\<close>: the job is stored before it is returned.\<close>

definition submit ::
  "(queue_op \<Rightarrow> 's \<Rightarrow> outcome \<times> 's) \<Rightarrow> QueueConfig \<Rightarrow> (string \<Rightarrow> submit_error + RepositorySnapshot) \<Rightarrow> string \<Rightarrow> string \<Rightarrow>
   JobRequest \<Rightarrow> 's \<Rightarrow> (submit_error + outcome) \<times> 's" where
  "submit run config snapshot_repository job_id now rq s =
     (case submit_job config snapshot_repository job_id now rq of
        Inl e \<Rightarrow> (Inl e, s)
      | Inr job \<Rightarrow> (case run (Create job) s of (out, s') \<Rightarrow> (Inr out, s')))"

section \<open>Result files\<close>

text \<open>\<open>ResultArtifactStore\<close>: a result file per job, written once; and the event files.\<close>

record ArtifactStore =
  af_results :: "string \<rightharpoonup> jobject"
  af_events :: "(string \<times> json) list"

definition write_result :: "string \<Rightarrow> jobject \<Rightarrow> ArtifactStore \<Rightarrow> queue_error + ArtifactStore" where
  "write_result i envelope a =
     (let serialized = canonical_obj (redact_obj envelope) in
      case af_results a i of
        Some existing \<Rightarrow> if existing \<noteq> serialized then Inl (QueueStorageError i) else Inr a
      | None \<Rightarrow> Inr (a\<lparr>af_results := (af_results a)(i \<mapsto> serialized)\<rparr>))"

definition append_event_file :: "string \<Rightarrow> json \<Rightarrow> ArtifactStore \<Rightarrow> ArtifactStore" where
  "append_event_file i event a = a\<lparr>af_events := af_events a @ [(i, canonical (redact_json event))]\<rparr>"

section \<open>The error path of the worker\<close>

text \<open>The exceptions that end an attempt, with their class attributes.\<close>

datatype worker_exception =
    AgyStartupError | AgyCapacityError | AgyTimeoutError | AgyProcessExitError | AgyProtocolError | AgyPermissionError
  | AgyResultError | MainnetPreflightError | WorkerError | LeaseLostError | VerificationError | RepositoryFailure

fun exception_code :: "worker_exception \<Rightarrow> string" where
  "exception_code AgyStartupError = ''agy_startup_error''"
| "exception_code AgyCapacityError = ''agy_capacity''"
| "exception_code AgyTimeoutError = ''agy_timeout_uncertain''"
| "exception_code AgyProcessExitError = ''agy_process_exit_before_result''"
| "exception_code AgyProtocolError = ''agy_protocol_error''"
| "exception_code AgyPermissionError = ''agy_permission_policy''"
| "exception_code AgyResultError = ''agy_result_invalid''"
| "exception_code MainnetPreflightError = ''mainnet_preflight_failed''"
| "exception_code LeaseLostError = ''lease_lost''"
| "exception_code VerificationError = ''verification_failed''"
| "exception_code _ = ''worker_error''"

definition exception_retryable :: "worker_exception \<Rightarrow> bool" where
  "exception_retryable x = (x \<in> {AgyStartupError, AgyCapacityError, AgyTimeoutError, AgyProcessExitError})"

definition exception_uncertain :: "worker_exception \<Rightarrow> bool" where
  "exception_uncertain x = (x \<in> {AgyTimeoutError, AgyProcessExitError, LeaseLostError})"

definition failure_envelope :: "JobRecord \<Rightarrow> worker_exception \<Rightarrow> string \<Rightarrow> string \<Rightarrow> jobject" where
  "failure_envelope job err message now =
     [(''job_id'', JStr (jb_job_id job)), (''status'', JStr ''failed''), (''attempt'', JInt (jb_attempt job)), (''response'', JNull),
      (''model'', JStr (jb_model job)), (''effort'', JStr (jb_effort job)), (''repo'', JStr (jb_repo job)),
      (''base_sha'', opt_string (jb_base_sha job)), (''finished_at'', JStr now), (''usage'', JObject []),
      (''error'', JObject [(''code'', JStr (exception_code err)), (''message'', JStr (redact_text message))])]"

text \<open>What the session returned (\<open>AgyTerminalResult\<close>).\<close>

record AgyTerminalResult =
  tr_conversation_id :: "string option"
  tr_response :: "string option"
  tr_structured_output :: json
  tr_usage :: jobject
  tr_stderr :: "string option"

definition result_envelope :: "JobRecord \<Rightarrow> AgyTerminalResult \<Rightarrow> jobject option \<Rightarrow> string \<Rightarrow> jobject" where
  "result_envelope job result evidence now =
     [(''job_id'', JStr (jb_job_id job)), (''status'', JStr ''succeeded''), (''attempt'', JInt (jb_attempt job)),
      (''response'', opt_string (tr_response result)), (''structured_output'', tr_structured_output result),
      (''model'', JStr (jb_model job)), (''effort'', JStr (jb_effort job)), (''repo'', JStr (jb_repo job)),
      (''base_sha'', opt_string (jb_base_sha job)), (''finished_at'', JStr now),
      (''conversation_id'', opt_string (tr_conversation_id result)), (''usage'', JObject (tr_usage result)),
      (''stderr'', opt_string (tr_stderr result)), (''verification'', opt_object evidence), (''error'', JNull)]"

text \<open>The state the worker changes.\<close>

record 's WorkerState =
  ws_store :: 's
  ws_artifacts :: ArtifactStore

definition run_store :: "(queue_op \<Rightarrow> 's \<Rightarrow> outcome \<times> 's) \<Rightarrow> queue_op \<Rightarrow> 's WorkerState \<Rightarrow> outcome \<times> 's WorkerState" where
  "run_store run op ws = (case run op (ws_store ws) of (out, s) \<Rightarrow> (out, ws\<lparr>ws_store := s\<rparr>))"

text \<open>The second half of \<open>_handle_error\<close>: the failure is written to the result file and recorded in
  the store. \<open>head\<close> is the current commit when the repository is unchanged; the store is read as well,
  without effect on what follows.\<close>

definition record_failure ::
  "(queue_op \<Rightarrow> 's \<Rightarrow> outcome \<times> 's) \<Rightarrow> string \<Rightarrow> JobRecord \<Rightarrow> worker_exception \<Rightarrow> string \<Rightarrow> string option \<Rightarrow> string \<Rightarrow> string \<Rightarrow> string \<Rightarrow>
   's WorkerState \<Rightarrow> (queue_error + unit) \<times> 's WorkerState" where
  "record_failure run worker job err message head now t t' ws =
     (let envelope = failure_envelope job err message now in
      case write_result (jb_job_id job) envelope (ws_artifacts ws) of
        Inl e \<Rightarrow> (Inl e, ws)
      | Inr a \<Rightarrow>
          (case run_store run (MarkFailure (jb_job_id job) worker (exception_code err) (Some (redact_text message)) (Some envelope)
                 head GS_BLOCKED t t') (ws\<lparr>ws_artifacts := a\<rparr>) of
             (OutError e, ws') \<Rightarrow> (Inl e, ws')
           | (_, ws') \<Rightarrow> (Inr (), ws')))"

text \<open>\<open>_handle_error\<close>: a bounded retry where the error allows it, a failure otherwise.\<close>

definition handle_error ::
  "(queue_op \<Rightarrow> 's \<Rightarrow> outcome \<times> 's) \<Rightarrow> string \<Rightarrow> JobRecord \<Rightarrow> worker_exception \<Rightarrow> string \<Rightarrow> json \<Rightarrow> string \<Rightarrow> string option \<Rightarrow> string \<Rightarrow>
   string \<Rightarrow> string \<Rightarrow> 's WorkerState \<Rightarrow> (queue_error + unit) \<times> 's WorkerState" where
  "handle_error run worker job err message delay next_at head now t t' ws =
     (let retryable = exception_retryable err \<and> \<not> (jb_job_kind job = JK_REPO_CHANGE \<and> exception_uncertain err);
          event = JObject [(''event'', JStr ''queue_retry''), (''error_code'', JStr (exception_code err)), (''delay_sec'', delay)] in
      if retryable \<and> jb_attempt job < jb_max_attempts job
      then
        (case run_store run (AppendEvent (jb_job_id job) event (Some ''queue_retry'') t) ws of
           (OutError e, ws1) \<Rightarrow> (Inl e, ws1)
         | (_, ws1) \<Rightarrow>
             (case run_store run (ScheduleRetry (jb_job_id job) next_at (exception_code err) (Some (redact_text message)) t)
                     (ws1\<lparr>ws_artifacts := append_event_file (jb_job_id job) event (ws_artifacts ws1)\<rparr>) of
                (OutError e, ws2) \<Rightarrow> (Inl e, ws2)
              | (OutBool True, ws2) \<Rightarrow> (Inr (), ws2)
              | (_, ws2) \<Rightarrow> record_failure run worker job err message head now t t' ws2))
      else record_failure run worker job err message head now t t' ws)"

text \<open>The end of \<open>run_once\<close> when the session returned and its output was verified.\<close>

definition record_success ::
  "(queue_op \<Rightarrow> 's \<Rightarrow> outcome \<times> 's) \<Rightarrow> string \<Rightarrow> JobRecord \<Rightarrow> AgyTerminalResult \<Rightarrow> jobject option \<Rightarrow> string option \<Rightarrow> string \<Rightarrow> string \<Rightarrow>
   string \<Rightarrow> string \<Rightarrow> 's WorkerState \<Rightarrow> (queue_error + unit) \<times> 's WorkerState" where
  "record_success run worker job terminal evidence head path now t t' ws =
     (let envelope = result_envelope job terminal evidence now in
      case write_result (jb_job_id job) envelope (ws_artifacts ws) of
        Inl e \<Rightarrow> (Inl e, ws)
      | Inr a \<Rightarrow>
          (case run_store run (MarkSuccess (jb_job_id job) worker envelope path (tr_conversation_id terminal) head GS_VERIFIED t t')
                 (ws\<lparr>ws_artifacts := a\<rparr>) of
             (OutError e, ws') \<Rightarrow> (Inl e, ws')
           | (_, ws') \<Rightarrow> (Inr (), ws')))"

section \<open>What a submitted job is\<close>

lemma submit_job_shape:
  assumes "submit_job config snap job_id now rq = Inr job"
  shows "fresh_job job \<and> jb_max_attempts job \<le> 3 \<and> jb_job_id job = job_id
    \<and> \<not> contains_credential_like_content (jb_prompt job)
    \<and> jb_external_effect_class job = JOB_EFFECT_CLASS (jb_job_kind job)
    \<and> jb_external_effect_class job \<notin> {EC_EXCHANGE_ORDER, EC_EMERGENCY_CONTROL}
    \<and> (jb_job_kind job = JK_REPO_CHANGE \<longrightarrow> jb_branch job \<notin> {None, Some ''main'', Some ''master''})
    \<and> (jb_job_kind job \<in> {JK_REPO_CHANGE, JK_CLOUD_WRITE, JK_MAINNET_PREFLIGHT} \<longrightarrow>
         (jb_gate_state job = GS_READY \<longrightarrow> jb_authorization_ref job \<noteq> None)
         \<and> (jb_authorization_ref job = None \<longrightarrow> jb_gate_state job = GS_WAITING_AUTHORIZATION))"
proof -
  from assms obtain kind prompt where k: "kind \<notin> {JK_TRADING_ORDER, JK_EMERGENCY_KILL_SWITCH}" and p: "validate_prompt (rq_prompt rq) = Inr prompt"
    and job: "jb_job_kind job = kind" "jb_prompt job = prompt" "jb_external_effect_class job = JOB_EFFECT_CLASS kind" "jb_job_id job = job_id"
      "fresh_job job" "jb_max_attempts job \<le> 3" "kind = JK_REPO_CHANGE \<longrightarrow> jb_branch job \<notin> {None, Some ''main'', Some ''master''}"
      "jb_gate_state job = initial_gate kind (jb_authorization_ref job) (jb_verification_job_id job)"
    unfolding submit_job_def Let_def by (auto simp: res_simps fresh_job_def split: sum.splits)
  have "\<not> contains_credential_like_content prompt" using p by (auto simp: validate_prompt_def res_simps)
  moreover have "JOB_EFFECT_CLASS kind \<notin> {EC_EXCHANGE_ORDER, EC_EMERGENCY_CONTROL}" using k by (cases kind) simp_all
  ultimately show ?thesis using job by (auto simp: initial_gate_def)
qed


section \<open>Both backends keep the queue in order\<close>



text \<open>
  C36: A running job stays with its owner: while its lease has not expired it remains running under
  the owner's name, whatever other workers do (claims, heartbeats, results and failures under their
  own names, recovery, retries of failed jobs), as long as it is neither cancelled nor rescheduled.
\<close>

theorem running_job_stays_with_owner:
  assumes "list_all fresh_op (ops @ ops')" "held i w lease (sqlite_view (run_all sqlite_run ops sqlite_init))"
    "list_all (not_by_owner i w lease) ops'"
  shows "held i w lease (sqlite_view (run_all sqlite_run ops' (run_all sqlite_run ops sqlite_init)))"
  using sqlite.owner_keeps_job[OF _ assms] by (simp add: list_all_iff)

text \<open>
  C37: The worker's loop ends: however operations follow each other, jobs are claimed at most as
  often as the attempts of the jobs that were created allow, so a worker that does not wait for new
  jobs claims finitely often.
\<close>

theorem claims_are_bounded:
  assumes "list_all fresh_op ops"
  shows "int (starts sqlite_run ops sqlite_init) \<le> sum_list (map created_attempts ops)
    \<and> (list_all stable_op ops \<longrightarrow> int (starts jsonl_run ops jsonl_init) \<le> sum_list (map created_attempts ops))"
  using assms sqlite.starts_bounded[of ops] jsonl.starts_bounded[of ops] by (simp add: list_all_iff)

text \<open>
  C38: A job that needs authorisation and was submitted without it is never attempted: after any
  further operations it is still waiting or was cancelled.
\<close>

theorem unauthorised_job_never_runs:
  assumes "submit_job config snap job_id now rq = Inr job"
    "jb_job_kind job \<in> {JK_REPO_CHANGE, JK_CLOUD_WRITE, JK_MAINNET_PREFLIGHT}" "jb_authorization_ref job = None"
    "list_all fresh_op (ops @ ops')" "fst (sqlite_run (Create job) (run_all sqlite_run ops sqlite_init)) = OutJob job"
  shows "\<exists>j. sqlite_get job_id (run_all sqlite_run (ops @ Create job # ops') sqlite_init) = Some j
    \<and> jb_attempt j = 0 \<and> jb_status j \<in> {JS_PENDING, JS_CANCELLED}"
proof -
  let ?s = "run_all sqlite_run ops sqlite_init"
  have job: "fresh_job job" "jb_job_id job = job_id" "jb_gate_state job = GS_WAITING_AUTHORIZATION"
    using submit_job_shape[OF assms(1)] assms(2,3) by auto
  have app: "run_all sqlite_run (xs @ ys) s = run_all sqlite_run ys (run_all sqlite_run xs s)" for xs ys s
    by (induction xs arbitrary: s) simp_all
  have "find_job job_id (db_jobs ?s) = None" using assms(5) job(2) by (auto simp: sqlite_create_job_def split: if_splits)
  then have new: "find_job job_id (sqlite_view ?s) = None"
    using sqlite_view_good[OF sqlite.runs_good[OF sqlite.init_good, of ops]] by (simp add: list_all_iff find_job_erase)
  have "sqlite_view (run_all sqlite_run (ops @ [Create job]) sqlite_init) = sqlite_view ?s @ [stored job]"
    using sqlite.run_view[OF sqlite.runs_good[OF sqlite.init_good, of ops], of "Create job"] new job(2)
    by (simp add: app list_all_iff)
  then have "find_job job_id (sqlite_view (run_all sqlite_run (ops @ [Create job]) sqlite_init)) = Some (stored job)"
    using new job(2) by (simp add: find_job_append) (simp add: find_job_def stored_def)
  moreover have "list_all fresh_op ((ops @ [Create job]) @ ops')" using assms(4) job(1) by (simp add: fresh_op_def)
  ultimately obtain j where j: "find_job job_id (sqlite_view (run_all sqlite_run (ops @ Create job # ops') sqlite_init)) = Some j"
    "job_step\<^sup>*\<^sup>* (stored job) j"
    using sqlite.job_history[of "ops @ [Create job]" ops' job_id "stored job"] by (auto simp: list_all_iff app)
  have "waiting (stored job)" "jb_attempt (stored job) = 0" using job by (simp_all add: waiting_def stored_def fresh_job_def)
  with waiting_steps[OF j(2)] have "waiting j" "jb_attempt j = 0" by simp_all
  moreover from j(1) obtain row where "find_job job_id (db_jobs (run_all sqlite_run (ops @ Create job # ops') sqlite_init)) = Some row" "j = erase row"
    using sqlite_view_good[OF sqlite.runs_good[OF sqlite.init_good, of "ops @ Create job # ops'"]] by (auto simp: list_all_iff find_job_erase)
  ultimately show ?thesis by (auto simp: sqlite_get_def select_job_def row_to_job_def waiting_def)
qed


section \<open>Where the code falls short\<close>

text \<open>Rescheduling does not ask who calls: a running job of any owner, with its lease unexpired, can be
  put back to pending by a worker that lost it.\<close>

theorem schedule_retry_not_fenced:
  assumes "sqlite_good s" "held i w lease (sqlite_view s)" "find_job i (sqlite_view s) = Some j"
    "jb_attempt j < jb_max_attempts j" "\<not> unsafe_effect (jb_external_effect_class j)"
  shows "fst (sqlite_run (ScheduleRetry i next_at code stderr t) s) = OutBool True
    \<and> \<not> held i w' lease' (sqlite_view (snd (sqlite_run (ScheduleRetry i next_at code stderr t) s)))"
proof -
  let ?op = "ScheduleRetry i next_at code stderr t"
  have spec: "spec_run ?op (sqlite_view s) = (OutBool True, update_job i (rescheduled next_at code stderr) (sqlite_view s))"
    using assms(2-5) by (auto simp: change_job_def retryable_def held_def)
  have "erase_outcome (fst (sqlite_run ?op s)) = OutBool True" using sqlite.run_answer[OF assms(1), of ?op] spec by (simp add: answers_def)
  then have "fst (sqlite_run ?op s) = OutBool True" by (cases "fst (sqlite_run ?op s)") simp_all
  moreover have "sqlite_view (snd (sqlite_run ?op s)) = update_job i (rescheduled next_at code stderr) (sqlite_view s)"
    using sqlite.run_view[OF assms(1), of ?op] spec by simp
  ultimately show ?thesis using assms(3) by (auto simp: held_def find_job_update rescheduled_def)
qed

text \<open>Result files are written once and carry the number of the attempt, so after a failed attempt was
  recorded no later attempt can record a success or a failure: \<open>retry\<close> revives a job that cannot end.\<close>

lemma envelope_attempt:
  assumes "distinct (map fst d)" "map_of d ''attempt'' = Some (JInt n)"
  shows "map_of (canonical_obj (redact_obj d)) ''attempt'' = Some (JInt n)"
proof -
  have "map fst (redact_obj d) = map fst d" by (auto simp: redact_obj_def)
  then have "distinct (map fst (redact_obj d))" using assms(1) by metis
  then show ?thesis using assms(2) by (simp add: map_of_canonical map_of_redact payload_keys)
qed

theorem retried_attempt_cannot_end:
  assumes "af_results (ws_artifacts ws) (jb_job_id job) = Some (canonical_obj (redact_obj (failure_envelope job0 err0 message0 now0)))"
    "jb_attempt job \<noteq> jb_attempt job0"
  shows "record_success run worker job terminal evidence head path now t t' ws = (Inl (QueueStorageError (jb_job_id job)), ws)
    \<and> record_failure run worker job err message head now t t' ws = (Inl (QueueStorageError (jb_job_id job)), ws)"
proof -
  have f: "map_of (canonical_obj (redact_obj (failure_envelope j x m n))) ''attempt'' = Some (JInt (jb_attempt j))" for j x m n
    by (rule envelope_attempt) (simp_all add: failure_envelope_def)
  have r: "map_of (canonical_obj (redact_obj (result_envelope j x m n))) ''attempt'' = Some (JInt (jb_attempt j))" for j x m n
    by (rule envelope_attempt) (simp_all add: result_envelope_def)
  have "canonical_obj (redact_obj (failure_envelope job0 err0 message0 now0)) \<noteq> canonical_obj (redact_obj (result_envelope job terminal evidence now))"
    using f[of job0 err0 message0 now0] r[of job terminal evidence now] assms(2) by auto
  moreover have "canonical_obj (redact_obj (failure_envelope job0 err0 message0 now0)) \<noteq> canonical_obj (redact_obj (failure_envelope job err message now))"
    using f[of job0 err0 message0 now0] f[of job err message now] assms(2) by auto
  ultimately show ?thesis using assms(1) by (simp add: record_success_def record_failure_def write_result_def)
qed

section \<open>Witnesses\<close>

definition sample_request :: JobRequest where
  "sample_request = \<lparr>rq_prompt = ''review'', rq_repo = ''/r'', rq_kind = ''REPO_CHANGE'', rq_model = ''m-high'', rq_effort = None,
     rq_session_key = None, rq_max_attempts = 2, rq_timeout_sec = 60,
     rq_expected_output_schema = Some [(''required'', JList [JStr ''tests_passed''])], rq_authorization_ref = None,
     rq_verification_job_id = None, rq_branch = None, rq_base_sha = None, rq_scope_key = None\<rparr>"

definition sample_config :: QueueConfig where
  "sample_config = \<lparr>qc_root = ''/q'', qc_default_effort = ''medium'', qc_max_attempts = 3, qc_lease_ttl_sec = 90\<rparr>"

definition sample_snapshot_repository :: "string \<Rightarrow> submit_error + RepositorySnapshot" where
  "sample_snapshot_repository repo = Inr \<lparr>rs_root = repo, rs_branch = ''feature'', rs_sha = ''abc''\<rparr>"

definition sample_job :: JobRecord where
  "sample_job = \<lparr>jb_job_id = ''agy-1'', jb_created_at = ''T'', jb_updated_at = ''T'', jb_prompt = ''review'', jb_repo = ''/r'',
     jb_base_sha = Some ''abc'', jb_model = ''m-high'', jb_effort = ''high'', jb_timeout_sec = 60, jb_status = JS_PENDING,
     jb_attempt = 0, jb_max_attempts = 2, jb_lease_until = None, jb_worker_id = None, jb_conversation_id = None,
     jb_result_path = Some ''/q/results/agy-1.json'', jb_raw_events_path = Some ''/q/events/agy-1.jsonl'', jb_error_code = None,
     jb_stderr = None, jb_started_at = None, jb_finished_at = None, jb_branch = Some ''feature'', jb_head_sha = None,
     jb_next_attempt_at = None, jb_session_key = None, jb_scope_key = Some ''/r'', jb_job_kind = JK_REPO_CHANGE,
     jb_external_effect_class = EC_REPO_CHANGE, jb_gate_state = GS_WAITING_AUTHORIZATION, jb_authorization_ref = None,
     jb_verification_job_id = None, jb_expected_output_schema = Some [(''required'', JList [JStr ''tests_passed''])],
     jb_result_json = None\<rparr>"

lemma sample_prompt: "validate_prompt ''review'' = Inr ''review''"
proof -
  have "\<not> re_search match_private_key None ''review''" "\<not> re_search match_bearer None ''review''"
    by (simp_all add: match_private_key_def match_bearer_def is_space_def startswith_def)
  moreover have "match_labeled t = None" if "set t \<subseteq> set ''review''" for t
  proof (rule ccontr)
    assume "match_labeled t \<noteq> None"
    from match_labeled_chars(1)[OF this] that show False by auto
  qed
  then have "\<not> re_search match_labeled_secret None ''review''"
    using re_search_suffix[of match_labeled_secret None "''review''"] by (auto simp: match_labeled_secret_def)
  ultimately have "\<not> contains_credential_like_content ''review''"
    by (simp add: contains_credential_like_content_def re_finditer_unmatched)
  then show ?thesis by (simp add: validate_prompt_def string_eval)
qed

lemma sample_kind: "normalize_job_kind ''REPO_CHANGE'' = Inr JK_REPO_CHANGE"
  by (simp add: normalize_job_kind_def enum_of_def string_eval char_of_def)

lemma sample_submit: "submit_job sample_config sample_snapshot_repository ''agy-1'' ''T'' sample_request = Inr sample_job"
proof -
  have m: "strip ''m-high'' = ''m-high''" "strip ''high'' = ''high''" by (simp_all add: string_eval)
  show ?thesis
    by (simp add: submit_job_def sample_request_def sample_prompt sample_kind m effort_of_def model_effort_suffix_def endswith_def
        startswith_def sample_config_def requires_tests_def json_get_def sample_snapshot_repository_def matches_def
        validate_reference_def initial_gate_def sample_job_def)
qed


lemma sample_stable: "stable_job sample_job"
proof -
  have "\<not> secret_key ''required''" by (simp add: secret_key_label lower_def lower_char_def key_labels_def joined_labels_def)
  moreover have "redact_text ''tests_passed'' = ''tests_passed''" by (simp add: redact_plain is_space_def)
  ultimately have "redact_obj [(''required'', JList [JStr ''tests_passed''])] = [(''required'', JList [JStr ''tests_passed''])]"
    by (simp add: redact_obj_def)
  then show ?thesis by (simp add: stable_job_def sample_job_def unredacted_def redact_plain is_space_def lower_char_def)
qed

lemma sample_ops: "list_all fresh_op [Create sample_job]" "list_all stable_op [Create sample_job]"
  using sample_stable by (simp_all add: fresh_op_def fresh_job_def sample_job_def)



theorem claims_are_bounded_witness: "int (starts sqlite_run [Create sample_job] sqlite_init) \<le> 2"
  using claims_are_bounded[OF sample_ops(1)] by (simp add: sample_job_def)

theorem unauthorised_job_never_runs_witness:
  "\<exists>j. sqlite_get ''agy-1'' (run_all sqlite_run ([] @ Create sample_job # [Cancel ''agy-1'' ''T'' ''T'']) sqlite_init) = Some j \<and> jb_attempt j = 0"
  using unauthorised_job_never_runs[OF sample_submit, of "[]" "[Cancel ''agy-1'' ''T'' ''T'']"]
  by (simp add: sample_job_def fresh_op_def sqlite_create_job_def sqlite_init_def find_job_def) blast


text \<open>A claimed job, for the ownership of its lease.\<close>

definition ready_job :: JobRecord where
  "ready_job = sample_job\<lparr>jb_job_kind := JK_READ_ONLY, jb_external_effect_class := EC_NONE, jb_gate_state := GS_READY\<rparr>"

definition ready_ops :: "queue_op list" where
  "ready_ops = [Create ready_job, ClaimNext ''w'' ''2026-01-01T00:00:00.000Z'' 90 None]"

lemma sample_lease: "lease_expiry ''2026-01-01T00:00:00.000Z'' 90 = Inr (utc_iso 1767225690000000)"
proof -
  have days: "days_from_civil 2026 1 1 = 20454"
    by (simp add: days_from_civil_def Let_def)
  have civil: "civil_from_days 20454 = (2026, 1, 1)"
    by code_simp
  have digits: "nat_of_digits ''2026'' = 2026" "nat_of_digits ''01'' = 1" "nat_of_digits ''00'' = 0" "nat_of_digits ''000'' = 0"
    by (simp_all add: nat_of_digits_def digit_value_def)
  have "from_iso ''2026-01-01T00:00:00.000Z'' = Some 1767225600000000"
    by (simp add: from_iso_def Let_def digits days civil is_digit_def)
  then show ?thesis by (simp add: lease_expiry_def)
qed

theorem running_job_stays_with_owner_witness:
  "held ''agy-1'' ''w'' (utc_iso 1767225690000000)
     (sqlite_view (run_all sqlite_run [Heartbeat ''agy-1'' ''other'' ''T'' ''T'', MarkFailure ''agy-1'' ''other'' ''x'' None None None GS_BLOCKED ''T'' ''T'']
       (run_all sqlite_run ready_ops sqlite_init)))"
proof -
  have ready: "claimable ''2026-01-01T00:00:00.000Z'' None [stored ready_job] (stored ready_job)"
    by (simp add: claimable_def scope_busy_def stored_def erase_def ready_job_def sample_job_def)
  have id: "jb_job_id (stored ready_job) = ''agy-1''" by (simp add: stored_def ready_job_def sample_job_def)
  have fresh: "list_all fresh_op ready_ops" by (simp add: ready_ops_def fresh_op_def fresh_job_def ready_job_def sample_job_def)
  have "sqlite_view (run_all sqlite_run ready_ops sqlite_init) = spec_runs ready_ops []"
    using sqlite.runs_view[OF sqlite.init_good, of ready_ops] by (simp add: sqlite.init_view list_all_iff)
  also have "spec_runs ready_ops [] = update_job ''agy-1'' (claimed ''w'' ''2026-01-01T00:00:00.000Z'' (utc_iso 1767225690000000)) [stored ready_job]"
    by (simp add: ready_ops_def find_job_def ready sample_lease first_job_def id)
  also have "held ''agy-1'' ''w'' (utc_iso 1767225690000000) \<dots>"
    by (simp add: held_def update_job_def id find_job_def) (simp add: claimed_def)
  finally have held: "held ''agy-1'' ''w'' (utc_iso 1767225690000000) (sqlite_view (run_all sqlite_run ready_ops sqlite_init))" .
  show ?thesis by (rule running_job_stays_with_owner[OF _ held]) (use fresh in \<open>simp_all add: fresh_op_def\<close>)
qed

end
