(* ===== verification/Snapshot.thy ===== *)
theory Snapshot
  imports Gates
begin

text \<open>
  The account snapshot that reconciliation builds from the answers of the exchange
  (\<open>build_account_snapshot\<close> and its helpers in \<open>venues/binance/reconciliation.py\<close>). The answers are
  JSON values; the list of positions is a list already, since every caller checks it. All exceptions
  of this part are \<open>ValueError\<close>s.
\<close>

type_synonym jfields = "(string \<times> json) list"

section \<open>Fields\<close>

definition required_decimal :: "jfields \<Rightarrow> string \<Rightarrow> rat res" where
  "required_decimal payload field =
     (let v = json_get payload field in
      if json_missing v then Inl (ValueError ''Missing required Binance account field'')
      else
        (case json_decimal v of
           None \<Rightarrow> Inl (ValueError ''Invalid Binance account field'')
         | Some (Fin x) \<Rightarrow> Inr x
         | Some _ \<Rightarrow> Inl (ValueError ''Non-finite Binance account field'')))"

definition required_asset :: "jfields \<Rightarrow> string \<Rightarrow> jfields res" where
  "required_asset account asset_name =
     (case json_get account ''assets'' of
        JList assets \<Rightarrow>
          let normalized = upper (strip asset_name);
              matches = concat (map (\<lambda>item. case item of
                 JObject d \<Rightarrow> if upper (strip (py_str (json_get_or d ''asset'' (JStr '''')))) = normalized then [d] else []
               | _ \<Rightarrow> []) assets)
          in (case matches of
                [d] \<Rightarrow> Inr d
              | _ \<Rightarrow> Inl (ValueError ''Binance account does not contain exactly one collateral asset''))
      | _ \<Rightarrow> Inl (ValueError ''Binance account response is missing the assets array''))"

definition utc_day_window :: "datetime \<Rightarrow> (int \<times> int) res" where
  "utc_day_window now =
     (case now of
        Naive _ \<Rightarrow> Inl (ValueError ''reconciliation timestamps must be timezone-aware'')
      | Aware t \<Rightarrow> let start = t div seconds 86400 * seconds 86400 in Inr (start, start + seconds 86400))"

definition position_amount :: "jfields \<Rightarrow> rat res" where
  "position_amount position =
     (let v = json_get position ''positionAmt'' in
      if json_missing v then Inl (ValueError ''Position is missing positionAmt'')
      else
        (case json_decimal v of
           None \<Rightarrow> Inl (ValueError ''Position has an invalid positionAmt'')
         | Some (Fin x) \<Rightarrow> Inr x
         | Some _ \<Rightarrow> Inl (ValueError ''Position has a non-finite positionAmt'')))"

section \<open>Margin mode and leverage\<close>

text \<open>The loop over the positions: the modes seen (in order) and whether an active position has
  none, or the result of an early return.\<close>

fun margin_modes :: "json list \<Rightarrow> string list \<Rightarrow> bool \<Rightarrow> (string \<times> bool) + (string list \<times> bool)" where
  "margin_modes [] modes unknown_active = Inr (modes, unknown_active)"
| "margin_modes (JObject d # ps) modes unknown_active =
     (let active = (case position_amount d of Inr x \<Rightarrow> x \<noteq> 0 | Inl _ \<Rightarrow> True);
          raw = json_get d ''marginType''
      in if json_missing raw then margin_modes ps modes (unknown_active \<or> active)
         else
           (let mode = upper (strip (py_str raw)) in
            if mode \<notin> {''CROSS'', ''ISOLATED''} then Inl (if mode = [] then ''UNKNOWN'' else mode, False)
            else margin_modes ps (List.insert mode modes) unknown_active))"
| "margin_modes (_ # ps) modes unknown_active = margin_modes ps modes unknown_active"

definition margin_mode_observation :: "jfields \<Rightarrow> json list \<Rightarrow> string \<times> bool" where
  "margin_mode_observation account position_risk =
     (if json_truthy (json_get account ''portfolioMargin'') then (''CROSS'', True)
      else if map_of account ''multiAssetsMargin'' \<noteq> None \<and> exchange_bool (json_get account ''multiAssetsMargin'')
      then (''MULTI_ASSET_CROSS'', True)
      else
        (case margin_modes position_risk [] False of
           Inl early \<Rightarrow> early
         | Inr (modes, unknown_active) \<Rightarrow>
             if unknown_active then (''UNKNOWN'', False)
             else
               (case modes of
                  [] \<Rightarrow> if map_of account ''multiAssetsMargin'' \<noteq> None then (''SINGLE_ASSET_CROSS'', True) else (''UNKNOWN'', False)
                | [m] \<Rightarrow> (m, True)
                | _ \<Rightarrow> (''MIXED'', False))))"

text \<open>The leverages of the configured symbol; \<open>None\<close> is the early return on an unusable one.\<close>

fun leverage_candidates :: "string \<Rightarrow> json list \<Rightarrow> rat list option" where
  "leverage_candidates configured_symbol [] = Some []"
| "leverage_candidates configured_symbol (JObject d # ps) =
     (if upper (strip (py_str (json_get_or d ''symbol'' (JStr '''')))) \<noteq> configured_symbol
      then leverage_candidates configured_symbol ps
      else if json_missing (json_get d ''leverage'') then None
      else
        (case finite_of (json_decimal (json_get d ''leverage'')) of
           None \<Rightarrow> None
         | Some x \<Rightarrow> if x \<le> 0 then None else map_option (Cons x) (leverage_candidates configured_symbol ps)))"
| "leverage_candidates configured_symbol (_ # ps) = leverage_candidates configured_symbol ps"

definition configured_leverage_observation ::
  "json list \<Rightarrow> string \<Rightarrow> string \<Rightarrow> decimal option \<Rightarrow> rat option" where
  "configured_leverage_observation position_risk environment configured_symbol explicit =
     (if environment \<noteq> environment_label MAINNET then None
      else
        (case explicit of
           Some e \<Rightarrow> (case e of Fin x \<Rightarrow> if x > 0 then Some x else None | _ \<Rightarrow> None)
         | None \<Rightarrow>
             (case leverage_candidates configured_symbol position_risk of
                Some (x # xs) \<Rightarrow> if list_all (\<lambda>y. y = x) xs then Some x else None
              | _ \<Rightarrow> None)))"

section \<open>Positions\<close>

definition clamp_pct :: "rat \<Rightarrow> rat" where
  "clamp_pct x = min 100 (max 0 x)"

definition liquidation_distance :: "jfields \<Rightarrow> rat \<Rightarrow> rat option res" where
  "liquidation_distance position mark_price =
     (let raw = json_get position ''liquidationPrice'' in
      if json_missing raw then Inr None
      else
        (case finite_of (json_decimal raw) of
           None \<Rightarrow> Inr None
         | Some liquidation_price \<Rightarrow>
             if liquidation_price \<le> 0 \<or> mark_price \<le> 0 then Inr None
             else
               res_bind (position_amount position) (\<lambda>amount.
               let side = upper (py_str (json_get_or position ''positionSide'' (JStr ''BOTH''))) in
               if amount = 0 then Inr None
               else if side \<in> {''LONG'', ''BOTH''} \<and> amount > 0
               then Inr (Some (clamp_pct (dmul (ddiv (dsub mark_price liquidation_price) mark_price) 100)))
               else if side \<in> {''SHORT'', ''BOTH''} \<and> amount < 0
               then Inr (Some (clamp_pct (dmul (ddiv (dsub liquidation_price mark_price) mark_price) 100)))
               else Inr None)))"

record position_scan =
  scan_total :: rat
  scan_distances :: "rat list"
  scan_known :: bool
  scan_active :: bool

definition notional_agrees :: "json \<Rightarrow> rat \<Rightarrow> unit res" where
  "notional_agrees raw computed =
     (if json_missing raw then Inr ()
      else
        (case json_decimal raw of
           None \<Rightarrow> Inl (ValueError ''Active position has invalid notional'')
         | Some (Fin x) \<Rightarrow>
             let parsed = dabs x in
             check (\<not> (parsed \<le> 0 \<or> dabs (dsub parsed computed) > max (1 / 10 ^ 8) (dmul computed (1 / 100))))
               (ValueError ''Active position notional disagrees with positionAmt*markPrice'')
         | Some _ \<Rightarrow> Inl (ValueError ''Active position notional disagrees with positionAmt*markPrice'')))"

text \<open>The checks of one active position: symbol, side, mark price and notional must be usable. The
  result is the mark price and the notional.\<close>

definition usable_position :: "string \<Rightarrow> string \<Rightarrow> jfields \<Rightarrow> rat \<Rightarrow> (rat \<times> rat) res" where
  "usable_position environment configured_symbol d amount =
     (let symbol = json_get d ''symbol'' in
      res_bind (check (json_truthy symbol) (ValueError ''Active Binance position is missing symbol'')) (\<lambda>_.
      res_bind (check (\<not> (environment = environment_label MAINNET
          \<and> upper (strip (py_str symbol)) \<noteq> upper (strip configured_symbol)))
          (ValueError ''Mainnet active position is outside the configured symbol'')) (\<lambda>_.
      res_bind (check (\<not> json_missing (json_get d ''positionSide''))
          (ValueError ''Active position is missing positionSide'')) (\<lambda>_.
      res_bind (check (PositionSide_of (upper (py_str (json_get d ''positionSide''))) \<noteq> None)
          (ValueError ''Active position has unsupported positionSide'')) (\<lambda>_.
      res_bind (check (\<not> json_missing (json_get d ''markPrice''))
          (ValueError ''Active position is missing markPrice'')) (\<lambda>_.
      res_bind (check (json_decimal (json_get d ''markPrice'') \<noteq> None) (ValueError ''Active position has invalid markPrice'')) (\<lambda>_.
      res_bind (of_option (ValueError ''Active position has unusable markPrice'')
          (finite_of (json_decimal (json_get d ''markPrice'')))) (\<lambda>mark_price.
      res_bind (check (mark_price > 0) (ValueError ''Active position has unusable markPrice'')) (\<lambda>_.
      let computed = dmul (dabs amount) mark_price in
      res_bind (check (computed > 0) (ValueError ''Active position has uncomputable notional'')) (\<lambda>_.
      res_bind (notional_agrees (json_get d ''notional'') computed) (\<lambda>_.
      Inr (mark_price, computed))))))))))))"

text \<open>An active position adds its notional and its distance to liquidation; with portfolio margin an
  unknown distance is replaced by the margin headroom.\<close>

definition headroom_distance :: "rat \<Rightarrow> rat \<Rightarrow> rat \<Rightarrow> rat" where
  "headroom_distance margin maint computed = clamp_pct (dmul (ddiv (max 0 (dsub margin maint)) computed) 100)"

definition active_position ::
  "string \<Rightarrow> string \<Rightarrow> bool \<Rightarrow> rat \<Rightarrow> rat \<Rightarrow> jfields \<Rightarrow> rat \<Rightarrow> position_scan \<Rightarrow> position_scan res" where
  "active_position environment configured_symbol portfolio margin maint d amount s =
     res_bind (usable_position environment configured_symbol d amount) (\<lambda>(mark_price, computed).
     res_bind (liquidation_distance d mark_price) (\<lambda>distance.
     let s' = s\<lparr>scan_total := dadd (scan_total s) computed, scan_active := True\<rparr> in
     Inr (case distance of
         Some x \<Rightarrow> s'\<lparr>scan_distances := scan_distances s @ [x]\<rparr>
       | None \<Rightarrow>
           if portfolio \<and> margin > 0
           then s'\<lparr>scan_distances := scan_distances s @ [headroom_distance margin maint computed]\<rparr>
           else s'\<lparr>scan_known := False\<rparr>)))"

definition scan_position ::
  "string \<Rightarrow> string \<Rightarrow> bool \<Rightarrow> rat \<Rightarrow> rat \<Rightarrow> json \<Rightarrow> position_scan \<Rightarrow> position_scan res" where
  "scan_position environment configured_symbol portfolio margin maint p s =
     (case p of
        JObject d \<Rightarrow>
          res_bind (position_amount d) (\<lambda>amount.
          if amount = 0 then Inr s
          else active_position environment configured_symbol portfolio margin maint d amount s)
      | _ \<Rightarrow> Inl (ValueError ''Binance position risk entry is invalid''))"

section \<open>The snapshot\<close>

text \<open>What the caller knows of the day's realised result.\<close>

record daily_pnl =
  dp_realized :: "rat option"
  dp_known :: bool
  dp_asset :: string
  dp_includes_fees :: bool
  dp_includes_funding :: bool
  dp_window_start :: "datetime option"
  dp_window_end :: "datetime option"

definition collateral_of :: "string \<Rightarrow> string" where
  "collateral_of environment = (if environment = environment_label MAINNET then ''USDC'' else ''USDT'')"

definition build_account_snapshot ::
  "json \<Rightarrow> json list \<Rightarrow> string \<Rightarrow> daily_pnl \<Rightarrow> decimal option \<Rightarrow> string \<Rightarrow> datetime \<Rightarrow> ExchangeAccountSnapshot res" where
  "build_account_snapshot account position_risk environment daily explicit_leverage configured_symbol now =
     res_bind (check (environment \<in> {environment_label TESTNET, environment_label MAINNET})
       (ValueError ''Account snapshots are accepted only from fixed Binance environments'')) (\<lambda>_.
     case account of
       JObject acc \<Rightarrow>
         res_bind (required_asset acc (collateral_of environment)) (\<lambda>asset.
         res_bind (required_decimal asset ''walletBalance'') (\<lambda>wallet.
         res_bind (required_decimal asset ''marginBalance'') (\<lambda>margin.
         res_bind (required_decimal asset ''availableBalance'') (\<lambda>available.
         res_bind (required_decimal asset ''unrealizedProfit'') (\<lambda>unrealized.
         res_bind (required_decimal asset ''initialMargin'') (\<lambda>initial.
         res_bind (required_decimal asset ''maintMargin'') (\<lambda>maint.
         res_bind (required_decimal asset ''positionInitialMargin'') (\<lambda>position_initial.
         res_bind (check (list_all (\<lambda>x. 0 \<le> x) [wallet, margin, available, initial, maint, position_initial])
           (ValueError ''Binance account field cannot be negative'')) (\<lambda>_.
         let portfolio = json_truthy (json_get acc ''portfolioMargin'') in
         res_bind (res_fold (scan_position environment configured_symbol portfolio margin maint) position_risk
           \<lparr>scan_total = 0, scan_distances = [], scan_known = True, scan_active = False\<rparr>) (\<lambda>scan.
         let (mode, mode_known) = margin_mode_observation acc position_risk;
             leverage = configured_leverage_observation position_risk environment (upper (strip configured_symbol)) explicit_leverage
         in
         res_bind (if margin > 0 then Inr (ddiv (scan_total scan) margin, dmul (ddiv initial margin) 100)
                   else if scan_active scan \<or> initial \<noteq> 0
                   then Inl (ValueError ''Account margin balance cannot support exposure calculations'')
                   else Inr (0, 0)) (\<lambda>(effective_leverage, margin_utilization).
         Inr \<lparr>wallet_balance = Fin wallet, margin_balance = Fin margin, available_balance = Fin available,
           as_unrealized_pnl = Fin unrealized, total_initial_margin = Fin initial, total_maint_margin = Fin maint,
           position_initial_margin = Fin position_initial, total_position_notional = Fin (scan_total scan),
           as_effective_leverage = Fin effective_leverage, as_margin_utilization_pct = Fin margin_utilization,
           min_liquidation_distance_pct =
             (if scan_active scan \<and> scan_known scan then Some (Fin (Min (set (scan_distances scan)))) else None),
           liquidation_safety = (if scan_known scan then ''KNOWN'' else ''UNKNOWN''),
           daily_realized_pnl = map_option Fin (dp_realized daily), daily_loss_known = dp_known daily,
           collateral_asset = collateral_of environment, risk_currency = collateral_of environment,
           daily_loss_asset = (let a = upper (strip (dp_asset daily)) in if a = [] then ''UNKNOWN'' else a),
           daily_pnl_includes_fees = dp_includes_fees daily, daily_pnl_includes_funding = dp_includes_funding daily,
           daily_loss_window_start = dp_window_start daily, daily_loss_window_end = dp_window_end daily,
           configured_leverage = map_option Fin leverage, configured_leverage_known = (leverage \<noteq> None),
           margin_mode = mode, margin_mode_known = mode_known, as_valid = True, exchange_environment = environment,
           as_timestamp = now\<rparr>)))))))))))
     | _ \<Rightarrow> Inl (ValueError ''Binance account snapshot payload is invalid''))"

section \<open>Lemmas\<close>

lemma clamp_pct_range [simp]: "0 \<le> clamp_pct x" "clamp_pct x \<le> 100"
  by (simp_all add: clamp_pct_def)

lemma liquidation_distance_range: "liquidation_distance d mark = Inr (Some x) \<Longrightarrow> 0 \<le> x \<and> x \<le> 100"
  by (auto simp: liquidation_distance_def Let_def res_simps split: if_splits option.splits)

text \<open>The distance an active position contributes: computed from its liquidation price or, with
  portfolio margin, from the headroom of the account.\<close>

definition position_distance :: "bool \<Rightarrow> rat \<Rightarrow> rat \<Rightarrow> jfields \<Rightarrow> rat \<Rightarrow> bool" where
  "position_distance portfolio margin maint d x =
     (\<exists>mark amount. finite_of (json_decimal (json_get d ''markPrice'')) = Some mark \<and> position_amount d = Inr amount
        \<and> (liquidation_distance d mark = Inr (Some x)
           \<or> liquidation_distance d mark = Inr None \<and> portfolio
             \<and> x = headroom_distance margin maint (dmul (dabs amount) mark)))"

lemma usable_position_Inr:
  assumes "usable_position env cs d amount = Inr (mark, computed)"
  shows "finite_of (json_decimal (json_get d ''markPrice'')) = Some mark" "0 < computed" "computed = dmul (dabs amount) mark"
  using assms by (auto simp: usable_position_def Let_def res_bind_eq_Inr check_eq_Inr of_option_def split: option.splits)

lemma active_position_Inr:
  assumes "active_position env cs portfolio margin maint d amount s = Inr s'" "position_amount d = Inr amount"
  shows "scan_active s'" "0 \<le> scan_total s \<longrightarrow> 0 < scan_total s'"
    "(\<exists>x. position_distance portfolio margin maint d x \<and> 0 \<le> x \<and> x \<le> 100
        \<and> scan_distances s' = scan_distances s @ [x] \<and> scan_known s' = scan_known s)
     \<or> scan_distances s' = scan_distances s \<and> \<not> scan_known s'"
proof -
  from assms(1) obtain mark computed dist where u: "usable_position env cs d amount = Inr (mark, computed)"
    and dist: "liquidation_distance d mark = Inr dist"
    and s': "s' = (let s1 = s\<lparr>scan_total := dadd (scan_total s) computed, scan_active := True\<rparr> in
        case dist of
          Some x \<Rightarrow> s1\<lparr>scan_distances := scan_distances s @ [x]\<rparr>
        | None \<Rightarrow> if portfolio \<and> margin > 0
            then s1\<lparr>scan_distances := scan_distances s @ [headroom_distance margin maint computed]\<rparr>
            else s1\<lparr>scan_known := False\<rparr>)"
    by (auto simp: active_position_def Let_def res_bind_eq_Inr)
  note m = usable_position_Inr[OF u]
  show "scan_active s'" by (simp add: s' Let_def split: option.splits)
  show "0 \<le> scan_total s \<longrightarrow> 0 < scan_total s'"
    using m(2) by (auto simp: s' Let_def dadd_def split: option.splits)
  show "(\<exists>x. position_distance portfolio margin maint d x \<and> 0 \<le> x \<and> x \<le> 100
        \<and> scan_distances s' = scan_distances s @ [x] \<and> scan_known s' = scan_known s)
     \<or> scan_distances s' = scan_distances s \<and> \<not> scan_known s'"
    using m(1,3) dist assms(2) liquidation_distance_range[of d mark]
    by (auto simp: s' Let_def position_distance_def headroom_distance_def split: option.splits)
qed

definition scan_ok :: "position_scan \<Rightarrow> bool" where
  "scan_ok s = (0 \<le> scan_total s \<and> (\<forall>x \<in> set (scan_distances s). 0 \<le> x \<and> x \<le> 100)
     \<and> (if scan_active s then 0 < scan_total s \<and> (scan_known s \<longrightarrow> scan_distances s \<noteq> []) else scan_total s = 0))"

lemma scan_position_cases:
  assumes "scan_position env cs portfolio margin maint p s = Inr s'"
  obtains (flat) d where "p = JObject d" "position_amount d = Inr 0" "s' = s"
  | (active) d amount where "p = JObject d" "position_amount d = Inr amount" "amount \<noteq> 0"
      "active_position env cs portfolio margin maint d amount s = Inr s'"
  using assms by (auto simp: scan_position_def res_bind_eq_Inr split: json.splits if_splits)

lemma scan_position_ok:
  assumes "scan_position env cs portfolio margin maint p s = Inr s'" "scan_ok s"
  shows "scan_ok s'"
  using assms(1)
proof (cases rule: scan_position_cases)
  case (active d amount)
  note a = active_position_Inr[OF active(4,2)]
  have "0 < scan_total s'" using a(2) assms(2) by (simp add: scan_ok_def)
  moreover have "\<forall>x \<in> set (scan_distances s'). 0 \<le> x \<and> x \<le> 100" using a(3) assms(2) by (auto simp: scan_ok_def)
  moreover have "scan_known s' \<longrightarrow> scan_distances s' \<noteq> []" using a(3) by auto
  ultimately show ?thesis using a(1) by (simp add: scan_ok_def)
qed (use assms(2) in simp)

text \<open>Once a position is recorded, either its distance is in the list or the safety is unknown.\<close>

definition recorded :: "bool \<Rightarrow> rat \<Rightarrow> rat \<Rightarrow> jfields \<Rightarrow> position_scan \<Rightarrow> bool" where
  "recorded portfolio margin maint d s =
     (scan_active s \<and> (scan_known s \<longrightarrow> (\<exists>x \<in> set (scan_distances s). position_distance portfolio margin maint d x)))"

lemma scan_position_recorded:
  assumes "scan_position env cs portfolio margin maint p s = Inr s'"
  shows "recorded portfolio margin maint d s \<Longrightarrow> recorded portfolio margin maint d s'"
    "p = JObject d \<Longrightarrow> position_amount d \<noteq> Inr 0 \<Longrightarrow> recorded portfolio margin maint d s'"
  using assms by (cases rule: scan_position_cases; fastforce simp: recorded_def dest: active_position_Inr(1,3))+

lemma scan_positions:
  assumes "res_fold (scan_position env cs portfolio margin maint) ps
      \<lparr>scan_total = 0, scan_distances = [], scan_known = True, scan_active = False\<rparr> = Inr s"
  shows "scan_ok s" "JObject d \<in> set ps \<Longrightarrow> position_amount d \<noteq> Inr 0 \<Longrightarrow> recorded portfolio margin maint d s"
proof -
  show "scan_ok s"
    by (rule res_fold_invariant[where P = scan_ok, OF assms]) (auto simp: scan_ok_def[of "\<lparr>scan_total = 0, scan_distances = [], scan_known = True, scan_active = False\<rparr>"] intro: scan_position_ok)
  assume d: "JObject d \<in> set ps" "position_amount d \<noteq> Inr 0"
  show "recorded portfolio margin maint d s"
    by (rule res_fold_element[OF assms d(1)]) (use scan_position_recorded d(2) in blast)+
qed

lemma build_account_snapshot_Inr:
  assumes "build_account_snapshot account ps env daily expl cs now = Inr s"
  obtains acc wallet margin available unrealized initial maint position_initial scan lev util where
    "account = JObject acc"
    "res_fold (scan_position env cs (json_truthy (json_get acc ''portfolioMargin'')) margin maint) ps
       \<lparr>scan_total = 0, scan_distances = [], scan_known = True, scan_active = False\<rparr> = Inr scan"
    "list_all (\<lambda>x. 0 \<le> x) [wallet, margin, available, initial, maint, position_initial]"
    "if margin > 0 then lev = ddiv (scan_total scan) margin \<and> util = dmul (ddiv initial margin) 100 else lev = 0 \<and> util = 0"
    "wallet_balance s = Fin wallet" "margin_balance s = Fin margin" "available_balance s = Fin available"
    "as_unrealized_pnl s = Fin unrealized" "total_initial_margin s = Fin initial" "total_maint_margin s = Fin maint"
    "position_initial_margin s = Fin position_initial" "total_position_notional s = Fin (scan_total scan)"
    "as_effective_leverage s = Fin lev" "as_margin_utilization_pct s = Fin util"
    "min_liquidation_distance_pct s = (if scan_active scan \<and> scan_known scan then Some (Fin (Min (set (scan_distances scan)))) else None)"
    "liquidation_safety s = (if scan_known scan then ''KNOWN'' else ''UNKNOWN'')"
    "as_valid s" "exchange_environment s = env" "as_timestamp s = now"
proof -
  from assms obtain acc where acc: "account = JObject acc"
    by (simp add: build_account_snapshot_def res_bind_eq_Inr split: json.splits)
  obtain mode mode_known where mode: "margin_mode_observation acc ps = (mode, mode_known)" by fastforce
  let ?init = "\<lparr>scan_total = 0, scan_distances = [], scan_known = True, scan_active = False\<rparr>"
  from assms obtain wallet margin available unrealized initial maint position_initial scan lev util where
    f: "res_fold (scan_position env cs (json_truthy (json_get acc ''portfolioMargin'')) margin maint) ps ?init = Inr scan"
      "list_all (\<lambda>x. 0 \<le> x) [wallet, margin, available, initial, maint, position_initial]"
    and m: "(if margin > 0 then Inr (ddiv (scan_total scan) margin, dmul (ddiv initial margin) 100)
                   else if scan_active scan \<or> initial \<noteq> 0
                   then Inl (ValueError ''Account margin balance cannot support exposure calculations'')
                   else Inr (0, 0)) = Inr (lev, util)"
    and s: "wallet_balance s = Fin wallet" "margin_balance s = Fin margin" "available_balance s = Fin available"
    "as_unrealized_pnl s = Fin unrealized" "total_initial_margin s = Fin initial" "total_maint_margin s = Fin maint"
    "position_initial_margin s = Fin position_initial" "total_position_notional s = Fin (scan_total scan)"
    "as_effective_leverage s = Fin lev" "as_margin_utilization_pct s = Fin util"
    "min_liquidation_distance_pct s = (if scan_active scan \<and> scan_known scan then Some (Fin (Min (set (scan_distances scan)))) else None)"
    "liquidation_safety s = (if scan_known scan then ''KNOWN'' else ''UNKNOWN'')"
    "as_valid s" "exchange_environment s = env" "as_timestamp s = now"
    unfolding build_account_snapshot_def acc json.case Let_def mode prod.case
    by (clarsimp simp only: res_bind_eq_Inr check_eq_Inr prod.case) (auto simp: Let_def)
  from m have "if margin > 0 then lev = ddiv (scan_total scan) margin \<and> util = dmul (ddiv initial margin) 100 else lev = 0 \<and> util = 0"
    by (auto split: if_splits)
  with that acc f s show ?thesis by blast
qed

lemma built_snapshot_fresh:
  assumes "build_account_snapshot account ps env daily expl cs now = Inr s"
  shows "snapshot_fresh env t max_age (Some s) \<longleftrightarrow> is_fresh t max_age (Some now)"
  using assms
proof (cases rule: build_account_snapshot_Inr)
  case (1 acc wallet margin available unrealized initial maint position_initial scan lev util)
  have "0 \<le> scan_total scan" using scan_positions(1)[OF 1(2)] by (simp add: scan_ok_def)
  moreover have "0 \<le> initial" using 1(3) by simp
  ultimately have "0 \<le> lev" "0 \<le> util" using 1(4) by (auto simp: ddiv_def dmul_def split: if_splits)
  then have "snapshot_amounts_ok s"
    using 1(3) \<open>0 \<le> scan_total scan\<close> by (simp add: snapshot_amounts_ok_def snapshot_amounts_def 1)
  then show ?thesis by (simp add: snapshot_fresh_def 1)
qed

section \<open>Properties\<close>

text \<open>
  The snapshot that reconciliation builds is one the gates can use: all its amounts are finite
  and, but for the unrealized result, not negative, so that it counts as fresh for its environment
  exactly while its age is within the limit.
\<close>

theorem snapshot_serves_gates:
  assumes "build_account_snapshot account ps env daily expl cs now = Inr s"
  shows "snapshot_fresh env t max_age (Some s) \<longleftrightarrow> is_fresh t max_age (Some now)"
  using assms by (rule built_snapshot_fresh)

text \<open>
  C20: When the gates accept the liquidation safety of a snapshot, it covers every active position
  that the exchange reported: each has a distance to liquidation, computed from its liquidation
  price or, with portfolio margin only, from the margin headroom of the account, and the distance
  the gates compare is positive and at most that of the position.
\<close>

theorem liquidation_safety_covers_positions:
  assumes "build_account_snapshot account ps env daily expl cs now = Inr s"
    and "liquidation_safety_is_known_and_positive (Some s)"
    and "JObject d \<in> set ps" "position_amount d \<noteq> Inr 0"
  shows "\<exists>acc margin maint lowest x. account = JObject acc \<and> margin_balance s = Fin margin \<and> total_maint_margin s = Fin maint
    \<and> min_liquidation_distance_pct s = Some (Fin lowest) \<and> 0 < lowest \<and> lowest \<le> x
    \<and> position_distance (json_truthy (json_get acc ''portfolioMargin'')) margin maint d x"
  using assms(1)
proof (cases rule: build_account_snapshot_Inr)
  case (1 acc wallet margin available unrealized initial maint position_initial scan lev util)
  have known: "scan_known scan" using assms(2) 1(16) by (auto simp: liquidation_safety_is_known_and_positive_def split: if_splits)
  have rec: "recorded (json_truthy (json_get acc ''portfolioMargin'')) margin maint d scan"
    by (rule scan_positions(2)[OF 1(2) assms(3,4)])
  then obtain x where x: "x \<in> set (scan_distances scan)" "position_distance (json_truthy (json_get acc ''portfolioMargin'')) margin maint d x"
    using known by (auto simp: recorded_def)
  have low: "min_liquidation_distance_pct s = Some (Fin (Min (set (scan_distances scan))))"
    using rec known 1(15) by (simp add: recorded_def)
  with assms(2) have "0 < Min (set (scan_distances scan))" by (simp add: liquidation_safety_is_known_and_positive_def)
  moreover have "Min (set (scan_distances scan)) \<le> x" using x(1) by simp
  ultimately show ?thesis using 1(1,6,10) low x(2) by blast
qed

section \<open>Witnesses\<close>

definition sample_asset :: jfields where
  "sample_asset = [(''asset'', JStr ''USDT''), (''walletBalance'', JStr ''2''), (''marginBalance'', JStr ''2''),
     (''availableBalance'', JStr ''2''), (''unrealizedProfit'', JStr ''0''), (''initialMargin'', JStr ''1''),
     (''maintMargin'', JStr ''1''), (''positionInitialMargin'', JStr ''1'')]"

definition sample_account :: json where
  "sample_account = JObject [(''assets'', JList [JObject sample_asset]), (''multiAssetsMargin'', JBool False)]"

definition sample_exchange_position :: jfields where
  "sample_exchange_position = [(''symbol'', JStr ''ETHUSDT''), (''positionAmt'', JStr ''1''), (''positionSide'', JStr ''BOTH''),
     (''markPrice'', JStr ''2''), (''liquidationPrice'', JStr ''1''), (''marginType'', JStr ''CROSS'')]"

definition sample_daily :: daily_pnl where
  "sample_daily = \<lparr>dp_realized = None, dp_known = True, dp_asset = ''UNKNOWN'', dp_includes_fees = False,
     dp_includes_funding = False, dp_window_start = None, dp_window_end = None\<rparr>"

lemma sample_numbers [simp]:
  "json_decimal (JStr ''0'') = Some (Fin 0)" "json_decimal (JStr ''1'') = Some (Fin 1)" "json_decimal (JStr ''2'') = Some (Fin 2)"
  by (simp_all add: json_decimal_def parse_decimal_def parse_literal_def parse_unsigned_def parse_exponent_def strip_sign_def
      string_eval nat_of_digits_def digit_value_def)

lemma sample_dec [simp]: "dmul 1 2 = 2" "dsub 2 1 = 1" "ddiv 1 2 = 1 / 2" "dmul (1 / 2) 100 = 50" "dadd 0 2 = 2" "ddiv 2 2 = 1"
  "drep (1 / 2)" "drep 50"
proof -
  show "drep (1 / 2)" using drep_scaled[of 5 1] by simp
  moreover show "drep 50" using drep_of_int[of 50] by simp
  ultimately show "dmul 1 2 = 2" "dsub 2 1 = 1" "ddiv 1 2 = 1 / 2" "dmul (1 / 2) 100 = 50" "dadd 0 2 = 2" "ddiv 2 2 = 1"
    by (simp_all add: dec_defs dround_rep)
qed

lemma sample_fields:
  "required_asset [(''assets'', JList [JObject sample_asset]), (''multiAssetsMargin'', JBool False)] ''USDT'' = Inr sample_asset"
  "required_decimal sample_asset ''walletBalance'' = Inr 2" "required_decimal sample_asset ''marginBalance'' = Inr 2"
  "required_decimal sample_asset ''availableBalance'' = Inr 2" "required_decimal sample_asset ''unrealizedProfit'' = Inr 0"
  "required_decimal sample_asset ''initialMargin'' = Inr 1" "required_decimal sample_asset ''maintMargin'' = Inr 1"
  "required_decimal sample_asset ''positionInitialMargin'' = Inr 1" "position_amount sample_exchange_position = Inr 1"
  by (simp_all add: sample_asset_def required_asset_def required_decimal_def json_get_def json_get_or_def json_missing_def
      position_amount_def sample_exchange_position_def string_eval)

lemma sample_distance: "liquidation_distance sample_exchange_position 2 = Inr (Some 50)"
  unfolding liquidation_distance_def sample_fields(9)
  by (simp add: sample_exchange_position_def json_get_def json_get_or_def json_missing_def string_eval clamp_pct_def)

lemma sample_usable: "usable_position (environment_label TESTNET) ''ETHUSDC'' sample_exchange_position 1 = Inr (2, 2)"
  by (simp add: usable_position_def sample_exchange_position_def json_get_def json_missing_def environment_label_def
      PositionSide_of_def string_eval of_option_def notional_agrees_def)

lemma sample_scan:
  "scan_position (environment_label TESTNET) ''ETHUSDC'' portfolio margin maint (JObject sample_exchange_position) s =
     Inr (s\<lparr>scan_total := dadd (scan_total s) 2, scan_active := True, scan_distances := scan_distances s @ [50]\<rparr>)"
  by (simp add: scan_position_def sample_fields active_position_def sample_usable sample_distance Let_def)

lemma sample_build: "\<exists>s. build_account_snapshot sample_account [JObject sample_exchange_position] (environment_label TESTNET)
   sample_daily None ''ETHUSDC'' (Aware 0) = Inr s \<and> liquidation_safety_is_known_and_positive (Some s)"
proof -
  have "collateral_of (environment_label TESTNET) = ''USDT''" by (simp add: collateral_of_def environment_label_def)
  then show ?thesis
    by (simp add: build_account_snapshot_def sample_account_def sample_fields sample_scan split_beta Let_def
        liquidation_safety_is_known_and_positive_def)
qed

theorem snapshot_serves_gates_witness:
  "\<exists>s. build_account_snapshot sample_account [JObject sample_exchange_position] (environment_label TESTNET)
     sample_daily None ''ETHUSDC'' (Aware 0) = Inr s \<and> snapshot_fresh (environment_label TESTNET) 0 30 (Some s)"
proof -
  have "is_fresh 0 30 (Some (Aware 0))" by (simp add: is_fresh_def age_seconds_def)
  with sample_build snapshot_serves_gates show ?thesis by blast
qed

theorem liquidation_safety_covers_positions_witness:
  "\<exists>s lowest. build_account_snapshot sample_account [JObject sample_exchange_position] (environment_label TESTNET)
     sample_daily None ''ETHUSDC'' (Aware 0) = Inr s \<and> min_liquidation_distance_pct s = Some (Fin lowest) \<and> 0 < lowest"
proof -
  obtain s where s: "build_account_snapshot sample_account [JObject sample_exchange_position] (environment_label TESTNET)
     sample_daily None ''ETHUSDC'' (Aware 0) = Inr s" "liquidation_safety_is_known_and_positive (Some s)"
    using sample_build by blast
  have "position_amount sample_exchange_position \<noteq> Inr 0" by (simp add: sample_fields)
  from liquidation_safety_covers_positions[OF s _ this] show ?thesis using s(1) by auto
qed

end
