(* ===== verification/Effects.thy ===== *)
theory Effects
  imports Prelude
begin

text \<open>
  Stateful computations that may raise: a function from a state to an exception or a value and the
  state it leaves. In contrast to \<open>res_bind\<close> on plain results, an exception keeps the state changes
  made before it, as an \<open>async\<close> method that mutates its objects does. \<open>eff_each\<close> is a \<open>for\<close> loop,
  \<open>eff_map\<close> a loop that collects values. The judgement \<open>eff_valid P m Q E\<close> states that from a state
  with \<open>P\<close> the computation ends in \<open>Q\<close> when it returns and in \<open>E\<close> when it raises; the rules for it
  are collected in \<open>eff_rules\<close>.
\<close>

named_theorems eff_rules

type_synonym ('s, 'e, 'a) eff = "'s \<Rightarrow> ('e + 'a) \<times> 's"

definition eff_ret :: "'a \<Rightarrow> ('s, 'e, 'a) eff" where "eff_ret x = (\<lambda>s. (Inr x, s))"

definition eff_raise :: "'e \<Rightarrow> ('s, 'e, 'a) eff" where "eff_raise e = (\<lambda>s. (Inl e, s))"

definition eff_gets :: "('s \<Rightarrow> 'a) \<Rightarrow> ('s, 'e, 'a) eff" where "eff_gets f = (\<lambda>s. (Inr (f s), s))"

definition eff_modify :: "('s \<Rightarrow> 's) \<Rightarrow> ('s, 'e, unit) eff" where "eff_modify f = (\<lambda>s. (Inr (), f s))"

definition eff_bind :: "('s, 'e, 'a) eff \<Rightarrow> ('a \<Rightarrow> ('s, 'e, 'b) eff) \<Rightarrow> ('s, 'e, 'b) eff" where
  "eff_bind m f = (\<lambda>s. case m s of (Inl e, s') \<Rightarrow> (Inl e, s') | (Inr x, s') \<Rightarrow> f x s')"

definition eff_catch :: "('s, 'e, 'a) eff \<Rightarrow> ('e \<Rightarrow> ('s, 'f, 'a) eff) \<Rightarrow> ('s, 'f, 'a) eff" where
  "eff_catch m h = (\<lambda>s. case m s of (Inl e, s') \<Rightarrow> h e s' | (Inr x, s') \<Rightarrow> (Inr x, s'))"

text \<open>A pure result as a computation; \<open>f\<close> classifies its exception.\<close>

definition eff_lift :: "('x \<Rightarrow> 'e) \<Rightarrow> 'x + 'a \<Rightarrow> ('s, 'e, 'a) eff" where
  "eff_lift f r = (case r of Inl x \<Rightarrow> eff_raise (f x) | Inr y \<Rightarrow> eff_ret y)"

abbreviation eff_check :: "bool \<Rightarrow> 'e \<Rightarrow> ('s, 'e, unit) eff" where
  "eff_check c e \<equiv> (if c then eff_ret () else eff_raise e)"

primrec eff_each :: "('a \<Rightarrow> ('s, 'e, unit) eff) \<Rightarrow> 'a list \<Rightarrow> ('s, 'e, unit) eff" where
  "eff_each f [] = eff_ret ()"
| "eff_each f (x # xs) = eff_bind (f x) (\<lambda>_. eff_each f xs)"

primrec eff_map :: "('a \<Rightarrow> ('s, 'e, 'b) eff) \<Rightarrow> 'a list \<Rightarrow> ('s, 'e, 'b list) eff" where
  "eff_map f [] = eff_ret []"
| "eff_map f (x # xs) = eff_bind (f x) (\<lambda>y. eff_bind (eff_map f xs) (\<lambda>ys. eff_ret (y # ys)))"

lemma eff_simps [simp]:
  "eff_ret x s = (Inr x, s)" "eff_raise e s = (Inl e, s)" "eff_gets f s = (Inr (f s), s)"
  "eff_modify g s = (Inr (), g s)"
  by (simp_all add: eff_ret_def eff_raise_def eff_gets_def eff_modify_def)

lemma eff_bind_simps [simp]:
  "m s = (Inl e, s') \<Longrightarrow> eff_bind m f s = (Inl e, s')"
  "m s = (Inr x, s') \<Longrightarrow> eff_bind m f s = f x s'"
  by (simp_all add: eff_bind_def)

lemma eff_catch_simps [simp]:
  "m s = (Inl e, s') \<Longrightarrow> eff_catch m h s = h e s'"
  "m s = (Inr x, s') \<Longrightarrow> eff_catch m h s = (Inr x, s')"
  by (simp_all add: eff_catch_def)

lemma eff_lift_simps [simp]: "eff_lift f (Inl e) = eff_raise (f e)" "eff_lift f (Inr x) = eff_ret x"
  by (simp_all add: eff_lift_def)

section \<open>Correctness judgement\<close>

definition eff_valid ::
  "('s \<Rightarrow> bool) \<Rightarrow> ('s, 'e, 'a) eff \<Rightarrow> ('a \<Rightarrow> 's \<Rightarrow> bool) \<Rightarrow> ('e \<Rightarrow> 's \<Rightarrow> bool) \<Rightarrow> bool" where
  "eff_valid P m Q E = (\<forall>s. P s \<longrightarrow> (case m s of (Inl e, s') \<Rightarrow> E e s' | (Inr x, s') \<Rightarrow> Q x s'))"

lemma eff_validI: "(\<And>s. P s \<Longrightarrow> case m s of (Inl e, s') \<Rightarrow> E e s' | (Inr x, s') \<Rightarrow> Q x s') \<Longrightarrow> eff_valid P m Q E"
  by (simp add: eff_valid_def)

lemma eff_valid_Inr: "eff_valid P m Q E \<Longrightarrow> P s \<Longrightarrow> m s = (Inr x, s') \<Longrightarrow> Q x s'"
  by (auto simp: eff_valid_def split: prod.splits sum.splits)

lemma eff_valid_Inl: "eff_valid P m Q E \<Longrightarrow> P s \<Longrightarrow> m s = (Inl e, s') \<Longrightarrow> E e s'"
  by (auto simp: eff_valid_def split: prod.splits sum.splits)

lemma eff_valid_conseq:
  assumes "eff_valid P m Q E" "\<And>s. P' s \<Longrightarrow> P s" "\<And>x s. Q x s \<Longrightarrow> Q' x s" "\<And>e s. E e s \<Longrightarrow> E' e s"
  shows "eff_valid P' m Q' E'"
proof (rule eff_validI)
  fix s assume "P' s"
  then have "P s" by (rule assms(2))
  then show "case m s of (Inl e, s') \<Rightarrow> E' e s' | (Inr x, s') \<Rightarrow> Q' x s'"
    using eff_valid_Inl[OF assms(1)] eff_valid_Inr[OF assms(1)] assms(3,4) by (auto split: prod.splits sum.splits)
qed

lemma eff_valid_ret [eff_rules]: "(\<And>s. P s \<Longrightarrow> Q x s) \<Longrightarrow> eff_valid P (eff_ret x) Q E"
  by (simp add: eff_valid_def)

lemma eff_valid_raise [eff_rules]: "(\<And>s. P s \<Longrightarrow> E e s) \<Longrightarrow> eff_valid P (eff_raise e) Q E"
  by (simp add: eff_valid_def)

lemma eff_valid_gets: "(\<And>s. P s \<Longrightarrow> Q (f s) s) \<Longrightarrow> eff_valid P (eff_gets f) Q E"
  by (simp add: eff_valid_def)

lemma eff_valid_modify [eff_rules]: "(\<And>s. P s \<Longrightarrow> Q () (f s)) \<Longrightarrow> eff_valid P (eff_modify f) Q E"
  by (simp add: eff_valid_def)

lemma eff_valid_bind:
  assumes "eff_valid P m R E" "\<And>x. eff_valid (R x) (f x) Q E"
  shows "eff_valid P (eff_bind m f) Q E"
proof (rule eff_validI)
  fix s assume "P s"
  show "case eff_bind m f s of (Inl e, s') \<Rightarrow> E e s' | (Inr x, s') \<Rightarrow> Q x s'"
  proof (cases "m s")
    case (Pair r s')
    then show ?thesis
      using eff_valid_Inl[OF assms(1) \<open>P s\<close>] eff_valid_Inr[OF assms(1) \<open>P s\<close>] assms(2)
      by (cases r) (auto simp: eff_valid_def)
  qed
qed

text \<open>The common case: an invariant that every step keeps, whether it returns or raises.\<close>

abbreviation eff_keeps :: "('s \<Rightarrow> bool) \<Rightarrow> ('s, 'e, 'a) eff \<Rightarrow> bool" where
  "eff_keeps I m \<equiv> eff_valid I m (\<lambda>_. I) (\<lambda>_. I)"

lemma eff_keeps_bind [eff_rules]:
  "eff_keeps I m \<Longrightarrow> (\<And>x. eff_keeps I (f x)) \<Longrightarrow> eff_keeps I (eff_bind m f)"
  by (rule eff_valid_bind)

lemma eff_keeps_gets [eff_rules]: "eff_keeps I (eff_gets f)"
  by (simp add: eff_valid_def)

lemma eff_keeps_lift [eff_rules]: "eff_keeps I (eff_lift f r)"
  by (simp add: eff_valid_def eff_lift_def split: sum.splits)

lemma eff_keeps_catch [eff_rules]:
  assumes "eff_keeps I m" "\<And>e. eff_keeps I (h e)"
  shows "eff_keeps I (eff_catch m h)"
proof (rule eff_validI)
  fix s assume "I s"
  show "case eff_catch m h s of (Inl e, s') \<Rightarrow> I s' | (Inr x, s') \<Rightarrow> I s'"
  proof (cases "m s")
    case (Pair r s')
    then show ?thesis
      using eff_valid_Inl[OF assms(1) \<open>I s\<close>] eff_valid_Inr[OF assms(1) \<open>I s\<close>] assms(2)
      by (cases r) (auto simp: eff_valid_def)
  qed
qed

lemma eff_keeps_if [eff_rules]: "eff_keeps I m \<Longrightarrow> eff_keeps I m' \<Longrightarrow> eff_keeps I (if c then m else m')"
  by simp

lemma eff_keeps_each [eff_rules]: "(\<And>x. eff_keeps I (f x)) \<Longrightarrow> eff_keeps I (eff_each f xs)"
  by (induction xs) (auto intro!: eff_rules)

lemma eff_keeps_map [eff_rules]: "(\<And>x. eff_keeps I (f x)) \<Longrightarrow> eff_keeps I (eff_map f xs)"
  by (induction xs) (auto intro!: eff_rules)

end
