(* ===== verification/Reconciliation.thy ===== *)
theory Reconciliation
  imports Snapshot Effects "HOL-Library.Char_ord" "HOL-Library.List_Lexorder"
begin

text \<open>
  Reconciliation of the local ledger with the exchange (\<open>BinanceReconciliation\<close> in
  \<open>venues/binance/reconciliation.py\<close>). The REST client is a parameter: a function from a call and a
  state \<open>'w\<close> of the outside world to an exception or a JSON answer, and the world afterwards; nothing
  is assumed of it. The methods are computations over the state of the reconciler, which holds the
  ledger, and an exception keeps the changes made before it. A method runs without interleaving with
  other coroutines. The ledger returns the objects it stores, so that a method which assigns to an
  order changes the ledger's order too; the model keeps the loop variable and the ledger equal by
  storing every such change.
\<close>

section \<open>Calls, differences and state\<close>

text \<open>The parameters of an order or an amendment; the numbers are sent as their texts.\<close>

record order_params =
  op_symbol :: string
  op_side :: string
  op_type :: string
  op_quantity :: rat
  op_client_order_id :: string
  op_price :: "rat option"
  op_time_in_force :: "string option"
  op_position_side :: "string option"
  op_reduce_only :: bool

datatype rest_call =
    GetPositionRisk | GetOpenOrders | GetBalance | GetUmAccount | GetAccount
  | GetIncome int int nat | GetOrderByClient string string | GetOrderById string "string option"
  | GetTrades string | GetOrderTrades string string | GetPremiumIndex string | GetBookTicker string
  | PostOrder order_params | PutOrder order_params | DeleteOrderById string json | DeleteOrderByClient string string

text \<open>The exceptions; \<open>RestFailure\<close> stands for those of the transport that no handler names.\<close>

datatype rec_error =
    BinanceAuthenticationError | BinanceDefinitiveRejection int | BinanceRateLimitError | BinanceTimestampError
  | BinanceTransportAmbiguity string | BinanceAPIError | LeaseLostError | RestFailure string
  | FillRecoveryError string | AttributeError | Py pyerr

record 'w Venue =
  vn_env :: BinanceEnvironment
  vn_portfolio_margin :: bool
  vn_request :: "rest_call \<Rightarrow> 'w \<Rightarrow> (rec_error + json) \<times> 'w"
  vn_clock :: "nat \<Rightarrow> int"

datatype diff_code =
    EXCHANGE_FILL_UNKNOWN_LOCALLY | ORDER_STATUS_MISMATCH | ORDER_SIDE_MISMATCH | ORDER_POSITION_SIDE_MISMATCH
  | ORDER_REDUCE_ONLY_MISMATCH | ORDER_QUANTITY_UNKNOWN | ORDER_QUANTITY_MISMATCH | ORDER_PRICE_UNKNOWN
  | ORDER_PRICE_MISMATCH | ORDER_EXCHANGE_ID_MISMATCH | ORDER_CLIENT_ID_MISMATCH | PARTIAL_EXECUTED_QTY_UNKNOWN
  | FILL_RECOVERY_FAILED | LOCAL_OPEN_ORDER_STATUS_UNKNOWN | LOCAL_ORDER_STATUS_UNKNOWN
  | TERMINAL_ORDER_STATUS_MISMATCH | LOCAL_OPEN_ORDER_MISSING_ON_EXCHANGE | EXCHANGE_OPEN_ORDER_UNKNOWN_LOCALLY
  | LOCAL_POSITION_MISSING_ON_EXCHANGE | POSITION_QTY_MISMATCH | EXCHANGE_POSITION_UNKNOWN_LOCALLY
  | TERMINAL_ORDER_FILL_MISSING | FILL_QUANTITY_MISMATCH | PARTIAL_FILL_QUANTITY_INVALID | EXCHANGE_STATE_UNOWNED
  | BOOTSTRAP_AUTHENTICATION_FAILED | BOOTSTRAP_VERIFICATION_FAILED | RECONCILIATION_AUTHENTICATION_FAILED
  | RECONCILIATION_FAILED | EXCHANGE_ORDER_EVENT_UNKNOWN_LOCALLY | ACCOUNT_UPDATE_INVALID
  | ACCOUNT_POSITION_UPDATE_INVALID | ACCOUNT_POSITION_UPDATE_INCOMPLETE | ACCOUNT_BALANCE_UPDATE_INVALID
  | ACCOUNT_BALANCE_UPDATE_INCOMPLETE

text \<open>The compared values; the code keeps their texts.\<close>

datatype diff_value = VText string | VDecimal rat | VBool bool | VCounts nat nat | VError rec_error

record ReconciliationDiff =
  rd_code :: diff_code
  rd_symbol :: "string option"
  rd_local :: "diff_value option"
  rd_exchange :: "diff_value option"

definition diff :: "diff_code \<Rightarrow> string \<Rightarrow> diff_value option \<Rightarrow> diff_value option \<Rightarrow> ReconciliationDiff" where
  "diff code symbol lv ev = \<lparr>rd_code = code, rd_symbol = Some symbol, rd_local = lv, rd_exchange = ev\<rparr>"

record 'w ReconState =
  rc_ledger :: InMemoryLedger
  rc_status :: string
  rc_diffs :: "ReconciliationDiff list"
  rc_authentication_failed :: bool
  rc_unattributed :: "ReconciliationDiff list"
  rc_recovered_trade_ids :: "string set"
  rc_window_start :: "datetime option"
  rc_window_end :: "datetime option"
  rc_world :: 'w

type_synonym ('w, 'a) rec = "('w ReconState, rec_error, 'a) eff"

abbreviation rec_pure :: "'a res \<Rightarrow> ('w, 'a) rec" where "rec_pure \<equiv> eff_lift Py"

definition request :: "'w Venue \<Rightarrow> rest_call \<Rightarrow> ('w, json) rec" where
  "request v call s = (case vn_request v call (rc_world s) of (r, w) \<Rightarrow> (r, s\<lparr>rc_world := w\<rparr>))"

definition on_ledger :: "(InMemoryLedger \<Rightarrow> InMemoryLedger) \<Rightarrow> ('w, unit) rec" where
  "on_ledger f = eff_modify (\<lambda>s. s\<lparr>rc_ledger := f (rc_ledger s)\<rparr>)"

definition on_ledger_res :: "(InMemoryLedger \<Rightarrow> InMemoryLedger res) \<Rightarrow> ('w, unit) rec" where
  "on_ledger_res f s = (case f (rc_ledger s) of Inl e \<Rightarrow> (Inl (Py e), s) | Inr l \<Rightarrow> (Inr (), s\<lparr>rc_ledger := l\<rparr>))"

definition set_status :: "string \<Rightarrow> ReconciliationDiff list \<Rightarrow> 'w ReconState \<Rightarrow> 'w ReconState" where
  "set_status status ds s = s\<lparr>rc_status := status, rc_diffs := ds\<rparr>"

definition as_list :: "rec_error \<Rightarrow> json \<Rightarrow> ('w, json list) rec" where
  "as_list e j = (case j of JList xs \<Rightarrow> eff_ret xs | _ \<Rightarrow> eff_raise e)"

text \<open>\<open>x.get\<close> on a value that is not an object raises \<open>AttributeError\<close>.\<close>

definition as_fields :: "json \<Rightarrow> rec_error + jfields" where
  "as_fields j = (case j of JObject d \<Rightarrow> Inr d | _ \<Rightarrow> Inl AttributeError)"

definition exchange_id :: "ExecutionOrder \<Rightarrow> string" where
  "exchange_id od = (case eo_exchange_order_id od of Some x \<Rightarrow> x | None \<Rightarrow> '''')"

section \<open>Fills from trades\<close>

definition fill_fields :: "string list" where
  "fill_fields = [''id'', ''orderId'', ''symbol'', ''side'', ''positionSide'', ''qty'', ''price'', ''commission'',
     ''commissionAsset'', ''realizedPnl'', ''maker'', ''time'']"

definition exchange_fill_from_trade :: "jfields \<Rightarrow> ExecutionOrder \<Rightarrow> string \<Rightarrow> rec_error + ExchangeFill" where
  "exchange_fill_from_trade trade local_order source =
     (let fail = (\<lambda>c why. check (\<not> c) (FillRecoveryError why));
          invalid = FillRecoveryError ''Trade contains invalid fill fields'';
          symbol = upper (py_str (json_or (json_get trade ''symbol'') (JStr (eo_symbol local_order))));
          client_order_id = py_str (json_or (json_get trade ''clientOrderId'') (JStr (eo_client_order_id local_order)));
          order_id = py_str (json_get trade ''orderId'');
          number = (\<lambda>field. case json_decimal (json_get trade field) of None \<Rightarrow> Inl invalid | Some d \<Rightarrow> Inr d);
          fin = (\<lambda>d. case d of Fin x \<Rightarrow> Inr x | _ \<Rightarrow> Inl (FillRecoveryError ''Trade contains non-finite fill fields''))
      in
      res_bind (fail (list_ex (\<lambda>f. json_missing (json_get trade f)) fill_fields) ''Trade is missing required fields'') (\<lambda>_.
      res_bind (fail (symbol = [] \<or> client_order_id = []) ''Trade is missing symbol or clientOrderId'') (\<lambda>_.
      res_bind (fail (symbol \<noteq> upper (eo_symbol local_order)) ''Trade symbol does not match the local order'') (\<lambda>_.
      res_bind (fail (exchange_id local_order \<noteq> [] \<and> order_id \<noteq> exchange_id local_order)
        ''Trade order ID does not match the local order'') (\<lambda>_.
      res_bind (fail (json_truthy (json_get trade ''clientOrderId'')
          \<and> py_str (json_get trade ''clientOrderId'') \<noteq> eo_client_order_id local_order)
        ''Trade clientOrderId does not match the local order'') (\<lambda>_.
      res_bind (case OrderSide_of (py_str (json_or (json_get trade ''side'') (JStr (order_side_value (eo_side local_order))))) of
          None \<Rightarrow> Inl invalid | Some x \<Rightarrow> Inr x) (\<lambda>side.
      res_bind (case PositionSide_of (upper (py_str (json_or (json_get trade ''positionSide'')
            (JStr (position_side_value (eo_position_side local_order)))))) of
          None \<Rightarrow> Inl invalid | Some x \<Rightarrow> Inr x) (\<lambda>position_side.
      res_bind (number ''qty'') (\<lambda>raw_quantity.
      res_bind (number ''price'') (\<lambda>raw_price.
      res_bind (number ''commission'') (\<lambda>raw_commission.
      res_bind (number ''realizedPnl'') (\<lambda>raw_pnl.
      res_bind (fail (side \<noteq> eo_side local_order) ''Trade side does not match the local order'') (\<lambda>_.
      res_bind (fail (position_side \<noteq> eo_position_side local_order) ''Trade positionSide does not match the local order'') (\<lambda>_.
      res_bind (fin raw_quantity) (\<lambda>quantity.
      res_bind (fin raw_price) (\<lambda>price.
      res_bind (fin raw_commission) (\<lambda>commission.
      res_bind (fin raw_pnl) (\<lambda>realized_pnl.
      res_bind (fail (quantity \<le> 0 \<or> price \<le> 0 \<or> commission < 0 \<or> py_str (json_get trade ''commissionAsset'') = [])
        ''Trade contains unusable fill economics'') (\<lambda>_.
      Inr \<lparr>exchange_trade_id = py_str (json_get trade ''id''), ef_exchange_order_id = order_id,
        ef_client_order_id = client_order_id, ef_symbol = symbol, ef_side = side, ef_position_side = position_side,
        ef_quantity = quantity, ef_price = price, ef_commission = commission,
        ef_commission_asset = py_str (json_get trade ''commissionAsset''), ef_realized_pnl = realized_pnl,
        ef_maker = exchange_bool (json_get trade ''maker''), ef_source = source,
        ef_strategy_id = eo_strategy_id local_order, ef_decision_id = eo_decision_id local_order,
        ef_target_exposure_id = eo_target_exposure_id local_order, ef_source_intent_ids = eo_source_intent_ids local_order\<rparr>)))))))))))))))))))"

section \<open>Fetching the state of the exchange\<close>

text \<open>A text of a decimal, as \<open>str\<close> prints one: coefficient and exponent. Python chooses the exponent
  that the value was computed with; the text is only parsed again.\<close>

function scale10 :: "int \<Rightarrow> nat" where
  "scale10 b = (if b \<le> 1 \<or> gcd b 10 = 1 then 0 else Suc (scale10 (b div gcd b 10)))"
  by auto
termination
proof (relation "measure nat")
  fix b :: int
  assume "\<not> (b \<le> 1 \<or> gcd b 10 = 1)"
  moreover have "0 < gcd b 10" by simp
  ultimately have "1 < b" "1 < gcd b 10" by linarith+
  then have "b div gcd b 10 < b" by (simp add: int_div_less_self)
  then show "(b div gcd b 10, b) \<in> measure nat" using \<open>1 < b\<close> by simp
qed simp

declare scale10.simps [simp del]

fun decimal_str :: "decimal \<Rightarrow> string" where
  "decimal_str (Fin x) = (let k = scale10 (snd (quotient_of x)) in show_int \<lfloor>x * 10 ^ k\<rfloor> @ ''E-'' @ show_nat k)"
| "decimal_str (Inf b) = (if b then ''-Infinity'' else ''Infinity'')"
| "decimal_str NaN = ''NaN''"

text \<open>\<open>x + y\<close>; infinities of opposite sign raise \<open>InvalidOperation\<close>.\<close>

fun decimal_add :: "decimal \<Rightarrow> decimal \<Rightarrow> decimal res" where
  "decimal_add NaN _ = Inr NaN"
| "decimal_add _ NaN = Inr NaN"
| "decimal_add (Fin x) (Fin y) = Inr (Fin (dadd x y))"
| "decimal_add (Inf a) (Inf b) = (if a = b then Inr (Inf a) else Inl InvalidOperation)"
| "decimal_add (Inf a) (Fin _) = Inr (Inf a)"
| "decimal_add (Fin _) (Inf b) = Inr (Inf b)"

definition usdc_entry :: "json list \<Rightarrow> jfields" where
  "usdc_entry xs =
     (case find (\<lambda>j. case j of JObject d \<Rightarrow> json_get d ''asset'' = JStr ''USDC'' | _ \<Rightarrow> False) xs of
        Some (JObject d) \<Rightarrow> d
      | _ \<Rightarrow> [])"

definition papi_account :: "jfields \<Rightarrow> jfields \<Rightarrow> json res" where
  "papi_account usdc_bal um_usdc =
     (let zero = JStr ''0'';
          cross_asset = json_get_or usdc_bal ''crossMarginAsset'' zero;
          cross_free = json_get_or usdc_bal ''crossMarginFree'' zero;
          unrealized_pnl = json_get_or usdc_bal ''umUnrealizedPNL'' zero
      in
      res_bind (of_option InvalidOperation (json_decimal (json_or cross_asset zero))) (\<lambda>cross_asset_dec.
      res_bind (of_option InvalidOperation (json_decimal (json_or unrealized_pnl zero))) (\<lambda>unrealized_pnl_dec.
      res_bind (decimal_add cross_asset_dec unrealized_pnl_dec) (\<lambda>margin_balance_dec.
      Inr (JObject [(''assets'', JList [JObject [(''asset'', JStr ''USDC''), (''walletBalance'', JStr (py_str cross_asset)),
             (''marginBalance'', JStr (decimal_str margin_balance_dec)), (''availableBalance'', JStr (py_str cross_free)),
             (''unrealizedProfit'', JStr (py_str unrealized_pnl)),
             (''initialMargin'', JStr (py_str (json_get_or um_usdc ''initialMargin'' zero))),
             (''maintMargin'', JStr (py_str (json_get_or um_usdc ''maintMargin'' zero))),
             (''positionInitialMargin'', JStr (py_str (json_get_or um_usdc ''positionInitialMargin'' zero)))]]),
           (''multiAssetsMargin'', JBool False), (''portfolioMargin'', JBool True)])))))"

definition symbol_text :: "jfields \<Rightarrow> string" where
  "symbol_text d = py_str (json_get_or d ''symbol'' (JStr []))"

text \<open>The positions of the account endpoint are added for symbols that the risk endpoint lacks.\<close>

fun merge_positions :: "json list \<Rightarrow> string set \<Rightarrow> json list \<Rightarrow> json list" where
  "merge_positions merged known [] = merged"
| "merge_positions merged known (JObject d # ps) =
     (let sy = upper (symbol_text d) in
      if sy \<noteq> [] \<and> sy \<notin> known then merge_positions (merged @ [JObject d]) (insert sy known) ps
      else merge_positions merged known ps)"
| "merge_positions merged known (_ # ps) = merge_positions merged known ps"

definition known_symbols :: "json list \<Rightarrow> string set" where
  "known_symbols ps = set (concat (map (\<lambda>j. case j of JObject d \<Rightarrow> [upper (symbol_text d)] | _ \<Rightarrow> []) ps))"

definition fetch_reconciliation_snapshot_inputs :: "'w Venue \<Rightarrow> ('w, json \<times> json list \<times> json list) rec" where
  "fetch_reconciliation_snapshot_inputs v =
     (if vn_portfolio_margin v then
        eff_bind (request v GetPositionRisk) (\<lambda>positions.
        eff_bind (request v GetOpenOrders) (\<lambda>open_orders.
        eff_bind (request v GetBalance) (\<lambda>balances.
        eff_bind (request v GetUmAccount) (\<lambda>um_account.
        case (positions, open_orders, balances, um_account) of
          (JList ps, JList os, JList bs, JObject um) \<Rightarrow>
            eff_bind (rec_pure (json_iter (json_get_or um ''assets'' (JList [])))) (\<lambda>assets.
            eff_bind (rec_pure (papi_account (usdc_entry bs) (usdc_entry assets))) (\<lambda>account.
            eff_bind (rec_pure (json_iter (json_get_or um ''positions'' (JList [])))) (\<lambda>extra.
            eff_ret (account, merge_positions ps (known_symbols ps) extra, os))))
        | _ \<Rightarrow> eff_raise (Py (ValueError ''Binance Portfolio Margin reconciliation response is invalid''))))))
      else
        eff_bind (request v GetPositionRisk) (\<lambda>positions.
        eff_bind (request v GetOpenOrders) (\<lambda>open_orders.
        eff_bind (request v GetAccount) (\<lambda>account.
        case (positions, open_orders) of
          (JList ps, JList os) \<Rightarrow> eff_ret (account, ps, os)
        | _ \<Rightarrow> eff_raise (Py (ValueError ''Binance bootstrap response is invalid''))))))"

section \<open>Checks before anything is compared\<close>

definition in_scope :: "jfields \<Rightarrow> rec_error + unit" where
  "in_scope d = check (upper (strip (symbol_text d)) = ''ETHUSDC'')
     (Py (ValueError ''Mainnet state is outside the configured symbol ETHUSDC''))"

definition lift_py :: "'a res \<Rightarrow> rec_error + 'a" where
  "lift_py r = (case r of Inl e \<Rightarrow> Inl (Py e) | Inr x \<Rightarrow> Inr x)"

definition validate_mainnet_scope :: "BinanceEnvironment \<Rightarrow> json list \<Rightarrow> json list \<Rightarrow> rec_error + unit" where
  "validate_mainnet_scope env exchange_positions open_orders =
     (if env \<noteq> MAINNET then Inr ()
      else
        res_bind (res_map (\<lambda>od. res_bind (as_fields od) in_scope) open_orders) (\<lambda>_.
        res_bind (res_map (\<lambda>p. res_bind (as_fields p) (\<lambda>d.
            res_bind (lift_py (position_amount d)) (\<lambda>amount. if amount = 0 then Inr () else in_scope d))) exchange_positions) (\<lambda>_.
        Inr ())))"

text \<open>The income items of one page; \<open>None\<close> is every way in which the day's result becomes unknown.\<close>

definition income_counts :: "jfields \<Rightarrow> bool" where
  "income_counts d =
     (upper (strip (py_str (json_get_or d ''asset'' (JStr [])))) = ''USDC'' \<and> upper (strip (symbol_text d)) = ''ETHUSDC''
      \<and> upper (strip (py_str (json_get_or d ''incomeType'' (JStr [])))) \<in> {''REALIZED_PNL'', ''COMMISSION'', ''FUNDING_FEE''})"

fun income_items :: "json list \<Rightarrow> rat \<Rightarrow> rat option" where
  "income_items [] net = Some net"
| "income_items (JObject d # xs) net =
     (if \<not> income_counts d then income_items xs net
      else if json_missing (json_get d ''income'') then None
      else (case finite_of (json_decimal (json_get d ''income'')) of None \<Rightarrow> None | Some x \<Rightarrow> income_items xs (dadd net x)))"
| "income_items (_ # xs) net = None"

text \<open>The loop over the pages, \<open>n\<close> of which remain; every exception makes the result unknown.\<close>

primrec income_pages :: "'w Venue \<Rightarrow> int \<Rightarrow> int \<Rightarrow> nat \<Rightarrow> nat \<Rightarrow> rat \<Rightarrow> ('w, rat option) rec" where
  "income_pages v start end_time 0 page net = eff_ret None"
| "income_pages v start end_time (Suc n) page net =
     eff_bind (request v (GetIncome start end_time page)) (\<lambda>payload.
     case payload of
       JList items \<Rightarrow>
         (case income_items items net of
            None \<Rightarrow> eff_ret None
          | Some net' \<Rightarrow> if length items < 1000 then eff_ret (Some net') else income_pages v start end_time n (Suc page) net')
     | _ \<Rightarrow> eff_ret None)"

definition read_daily_realized_pnl :: "'w Venue \<Rightarrow> ('w, rat option \<times> bool) rec" where
  "read_daily_realized_pnl v =
     (if vn_env v \<noteq> MAINNET then eff_ret (None, True)
      else
        eff_bind (rec_pure (utc_day_window (Aware (vn_clock v 0)))) (\<lambda>(start, stop).
        eff_bind (eff_modify (\<lambda>s. s\<lparr>rc_window_start := Some (Aware start), rc_window_end := Some (Aware stop)\<rparr>)) (\<lambda>_.
        eff_catch (eff_bind (income_pages v start (vn_clock v 1) 100 1 0) (\<lambda>r. eff_ret (r, r \<noteq> None)))
          (\<lambda>_. eff_ret (None, False)))))"

section \<open>Recovering orders and fills\<close>

definition resolve_order_id :: "'w Venue \<Rightarrow> ExecutionOrder \<Rightarrow> ('w, unit) rec" where
  "resolve_order_id v od =
     (if eo_client_order_id od \<noteq> [] \<and> exchange_id od = [] then
        eff_catch
          (eff_bind (request v (GetOrderByClient (eo_symbol od) (eo_client_order_id od))) (\<lambda>info.
           case info of
             JObject d \<Rightarrow>
               if json_truthy (json_get d ''orderId'')
               then on_ledger (upsert_order (od\<lparr>eo_exchange_order_id := Some (py_str (json_get d ''orderId''))\<rparr>))
               else eff_ret ()
           | _ \<Rightarrow> eff_ret ()))
          (\<lambda>_. eff_ret ())
      else eff_ret ())"

definition source_label :: "'w Venue \<Rightarrow> string \<Rightarrow> string" where
  "source_label v suffix = environment_label (vn_env v) @ suffix"

text \<open>One trade of \<open>_recover_recent_trades\<close>: a difference when no local order owns it.\<close>

definition recover_trade :: "'w Venue \<Rightarrow> string \<Rightarrow> json \<Rightarrow> ('w, ReconciliationDiff list) rec" where
  "recover_trade v symbol trade =
     eff_bind (eff_lift id (as_fields trade)) (\<lambda>d.
     eff_bind (eff_gets rc_ledger) (\<lambda>l.
     let by_id = get_order_by_exchange_id l (py_str (json_get d ''orderId''));
         owner = (case by_id of
             Some od \<Rightarrow> Some od
           | None \<Rightarrow> if json_truthy (json_get d ''clientOrderId'')
                     then get_order_by_client_id l (py_str (json_get d ''clientOrderId'')) else None)
     in
     case owner of
       None \<Rightarrow> eff_ret [diff EXCHANGE_FILL_UNKNOWN_LOCALLY (upper (py_str (json_or (json_get d ''symbol'') (JStr symbol)))) None
                 (Some (VText (py_str (json_or (json_get d ''id'') (json_or (json_get d ''orderId'') (JStr ''UNKNOWN''))))))]
     | Some od \<Rightarrow>
         eff_bind (eff_lift id (exchange_fill_from_trade d od (source_label v ''_BOOTSTRAP''))) (\<lambda>fill.
         eff_bind (on_ledger (append_fill fill)) (\<lambda>_. eff_ret []))))"

definition recover_recent_trades :: "'w Venue \<Rightarrow> string set \<Rightarrow> ('w, unit) rec" where
  "recover_recent_trades v symbols =
     eff_bind (eff_map (\<lambda>symbol.
       eff_bind (request v (GetTrades symbol)) (\<lambda>answer.
       eff_bind (as_list (FillRecoveryError ''userTrades response is invalid'') answer) (\<lambda>trades.
       eff_bind (eff_map (recover_trade v symbol) trades) (\<lambda>ds. eff_ret (concat ds)))))
       (sorted_list_of_set (upper ` (symbols - {[]})))) (\<lambda>ds.
     eff_modify (\<lambda>s. s\<lparr>rc_unattributed := concat ds\<rparr>))"

definition note_trade_ids :: "jfields \<Rightarrow> 'w ReconState \<Rightarrow> 'w ReconState" where
  "note_trade_ids d s =
     s\<lparr>rc_recovered_trade_ids := rc_recovered_trade_ids s
        \<union> set (map (\<lambda>k. py_str (json_get d k)) (filter (\<lambda>k. \<not> json_missing (json_get d k)) [''id'', ''orderId'']))\<rparr>"

definition quantity_sum :: "ExchangeFill list \<Rightarrow> rat" where
  "quantity_sum fs = foldl (\<lambda>acc f. dadd acc (ef_quantity f)) 0 fs"

text \<open>The checks on the quantity of the recovered fills.\<close>

definition recovered_quantity_ok :: "ExecutionOrder \<Rightarrow> jfields \<Rightarrow> rat \<Rightarrow> rec_error + unit" where
  "recovered_quantity_ok local_order order_status recovered =
     (let raw = json_get order_status ''executedQty'' in
      res_bind (if json_missing raw then Inr ()
                else (case json_decimal raw of
                    None \<Rightarrow> Inl (FillRecoveryError ''Order executedQty is invalid'')
                  | Some d \<Rightarrow> check (\<exists>x \<in> set_option (finite_of (Some d)). 0 \<le> x \<and> recovered = x)
                      (FillRecoveryError ''Recovered fill quantity does not match exchange executedQty''))) (\<lambda>_.
      if upper (py_str (json_get_or order_status ''status'' (JStr []))) = ''FILLED''
      then check (recovered = eo_quantity local_order)
             (FillRecoveryError ''FILLED order recovered fill quantity does not match origQty'')
      else check (\<not> (recovered \<le> 0 \<or> recovered > eo_quantity local_order))
             (FillRecoveryError ''PARTIALLY_FILLED order has invalid recovered fill quantity'')))"

definition recover_order_fills :: "'w Venue \<Rightarrow> ExecutionOrder \<Rightarrow> jfields \<Rightarrow> ('w, unit) rec" where
  "recover_order_fills v local_order order_status =
     (let order_id = json_or (json_get order_status ''orderId'')
            (case eo_exchange_order_id local_order of Some x \<Rightarrow> JStr x | None \<Rightarrow> JNull) in
      if \<not> json_truthy order_id then eff_raise (FillRecoveryError ''Filled order has no exchange order ID'')
      else
        eff_bind (request v (GetOrderTrades (eo_symbol local_order) (py_str order_id))) (\<lambda>answer.
        eff_bind (as_list (FillRecoveryError ''userTrades recovery response is invalid'') answer) (\<lambda>trades.
        eff_bind (eff_lift id (res_map as_fields trades)) (\<lambda>ts.
        let matching = filter (\<lambda>d. py_str (json_get d ''orderId'') = py_str order_id) ts in
        if matching = [] then eff_raise (FillRecoveryError ''No fills recovered for exchange order'')
        else
          eff_bind (eff_map (\<lambda>d. eff_bind (eff_modify (note_trade_ids d)) (\<lambda>_.
              eff_lift id (exchange_fill_from_trade d local_order (source_label v ''_RECOVERY'')))) matching) (\<lambda>fs.
          eff_bind (eff_lift id (recovered_quantity_ok local_order order_status (quantity_sum fs))) (\<lambda>_.
          eff_each (\<lambda>f. on_ledger (append_fill f)) fs))))))"

section \<open>Comparing orders\<close>

definition add_diff :: "diff_code \<Rightarrow> string \<Rightarrow> diff_value \<Rightarrow> diff_value \<Rightarrow> ReconciliationDiff list" where
  "add_diff code symbol lv ev = (if lv \<noteq> ev then [diff code symbol (Some lv) (Some ev)] else [])"

text \<open>A positive number of the exchange order, or an unknown one.\<close>

definition positive_number :: "json \<Rightarrow> rat option" where
  "positive_number raw = (case finite_of (json_decimal raw) of Some x \<Rightarrow> if x > 0 then Some x else None | None \<Rightarrow> None)"

definition upper_field :: "jfields \<Rightarrow> string \<Rightarrow> string \<Rightarrow> string" where
  "upper_field d field dflt = upper (py_str (json_get_or d field (JStr dflt)))"

definition compare_open_order :: "ExecutionOrder \<Rightarrow> jfields \<Rightarrow> ReconciliationDiff list" where
  "compare_open_order local_order exchange_order =
     (let symbol = upper_field exchange_order ''symbol'' (eo_symbol local_order);
          quantity = positive_number (json_get exchange_order ''origQty'');
          price = positive_number (json_get exchange_order ''price'');
          cid = json_get exchange_order ''clientOrderId''
      in add_diff ORDER_STATUS_MISMATCH symbol (VText (upper (eo_status local_order))) (VText (upper_field exchange_order ''status'' ''UNKNOWN''))
       @ add_diff ORDER_SIDE_MISMATCH symbol (VText (order_side_value (eo_side local_order))) (VText (upper_field exchange_order ''side'' ''UNKNOWN''))
       @ add_diff ORDER_POSITION_SIDE_MISMATCH symbol (VText (position_side_value (eo_position_side local_order)))
           (VText (upper_field exchange_order ''positionSide'' ''BOTH''))
       @ add_diff ORDER_REDUCE_ONLY_MISMATCH symbol (VBool (eo_reduce_only local_order))
           (VBool (exchange_bool (json_get_or exchange_order ''reduceOnly'' (JBool False))))
       @ (case quantity of
            None \<Rightarrow> [diff ORDER_QUANTITY_UNKNOWN symbol (Some (VDecimal (eo_quantity local_order)))
                       (Some (VText (py_str (json_get exchange_order ''origQty''))))]
          | Some q \<Rightarrow> add_diff ORDER_QUANTITY_MISMATCH symbol (VDecimal (eo_quantity local_order)) (VDecimal q))
       @ (if upper_field exchange_order ''type'' (eo_order_type local_order) \<noteq> ''MARKET'' then
            (case price of
               None \<Rightarrow> [diff ORDER_PRICE_UNKNOWN symbol (Some (VDecimal (eo_price local_order)))
                          (Some (VText (py_str (json_get exchange_order ''price''))))]
             | Some p \<Rightarrow> add_diff ORDER_PRICE_MISMATCH symbol (VDecimal (eo_price local_order)) (VDecimal p))
          else [])
       @ (if exchange_id local_order \<noteq> []
          then add_diff ORDER_EXCHANGE_ID_MISMATCH symbol (VText (exchange_id local_order)) (VText (py_str (json_get exchange_order ''orderId'')))
          else [])
       @ (if eo_client_order_id local_order \<noteq> [] \<and> json_truthy cid
          then add_diff ORDER_CLIENT_ID_MISMATCH symbol (VText (eo_client_order_id local_order)) (VText (py_str cid))
          else []))"

section \<open>Collecting the differences\<close>

definition open_order_fields :: "json \<Rightarrow> rec_error + jfields" where
  "open_order_fields j =
     (case j of
        JObject d \<Rightarrow>
          if list_ex (\<lambda>f. json_missing (json_get d f)) [''symbol'', ''orderId'', ''clientOrderId'', ''status'', ''side'', ''origQty'']
          then Inl (Py (ValueError ''Binance open order is missing required fields'')) else Inr d
      | _ \<Rightarrow> Inl (Py (ValueError ''Binance open order entry is invalid'')))"

definition index_orders :: "(jfields \<Rightarrow> string) \<Rightarrow> jfields list \<Rightarrow> (string, jfields) dict" where
  "index_orders key os = foldl (\<lambda>acc d. AList.update (key d) d acc) [] os"

text \<open>The local variables of the loop over the local orders: the differences, the symbols whose
  positions follow from recovered orders, and the orders as they are afterwards.\<close>

record diff_acc =
  da_diffs :: "ReconciliationDiff list"
  da_positions :: "string set"
  da_reductions :: "string list"
  da_orders :: "ExecutionOrder list"

definition add_diffs :: "ReconciliationDiff list \<Rightarrow> diff_acc \<Rightarrow> diff_acc" where
  "add_diffs ds acc = acc\<lparr>da_diffs := da_diffs acc @ ds\<rparr>"

text \<open>Fill recovery that turns every exception but an authentication failure into a difference; the
  result says whether the fills were recovered.\<close>

definition try_recover :: "'w Venue \<Rightarrow> ExecutionOrder \<Rightarrow> jfields \<Rightarrow> ('w, ReconciliationDiff list) rec" where
  "try_recover v od order_status =
     eff_catch (eff_bind (recover_order_fills v od order_status) (\<lambda>_. eff_ret []))
       (\<lambda>e. if e = BinanceAuthenticationError then eff_raise e
            else eff_ret [diff FILL_RECOVERY_FAILED (eo_symbol od) (Some (VText (eo_client_order_id od)))
                   (Some (VText (py_str (json_get_or order_status ''orderId'' (JStr [])))))])"

text \<open>A local order that is among the open orders of the exchange.\<close>

definition check_open_order :: "'w Venue \<Rightarrow> ExecutionOrder \<Rightarrow> jfields \<Rightarrow> ('w, ReconciliationDiff list) rec" where
  "check_open_order v od exchange_order =
     (let local_status = upper (eo_status od); compared = compare_open_order od exchange_order in
      if local_status = ''PARTIALLY_FILLED'' then
        (case json_decimal (json_get_or exchange_order ''executedQty'' (JStr ''0'')) of
           None \<Rightarrow> eff_ret (compared @ [diff PARTIAL_EXECUTED_QTY_UNKNOWN (eo_symbol od) (Some (VText (eo_client_order_id od))) None])
         | Some executed \<Rightarrow>
             eff_bind (rec_pure (decimal_less executed (Fin 0))) (\<lambda>negative.
             if negative
             then eff_ret (compared @ [diff PARTIAL_EXECUTED_QTY_UNKNOWN (eo_symbol od) (Some (VText (eo_client_order_id od))) None])
             else if executed = Fin 0 then eff_ret compared
             else eff_bind (try_recover v od exchange_order) (\<lambda>ds. eff_ret (compared @ ds))))
      else if local_status = ''FILLED'' then eff_bind (try_recover v od exchange_order) (\<lambda>ds. eff_ret (compared @ ds))
      else eff_ret compared)"

definition order_query :: "ExecutionOrder \<Rightarrow> rest_call" where
  "order_query od =
     (if eo_client_order_id od \<noteq> [] then GetOrderByClient (eo_symbol od) (eo_client_order_id od)
      else GetOrderById (eo_symbol od) (if exchange_id od \<noteq> [] then Some (exchange_id od) else None))"

definition order_name :: "ExecutionOrder \<Rightarrow> diff_value option" where
  "order_name od = (if eo_client_order_id od \<noteq> [] then Some (VText (eo_client_order_id od))
     else map_option VText (eo_exchange_order_id od))"

definition reduces :: "ExecutionOrder \<Rightarrow> bool" where
  "reduces od = (eo_reduce_only od \<or> eo_risk_class od \<in> {REDUCE_RISK, RECOVERY, CLOSE, EMERGENCY})"

definition keep_order :: "ExecutionOrder \<Rightarrow> diff_acc \<Rightarrow> diff_acc" where
  "keep_order od acc = acc\<lparr>da_orders := da_orders acc @ [od]\<rparr>"

definition recovered_order :: "ExecutionOrder \<Rightarrow> string \<Rightarrow> jfields \<Rightarrow> ExecutionOrder" where
  "recovered_order od status order_status = od\<lparr>eo_status := status,
     eo_exchange_order_id := Some (py_str (json_or (json_get order_status ''orderId'') (JStr (exchange_id od))))\<rparr>"

text \<open>A local order that is not among them: its status is queried.\<close>

definition check_order_status :: "'w Venue \<Rightarrow> ExecutionOrder \<Rightarrow> jfields \<Rightarrow> diff_acc \<Rightarrow> ('w, diff_acc) rec" where
  "check_order_status v od order_status acc =
     (let status = upper_field order_status ''status'' ''UNKNOWN'';
          local_status = upper (eo_status od);
          symbol = upper (eo_symbol od)
      in
      if status \<in> {''FILLED'', ''PARTIALLY_FILLED''} then
        eff_bind (try_recover v od order_status) (\<lambda>ds.
        if ds \<noteq> [] then eff_ret (keep_order od (add_diffs ds acc))
        else
          (let od' = recovered_order od status order_status in
           eff_bind (on_ledger (upsert_order od')) (\<lambda>_.
           eff_ret (keep_order od' (acc\<lparr>da_positions := insert symbol (da_positions acc),
             da_reductions := (if reduces od then List.insert symbol (da_reductions acc) else da_reductions acc)\<rparr>)))))
      else if status \<in> {''CANCELED'', ''CANCELLED'', ''EXPIRED'', ''REJECTED''} then
        (if local_status \<in> {''FILLED'', ''PARTIALLY_FILLED''}
         then eff_ret (keep_order od (add_diffs [diff TERMINAL_ORDER_STATUS_MISMATCH (eo_symbol od)
                (Some (VText local_status)) (Some (VText status))] acc))
         else if local_status = ''NEW''
         then eff_bind (on_ledger (upsert_order (od\<lparr>eo_status := status\<rparr>))) (\<lambda>_. eff_ret (keep_order (od\<lparr>eo_status := status\<rparr>) acc))
         else eff_ret (keep_order od acc))
      else eff_ret (keep_order od (add_diffs [diff LOCAL_OPEN_ORDER_MISSING_ON_EXCHANGE (eo_symbol od) (order_name od)
             (Some (VText status))] acc)))"

definition query_order :: "'w Venue \<Rightarrow> ExecutionOrder \<Rightarrow> diff_acc \<Rightarrow> ('w, diff_acc) rec" where
  "query_order v od acc =
     eff_bind (eff_catch (eff_bind (request v (order_query od)) (\<lambda>j. eff_ret (Some j)))
       (\<lambda>e. if e = BinanceAuthenticationError then eff_raise e else eff_ret None)) (\<lambda>answer.
     case answer of
       None \<Rightarrow> eff_ret (keep_order od (add_diffs [diff LOCAL_OPEN_ORDER_STATUS_UNKNOWN (eo_symbol od)
                 (Some (VText (eo_client_order_id od))) None] acc))
     | Some (JObject order_status) \<Rightarrow> check_order_status v od order_status acc
     | Some _ \<Rightarrow> eff_ret (keep_order od (add_diffs [diff LOCAL_ORDER_STATUS_UNKNOWN (eo_symbol od) (order_name od) None] acc)))"

definition matching_open_order :: "(string, jfields) dict \<Rightarrow> (string, jfields) dict \<Rightarrow> ExecutionOrder \<Rightarrow> jfields option" where
  "matching_open_order by_id by_client od =
     (case (if exchange_id od \<noteq> [] then map_of by_id (exchange_id od) else None) of
        Some x \<Rightarrow> Some x
      | None \<Rightarrow> if eo_client_order_id od \<noteq> [] then map_of by_client (eo_client_order_id od) else None)"

definition check_local_order ::
  "'w Venue \<Rightarrow> (string, jfields) dict \<Rightarrow> (string, jfields) dict \<Rightarrow> ExecutionOrder \<Rightarrow> diff_acc \<Rightarrow> ('w, diff_acc) rec" where
  "check_local_order v by_id by_client od acc =
     (case matching_open_order by_id by_client od of
        None \<Rightarrow> query_order v od acc
      | Some exchange_order \<Rightarrow>
          eff_bind (check_open_order v od exchange_order) (\<lambda>ds.
          if upper (eo_status od) \<in> {''NEW'', ''PARTIALLY_FILLED'', ''FILLED''} then eff_ret (keep_order od (add_diffs ds acc))
          else query_order v od (add_diffs ds acc)))"

primrec check_local_orders ::
  "'w Venue \<Rightarrow> (string, jfields) dict \<Rightarrow> (string, jfields) dict \<Rightarrow> ExecutionOrder list \<Rightarrow> diff_acc \<Rightarrow> ('w, diff_acc) rec" where
  "check_local_orders v by_id by_client [] acc = eff_ret acc"
| "check_local_orders v by_id by_client (od # ods) acc =
     eff_bind (check_local_order v by_id by_client od acc) (check_local_orders v by_id by_client ods)"

definition drop_recovered :: "string set \<Rightarrow> ReconciliationDiff list \<Rightarrow> ReconciliationDiff list" where
  "drop_recovered recovered ds =
     filter (\<lambda>d. \<not> (rd_code d = EXCHANGE_FILL_UNKNOWN_LOCALLY \<and> (\<exists>t \<in> recovered. rd_exchange d = Some (VText t)))) ds"

text \<open>An open order of the exchange: it must be known locally, and as an open order.\<close>

definition check_exchange_order :: "InMemoryLedger \<Rightarrow> string \<Rightarrow> jfields \<Rightarrow> rec_error + ReconciliationDiff list" where
  "check_exchange_order l xid exchange_order =
     (let cid = json_get exchange_order ''clientOrderId'';
          by_client = (if json_truthy cid then get_order_by_client_id l (py_str cid) else None)
      in
      case (case by_client of Some od \<Rightarrow> Some od | None \<Rightarrow> get_order_by_exchange_id l xid) of
        None \<Rightarrow>
          (case json_get exchange_order ''symbol'' of
             JStr sy \<Rightarrow> Inr [diff EXCHANGE_OPEN_ORDER_UNKNOWN_LOCALLY sy None (Some (VText xid))]
           | _ \<Rightarrow> Inl (Py (ValueError ''Input should be a valid string'')))
      | Some od \<Rightarrow>
          Inr (if upper (eo_status od) \<in> {''NEW'', ''PARTIALLY_FILLED''} then [] else compare_open_order od exchange_order))"

type_synonym position_map = "(string \<times> string, rat) dict"

definition active_position_entry :: "json \<Rightarrow> position_map \<Rightarrow> rec_error + position_map" where
  "active_position_entry p m =
     res_bind (as_fields p) (\<lambda>d.
     res_bind (lift_py (position_amount d)) (\<lambda>amount.
     if amount = 0 then Inr m
     else
       let raw_side = json_get d ''positionSide''; side = upper (py_str raw_side) in
       res_bind (check (\<not> json_missing raw_side) (Py (ValueError ''Active position is missing positionSide''))) (\<lambda>_.
       res_bind (check (json_truthy (json_get d ''symbol'')) (Py (ValueError ''Active position is missing symbol''))) (\<lambda>_.
       res_bind (check (PositionSide_of side \<noteq> None) (Py (ValueError ''Active position has unsupported positionSide''))) (\<lambda>_.
       Inr (AList.update (upper (py_str (json_get d ''symbol'')), side) amount m))))))"

definition active_position_map :: "json list \<Rightarrow> rec_error + position_map" where
  "active_position_map ps = res_fold active_position_entry ps []"

definition local_position_map :: "InMemoryLedger \<Rightarrow> position_map" where
  "local_position_map l =
     foldl (\<lambda>m p. AList.update (upper (ep_symbol p), position_side_value (ep_position_side p)) (ep_quantity p) m) []
       (filter (\<lambda>p. ep_quantity p \<noteq> 0) (positions l))"

definition position_diffs :: "position_map \<Rightarrow> position_map \<Rightarrow> ReconciliationDiff list" where
  "position_diffs local exchange =
     concat (map (\<lambda>(key, amount).
       case map_of exchange key of
         None \<Rightarrow> [diff LOCAL_POSITION_MISSING_ON_EXCHANGE (fst key) (Some (VDecimal amount)) (Some (VText ''0''))]
       | Some x \<Rightarrow> if x \<noteq> amount then [diff POSITION_QTY_MISMATCH (fst key) (Some (VDecimal amount)) (Some (VDecimal x))] else []) local)
     @ concat (map (\<lambda>(key, x).
       if map_of local key = None
       then [diff EXCHANGE_POSITION_UNKNOWN_LOCALLY (fst key) (Some (VText ''0'')) (Some (VDecimal x))] else []) exchange)"

definition linked_fills :: "ExchangeFill list \<Rightarrow> ExecutionOrder \<Rightarrow> ExchangeFill list" where
  "linked_fills fs od =
     filter (\<lambda>f. (exchange_id od \<noteq> [] \<and> ef_exchange_order_id f = exchange_id od)
       \<or> (eo_client_order_id od \<noteq> [] \<and> ef_client_order_id f = eo_client_order_id od)) fs"

text \<open>Every executed order must have fills that add up.\<close>

definition fill_diffs :: "ExchangeFill list \<Rightarrow> ExecutionOrder \<Rightarrow> ReconciliationDiff list" where
  "fill_diffs fs od =
     (let local_status = upper (eo_status od); linked = linked_fills fs od; net = quantity_sum linked;
          symbol = upper (eo_symbol od)
      in
      if local_status \<notin> {''FILLED'', ''PARTIALLY_FILLED''} then []
      else if linked = [] then [diff TERMINAL_ORDER_FILL_MISSING symbol (order_name od) None]
      else if local_status = ''FILLED'' \<and> net \<noteq> eo_quantity od
      then [diff FILL_QUANTITY_MISMATCH symbol (Some (VDecimal (eo_quantity od))) (Some (VDecimal net))]
      else if local_status = ''PARTIALLY_FILLED'' \<and> (net \<le> 0 \<or> net > eo_quantity od)
      then [diff PARTIAL_FILL_QUANTITY_INVALID symbol (Some (VDecimal (eo_quantity od))) (Some (VDecimal net))]
      else [])"

definition collect_diffs :: "'w Venue \<Rightarrow> json list \<Rightarrow> json list \<Rightarrow> ('w, ReconciliationDiff list) rec" where
  "collect_diffs v exchange_positions exchange_open_orders =
     eff_bind (eff_lift id (res_map open_order_fields exchange_open_orders)) (\<lambda>os.
     let by_id = index_orders (\<lambda>d. py_str (json_get d ''orderId'')) os;
         by_client = index_orders (\<lambda>d. py_str (json_get d ''clientOrderId''))
           (filter (\<lambda>d. json_truthy (json_get d ''clientOrderId'')) os)
     in
     eff_bind (eff_gets (\<lambda>s. (rc_unattributed s, get_all_orders (rc_ledger s)))) (\<lambda>(unattributed, all_orders).
     eff_bind (check_local_orders v by_id by_client all_orders
       \<lparr>da_diffs = unattributed, da_positions = {}, da_reductions = [], da_orders = []\<rparr>) (\<lambda>acc.
     eff_bind (eff_gets (\<lambda>s. drop_recovered (rc_recovered_trade_ids s) (da_diffs acc))) (\<lambda>order_diffs.
     eff_bind (eff_gets rc_ledger) (\<lambda>l.
     eff_bind (eff_lift id (res_map (\<lambda>(xid, d). check_exchange_order l xid d) by_id)) (\<lambda>unknown_orders.
     eff_bind (eff_each (\<lambda>p. eff_bind (eff_lift id (as_fields p)) (\<lambda>d.
         if upper (symbol_text d) \<in> da_positions acc then on_ledger_res (upsert_position (Raw p)) else eff_ret ())) exchange_positions) (\<lambda>_.
     eff_bind (eff_lift id (active_position_map exchange_positions)) (\<lambda>exchange_map.
     eff_bind (eff_each (\<lambda>symbol. if list_ex (\<lambda>(key, _). fst key = symbol) exchange_map then eff_ret ()
         else on_ledger (clear_positions_for_symbol symbol)) (da_reductions acc)) (\<lambda>_.
     eff_bind (eff_gets rc_ledger) (\<lambda>l'.
     eff_ret (order_diffs @ concat unknown_orders @ position_diffs (local_position_map l') exchange_map
       @ concat (map (fill_diffs (fills l')) (da_orders acc)))))))))))))"

section \<open>Bootstrap and reconciliation\<close>

definition daily_of :: "'w Venue \<Rightarrow> 'w ReconState \<Rightarrow> rat option \<Rightarrow> bool \<Rightarrow> daily_pnl" where
  "daily_of v s realized known =
     \<lparr>dp_realized = realized, dp_known = known, dp_asset = (if vn_env v = MAINNET then ''USDC'' else ''UNKNOWN''),
      dp_includes_fees = (known \<and> vn_env v = MAINNET), dp_includes_funding = (known \<and> vn_env v = MAINNET),
      dp_window_start = rc_window_start s, dp_window_end = rc_window_end s\<rparr>"

text \<open>The part that both share: fetch, check the scope, read the day's result, build the snapshot.\<close>

definition fetch_and_validate :: "'w Venue \<Rightarrow> ('w, json list \<times> json list \<times> ExchangeAccountSnapshot) rec" where
  "fetch_and_validate v =
     eff_bind (fetch_reconciliation_snapshot_inputs v) (\<lambda>(account, exchange_positions, open_orders).
     eff_bind (eff_lift id (validate_mainnet_scope (vn_env v) exchange_positions open_orders)) (\<lambda>_.
     eff_bind (read_daily_realized_pnl v) (\<lambda>(realized, known).
     eff_bind (eff_gets (\<lambda>s. daily_of v s realized known)) (\<lambda>daily.
     eff_bind (rec_pure (build_account_snapshot account exchange_positions (environment_label (vn_env v)) daily None
       ''ETHUSDC'' (Aware (vn_clock v 2)))) (\<lambda>snapshot.
     eff_ret (exchange_positions, open_orders, snapshot))))))"

definition position_is_active :: "json \<Rightarrow> rec_error + bool" where
  "position_is_active p = res_bind (as_fields p) (\<lambda>d. res_bind (lift_py (position_amount d)) (\<lambda>x. Inr (x \<noteq> 0)))"

text \<open>\<open>str(x.get("symbol")) for x in xs if x.get("symbol")\<close>.\<close>

definition symbols_of :: "json list \<Rightarrow> rec_error + string set" where
  "symbols_of xs =
     res_bind (res_map as_fields xs) (\<lambda>ds.
     Inr (set (map (\<lambda>d. py_str (json_get d ''symbol'')) (filter (\<lambda>d. json_truthy (json_get d ''symbol'')) ds))))"

definition recover_and_compare :: "'w Venue \<Rightarrow> json list \<Rightarrow> json list \<Rightarrow> json list \<Rightarrow> ('w, ReconciliationDiff list) rec" where
  "recover_and_compare v exchange_positions active open_orders =
     eff_bind (eff_lift id (symbols_of active)) (\<lambda>from_positions.
     eff_bind (eff_lift id (symbols_of open_orders)) (\<lambda>from_orders.
     eff_bind (eff_gets (\<lambda>s. get_all_orders (rc_ledger s))) (\<lambda>tracked.
     eff_bind (eff_each (resolve_order_id v) tracked) (\<lambda>_.
     eff_bind (recover_recent_trades v (from_positions \<union> from_orders \<union> (eo_symbol ` set tracked - {[]}))) (\<lambda>_.
     collect_diffs v exchange_positions open_orders)))))"

definition active_positions :: "json list \<Rightarrow> rec_error + json list" where
  "active_positions ps =
     res_bind (res_map position_is_active ps) (\<lambda>bs. Inr (map fst (filter snd (zip ps bs))))"

definition has_exchange_state :: "InMemoryLedger \<Rightarrow> bool" where
  "has_exchange_state l = (get_all_orders l \<noteq> [] \<or> fills l \<noteq> [] \<or> list_ex (\<lambda>p. ep_quantity p \<noteq> 0) (positions l))"

text \<open>The bootstrap after the old snapshot was forgotten.\<close>

definition bootstrap_rest ::
  "'w Venue \<Rightarrow> json list \<Rightarrow> json list \<Rightarrow> ExchangeAccountSnapshot \<Rightarrow> json list \<Rightarrow> bool \<Rightarrow> ('w, bool) rec" where
  "bootstrap_rest v exchange_positions open_orders snapshot active owned =
     (if \<not> owned \<and> (active \<noteq> [] \<or> open_orders \<noteq> []) then
       eff_bind (eff_modify (set_status ''UNKNOWN'' [\<lparr>rd_code = EXCHANGE_STATE_UNOWNED, rd_symbol = None,
         rd_local = Some (VText ''EMPTY_LEDGER''), rd_exchange = Some (VCounts (length active) (length open_orders))\<rparr>]))
         (\<lambda>_. eff_ret False)
     else
       eff_bind (recover_and_compare v exchange_positions active open_orders) (\<lambda>ds.
       if ds \<noteq> [] then eff_bind (eff_modify (set_status ''MISMATCH'' ds)) (\<lambda>_. eff_ret False)
       else
         eff_bind (on_ledger_res (replace_positions (map Raw active) False)) (\<lambda>_.
         eff_bind (eff_each (\<lambda>(i, j). eff_bind (eff_lift id (as_fields j)) (\<lambda>d.
             on_ledger_res (upsert_raw_exchange_order d (Aware (vn_clock v (3 + i)))))) (enumerate 0 open_orders)) (\<lambda>_.
         eff_bind (on_ledger (set_account_snapshot (Some snapshot))) (\<lambda>_.
         eff_bind (on_ledger mark_initialized) (\<lambda>_.
         eff_bind (eff_modify (set_status ''IN_SYNC'' [])) (\<lambda>_. eff_ret True)))))))"

definition bootstrap_body :: "'w Venue \<Rightarrow> ('w, bool) rec" where
  "bootstrap_body v =
     eff_bind (fetch_and_validate v) (\<lambda>(exchange_positions, open_orders, snapshot).
     eff_bind (eff_lift id (active_positions exchange_positions)) (\<lambda>active.
     eff_bind (eff_gets (\<lambda>s. has_exchange_state (rc_ledger s))) (\<lambda>owned.
     eff_bind (on_ledger (set_account_snapshot None)) (\<lambda>_.
     bootstrap_rest v exchange_positions open_orders snapshot active owned))))"

definition failure_diff :: "diff_code \<Rightarrow> rec_error \<Rightarrow> ReconciliationDiff" where
  "failure_diff code e = \<lparr>rd_code = code, rd_symbol = None, rd_local = None, rd_exchange = Some (VError e)\<rparr>"

definition on_failure :: "diff_code \<Rightarrow> diff_code \<Rightarrow> rec_error \<Rightarrow> 'w ReconState \<Rightarrow> 'w ReconState" where
  "on_failure auth other e s =
     (if e = BinanceAuthenticationError
      then set_status ''UNKNOWN'' [failure_diff auth e] (s\<lparr>rc_authentication_failed := True\<rparr>)
      else set_status ''UNKNOWN'' [failure_diff other e] s)"

definition begin_run :: "'w ReconState \<Rightarrow> 'w ReconState" where
  "begin_run s = set_status ''RECONCILING'' [] (s\<lparr>rc_authentication_failed := False, rc_unattributed := []\<rparr>)"

definition bootstrap :: "'w Venue \<Rightarrow> 'w ReconState \<Rightarrow> bool \<times> 'w ReconState" where
  "bootstrap v s =
     (case bootstrap_body v (begin_run s) of
        (Inr b, s') \<Rightarrow> (b, s')
      | (Inl e, s') \<Rightarrow> (False, on_failure BOOTSTRAP_AUTHENTICATION_FAILED BOOTSTRAP_VERIFICATION_FAILED e s'))"

definition reconcile_body :: "'w Venue \<Rightarrow> ('w, unit) rec" where
  "reconcile_body v =
     eff_bind (fetch_and_validate v) (\<lambda>(exchange_positions, open_orders, snapshot).
     eff_bind (eff_lift id (active_positions exchange_positions)) (\<lambda>active.
     eff_bind (recover_and_compare v exchange_positions active open_orders) (\<lambda>ds.
     if ds \<noteq> [] then eff_modify (set_status ''MISMATCH'' ds)
     else
       eff_bind (on_ledger_res (replace_positions (map Raw exchange_positions) False)) (\<lambda>_.
       eff_bind (on_ledger (update_balances (wallet_balance snapshot) (margin_balance snapshot))) (\<lambda>_.
       eff_bind (on_ledger (set_account_snapshot (Some snapshot))) (\<lambda>_.
       eff_modify (set_status ''IN_SYNC'' [])))))))"

definition reconcile :: "'w Venue \<Rightarrow> 'w ReconState \<Rightarrow> string \<times> 'w ReconState" where
  "reconcile v s =
     (if \<not> initialized (rc_ledger s) then (let s' = snd (bootstrap v (s\<lparr>rc_authentication_failed := False\<rparr>)) in (rc_status s', s'))
      else
        (let s' = (case reconcile_body v (begin_run s) of
               (Inr _, s') \<Rightarrow> s'
             | (Inl e, s') \<Rightarrow> on_failure RECONCILIATION_AUTHENTICATION_FAILED RECONCILIATION_FAILED e s')
         in (rc_status s', s')))"

end
