(* ===== verification/ReconcileSafety.thy ===== *)
theory ReconcileSafety
  imports Reconciliation
begin

text \<open>
  What reconciliation guarantees. The first part shows what the recovery steps leave unchanged: a
  predicate on the ledger that survives appended fills (\<open>fill_closed\<close>), stored orders
  (\<open>order_closed\<close>) and position updates (\<open>position_closed\<close>) survives the methods built from them. The
  second part follows the orders through the comparison. The properties state what the status
  \<open>IN_SYNC\<close> means and what any other status leaves behind.
\<close>

section \<open>What the steps keep\<close>

definition fill_closed :: "(InMemoryLedger \<Rightarrow> bool) \<Rightarrow> bool" where
  "fill_closed P = (\<forall>l f. P l \<longrightarrow> P (append_fill f l))"

definition order_closed :: "(InMemoryLedger \<Rightarrow> bool) \<Rightarrow> bool" where
  "order_closed P = (\<forall>l od. P l \<longrightarrow> P (upsert_order od l))"

definition position_closed :: "(InMemoryLedger \<Rightarrow> bool) \<Rightarrow> bool" where
  "position_closed P = ((\<forall>l l' raw. P l \<longrightarrow> upsert_position raw l = Inr l' \<longrightarrow> P l')
     \<and> (\<forall>l sy. P l \<longrightarrow> P (clear_positions_for_symbol sy l)))"

abbreviation ledger_inv :: "(InMemoryLedger \<Rightarrow> bool) \<Rightarrow> 'w ReconState \<Rightarrow> bool" where
  "ledger_inv P s \<equiv> P (rc_ledger s)"

lemma keeps_request [eff_rules]: "eff_keeps (ledger_inv P) (request v call)"
  by (rule eff_validI) (auto simp: request_def split: prod.splits sum.splits)

lemma keeps_on_ledger: "(\<And>l. P l \<Longrightarrow> P (f l)) \<Longrightarrow> eff_keeps (ledger_inv P) (on_ledger f)"
  by (simp add: on_ledger_def eff_valid_def)

lemma keeps_on_ledger_res:
  "(\<And>l l'. P l \<Longrightarrow> f l = Inr l' \<Longrightarrow> P l') \<Longrightarrow> eff_keeps (ledger_inv P) (on_ledger_res f)"
  by (rule eff_validI) (auto simp: on_ledger_res_def split: sum.splits)

lemma keeps_append_fill: "fill_closed P \<Longrightarrow> eff_keeps (ledger_inv P) (on_ledger (append_fill f))"
  by (rule keeps_on_ledger) (simp add: fill_closed_def)

lemma keeps_upsert_order: "order_closed P \<Longrightarrow> eff_keeps (ledger_inv P) (on_ledger (upsert_order od))"
  by (rule keeps_on_ledger) (simp add: order_closed_def)

lemma keeps_as_list [eff_rules]: "eff_keeps I (as_list e j)"
  by (cases j) (simp_all add: as_list_def eff_valid_def)

lemma keeps_modify_other:
  "(\<And>s. rc_ledger (f s) = rc_ledger s) \<Longrightarrow> eff_keeps (ledger_inv P) (eff_modify f)"
  by (simp add: eff_valid_def)

lemma keeps_fetch [eff_rules]: "eff_keeps (ledger_inv P) (fetch_reconciliation_snapshot_inputs v)"
  unfolding fetch_reconciliation_snapshot_inputs_def
  by (auto intro!: eff_rules split: json.splits)

lemma keeps_income_pages [eff_rules]: "eff_keeps (ledger_inv P) (income_pages v start stop n page net)"
  by (induction n arbitrary: page net) (auto intro!: eff_rules split: json.splits option.splits)

lemma keeps_daily [eff_rules]: "eff_keeps (ledger_inv P) (read_daily_realized_pnl v)"
  unfolding read_daily_realized_pnl_def by (auto intro!: eff_rules)

lemma keeps_fetch_and_validate [eff_rules]: "eff_keeps (ledger_inv P) (fetch_and_validate v)"
  unfolding fetch_and_validate_def by (auto intro!: eff_rules)

lemma keeps_recover_recent_trades [eff_rules]:
  "fill_closed P \<Longrightarrow> eff_keeps (ledger_inv P) (recover_recent_trades v symbols)"
  unfolding recover_recent_trades_def recover_trade_def Let_def
  by (auto intro!: eff_rules keeps_append_fill split: option.splits)

lemma keeps_recover_order_fills [eff_rules]:
  "fill_closed P \<Longrightarrow> eff_keeps (ledger_inv P) (recover_order_fills v od st)"
  unfolding recover_order_fills_def Let_def
  by (auto intro!: eff_rules keeps_append_fill simp: note_trade_ids_def)

lemma keeps_check_open_order [eff_rules]:
  "fill_closed P \<Longrightarrow> eff_keeps (ledger_inv P) (try_recover v od st)"
  "fill_closed P \<Longrightarrow> eff_keeps (ledger_inv P) (check_open_order v od st)"
  unfolding check_open_order_def try_recover_def Let_def
  by (auto intro!: eff_rules split: option.splits)

lemma keeps_resolve [eff_rules]: "order_closed P \<Longrightarrow> eff_keeps (ledger_inv P) (resolve_order_id v od)"
  unfolding resolve_order_id_def by (auto intro!: eff_rules keeps_upsert_order split: json.splits)

lemma keeps_query_order [eff_rules]:
  "fill_closed P \<Longrightarrow> order_closed P \<Longrightarrow> eff_keeps (ledger_inv P) (query_order v od acc)"
  unfolding query_order_def check_order_status_def Let_def
  by (auto intro!: eff_rules keeps_upsert_order split: option.splits json.splits)

lemma keeps_check_local_orders [eff_rules]:
  "fill_closed P \<Longrightarrow> order_closed P \<Longrightarrow> eff_keeps (ledger_inv P) (check_local_orders v by_id by_client ods acc)"
  by (induction ods arbitrary: acc) (auto intro!: eff_rules simp: check_local_order_def split: option.splits)

lemma keeps_collect_diffs [eff_rules]:
  assumes "fill_closed P" "order_closed P" "position_closed P"
  shows "eff_keeps (ledger_inv P) (collect_diffs v ps os)"
  unfolding collect_diffs_def Let_def
  using assms by (auto intro!: eff_rules keeps_on_ledger keeps_on_ledger_res simp: position_closed_def)

lemma keeps_recover_and_compare [eff_rules]:
  assumes "fill_closed P" "order_closed P" "position_closed P"
  shows "eff_keeps (ledger_inv P) (recover_and_compare v ps active os)"
  unfolding recover_and_compare_def
  using assms by (auto intro!: eff_rules)

text \<open>The predicates this is used for: reachability, and the parts no recovery step touches.\<close>

lemma ledger_reach_closed [simp]: "fill_closed ledger_reach" "order_closed ledger_reach" "position_closed ledger_reach"
  by (auto simp: fill_closed_def order_closed_def position_closed_def intro: ledger_reach.intros)

definition trust :: "InMemoryLedger \<Rightarrow> ExchangeAccountSnapshot option \<times> bool \<times> decimal \<times> decimal" where
  "trust l = (account_snapshot l, initialized l, lg_wallet_balance l, lg_margin_balance l)"

lemma append_fill_frame [frame]:
  "orders (append_fill f l) = orders l" "positions (append_fill f l) = positions l" "trust (append_fill f l) = trust l"
  by (simp_all add: append_fill_def Let_def notify_def trust_def)

lemma upsert_order_frame [frame]:
  "positions (upsert_order od l) = positions l" "trust (upsert_order od l) = trust l" "fills (upsert_order od l) = fills l"
  by (simp_all add: upsert_order_def trust_def)

lemma clear_positions_frame [frame]:
  "trust (clear_positions_for_symbol sy l) = trust l" "orders (clear_positions_for_symbol sy l) = orders l"
  "fills (clear_positions_for_symbol sy l) = fills l"
  by (simp_all add: clear_positions_for_symbol_def trust_def)

lemma upsert_position_frame [frame]: "upsert_position raw l = Inr l' \<Longrightarrow> trust l' = trust l"
  by (auto simp: upsert_position_def res_bind_eq_Inr Let_def notify_def trust_def split_beta split: if_splits)

lemma trust_closed [simp]:
  "fill_closed (\<lambda>l. trust l = t)" "order_closed (\<lambda>l. trust l = t)" "position_closed (\<lambda>l. trust l = t)"
  by (auto simp: fill_closed_def order_closed_def position_closed_def frame)

section \<open>Following the orders\<close>

lemma eff_bind_Inr: "eff_bind m f s = (Inr y, s'') \<longleftrightarrow> (\<exists>x s'. m s = (Inr x, s') \<and> f x s' = (Inr y, s''))"
  by (auto simp: eff_bind_def split: prod.splits sum.splits)

lemma eff_bind_gets: "eff_bind (eff_gets f) g s = g (f s) s"
  by simp

lemma eff_lift_Inr: "eff_lift f r s = (Inr x, s') \<longleftrightarrow> r = Inr x \<and> s' = s"
  by (cases r) auto

lemma eff_gets_Inr: "eff_gets f s = (Inr x, s') \<longleftrightarrow> x = f s \<and> s' = s"
  by auto

lemma eff_modify_Inr: "eff_modify f s = (Inr x, s') \<longleftrightarrow> s' = f s"
  by auto

lemma on_ledger_Inr: "on_ledger f s = (Inr x, s') \<longleftrightarrow> s' = s\<lparr>rc_ledger := f (rc_ledger s)\<rparr>"
  by (auto simp: on_ledger_def)

lemma on_ledger_res_Inr: "on_ledger_res f s = (Inr x, s') \<longleftrightarrow> (\<exists>l. f (rc_ledger s) = Inr l \<and> s' = s\<lparr>rc_ledger := l\<rparr>)"
  by (auto simp: on_ledger_res_def split: sum.splits)

lemmas eff_Inr = eff_bind_Inr eff_lift_Inr eff_gets_Inr eff_modify_Inr on_ledger_Inr on_ledger_res_Inr

text \<open>What a computation that returned has kept.\<close>

lemma kept_Inr: "eff_keeps (ledger_inv P) m \<Longrightarrow> m s = (Inr x, s') \<Longrightarrow> P (rc_ledger s) \<Longrightarrow> P (rc_ledger s')"
  by (rule eff_valid_Inr[where P = "ledger_inv P" and Q = "\<lambda>_. ledger_inv P"])

lemma kept: "eff_keeps (ledger_inv P) m \<Longrightarrow> m s = (r, s') \<Longrightarrow> P (rc_ledger s) \<Longrightarrow> P (rc_ledger s')"
  by (cases r) (auto dest: eff_valid_Inr eff_valid_Inl)

lemma book_closed [simp]: "fill_closed (\<lambda>l. orders l = a \<and> positions l = b)"
  by (simp add: fill_closed_def frame)

lemma check_open_order_book:
  assumes "check_open_order v od st s = (r, s')"
  shows "orders (rc_ledger s') = orders (rc_ledger s)" "positions (rc_ledger s') = positions (rc_ledger s)"
  using kept[OF keeps_check_open_order(2)[OF book_closed] assms] by auto

lemma try_recover_book:
  assumes "try_recover v od st s = (r, s')"
  shows "orders (rc_ledger s') = orders (rc_ledger s)" "positions (rc_ledger s') = positions (rc_ledger s)"
  using kept[OF keeps_check_open_order(1)[OF book_closed] assms] by auto

text \<open>The ledger's orders are those already handled, as they are now, and those still to come.\<close>

definition orders_are :: "ExecutionOrder list \<Rightarrow> InMemoryLedger \<Rightarrow> bool" where
  "orders_are ods l = (ledger_ok l \<and> get_all_orders l = ods)"

lemma ledger_ok_keys: "ledger_ok l \<Longrightarrow> map fst (orders l) = map eo_client_order_id (get_all_orders l)"
  by (auto simp: ledger_ok_def get_all_orders_def)

lemma update_in_place:
  assumes "map fst d = map key (xs @ x # ys)" "map snd d = xs @ x # ys" "distinct (map fst d)" "key x' = key x"
  shows "map snd (AList.update (key x') x' d) = xs @ x' # ys"
  using assms
proof (induction xs arbitrary: d)
  case Nil
  then obtain k v d' where "d = (k, v) # d'" by (cases d) auto
  with Nil show ?case by auto
next
  case (Cons y xs)
  then obtain d' where d: "d = (key y, y) # d'" by (cases d) auto
  with Cons.prems have "key y \<noteq> key x'" by auto
  moreover have "map snd (AList.update (key x') x' d') = xs @ x' # ys" using Cons.prems d by (intro Cons.IH) auto
  ultimately show ?case by (simp add: d)
qed

lemma upsert_order_in_place:
  assumes "orders_are (xs @ od # ys) l" "eo_client_order_id od' = eo_client_order_id od"
  shows "orders_are (xs @ od' # ys) (upsert_order od' l)"
proof -
  have ok: "ledger_ok l" and all: "get_all_orders l = xs @ od # ys" using assms(1) by (auto simp: orders_are_def)
  have "ledger_ok (upsert_order od' l)" by (rule ledger_ok_orders[OF ok]) (simp_all add: upsert_order_def)
  moreover have "map snd (AList.update (eo_client_order_id od') od' (orders l)) = xs @ od' # ys"
  proof (rule update_in_place[where x = od])
    show "map fst (orders l) = map eo_client_order_id (xs @ od # ys)" by (simp only: ledger_ok_keys[OF ok] all)
    show "map snd (orders l) = xs @ od # ys" using all by (simp add: get_all_orders_def)
    show "distinct (map fst (orders l))" using ok by (simp add: ledger_ok_def dict_ok_def)
  qed (rule assms(2))
  ultimately show ?thesis by (simp add: orders_are_def get_all_orders_def upsert_order_def)
qed

lemma orders_are_frame: "orders_are ods l \<Longrightarrow> orders l' = orders l \<Longrightarrow> ledger_ok l' \<Longrightarrow> orders_are ods l'"
  by (simp add: orders_are_def get_all_orders_def)

lemma ledger_ok_append_fill: "ledger_ok l \<Longrightarrow> ledger_ok (append_fill f l)"
  by (auto simp: append_fill_def ledger_ok_def Let_def notify_def)

lemma orders_are_closed [simp]: "fill_closed (orders_are ods)"
  by (simp add: fill_closed_def orders_are_def get_all_orders_def frame ledger_ok_append_fill)

text \<open>The invariant of the loop over the local orders: \<open>rest\<close> are the orders still to come, \<open>ps\<close> the
  positions of the ledger, which the loop does not touch.\<close>

definition executed :: "ExecutionOrder \<Rightarrow> bool" where
  "executed od = (eo_status od \<in> {''FILLED'', ''PARTIALLY_FILLED''})"

definition loop_ok :: "ExchangePosition list \<Rightarrow> ExecutionOrder list \<Rightarrow> diff_acc \<Rightarrow> InMemoryLedger \<Rightarrow> bool" where
  "loop_ok ps rest acc l = (orders_are (da_orders acc @ rest) l \<and> positions l = ps
     \<and> set (da_reductions acc) \<subseteq> da_positions acc
     \<and> (\<forall>sy \<in> da_positions acc. \<exists>od \<in> set (da_orders acc). upper (eo_symbol od) = sy \<and> executed od))"

lemma loop_ok_closed [simp]: "fill_closed (loop_ok ps rest acc)"
  using orders_are_closed by (auto simp: fill_closed_def loop_ok_def frame)

lemma loop_ok_keep: "loop_ok ps (od # rest) acc l \<Longrightarrow> loop_ok ps rest (keep_order od (add_diffs ds acc)) l"
  by (auto simp: loop_ok_def keep_order_def add_diffs_def)

lemma loop_ok_add_diffs [simp]: "loop_ok ps rest (add_diffs ds acc) l = loop_ok ps rest acc l"
  by (simp add: loop_ok_def add_diffs_def)

lemma loop_ok_upsert:
  assumes "loop_ok ps (od # rest) acc l" "eo_client_order_id od' = eo_client_order_id od"
  shows "loop_ok ps rest (keep_order od' acc) (upsert_order od' l)"
  using assms upsert_order_in_place[of "da_orders acc" od rest l od']
  by (auto simp: loop_ok_def keep_order_def frame)

lemma loop_ok_recovered:
  assumes "loop_ok ps (od # rest) acc l" "status \<in> {''FILLED'', ''PARTIALLY_FILLED''}"
  shows "loop_ok ps rest (keep_order (recovered_order od status st) (acc\<lparr>da_positions := insert (upper (eo_symbol od)) (da_positions acc),
    da_reductions := (if reduces od then List.insert (upper (eo_symbol od)) (da_reductions acc) else da_reductions acc)\<rparr>))
    (upsert_order (recovered_order od status st) l)"
  using loop_ok_upsert[OF assms(1), of "recovered_order od status st"] assms(2)
  by (auto simp: loop_ok_def keep_order_def recovered_order_def executed_def)

lemma check_order_status_loop:
  assumes "check_order_status v od st acc s = (Inr acc', s')" "loop_ok ps (od # rest) acc (rc_ledger s)"
  shows "loop_ok ps rest acc' (rc_ledger s')"
proof -
  let ?status = "upper_field st ''status'' ''UNKNOWN''"
  consider "?status \<in> {''FILLED'', ''PARTIALLY_FILLED''}"
    | "?status \<notin> {''FILLED'', ''PARTIALLY_FILLED''}" by blast
  then show ?thesis
  proof cases
    case 1
    with assms(1) obtain ds s1 where rec: "try_recover v od st s = (Inr ds, s1)"
      and rest: "(if ds \<noteq> [] then eff_ret (keep_order od (add_diffs ds acc))
        else (let od' = recovered_order od ?status st in
           eff_bind (on_ledger (upsert_order od')) (\<lambda>_.
           eff_ret (keep_order od' (acc\<lparr>da_positions := insert (upper (eo_symbol od)) (da_positions acc),
             da_reductions := (if reduces od then List.insert (upper (eo_symbol od)) (da_reductions acc) else da_reductions acc)\<rparr>))))) s1
        = (Inr acc', s')"
      unfolding check_order_status_def Let_def by (simp only: if_True eff_bind_Inr) blast
    have s1: "loop_ok ps (od # rest) acc (rc_ledger s1)"
      by (rule kept_Inr[OF keeps_check_open_order(1)[OF loop_ok_closed] rec assms(2)])
    show ?thesis
    proof (cases "ds = []")
      case True
      then show ?thesis using rest loop_ok_recovered[OF s1 1] by (auto simp: Let_def eff_Inr)
    next
      case False
      then show ?thesis using rest loop_ok_keep[OF s1] by auto
    qed
  next
    case 2
    note no = assms(1)[unfolded check_order_status_def Let_def if_not_P[OF 2]]
    show ?thesis
      using no loop_ok_keep[OF assms(2)] loop_ok_keep[OF assms(2), of "[]"] loop_ok_upsert[OF assms(2), of "od\<lparr>eo_status := ?status\<rparr>"]
      by (auto simp: eff_Inr add_diffs_def split: if_splits)
  qed
qed

lemma query_order_loop:
  assumes "query_order v od acc s = (Inr acc', s')" "loop_ok ps (od # rest) acc (rc_ledger s)"
  shows "loop_ok ps rest acc' (rc_ledger s')"
proof -
  let ?ask = "eff_catch (eff_bind (request v (order_query od)) (\<lambda>j. eff_ret (Some j)))
       (\<lambda>e. if e = BinanceAuthenticationError then eff_raise e else eff_ret None)"
  from assms(1) obtain answer s1 where ask: "?ask s = (Inr answer, s1)"
    and rest: "(case answer of
       None \<Rightarrow> eff_ret (keep_order od (add_diffs [diff LOCAL_OPEN_ORDER_STATUS_UNKNOWN (eo_symbol od)
                 (Some (VText (eo_client_order_id od))) None] acc))
     | Some (JObject order_status) \<Rightarrow> check_order_status v od order_status acc
     | Some _ \<Rightarrow> eff_ret (keep_order od (add_diffs [diff LOCAL_ORDER_STATUS_UNKNOWN (eo_symbol od) (order_name od) None] acc))) s1
     = (Inr acc', s')"
    unfolding query_order_def by (simp only: eff_bind_Inr) blast
  have "eff_keeps (ledger_inv (loop_ok ps (od # rest) acc)) ?ask" by (auto intro!: eff_rules)
  from kept_Inr[OF this ask assms(2)] have s1: "loop_ok ps (od # rest) acc (rc_ledger s1)" .
  show ?thesis
    using rest loop_ok_keep[OF s1] check_order_status_loop[OF _ s1]
    by (cases answer; (cases "the answer")?; auto)
qed

lemma check_local_order_loop:
  assumes "check_local_order v by_id by_client od acc s = (Inr acc', s')" "loop_ok ps (od # rest) acc (rc_ledger s)"
  shows "loop_ok ps rest acc' (rc_ledger s')"
proof (cases "matching_open_order by_id by_client od")
  case None
  with assms(1) have "query_order v od acc s = (Inr acc', s')" by (simp add: check_local_order_def)
  then show ?thesis by (rule query_order_loop[OF _ assms(2)])
next
  case (Some x)
  with assms(1) obtain ds s1 where c: "check_open_order v od x s = (Inr ds, s1)"
    and rest: "(if upper (eo_status od) \<in> {''NEW'', ''PARTIALLY_FILLED'', ''FILLED''} then eff_ret (keep_order od (add_diffs ds acc))
          else query_order v od (add_diffs ds acc)) s1 = (Inr acc', s')"
    unfolding check_local_order_def by (simp only: option.case eff_bind_Inr) blast
  have s1: "loop_ok ps (od # rest) acc (rc_ledger s1)"
    by (rule kept_Inr[OF keeps_check_open_order(2)[OF loop_ok_closed] c assms(2)])
  then show ?thesis
    using rest loop_ok_keep[OF s1] query_order_loop[of v od "add_diffs ds acc" s1 acc' s' ps rest]
    by (auto split: if_splits)
qed

lemma check_local_orders_loop:
  assumes "check_local_orders v by_id by_client ods acc s = (Inr acc', s')" "loop_ok ps ods acc (rc_ledger s)"
  shows "loop_ok ps [] acc' (rc_ledger s')"
  using assms
proof (induction ods arbitrary: acc s)
  case (Cons od ods)
  from Cons.prems(1) obtain acc1 s1 where "check_local_order v by_id by_client od acc s = (Inr acc1, s1)"
    "check_local_orders v by_id by_client ods acc1 s1 = (Inr acc', s')" by (auto simp: eff_bind_Inr)
  then show ?case using Cons.IH check_local_order_loop[OF _ Cons.prems(2)] by blast
qed simp

section \<open>Following the positions\<close>

text \<open>What the ledger holds of one symbol; the comparison reads nothing else of it.\<close>

definition symbol_positions :: "string \<Rightarrow> InMemoryLedger \<Rightarrow> ExchangePosition list" where
  "symbol_positions sy l = filter (\<lambda>p. upper (ep_symbol p) = sy) (positions l)"

lemma replace_first_other:
  "replace_first q ps = Some (old, ps') \<Longrightarrow> upper (ep_symbol q) \<noteq> sy \<Longrightarrow>
   filter (\<lambda>p. upper (ep_symbol p) = sy) ps' = filter (\<lambda>p. upper (ep_symbol p) = sy) ps"
  by (induction ps arbitrary: ps') (auto simp: position_key_def split: if_splits)

lemma upsert_position_other:
  assumes "upsert_position raw l = Inr l'" "to_exchange_position raw = Inr q" "upper (ep_symbol q) \<noteq> sy"
  shows "symbol_positions sy l' = symbol_positions sy l"
  using assms(1)
proof (cases rule: upsert_position_Inr)
  case (1 q')
  then have "q' = q" using assms(2) by simp
  with 1(2) assms(3) show ?thesis
    by (auto simp: symbol_positions_def split: option.splits dest: replace_first_other)
qed

lemma as_fields_Inr: "as_fields j = Inr d \<longleftrightarrow> j = JObject d"
  by (cases j) (simp_all add: as_fields_def)

lemma present_symbol: "\<not> json_missing (json_get d ''symbol'') \<Longrightarrow> symbol_text d = py_str (json_get d ''symbol'')"
  by (auto simp: symbol_text_def json_get_def json_get_or_def json_missing_def split: option.splits)

lemma position_of_object_symbol:
  assumes "position_of_object d = Inr q"
  shows "ep_symbol q = upper (symbol_text d)"
proof -
  have ne: "\<not> list_ex (\<lambda>f. json_missing (json_get d f)) [''symbol'', ''positionAmt'']"
    using assms by (auto simp: position_of_object_def split: if_splits)
  then have present: "\<not> json_missing (json_get d ''symbol'')" by simp
  have "ep_symbol q = upper (py_str (json_get d ''symbol''))"
    using assms[unfolded position_of_object_def Let_def if_not_P[OF ne]]
    by (simp only: res_bind_eq_Inr) (elim exE conjE, simp only: sum.inject, auto)
  then show ?thesis by (simp add: present_symbol[OF present])
qed

lemma clear_positions_other: "upper sy' \<noteq> sy \<Longrightarrow> symbol_positions sy (clear_positions_for_symbol sy' l) = symbol_positions sy l"
  by (auto simp: symbol_positions_def clear_positions_for_symbol_def intro: filter_cong)

lemma seed_positions:
  assumes "eff_each (\<lambda>p. eff_bind (eff_lift id (as_fields p)) (\<lambda>d.
         if upper (symbol_text d) \<in> S then on_ledger_res (upsert_position (Raw p)) else eff_ret ())) ps s = (Inr u, s')"
  shows "orders (rc_ledger s') = orders (rc_ledger s) \<and> fills (rc_ledger s') = fills (rc_ledger s)
    \<and> (\<forall>sy. sy \<notin> S \<longrightarrow> symbol_positions sy (rc_ledger s') = symbol_positions sy (rc_ledger s))"
  using assms
proof (induction ps arbitrary: s)
  case (Cons p ps)
  from Cons.prems obtain d x s1 where p: "p = JObject d"
    and one: "(if upper (symbol_text d) \<in> S then on_ledger_res (upsert_position (Raw p)) else eff_ret ()) s = (Inr x, s1)"
    and rest: "eff_each (\<lambda>p. eff_bind (eff_lift id (as_fields p)) (\<lambda>d.
         if upper (symbol_text d) \<in> S then on_ledger_res (upsert_position (Raw p)) else eff_ret ())) ps s1 = (Inr u, s')"
    unfolding eff_each.simps by (auto simp only: eff_bind_Inr eff_lift_Inr as_fields_Inr)
  have "orders (rc_ledger s1) = orders (rc_ledger s) \<and> fills (rc_ledger s1) = fills (rc_ledger s)
    \<and> (\<forall>sy. sy \<notin> S \<longrightarrow> symbol_positions sy (rc_ledger s1) = symbol_positions sy (rc_ledger s))"
  proof (cases "upper (symbol_text d) \<in> S")
    case True
    with one obtain l where l: "upsert_position (Raw p) (rc_ledger s) = Inr l" "rc_ledger s1 = l" by (auto simp: eff_Inr)
    moreover obtain q where q: "to_exchange_position (Raw p) = Inr q" using l(1) by (rule upsert_position_Inr)
    moreover have "upper (ep_symbol q) = upper (symbol_text d)"
      using q p position_of_object_symbol[of d q] by (simp add: to_exchange_position_def)
    ultimately have "\<forall>sy. sy \<notin> S \<longrightarrow> symbol_positions sy (rc_ledger s1) = symbol_positions sy (rc_ledger s)"
      using True upsert_position_other[OF l(1) q] by metis
    with position_frame(1)[OF l(1)] l(2) show ?thesis by simp
  qed (use one in auto)
  then show ?case using Cons.IH[OF rest] by auto
qed simp

lemma clear_reductions:
  assumes "eff_each (\<lambda>sy. if c sy then eff_ret () else on_ledger (clear_positions_for_symbol sy)) S s = (Inr u, s')"
  shows "orders (rc_ledger s') = orders (rc_ledger s) \<and> fills (rc_ledger s') = fills (rc_ledger s)
    \<and> (\<forall>sy. sy \<notin> upper ` set S \<longrightarrow> symbol_positions sy (rc_ledger s') = symbol_positions sy (rc_ledger s))"
  using assms
proof (induction S arbitrary: s)
  case (Cons x S)
  from Cons.prems obtain s1 where one: "(if c x then eff_ret () else on_ledger (clear_positions_for_symbol x)) s = (Inr (), s1)"
    and rest: "eff_each (\<lambda>sy. if c sy then eff_ret () else on_ledger (clear_positions_for_symbol sy)) S s1 = (Inr u, s')"
    by (auto simp: eff_bind_Inr)
  from one have "orders (rc_ledger s1) = orders (rc_ledger s) \<and> fills (rc_ledger s1) = fills (rc_ledger s)
    \<and> (\<forall>sy. sy \<noteq> upper x \<longrightarrow> symbol_positions sy (rc_ledger s1) = symbol_positions sy (rc_ledger s))"
    by (auto simp: eff_Inr frame clear_positions_other split: if_splits)
  then show ?case using Cons.IH[OF rest] by auto
qed simp

lemma update_fold_lookup:
  "map_of (foldl (\<lambda>m p. AList.update (k p) (q p) m) m0 xs) key
   = map_of (foldl (\<lambda>m p. AList.update (k p) (q p) m) m0 (filter (\<lambda>p. k p = key) xs)) key"
proof (induction xs rule: rev_induct)
  case (snoc x xs)
  show ?case using snoc by (simp add: update_conv')
qed simp

text \<open>The entry of a position in the map of active positions is found among the positions of its symbol.\<close>

lemma local_position_lookup:
  assumes "symbol_positions (fst key) l = symbol_positions (fst key) l'"
  shows "map_of (local_position_map l) key = map_of (local_position_map l') key"
proof -
  define k where "k = (\<lambda>p :: ExchangePosition. (upper (ep_symbol p), position_side_value (ep_position_side p)))"
  have "filter (\<lambda>p. k p = key) (filter (\<lambda>p. ep_quantity p \<noteq> 0) (positions l))
      = filter (\<lambda>p. k p = key) (filter (\<lambda>p. ep_quantity p \<noteq> 0) (symbol_positions (fst key) l))" for l
    by (auto simp: symbol_positions_def k_def intro!: filter_cong)
  then have "map_of (local_position_map l) key = map_of (foldl (\<lambda>m p. AList.update (k p) (ep_quantity p) m) []
      (filter (\<lambda>p. k p = key) (filter (\<lambda>p. ep_quantity p \<noteq> 0) (symbol_positions (fst key) l)))) key" for l
    using update_fold_lookup[of k ep_quantity "[]" "filter (\<lambda>p. ep_quantity p \<noteq> 0) (positions l)" key]
    unfolding local_position_map_def k_def by simp
  then show ?thesis using assms by simp
qed

text \<open>No difference means that the two maps have the same entries.\<close>

lemma position_diffs_Nil:
  assumes "position_diffs local exchange = []" "distinct (map fst local)" "distinct (map fst exchange)"
  shows "map_of local key = map_of exchange key"
proof (cases "map_of local key")
  case None
  have "map_of exchange key = None"
  proof (rule ccontr)
    assume "map_of exchange key \<noteq> None"
    then obtain x where "(key, x) \<in> set exchange" using map_of_SomeD by fastforce
    then show False using assms(1) None by (fastforce simp: position_diffs_def)
  qed
  with None show ?thesis by simp
next
  case (Some a)
  then have "(key, a) \<in> set local" by (rule map_of_SomeD)
  then have "(case map_of exchange key of
         None \<Rightarrow> [diff LOCAL_POSITION_MISSING_ON_EXCHANGE (fst key) (Some (VDecimal a)) (Some (VText ''0''))]
       | Some x \<Rightarrow> if x \<noteq> a then [diff POSITION_QTY_MISMATCH (fst key) (Some (VDecimal a)) (Some (VDecimal x))] else []) = []"
    using assms(1) by (fastforce simp: position_diffs_def)
  then show ?thesis using Some by (auto split: option.splits if_splits)
qed

lemma distinct_update_fold: "distinct (map fst m0) \<Longrightarrow> distinct (map fst (foldl (\<lambda>m p. AList.update (k p) (q p) m) m0 xs))"
  by (induction xs arbitrary: m0) (simp_all add: distinct_update)

lemma position_maps_distinct:
  "distinct (map fst (local_position_map l))" "active_position_map ps = Inr m \<Longrightarrow> distinct (map fst m)"
proof -
  show "distinct (map fst (local_position_map l))" by (simp add: local_position_map_def distinct_update_fold)
  assume "active_position_map ps = Inr m"
  then show "distinct (map fst m)"
    unfolding active_position_map_def
    by (rule res_fold_invariant[where P = "\<lambda>m. distinct (map fst m)"])
      (auto simp: active_position_entry_def res_bind_eq_Inr Let_def distinct_update split: if_splits)
qed

lemma ledger_ok_closed [simp]: "fill_closed ledger_ok" "order_closed ledger_ok" "position_closed ledger_ok"
proof -
  show "fill_closed ledger_ok" by (simp add: fill_closed_def ledger_ok_append_fill)
  have "ledger_ok (upsert_order od l)" if "ledger_ok l" for od l
    using that by (rule ledger_ok_orders) (simp_all add: upsert_order_def)
  then show "order_closed ledger_ok" by (simp add: order_closed_def)
  show "position_closed ledger_ok"
    using position_frame(1) by (fastforce simp: position_closed_def ledger_ok_def clear_positions_for_symbol_def)
qed

text \<open>A comparison without differences: every executed order has fills that add up, the positions of
  ledger and exchange are equal, and the positions of a symbol changed only if an order of it was
  found executed.\<close>

definition fills_add_up :: "InMemoryLedger \<Rightarrow> bool" where
  "fills_add_up l = (\<forall>od \<in> set (get_all_orders l).
     (upper (eo_status od) = ''FILLED'' \<longrightarrow> quantity_sum (linked_fills (fills l) od) = eo_quantity od)
     \<and> (upper (eo_status od) = ''PARTIALLY_FILLED'' \<longrightarrow>
          0 < quantity_sum (linked_fills (fills l) od) \<and> quantity_sum (linked_fills (fills l) od) \<le> eo_quantity od))"

lemma fill_diffs_Nil:
  assumes "fill_diffs fs od = []"
  shows "upper (eo_status od) = ''FILLED'' \<Longrightarrow> quantity_sum (linked_fills fs od) = eo_quantity od"
    "upper (eo_status od) = ''PARTIALLY_FILLED'' \<Longrightarrow>
       0 < quantity_sum (linked_fills fs od) \<and> quantity_sum (linked_fills fs od) \<le> eo_quantity od"
  using assms by (auto simp: fill_diffs_def Let_def split: if_splits)

lemma collect_diffs_Nil:
  assumes "collect_diffs v ps os s = (Inr [], s')" "ledger_ok (rc_ledger s)"
  obtains m S where "active_position_map ps = Inr m"
    "\<And>key. map_of (local_position_map (rc_ledger s')) key = map_of m key"
    "fills_add_up (rc_ledger s')" "ledger_ok (rc_ledger s')"
    "\<And>sy. sy \<in> S \<Longrightarrow> \<exists>od \<in> set (get_all_orders (rc_ledger s')). upper (eo_symbol od) = sy \<and> executed od"
    "\<And>sy. sy \<notin> S \<Longrightarrow> symbol_positions sy (rc_ledger s') = symbol_positions sy (rc_ledger s)"
proof -
  from assms(1) obtain fs acc s1 unknown s2 m s3 u2 u3 where
      loop: "check_local_orders v (index_orders (\<lambda>d. py_str (json_get d ''orderId'')) fs)
         (index_orders (\<lambda>d. py_str (json_get d ''clientOrderId'')) (filter (\<lambda>d. json_truthy (json_get d ''clientOrderId'')) fs))
         (get_all_orders (rc_ledger s)) \<lparr>da_diffs = rc_unattributed s, da_positions = {}, da_reductions = [], da_orders = []\<rparr> s
         = (Inr acc, s1)"
    and seed: "eff_each (\<lambda>p. eff_bind (eff_lift id (as_fields p)) (\<lambda>d.
         if upper (symbol_text d) \<in> da_positions acc then on_ledger_res (upsert_position (Raw p)) else eff_ret ())) ps s1 = (Inr u2, s2)"
    and m: "active_position_map ps = Inr m"
    and clear: "eff_each (\<lambda>symbol. if list_ex (\<lambda>(key, _). fst key = symbol) m then eff_ret ()
         else on_ledger (clear_positions_for_symbol symbol)) (da_reductions acc) s2 = (Inr u3, s3)"
    and s': "s' = s3" and nil: "position_diffs (local_position_map (rc_ledger s3)) m = []"
      "concat (map (fill_diffs (fills (rc_ledger s3))) (da_orders acc)) = []"
    unfolding collect_diffs_def Let_def 
    by (simp only: eff_bind_gets eff_bind_Inr eff_lift_Inr eff_simps prod.case prod.inject sum.inject append_is_Nil_conv)
      (elim exE conjE, hypsubst, rule that, assumption+, rule refl, assumption+)
  have "loop_ok (positions (rc_ledger s)) (get_all_orders (rc_ledger s))
      \<lparr>da_diffs = rc_unattributed s, da_positions = {}, da_reductions = [], da_orders = []\<rparr> (rc_ledger s)"
    using assms(2) by (simp add: loop_ok_def orders_are_def)
  from check_local_orders_loop[OF loop this] have lp: "orders_are (da_orders acc) (rc_ledger s1)" "positions (rc_ledger s1) = positions (rc_ledger s)"
    "set (da_reductions acc) \<subseteq> da_positions acc"
    "\<forall>sy \<in> da_positions acc. \<exists>od \<in> set (da_orders acc). upper (eo_symbol od) = sy \<and> executed od"
    by (simp_all add: loop_ok_def)
  note f2 = seed_positions[OF seed] and f3 = clear_reductions[OF clear]
  have all: "get_all_orders (rc_ledger s') = da_orders acc" using lp(1) f2 f3 by (simp add: s' get_all_orders_def orders_are_def)
  have "upper sy = sy" if "sy \<in> da_positions acc" for sy
  proof -
    from lp(4) that obtain od :: ExecutionOrder where "upper (eo_symbol od) = sy" by blast
    then show ?thesis using upper_idem[of "eo_symbol od"] by simp
  qed
  with lp(3) have up: "upper ` set (da_reductions acc) \<subseteq> da_positions acc" by auto
  show ?thesis
  proof (rule that[OF m])
    show "map_of (local_position_map (rc_ledger s')) key = map_of m key" for key
      unfolding s' by (rule position_diffs_Nil[OF nil(1) position_maps_distinct(1) position_maps_distinct(2)[OF m]])
    show "fills_add_up (rc_ledger s')"
    proof -
      have "fill_diffs (fills (rc_ledger s3)) od = []" if "od \<in> set (da_orders acc)" for od using nil(2) that by simp
      from fill_diffs_Nil[OF this] show ?thesis unfolding fills_add_up_def all unfolding s' by blast
    qed
    show "ledger_ok (rc_ledger s')"
      by (rule kept_Inr[OF keeps_collect_diffs[OF ledger_ok_closed] assms])
    show "\<exists>od \<in> set (get_all_orders (rc_ledger s')). upper (eo_symbol od) = sy \<and> executed od" if "sy \<in> da_positions acc" for sy
      using lp(4) that all by simp
    show "symbol_positions sy (rc_ledger s') = symbol_positions sy (rc_ledger s)" if "sy \<notin> da_positions acc" for sy
    proof -
      have "symbol_positions sy (rc_ledger s1) = symbol_positions sy (rc_ledger s)" using lp(2) by (simp add: symbol_positions_def)
      moreover have "symbol_positions sy (rc_ledger s2) = symbol_positions sy (rc_ledger s1)" using f2 that by blast
      moreover have "symbol_positions sy (rc_ledger s3) = symbol_positions sy (rc_ledger s2)" using f3 that up by blast
      ultimately show ?thesis by (simp only: s')
    qed
  qed
qed

section \<open>The runs\<close>

lemma recover_and_compare_Nil:
  assumes "recover_and_compare v ps active os s = (Inr [], s')" "ledger_ok (rc_ledger s)"
  obtains m S where "active_position_map ps = Inr m" "fills_add_up (rc_ledger s')"
    "\<And>key. fst key \<notin> S \<Longrightarrow> map_of (local_position_map (rc_ledger s)) key = map_of m key"
    "\<And>sy. sy \<in> S \<Longrightarrow> \<exists>od \<in> set (get_all_orders (rc_ledger s')). upper (eo_symbol od) = sy \<and> executed od"
proof -
  from assms(1) obtain syms1 syms2 s1 s2 u1 u2 where
      resolve: "eff_each (resolve_order_id v) (get_all_orders (rc_ledger s)) s = (Inr u1, s1)"
    and trades: "recover_recent_trades v (syms1 \<union> syms2 \<union> (eo_symbol ` set (get_all_orders (rc_ledger s)) - {[]})) s1 = (Inr u2, s2)"
    and compare: "collect_diffs v ps os s2 = (Inr [], s')"
    unfolding recover_and_compare_def
    by (simp only: eff_bind_gets eff_bind_Inr eff_lift_Inr) (elim exE conjE, hypsubst, rule that, assumption+)
  define P where "P = (\<lambda>l. ledger_ok l \<and> positions l = positions (rc_ledger s))"
  have closed: "fill_closed P" "order_closed P"
    using ledger_ok_closed(1,2) unfolding P_def fill_closed_def order_closed_def by (simp_all add: frame)
  have "eff_keeps (ledger_inv P) (eff_each (resolve_order_id v) (get_all_orders (rc_ledger s)))"
    by (intro eff_rules closed)
  from kept_Inr[OF this resolve] assms(2) have "P (rc_ledger s1)" by (simp add: P_def)
  from kept_Inr[OF keeps_recover_recent_trades[OF closed(1)] trades this] have s2: "P (rc_ledger s2)" .
  then have same: "symbol_positions sy (rc_ledger s2) = symbol_positions sy (rc_ledger s)" for sy
    by (simp add: P_def symbol_positions_def)
  from s2 have "ledger_ok (rc_ledger s2)" by (simp add: P_def)
  from compare this show ?thesis
  proof (rule collect_diffs_Nil)
    fix m S
    assume m: "active_position_map ps = Inr m" and eq: "\<And>key. map_of (local_position_map (rc_ledger s')) key = map_of m key"
      and f: "fills_add_up (rc_ledger s')"
      and ex: "\<And>sy. sy \<in> S \<Longrightarrow> \<exists>od \<in> set (get_all_orders (rc_ledger s')). upper (eo_symbol od) = sy \<and> executed od"
      and un: "\<And>sy. sy \<notin> S \<Longrightarrow> symbol_positions sy (rc_ledger s') = symbol_positions sy (rc_ledger s2)"
    show ?thesis
    proof (rule that[OF m f _ ex])
      fix key :: "string \<times> string"
      assume "fst key \<notin> S"
      then have "symbol_positions (fst key) (rc_ledger s) = symbol_positions (fst key) (rc_ledger s')" using un same by simp
      from local_position_lookup[OF this] show "map_of (local_position_map (rc_ledger s)) key = map_of m key"
        by (simp only: eq)
    qed
  qed
qed

lemma fetch_and_validate_Inr:
  assumes "fetch_and_validate v s = (Inr (ps, os, snap), s')"
  shows "rc_ledger s' = rc_ledger s"
    "\<exists>account daily. build_account_snapshot account ps (environment_label (vn_env v)) daily None ''ETHUSDC'' (Aware (vn_clock v 2)) = Inr snap"
proof -
  show "rc_ledger s' = rc_ledger s" by (rule kept_Inr[OF keeps_fetch_and_validate assms refl, THEN sym])
  show "\<exists>account daily. build_account_snapshot account ps (environment_label (vn_env v)) daily None ''ETHUSDC'' (Aware (vn_clock v 2)) = Inr snap"
    using assms unfolding fetch_and_validate_def
    by (simp only: eff_bind_gets eff_bind_Inr eff_lift_Inr eff_simps prod.inject sum.inject split_paired_Ex prod.case)
      (elim exE conjE, hypsubst, intro exI, assumption)
qed

text \<open>The facts behind the first property, which the execution adapter uses too.\<close>

lemma in_sync_facts:
  assumes "reconcile v s = (''IN_SYNC'', s')" "initialized (rc_ledger s)" "ledger_ok (rc_ledger s)"
  shows "\<exists>snap ps m. rc_diffs s' = [] \<and> account_snapshot (rc_ledger s') = Some snap
    \<and> (\<forall>t age. snapshot_fresh (environment_label (vn_env v)) t age (Some snap) = is_fresh t age (Some (Aware (vn_clock v 2))))
    \<and> lg_wallet_balance (rc_ledger s') = wallet_balance snap \<and> lg_margin_balance (rc_ledger s') = margin_balance snap
    \<and> res_map to_exchange_position (map Raw ps) = Inr (positions (rc_ledger s'))
    \<and> fills_add_up (rc_ledger s')
    \<and> active_position_map ps = Inr m
    \<and> (\<forall>key. map_of (local_position_map (rc_ledger s)) key \<noteq> map_of m key \<longrightarrow>
         (\<exists>od \<in> set (get_all_orders (rc_ledger s')). upper (eo_symbol od) = fst key \<and> executed od))"
proof -
  from assms(1,2) obtain u where body: "reconcile_body v (begin_run s) = (Inr u, s')" and status: "rc_status s' = ''IN_SYNC''"
    by (auto simp: reconcile_def Let_def on_failure_def set_status_def split: prod.splits sum.splits if_splits)
  from body obtain ps os snap s1 active ds s2 where
      fetch: "fetch_and_validate v (begin_run s) = (Inr (ps, os, snap), s1)"
    and cmp: "recover_and_compare v ps active os s1 = (Inr ds, s2)"
    and rest: "(if ds \<noteq> [] then eff_modify (set_status ''MISMATCH'' ds)
     else
       eff_bind (on_ledger_res (replace_positions (map Raw ps) False)) (\<lambda>_.
       eff_bind (on_ledger (update_balances (wallet_balance snap) (margin_balance snap))) (\<lambda>_.
       eff_bind (on_ledger (set_account_snapshot (Some snap))) (\<lambda>_.
       eff_modify (set_status ''IN_SYNC'' []))))) s2 = (Inr u, s')"
    unfolding reconcile_body_def
    by (simp only: eff_bind_Inr eff_lift_Inr split_paired_Ex prod.case) (elim exE conjE, hypsubst, rule that, assumption+)
  have nil: "ds = []" using rest status by (auto simp: set_status_def split: if_splits)
  note f = fetch_and_validate_Inr[OF fetch]
  have l1: "rc_ledger s1 = rc_ledger s" using f(1) by (simp add: begin_run_def set_status_def)
  from rest nil obtain l where l: "replace_positions (map Raw ps) False (rc_ledger s2) = Inr l"
    and s': "s' = set_status ''IN_SYNC'' [] (s2\<lparr>rc_ledger := set_account_snapshot (Some snap) (update_balances (wallet_balance snap) (margin_balance snap) l)\<rparr>)"
    by (auto simp: eff_Inr)
  have l': "orders (rc_ledger s') = orders (rc_ledger s2)" "fills (rc_ledger s') = fills (rc_ledger s2)"
    using position_frame(2)[OF l] by (simp_all add: s' set_status_def set_account_snapshot_def update_balances_def)
  have pos: "res_map to_exchange_position (map Raw ps) = Inr (positions (rc_ledger s'))"
    using l by (auto simp: replace_positions_def res_bind_eq_Inr Let_def s' set_status_def set_account_snapshot_def update_balances_def)
  obtain m S where m: "active_position_map ps = Inr m" "fills_add_up (rc_ledger s2)"
    "\<And>key. fst key \<notin> S \<Longrightarrow> map_of (local_position_map (rc_ledger s)) key = map_of m key"
    "\<And>sy. sy \<in> S \<Longrightarrow> \<exists>od \<in> set (get_all_orders (rc_ledger s2)). upper (eo_symbol od) = sy \<and> executed od"
    using recover_and_compare_Nil[OF cmp[unfolded nil]] assms(3) l1 by metis
  have "fills_add_up (rc_ledger s')" using m(2) l' by (simp add: fills_add_up_def get_all_orders_def)
  moreover have "\<exists>od \<in> set (get_all_orders (rc_ledger s')). upper (eo_symbol od) = fst key \<and> executed od"
    if "map_of (local_position_map (rc_ledger s)) key \<noteq> map_of m key" for key
    using m(3,4) that l'(1) by (fastforce simp: get_all_orders_def)
  moreover have "\<forall>t age. snapshot_fresh (environment_label (vn_env v)) t age (Some snap) = is_fresh t age (Some (Aware (vn_clock v 2)))"
    using f(2) built_snapshot_fresh by blast
  ultimately show ?thesis
    using m(1) pos by (intro exI[of _ snap] exI[of _ ps] exI[of _ m])
      (simp add: s' set_status_def set_account_snapshot_def update_balances_def)
qed

section \<open>Properties\<close>


text \<open>The trust in the account that a run which does not end in sync may leave: the old one, or none.\<close>

definition no_more_trust :: "InMemoryLedger \<Rightarrow> InMemoryLedger \<Rightarrow> bool" where
  "no_more_trust l0 l \<longleftrightarrow> initialized l = initialized l0 \<and> account_snapshot l \<in> {None, account_snapshot l0}
     \<and> lg_wallet_balance l = lg_wallet_balance l0 \<and> lg_margin_balance l = lg_margin_balance l0"

lemma no_more_trust_frame: "no_more_trust l0 l \<Longrightarrow> trust l' = trust l \<Longrightarrow> no_more_trust l0 l'"
  by (auto simp: no_more_trust_def trust_def)

lemma no_more_trust_closed [simp]:
  "fill_closed (no_more_trust l0)" "order_closed (no_more_trust l0)" "position_closed (no_more_trust l0)"
  by (auto simp: fill_closed_def order_closed_def position_closed_def frame intro: no_more_trust_frame)

lemma keeps_replace_positions: "eff_keeps (ledger_inv (no_more_trust l0)) (on_ledger_res (replace_positions raws False))"
  by (rule keeps_on_ledger_res) (auto simp: replace_positions_def res_bind_eq_Inr Let_def no_more_trust_def)

lemma keeps_raw_orders: "eff_keeps (ledger_inv (no_more_trust l0)) (on_ledger_res (upsert_raw_exchange_order d now))"
  by (rule keeps_on_ledger_res) (auto simp: upsert_raw_exchange_order_def res_bind_eq_Inr notify_def no_more_trust_def)

definition refused :: "InMemoryLedger \<Rightarrow> 'w ReconState \<Rightarrow> bool" where
  "refused l0 s \<longleftrightarrow> rc_status s \<in> {''MISMATCH'', ''UNKNOWN''} \<and> rc_diffs s \<noteq> [] \<and> no_more_trust l0 (rc_ledger s)"

definition settled :: "InMemoryLedger \<Rightarrow> bool \<Rightarrow> 'w ReconState \<Rightarrow> bool" where
  "settled l0 b s = (if b then rc_status s = ''IN_SYNC'' else refused l0 s)"

lemma eff_valid_if:
  "(c \<Longrightarrow> eff_valid P m Q E) \<Longrightarrow> (\<not> c \<Longrightarrow> eff_valid P m' Q E) \<Longrightarrow> eff_valid P (if c then m else m') Q E"
  by simp

lemma reconcile_body_outcome:
  "eff_valid (ledger_inv (no_more_trust l0)) (reconcile_body v)
     (\<lambda>_ s. rc_status s = ''IN_SYNC'' \<or> refused l0 s) (\<lambda>_. ledger_inv (no_more_trust l0))"
proof -
  have mismatch: "eff_valid (ledger_inv (no_more_trust l0)) (eff_modify (set_status ''MISMATCH'' ds))
     (\<lambda>_ s. rc_status s = ''IN_SYNC'' \<or> refused l0 s) (\<lambda>_. ledger_inv (no_more_trust l0))" if "ds \<noteq> []" for ds
    using that by (simp add: eff_valid_def refused_def set_status_def)
  have adopt: "eff_valid (ledger_inv (no_more_trust l0)) (eff_bind (on_ledger f) (\<lambda>_. eff_bind (on_ledger g) (\<lambda>_. eff_modify (set_status ''IN_SYNC'' []))))
     (\<lambda>_ s. rc_status s = ''IN_SYNC'' \<or> refused l0 s) (\<lambda>_. ledger_inv (no_more_trust l0))" for f g
    by (simp add: eff_valid_def on_ledger_def set_status_def)
  show ?thesis
    unfolding reconcile_body_def split_beta
    by (intro eff_valid_bind[OF keeps_fetch_and_validate] eff_valid_bind[OF eff_keeps_lift]
        eff_valid_bind[OF keeps_recover_and_compare] no_more_trust_closed)
      (auto intro: mismatch eff_valid_bind[OF keeps_replace_positions adopt])
qed

lemma bootstrap_body_outcome:
  "eff_valid (ledger_inv (no_more_trust l0)) (bootstrap_body v)
     (settled l0) (\<lambda>_. ledger_inv (no_more_trust l0))"
proof -
  have stop: "eff_valid (ledger_inv (no_more_trust l0)) (eff_bind (eff_modify (set_status st ds)) (\<lambda>_. eff_ret False))
     (settled l0) (\<lambda>_. ledger_inv (no_more_trust l0))"
    if "st \<in> {''MISMATCH'', ''UNKNOWN''}" "ds \<noteq> []" for st ds
    using that by (auto simp: eff_valid_def refused_def set_status_def settled_def)
  have adopt: "eff_valid (ledger_inv (no_more_trust l0)) (eff_bind (on_ledger f) (\<lambda>_. eff_bind (on_ledger g) (\<lambda>_.
       eff_bind (eff_modify (set_status ''IN_SYNC'' [])) (\<lambda>_. eff_ret True))))
     (settled l0) (\<lambda>_. ledger_inv (no_more_trust l0))" for f g
    by (simp add: eff_valid_def on_ledger_def set_status_def settled_def)
  have forget: "eff_keeps (ledger_inv (no_more_trust l0)) (on_ledger (set_account_snapshot None))"
    by (rule keeps_on_ledger) (simp add: no_more_trust_def set_account_snapshot_def)
  have store: "eff_keeps (ledger_inv (no_more_trust l0)) (eff_each (\<lambda>(i, j). eff_bind (eff_lift id (as_fields j)) (\<lambda>d.
       on_ledger_res (upsert_raw_exchange_order d (Aware (vn_clock v (3 + i)))))) xs)" for xs
    by (auto intro!: eff_keeps_each eff_keeps_bind eff_keeps_lift keeps_raw_orders)
  show ?thesis
    unfolding bootstrap_body_def bootstrap_rest_def split_beta
    by (intro eff_valid_bind[OF keeps_fetch_and_validate] eff_valid_bind[OF eff_keeps_lift] eff_valid_bind[OF eff_keeps_gets]
        eff_valid_bind[OF forget] eff_valid_if eff_valid_bind[OF keeps_recover_and_compare] eff_valid_bind[OF keeps_replace_positions]
        eff_valid_bind[OF store[unfolded split_beta]] adopt stop no_more_trust_closed) simp_all
qed

text \<open>
  C18: Reconciliation fails closed. A run ends with the status \<open>IN_SYNC\<close>, \<open>MISMATCH\<close> or \<open>UNKNOWN\<close>,
  whatever the exchange answers. In the last two cases it reports a difference, leaves no account
  snapshot but the one that was there before, keeps the balances, and does not mark the ledger
  as initialised.
\<close>

theorem reconcile_fails_closed:
  fixes s :: "'w ReconState"
  shows "case reconcile v s of (status, s') \<Rightarrow> rc_status s' = status
     \<and> (if status = ''IN_SYNC'' then True
        else status \<in> {''MISMATCH'', ''UNKNOWN''} \<and> rc_diffs s' \<noteq> []
          \<and> account_snapshot (rc_ledger s') \<in> {None, account_snapshot (rc_ledger s)}
          \<and> initialized (rc_ledger s') = initialized (rc_ledger s)
          \<and> lg_wallet_balance (rc_ledger s') = lg_wallet_balance (rc_ledger s)
          \<and> lg_margin_balance (rc_ledger s') = lg_margin_balance (rc_ledger s))"
proof -
  let ?l = "rc_ledger s"
  have start: "no_more_trust ?l (rc_ledger (begin_run s))" "no_more_trust ?l (rc_ledger (begin_run (s\<lparr>rc_authentication_failed := False\<rparr>)))"
    by (simp_all add: begin_run_def set_status_def no_more_trust_def)
  have failed: "refused ?l (on_failure c c' e s1)" if "no_more_trust ?l (rc_ledger s1)" for c c' e and s1 :: "'w ReconState"
    using that by (simp add: on_failure_def refused_def set_status_def)
  have "rc_status (snd (reconcile v s)) = ''IN_SYNC'' \<or> refused ?l (snd (reconcile v s))"
  proof (cases "initialized ?l")
    case True
    show ?thesis
    proof (cases "reconcile_body v (begin_run s)")
      case (Pair r s1)
      then show ?thesis
        using True eff_valid_Inr[OF reconcile_body_outcome start(1)] eff_valid_Inl[OF reconcile_body_outcome start(1)] failed
        by (cases r) (auto simp: reconcile_def Let_def)
    qed
  next
    case False
    show ?thesis
    proof (cases "bootstrap_body v (begin_run (s\<lparr>rc_authentication_failed := False\<rparr>))")
      case (Pair r s1)
      then show ?thesis
        using False eff_valid_Inr[OF bootstrap_body_outcome start(2)] eff_valid_Inl[OF bootstrap_body_outcome start(2)] failed
        by (cases r) (auto simp: reconcile_def bootstrap_def settled_def Let_def, metis)
    qed
  qed
  moreover have "rc_status (snd (reconcile v s)) = fst (reconcile v s)" by (simp add: reconcile_def Let_def)
  ultimately show ?thesis by (auto simp: refused_def no_more_trust_def split_beta)
qed

lemma active_positions_Nil: "active_positions ps = Inr [] \<Longrightarrow> p \<in> set ps \<Longrightarrow> position_is_active p = Inr False"
proof (induction ps)
  case (Cons q ps)
  obtain b bs where b: "position_is_active q = Inr b" "res_map position_is_active ps = Inr bs"
    using Cons.prems(1) by (auto simp: active_positions_def res_bind_eq_Inr)
  have "\<not> b" "active_positions ps = Inr []"
    using Cons.prems(1) b by (auto simp: active_positions_def split: if_splits)
  then show ?case using Cons b by auto
qed simp

text \<open>
  C19: The first reconciliation adopts nothing of an exchange account that the empty ledger does not
  own. When the answers show an active position or an open order and the ledger holds no order, fill
  or active position, the bootstrap ends as \<open>UNKNOWN\<close>; whenever it succeeds from such a ledger, the
  account was flat and without open orders.
\<close>

theorem bootstrap_adopts_only_flat_accounts:
  assumes "bootstrap v s = (True, s')" "\<not> has_exchange_state (rc_ledger s)"
  shows "\<exists>account ps s1. fetch_reconciliation_snapshot_inputs v (begin_run s) = (Inr (account, ps, []), s1)
    \<and> (\<forall>p \<in> set ps. \<exists>d. p = JObject d \<and> position_amount d = Inr 0)
    \<and> rc_status s' = ''IN_SYNC'' \<and> initialized (rc_ledger s')"
proof -
  from assms(1) have "bootstrap_body v (begin_run s) = (Inr True, s')"
    by (auto simp: bootstrap_def split: prod.splits sum.splits)
  then obtain ps os snap s1 active where
      fetch: "fetch_and_validate v (begin_run s) = (Inr (ps, os, snap), s1)"
    and active: "active_positions ps = Inr active"
    and rest: "bootstrap_rest v ps os snap active (has_exchange_state (rc_ledger s1)) (s1\<lparr>rc_ledger := set_account_snapshot None (rc_ledger s1)\<rparr>) = (Inr True, s')"
    unfolding bootstrap_body_def
    by (simp only: eff_bind_gets eff_bind_Inr eff_lift_Inr on_ledger_Inr split_paired_Ex prod.case) (elim exE conjE, hypsubst, rule that, assumption+)
  have "\<not> has_exchange_state (rc_ledger s1)"
    using fetch_and_validate_Inr(1)[OF fetch] assms(2) by (simp add: begin_run_def set_status_def)
  then have flat: "active = []" "os = []" and settled: "rc_status s' = ''IN_SYNC''" "initialized (rc_ledger s')"
    using rest by (auto simp: bootstrap_rest_def eff_Inr set_status_def mark_initialized_def split: if_splits)
  obtain account s2 where "fetch_reconciliation_snapshot_inputs v (begin_run s) = (Inr (account, ps, os), s2)"
    using fetch unfolding fetch_and_validate_def
    by (simp only: eff_bind_gets eff_bind_Inr eff_lift_Inr eff_simps prod.inject sum.inject split_paired_Ex prod.case)
      (elim exE conjE, hypsubst, rule that, assumption)
  moreover have "\<exists>d. p = JObject d \<and> position_amount d = Inr 0" if "p \<in> set ps" for p
    using active_positions_Nil[OF active[unfolded flat] that]
    by (cases p) (auto simp: position_is_active_def res_bind_eq_Inr as_fields_def lift_py_def split: sum.splits)
  ultimately show ?thesis using flat settled by blast
qed


section \<open>Witnesses\<close>

text \<open>An exchange account with one position that the ledger knows, and a flat one.\<close>

definition sample_venue :: "json list \<Rightarrow> unit Venue" where
  "sample_venue ps = \<lparr>vn_env = TESTNET, vn_portfolio_margin = False,
     vn_request = (\<lambda>call w. (case call of GetPositionRisk \<Rightarrow> Inr (JList ps) | GetOpenOrders \<Rightarrow> Inr (JList [])
        | GetAccount \<Rightarrow> Inr sample_account | GetTrades _ \<Rightarrow> Inr (JList []) | _ \<Rightarrow> Inl (RestFailure ''unexpected call''), w)),
     vn_clock = (\<lambda>_. 0)\<rparr>"

definition sample_state :: "InMemoryLedger \<Rightarrow> unit ReconState" where
  "sample_state l = \<lparr>rc_ledger = l, rc_status = ''UNKNOWN'', rc_diffs = [], rc_authentication_failed = False,
     rc_unattributed = [], rc_recovered_trade_ids = {}, rc_window_start = None, rc_window_end = None, rc_world = ()\<rparr>"

definition known_position :: ExchangePosition where
  "known_position = \<lparr>ep_symbol = ''ETHUSDT'', ep_position_side = BOTH, ep_quantity = 1, ep_entry_price = 1,
     ep_mark_price = Some 2, ep_unrealized_pnl = 0, ep_liquidation_price = Some 1, ep_leverage = 1, ep_margin_type = ''cross'', ep_source = ''BINANCE_TESTNET''\<rparr>"

definition known_ledger :: InMemoryLedger where
  "known_ledger = ledger_init\<lparr>positions := [known_position], initialized := True\<rparr>"


lemma sample_raw_position: "\<exists>p. to_exchange_position (Raw (JObject sample_exchange_position)) = Inr p"
  by (simp add: to_exchange_position_def position_of_object_def sample_exchange_position_def json_get_def json_get_or_def json_missing_def
      position_decimal_def position_margin_type_def text_field_def PositionSide_of_def string_eval of_option_def check_def)

lemma sample_position_map: "active_position_map [JObject sample_exchange_position] = Inr [((''ETHUSDT'', ''BOTH''), 1)]"
  by (simp add: active_position_map_def active_position_entry_def as_fields_def lift_py_def sample_fields)
    (simp add: sample_exchange_position_def json_get_def json_missing_def PositionSide_of_def string_eval check_def)

lemma sample_request [simp]:
  "request (sample_venue ps) GetPositionRisk s = (Inr (JList ps), s)" "request (sample_venue ps) GetOpenOrders s = (Inr (JList []), s)"
  "request (sample_venue ps) GetAccount s = (Inr sample_account, s)" "request (sample_venue ps) (GetTrades sy) s = (Inr (JList []), s)"
  by (simp_all add: request_def sample_venue_def)

lemma sample_fetch:
  assumes "build_account_snapshot sample_account ps (environment_label TESTNET)
     \<lparr>dp_realized = None, dp_known = True, dp_asset = ''UNKNOWN'', dp_includes_fees = False,
     dp_includes_funding = False, dp_window_start = rc_window_start s, dp_window_end = rc_window_end s\<rparr> None ''ETHUSDC'' (Aware 0) = Inr snap"
  shows "fetch_and_validate (sample_venue ps) s = (Inr (ps, [], snap), s)"
proof -
  have "fetch_reconciliation_snapshot_inputs (sample_venue ps) s = (Inr (sample_account, ps, []), s)"
    by (simp add: fetch_reconciliation_snapshot_inputs_def) (simp add: sample_venue_def)
  then show ?thesis
    using assms by (simp add: fetch_and_validate_def validate_mainnet_scope_def read_daily_realized_pnl_def daily_of_def)
      (simp add: sample_venue_def)
qed


lemma sample_compare:
  assumes "orders l = []" "fills l = []" "local_position_map l = m" "active_position_map ps = Inr m" "distinct (map fst m)"
    "symbols_of active = Inr sys" "rc_ledger s = l" "ps = map JObject ps'"
  shows "\<exists>s'. recover_and_compare (sample_venue ps0) ps active [] s = (Inr [], s') \<and> rc_ledger s' = l \<and> rc_status s' = rc_status s"
proof -
  have trades: "eff_map (\<lambda>symbol.
       eff_bind (request (sample_venue ps0) (GetTrades symbol)) (\<lambda>answer.
       eff_bind (as_list (FillRecoveryError ''userTrades response is invalid'') answer) (\<lambda>trades.
       eff_bind (eff_map (recover_trade (sample_venue ps0) symbol) trades) (\<lambda>ds. eff_ret (concat ds))))) xs s1
     = (Inr (replicate (length xs) []), s1)" for xs and s1 :: "unit ReconState"
    by (induction xs) (simp_all add: as_list_def)
  have seed: "eff_each (\<lambda>p. eff_bind (eff_lift id (as_fields p)) (\<lambda>d.
         if upper (symbol_text d) \<in> {} then on_ledger_res (upsert_position (Raw p)) else eff_ret ())) ps s1 = (Inr (), s1)" for s1 :: "unit ReconState"
    unfolding assms(8) by (induction ps') (simp_all add: as_fields_def)
  have nil: "position_diffs m m = []"
    using map_of_is_SomeI[OF assms(5)] by (auto simp: position_diffs_def split: option.splits)
  show ?thesis
    using assms(1-4,6,7) seed nil
    by (simp add: recover_and_compare_def recover_recent_trades_def trades collect_diffs_def get_all_orders_def symbols_of_def[of "[]"]
        index_orders_def drop_recovered_def)
qed


lemma sample_snapshot:
  "\<exists>snap. build_account_snapshot sample_account [JObject sample_exchange_position] (environment_label TESTNET)
     \<lparr>dp_realized = None, dp_known = True, dp_asset = ''UNKNOWN'', dp_includes_fees = False,
     dp_includes_funding = False, dp_window_start = None, dp_window_end = None\<rparr> None ''ETHUSDC'' (Aware 0) = Inr snap"
  "\<exists>snap. build_account_snapshot sample_account [] (environment_label TESTNET)
     \<lparr>dp_realized = None, dp_known = True, dp_asset = ''UNKNOWN'', dp_includes_fees = False,
     dp_includes_funding = False, dp_window_start = None, dp_window_end = None\<rparr> None ''ETHUSDC'' (Aware 0) = Inr snap"
proof -
  have usdt: "collateral_of (environment_label TESTNET) = ''USDT''" by (simp add: collateral_of_def environment_label_def)
  then show "\<exists>snap. build_account_snapshot sample_account [] (environment_label TESTNET)
     \<lparr>dp_realized = None, dp_known = True, dp_asset = ''UNKNOWN'', dp_includes_fees = False,
     dp_includes_funding = False, dp_window_start = None, dp_window_end = None\<rparr> None ''ETHUSDC'' (Aware 0) = Inr snap"
    by (simp add: build_account_snapshot_def sample_account_def sample_fields split_beta Let_def)
qed (use sample_build in \<open>auto simp: sample_daily_def\<close>)

lemma known_ledger_facts:
  "orders known_ledger = []" "fills known_ledger = []" "local_position_map known_ledger = [((''ETHUSDT'', ''BOTH''), 1)]"
  "ledger_ok known_ledger" "initialized known_ledger"
  by (simp_all add: known_ledger_def ledger_init_def local_position_map_def known_position_def string_eval ledger_ok_def)

lemma known_symbols_of: "active_positions [JObject sample_exchange_position] = Inr [JObject sample_exchange_position]"
  "symbols_of [JObject sample_exchange_position] = Inr {''ETHUSDT''}"
proof -
  have "json_get sample_exchange_position ''symbol'' = JStr ''ETHUSDT''" by (simp add: sample_exchange_position_def json_get_def)
  then have "filter (\<lambda>d. json_truthy (json_get d ''symbol'')) [sample_exchange_position] = [sample_exchange_position]" by simp
  then show "symbols_of [JObject sample_exchange_position] = Inr {''ETHUSDT''}"
    using \<open>json_get _ _ = _\<close> by (simp only: symbols_of_def res_map.simps as_fields_def json.case res_bind_Inr) simp
qed (simp add: active_positions_def position_is_active_def as_fields_def lift_py_def sample_fields)


theorem bootstrap_adopts_only_flat_accounts_witness:
  "\<exists>s'. bootstrap (sample_venue []) (sample_state ledger_init) = (True, s') \<and> initialized (rc_ledger s')"
proof -
  let ?v = "sample_venue []" and ?s = "sample_state ledger_init"
  let ?s1 = "(begin_run ?s)\<lparr>rc_ledger := set_account_snapshot None (rc_ledger (begin_run ?s))\<rparr>"
  obtain snap where snap: "fetch_and_validate ?v (begin_run ?s) = (Inr ([], [], snap), begin_run ?s)"
    using sample_snapshot(2) sample_fetch[of "[]" "begin_run ?s"] by (auto simp: begin_run_def set_status_def sample_state_def)
  have l: "orders (rc_ledger ?s1) = []" "fills (rc_ledger ?s1) = []" "local_position_map (rc_ledger ?s1) = []"
    by (simp_all add: begin_run_def set_status_def sample_state_def ledger_init_def set_account_snapshot_def local_position_map_def)
  have sy: "active_position_map [] = Inr []" "symbols_of [] = Inr {}" "active_positions [] = Inr []"
    by (simp_all add: active_position_map_def symbols_of_def active_positions_def)
  obtain s2 where "recover_and_compare ?v [] [] [] ?s1 = (Inr [], s2)"
    using sample_compare[OF l sy(1) _ sy(2) refl, of "[]"] by auto
  then have "\<exists>s'. bootstrap ?v ?s = (True, s')"
    using snap sy(3) by (simp add: bootstrap_def bootstrap_body_def bootstrap_rest_def on_ledger_res_def on_ledger_def replace_positions_def)
  then obtain s' where s': "bootstrap ?v ?s = (True, s')" by blast
  have "\<not> has_exchange_state (rc_ledger ?s)" by (simp add: has_exchange_state_def sample_state_def ledger_init_def get_all_orders_def)
  from bootstrap_adopts_only_flat_accounts[OF s' this] show ?thesis using s' by blast
qed

end
