(* ===== verification/Execution.thy ===== *)
theory Execution
  imports Reconciliation
begin

text \<open>
  The execution adapter (\<open>BinanceExecutionAdapter\<close> in \<open>venues/binance/execution.py\<close>): market samples,
  private stream events, submission, ambiguity resolution, cancellation, amendment and emergency
  flattening. The methods are computations over the state of the adapter, which holds the state of the
  reconciler and thereby the ledger and the outside world.

  Parameters are the REST client (as in \<open>Reconciliation\<close>), the environment variables, the clock (a
  reading per epoch and index; the epoch counts the steps that read it), the hash of order
  identifiers, the callbacks that the worker installs, the check of the execution lease, and the
  worker as the world shows it, so that every call of the outside may change the kill switch. A
  mutation runs under the adapter's lock, hence without interleaving; the single \<open>user_stream\<close> verdict
  is a field. The ledger returns the objects it stores, so an order that reconciliation changes is
  changed for its holder too (\<open>current_order\<close>).
\<close>

section \<open>State\<close>

record 'w Exec =
  xv_venue :: "'w Venue"
  xv_environ :: environ
  xv_clock :: "nat \<Rightarrow> nat \<Rightarrow> int"
  xv_digest :: "string \<Rightarrow> string"
  xv_worker :: "'w \<Rightarrow> TradingWorker"
  xv_preflight_only :: bool
  xv_lease_required :: bool
  xv_lease :: "('w \<Rightarrow> (rec_error + unit) \<times> 'w) option"
  xv_barrier :: "(ExecutionOrder \<Rightarrow> 'w \<Rightarrow> (rec_error + bool) \<times> 'w) option"
  xv_notify :: "(ExecutionOrder \<Rightarrow> string \<Rightarrow> 'w \<Rightarrow> (rec_error + unit) \<times> 'w) option"

text \<open>The base adapter carries the fields of the gates' view; its ledger, its reconciliation status
  and the authentication failure of the reconciler are those of \<open>xs_recon\<close>.\<close>

datatype emergency_result =
    EmergencyUnknown | EmergencyBlocked | EmergencyConfirmed nat | EmergencyPartial nat nat

record 'w ExecState =
  xs_adapter :: BinanceAdapter
  xs_recon :: "'w ReconState"
  xs_market_price :: "string \<rightharpoonup> decimal"
  xs_market_bid :: "string \<rightharpoonup> decimal"
  xs_market_ask :: "string \<rightharpoonup> decimal"
  xs_submission_attempts :: nat
  xs_order_event_at :: "string \<rightharpoonup> datetime"
  xs_emergency :: emergency_result
  xs_epoch :: nat

type_synonym ('w, 'a) exec = "('w ExecState, rec_error, 'a) eff"

definition adapter_view :: "'w ExecState \<Rightarrow> BinanceAdapter" where
  "adapter_view s = (xs_adapter s)\<lparr>ledger := rc_ledger (xs_recon s), reconciliation_status := rc_status (xs_recon s),
     authenticated := authenticated (xs_adapter s) \<and> \<not> rc_authentication_failed (xs_recon s)\<rparr>"

abbreviation xs_env :: "'w ExecState \<Rightarrow> BinanceEnvironment" where "xs_env s \<equiv> ad_env (xs_adapter s)"

definition set_state :: "ConnectionState \<Rightarrow> 'w ExecState \<Rightarrow> 'w ExecState" where
  "set_state c s = s\<lparr>xs_adapter := (xs_adapter s)\<lparr>connection_state := c\<rparr>\<rparr>"

definition set_last_status :: "string \<Rightarrow> 'w ExecState \<Rightarrow> 'w ExecState" where
  "set_last_status status s = s\<lparr>xs_recon := (xs_recon s)\<lparr>rc_status := status\<rparr>\<rparr>"

definition invalidate_authentication :: "'w ExecState \<Rightarrow> 'w ExecState" where
  "invalidate_authentication s =
     s\<lparr>xs_adapter := (xs_adapter s)\<lparr>authenticated := False, trade_authorized := False, connection_state := DEGRADED\<rparr>\<rparr>"

definition is_symbol_ready_for_execution :: "string \<Rightarrow> BinanceAdapter \<Rightarrow> bool" where
  "is_symbol_ready_for_execution symbol a =
     (case symbol_rules a (upper (strip symbol)) of
        None \<Rightarrow> False
      | Some rules \<Rightarrow> is_ready_for rules ''LIMIT'' \<and> is_ready_for rules ''MARKET'' \<and> (ad_env a = MAINNET \<longrightarrow> is_usdc_perpetual rules))"

text \<open>Running a computation of the reconciler, a REST call, a change of the ledger, a callback.\<close>

definition recon :: "'w Exec \<Rightarrow> ('w Venue \<Rightarrow> ('w, 'a) rec) \<Rightarrow> ('w, 'a) exec" where
  "recon x f s = (case f ((xv_venue x)\<lparr>vn_clock := xv_clock x (xs_epoch s)\<rparr>) (xs_recon s) of
     (r, s') \<Rightarrow> (r, s\<lparr>xs_recon := s', xs_epoch := Suc (xs_epoch s)\<rparr>))"

definition reconciled :: "'w Exec \<Rightarrow> ('w, string) exec" where
  "reconciled x = recon x (\<lambda>v s. map_prod Inr id (reconcile v s))"

definition rest :: "'w Exec \<Rightarrow> rest_call \<Rightarrow> ('w, json) exec" where
  "rest x call = recon x (\<lambda>v. request v call)"

definition with_ledger :: "(InMemoryLedger \<Rightarrow> InMemoryLedger) \<Rightarrow> ('w, unit) exec" where
  "with_ledger f = eff_modify (\<lambda>s. s\<lparr>xs_recon := (xs_recon s)\<lparr>rc_ledger := f (rc_ledger (xs_recon s))\<rparr>\<rparr>)"

definition with_ledger_res :: "(InMemoryLedger \<Rightarrow> InMemoryLedger res) \<Rightarrow> ('w, unit) exec" where
  "with_ledger_res f = (\<lambda>s. case f (rc_ledger (xs_recon s)) of
     Inl e \<Rightarrow> (Inl (Py e), s) | Inr l \<Rightarrow> (Inr (), s\<lparr>xs_recon := (xs_recon s)\<lparr>rc_ledger := l\<rparr>\<rparr>))"

definition on_world :: "('w \<Rightarrow> (rec_error + 'a) \<times> 'w) \<Rightarrow> ('w, 'a) exec" where
  "on_world f = (\<lambda>s. case f (rc_world (xs_recon s)) of (r, w) \<Rightarrow> (r, s\<lparr>xs_recon := (xs_recon s)\<lparr>rc_world := w\<rparr>\<rparr>))"

definition worker_of :: "'w Exec \<Rightarrow> 'w ExecState \<Rightarrow> TradingWorker" where
  "worker_of x s = (xv_worker x (rc_world (xs_recon s)))\<lparr>execution_adapter := Some (adapter_view s)\<rparr>"

definition now_of :: "'w Exec \<Rightarrow> ('w, nat \<Rightarrow> int) exec" where
  "now_of x = (\<lambda>s. (Inr (xv_clock x (xs_epoch s)), s\<lparr>xs_epoch := Suc (xs_epoch s)\<rparr>))"

text \<open>The shared end of every verified mutation.\<close>

definition verified_now :: "string \<Rightarrow> 'w ExecState \<Rightarrow> bool" where
  "verified_now sync_result s \<longleftrightarrow> sync_result = ''IN_SYNC'' \<and> private_stream_healthy (adapter_view s) \<and> authenticated (adapter_view s)"

definition settle :: "bool \<Rightarrow> ('w, bool) exec" where
  "settle verified = eff_bind (eff_modify (set_state (if verified then READY else DEGRADED))) (\<lambda>_. eff_ret verified)"

section \<open>Market samples\<close>

text \<open>\<open>float(value)\<close>; \<open>None\<close> is an exception that the caller catches.\<close>

definition json_float :: "json \<Rightarrow> decimal option" where
  "json_float v =
     (case v of
        JInt n \<Rightarrow> Some (Fin (fl (of_int n)))
      | JBool b \<Rightarrow> Some (Fin (if b then 1 else 0))
      | JStr t \<Rightarrow> parse_float t
      | JFloat t \<Rightarrow> parse_float t
      | _ \<Rightarrow> None)"

text \<open>\<open>datetime.fromtimestamp\<close>: seconds and microseconds, up to the year 9999.\<close>

definition from_timestamp :: "rat \<Rightarrow> datetime option" where
  "from_timestamp t =
     (let n = \<lfloor>t\<rfloor>; us = n * 1000000 + round_half_even (fl ((t - of_int n) * 1000000)) in
      if us < 253402300800 * 1000000 then Some (Aware us) else None)"

definition exchange_event_time :: "jfields \<Rightarrow> datetime option" where
  "exchange_event_time payload =
     (let raw = (if json_missing (json_get payload ''E'') then json_get payload ''time'' else json_get payload ''E'') in
      if json_missing raw then None
      else (case json_float raw of
          Some (Fin parsed) \<Rightarrow> if parsed \<le> 0 then None else from_timestamp (fl (parsed / 1000))
        | _ \<Rightarrow> None))"

record market_sample =
  sm_price :: decimal
  sm_reference :: "decimal option"
  sm_book :: "((decimal \<times> decimal) \<times> (decimal \<times> decimal)) option"

definition is_positive_decimal :: "decimal \<Rightarrow> bool" where
  "is_positive_decimal d = (case d of Fin x \<Rightarrow> x > 0 | _ \<Rightarrow> False)"

text \<open>The common part of a REST sample and a stream event: where and when a price was seen.\<close>

definition note_sample :: "string \<Rightarrow> datetime \<Rightarrow> decimal \<Rightarrow> string \<Rightarrow> 'w ExecState \<Rightarrow> 'w ExecState" where
  "note_sample sy t price suffix s =
     (let a = xs_adapter s; label = environment_label (xs_env s) in
      s\<lparr>xs_market_price := (xs_market_price s)(sy \<mapsto> price),
        xs_adapter := a\<lparr>ad_last_market_event_at := (ad_last_market_event_at a)(sy \<mapsto> t),
          last_market_event_source := (last_market_event_source a)(sy \<mapsto> label @ suffix),
          last_market_event_venue := (last_market_event_venue a)(sy \<mapsto> label),
          last_market_event_market_type := (last_market_event_market_type a)(sy \<mapsto> ''USDM_FUTURES'')\<rparr>\<rparr>)"

definition note_reference :: "string \<Rightarrow> datetime \<Rightarrow> decimal \<Rightarrow> 'w ExecState \<Rightarrow> 'w ExecState" where
  "note_reference sy t p s =
     (let a = xs_adapter s in
      s\<lparr>xs_adapter := a\<lparr>last_market_reference_price := (last_market_reference_price a)(sy \<mapsto> p),
          last_market_reference_at := (last_market_reference_at a)(sy \<mapsto> t)\<rparr>\<rparr>)"

definition note_book :: "string \<Rightarrow> decimal \<Rightarrow> decimal \<Rightarrow> 'w ExecState \<Rightarrow> 'w ExecState" where
  "note_book sy bid ask s = s\<lparr>xs_market_bid := (xs_market_bid s)(sy \<mapsto> bid), xs_market_ask := (xs_market_ask s)(sy \<mapsto> ask)\<rparr>"

definition note_depth :: "string \<Rightarrow> decimal \<Rightarrow> decimal \<Rightarrow> 'w ExecState \<Rightarrow> 'w ExecState" where
  "note_depth sy bid_qty ask_qty s =
     (let a = xs_adapter s;
          b = (if is_positive_decimal bid_qty then a\<lparr>last_market_bid_qty := (last_market_bid_qty a)(sy \<mapsto> bid_qty)\<rparr> else a) in
      s\<lparr>xs_adapter := (if is_positive_decimal ask_qty then b\<lparr>last_market_ask_qty := (last_market_ask_qty b)(sy \<mapsto> ask_qty)\<rparr> else b)\<rparr>)"

definition record_rest_market_sample :: "string \<Rightarrow> jfields \<Rightarrow> market_sample \<Rightarrow> ('w, bool) exec" where
  "record_rest_market_sample symbol payload sample =
     (let sy = upper symbol in
      case exchange_event_time payload of
        None \<Rightarrow> eff_ret False
      | Some t \<Rightarrow>
          if \<not> is_positive_decimal (sm_price sample) then eff_ret False
          else
            eff_bind (eff_modify (note_sample sy t (sm_price sample) ''_REST'')) (\<lambda>_.
            eff_bind (eff_modify (\<lambda>s. case sm_reference sample of
                Some p \<Rightarrow> if is_positive_decimal p then note_reference sy t p s else s | None \<Rightarrow> s)) (\<lambda>_.
            eff_bind (eff_modify (\<lambda>s. case sm_book sample of
                Some ((bid, ask), (bid_qty, ask_qty)) \<Rightarrow> note_depth sy bid_qty ask_qty (note_book sy bid ask s) | None \<Rightarrow> s)) (\<lambda>_.
            eff_ret True))))"

text \<open>The four handlers that both price requests share.\<close>

definition price_failure :: "rec_error \<Rightarrow> 'w ExecState \<Rightarrow> 'w ExecState" where
  "price_failure e s =
     set_last_status ''UNKNOWN'' (if e = BinanceAuthenticationError then invalidate_authentication s else set_state DEGRADED s)"

definition guarded_price :: "('w, 'a option) exec \<Rightarrow> ('w, 'a option) exec" where
  "guarded_price m = eff_catch m (\<lambda>e. eff_bind (eff_modify (price_failure e)) (\<lambda>_. eff_ret None))"

text \<open>\<open>Decimal(str(payload.get(field)))\<close>; an invalid text raises \<open>InvalidOperation\<close>.\<close>

definition payload_decimal :: "jfields \<Rightarrow> string \<Rightarrow> decimal res" where
  "payload_decimal d field = of_option InvalidOperation (json_decimal (json_get d field))"

definition get_best_bid_ask :: "'w Exec \<Rightarrow> string \<Rightarrow> ('w, (decimal \<times> decimal) option) exec" where
  "get_best_bid_ask x symbol =
     (let sy = upper symbol in
      guarded_price (eff_bind (rest x (GetBookTicker sy)) (\<lambda>payload.
        case payload of
          JObject d \<Rightarrow>
            if upper (symbol_text d) \<noteq> sy then eff_ret None
            else
              eff_bind (eff_lift Py (payload_decimal d ''bidPrice'')) (\<lambda>bid.
              eff_bind (eff_lift Py (payload_decimal d ''askPrice'')) (\<lambda>ask.
              case (bid, ask) of
                (Fin b, Fin a) \<Rightarrow>
                  if b \<le> 0 \<or> a < b then eff_ret None
                  else (case (payload_decimal d ''bidQty'', payload_decimal d ''askQty'') of
                      (Inr (Fin bq), Inr (Fin aq)) \<Rightarrow>
                        if bq \<le> 0 \<or> aq \<le> 0 then eff_ret None
                        else
                          eff_bind (record_rest_market_sample sy d
                            \<lparr>sm_price = Fin (ddiv (dadd b a) 2), sm_reference = None, sm_book = Some ((Fin b, Fin a), (Fin bq, Fin aq))\<rparr>) (\<lambda>ok.
                          eff_ret (if ok then Some (Fin b, Fin a) else None))
                    | _ \<Rightarrow> eff_ret None)
              | _ \<Rightarrow> eff_ret None))
        | _ \<Rightarrow> eff_ret None)))"

definition refresh_market_data :: "'w Exec \<Rightarrow> string list \<Rightarrow> ('w, bool) exec" where
  "refresh_market_data x symbols =
     eff_bind (eff_map (get_best_bid_ask x) symbols) (\<lambda>results.
     eff_ret (results \<noteq> [] \<and> list_all (\<lambda>r. r \<noteq> None) results))"

text \<open>A cached sample; \<open>Inl\<close> is the early return for a naive event time.\<close>

definition cached_price :: "'w Exec \<Rightarrow> int \<Rightarrow> string \<Rightarrow> OrderSide option \<Rightarrow> 'w ExecState \<Rightarrow> decimal option + unit" where
  "cached_price x now sy side s =
     (let a = xs_adapter s;
          cached = (case side of Some BUY \<Rightarrow> xs_market_ask s sy | Some SELL \<Rightarrow> xs_market_bid s sy | None \<Rightarrow> last_market_reference_price a sy);
          event_at = (case side of Some _ \<Rightarrow> ad_last_market_event_at a sy | None \<Rightarrow> last_market_reference_at a sy)
      in
      case (event_at, cached) of
        (Some t, Some p) \<Rightarrow>
          if p \<noteq> Fin 0 \<and> (has_authoritative_market_sample a sy \<or> side = None) then
            (case t of Naive _ \<Rightarrow> Inl None
             | Aware _ \<Rightarrow> if is_fresh now (market_data_max_age (xv_environ x)) (Some t) then Inl (Some p) else Inr ())
          else Inr ()
      | _ \<Rightarrow> Inr ())"

definition get_fresh_market_price :: "'w Exec \<Rightarrow> string \<Rightarrow> OrderSide option \<Rightarrow> ('w, decimal option) exec" where
  "get_fresh_market_price x symbol side =
     (let sy = upper symbol in
      eff_bind (now_of x) (\<lambda>clock.
      eff_bind (eff_gets (cached_price x (clock 0) sy side)) (\<lambda>c.
      case c of
        Inl r \<Rightarrow> eff_ret r
      | Inr _ \<Rightarrow>
          (case side of
             Some d \<Rightarrow> eff_bind (get_best_bid_ask x sy) (\<lambda>quote.
               eff_ret (case quote of None \<Rightarrow> None | Some (bid, ask) \<Rightarrow> Some (if d = BUY then ask else bid)))
           | None \<Rightarrow>
               guarded_price (eff_bind (rest x (GetPremiumIndex sy)) (\<lambda>payload.
                 case payload of
                   JObject d \<Rightarrow>
                     if upper (symbol_text d) \<noteq> sy then eff_ret None
                     else
                       eff_bind (eff_lift Py (payload_decimal d ''markPrice'')) (\<lambda>price.
                       eff_bind (record_rest_market_sample sy d \<lparr>sm_price = price, sm_reference = Some price, sm_book = None\<rparr>) (\<lambda>ok.
                       eff_ret (if ok then Some price else None)))
                 | _ \<Rightarrow> eff_ret None))))))"

record VenueMarketEvent = MarketEvent +
  me_venue :: string
  me_market_type :: MarketType
  me_mark_price :: "rat option"

text \<open>The prices of an event are finite decimals, which the model class of the event checks.\<close>

definition record_market_event :: "VenueMarketEvent \<Rightarrow> 'w ExecState \<Rightarrow> bool \<times> 'w ExecState" where
  "record_market_event event s =
     (let price = (case me_mark_price event of Some p \<Rightarrow> if p \<noteq> 0 then p else me_last_price event | None \<Rightarrow> me_last_price event);
          sy = upper (me_symbol event)
      in
      if me_market_type event \<noteq> USDM_FUTURES \<or> upper (me_venue event) \<noteq> environment_label (xs_env s) then (False, s)
      else if price \<le> 0 then (False, s)
      else
        (case me_event_time event of
           Naive _ \<Rightarrow> (False, s)
         | Aware t \<Rightarrow>
             let s1 = note_sample sy (Aware t) (Fin price) ''_WS'' s;
                 s2 = (case me_mark_price event of Some p \<Rightarrow> if p > 0 then note_reference sy (Aware t) (Fin p) s1 else s1 | None \<Rightarrow> s1)
             in (True, if me_best_bid event > 0 \<and> me_best_ask event \<ge> me_best_bid event
                       then note_book sy (Fin (me_best_bid event)) (Fin (me_best_ask event)) s2 else s2)))"

section \<open>Orders from responses\<close>

text \<open>What an order takes over from the decision that it belongs to.\<close>

record order_context =
  oc_decision_id :: string
  oc_risk :: EconomicRiskClass
  oc_target :: "string option"
  oc_sources :: "string list"

definition context_of :: "'r ExecutionDecision \<Rightarrow> order_context" where
  "context_of d = \<lparr>oc_decision_id = decision_id d, oc_risk = ed_risk_class d, oc_target = Some (ed_target_exposure_id d),
     oc_sources = ed_source_intent_ids d\<rparr>"

text \<open>\<open>value in (None, "", "0", 0)\<close>.\<close>

definition no_price :: "json \<Rightarrow> bool" where
  "no_price v = (json_missing v \<or> v = JStr ''0'' \<or> v = JInt 0 \<or> v = JBool False
     \<or> (case v of JFloat t \<Rightarrow> parse_float t = Some (Fin 0) | _ \<Rightarrow> False))"

fun response_price :: "json list \<Rightarrow> rec_error + rat option" where
  "response_price [] = Inr None"
| "response_price (v # vs) =
     (if no_price v then response_price vs
      else (case json_decimal v of
          None \<Rightarrow> Inl (BinanceTransportAmbiguity ''price is invalid'')
        | Some (Fin p) \<Rightarrow> if p > 0 then Inr (Some p) else response_price vs
        | Some _ \<Rightarrow> response_price vs))"

definition terminal_statuses :: "string list" where
  "terminal_statuses = [''CANCELED'', ''CANCELLED'', ''EXPIRED'', ''REJECTED'']"

definition order_statuses :: "string list" where
  "order_statuses = [''NEW'', ''PARTIALLY_FILLED'', ''FILLED''] @ terminal_statuses"

definition echo_ok :: "json \<Rightarrow> string \<Rightarrow> bool" where
  "echo_ok v expected = (json_missing v \<or> upper (py_str v) = upper expected)"

definition ambiguous_unless :: "bool \<Rightarrow> string \<Rightarrow> rec_error + unit" where
  "ambiguous_unless c why = check c (BinanceTransportAmbiguity why)"

text \<open>The checks of a response against the intent, and the price it leaves.\<close>

definition response_checks :: "OrderIntent \<Rightarrow> jfields \<Rightarrow> PreparedOrder \<Rightarrow> string \<Rightarrow> bool \<Rightarrow> rec_error + rat" where
  "response_checks intent r prepared client_order_id allow_terminal =
     (let st = upper (py_str (json_get r ''status'')) in
      res_bind (ambiguous_unless (\<not> json_missing (json_get r ''orderId'') \<and> \<not> json_missing (json_get r ''status'')) ''no orderId/status'') (\<lambda>_.
      res_bind (ambiguous_unless (\<not> json_missing (json_get r ''symbol'') \<and> upper (py_str (json_get r ''symbol'')) = upper (po_symbol prepared)) ''symbol'') (\<lambda>_.
      res_bind (ambiguous_unless (json_missing (json_get r ''clientOrderId'') \<or> py_str (json_get r ''clientOrderId'') = client_order_id) ''clientOrderId'') (\<lambda>_.
      res_bind (ambiguous_unless (echo_ok (json_get r ''side'') (order_side_value (oi_side intent))) ''side'') (\<lambda>_.
      res_bind (ambiguous_unless (echo_ok (json_get r ''positionSide'') (position_side_value (oi_position_side intent))) ''positionSide'') (\<lambda>_.
      res_bind (ambiguous_unless (\<not> json_missing (json_get r ''origQty'')) ''no origQty'') (\<lambda>_.
      res_bind (ambiguous_unless (finite_of (json_decimal (json_get r ''origQty'')) = Some (po_quantity prepared) \<and> po_quantity prepared > 0) ''quantity'') (\<lambda>_.
      res_bind (ambiguous_unless (st \<in> set order_statuses) ''unknown status'') (\<lambda>_.
      res_bind (check (allow_terminal \<or> st \<notin> set terminal_statuses) (BinanceDefinitiveRejection (- 2010))) (\<lambda>_.
      res_bind (response_price [json_get r ''price'', json_get r ''avgPrice'']) (\<lambda>parsed.
      res_bind (ambiguous_unless (parsed = None \<or> po_price prepared = None \<or> parsed = po_price prepared) ''price'') (\<lambda>_.
      let price = (case parsed of Some p \<Rightarrow> p | None \<Rightarrow> po_estimated_price prepared) in
      res_bind (ambiguous_unless (price > 0) ''no usable execution price'') (\<lambda>_.
      res_bind (ambiguous_unless (map_of r ''reduceOnly'' = None \<or> exchange_bool (json_get r ''reduceOnly'') = oi_reduce_only intent) ''reduceOnly'') (\<lambda>_.
      Inr price))))))))))))))"

definition order_from_response ::
  "OrderIntent \<Rightarrow> json \<Rightarrow> PreparedOrder \<Rightarrow> string \<Rightarrow> order_context \<Rightarrow> bool \<Rightarrow> int \<Rightarrow> rec_error + ExecutionOrder" where
  "order_from_response intent response prepared client_order_id ctx allow_terminal now =
     (case response of
        JObject r \<Rightarrow>
          res_bind (response_checks intent r prepared client_order_id allow_terminal) (\<lambda>price.
          Inr \<lparr>eo_symbol = po_symbol prepared, eo_side = oi_side intent, eo_quantity = po_quantity prepared, eo_price = price,
            eo_order_type = po_order_type prepared,
            eo_client_order_id = py_str (json_or (json_get r ''clientOrderId'') (JStr client_order_id)),
            eo_status = upper (py_str (json_get r ''status'')), eo_exchange_order_id = Some (py_str (json_get r ''orderId'')),
            eo_timestamp = Aware now, eo_market_type = oi_market_type intent, eo_position_side = oi_position_side intent,
            eo_reduce_only = oi_reduce_only intent, eo_time_in_force = oi_time_in_force intent, eo_strategy_id = oi_strategy_id intent,
            eo_decision_id = Some (oc_decision_id ctx), eo_target_exposure_id = oc_target ctx, eo_source_intent_ids = oc_sources ctx,
            eo_risk_class = oc_risk ctx\<rparr>)
      | _ \<Rightarrow> Inl (BinanceTransportAmbiguity ''not an object''))"

definition executed_status :: "string \<Rightarrow> bool" where
  "executed_status st = (upper st \<in> {''FILLED'', ''PARTIALLY_FILLED''})"

definition response_fields :: "json \<Rightarrow> jfields" where
  "response_fields j = (case j of JObject d \<Rightarrow> d | _ \<Rightarrow> [])"

section \<open>Verification after a mutation\<close>

text \<open>One query of an order whose submission is ambiguous: the recovered order, whether its status is
  known, whether its fills are verified. \<open>Inl True\<close> asks for another attempt, \<open>Inl False\<close> ends in a
  failed authentication.\<close>

record ambiguity =
  am_order :: "ExecutionOrder option"
  am_known :: bool
  am_fills_ok :: bool

definition recover_ambiguous :: "'w Exec \<Rightarrow> ExecutionOrder \<Rightarrow> json \<Rightarrow> ('w, bool + ambiguity) exec" where
  "recover_ambiguous x od status_response =
     (let known = (\<lambda>ok. \<lparr>am_order = Some od, am_known = True, am_fills_ok = ok\<rparr>) in
      eff_bind (with_ledger (upsert_order od)) (\<lambda>_.
      if \<not> executed_status (eo_status od) then eff_ret (Inr (known True))
      else
        eff_catch (eff_bind (recon x (\<lambda>v. recover_order_fills v od (response_fields status_response))) (\<lambda>_. eff_ret (Inr (known True))))
          (\<lambda>e. if e = BinanceAuthenticationError
               then eff_bind (eff_modify invalidate_authentication) (\<lambda>_. eff_ret (Inl False))
               else eff_bind (eff_modify (set_last_status ''UNKNOWN'')) (\<lambda>_. eff_ret (Inr (known False))))))"

definition query_ambiguous ::
  "'w Exec \<Rightarrow> OrderIntent \<Rightarrow> PreparedOrder \<Rightarrow> string \<Rightarrow> order_context \<Rightarrow> bool \<Rightarrow> ('w, bool + ambiguity) exec" where
  "query_ambiguous x intent prepared client_order_id ctx final =
     (let unknown = \<lparr>am_order = None, am_known = False, am_fills_ok = True\<rparr> in
      eff_catch
        (eff_bind (rest x (GetOrderByClient (po_symbol prepared) client_order_id)) (\<lambda>response.
         eff_bind (now_of x) (\<lambda>clock.
         eff_bind (eff_lift id (order_from_response intent response prepared client_order_id ctx True (clock 0))) (\<lambda>od.
         recover_ambiguous x od response))))
        (\<lambda>e. case e of
           BinanceAuthenticationError \<Rightarrow> eff_bind (eff_modify invalidate_authentication) (\<lambda>_. eff_ret (Inl False))
         | BinanceDefinitiveRejection code \<Rightarrow>
             if code = - 2013 \<and> \<not> final then eff_ret (Inl True)
             else eff_ret (Inr (unknown\<lparr>am_known := (code = - 2013)\<rparr>))
         | _ \<Rightarrow> eff_ret (Inr unknown)))"

text \<open>Three attempts; the pauses between them are not modelled.\<close>

fun poll_ambiguous ::
  "'w Exec \<Rightarrow> OrderIntent \<Rightarrow> PreparedOrder \<Rightarrow> string \<Rightarrow> order_context \<Rightarrow> nat \<Rightarrow> ('w, ambiguity option) exec" where
  "poll_ambiguous x intent prepared cid ctx 0 = eff_ret (Some \<lparr>am_order = None, am_known = False, am_fills_ok = True\<rparr>)"
| "poll_ambiguous x intent prepared cid ctx (Suc n) =
     eff_bind (query_ambiguous x intent prepared cid ctx (n = 0)) (\<lambda>r.
     case r of
       Inr am \<Rightarrow> eff_ret (Some am)
     | Inl True \<Rightarrow> poll_ambiguous x intent prepared cid ctx n
     | Inl False \<Rightarrow> eff_ret None)"

text \<open>The object that the ledger holds for an order.\<close>

definition current_order :: "ExecutionOrder \<Rightarrow> 'w ExecState \<Rightarrow> ExecutionOrder" where
  "current_order od s =
     (case get_order_by_client_id (rc_ledger (xs_recon s)) (eo_client_order_id od) of Some o' \<Rightarrow> o' | None \<Rightarrow> od)"

definition resolve_ambiguous_order ::
  "'w Exec \<Rightarrow> OrderIntent \<Rightarrow> PreparedOrder \<Rightarrow> string \<Rightarrow> order_context \<Rightarrow> ('w, ExecutionOrder option) exec" where
  "resolve_ambiguous_order x intent prepared client_order_id ctx =
     eff_bind (eff_modify (set_state RECONCILING)) (\<lambda>_.
     eff_bind (poll_ambiguous x intent prepared client_order_id ctx 3) (\<lambda>r.
     case r of
       None \<Rightarrow> eff_ret None
     | Some am \<Rightarrow>
         eff_bind (reconciled x) (\<lambda>sync_result.
         eff_bind (eff_gets (\<lambda>s. verified_now sync_result s \<and> am_known am \<and> am_fills_ok am)) (\<lambda>ok.
         eff_bind (settle ok) (\<lambda>_.
         eff_gets (\<lambda>s. if ok then map_option (\<lambda>od. current_order od s) (am_order am) else None))))))"

definition post_mutation_reconcile :: "'w Exec \<Rightarrow> ExecutionOrder \<Rightarrow> json \<Rightarrow> ('w, bool) exec" where
  "post_mutation_reconcile x od response =
     eff_bind (eff_modify (set_last_status ''UNKNOWN'')) (\<lambda>_.
     eff_catch
       (eff_bind (if executed_status (eo_status od) then recon x (\<lambda>v. recover_order_fills v od (response_fields response)) else eff_ret ()) (\<lambda>_.
        eff_bind (reconciled x) (\<lambda>sync_result.
        eff_bind (eff_gets (verified_now sync_result)) settle)))
       (\<lambda>e. if e = BinanceAuthenticationError
            then eff_bind (eff_modify invalidate_authentication) (\<lambda>_. eff_ret False)
            else eff_bind (eff_modify (\<lambda>s. set_state DEGRADED (set_last_status ''UNKNOWN'' s))) (\<lambda>_. eff_ret False)))"

section \<open>Submission\<close>

definition generate_client_order_id :: "'w Exec \<Rightarrow> string \<Rightarrow> string \<Rightarrow> nat \<Rightarrow> string" where
  "generate_client_order_id x context_id symbol order_index =
     ''BAI-'' @ take 12 (xv_digest x (context_id @ ''-'' @ symbol)) @ ''-'' @ show_nat order_index @ ''-1''"

definition notify_submission_result :: "'w Exec \<Rightarrow> ExecutionOrder \<Rightarrow> string \<Rightarrow> ('w, unit) exec" where
  "notify_submission_result x od outcome =
     (case xv_notify x of
        None \<Rightarrow> eff_ret ()
      | Some f \<Rightarrow> eff_catch (on_world (f od outcome)) (\<lambda>_. eff_modify (\<lambda>s. set_last_status ''UNKNOWN'' (set_state DEGRADED s))))"

definition assert_execution_lease :: "'w Exec \<Rightarrow> EconomicRiskClass \<Rightarrow> ('w, unit) exec" where
  "assert_execution_lease x risk =
     (if \<not> is_risk_increasing risk then eff_ret ()
      else (case xv_lease x of
          None \<Rightarrow> if xv_lease_required x then eff_raise LeaseLostError else eff_ret ()
        | Some f \<Rightarrow> on_world f))"

text \<open>The durable record of an order before it is sent; the result says whether to go on.\<close>

definition durable_barrier :: "'w Exec \<Rightarrow> ExecutionOrder \<Rightarrow> EconomicRiskClass \<Rightarrow> ('w, bool) exec" where
  "durable_barrier x od risk =
     (case xv_barrier x of
        None \<Rightarrow> eff_bind (eff_gets xs_env) (\<lambda>env.
          if env = MAINNET \<and> is_risk_increasing risk then eff_raise LeaseLostError else eff_ret True)
      | Some f \<Rightarrow> eff_bind (on_world (f od)) (\<lambda>durable.
          if \<not> durable \<and> is_risk_increasing risk
          then eff_bind (eff_modify (set_state DEGRADED)) (\<lambda>_. eff_ret False)
          else eff_ret True))"

text \<open>The price that the order gate will ask for, if its checks up to that point pass.\<close>

definition discovery_request ::
  "environ \<Rightarrow> (nat \<Rightarrow> int) \<Rightarrow> BinanceAdapter \<Rightarrow> OrderIntent \<Rightarrow> EconomicRiskClass \<Rightarrow> bool \<Rightarrow> (string \<times> OrderSide option) option" where
  "discovery_request env clock a intent risk allow_emergency =
     (let emergency_fallback = (allow_emergency \<and> risk = EMERGENCY); sy = upper (oi_symbol intent);
          reached =
            res_bind (order_gate_entry env a risk emergency_fallback) (\<lambda>_.
            res_bind (if is_risk_increasing risk \<and> \<not> emergency_fallback then order_gate_account env (clock 0) a else Inr ()) (\<lambda>_.
            res_bind (order_gate_intent a intent) (\<lambda>rules.
            res_bind (order_gate_quantity rules intent) (\<lambda>_.
            if oi_order_type intent = LIMIT then
              res_bind (order_gate_limit_price rules intent) (\<lambda>_.
              Inr (if get_market_reference_price env (clock 1) a sy = None \<and> has_percent_price_filter rules then Some (sy, None) else None))
            else
              res_bind (check (oi_time_in_force intent = GTC) MarketTif) (\<lambda>_.
              res_bind (check (oi_price intent = None) MarketWithPrice) (\<lambda>_.
              Inr (Some (sy, Some (oi_side intent)))))))))
      in case reached of Inr r \<Rightarrow> r | Inl _ \<Rightarrow> None)"

text \<open>The order gate with the price discovery of the adapter; the adapter keeps what discovery learnt.\<close>

definition run_order_gate ::
  "'w Exec \<Rightarrow> OrderIntent \<Rightarrow> EconomicRiskClass \<Rightarrow> int \<Rightarrow> rat \<Rightarrow> string option \<Rightarrow> bool \<Rightarrow> bool \<Rightarrow> ('w, PreparedOrder gate) exec" where
  "run_order_gate x intent risk reserved_orders reserved_notional exclude require_reduce_only allow_emergency =
     eff_bind (now_of x) (\<lambda>clock.
     eff_bind (eff_gets adapter_view) (\<lambda>a.
     let gate = (\<lambda>discover. order_gate_check (xv_environ x) clock discover a intent risk reserved_orders reserved_notional
           exclude require_reduce_only allow_emergency) in
     case discovery_request (xv_environ x) clock a intent risk allow_emergency of
       None \<Rightarrow> eff_ret (gate (\<lambda>_ _ b. (None, b)))
     | Some (sy, side) \<Rightarrow>
         eff_bind (get_fresh_market_price x sy side) (\<lambda>p.
         eff_bind (eff_gets adapter_view) (\<lambda>a'.
         eff_ret (gate (\<lambda>_ _ _. (p, a')))))))"

text \<open>A gate that refuses gives \<open>None\<close>; an exception of the gate leaves the method.\<close>

definition gate_passed :: "'a gate \<Rightarrow> ('w, 'a option) exec" where
  "gate_passed r = (case r of Inr p \<Rightarrow> eff_ret (Some p) | Inl (Raised e) \<Rightarrow> eff_raise (Py e) | Inl _ \<Rightarrow> eff_ret None)"

definition tif_param :: "OrderIntent \<Rightarrow> string" where
  "tif_param intent =
     (if oi_post_only intent then ''GTX''
      else (case oi_time_in_force intent of POST_ONLY \<Rightarrow> ''GTX'' | GTC \<Rightarrow> ''GTC'' | IOC \<Rightarrow> ''IOC'' | FOK \<Rightarrow> ''FOK''))"

definition order_request :: "bool \<Rightarrow> OrderIntent \<Rightarrow> PreparedOrder \<Rightarrow> string \<Rightarrow> order_params" where
  "order_request hedge intent prepared client_order_id =
     \<lparr>op_symbol = po_symbol prepared, op_side = order_side_value (oi_side intent), op_type = po_order_type prepared,
      op_quantity = po_quantity prepared, op_client_order_id = client_order_id, op_price = po_price prepared,
      op_time_in_force = (if po_price prepared \<noteq> None then Some (tif_param intent) else None),
      op_position_side = (if hedge then Some (position_side_value (oi_position_side intent)) else None),
      op_reduce_only = (oi_reduce_only intent \<and> \<not> hedge)\<rparr>"

definition prepared_price :: "PreparedOrder \<Rightarrow> rat" where
  "prepared_price p = (case po_price p of Some q \<Rightarrow> if q \<noteq> 0 then q else po_estimated_price p | None \<Rightarrow> po_estimated_price p)"

definition planned_order :: "OrderIntent \<Rightarrow> PreparedOrder \<Rightarrow> string \<Rightarrow> order_context \<Rightarrow> int \<Rightarrow> ExecutionOrder" where
  "planned_order intent prepared client_order_id ctx now =
     \<lparr>eo_symbol = po_symbol prepared, eo_side = oi_side intent, eo_quantity = po_quantity prepared, eo_price = prepared_price prepared,
      eo_order_type = po_order_type prepared, eo_client_order_id = client_order_id, eo_status = ''PENDING'',
      eo_exchange_order_id = None, eo_timestamp = Aware now, eo_market_type = oi_market_type intent,
      eo_position_side = oi_position_side intent, eo_reduce_only = oi_reduce_only intent, eo_time_in_force = oi_time_in_force intent,
      eo_strategy_id = oi_strategy_id intent, eo_decision_id = Some (oc_decision_id ctx), eo_target_exposure_id = oc_target ctx,
      eo_source_intent_ids = (if oc_sources ctx \<noteq> [] then oc_sources ctx else oi_source_intent_ids intent), eo_risk_class = oc_risk ctx\<rparr>"

text \<open>The record of a rejection leaves side mode, reduce-only flag and time in force at their defaults.\<close>

definition rejected_order :: "OrderIntent \<Rightarrow> PreparedOrder \<Rightarrow> string \<Rightarrow> order_context \<Rightarrow> int \<Rightarrow> ExecutionOrder" where
  "rejected_order intent prepared client_order_id ctx now =
     (planned_order intent prepared client_order_id ctx now)\<lparr>eo_status := ''REJECTED'', eo_market_type := USDM_FUTURES,
       eo_position_side := BOTH, eo_reduce_only := False, eo_time_in_force := GTC\<rparr>"

text \<open>Before the request: the order is made durable, noted in the ledger, and the lease is checked.\<close>

definition before_submission :: "'w Exec \<Rightarrow> ExecutionOrder \<Rightarrow> EconomicRiskClass \<Rightarrow> ('w, bool) exec" where
  "before_submission x planned risk =
     eff_bind (durable_barrier x planned risk) (\<lambda>go.
     if \<not> go then eff_ret False
     else
       eff_bind (with_ledger (upsert_order planned)) (\<lambda>_.
       eff_bind (assert_execution_lease x risk) (\<lambda>_. eff_ret True)))"

text \<open>The request and what follows it: the executed order, and whether it still rests.\<close>

definition submit_request ::
  "'w Exec \<Rightarrow> OrderIntent \<Rightarrow> PreparedOrder \<Rightarrow> string \<Rightarrow> order_context \<Rightarrow> ('w, (ExecutionOrder \<times> bool) option) exec" where
  "submit_request x intent prepared client_order_id ctx =
     eff_bind (eff_gets (\<lambda>s. ad_hedge_mode (xs_adapter s))) (\<lambda>hedge.
     eff_bind (eff_modify (\<lambda>s. s\<lparr>xs_submission_attempts := Suc (xs_submission_attempts s)\<rparr>)) (\<lambda>_.
     eff_bind (rest x (PostOrder (order_request hedge intent prepared client_order_id))) (\<lambda>response.
     eff_bind (now_of x) (\<lambda>clock.
     eff_bind (eff_lift id (order_from_response intent response prepared client_order_id ctx False (clock 0))) (\<lambda>od.
     eff_bind (with_ledger (upsert_order od)) (\<lambda>_.
     eff_bind (post_mutation_reconcile x od response) (\<lambda>verified.
     eff_bind (eff_gets (current_order od)) (\<lambda>od'.
     if \<not> verified then eff_bind (notify_submission_result x od' ''AMBIGUOUS'') (\<lambda>_. eff_ret None)
     else eff_bind (notify_submission_result x od' ''CONFIRMED'') (\<lambda>_.
          eff_ret (Some (od', eo_status od' \<in> {''NEW'', ''PARTIALLY_FILLED''}))))))))))) "

definition submission_failed ::
  "'w Exec \<Rightarrow> OrderIntent \<Rightarrow> PreparedOrder \<Rightarrow> string \<Rightarrow> order_context \<Rightarrow> ExecutionOrder \<Rightarrow> bool \<Rightarrow> rec_error \<Rightarrow>
   ('w, (ExecutionOrder \<times> bool) option) exec" where
  "submission_failed x intent prepared client_order_id ctx planned attempted e =
     (let outcome = (if attempted then ''AMBIGUOUS'' else ''REJECTED'');
          degrade = eff_bind (eff_modify (set_state DEGRADED)) (\<lambda>_. eff_ret None);
          ambiguous =
            eff_bind (notify_submission_result x planned ''AMBIGUOUS'') (\<lambda>_.
            eff_bind (resolve_ambiguous_order x intent prepared client_order_id ctx) (\<lambda>recovered.
            case recovered of
              None \<Rightarrow> eff_ret None
            | Some od \<Rightarrow> eff_bind (notify_submission_result x od ''CONFIRMED'') (\<lambda>_. eff_ret (Some (od, False)))))
      in
      case e of
        BinanceAuthenticationError \<Rightarrow>
          eff_bind (eff_modify invalidate_authentication) (\<lambda>_.
          eff_bind (notify_submission_result x planned outcome) (\<lambda>_. eff_ret None))
      | BinanceRateLimitError \<Rightarrow> eff_bind (notify_submission_result x planned outcome) (\<lambda>_. degrade)
      | BinanceTimestampError \<Rightarrow> eff_bind (notify_submission_result x planned outcome) (\<lambda>_. degrade)
      | BinanceDefinitiveRejection code \<Rightarrow>
          eff_bind (now_of x) (\<lambda>clock.
          let rejected = rejected_order intent prepared client_order_id ctx (clock 0) in
          eff_bind (with_ledger (upsert_order rejected)) (\<lambda>_.
          eff_bind (notify_submission_result x rejected ''REJECTED'') (\<lambda>_. eff_ret None)))
      | LeaseLostError \<Rightarrow> eff_bind (notify_submission_result x planned ''REJECTED'') (\<lambda>_. degrade)
      | BinanceTransportAmbiguity why \<Rightarrow> ambiguous
      | BinanceAPIError \<Rightarrow> ambiguous
      | _ \<Rightarrow> eff_bind (notify_submission_result x planned outcome) (\<lambda>_. degrade))"

definition submit_prepared ::
  "'w Exec \<Rightarrow> OrderIntent \<Rightarrow> PreparedOrder \<Rightarrow> string \<Rightarrow> order_context \<Rightarrow> ('w, (ExecutionOrder \<times> bool) option) exec" where
  "submit_prepared x intent prepared client_order_id ctx =
     eff_bind (now_of x) (\<lambda>clock.
     let planned = planned_order intent prepared client_order_id ctx (clock 0);
         failed = submission_failed x intent prepared client_order_id ctx planned
     in
     eff_bind (eff_catch (eff_bind (before_submission x planned (oc_risk ctx)) (\<lambda>go. eff_ret (Inr go)))
         (\<lambda>e. eff_bind (failed False e) (\<lambda>r. eff_ret (Inl r)))) (\<lambda>r.
     case r of
       Inl settled \<Rightarrow> eff_ret settled
     | Inr go \<Rightarrow> if \<not> go then eff_ret None else eff_catch (submit_request x intent prepared client_order_id ctx) (failed True)))"

record submission_acc =
  sa_executed :: "ExecutionOrder list"
  sa_reserved_orders :: int
  sa_reserved_notional :: rat

definition order_id_for :: "'w Exec \<Rightarrow> BinanceEnvironment \<Rightarrow> order_context \<Rightarrow> OrderIntent \<Rightarrow> PreparedOrder \<Rightarrow> nat \<Rightarrow> string" where
  "order_id_for x env ctx intent prepared index =
     (if env = MAINNET \<or> oi_client_order_id intent = [] then generate_client_order_id x (oc_decision_id ctx) (po_symbol prepared) index
      else oi_client_order_id intent)"

text \<open>One intent: the order gate with what earlier orders reserved, then the submission.\<close>

definition submit_intent ::
  "'w Exec \<Rightarrow> order_context \<Rightarrow> bool \<Rightarrow> nat \<Rightarrow> OrderIntent \<Rightarrow> submission_acc \<Rightarrow> ('w, submission_acc) exec" where
  "submit_intent x ctx allow_emergency index intent acc =
     eff_bind (run_order_gate x intent (oc_risk ctx) (sa_reserved_orders acc) (sa_reserved_notional acc) None True allow_emergency) (\<lambda>r.
     eff_bind (gate_passed r) (\<lambda>passed.
     case passed of
       None \<Rightarrow> eff_ret acc
     | Some prepared \<Rightarrow>
         eff_bind (eff_gets xs_env) (\<lambda>env.
         eff_bind (submit_prepared x intent prepared (order_id_for x env ctx intent prepared index) ctx) (\<lambda>outcome.
         eff_ret (case outcome of
             None \<Rightarrow> acc
           | Some (od, rests) \<Rightarrow>
               let acc' = acc\<lparr>sa_executed := sa_executed acc @ [od]\<rparr> in
               if rests then acc'\<lparr>sa_reserved_orders := sa_reserved_orders acc + 1,
                   sa_reserved_notional := dadd (sa_reserved_notional acc) (po_notional prepared)\<rparr>
               else acc')))))"

primrec submit_orders ::
  "'w Exec \<Rightarrow> order_context \<Rightarrow> bool \<Rightarrow> (nat \<times> OrderIntent) list \<Rightarrow> submission_acc \<Rightarrow> ('w, submission_acc) exec" where
  "submit_orders x ctx allow_emergency [] acc = eff_ret acc"
| "submit_orders x ctx allow_emergency (i # later) acc =
     eff_bind (eff_gets (\<lambda>s. kill_switch_active (worker_of x s))) (\<lambda>killed.
     if \<not> allow_emergency \<and> killed then eff_bind (eff_modify (set_state DEGRADED)) (\<lambda>_. eff_ret acc)
     else eff_bind (submit_intent x ctx allow_emergency (fst i) (snd i) acc) (submit_orders x ctx allow_emergency later))"

text \<open>\<open>_execute_decision\<close>; \<open>authorized\<close> says that the caller is the bound worker.\<close>

definition execute_orders ::
  "'w Exec \<Rightarrow> bool \<Rightarrow> order_context \<Rightarrow> string \<Rightarrow> OrderIntent list \<Rightarrow> bool \<Rightarrow> ('w, ExecutionOrder list) exec" where
  "execute_orders x authorized ctx action intents allow_emergency =
     eff_bind (eff_gets (\<lambda>s. connection_state (xs_adapter s))) (\<lambda>st.
     if xv_preflight_only x \<or> \<not> authorized \<or> (\<not> allow_emergency \<and> st \<noteq> READY) \<or> action = ''NOOP'' then eff_ret []
     else
       eff_bind (submit_orders x ctx allow_emergency (enumerate 0 intents)
         \<lparr>sa_executed = [], sa_reserved_orders = 0, sa_reserved_notional = 0\<rparr>) (\<lambda>acc.
       eff_gets (\<lambda>s. map (\<lambda>od. current_order od s) (sa_executed acc))))"

definition worker_gate :: "'w Exec \<Rightarrow> 'r ExecutionDecision \<Rightarrow> ('w, bool) exec" where
  "worker_gate x d =
     eff_bind (now_of x) (\<lambda>clock.
     eff_bind (eff_gets (worker_of x)) (\<lambda>w.
     eff_bind (gate_passed (decision_gate_check (xv_environ x) clock w d)) (\<lambda>r. eff_ret (r \<noteq> None))))"

text \<open>The gate is asked before and after the lock is acquired.\<close>

definition execute_decision :: "'w Exec \<Rightarrow> bool \<Rightarrow> 'r ExecutionDecision \<Rightarrow> ('w, ExecutionOrder list) exec" where
  "execute_decision x authorized d =
     (if xv_preflight_only x \<or> \<not> authorized then eff_ret []
      else
        eff_bind (worker_gate x d) (\<lambda>allowed.
        if \<not> allowed then eff_ret []
        else
          eff_bind (worker_gate x d) (\<lambda>allowed'.
          if \<not> allowed' then eff_ret []
          else execute_orders x authorized (context_of d) (ed_action d) (ed_orders d) False)))"

section \<open>Cancellation\<close>

definition cancelled_status :: "json \<Rightarrow> bool" where
  "cancelled_status v = (v = JStr ''CANCELED'' \<or> v = JStr ''CANCELLED'')"

definition query_order_status :: "'w Exec \<Rightarrow> string \<Rightarrow> string \<Rightarrow> ('w, json) exec" where
  "query_order_status x symbol client_order_id =
     eff_catch (rest x (GetOrderByClient (upper symbol) client_order_id))
       (\<lambda>e. if e = BinanceDefinitiveRejection (- 2013) then eff_ret JNull else eff_raise e)"

text \<open>The status of an order as the exchange reports it, noted in the ledger.\<close>

definition note_order_status :: "string \<Rightarrow> json \<Rightarrow> ('w, unit) exec" where
  "note_order_status client_order_id order_status =
     (if order_status = JNull then eff_ret ()
      else
        eff_bind (eff_gets (\<lambda>s. get_order_by_client_id (rc_ledger (xs_recon s)) client_order_id)) (\<lambda>found.
        case found of
          None \<Rightarrow> eff_ret ()
        | Some od \<Rightarrow>
            eff_bind (eff_lift id (as_fields order_status)) (\<lambda>d.
            if \<not> json_truthy (json_get d ''status'') then eff_ret ()
            else with_ledger (upsert_order (od\<lparr>eo_status := py_str (json_get d ''status''),
              eo_exchange_order_id := (if json_get d ''orderId'' = JNull then eo_exchange_order_id od
                else Some (py_str (json_get d ''orderId'')))\<rparr>)))))"

definition resolve_ambiguous_cancel :: "'w Exec \<Rightarrow> string \<Rightarrow> string \<Rightarrow> ('w, json option) exec" where
  "resolve_ambiguous_cancel x symbol client_order_id =
     eff_bind (eff_modify (set_state RECONCILING)) (\<lambda>_.
     eff_bind (eff_catch
       (eff_bind (query_order_status x symbol client_order_id) (\<lambda>order_status.
        eff_catch (eff_bind (note_order_status client_order_id order_status) (\<lambda>_. eff_ret (Some (order_status, True))))
          (\<lambda>e. if e = BinanceAuthenticationError then eff_raise e else eff_ret (Some (order_status, True)))))
       (\<lambda>e. if e = BinanceAuthenticationError then eff_bind (eff_modify invalidate_authentication) (\<lambda>_. eff_ret None)
            else eff_ret (Some (JNull, False)))) (\<lambda>r.
     case r of
       None \<Rightarrow> eff_ret None
     | Some (order_status, known) \<Rightarrow>
         eff_bind (reconciled x) (\<lambda>sync_result.
         eff_bind (eff_gets (\<lambda>s. known \<and> verified_now sync_result s)) (\<lambda>ok.
         eff_bind (settle ok) (\<lambda>_.
         eff_ret (if order_status = JNull then None else Some order_status))))))"

definition cancel_resolved :: "'w Exec \<Rightarrow> string \<Rightarrow> string \<Rightarrow> ('w, bool) exec" where
  "cancel_resolved x symbol client_order_id =
     eff_bind (resolve_ambiguous_cancel x symbol client_order_id) (\<lambda>resolved.
     eff_bind (eff_gets (\<lambda>s. connection_state (xs_adapter s))) (\<lambda>st.
     case resolved of
       None \<Rightarrow> eff_ret False
     | Some j \<Rightarrow> if st \<noteq> READY then eff_ret False
                 else eff_bind (eff_lift id (as_fields j)) (\<lambda>d. eff_ret (cancelled_status (json_get d ''status'')))))"

text \<open>The response to a cancellation names the order that was cancelled.\<close>

definition cancel_confirmed :: "json \<Rightarrow> string \<Rightarrow> bool" where
  "cancel_confirmed response client_order_id =
     (case response of
        JObject d \<Rightarrow> json_get d ''status'' = JStr ''CANCELED''
          \<and> (json_missing (json_get d ''clientOrderId'') \<or> json_get d ''clientOrderId'' = JStr client_order_id)
          \<and> \<not> (json_missing (json_get d ''clientOrderId'') \<and> json_missing (json_get d ''orderId''))
      | _ \<Rightarrow> False)"

definition cancel_order_body :: "'w Exec \<Rightarrow> string \<Rightarrow> string \<Rightarrow> ('w, bool) exec" where
  "cancel_order_body x symbol client_order_id =
     eff_bind (rest x (DeleteOrderByClient (upper symbol) client_order_id)) (\<lambda>response.
     if \<not> cancel_confirmed response client_order_id then cancel_resolved x symbol client_order_id
     else
       eff_bind (eff_gets (\<lambda>s. get_order_by_client_id (rc_ledger (xs_recon s)) client_order_id)) (\<lambda>found.
       eff_bind (case found of None \<Rightarrow> eff_ret () | Some od \<Rightarrow> with_ledger (upsert_order (od\<lparr>eo_status := ''CANCELED''\<rparr>))) (\<lambda>_.
       eff_bind (eff_modify (set_last_status ''UNKNOWN'')) (\<lambda>_.
       eff_bind (reconciled x) (\<lambda>sync_result.
       eff_bind (eff_gets (verified_now sync_result)) settle)))))"

definition cancel_order_failed :: "'w Exec \<Rightarrow> string \<Rightarrow> string \<Rightarrow> rec_error \<Rightarrow> ('w, bool) exec" where
  "cancel_order_failed x symbol client_order_id e =
     (case e of
        BinanceAuthenticationError \<Rightarrow> eff_bind (eff_modify invalidate_authentication) (\<lambda>_. eff_ret False)
      | BinanceDefinitiveRejection code \<Rightarrow> cancel_resolved x symbol client_order_id
      | BinanceTransportAmbiguity why \<Rightarrow> cancel_resolved x symbol client_order_id
      | _ \<Rightarrow> eff_bind (eff_modify (set_state DEGRADED)) (\<lambda>_. eff_ret False))"

definition cancel_order :: "'w Exec \<Rightarrow> bool \<Rightarrow> string \<Rightarrow> string \<Rightarrow> ('w, bool) exec" where
  "cancel_order x authorized symbol client_order_id =
     (if xv_preflight_only x \<or> \<not> authorized then eff_ret False
      else
        eff_bind (eff_gets (\<lambda>s. kill_switch_active (worker_of x s) \<or> connection_state (xs_adapter s) \<noteq> READY)) (\<lambda>blocked.
        if blocked then eff_ret False
        else eff_catch (cancel_order_body x symbol client_order_id) (cancel_order_failed x symbol client_order_id)))"

text \<open>The answer of the kill switch's cancellation.\<close>

datatype cancel_result = CancelBlocked | CancelUnknown string | CancelPartial nat nat | CancelConfirmed

text \<open>One open order: the number of failures it adds; authentication failures end the loop.\<close>

definition cancel_open_order :: "'w Exec \<Rightarrow> json \<Rightarrow> ('w, nat) exec" where
  "cancel_open_order x j =
     eff_bind (eff_lift id (as_fields j)) (\<lambda>d.
     if symbol_text d = [] \<or> json_missing (json_get d ''orderId'') then eff_ret 1
     else
       eff_catch
         (eff_bind (rest x (DeleteOrderById (upper (symbol_text d)) (json_get d ''orderId''))) (\<lambda>response.
          eff_ret (case response of
              JObject r \<Rightarrow> if upper_field r ''status'' [] \<in> {''CANCELED'', ''CANCELLED''} then 0 else 1
            | _ \<Rightarrow> 1)))
         (\<lambda>e. if e = BinanceAuthenticationError then eff_raise e else eff_ret 1))"

primrec cancel_open_orders :: "'w Exec \<Rightarrow> json list \<Rightarrow> ('w, nat) exec" where
  "cancel_open_orders x [] = eff_ret 0"
| "cancel_open_orders x (j # js) =
     eff_bind (cancel_open_order x j) (\<lambda>n. eff_bind (cancel_open_orders x js) (\<lambda>k. eff_ret (n + k)))"

definition cancel_all_open_orders :: "'w Exec \<Rightarrow> bool \<Rightarrow> ('w, cancel_result) exec" where
  "cancel_all_open_orders x authorized =
     (if xv_preflight_only x then eff_ret CancelBlocked
      else if \<not> authorized then eff_ret (CancelUnknown ''Worker authority is required'')
      else
        eff_catch
          (eff_bind (rest x GetOpenOrders) (\<lambda>open_orders.
           case open_orders of
             JList os \<Rightarrow>
               eff_bind (cancel_open_orders x os) (\<lambda>failures.
               eff_bind (rest x GetOpenOrders) (\<lambda>remaining.
               eff_ret (case remaining of
                   JList rs \<Rightarrow> if rs \<noteq> [] \<or> failures > 0 then CancelPartial (length rs) failures else CancelConfirmed
                 | _ \<Rightarrow> CancelUnknown ''Open-order verification response is invalid'')))
           | _ \<Rightarrow> eff_ret (CancelUnknown ''openOrders response is invalid'')))
          (\<lambda>e. if e = BinanceAuthenticationError
               then eff_bind (eff_modify invalidate_authentication) (\<lambda>_. eff_ret (CancelUnknown ''authentication failed''))
               else eff_ret (CancelUnknown ''could not be verified'')))"

section \<open>Amendment\<close>

definition amendment_risk :: "ExecutionOrder \<Rightarrow> rat \<Rightarrow> rat \<Rightarrow> EconomicRiskClass" where
  "amendment_risk existing price quantity =
     (if dmul quantity price > dmul (eo_quantity existing) (eo_price existing) then INCREASE_RISK else RECOVERY)"

definition amendment_intent :: "ExecutionOrder \<Rightarrow> string \<Rightarrow> string \<Rightarrow> rat \<Rightarrow> rat \<Rightarrow> int \<Rightarrow> OrderIntent" where
  "amendment_intent existing symbol client_order_id price quantity now =
     \<lparr>oi_client_order_id = client_order_id, oi_symbol = upper symbol, oi_market_type = eo_market_type existing,
      oi_side = eo_side existing, oi_position_side = eo_position_side existing, oi_order_type = LIMIT,
      oi_time_in_force = eo_time_in_force existing, oi_quantity = Fin quantity, oi_price = Some (Fin price),
      oi_reduce_only = eo_reduce_only existing, oi_post_only = False, oi_strategy_id = eo_strategy_id existing,
      oi_source_intent_ids = eo_source_intent_ids existing, oi_created_at = Aware now\<rparr>"

definition amendment_decision :: "ExecutionOrder \<Rightarrow> OrderIntent \<Rightarrow> PreparedOrder \<Rightarrow> EconomicRiskClass \<Rightarrow> int \<Rightarrow> unit ExecutionDecision" where
  "amendment_decision existing intent prepared risk now =
     \<lparr>decision_id = (case eo_decision_id existing of Some i \<Rightarrow> if i \<noteq> [] then i else ''AMEND-'' @ oi_client_order_id intent
          | None \<Rightarrow> ''AMEND-'' @ oi_client_order_id intent),
      ed_symbol = po_symbol prepared, ed_action = ''AMEND_ORDER'', ed_risk_class = risk, ed_orders = [intent], ed_rational = (),
      net_exposure_delta = 0, ed_timestamp = Aware now,
      ed_target_exposure_id = (case eo_target_exposure_id existing of Some t \<Rightarrow> t | None \<Rightarrow> []),
      ed_source_intent_ids = eo_source_intent_ids existing\<rparr>"

text \<open>The request of an amendment, after the gates; unlike an order it sends no type, written as an empty one.\<close>

definition amend_request ::
  "'w Exec \<Rightarrow> OrderIntent \<Rightarrow> PreparedOrder \<Rightarrow> order_context \<Rightarrow> ('w, ExecutionOrder option) exec" where
  "amend_request x intent prepared ctx =
     eff_bind (assert_execution_lease x (oc_risk ctx)) (\<lambda>_.
     eff_bind (eff_gets (\<lambda>s. ad_hedge_mode (xs_adapter s))) (\<lambda>hedge.
     eff_bind (rest x (PutOrder ((order_request hedge intent prepared (oi_client_order_id intent))\<lparr>op_type := []\<rparr>))) (\<lambda>response.
     eff_bind (now_of x) (\<lambda>clock.
     eff_bind (eff_lift id (order_from_response intent response prepared (oi_client_order_id intent) ctx False (clock 0))) (\<lambda>amended.
     eff_bind (with_ledger (upsert_order amended)) (\<lambda>_.
     eff_bind (post_mutation_reconcile x amended response) (\<lambda>verified.
     eff_gets (\<lambda>s. if verified then Some (current_order amended s) else None))))))))"

definition amend_failed ::
  "'w Exec \<Rightarrow> OrderIntent \<Rightarrow> PreparedOrder \<Rightarrow> order_context \<Rightarrow> rec_error \<Rightarrow> ('w, ExecutionOrder option) exec" where
  "amend_failed x intent prepared ctx e =
     (case e of
        BinanceAuthenticationError \<Rightarrow> eff_bind (eff_modify invalidate_authentication) (\<lambda>_. eff_ret None)
      | BinanceDefinitiveRejection code \<Rightarrow> eff_ret None
      | BinanceRateLimitError \<Rightarrow> eff_ret None
      | BinanceTimestampError \<Rightarrow> eff_ret None
      | BinanceTransportAmbiguity why \<Rightarrow> resolve_ambiguous_order x intent prepared (oi_client_order_id intent) ctx
      | _ \<Rightarrow> eff_bind (eff_modify (set_state DEGRADED)) (\<lambda>_. eff_ret None))"

text \<open>The order that may be amended, with the requested price and quantity.\<close>

definition amendable :: "'w ExecState \<Rightarrow> string \<Rightarrow> decimal \<Rightarrow> decimal \<Rightarrow> string \<Rightarrow> (ExecutionOrder \<times> rat \<times> rat) option" where
  "amendable s client_order_id new_price new_qty side =
     (case (get_order_by_client_id (rc_ledger (xs_recon s)) client_order_id, new_price, new_qty) of
        (Some existing, Fin p, Fin q) \<Rightarrow>
          if connection_state (xs_adapter s) = READY \<and> upper (eo_status existing) \<in> {''NEW'', ''PARTIALLY_FILLED''}
             \<and> OrderSide_of side = Some (eo_side existing) \<and> p > 0 \<and> q > 0 \<and> eo_quantity existing > 0 \<and> eo_price existing > 0
          then Some (existing, p, q) else None
      | _ \<Rightarrow> None)"

definition modify_order :: "'w Exec \<Rightarrow> bool \<Rightarrow> string \<Rightarrow> string \<Rightarrow> decimal \<Rightarrow> decimal \<Rightarrow> string \<Rightarrow> ('w, ExecutionOrder option) exec" where
  "modify_order x authorized symbol client_order_id new_price new_qty side =
     (if xv_preflight_only x \<or> \<not> authorized then eff_ret None
      else
        eff_bind (eff_gets (\<lambda>s. if kill_switch_active (worker_of x s) then None else amendable s client_order_id new_price new_qty side)) (\<lambda>found.
        case found of
          None \<Rightarrow> eff_ret None
        | Some (existing, p, q) \<Rightarrow>
            eff_bind (now_of x) (\<lambda>clock.
            let risk = amendment_risk existing p q; intent = amendment_intent existing symbol client_order_id p q (clock 0) in
            eff_bind (run_order_gate x intent risk 0 0 (Some client_order_id) (eo_reduce_only existing) False) (\<lambda>r.
            eff_bind (gate_passed r) (\<lambda>passed.
            case passed of
              None \<Rightarrow> eff_ret None
            | Some prepared \<Rightarrow>
                let d = amendment_decision existing intent prepared risk (clock 1);
                    ctx = (context_of d)\<lparr>oc_target := eo_target_exposure_id existing\<rparr>
                in
                eff_bind (worker_gate x d) (\<lambda>allowed.
                if \<not> allowed then eff_ret None
                else eff_catch (amend_request x intent prepared ctx) (amend_failed x intent prepared ctx)))))))"

section \<open>Emergency flattening\<close>

definition emergency_intent :: "'w Exec \<Rightarrow> string \<Rightarrow> rat \<Rightarrow> PositionSide \<Rightarrow> nat \<Rightarrow> int \<Rightarrow> OrderIntent" where
  "emergency_intent x symbol amount position_side attempted now =
     \<lparr>oi_client_order_id = generate_client_order_id x ''EMERGENCY'' symbol attempted, oi_symbol = symbol,
      oi_market_type = USDM_FUTURES, oi_side = (if amount > 0 then SELL else BUY), oi_position_side = position_side,
      oi_order_type = MARKET, oi_time_in_force = GTC, oi_quantity = Fin (dabs amount), oi_price = None, oi_reduce_only = True,
      oi_post_only = False, oi_strategy_id = ''portfolio'', oi_source_intent_ids = [], oi_created_at = Aware now\<rparr>"

definition emergency_context :: "string \<Rightarrow> order_context" where
  "emergency_context symbol = \<lparr>oc_decision_id = ''EMERGENCY-'' @ symbol, oc_risk = EMERGENCY, oc_target = None, oc_sources = []\<rparr>"

text \<open>The positions one by one; the result says whether the loop came to its end.\<close>

primrec flatten_positions ::
  "'w Exec \<Rightarrow> bool \<Rightarrow> string option \<Rightarrow> json list \<Rightarrow> nat \<Rightarrow> ExecutionOrder list \<Rightarrow> ('w, bool \<times> nat \<times> ExecutionOrder list) exec" where
  "flatten_positions x authorized only [] attempted flattened = eff_ret (True, attempted, flattened)"
| "flatten_positions x authorized only (j # js) attempted flattened =
     eff_bind (eff_lift id (as_fields j)) (\<lambda>d.
     let sy = upper (symbol_text d) in
     case (json_decimal (json_get_or d ''positionAmt'' (JStr ''0'')), PositionSide_of (upper_field d ''positionSide'' ''BOTH'')) of
       (Some (Fin amount), Some side) \<Rightarrow>
         if sy = [] \<or> amount = 0 \<or> (\<exists>w \<in> set_option only. w \<noteq> [] \<and> sy \<noteq> upper w)
         then flatten_positions x authorized only js attempted flattened
         else
           eff_bind (now_of x) (\<lambda>clock.
           eff_bind (execute_orders x authorized (emergency_context sy) ''CLOSE_POSITION''
             [emergency_intent x sy amount side (Suc attempted) (clock 0)] True) (\<lambda>ods.
           flatten_positions x authorized only js (Suc attempted) (flattened @ ods)))
     | (Some _, Some _) \<Rightarrow> eff_raise (Py InvalidOperation)
     | _ \<Rightarrow> eff_ret (False, attempted, flattened))"

definition emergency_verdict :: "string \<Rightarrow> nat \<Rightarrow> nat \<Rightarrow> 'w ExecState \<Rightarrow> 'w ExecState" where
  "emergency_verdict sync_result attempted flattened s =
     (if verified_now sync_result s \<and> attempted \<le> flattened
      then set_state READY (s\<lparr>xs_emergency := EmergencyConfirmed flattened\<rparr>)
      else if flattened > 0 \<or> attempted > 0 then set_state DEGRADED (s\<lparr>xs_emergency := EmergencyPartial flattened attempted\<rparr>)
      else s\<lparr>xs_emergency := (if sync_result = ''IN_SYNC'' \<and> authenticated (adapter_view s) then EmergencyConfirmed 0 else EmergencyUnknown)\<rparr>)"

definition emergency_flatten :: "'w Exec \<Rightarrow> bool \<Rightarrow> string option \<Rightarrow> ('w, ExecutionOrder list) exec" where
  "emergency_flatten x authorized only =
     (let unknown = eff_modify (\<lambda>s. s\<lparr>xs_emergency := EmergencyUnknown\<rparr>); stop = eff_bind unknown (\<lambda>_. eff_ret []) in
      if xv_preflight_only x then eff_bind (eff_modify (\<lambda>s. s\<lparr>xs_emergency := EmergencyBlocked\<rparr>)) (\<lambda>_. eff_ret [])
      else if \<not> authorized then stop
      else
        eff_bind unknown (\<lambda>_.
        eff_bind (eff_catch (rest x GetPositionRisk)
          (\<lambda>e. eff_bind (if e = BinanceAuthenticationError then eff_modify invalidate_authentication else eff_ret ()) (\<lambda>_. eff_ret JNull))) (\<lambda>answer.
        case answer of
          JList ps \<Rightarrow>
            eff_bind (eff_catch (eff_bind (with_ledger_res (replace_positions (map Raw ps) False)) (\<lambda>_. eff_ret True))
              (\<lambda>_. eff_bind (eff_modify (\<lambda>s. set_state DEGRADED (set_last_status ''UNKNOWN'' s))) (\<lambda>_. eff_ret False))) (\<lambda>valid.
            if \<not> valid then stop
            else
              eff_bind (flatten_positions x authorized only ps 0 []) (\<lambda>(complete, attempted, flattened).
              if \<not> complete then eff_bind unknown (\<lambda>_. eff_ret flattened)
              else
                eff_bind (reconciled x) (\<lambda>sync_result.
                eff_bind (eff_modify (emergency_verdict sync_result attempted (length flattened))) (\<lambda>_.
                eff_gets (\<lambda>s. map (\<lambda>od. current_order od s) flattened)))))
        | _ \<Rightarrow> stop)))"

section \<open>Events of the private stream\<close>

definition forget_snapshot :: "ReconciliationDiff list option \<Rightarrow> ('w, unit) exec" where
  "forget_snapshot ds =
     eff_bind (with_ledger (set_account_snapshot None)) (\<lambda>_.
     eff_modify (\<lambda>s. set_last_status ''UNKNOWN''
       (case ds of None \<Rightarrow> s | Some xs \<Rightarrow> s\<lparr>xs_recon := (xs_recon s)\<lparr>rc_diffs := xs\<rparr>\<rparr>)))"

text \<open>The fill of a trade event; \<open>None\<close> is an event with unusable fields, which is ignored.\<close>

definition event_fill :: "string \<Rightarrow> ExecutionOrder \<Rightarrow> string \<Rightarrow> string \<Rightarrow> jfields \<Rightarrow> ExchangeFill option" where
  "event_fill label od symbol client_order_id d =
     (let number = (\<lambda>field. finite_of (json_decimal (json_get d field))) in
      if list_ex (\<lambda>f. json_missing (json_get d f)) [''t'', ''i'', ''l'', ''L'', ''n'', ''N'', ''rp'', ''m'', ''T''] then None
      else (case (OrderSide_of (py_str (json_get d ''S'')), PositionSide_of (py_str (json_get_or d ''ps'' (JStr ''BOTH''))),
                  number ''l'', number ''L'', number ''n'', number ''rp'') of
          (Some side, Some position_side, Some quantity, Some price, Some commission, Some realized_pnl) \<Rightarrow>
            if quantity \<le> 0 \<or> price \<le> 0 \<or> commission < 0 then None
            else Some \<lparr>exchange_trade_id = py_str (json_get d ''t''), ef_exchange_order_id = py_str (json_get d ''i''),
              ef_client_order_id = client_order_id, ef_symbol = symbol, ef_side = side, ef_position_side = position_side,
              ef_quantity = quantity, ef_price = price, ef_commission = commission,
              ef_commission_asset = py_str (json_get d ''N''), ef_realized_pnl = realized_pnl,
              ef_maker = exchange_bool (json_get_or d ''m'' (JBool False)), ef_source = label,
              ef_strategy_id = eo_strategy_id od, ef_decision_id = eo_decision_id od,
              ef_target_exposure_id = eo_target_exposure_id od, ef_source_intent_ids = eo_source_intent_ids od\<rparr>
        | _ \<Rightarrow> None))"

definition on_order_update :: "'w Exec \<Rightarrow> jfields \<Rightarrow> ('w, unit) exec" where
  "on_order_update x event =
     eff_bind (eff_lift id (as_fields (json_get_or event ''o'' (JObject [])))) (\<lambda>d.
     let symbol = upper (py_str (json_get_or d ''s'' (JStr []))); client_order_id = py_str (json_get_or d ''c'' (JStr [])) in
     if symbol = [] \<or> client_order_id = [] then eff_ret ()
     else
       eff_bind (now_of x) (\<lambda>clock.
       eff_bind (eff_modify (\<lambda>s. s\<lparr>xs_order_event_at := (xs_order_event_at s)(client_order_id \<mapsto> Aware (clock 0))\<rparr>)) (\<lambda>_.
       eff_bind (eff_gets (\<lambda>s. get_order_by_client_id (rc_ledger (xs_recon s)) client_order_id)) (\<lambda>found.
       case found of
         None \<Rightarrow>
           forget_snapshot (Some [diff EXCHANGE_ORDER_EVENT_UNKNOWN_LOCALLY symbol (Some (VText client_order_id))
             (Some (VText (py_str (json_or (json_get d ''i'') (JStr ''UNKNOWN'')))))])
       | Some od \<Rightarrow>
           eff_bind (with_ledger (upsert_order (od\<lparr>eo_status := py_str (json_get_or d ''X'' (JStr ''UNKNOWN'')),
             eo_exchange_order_id := (if json_get d ''i'' = JNull then eo_exchange_order_id od else Some (py_str (json_get d ''i'')))\<rparr>))) (\<lambda>_.
           eff_bind (forget_snapshot None) (\<lambda>_.
           if json_get d ''x'' \<noteq> JStr ''TRADE'' then eff_ret ()
           else
             eff_bind (eff_gets (\<lambda>s. environment_label (xs_env s))) (\<lambda>label.
             case event_fill label od symbol client_order_id d of
               None \<Rightarrow> eff_ret ()
             | Some fill \<Rightarrow> with_ledger (append_fill fill))))))))"

text \<open>A position event is a delta: fields it lacks are taken from the position the ledger holds.\<close>

definition previous_values :: "ExchangePosition \<Rightarrow> (string \<times> json) list" where
  "previous_values p =
     [(''entryPrice'', JStr (decimal_str (Fin (ep_entry_price p)))), (''unRealizedProfit'', JStr (decimal_str (Fin (ep_unrealized_pnl p)))),
      (''marginType'', JStr (ep_margin_type p)), (''leverage'', JStr (decimal_str (Fin (ep_leverage p))))]
     @ (case ep_mark_price p of Some m \<Rightarrow> [(''markPrice'', JStr (decimal_str (Fin m)))] | None \<Rightarrow> [])
     @ (case ep_liquidation_price p of Some m \<Rightarrow> [(''liquidationPrice'', JStr (decimal_str (Fin m)))] | None \<Rightarrow> [])"

definition merged_position :: "string \<Rightarrow> jfields \<Rightarrow> string \<Rightarrow> string \<Rightarrow> ExchangePosition option \<Rightarrow> jfields" where
  "merged_position label d symbol position_side existing =
     (let base = [(''symbol'', JStr symbol), (''positionSide'', JStr position_side), (''positionAmt'', json_get d ''pa''),
            (''entryPrice'', json_get d ''ep''), (''unRealizedProfit'', json_get d ''up''), (''marginType'', json_get d ''mt''),
            (''source'', JStr label)]
      in case existing of
           None \<Rightarrow> base
         | Some p \<Rightarrow> foldl (\<lambda>m (k, v). if json_missing (json_get m k) then AList.update k v m else m) base (previous_values p))"

definition on_position_update :: "json \<Rightarrow> ('w, ReconciliationDiff list) exec" where
  "on_position_update j =
     (case j of
        JObject d \<Rightarrow>
          let symbol = upper (py_str (json_get_or d ''s'' (JStr []))); side = upper (py_str (json_or (json_get d ''ps'') (JStr []))) in
          if symbol = [] \<or> side = [] \<or> json_missing (json_get d ''pa'') then
            eff_ret [\<lparr>rd_code = ACCOUNT_POSITION_UPDATE_INCOMPLETE, rd_symbol = (if symbol = [] then None else Some symbol),
              rd_local = None, rd_exchange = Some (VText ''symbol_positionSide_positionAmt_required'')\<rparr>]
          else
            eff_bind (eff_gets (\<lambda>s. (environment_label (xs_env s),
              find (\<lambda>p. upper (ep_symbol p) = symbol \<and> position_side_value (ep_position_side p) = side) (positions (rc_ledger (xs_recon s)))))) (\<lambda>(label, existing).
            eff_catch (eff_bind (with_ledger_res (upsert_position (Raw (JObject (merged_position label d symbol side existing))))) (\<lambda>_. eff_ret []))
              (\<lambda>e. eff_ret [diff ACCOUNT_POSITION_UPDATE_INCOMPLETE symbol None (Some (VError e))]))
      | _ \<Rightarrow> eff_ret [\<lparr>rd_code = ACCOUNT_POSITION_UPDATE_INVALID, rd_symbol = None, rd_local = None,
          rd_exchange = Some (VText ''position_not_object'')\<rparr>])"

definition balance_diffs :: "json \<Rightarrow> ReconciliationDiff list" where
  "balance_diffs j =
     (let bad = (\<lambda>code sy why. [\<lparr>rd_code = code, rd_symbol = sy, rd_local = None, rd_exchange = Some (VText why)\<rparr>]) in
      case j of
        JObject d \<Rightarrow>
          let asset = upper (py_str (json_or (json_get d ''a'') (JStr []))); sy = (if asset = [] then None else Some asset) in
          if list_ex (\<lambda>f. json_missing (json_get d f)) [''a'', ''wb'', ''cw''] then bad ACCOUNT_BALANCE_UPDATE_INCOMPLETE None ''missing''
          else (case (json_decimal (json_get d ''wb''), json_decimal (json_get d ''cw'')) of
              (Some (Fin _), Some (Fin _)) \<Rightarrow> []
            | (Some _, Some _) \<Rightarrow> bad ACCOUNT_BALANCE_UPDATE_INVALID sy ''wallet_or_cross_wallet_not_finite''
            | _ \<Rightarrow> bad ACCOUNT_BALANCE_UPDATE_INVALID sy ''wallet_or_cross_wallet_not_decimal'')
      | _ \<Rightarrow> bad ACCOUNT_BALANCE_UPDATE_INVALID None ''balance_not_object'')"

text \<open>The items of a list field, or a difference.\<close>

definition update_items :: "jfields \<Rightarrow> string \<Rightarrow> diff_code \<Rightarrow> string \<Rightarrow> json list \<times> ReconciliationDiff list" where
  "update_items d field code why =
     (case json_get_or d field (JList []) of
        JList xs \<Rightarrow> (xs, [])
      | _ \<Rightarrow> ([], [\<lparr>rd_code = code, rd_symbol = None, rd_local = None, rd_exchange = Some (VText why)\<rparr>]))"

definition on_account_update :: "jfields \<Rightarrow> ('w, unit) exec" where
  "on_account_update event =
     (case json_get_or event ''a'' (JObject []) of
        JObject d \<Rightarrow>
          let (ps, pd) = update_items d ''P'' ACCOUNT_POSITION_UPDATE_INVALID ''positions_not_list'';
              (bs, bd) = update_items d ''B'' ACCOUNT_BALANCE_UPDATE_INVALID ''balances_not_list''
          in
          eff_bind (eff_map on_position_update ps) (\<lambda>ds.
          forget_snapshot (Some (pd @ concat ds @ bd @ concat (map balance_diffs bs))))
      | _ \<Rightarrow> forget_snapshot (Some [\<lparr>rd_code = ACCOUNT_UPDATE_INVALID, rd_symbol = None, rd_local = None,
          rd_exchange = Some (VText ''account_update_data_not_object'')\<rparr>]))"

definition on_ws_event :: "'w Exec \<Rightarrow> json \<Rightarrow> ('w, unit) exec" where
  "on_ws_event x event =
     (case event of
        JObject d \<Rightarrow>
          if json_get d ''e'' = JStr ''ORDER_TRADE_UPDATE'' then on_order_update x d
          else if json_get d ''e'' = JStr ''ACCOUNT_UPDATE'' then on_account_update d
          else eff_ret ()
      | _ \<Rightarrow> eff_ret ())"

section \<open>Connection\<close>

text \<open>A reconciliation whose outcome decides the connection state; what the reconciler learnt about
  authentication is taken over.\<close>

definition sync_and_settle :: "'w Exec \<Rightarrow> ('w, bool) exec" where
  "sync_and_settle x =
     eff_bind (reconciled x) (\<lambda>sync_result.
     eff_bind (eff_modify (\<lambda>s. if rc_authentication_failed (xs_recon s) then invalidate_authentication s else s)) (\<lambda>_.
     eff_bind (eff_gets (verified_now sync_result)) settle))"

definition on_user_stream_disconnect :: "'w Exec \<Rightarrow> ('w, unit) exec" where
  "on_user_stream_disconnect x =
     eff_bind (eff_modify (set_state DEGRADED)) (\<lambda>_.
     eff_bind (reconciled x) (\<lambda>_.
     eff_modify (\<lambda>s. if rc_authentication_failed (xs_recon s) then invalidate_authentication s else s)))"

definition on_user_stream_reconnected :: "'w Exec \<Rightarrow> ('w, bool) exec" where
  "on_user_stream_reconnected x = eff_bind (eff_modify (set_state SYNCING)) (\<lambda>_. sync_and_settle x)"

text \<open>Capability discovery and the start of the stream are parameters: each may raise, and each may
  change the adapter's capabilities and the stream's verdict.\<close>

definition connect ::
  "'w Exec \<Rightarrow> ('w, unit) exec \<Rightarrow> ('w, bool) exec \<Rightarrow> ('w, bool) exec \<Rightarrow> ('w, bool) exec" where
  "connect x init_session discover start_stream =
     eff_bind (eff_modify (set_state CONNECTING)) (\<lambda>_.
     eff_catch
       (eff_bind init_session (\<lambda>_.
        eff_bind (eff_modify (set_state AUTHENTICATING)) (\<lambda>_.
        eff_bind discover (\<lambda>found.
        if \<not> found then settle False
        else
          eff_bind (eff_modify (set_state STREAM_STARTING)) (\<lambda>_.
          eff_bind start_stream (\<lambda>started.
          if \<not> started then settle False
          else eff_bind (eff_modify (set_state SYNCING)) (\<lambda>_. sync_and_settle x)))))))
       (\<lambda>_. eff_bind (eff_modify invalidate_authentication) (\<lambda>_. eff_ret False)))"

definition arm ::
  "'w Exec \<Rightarrow> ('w, unit) exec \<Rightarrow> ('w, bool) exec \<Rightarrow> ('w, bool) exec \<Rightarrow> ('w, bool) exec" where
  "arm x init_session discover start_stream =
     (if xv_preflight_only x then eff_ret False else connect x init_session discover start_stream)"

end
