(* ===== verification/ExecutionLog.thy ===== *)
theory ExecutionLog
  imports Execution ReconcileSafety
begin

text \<open>
  The requests that the adapter sends, observed through the world. A predicate on the world that
  survives every request which reads (\<open>reads_keep\<close>) survives the whole of reconciliation, price
  discovery and ambiguity resolution; only the submission, the amendment and the cancellation of an
  order send anything else.
\<close>

named_theorems world_rules

definition is_mutation :: "rest_call \<Rightarrow> bool" where
  "is_mutation c = (case c of PostOrder _ \<Rightarrow> True | PutOrder _ \<Rightarrow> True | DeleteOrderById _ _ \<Rightarrow> True
     | DeleteOrderByClient _ _ \<Rightarrow> True | _ \<Rightarrow> False)"

lemma is_mutation_simps [simp]:
  "\<not> is_mutation GetPositionRisk" "\<not> is_mutation GetOpenOrders" "\<not> is_mutation GetBalance" "\<not> is_mutation GetUmAccount"
  "\<not> is_mutation GetAccount" "\<not> is_mutation (GetIncome a b n)" "\<not> is_mutation (GetOrderByClient sy c)"
  "\<not> is_mutation (GetOrderById sy i)" "\<not> is_mutation (GetTrades sy)" "\<not> is_mutation (GetOrderTrades sy c)"
  "\<not> is_mutation (GetPremiumIndex sy)" "\<not> is_mutation (GetBookTicker sy)" "is_mutation (PostOrder p)" "is_mutation (PutOrder p)"
  "is_mutation (DeleteOrderById sy j)" "is_mutation (DeleteOrderByClient sy c)"
  by (simp_all add: is_mutation_def)

section \<open>Reconciliation only reads\<close>

abbreviation world_inv :: "('w \<Rightarrow> bool) \<Rightarrow> 'w ReconState \<Rightarrow> bool" where
  "world_inv W s \<equiv> W (rc_world s)"

definition reads_keep :: "'w Venue \<Rightarrow> ('w \<Rightarrow> bool) \<Rightarrow> bool" where
  "reads_keep v W = (\<forall>c w. \<not> is_mutation c \<longrightarrow> W w \<longrightarrow> W (snd (vn_request v c w)))"

lemma reads_keep_clock [simp]: "reads_keep (v\<lparr>vn_clock := c\<rparr>) W = reads_keep v W"
  by (simp add: reads_keep_def)

lemma world_request [world_rules]: "reads_keep v W \<Longrightarrow> \<not> is_mutation c \<Longrightarrow> eff_keeps (world_inv W) (request v c)"
  by (rule eff_validI) (simp add: request_def reads_keep_def split_beta split: sum.split)

lemma world_on_ledger [world_rules]: "eff_keeps (world_inv W) (on_ledger f)"
  by (simp add: on_ledger_def eff_valid_def)

lemma world_on_ledger_res [world_rules]: "eff_keeps (world_inv W) (on_ledger_res f)"
  by (rule eff_validI) (auto simp: on_ledger_res_def split: sum.splits)

lemma world_modify: "(\<And>s. rc_world (f s) = rc_world s) \<Longrightarrow> eff_keeps (world_inv W) (eff_modify f)"
  by (simp add: eff_valid_def)

lemma world_fetch [world_rules]: "reads_keep v W \<Longrightarrow> eff_keeps (world_inv W) (fetch_reconciliation_snapshot_inputs v)"
  unfolding fetch_reconciliation_snapshot_inputs_def by (auto intro!: eff_rules world_rules split: json.splits)

lemma world_income_pages [world_rules]: "reads_keep v W \<Longrightarrow> eff_keeps (world_inv W) (income_pages v start stop n page net)"
  by (induction n arbitrary: page net) (auto intro!: eff_rules world_rules split: json.splits option.splits)

lemma world_daily [world_rules]: "reads_keep v W \<Longrightarrow> eff_keeps (world_inv W) (read_daily_realized_pnl v)"
  unfolding read_daily_realized_pnl_def by (auto intro!: eff_rules world_rules)

lemma world_fetch_and_validate [world_rules]: "reads_keep v W \<Longrightarrow> eff_keeps (world_inv W) (fetch_and_validate v)"
  unfolding fetch_and_validate_def by (auto intro!: eff_rules world_rules)

lemma world_recover_recent_trades [world_rules]:
  "reads_keep v W \<Longrightarrow> eff_keeps (world_inv W) (recover_recent_trades v symbols)"
  unfolding recover_recent_trades_def recover_trade_def Let_def
  by (auto intro!: eff_rules world_rules split: option.splits)

lemma world_recover_order_fills [world_rules]:
  "reads_keep v W \<Longrightarrow> eff_keeps (world_inv W) (recover_order_fills v od st)"
  unfolding recover_order_fills_def Let_def
  by (auto intro!: eff_rules world_rules simp: note_trade_ids_def)

lemma world_check_open_order [world_rules]:
  "reads_keep v W \<Longrightarrow> eff_keeps (world_inv W) (try_recover v od st)"
  "reads_keep v W \<Longrightarrow> eff_keeps (world_inv W) (check_open_order v od st)"
  unfolding check_open_order_def try_recover_def Let_def
  by (auto intro!: eff_rules world_rules split: option.splits)

lemma world_resolve [world_rules]: "reads_keep v W \<Longrightarrow> eff_keeps (world_inv W) (resolve_order_id v od)"
  unfolding resolve_order_id_def by (auto intro!: eff_rules world_rules split: json.splits)

lemma order_query_reads [simp]: "\<not> is_mutation (order_query od)"
  by (simp add: order_query_def)

lemma world_query_order [world_rules]: "reads_keep v W \<Longrightarrow> eff_keeps (world_inv W) (query_order v od acc)"
  unfolding query_order_def check_order_status_def Let_def
  by (auto intro!: eff_rules world_rules split: option.splits json.splits)

lemma world_check_local_orders [world_rules]:
  "reads_keep v W \<Longrightarrow> eff_keeps (world_inv W) (check_local_orders v by_id by_client ods acc)"
  by (induction ods arbitrary: acc) (auto intro!: eff_rules world_rules simp: check_local_order_def split: option.splits)

lemma world_collect_diffs [world_rules]: "reads_keep v W \<Longrightarrow> eff_keeps (world_inv W) (collect_diffs v ps os)"
  unfolding collect_diffs_def Let_def by (auto intro!: eff_rules world_rules)

lemma world_recover_and_compare [world_rules]:
  "reads_keep v W \<Longrightarrow> eff_keeps (world_inv W) (recover_and_compare v ps active os)"
  unfolding recover_and_compare_def by (auto intro!: eff_rules world_rules)

lemma world_bodies:
  assumes "reads_keep v W"
  shows "eff_keeps (world_inv W) (reconcile_body v)" "eff_keeps (world_inv W) (bootstrap_body v)"
  unfolding reconcile_body_def bootstrap_body_def bootstrap_rest_def split_beta
  by (intro assms eff_keeps_bind eff_keeps_if eff_keeps_lift eff_keeps_gets eff_keeps_each world_rules world_modify eff_valid_ret;
    simp add: set_status_def)+

lemma world_run: "eff_keeps (world_inv W) m \<Longrightarrow> W (rc_world s) \<Longrightarrow> m s = (r, s') \<Longrightarrow> W (rc_world s')"
  by (cases r) (auto dest: eff_valid_Inr eff_valid_Inl)

lemma on_failure_world [simp]: "rc_world (on_failure a b e s) = rc_world s"
  by (simp add: on_failure_def set_status_def)

lemma world_bootstrap:
  assumes "reads_keep v W" "W (rc_world s)"
  shows "W (rc_world (snd (bootstrap v s)))"
proof -
  obtain r s1 where run: "bootstrap_body v (begin_run s) = (r, s1)" by fastforce
  have "W (rc_world (begin_run s))" using assms(2) by (simp add: begin_run_def set_status_def)
  from world_run[OF world_bodies(2)[OF assms(1)] this run] show ?thesis by (cases r) (simp_all add: bootstrap_def run)
qed

lemma world_reconcile:
  assumes "reads_keep v W" "W (rc_world s)"
  shows "W (rc_world (snd (reconcile v s)))"
proof (cases "initialized (rc_ledger s)")
  case True
  obtain r s1 where run: "reconcile_body v (begin_run s) = (r, s1)" by fastforce
  have "W (rc_world (begin_run s))" using assms(2) by (simp add: begin_run_def set_status_def)
  from world_run[OF world_bodies(1)[OF assms(1)] this run] show ?thesis
    using True by (cases r) (simp_all add: reconcile_def run Let_def)
next
  case False
  then show ?thesis using world_bootstrap[OF assms(1), of "s\<lparr>rc_authentication_failed := False\<rparr>"] assms(2)
    by (simp add: reconcile_def Let_def)
qed

section \<open>The adapter's own steps\<close>

text \<open>Predicates on the world and the two settings that no step changes.\<close>

definition settings :: "'w ExecState \<Rightarrow> BinanceEnvironment \<times> bool" where
  "settings s = (ad_env (xs_adapter s), ad_hedge_mode (xs_adapter s))"

definition xinv :: "('w \<Rightarrow> bool) \<Rightarrow> BinanceEnvironment \<times> bool \<Rightarrow> 'w ExecState \<Rightarrow> bool" where
  "xinv W k s \<longleftrightarrow> W (rc_world (xs_recon s)) \<and> settings s = k"

definition quiet :: "'w Exec \<Rightarrow> ('w \<Rightarrow> bool) \<Rightarrow> bool" where
  "quiet x W \<longleftrightarrow> reads_keep (xv_venue x) W
     \<and> (\<forall>f w. xv_lease x = Some f \<longrightarrow> W w \<longrightarrow> W (snd (f w)))
     \<and> (\<forall>f od w. xv_barrier x = Some f \<longrightarrow> W w \<longrightarrow> W (snd (f od w)))
     \<and> (\<forall>f od t w. xv_notify x = Some f \<longrightarrow> W w \<longrightarrow> W (snd (f od t w)))"

named_theorems exec_rules

lemma x_modify: "(\<And>s. rc_world (xs_recon (f s)) = rc_world (xs_recon s) \<and> settings (f s) = settings s) \<Longrightarrow>
   eff_keeps (xinv W k) (eff_modify f)"
  by (simp add: eff_valid_def xinv_def)

lemma settings_simps [simp]:
  "settings (set_state c s) = settings s" "settings (set_last_status st s) = settings s" "settings (invalidate_authentication s) = settings s"
  "settings (s\<lparr>xs_submission_attempts := n\<rparr>) = settings s" "settings (s\<lparr>xs_emergency := em\<rparr>) = settings s"
  "settings (note_sample sy t p suffix s) = settings s" "settings (note_reference sy t p s) = settings s"
  "settings (note_book sy p q s) = settings s" "settings (note_depth sy p q s) = settings s"
  by (simp_all add: settings_def set_state_def set_last_status_def invalidate_authentication_def note_sample_def note_reference_def
      note_book_def note_depth_def Let_def)

lemma world_simps [simp]:
  "rc_world (xs_recon (set_state c s)) = rc_world (xs_recon s)" "rc_world (xs_recon (set_last_status st s)) = rc_world (xs_recon s)"
  "rc_world (xs_recon (invalidate_authentication s)) = rc_world (xs_recon s)"
  "rc_world (xs_recon (note_sample sy t p suffix s)) = rc_world (xs_recon s)" "rc_world (xs_recon (note_reference sy t p s)) = rc_world (xs_recon s)"
  "rc_world (xs_recon (note_book sy p q s)) = rc_world (xs_recon s)" "rc_world (xs_recon (note_depth sy p q s)) = rc_world (xs_recon s)"
  by (simp_all add: set_state_def set_last_status_def invalidate_authentication_def note_sample_def note_reference_def
      note_book_def note_depth_def Let_def)

lemma x_simple [exec_rules]:
  "eff_keeps (xinv W k) (now_of x)" "eff_keeps (xinv W k) (with_ledger f)" "eff_keeps (xinv W k) (with_ledger_res g)"
  "eff_keeps (xinv W k) (settle b)" "eff_keeps (xinv W k) (gate_passed r)"
  by (auto simp: eff_valid_def now_of_def with_ledger_def with_ledger_res_def xinv_def settings_def settle_def set_state_def
      gate_passed_def split: sum.splits gate_reason.splits)

lemma x_recon: "(\<And>c. eff_keeps (world_inv W) (f ((xv_venue x)\<lparr>vn_clock := c\<rparr>))) \<Longrightarrow>
   eff_keeps (xinv W k) (recon x f)"
  unfolding recon_def
  by (rule eff_validI) (auto simp: xinv_def settings_def split: prod.split sum.split dest: world_run)

lemma x_rest [exec_rules]: "quiet x W \<Longrightarrow> \<not> is_mutation c \<Longrightarrow> eff_keeps (xinv W k) (rest x c)"
  unfolding rest_def by (rule x_recon; rule world_request) (auto simp: quiet_def)

lemma x_recover_order_fills [exec_rules]: "quiet x W \<Longrightarrow> eff_keeps (xinv W k) (recon x (\<lambda>v. recover_order_fills v od st))"
  by (rule x_recon; rule world_recover_order_fills) (auto simp: quiet_def)

lemma x_reconciled [exec_rules]: "quiet x W \<Longrightarrow> eff_keeps (xinv W k) (reconciled x)"
  unfolding reconciled_def
  by (rule x_recon) (auto simp: eff_valid_def quiet_def split_beta intro: world_reconcile)

lemma x_on_world: "(\<And>w. W w \<Longrightarrow> W (snd (f w))) \<Longrightarrow> eff_keeps (xinv W k) (on_world f)"
  by (rule eff_validI) (auto simp: on_world_def xinv_def settings_def split_beta split: sum.split)

lemma x_notify [exec_rules]: "quiet x W \<Longrightarrow> eff_keeps (xinv W k) (notify_submission_result x od t)"
  unfolding notify_submission_result_def
  by (auto intro!: eff_rules x_on_world x_modify simp: quiet_def split: option.split)


lemma x_record_rest [exec_rules]: "eff_keeps (xinv W k) (record_rest_market_sample symbol d sample)"
  unfolding record_rest_market_sample_def Let_def
  by (auto intro!: eff_rules x_modify split: option.split)

lemma x_guarded [exec_rules]: "eff_keeps (xinv W k) m \<Longrightarrow> eff_keeps (xinv W k) (guarded_price m)"
  unfolding guarded_price_def by (auto intro!: eff_rules x_modify simp: price_failure_def)

lemma x_best_bid_ask [exec_rules]: "quiet x W \<Longrightarrow> eff_keeps (xinv W k) (get_best_bid_ask x symbol)"
  unfolding get_best_bid_ask_def Let_def
  by (auto intro!: eff_rules exec_rules split: json.split decimal.split sum.split)

lemma x_fresh_price [exec_rules]: "quiet x W \<Longrightarrow> eff_keeps (xinv W k) (get_fresh_market_price x symbol side)"
  unfolding get_fresh_market_price_def Let_def
  by (auto intro!: eff_rules exec_rules split: json.split sum.split option.split)

lemma x_run_order_gate [exec_rules]: "quiet x W \<Longrightarrow> eff_keeps (xinv W k) (run_order_gate x intent risk ro rn exc rr em)"
  unfolding run_order_gate_def Let_def
  by (auto intro!: eff_rules exec_rules split: option.split)

lemma x_query_ambiguous [exec_rules]: "quiet x W \<Longrightarrow> eff_keeps (xinv W k) (query_ambiguous x intent prepared cid ctx final)"
  unfolding query_ambiguous_def recover_ambiguous_def Let_def
  by (auto intro!: eff_rules exec_rules x_modify split: rec_error.split)

lemma x_poll_ambiguous [exec_rules]: "quiet x W \<Longrightarrow> eff_keeps (xinv W k) (poll_ambiguous x intent prepared cid ctx n)"
  by (induction n) (auto intro!: eff_rules exec_rules split: sum.split bool.split)

lemma x_resolve_ambiguous [exec_rules]: "quiet x W \<Longrightarrow> eff_keeps (xinv W k) (resolve_ambiguous_order x intent prepared cid ctx)"
  unfolding resolve_ambiguous_order_def
  by (auto intro!: eff_rules exec_rules x_modify split: option.split)

lemma x_post_mutation [exec_rules]: "quiet x W \<Longrightarrow> eff_keeps (xinv W k) (post_mutation_reconcile x od response)"
  unfolding post_mutation_reconcile_def
  by (auto intro!: eff_rules exec_rules x_modify)

lemma x_submission_failed [exec_rules]:
  "quiet x W \<Longrightarrow> eff_keeps (xinv W k) (submission_failed x intent prepared cid ctx planned attempted e)"
  unfolding submission_failed_def Let_def
  by (cases e) (auto intro!: eff_rules exec_rules x_modify split: option.split)

lemma x_worker_gate [exec_rules]: "eff_keeps (xinv W k) (worker_gate x d)"
  unfolding worker_gate_def by (auto intro!: eff_rules exec_rules)

end
