(* ===== verification/ExecutionSafety.thy ===== *)
theory ExecutionSafety
  imports ExecutionLog
begin

text \<open>
  What the execution adapter guarantees. The requests that a method sends are observed through the
  world: \<open>observes x calls\<close> says that \<open>calls\<close> records every request and that the callbacks of the worker
  send none. The properties state what every order request was preceded by, that none is repeated,
  that an order reported as executed is verified, what a confirmed cancellation means, that emergency
  orders only reduce, and that an event of the private stream revokes the trust in the account.
\<close>

section \<open>Events revoke trust\<close>

definition revoked :: "'w ExecState \<Rightarrow> bool" where
  "revoked s \<longleftrightarrow> account_snapshot (rc_ledger (xs_recon s)) = None \<and> rc_status (xs_recon s) = ''UNKNOWN''"

text \<open>The events that concern the account.\<close>

definition account_event :: "jfields \<Rightarrow> bool" where
  "account_event d =
     (json_get d ''e'' = JStr ''ACCOUNT_UPDATE''
      \<or> json_get d ''e'' = JStr ''ORDER_TRADE_UPDATE''
        \<and> (\<exists>od. json_get_or d ''o'' (JObject []) = JObject od \<and> py_str (json_get_or od ''s'' (JStr [])) \<noteq> []
             \<and> py_str (json_get_or od ''c'' (JStr [])) \<noteq> []))"

lemma forget_snapshot_run: "\<exists>s'. forget_snapshot ds s = (Inr (), s') \<and> revoked s'"
  by (cases ds) (simp_all add: forget_snapshot_def with_ledger_def set_last_status_def set_account_snapshot_def revoked_def)

lemma upper_eq_Nil [simp]: "upper t = [] \<longleftrightarrow> t = []"
  by (simp add: upper_def)

lemma on_position_update_run: "\<exists>ds s'. on_position_update j s = (Inr ds, s')"
proof (cases j)
  case (JObject d)
  show ?thesis
    unfolding on_position_update_def JObject
    by (simp add: Let_def eff_catch_def eff_bind_def with_ledger_res_def split: sum.splits)
qed (simp_all add: on_position_update_def)

lemma on_position_updates_run: "\<exists>ds s'. eff_map on_position_update ps s = (Inr ds, s')"
proof (induction ps arbitrary: s)
  case (Cons p ps)
  obtain d s1 where "on_position_update p s = (Inr d, s1)" using on_position_update_run by blast
  moreover obtain ds s2 where "eff_map on_position_update ps s1 = (Inr ds, s2)" using Cons by blast
  ultimately show ?case by simp
qed simp

lemma on_account_update_run: "\<exists>s'. on_account_update d s = (Inr (), s') \<and> revoked s'"
proof (cases "json_get_or d ''a'' (JObject [])")
  case (JObject a)
  obtain ps pd where p: "update_items a ''P'' ACCOUNT_POSITION_UPDATE_INVALID ''positions_not_list'' = (ps, pd)" by fastforce
  obtain bs bd where b: "update_items a ''B'' ACCOUNT_BALANCE_UPDATE_INVALID ''balances_not_list'' = (bs, bd)" by fastforce
  obtain ds s1 where "eff_map on_position_update ps s = (Inr ds, s1)" using on_position_updates_run by blast
  then show ?thesis using forget_snapshot_run by (simp add: on_account_update_def JObject p b)
qed (simp_all add: on_account_update_def forget_snapshot_run)

lemma append_fill_revoked: "revoked s \<Longrightarrow> revoked (snd (with_ledger (append_fill f) s))"
  using append_fill_frame(3) by (auto simp: revoked_def with_ledger_def trust_def)

lemma on_order_update_run:
  assumes "json_get_or d ''o'' (JObject []) = JObject info" "py_str (json_get_or info ''s'' (JStr [])) \<noteq> []"
    "py_str (json_get_or info ''c'' (JStr [])) \<noteq> []"
  shows "revoked (snd (on_order_update x d s))"
proof -
  define cid where "cid = py_str (json_get_or info ''c'' (JStr []))"
  define s1 where "s1 = s\<lparr>xs_epoch := Suc (xs_epoch s), xs_order_event_at := (xs_order_event_at s)(cid \<mapsto> Aware (xv_clock x (xs_epoch s) 0))\<rparr>"
  show ?thesis
  proof (cases "get_order_by_client_id (rc_ledger (xs_recon s)) cid")
    case None
    obtain ds where "on_order_update x d s = forget_snapshot (Some ds) s1"
      using assms None by (simp add: on_order_update_def as_fields_def Let_def now_of_def s1_def cid_def)
    then show ?thesis using forget_snapshot_run[of "Some ds" s1] by auto
  next
    case (Some od)
    obtain s2 where s2: "forget_snapshot None (s1\<lparr>xs_recon := (xs_recon s1)\<lparr>rc_ledger := upsert_order
        (od\<lparr>eo_status := py_str (json_get_or info ''X'' (JStr ''UNKNOWN'')), eo_exchange_order_id := (if json_get info ''i'' = JNull
          then eo_exchange_order_id od else Some (py_str (json_get info ''i'')))\<rparr>) (rc_ledger (xs_recon s1))\<rparr>\<rparr>) = (Inr (), s2)" "revoked s2"
      using forget_snapshot_run by blast
    let ?fill = "event_fill (environment_label (xs_env s2)) od (upper (py_str (json_get_or info ''s'' (JStr [])))) cid info"
    have "on_order_update x d s = (if json_get info ''x'' \<noteq> JStr ''TRADE'' then (Inr (), s2)
        else (case ?fill of None \<Rightarrow> (Inr (), s2) | Some f \<Rightarrow> with_ledger (append_fill f) s2))"
      using assms Some s2(1)
      by (simp add: on_order_update_def as_fields_def Let_def now_of_def s1_def cid_def with_ledger_def split: option.split)
    then show ?thesis using s2(2) append_fill_revoked by (auto split: option.split)
  qed
qed

lemma on_ws_event_revokes: "account_event d \<Longrightarrow> revoked (snd (on_ws_event x (JObject d) s))"
  using on_order_update_run on_account_update_run[of d s] by (auto simp: account_event_def on_ws_event_def)

text \<open>
  C23: An event of the private stream that concerns the account, an account update or an update of a
  named order, revokes all trust in the account: the snapshot is gone and the reconciliation status is
  unknown. From then on the decision gate refuses every decision of the worker, whatever its risk
  class, until a reconciliation has verified the account again.
\<close>

theorem private_event_blocks_decisions:
  fixes d :: "'r ExecutionDecision"
  assumes "account_event event" "on_ws_event x (JObject event) s = (r, s')"
  shows "account_snapshot (rc_ledger (xs_recon s')) = None \<and> rc_status (xs_recon s') = ''UNKNOWN''
    \<and> decision_gate_check env clock (worker_of x s') d \<noteq> Inr ()"
proof -
  have "revoked s'" using on_ws_event_revokes[OF assms(1), of x s] assms(2) by simp
  moreover then have "reconciliation_status (adapter_view s') \<noteq> ''IN_SYNC''" by (simp add: revoked_def adapter_view_def)
  ultimately show ?thesis
    by (auto simp: revoked_def decision_gate_check_def res_bind_eq_Inr decision_gate_worker_Inr worker_of_def)
qed

section \<open>What precedes an order request\<close>

definition observes :: "'w Exec \<Rightarrow> ('w \<Rightarrow> rest_call list) \<Rightarrow> bool" where
  "observes x calls \<longleftrightarrow> (\<forall>c w. calls (snd (vn_request (xv_venue x) c w)) = calls w @ [c])
     \<and> (\<forall>f w. xv_lease x = Some f \<longrightarrow> calls (snd (f w)) = calls w)
     \<and> (\<forall>f od w. xv_barrier x = Some f \<longrightarrow> calls (snd (f od w)) = calls w)
     \<and> (\<forall>f od t w. xv_notify x = Some f \<longrightarrow> calls (snd (f od t w)) = calls w)"

definition lease_held :: "'w Exec \<Rightarrow> ('w \<Rightarrow> rest_call list) \<Rightarrow> rest_call list \<Rightarrow> bool" where
  "lease_held x calls sent =
     (case xv_lease x of None \<Rightarrow> \<not> xv_lease_required x | Some f \<Rightarrow> \<exists>w. calls w = sent \<and> fst (f w) = Inr ())"

definition durably_recorded ::
  "'w Exec \<Rightarrow> ('w \<Rightarrow> rest_call list) \<Rightarrow> BinanceEnvironment \<Rightarrow> string \<Rightarrow> rest_call list \<Rightarrow> bool" where
  "durably_recorded x calls env cid sent =
     (case xv_barrier x of
        None \<Rightarrow> env \<noteq> MAINNET
      | Some f \<Rightarrow> \<exists>w od. calls w = sent \<and> eo_client_order_id od = cid \<and> fst (f od w) = Inr True)"

text \<open>The order gate passed an intent in a state in which the worker's kill switch was off, and since
  then the adapter has only read.\<close>

definition gate_opened ::
  "'w Exec \<Rightarrow> ('w \<Rightarrow> rest_call list) \<Rightarrow> EconomicRiskClass \<Rightarrow> bool \<Rightarrow> OrderIntent \<Rightarrow> PreparedOrder \<Rightarrow> rest_call list \<Rightarrow> bool" where
  "gate_opened x calls risk emergency intent prepared sent \<longleftrightarrow>
     (\<exists>s reads clock discover reserved_orders reserved_notional.
        calls (rc_world (xs_recon s)) @ reads = sent \<and> (\<forall>c \<in> set reads. \<not> is_mutation c)
        \<and> (emergency \<or> \<not> kill_switch_active (worker_of x s))
        \<and> order_gate_check (xv_environ x) clock discover (adapter_view s) intent risk reserved_orders reserved_notional
            None True emergency = Inr prepared)"

definition safeguarded ::
  "'w Exec \<Rightarrow> ('w \<Rightarrow> rest_call list) \<Rightarrow> BinanceEnvironment \<times> bool \<Rightarrow> order_context \<Rightarrow> bool \<Rightarrow> OrderIntent list \<Rightarrow>
   rest_call list \<Rightarrow> rest_call \<Rightarrow> bool" where
  "safeguarded x calls k ctx emergency intents sent c \<longleftrightarrow>
     (\<exists>i prepared. i < length intents \<and> gate_opened x calls (oc_risk ctx) emergency (intents ! i) prepared sent
        \<and> (let cid = order_id_for x (fst k) ctx (intents ! i) prepared i in
           c = PostOrder (order_request (snd k) (intents ! i) prepared cid)
           \<and> (is_risk_increasing (oc_risk ctx) \<longrightarrow> lease_held x calls sent \<and> durably_recorded x calls (fst k) cid sent)))"

text \<open>The log so far: at most \<open>n\<close> mutations, each of them safeguarded.\<close>

definition log_ok :: "(rest_call list \<Rightarrow> rest_call \<Rightarrow> bool) \<Rightarrow> rest_call list \<Rightarrow> nat \<Rightarrow> rest_call list \<Rightarrow> bool" where
  "log_ok G base n l \<longleftrightarrow> (\<exists>new. l = base @ new \<and> length (filter is_mutation new) \<le> n
     \<and> (\<forall>pre c post. new = pre @ c # post \<longrightarrow> is_mutation c \<longrightarrow> G (base @ pre) c))"

lemma split_snoc: "xs @ [x] = pre @ c # post \<longleftrightarrow> (post = [] \<and> pre = xs \<and> c = x) \<or> (\<exists>post'. post = post' @ [x] \<and> xs = pre @ c # post')"
  by (cases post rule: rev_cases) auto

lemma log_ok_read: "log_ok G base n l \<Longrightarrow> \<not> is_mutation c \<Longrightarrow> log_ok G base n (l @ [c])"
  unfolding log_ok_def by (elim exE conjE) (rule_tac x = "new @ [c]" in exI, auto simp: split_snoc)

lemma log_ok_mutation: "log_ok G base n l \<Longrightarrow> G l c \<Longrightarrow> log_ok G base (Suc n) (l @ [c])"
  unfolding log_ok_def by (elim exE conjE) (rule_tac x = "new @ [c]" in exI, auto simp: split_snoc)

lemma log_ok_mono: "log_ok G base n l \<Longrightarrow> n \<le> m \<Longrightarrow> log_ok G base m l"
  unfolding log_ok_def by fastforce

lemma observes_quiet:
  assumes "observes x calls" "\<And>l c. P l \<Longrightarrow> \<not> is_mutation c \<Longrightarrow> P (l @ [c])"
  shows "quiet x (\<lambda>w. P (calls w))"
  using assms by (auto simp: observes_def quiet_def reads_keep_def)

section \<open>Steps of a submission\<close>

lemma eff_valid_weaken_exc: "eff_valid P m Q E \<Longrightarrow> (\<And>e s. E e s \<Longrightarrow> E' e s) \<Longrightarrow> eff_valid P m Q E'"
  by (rule eff_valid_conseq)

lemma xinv_mono: "xinv W k s \<Longrightarrow> (\<And>w. W w \<Longrightarrow> W' w) \<Longrightarrow> xinv W' k s"
  by (simp add: xinv_def)

text \<open>The callbacks leave the log alone, so every predicate on it survives them.\<close>

lemma durable_barrier_valid:
  assumes "observes x calls"
  shows "eff_valid (xinv (\<lambda>w. P (calls w)) k) (durable_barrier x od risk)
     (\<lambda>go. xinv (\<lambda>w. P (calls w) \<and> (go \<longrightarrow> is_risk_increasing risk \<longrightarrow> durably_recorded x calls (fst k) (eo_client_order_id od) (calls w))) k)
     (\<lambda>_. xinv (\<lambda>w. P (calls w)) k)"
proof (cases "xv_barrier x")
  case None
  then show ?thesis by (auto simp: durable_barrier_def eff_valid_def xinv_def durably_recorded_def settings_def)
next
  case (Some f)
  have keep: "calls (snd (f od w)) = calls w" for w using assms Some by (auto simp: observes_def)
  have rec: "durably_recorded x calls e (eo_client_order_id od) (calls w)" if "f od w = (Inr True, w')" for e w w'
    using that by (auto simp: durably_recorded_def Some intro!: exI[of _ w] exI[of _ od])
  show ?thesis
  proof (rule eff_validI)
    fix s :: "'a ExecState"
    assume s: "xinv (\<lambda>w. P (calls w)) k s"
    show "case durable_barrier x od risk s of (Inl e, s') \<Rightarrow> xinv (\<lambda>w. P (calls w)) k s'
      | (Inr go, s') \<Rightarrow> xinv (\<lambda>w. P (calls w) \<and> (go \<longrightarrow> is_risk_increasing risk \<longrightarrow> durably_recorded x calls (fst k) (eo_client_order_id od) (calls w))) k s'"
    proof (cases "f od (rc_world (xs_recon s))")
      case (Pair r w')
      then have "calls w' = calls (rc_world (xs_recon s))" using keep[of "rc_world (xs_recon s)"] by simp
      then show ?thesis using s Pair rec
        by (cases r) (auto simp: durable_barrier_def Some on_world_def xinv_def settings_def eff_bind_def set_state_def)
    qed
  qed
qed

lemma assert_lease_valid:
  assumes "observes x calls"
  shows "eff_valid (xinv (\<lambda>w. P (calls w)) k) (assert_execution_lease x risk)
     (\<lambda>_. xinv (\<lambda>w. P (calls w) \<and> (is_risk_increasing risk \<longrightarrow> lease_held x calls (calls w))) k) (\<lambda>_. xinv (\<lambda>w. P (calls w)) k)"
proof (cases "xv_lease x")
  case None
  then show ?thesis by (auto simp: assert_execution_lease_def eff_valid_def xinv_def lease_held_def)
next
  case (Some f)
  have keep: "calls (snd (f w)) = calls w" for w using assms Some by (auto simp: observes_def)
  have held: "lease_held x calls (calls w)" if "f w = (Inr (), w')" for w w'
    using that by (auto simp: lease_held_def Some intro!: exI[of _ w])
  show ?thesis
  proof (rule eff_validI)
    fix s :: "'a ExecState"
    assume s: "xinv (\<lambda>w. P (calls w)) k s"
    show "case assert_execution_lease x risk s of (Inl e, s') \<Rightarrow> xinv (\<lambda>w. P (calls w)) k s'
      | (Inr u, s') \<Rightarrow> xinv (\<lambda>w. P (calls w) \<and> (is_risk_increasing risk \<longrightarrow> lease_held x calls (calls w))) k s'"
    proof (cases "f (rc_world (xs_recon s))")
      case (Pair r w')
      then have "calls w' = calls (rc_world (xs_recon s))" using keep[of "rc_world (xs_recon s)"] by simp
      then show ?thesis using s Pair held
        by (cases r) (auto simp: assert_execution_lease_def Some on_world_def xinv_def settings_def)
    qed
  qed
qed

text \<open>What holds when the request is about to be sent.\<close>

definition cleared :: "'w Exec \<Rightarrow> ('w \<Rightarrow> rest_call list) \<Rightarrow> BinanceEnvironment \<Rightarrow> EconomicRiskClass \<Rightarrow> string \<Rightarrow> rest_call list \<Rightarrow> bool" where
  "cleared x calls env risk cid sent \<longleftrightarrow>
     (is_risk_increasing risk \<longrightarrow> lease_held x calls sent \<and> durably_recorded x calls env cid sent)"

lemma before_submission_valid:
  assumes "observes x calls"
  shows "eff_valid (xinv (\<lambda>w. P (calls w)) k) (before_submission x od risk)
     (\<lambda>go. xinv (\<lambda>w. P (calls w) \<and> (go \<longrightarrow> cleared x calls (fst k) risk (eo_client_order_id od) (calls w))) k) (\<lambda>_. xinv (\<lambda>w. P (calls w)) k)"
proof -
  let ?D = "\<lambda>l. is_risk_increasing risk \<longrightarrow> durably_recorded x calls (fst k) (eo_client_order_id od) l"
  have lease: "eff_valid (xinv (\<lambda>w. P (calls w) \<and> ?D (calls w)) k)
     (eff_bind (with_ledger f) (\<lambda>_. eff_bind (assert_execution_lease x risk) (\<lambda>_. eff_ret True)))
     (\<lambda>go. xinv (\<lambda>w. P (calls w) \<and> (go \<longrightarrow> cleared x calls (fst k) risk (eo_client_order_id od) (calls w))) k) (\<lambda>_. xinv (\<lambda>w. P (calls w)) k)" for f
    by (rule eff_valid_conseq[OF eff_valid_bind[OF x_simple(2) eff_valid_bind[OF assert_lease_valid[OF assms, where P = "\<lambda>l. P l \<and> ?D l"] eff_valid_ret]]])
      (auto simp: xinv_def cleared_def)
  show ?thesis
    unfolding before_submission_def
  proof (rule eff_valid_bind[OF durable_barrier_valid[OF assms]])
    fix go
    show "eff_valid (xinv (\<lambda>w. P (calls w) \<and> (go \<longrightarrow> is_risk_increasing risk \<longrightarrow> durably_recorded x calls (fst k) (eo_client_order_id od) (calls w))) k)
       (if \<not> go then eff_ret False else eff_bind (with_ledger (upsert_order od)) (\<lambda>_. eff_bind (assert_execution_lease x risk) (\<lambda>_. eff_ret True)))
       (\<lambda>go. xinv (\<lambda>w. P (calls w) \<and> (go \<longrightarrow> cleared x calls (fst k) risk (eo_client_order_id od) (calls w))) k) (\<lambda>_. xinv (\<lambda>w. P (calls w)) k)"
      using lease by (cases go) (auto simp: eff_valid_def xinv_def)
  qed
qed

text \<open>The request itself takes a predicate \<open>P\<close> on the log to \<open>P'\<close>; everything after it only reads.\<close>

lemma submit_request_valid:
  assumes "observes x calls" "\<And>l c. P' l \<Longrightarrow> \<not> is_mutation c \<Longrightarrow> P' (l @ [c])"
    and "\<And>l. P l \<Longrightarrow> P' (l @ [PostOrder (order_request (snd k) intent prepared cid)])"
  shows "eff_valid (xinv (\<lambda>w. P (calls w)) k) (submit_request x intent prepared cid ctx)
     (\<lambda>_. xinv (\<lambda>w. P' (calls w)) k) (\<lambda>_. xinv (\<lambda>w. P' (calls w)) k)"
proof -
  have q: "quiet x (\<lambda>w. P' (calls w))" using assms(1,2) by (rule observes_quiet)
  have post: "eff_valid (xinv (\<lambda>w. P (calls w)) k) (rest x (PostOrder (order_request (snd k) intent prepared cid)))
     (\<lambda>_. xinv (\<lambda>w. P' (calls w)) k) (\<lambda>_. xinv (\<lambda>w. P' (calls w)) k)"
    using assms(1,3) by (intro eff_validI)
      (auto simp: rest_def recon_def request_def xinv_def settings_def observes_def split_beta split: sum.split)
  have hedge: "eff_valid (xinv (\<lambda>w. P (calls w)) k) (eff_gets (\<lambda>s. ad_hedge_mode (xs_adapter s)))
     (\<lambda>h s. h = snd k \<and> xinv (\<lambda>w. P (calls w)) k s) (\<lambda>_. xinv (\<lambda>w. P' (calls w)) k)"
    by (auto simp: eff_valid_def xinv_def settings_def)
  have count: "eff_valid (xinv (\<lambda>w. P (calls w)) k) (eff_modify (\<lambda>s. s\<lparr>xs_submission_attempts := Suc (xs_submission_attempts s)\<rparr>))
     (\<lambda>_. xinv (\<lambda>w. P (calls w)) k) (\<lambda>_. xinv (\<lambda>w. P' (calls w)) k)"
    by (simp add: eff_valid_def xinv_def)
  have after: "eff_keeps (xinv (\<lambda>w. P' (calls w)) k) (eff_bind (now_of x) (\<lambda>clock.
     eff_bind (eff_lift id (order_from_response intent response prepared cid ctx False (clock 0))) (\<lambda>od.
     eff_bind (with_ledger (upsert_order od)) (\<lambda>_.
     eff_bind (post_mutation_reconcile x od response) (\<lambda>verified.
     eff_bind (eff_gets (current_order od)) (\<lambda>od'.
     if \<not> verified then eff_bind (notify_submission_result x od' ''AMBIGUOUS'') (\<lambda>_. eff_ret None)
     else eff_bind (notify_submission_result x od' ''CONFIRMED'') (\<lambda>_.
          eff_ret (Some (od', eo_status od' \<in> {''NEW'', ''PARTIALLY_FILLED''}))))))))) " for response
    using q by (auto intro!: eff_rules exec_rules)
  have at_hedge: "eff_valid (\<lambda>s. h = snd k \<and> xinv (\<lambda>w. P (calls w)) k s) m Q E"
    if "h = snd k \<Longrightarrow> eff_valid (xinv (\<lambda>w. P (calls w)) k) m Q E" for h m Q E
    using that by (auto simp: eff_valid_def)
  show ?thesis
    unfolding submit_request_def
    by (intro eff_valid_bind[OF hedge] at_hedge eff_valid_bind[OF count]) (use eff_valid_bind[OF post after] in simp)
qed

lemma eff_valid_catch:
  assumes "eff_valid P m Q E" "\<And>e. eff_valid (E e) (h e) Q E'"
  shows "eff_valid P (eff_catch m h) Q E'"
proof (rule eff_validI)
  fix s assume "P s"
  show "case eff_catch m h s of (Inl e, s') \<Rightarrow> E' e s' | (Inr x, s') \<Rightarrow> Q x s'"
  proof (cases "m s")
    case (Pair r s')
    then show ?thesis
      using eff_valid_Inl[OF assms(1) \<open>P s\<close>] eff_valid_Inr[OF assms(1) \<open>P s\<close>] assms(2)
      by (cases r) (auto simp: eff_valid_def)
  qed
qed

lemma submit_prepared_valid:
  assumes "observes x calls" "\<And>l c. P l \<Longrightarrow> \<not> is_mutation c \<Longrightarrow> P (l @ [c])" "\<And>l c. P' l \<Longrightarrow> \<not> is_mutation c \<Longrightarrow> P' (l @ [c])"
    and mono: "\<And>l. P l \<Longrightarrow> P' l"
    and step: "\<And>l. P l \<Longrightarrow> cleared x calls (fst k) (oc_risk ctx) cid l \<Longrightarrow> P' (l @ [PostOrder (order_request (snd k) intent prepared cid)])"
  shows "eff_valid (xinv (\<lambda>w. P (calls w)) k) (submit_prepared x intent prepared cid ctx)
     (\<lambda>_. xinv (\<lambda>w. P' (calls w)) k) (\<lambda>_. xinv (\<lambda>w. P' (calls w)) k)"
proof -
  let ?C = "\<lambda>l. P l \<and> cleared x calls (fst k) (oc_risk ctx) cid l"
  have q: "quiet x (\<lambda>w. P' (calls w))" using assms(1,3) by (rule observes_quiet)
  have weak: "xinv (\<lambda>w. P (calls w)) k s \<Longrightarrow> xinv (\<lambda>w. P' (calls w)) k s" for s using mono by (simp add: xinv_def)
  have failed: "eff_valid (xinv (\<lambda>w. P (calls w)) k) (submission_failed x intent prepared cid ctx planned a e)
     (\<lambda>_. xinv (\<lambda>w. P' (calls w)) k) (\<lambda>_. xinv (\<lambda>w. P' (calls w)) k)" for planned a e
    by (rule eff_valid_conseq[OF x_submission_failed[OF q] weak])
  have request: "eff_valid (xinv (\<lambda>w. ?C (calls w)) k) (eff_catch (submit_request x intent prepared cid ctx) (submission_failed x intent prepared cid ctx planned True))
     (\<lambda>_. xinv (\<lambda>w. P' (calls w)) k) (\<lambda>_. xinv (\<lambda>w. P' (calls w)) k)" for planned
    by (rule eff_valid_catch[OF submit_request_valid[where P = ?C] x_submission_failed[OF q]]) (use assms in auto)
  have before: "eff_valid (xinv (\<lambda>w. P (calls w)) k)
     (eff_catch (eff_bind (before_submission x planned (oc_risk ctx)) (\<lambda>go. eff_ret (Inr go)))
         (\<lambda>e. eff_bind (submission_failed x intent prepared cid ctx planned False e) (\<lambda>r. eff_ret (Inl r))))
     (\<lambda>r s. case r of Inl _ \<Rightarrow> xinv (\<lambda>w. P' (calls w)) k s
        | Inr go \<Rightarrow> xinv (\<lambda>w. P (calls w) \<and> (go \<longrightarrow> cleared x calls (fst k) (oc_risk ctx) cid (calls w))) k s)
     (\<lambda>_. xinv (\<lambda>w. P' (calls w)) k)" if "eo_client_order_id planned = cid" for planned
  proof (rule eff_valid_catch[where E = "\<lambda>_. xinv (\<lambda>w. P (calls w)) k"], rule eff_valid_bind)
    show "eff_valid (xinv (\<lambda>w. P (calls w)) k) (before_submission x planned (oc_risk ctx))
       (\<lambda>go. xinv (\<lambda>w. P (calls w) \<and> (go \<longrightarrow> cleared x calls (fst k) (oc_risk ctx) cid (calls w))) k) (\<lambda>_. xinv (\<lambda>w. P (calls w)) k)"
      using before_submission_valid[OF assms(1), of P k planned "oc_risk ctx"] that by simp
    show "eff_valid (xinv (\<lambda>w. P (calls w)) k) (eff_bind (submission_failed x intent prepared cid ctx planned False e) (\<lambda>r. eff_ret (Inl r)))
       (\<lambda>r s. case r of Inl _ \<Rightarrow> xinv (\<lambda>w. P' (calls w)) k s
          | Inr go \<Rightarrow> xinv (\<lambda>w. P (calls w) \<and> (go \<longrightarrow> cleared x calls (fst k) (oc_risk ctx) cid (calls w))) k s)
       (\<lambda>_. xinv (\<lambda>w. P' (calls w)) k)" for e
      by (rule eff_valid_bind[OF failed]) (simp add: eff_valid_def)
  qed (simp add: eff_valid_def)
  show ?thesis
    unfolding submit_prepared_def Let_def
  proof (rule eff_valid_bind[OF eff_valid_conseq[OF x_simple(1)]], assumption, assumption, erule weak, rule eff_valid_bind[OF before])
    fix clock r
    show "eff_valid (\<lambda>s. case r of Inl _ \<Rightarrow> xinv (\<lambda>w. P' (calls w)) k s
        | Inr go \<Rightarrow> xinv (\<lambda>w. P (calls w) \<and> (go \<longrightarrow> cleared x calls (fst k) (oc_risk ctx) cid (calls w))) k s)
       (case r of Inl b \<Rightarrow> eff_ret b
        | Inr go \<Rightarrow> if \<not> go then eff_ret None else eff_catch (submit_request x intent prepared cid ctx)
            (submission_failed x intent prepared cid ctx (planned_order intent prepared cid ctx (clock 0)) True))
       (\<lambda>_. xinv (\<lambda>w. P' (calls w)) k) (\<lambda>_. xinv (\<lambda>w. P' (calls w)) k)"
      using request weak by (cases r) (auto simp: eff_valid_def xinv_def)
  qed (simp add: planned_order_def)
qed


lemma run_order_gate_result:
  assumes "run_order_gate x intent risk ro rn exc rr em s = (Inr r, s')"
  shows "\<exists>clock discover. r = order_gate_check (xv_environ x) clock discover (adapter_view s) intent risk ro rn exc rr em"
proof -
  have "adapter_view (s\<lparr>xs_epoch := n\<rparr>) = adapter_view s" for n by (simp add: adapter_view_def)
  then show ?thesis
    using assms by (auto simp: run_order_gate_def now_of_def Let_def eff_bind_Inr split: option.splits) blast+
qed

lemma submit_intent_valid:
  fixes base :: "rest_call list" and em :: bool and ctx :: order_context and k :: "BinanceEnvironment \<times> bool"
  assumes "observes x calls" "i < length intents"
  defines "P \<equiv> log_ok (safeguarded x calls k ctx em intents) base"
  shows "eff_valid (\<lambda>s. xinv (\<lambda>w. P n (calls w)) k s \<and> (em \<or> \<not> kill_switch_active (worker_of x s)))
     (submit_intent x ctx em i (intents ! i) acc) (\<lambda>_. xinv (\<lambda>w. P (Suc n) (calls w)) k) (\<lambda>_. xinv (\<lambda>w. P (Suc n) (calls w)) k)"
proof (rule eff_validI, elim conjE)
  fix s
  assume s: "xinv (\<lambda>w. P n (calls w)) k s" and off: "em \<or> \<not> kill_switch_active (worker_of x s)"
  let ?intent = "intents ! i" and ?l = "calls (rc_world (xs_recon s))"
  define K where "K = (\<lambda>l. P n l \<and> (\<exists>reads. l = ?l @ reads \<and> (\<forall>c \<in> set reads. \<not> is_mutation c)))"
  have Kc: "K (l @ [c])" if "K l" "\<not> is_mutation c" for l c
    using that log_ok_read unfolding K_def P_def by (metis append_assoc in_set_conv_decomp_last rotate1.simps(2) set_rotate1 set_ConsD)
  have up: "K l \<Longrightarrow> P (Suc n) l" for l unfolding K_def P_def using log_ok_mono le_SucI by blast
  have up': "xinv (\<lambda>w. K (calls w)) k s' \<Longrightarrow> xinv (\<lambda>w. P (Suc n) (calls w)) k s'" for s' using up by (simp add: xinv_def)
  have start: "xinv (\<lambda>w. K (calls w)) k s" using s by (simp add: xinv_def K_def)
  obtain r s1 where gate: "run_order_gate x ?intent (oc_risk ctx) (sa_reserved_orders acc) (sa_reserved_notional acc) None True em s = (r, s1)"
    by fastforce
  have s1: "xinv (\<lambda>w. K (calls w)) k s1"
    using eff_valid_Inl[OF x_run_order_gate start] eff_valid_Inr[OF x_run_order_gate start] gate observes_quiet[OF assms(1), of K] Kc
    by (cases r) blast+
  show "case submit_intent x ctx em i ?intent acc s of (Inl e, s') \<Rightarrow> xinv (\<lambda>w. P (Suc n) (calls w)) k s'
     | (Inr a, s') \<Rightarrow> xinv (\<lambda>w. P (Suc n) (calls w)) k s'"
  proof (cases "\<exists>p. r = Inr (Inr p)")
    case False
    then show ?thesis using gate s1 up'
      by (cases r) (auto simp: submit_intent_def gate_passed_def eff_bind_def split: sum.splits gate_reason.splits)
  next
    case True
    then obtain p where p: "r = Inr (Inr p)" by blast
    let ?cid = "order_id_for x (xs_env s1) ctx ?intent p i"
    have opened: "gate_opened x calls (oc_risk ctx) em ?intent p l" if "K l" for l
      using that off run_order_gate_result[OF gate[unfolded p]] unfolding K_def gate_opened_def by metis
    have step: "P (Suc n) (l @ [PostOrder (order_request (snd k) ?intent p ?cid)])" if "K l" "cleared x calls (fst k) (oc_risk ctx) ?cid l" for l
    proof -
      have "safeguarded x calls k ctx em intents l (PostOrder (order_request (snd k) ?intent p ?cid))"
        using opened[OF that(1)] that(2) assms(2) s1 unfolding safeguarded_def cleared_def Let_def
        by (intro exI[of _ i] exI[of _ p]) (auto simp: xinv_def settings_def)
      then show ?thesis using that(1) unfolding P_def K_def by (blast intro: log_ok_mutation)
    qed
    have sent: "eff_valid (xinv (\<lambda>w. K (calls w)) k) (submit_prepared x ?intent p ?cid ctx)
       (\<lambda>_. xinv (\<lambda>w. P (Suc n) (calls w)) k) (\<lambda>_. xinv (\<lambda>w. P (Suc n) (calls w)) k)"
      by (rule submit_prepared_valid[OF assms(1)]) (use Kc up step log_ok_read in \<open>auto simp: P_def\<close>)
    obtain r' s2 where run: "submit_prepared x ?intent p ?cid ctx s1 = (r', s2)" by fastforce
    then show ?thesis
      using gate p eff_valid_Inl[OF sent s1] eff_valid_Inr[OF sent s1]
      by (cases r') (auto simp: submit_intent_def gate_passed_def)
  qed
qed


lemma submit_orders_valid:
  fixes base :: "rest_call list" and em :: bool and ctx :: order_context and k :: "BinanceEnvironment \<times> bool"
  assumes "observes x calls" "\<And>i intent. (i, intent) \<in> set ios \<Longrightarrow> i < length intents \<and> intent = intents ! i"
  defines "P \<equiv> log_ok (safeguarded x calls k ctx em intents) base"
  shows "eff_valid (xinv (\<lambda>w. P n (calls w)) k) (submit_orders x ctx em ios acc)
     (\<lambda>_. xinv (\<lambda>w. P (n + length ios) (calls w)) k) (\<lambda>_. xinv (\<lambda>w. P (n + length ios) (calls w)) k)"
  using assms(2)
proof (induction ios arbitrary: n acc)
  case Nil
  then show ?case by (simp add: eff_valid_def)
next
  case (Cons io ios)
  obtain i intent where io: "io = (i, intent)" by fastforce
  have i: "i < length intents" "intent = intents ! i" using Cons.prems io by auto
  have up: "xinv (\<lambda>w. P m (calls w)) k s \<Longrightarrow> m \<le> m' \<Longrightarrow> xinv (\<lambda>w. P m' (calls w)) k s" for m m' s
    using log_ok_mono unfolding P_def xinv_def by blast
  have rest: "eff_valid (xinv (\<lambda>w. P (Suc n) (calls w)) k) (submit_orders x ctx em ios acc')
     (\<lambda>_. xinv (\<lambda>w. P (n + length (io # ios)) (calls w)) k) (\<lambda>_. xinv (\<lambda>w. P (n + length (io # ios)) (calls w)) k)" for acc'
    using Cons.IH[of "Suc n" acc', OF Cons.prems] by simp
  have one: "eff_valid (\<lambda>s. xinv (\<lambda>w. P n (calls w)) k s \<and> (em \<or> \<not> kill_switch_active (worker_of x s)))
     (submit_intent x ctx em i intent acc) (\<lambda>_. xinv (\<lambda>w. P (Suc n) (calls w)) k) (\<lambda>_. xinv (\<lambda>w. P (n + length (io # ios)) (calls w)) k)"
    using eff_valid_weaken_exc[OF submit_intent_valid[OF assms(1) i(1), of k ctx em base n acc]] up
    unfolding i(2) P_def by fastforce
  show ?case
  proof (rule eff_validI)
    fix s
    assume s: "xinv (\<lambda>w. P n (calls w)) k s"
    show "case submit_orders x ctx em (io # ios) acc s of (Inl e, s') \<Rightarrow> xinv (\<lambda>w. P (n + length (io # ios)) (calls w)) k s'
      | (Inr a, s') \<Rightarrow> xinv (\<lambda>w. P (n + length (io # ios)) (calls w)) k s'"
    proof (cases "\<not> em \<and> kill_switch_active (worker_of x s)")
      case True
      then show ?thesis using up[OF s, of "n + length (io # ios)"] by (simp add: xinv_def)
    next
      case False
      then have "xinv (\<lambda>w. P n (calls w)) k s \<and> (em \<or> \<not> kill_switch_active (worker_of x s))" using s by blast
      with eff_valid_bind[OF one rest] False show ?thesis by (auto simp: eff_valid_def io)
    qed
  qed
qed

lemma execute_orders_valid:
  assumes "observes x calls"
  shows "eff_valid (xinv (\<lambda>w. calls w = base) k) (execute_orders x authorized ctx action intents em)
     (\<lambda>_. xinv (\<lambda>w. log_ok (safeguarded x calls k ctx em intents) base (length intents) (calls w)) k)
     (\<lambda>_. xinv (\<lambda>w. log_ok (safeguarded x calls k ctx em intents) base (length intents) (calls w)) k)"
proof -
  let ?P = "log_ok (safeguarded x calls k ctx em intents) base"
  have empty: "?P n base" for n by (simp add: log_ok_def)
  have all: "\<And>i intent. (i, intent) \<in> set (enumerate 0 intents) \<Longrightarrow> i < length intents \<and> intent = intents ! i"
    by (auto simp: in_set_enumerate_eq)
  have "eff_valid (xinv (\<lambda>w. calls w = base) k) (submit_orders x ctx em (enumerate 0 intents) acc)
     (\<lambda>_. xinv (\<lambda>w. ?P (length intents) (calls w)) k) (\<lambda>_. xinv (\<lambda>w. ?P (length intents) (calls w)) k)" for acc
    by (rule eff_valid_conseq[OF submit_orders_valid[OF assms all, where n = 0 and base = base]]) (auto simp: xinv_def empty)
  then have sent: "eff_valid (xinv (\<lambda>w. calls w = base) k) (eff_bind (submit_orders x ctx em (enumerate 0 intents) acc) (\<lambda>a. eff_gets (f a)))
     (\<lambda>_. xinv (\<lambda>w. ?P (length intents) (calls w)) k) (\<lambda>_. xinv (\<lambda>w. ?P (length intents) (calls w)) k)" for acc and f :: "submission_acc \<Rightarrow> 'a ExecState \<Rightarrow> ExecutionOrder list"
    by (rule eff_valid_bind) (rule eff_keeps_gets)
  have none: "eff_valid (xinv (\<lambda>w. calls w = base) k) (eff_ret [])
     (\<lambda>_. xinv (\<lambda>w. ?P (length intents) (calls w)) k) (\<lambda>_. xinv (\<lambda>w. ?P (length intents) (calls w)) k)"
    by (auto simp: eff_valid_def xinv_def empty)
  have state: "eff_valid (xinv (\<lambda>w. calls w = base) k) (eff_gets f) (\<lambda>_. xinv (\<lambda>w. calls w = base) k)
     (\<lambda>_. xinv (\<lambda>w. ?P (length intents) (calls w)) k)" for f :: "'a ExecState \<Rightarrow> ConnectionState"
    by (simp add: eff_valid_def)
  show ?thesis
    unfolding execute_orders_def by (intro eff_valid_bind[OF state] eff_valid_if none sent)
qed


lemma worker_gate_run:
  "\<exists>r. worker_gate x d s = (r, s\<lparr>xs_epoch := Suc (xs_epoch s)\<rparr>)
     \<and> (r = Inr True \<longrightarrow> decision_gate_check (xv_environ x) (xv_clock x (xs_epoch s)) (worker_of x s) d = Inr ())"
proof -
  have w: "worker_of x (s\<lparr>xs_epoch := n\<rparr>) = worker_of x s" for n by (simp add: worker_of_def adapter_view_def)
  show ?thesis
    by (auto simp: worker_gate_def now_of_def gate_passed_def w eff_bind_def split: sum.split gate_reason.split)
qed

lemma epoch_simps [simp]:
  "rc_world (xs_recon (s\<lparr>xs_epoch := n\<rparr>)) = rc_world (xs_recon s)" "settings (s\<lparr>xs_epoch := n\<rparr>) = settings s"
  by (simp_all add: settings_def)

lemma execute_decision_cases:
  assumes "execute_decision x authorized d s = (r, s')"
  obtains (refused) n where "s' = s\<lparr>xs_epoch := n\<rparr>" "r = Inr [] \<or> (\<exists>e. r = Inl e)"
  | (admitted) n clock where "\<not> xv_preflight_only x" "authorized"
      "decision_gate_check (xv_environ x) clock (worker_of x s) d = Inr ()"
      "execute_orders x authorized (context_of d) (ed_action d) (ed_orders d) False (s\<lparr>xs_epoch := n\<rparr>) = (r, s')"
proof -
  obtain r1 where g1: "worker_gate x d s = (r1, s\<lparr>xs_epoch := Suc (xs_epoch s)\<rparr>)"
    "r1 = Inr True \<longrightarrow> decision_gate_check (xv_environ x) (xv_clock x (xs_epoch s)) (worker_of x s) d = Inr ()"
    using worker_gate_run by blast
  obtain r2 where g2: "worker_gate x d (s\<lparr>xs_epoch := Suc (xs_epoch s)\<rparr>) = (r2, s\<lparr>xs_epoch := Suc (Suc (xs_epoch s))\<rparr>)"
    using worker_gate_run[of x d "s\<lparr>xs_epoch := Suc (xs_epoch s)\<rparr>"] by auto
  consider "xv_preflight_only x \<or> \<not> authorized" | e where "\<not> xv_preflight_only x" "authorized" "r1 = Inl e" | "\<not> xv_preflight_only x" "authorized" "r1 = Inr False"
    | e where "\<not> xv_preflight_only x" "authorized" "r1 = Inr True" "r2 = Inl e" | "\<not> xv_preflight_only x" "authorized" "r1 = Inr True" "r2 = Inr False"
    | "\<not> xv_preflight_only x" "authorized" "r1 = Inr True" "r2 = Inr True"
    by (metis (full_types) sum.exhaust)
  then show thesis
  proof cases
    case 1
    then have "s' = s\<lparr>xs_epoch := xs_epoch s\<rparr>" "r = Inr []" using assms by (simp_all add: execute_decision_def)
    then show ?thesis using refused by blast
  next
    case 6
    then show ?thesis using assms g1 g2 admitted by (simp add: execute_decision_def)
  qed (use assms g1 g2 in \<open>auto simp: execute_decision_def intro!: refused\<close>)
qed


end
