(* ===== verification/ExecutionVerified.thy ===== *)
theory ExecutionVerified
  imports ExecutionSafety
begin

text \<open>
  Orders that the adapter reports as executed are verified: the run ends with a connection that is
  ready and a reconciliation in sync, whose meaning the theory \<open>ReconcileSafety\<close> states. The first part
  shows which predicates on the ledger survive the steps of a submission.
\<close>

section \<open>What the steps keep of the ledger\<close>

text \<open>Closure under every change of a ledger that is already initialised.\<close>

definition ledger_closed :: "(InMemoryLedger \<Rightarrow> bool) \<Rightarrow> bool" where
  "ledger_closed P \<longleftrightarrow> fill_closed P \<and> order_closed P \<and> position_closed P
     \<and> (\<forall>l l' raws. P l \<longrightarrow> replace_positions raws False l = Inr l' \<longrightarrow> P l')
     \<and> (\<forall>l a b. P l \<longrightarrow> P (update_balances a b l)) \<and> (\<forall>l snap. P l \<longrightarrow> P (set_account_snapshot snap l))
     \<and> (\<forall>l. P l \<longrightarrow> initialized l)"

abbreviation linv :: "(InMemoryLedger \<Rightarrow> bool) \<Rightarrow> 'w ExecState \<Rightarrow> bool" where
  "linv P s \<equiv> P (rc_ledger (xs_recon s))"

lemma ledger_closed_reconcile:
  assumes "ledger_closed P" "P (rc_ledger s)"
  shows "P (rc_ledger (snd (reconcile v s)))"
proof -
  have init: "initialized (rc_ledger s)" using assms by (simp add: ledger_closed_def)
  have "eff_keeps (ledger_inv P) (reconcile_body v)"
    unfolding reconcile_body_def split_beta
    using assms(1)
    by (intro eff_keeps_bind eff_keeps_if eff_keeps_lift keeps_fetch_and_validate keeps_recover_and_compare keeps_on_ledger
        keeps_on_ledger_res keeps_modify_other) (auto simp: ledger_closed_def set_status_def)
  moreover obtain r s1 where run: "reconcile_body v (begin_run s) = (r, s1)" by fastforce
  moreover have "P (rc_ledger (begin_run s))" using assms(2) by (simp add: begin_run_def set_status_def)
  ultimately have "P (rc_ledger s1)" by (blast intro: kept)
  then show ?thesis using init by (cases r) (simp_all add: reconcile_def run Let_def on_failure_def set_status_def)
qed

lemma l_recon: "(\<And>v. eff_keeps (ledger_inv P) (f v)) \<Longrightarrow> eff_keeps (linv P) (recon x f)"
  unfolding recon_def by (rule eff_validI) (auto split: prod.split sum.split dest: kept)

named_theorems ledger_rules

lemma l_simple [ledger_rules]:
  "eff_keeps (linv P) (now_of x)" "eff_keeps (linv P) (settle b)" "eff_keeps (linv P) (gate_passed r)" "eff_keeps (linv P) (on_world f)"
  "eff_keeps (linv P) (rest x c)"
  by (auto simp: eff_valid_def now_of_def settle_def set_state_def gate_passed_def on_world_def rest_def recon_def request_def split_beta
      split: sum.splits gate_reason.splits)

lemma l_modify: "(\<And>s. rc_ledger (xs_recon (f s)) = rc_ledger (xs_recon s)) \<Longrightarrow> eff_keeps (linv P) (eff_modify f)"
  by (simp add: eff_valid_def)

lemma ledger_simps [simp]:
  "rc_ledger (xs_recon (set_state c s)) = rc_ledger (xs_recon s)" "rc_ledger (xs_recon (set_last_status st s)) = rc_ledger (xs_recon s)"
  "rc_ledger (xs_recon (invalidate_authentication s)) = rc_ledger (xs_recon s)"
  "rc_ledger (xs_recon (note_sample sy t p suffix s)) = rc_ledger (xs_recon s)" "rc_ledger (xs_recon (note_reference sy t p s)) = rc_ledger (xs_recon s)"
  "rc_ledger (xs_recon (note_book sy p q s)) = rc_ledger (xs_recon s)" "rc_ledger (xs_recon (note_depth sy p q s)) = rc_ledger (xs_recon s)"
  by (simp_all add: set_state_def set_last_status_def invalidate_authentication_def note_sample_def note_reference_def
      note_book_def note_depth_def Let_def)

lemma l_upsert [ledger_rules]: "ledger_closed P \<Longrightarrow> eff_keeps (linv P) (with_ledger (upsert_order od))"
  by (simp add: eff_valid_def with_ledger_def ledger_closed_def order_closed_def)

lemma l_reconciled [ledger_rules]: "ledger_closed P \<Longrightarrow> eff_keeps (linv P) (reconciled x)"
  by (auto simp: eff_valid_def reconciled_def recon_def split_beta intro: ledger_closed_reconcile)

lemma l_fills [ledger_rules]: "ledger_closed P \<Longrightarrow> eff_keeps (linv P) (recon x (\<lambda>v. recover_order_fills v od st))"
  by (rule l_recon) (auto simp: ledger_closed_def intro: keeps_recover_order_fills)

lemma l_notify [ledger_rules]: "eff_keeps (linv P) (notify_submission_result x od t)"
  unfolding notify_submission_result_def by (auto intro!: eff_rules ledger_rules l_modify split: option.split)

lemma l_record_rest [ledger_rules]: "eff_keeps (linv P) (record_rest_market_sample symbol d sample)"
  unfolding record_rest_market_sample_def Let_def by (auto intro!: eff_rules l_modify split: option.split)

lemma l_guarded [ledger_rules]: "eff_keeps (linv P) m \<Longrightarrow> eff_keeps (linv P) (guarded_price m)"
  unfolding guarded_price_def by (auto intro!: eff_rules l_modify simp: price_failure_def)

lemma l_run_order_gate [ledger_rules]: "eff_keeps (linv P) (run_order_gate x intent risk ro rn exc rr em)"
proof -
  have "eff_keeps (linv P) (get_best_bid_ask x sy)" for sy :: string
    unfolding get_best_bid_ask_def Let_def
    by (auto intro!: eff_rules ledger_rules split: json.split decimal.split sum.split) (simp_all add: eff_valid_def)
  then have "eff_keeps (linv P) (get_fresh_market_price x sy side)" for sy side
    unfolding get_fresh_market_price_def Let_def
    by (auto intro!: eff_rules ledger_rules split: json.split sum.split option.split)
  then show ?thesis unfolding run_order_gate_def Let_def by (auto intro!: eff_rules ledger_rules split: option.split)
qed

lemma l_before_submission [ledger_rules]: "ledger_closed P \<Longrightarrow> eff_keeps (linv P) (before_submission x od risk)"
  unfolding before_submission_def durable_barrier_def assert_execution_lease_def
  by (auto intro!: eff_rules ledger_rules l_modify split: option.split)

lemma l_query_ambiguous [ledger_rules]: "ledger_closed P \<Longrightarrow> eff_keeps (linv P) (query_ambiguous x intent prepared cid ctx final)"
  unfolding query_ambiguous_def recover_ambiguous_def Let_def
  by (auto intro!: eff_rules ledger_rules l_modify split: rec_error.split)

lemma l_poll_ambiguous [ledger_rules]: "ledger_closed P \<Longrightarrow> eff_keeps (linv P) (poll_ambiguous x intent prepared cid ctx n)"
  by (induction n) (auto intro!: eff_rules ledger_rules split: sum.split bool.split)

lemma l_resolve_ambiguous [ledger_rules]: "ledger_closed P \<Longrightarrow> eff_keeps (linv P) (resolve_ambiguous_order x intent prepared cid ctx)"
  unfolding resolve_ambiguous_order_def
  by (auto intro!: eff_rules ledger_rules l_modify split: option.split)

lemma l_post_mutation [ledger_rules]: "ledger_closed P \<Longrightarrow> eff_keeps (linv P) (post_mutation_reconcile x od response)"
  unfolding post_mutation_reconcile_def by (auto intro!: eff_rules ledger_rules l_modify)

lemma l_submission_failed [ledger_rules]:
  "ledger_closed P \<Longrightarrow> eff_keeps (linv P) (submission_failed x intent prepared cid ctx planned attempted e)"
  unfolding submission_failed_def Let_def
  by (cases e) (auto intro!: eff_rules ledger_rules l_modify split: option.split)

lemma l_submit_prepared [ledger_rules]: "ledger_closed P \<Longrightarrow> eff_keeps (linv P) (submit_prepared x intent prepared cid ctx)"
  unfolding submit_prepared_def submit_request_def Let_def
  by (auto intro!: eff_rules ledger_rules l_modify split: sum.split)

section \<open>Verified states\<close>

definition sound :: "InMemoryLedger \<Rightarrow> bool" where
  "sound l \<longleftrightarrow> ledger_ok l \<and> initialized l"

lemma ledger_closedI:
  assumes "fill_closed P" "order_closed P" "position_closed P" "\<And>l. P l \<Longrightarrow> initialized l"
    and "\<And>l l'. P l \<Longrightarrow> orders l' = orders l \<Longrightarrow> fills l' = fills l \<Longrightarrow> fill_keys l' = fill_keys l \<Longrightarrow> initialized l' = initialized l \<Longrightarrow> P l'"
  shows "ledger_closed P"
proof -
  have "P l'" if "P l" "replace_positions raws False l = Inr l'" for l l' raws
    using that by (auto simp: replace_positions_def res_bind_eq_Inr Let_def intro: assms(5))
  moreover have "P (update_balances a b l)" "P (set_account_snapshot snap l)" if "P l" for a b l snap
    by (rule assms(5)[OF that]; simp add: update_balances_def set_account_snapshot_def)+
  ultimately show ?thesis unfolding ledger_closed_def using assms(1-4) by blast
qed

lemma closed_conj:
  "fill_closed P \<Longrightarrow> fill_closed Q \<Longrightarrow> fill_closed (\<lambda>l. P l \<and> Q l)"
  "order_closed P \<Longrightarrow> order_closed Q \<Longrightarrow> order_closed (\<lambda>l. P l \<and> Q l)"
  "position_closed P \<Longrightarrow> position_closed Q \<Longrightarrow> position_closed (\<lambda>l. P l \<and> Q l)"
  unfolding fill_closed_def order_closed_def position_closed_def by blast+

lemma initialized_frame:
  "initialized (append_fill f l) = initialized l" "initialized (upsert_order od l) = initialized l"
  "initialized (clear_positions_for_symbol sy l) = initialized l" "upsert_position raw l = Inr l' \<Longrightarrow> initialized l' = initialized l"
  using append_fill_frame(3)[of f l] upsert_order_frame(2)[of od l] clear_positions_frame(1)[of sy l] upsert_position_frame[of raw l l']
  by (auto simp: trust_def)

lemma initialized_closed: "fill_closed initialized" "order_closed initialized" "position_closed initialized"
  by (auto simp: fill_closed_def order_closed_def position_closed_def initialized_frame)

text \<open>An order that the ledger holds stays in it.\<close>

definition holds :: "string \<Rightarrow> InMemoryLedger \<Rightarrow> bool" where
  "holds cid l \<longleftrightarrow> get_order_by_client_id l cid \<noteq> None"

lemma holds_closed: "fill_closed (holds cid)" "order_closed (holds cid)" "position_closed (holds cid)"
  by (auto simp: fill_closed_def order_closed_def position_closed_def holds_def get_order_by_client_id_def frame
      upsert_order_def update_conv' position_frame clear_positions_for_symbol_def)

lemma sound_closed: "ledger_closed sound" "ledger_closed (\<lambda>l. sound l \<and> holds cid l)"
proof -
  have c: "fill_closed sound" "order_closed sound" "position_closed sound"
    unfolding sound_def by (intro closed_conj ledger_ok_closed initialized_closed)+
  show "ledger_closed sound"
    by (rule ledger_closedI[OF c]) (auto simp: sound_def ledger_ok_def)
  show "ledger_closed (\<lambda>l. sound l \<and> holds cid l)"
    by (rule ledger_closedI[OF closed_conj(1)[OF c(1) holds_closed(1)] closed_conj(2)[OF c(2) holds_closed(2)] closed_conj(3)[OF c(3) holds_closed(3)]])
      (auto simp: sound_def ledger_ok_def holds_def get_order_by_client_id_def)
qed

definition verified_state :: "'w ExecState \<Rightarrow> bool" where
  "verified_state s \<longleftrightarrow> connection_state (xs_adapter s) = READY \<and> rc_status (xs_recon s) = ''IN_SYNC''
     \<and> authenticated (adapter_view s) \<and> private_stream_healthy (adapter_view s) \<and> fills_add_up (rc_ledger (xs_recon s))"

text \<open>A reconciliation that reports \<open>IN_SYNC\<close>, followed by the verdict on it.\<close>

lemma reconciled_sync:
  assumes "reconciled x s = (Inr r, s')" "linv sound s" "r = ''IN_SYNC''"
  shows "rc_status (xs_recon s') = ''IN_SYNC'' \<and> fills_add_up (rc_ledger (xs_recon s'))"
proof -
  let ?v = "(xv_venue x)\<lparr>vn_clock := xv_clock x (xs_epoch s)\<rparr>"
  have run: "reconcile ?v (xs_recon s) = (''IN_SYNC'', xs_recon s')"
    using assms(1,3) by (auto simp: reconciled_def recon_def split_beta prod_eq_iff)
  from in_sync_facts[OF this] assms(2) have "fills_add_up (rc_ledger (xs_recon s'))" by (auto simp: sound_def)
  moreover have "rc_status (xs_recon s') = ''IN_SYNC''" using run by (auto simp: reconcile_def Let_def split: if_splits)
  ultimately show ?thesis by blast
qed

lemma verdict_verified:
  assumes "linv sound s" "eff_bind (reconciled x) (\<lambda>r. eff_bind (eff_gets (\<lambda>s. verified_now r s \<and> c)) settle) s = (Inr True, s')"
  shows "verified_state s'"
proof -
  obtain r s1 where s1: "reconciled x s = (Inr r, s1)" "verified_now r s1 \<and> c" "s' = set_state READY s1"
    using assms(2) by (auto simp: eff_bind_Inr settle_def eff_gets_Inr)
  then have "r = ''IN_SYNC''" by (simp add: verified_now_def)
  from reconciled_sync[OF s1(1) assms(1) this] s1(2,3) show ?thesis
    by (simp add: verified_state_def verified_now_def adapter_view_def set_state_def)
qed

section \<open>Executed orders\<close>

text \<open>The worker's callback does not fail.\<close>

definition notify_ok :: "'w Exec \<Rightarrow> bool" where
  "notify_ok x \<longleftrightarrow> (\<forall>f od t w. xv_notify x = Some f \<longrightarrow> (\<exists>u. fst (f od t w) = Inr u))"

lemma notify_keeps: "notify_ok x \<Longrightarrow> \<exists>w. notify_submission_result x od t s = (Inr (), s\<lparr>xs_recon := (xs_recon s)\<lparr>rc_world := w\<rparr>\<rparr>)"
proof (cases "xv_notify x")
  case None
  then have "notify_submission_result x od t s = (Inr (), s\<lparr>xs_recon := (xs_recon s)\<lparr>rc_world := rc_world (xs_recon s)\<rparr>\<rparr>)"
    by (simp add: notify_submission_result_def)
  then show ?thesis by blast
next
  case (Some f)
  assume "notify_ok x"
  with Some obtain u where "fst (f od t (rc_world (xs_recon s))) = Inr u" by (auto simp: notify_ok_def)
  then obtain w where "f od t (rc_world (xs_recon s)) = (Inr (), w)" by (cases "f od t (rc_world (xs_recon s))") auto
  then show ?thesis by (auto simp: notify_submission_result_def Some on_world_def eff_catch_def)
qed

lemma verified_state_world [simp]: "verified_state (s\<lparr>xs_recon := (xs_recon s)\<lparr>rc_world := w\<rparr>\<rparr>) = verified_state s"
  by (simp add: verified_state_def adapter_view_def)

text \<open>The ledger's record of an order, and that a method which gave it left a verified state.\<close>

definition executed_in :: "ExecutionOrder \<Rightarrow> 'w ExecState \<Rightarrow> bool" where
  "executed_in od s \<longleftrightarrow> verified_state s \<and> holds (eo_client_order_id od) (rc_ledger (xs_recon s))"

lemma current_order_id: "linv sound s \<Longrightarrow> eo_client_order_id (current_order od s) = eo_client_order_id od"
  by (auto simp: current_order_def get_order_by_client_id_def sound_def ledger_ok_def split: option.split dest!: map_of_SomeD)

lemma post_mutation_verified:
  assumes "post_mutation_reconcile x od response s = (Inr True, s')" "linv sound s"
  shows "verified_state s'"
proof -
  let ?m = "if executed_status (eo_status od) then recon x (\<lambda>v. recover_order_fills v od (response_fields response)) else eff_ret ()"
  obtain u s1 where s1: "?m (set_last_status ''UNKNOWN'' s) = (Inr u, s1)"
    "eff_bind (reconciled x) (\<lambda>r. eff_bind (eff_gets (verified_now r)) settle) s1 = (Inr True, s')"
    using assms(1) by (auto simp: post_mutation_reconcile_def eff_catch_def eff_bind_def[of "eff_modify _"] eff_bind_Inr split: prod.splits sum.splits if_splits)
  have "eff_keeps (linv sound) ?m" by (auto intro!: eff_rules ledger_rules sound_closed)
  from eff_valid_Inr[OF this _ s1(1)] assms(2) have "linv sound s1" by simp
  then show ?thesis by (rule verdict_verified[where c = True]) (use s1(2) in simp)
qed


lemma upsert_holds: "linv sound s \<Longrightarrow> linv (\<lambda>l. sound l \<and> holds (eo_client_order_id od) l) (snd (with_ledger (upsert_order od) s))"
proof -
  assume "linv sound s"
  then have "linv sound (snd (with_ledger (upsert_order od) s))"
    using l_upsert[OF sound_closed(1)] by (auto simp: eff_valid_def with_ledger_def)
  then show ?thesis by (simp add: with_ledger_def holds_def get_order_by_client_id_def upsert_order_def update_conv')
qed

text \<open>Triples that say nothing about exceptions.\<close>

abbreviation eff_post :: "('s \<Rightarrow> bool) \<Rightarrow> ('s, 'e, 'a) eff \<Rightarrow> ('a \<Rightarrow> 's \<Rightarrow> bool) \<Rightarrow> bool" where
  "eff_post P m Q \<equiv> eff_valid P m Q (\<lambda>_ _. True)"

lemma eff_postI: "(\<And>s r s'. P s \<Longrightarrow> m s = (Inr r, s') \<Longrightarrow> Q r s') \<Longrightarrow> eff_post P m Q"
  by (rule eff_validI) (auto split: prod.split sum.split)

lemma eff_post_keeps: "eff_keeps I m \<Longrightarrow> eff_post I m (\<lambda>_. I)"
  by (erule eff_valid_conseq) simp_all

lemma eff_post_and_keeps: "eff_post P m Q \<Longrightarrow> eff_keeps P m \<Longrightarrow> eff_valid P m (\<lambda>r s. Q r s \<and> P s) (\<lambda>_. P)"
  by (rule eff_validI) (auto split: prod.split sum.split dest: eff_valid_Inr eff_valid_Inl)

abbreviation keeps_order :: "ExecutionOrder \<Rightarrow> 'w ExecState \<Rightarrow> bool" where
  "keeps_order od \<equiv> linv (\<lambda>l. sound l \<and> holds (eo_client_order_id od) l)"

lemma upsert_post: "eff_post (linv sound) (with_ledger (upsert_order od)) (\<lambda>_. keeps_order od)"
  using upsert_holds[of _ od] by (intro eff_postI) fastforce

lemma post_mutation_post:
  "eff_post (keeps_order od) (post_mutation_reconcile x od response) (\<lambda>b s. (b \<longrightarrow> verified_state s) \<and> keeps_order od s)"
proof (rule eff_postI)
  fix s b s'
  assume s: "keeps_order od s" "post_mutation_reconcile x od response s = (Inr b, s')"
  then have "keeps_order od s'" by (rule eff_valid_Inr[OF l_post_mutation[OF sound_closed(2)]])
  then show "(b \<longrightarrow> verified_state s') \<and> keeps_order od s'" using s post_mutation_verified[of x od response s s'] by (cases b) auto
qed

lemma notify_post:
  assumes "notify_ok x"
  shows "eff_post (\<lambda>s. executed_in od s) (notify_submission_result x od' t) (\<lambda>_ s. executed_in od s)"
proof (rule eff_postI)
  fix s r s'
  assume s: "executed_in od s" "notify_submission_result x od' t s = (Inr r, s')"
  then obtain w where "s' = s\<lparr>xs_recon := (xs_recon s)\<lparr>rc_world := w\<rparr>\<rparr>"
    using notify_keeps[OF assms, of od' t s] by auto
  then show "executed_in od s'" using s(1) by (simp add: executed_in_def)
qed

abbreviation executed_result :: "(ExecutionOrder \<times> bool) option \<Rightarrow> 'w ExecState \<Rightarrow> bool" where
  "executed_result r s \<equiv> (\<forall>od b. r = Some (od, b) \<longrightarrow> executed_in od s)"

lemma submit_request_post:
  assumes "notify_ok x"
  shows "eff_post (linv sound) (submit_request x intent prepared cid ctx) executed_result"
proof -
  have tail: "eff_post (\<lambda>s. (verified \<longrightarrow> verified_state s) \<and> keeps_order od s) (eff_bind (eff_gets (current_order od)) (\<lambda>od'.
     if \<not> verified then eff_bind (notify_submission_result x od' ''AMBIGUOUS'') (\<lambda>_. eff_ret None)
     else eff_bind (notify_submission_result x od' ''CONFIRMED'') (\<lambda>_. eff_ret (Some (od', f od'))))) executed_result" for verified od and f :: "ExecutionOrder \<Rightarrow> bool"
  proof (rule eff_valid_bind)
    show "eff_post (\<lambda>s. (verified \<longrightarrow> verified_state s) \<and> keeps_order od s) (eff_gets (current_order od)) (\<lambda>od' s. verified \<longrightarrow> executed_in od' s)"
      by (intro eff_postI) (auto simp: executed_in_def current_order_id)
    have "eff_post (executed_in od') (eff_bind (notify_submission_result x od' t) (\<lambda>_. eff_ret (Some (od', f od')))) executed_result" for od' t
      by (rule eff_valid_bind[OF notify_post[OF assms]]) (simp add: eff_valid_def)
    then show "eff_post (\<lambda>s. verified \<longrightarrow> executed_in od' s) (if \<not> verified then eff_bind (notify_submission_result x od' ''AMBIGUOUS'') (\<lambda>_. eff_ret None)
       else eff_bind (notify_submission_result x od' ''CONFIRMED'') (\<lambda>_. eff_ret (Some (od', f od')))) executed_result" for od'
      by (cases verified) (auto intro!: eff_postI simp: eff_bind_Inr)
  qed
  show ?thesis
    unfolding submit_request_def
    by (intro eff_valid_bind[OF eff_post_keeps[OF eff_keeps_gets]] eff_valid_bind[OF eff_post_keeps[OF l_modify]]
        eff_valid_bind[OF eff_post_keeps[OF l_simple(5)]] eff_valid_bind[OF eff_post_keeps[OF l_simple(1)]]
        eff_valid_bind[OF eff_post_keeps[OF eff_keeps_lift]] eff_valid_bind[OF upsert_post] eff_valid_bind[OF post_mutation_post] tail) simp
qed

text \<open>The order that the resolution of an ambiguity found is in the ledger.\<close>

abbreviation found_order :: "bool + ambiguity \<Rightarrow> 'w ExecState \<Rightarrow> bool" where
  "found_order r s \<equiv> linv sound s \<and> (\<forall>am od. r = Inr am \<longrightarrow> am_order am = Some od \<longrightarrow> linv (holds (eo_client_order_id od)) s)"

lemma recover_ambiguous_post: "eff_valid (linv sound) (recover_ambiguous x od response) found_order (\<lambda>_. linv sound)"
proof -
  have up: "eff_valid (linv sound) (with_ledger (upsert_order od)) (\<lambda>_. keeps_order od) (\<lambda>_. linv sound)"
    using upsert_post[of od] by (auto simp: eff_valid_def with_ledger_def)
  have ret: "eff_valid (keeps_order od) (eff_ret (Inr \<lparr>am_order = Some od, am_known = True, am_fills_ok = b\<rparr>)) found_order (\<lambda>_. E)"
    "eff_valid (keeps_order od) (eff_ret (Inl c)) found_order (\<lambda>_. E)" for b c E
    by (auto simp: eff_valid_def)
  have fills: "eff_keeps (keeps_order od) (recon x (\<lambda>v. recover_order_fills v od (response_fields response)))"
    by (rule l_fills[OF sound_closed(2)])
  have mods: "eff_valid (keeps_order od) (eff_modify invalidate_authentication) (\<lambda>_. keeps_order od) (\<lambda>_. linv sound)"
    "eff_valid (keeps_order od) (eff_modify (set_last_status st)) (\<lambda>_. keeps_order od) (\<lambda>_. linv sound)" for st
    by (simp_all add: eff_valid_def)
  show ?thesis
    unfolding recover_ambiguous_def Let_def
    by (intro eff_valid_bind[OF up] eff_valid_if ret eff_valid_catch[OF eff_valid_bind[OF fills ret(1)]] eff_valid_bind[OF mods(1)] eff_valid_bind[OF mods(2)])
qed

lemma query_ambiguous_post: "eff_post (linv sound) (query_ambiguous x intent prepared cid ctx final) found_order"
proof -
  have body: "eff_valid (linv sound) (eff_bind (rest x (GetOrderByClient (po_symbol prepared) cid)) (\<lambda>response.
         eff_bind (now_of x) (\<lambda>clock.
         eff_bind (eff_lift id (order_from_response intent response prepared cid ctx True (clock 0))) (\<lambda>od.
         recover_ambiguous x od response)))) found_order (\<lambda>_. linv sound)"
    by (intro eff_valid_bind[OF l_simple(5)] eff_valid_bind[OF l_simple(1)] eff_valid_bind[OF eff_keeps_lift] recover_ambiguous_post)
  show ?thesis
    unfolding query_ambiguous_def Let_def
    by (rule eff_valid_catch[OF body]) (auto simp: eff_valid_def split: rec_error.split)
qed

lemma poll_ambiguous_post:
  "eff_post (linv sound) (poll_ambiguous x intent prepared cid ctx n)
     (\<lambda>r s. linv sound s \<and> (\<forall>am od. r = Some am \<longrightarrow> am_order am = Some od \<longrightarrow> linv (holds (eo_client_order_id od)) s))"
proof (induction n)
  case (Suc n)
  show ?case
    unfolding poll_ambiguous.simps
  proof (rule eff_valid_bind[OF query_ambiguous_post])
    fix r :: "bool + ambiguity"
    show "eff_post (found_order r) (case r of Inr am \<Rightarrow> eff_ret (Some am) | Inl True \<Rightarrow> poll_ambiguous x intent prepared cid ctx n | Inl False \<Rightarrow> eff_ret None)
       (\<lambda>r s. linv sound s \<and> (\<forall>am od. r = Some am \<longrightarrow> am_order am = Some od \<longrightarrow> linv (holds (eo_client_order_id od)) s))"
      using Suc by (cases r) (auto simp: eff_valid_def split: bool.split)
  qed
qed (simp add: eff_valid_def)

lemma resolve_ambiguous_post:
  "eff_post (linv sound) (resolve_ambiguous_order x intent prepared cid ctx) (\<lambda>r s. \<forall>od. r = Some od \<longrightarrow> executed_in od s)"
proof -
  have settle: "eff_post (\<lambda>s. linv sound s \<and> (\<forall>od. am_order am = Some od \<longrightarrow> linv (holds (eo_client_order_id od)) s))
     (eff_bind (reconciled x) (\<lambda>sync_result.
      eff_bind (eff_gets (\<lambda>s. verified_now sync_result s \<and> am_known am \<and> am_fills_ok am)) (\<lambda>ok.
      eff_bind (settle ok) (\<lambda>_. eff_gets (\<lambda>s. if ok then map_option (\<lambda>od. current_order od s) (am_order am) else None)))))
     (\<lambda>r s. \<forall>od. r = Some od \<longrightarrow> executed_in od s)" for am
  proof (rule eff_postI, intro allI impI)
    fix s r s' od
    assume s: "linv sound s \<and> (\<forall>od. am_order am = Some od \<longrightarrow> linv (holds (eo_client_order_id od)) s)"
      and run: "eff_bind (reconciled x) (\<lambda>sync_result.
        eff_bind (eff_gets (\<lambda>s. verified_now sync_result s \<and> am_known am \<and> am_fills_ok am)) (\<lambda>ok.
        eff_bind (settle ok) (\<lambda>_. eff_gets (\<lambda>s. if ok then map_option (\<lambda>od. current_order od s) (am_order am) else None)))) s = (Inr r, s')"
      and r: "r = Some od"
    obtain od0 where od0: "am_order am = Some od0" "od = current_order od0 s'"
      and sync: "eff_bind (reconciled x) (\<lambda>q. eff_bind (eff_gets (\<lambda>s. verified_now q s \<and> am_known am \<and> am_fills_ok am)) settle) s = (Inr True, s')"
      using run r by (auto simp: eff_bind_Inr eff_gets_Inr settle_def split: if_splits)
    have "eff_keeps (keeps_order od0) (eff_bind (reconciled x) (\<lambda>q. eff_bind (eff_gets (\<lambda>s. verified_now q s \<and> am_known am \<and> am_fills_ok am)) settle))"
      by (intro eff_keeps_bind eff_keeps_gets l_reconciled l_simple sound_closed)
    from eff_valid_Inr[OF this _ sync] have s': "keeps_order od0 s'" using s od0 by blast
    have "verified_state s'" using verdict_verified[OF conjunct1[OF s] sync] .
    then show "executed_in od s'" using s' od0(2) by (simp add: executed_in_def current_order_id)
  qed
  show ?thesis
    unfolding resolve_ambiguous_order_def
  proof (intro eff_valid_bind[OF eff_post_keeps[OF l_modify]] eff_valid_bind[OF poll_ambiguous_post])
    fix r :: "ambiguity option"
    show "eff_post (\<lambda>s. linv sound s \<and> (\<forall>am od. r = Some am \<longrightarrow> am_order am = Some od \<longrightarrow> linv (holds (eo_client_order_id od)) s))
       (case r of None \<Rightarrow> eff_ret None
        | Some am \<Rightarrow> eff_bind (reconciled x) (\<lambda>sync_result.
           eff_bind (eff_gets (\<lambda>s. verified_now sync_result s \<and> am_known am \<and> am_fills_ok am)) (\<lambda>ok.
           eff_bind (settle ok) (\<lambda>_. eff_gets (\<lambda>s. if ok then map_option (\<lambda>od. current_order od s) (am_order am) else None)))))
       (\<lambda>r s. \<forall>od. r = Some od \<longrightarrow> executed_in od s)"
    proof (cases r)
      case (Some am)
      then show ?thesis using settle[of am] by simp
    qed (simp add: eff_valid_def)
  qed simp
qed


lemma submission_failed_post:
  assumes "notify_ok x"
  shows "eff_post (linv sound) (submission_failed x intent prepared cid ctx planned attempted e) executed_result"
proof -
  have none: "eff_post (linv sound) (eff_bind m (\<lambda>_. eff_ret None)) executed_result" for m :: "('a, unit) exec"
    by (rule eff_postI) (auto simp: eff_bind_Inr)
  have none2: "eff_post (linv sound) (eff_bind m (\<lambda>_. eff_bind m' (\<lambda>_. eff_ret None))) executed_result" for m m' :: "('a, unit) exec"
    by (rule eff_postI) (auto simp: eff_bind_Inr)
  have found: "eff_post (executed_in od) (eff_bind (notify_submission_result x od t) (\<lambda>_. eff_ret (Some (od, False)))) executed_result" for od t
    by (rule eff_valid_bind[OF notify_post[OF assms]]) (simp add: eff_valid_def)
  have ambiguous: "eff_post (linv sound) (eff_bind (notify_submission_result x planned ''AMBIGUOUS'') (\<lambda>_.
            eff_bind (resolve_ambiguous_order x intent prepared cid ctx) (\<lambda>recovered.
            case recovered of None \<Rightarrow> eff_ret None
            | Some od \<Rightarrow> eff_bind (notify_submission_result x od ''CONFIRMED'') (\<lambda>_. eff_ret (Some (od, False)))))) executed_result"
  proof (intro eff_valid_bind[OF eff_post_keeps[OF l_notify]] eff_valid_bind[OF resolve_ambiguous_post])
    fix r :: "ExecutionOrder option"
    show "eff_post (\<lambda>s. \<forall>od. r = Some od \<longrightarrow> executed_in od s) (case r of None \<Rightarrow> eff_ret None
       | Some od \<Rightarrow> eff_bind (notify_submission_result x od ''CONFIRMED'') (\<lambda>_. eff_ret (Some (od, False)))) executed_result"
      using found by (cases r) (auto simp: eff_valid_def)
  qed
  have rejected: "eff_post (linv sound) (eff_bind (now_of x) (\<lambda>clock. eff_bind (f clock) (\<lambda>_. eff_bind (g clock) (\<lambda>_. eff_ret None)))) executed_result"
    for f g :: "(nat \<Rightarrow> int) \<Rightarrow> ('a, unit) exec"
    by (rule eff_postI) (auto simp: eff_bind_Inr)
  show ?thesis
    unfolding submission_failed_def Let_def using none none2 ambiguous rejected by (cases e) simp_all
qed

lemma submit_prepared_post:
  assumes "notify_ok x"
  shows "eff_post (linv sound) (submit_prepared x intent prepared cid ctx) (\<lambda>r s. executed_result r s \<and> linv sound s)"
proof -
  let ?failed = "\<lambda>clock. submission_failed x intent prepared cid ctx (planned_order intent prepared cid ctx (clock 0))"
  have early: "eff_post (linv sound) (eff_catch (eff_bind (before_submission x planned risk) (\<lambda>go. eff_ret (Inr go)))
         (\<lambda>e. eff_bind (?failed clock False e) (\<lambda>r. eff_ret (Inl r)))) (\<lambda>r s. case r of Inl b \<Rightarrow> executed_result b s | Inr go \<Rightarrow> linv sound s)" for clock planned risk
  proof (rule eff_valid_catch)
    show "eff_valid (linv sound) (eff_bind (before_submission x planned risk) (\<lambda>go. eff_ret (Inr go)))
       (\<lambda>r s. case r of Inl b \<Rightarrow> executed_result b s | Inr go \<Rightarrow> linv sound s) (\<lambda>_. linv sound)"
      by (rule eff_valid_bind[OF l_before_submission[OF sound_closed(1)]]) (simp add: eff_valid_def)
    show "eff_post (linv sound) (eff_bind (?failed clock False e) (\<lambda>r. eff_ret (Inl r))) (\<lambda>r s. case r of Inl b \<Rightarrow> executed_result b s | Inr go \<Rightarrow> linv sound s)" for e
      by (rule eff_valid_bind[OF submission_failed_post[OF assms]]) (simp add: eff_valid_def)
  qed
  have request: "eff_post (linv sound) (eff_catch (submit_request x intent prepared cid ctx) (?failed clock True)) executed_result" for clock
  proof (rule eff_valid_catch[OF _ submission_failed_post[OF assms]])
    have "eff_keeps (linv sound) (submit_request x intent prepared cid ctx)"
      unfolding submit_request_def by (auto intro!: eff_rules ledger_rules l_modify sound_closed)
    from eff_post_and_keeps[OF submit_request_post[OF assms] this]
    show "eff_valid (linv sound) (submit_request x intent prepared cid ctx) executed_result (\<lambda>_. linv sound)"
      by (rule eff_valid_conseq) simp_all
  qed
  have result: "eff_post (linv sound) (submit_prepared x intent prepared cid ctx) executed_result"
    unfolding submit_prepared_def Let_def
  proof (intro eff_valid_bind[OF eff_post_keeps[OF l_simple(1)]] eff_valid_bind[OF early])
    fix clock :: "nat \<Rightarrow> int" and r :: "(ExecutionOrder \<times> bool) option + bool"
    show "eff_post (\<lambda>s. case r of Inl b \<Rightarrow> executed_result b s | Inr go \<Rightarrow> linv sound s) (case r of Inl b \<Rightarrow> eff_ret b
       | Inr go \<Rightarrow> if \<not> go then eff_ret None else eff_catch (submit_request x intent prepared cid ctx) (?failed clock True)) executed_result"
    proof (cases r)
      case (Inr go)
      then show ?thesis using request[of clock] by (cases go) (simp_all add: eff_valid_def)
    qed (simp add: eff_valid_def)
  qed
  show ?thesis
    by (rule eff_valid_conseq[OF eff_post_and_keeps[OF result l_submit_prepared[OF sound_closed(1)]]]) simp_all
qed


definition ids :: "submission_acc \<Rightarrow> string set" where
  "ids acc = eo_client_order_id ` set (sa_executed acc)"

definition holds_all :: "string set \<Rightarrow> InMemoryLedger \<Rightarrow> bool" where
  "holds_all S l \<longleftrightarrow> sound l \<and> (\<forall>cid \<in> S. holds cid l)"

lemma holds_all_closed: "ledger_closed (holds_all S)"
proof -
  have c: "fill_closed (\<lambda>l. \<forall>cid \<in> S. holds cid l)" "order_closed (\<lambda>l. \<forall>cid \<in> S. holds cid l)"
    "position_closed (\<lambda>l. \<forall>cid \<in> S. holds cid l)"
    using holds_closed unfolding fill_closed_def order_closed_def position_closed_def by meson+
  have b: "fill_closed sound" "order_closed sound" "position_closed sound" using sound_closed(1) by (simp_all add: ledger_closed_def)
  show ?thesis
    unfolding holds_all_def
    by (rule ledger_closedI[OF closed_conj(1)[OF b(1) c(1)] closed_conj(2)[OF b(2) c(2)] closed_conj(3)[OF b(3) c(3)]])
      (auto simp: sound_def ledger_ok_def holds_def get_order_by_client_id_def)
qed

definition advanced :: "submission_acc \<Rightarrow> submission_acc \<Rightarrow> 'w ExecState \<Rightarrow> bool" where
  "advanced acc acc' s \<longleftrightarrow> linv (holds_all (ids acc')) s
     \<and> (sa_executed acc' = sa_executed acc \<or> (\<exists>od. sa_executed acc' = sa_executed acc @ [od] \<and> verified_state s))"

lemma submit_intent_post:
  assumes "notify_ok x"
  shows "eff_post (linv (holds_all (ids acc))) (submit_intent x ctx em i intent acc) (advanced acc)"
proof -
  let ?H = "linv (holds_all (ids acc))"
  have sub: "eff_post ?H (submit_prepared x intent prepared cid ctx) (\<lambda>r s. executed_result r s \<and> ?H s)" for prepared cid
  proof -
    have "eff_post ?H (submit_prepared x intent prepared cid ctx) executed_result"
      by (rule eff_valid_conseq[OF submit_prepared_post[OF assms]]) (auto simp: holds_all_def)
    from eff_post_and_keeps[OF this l_submit_prepared[OF holds_all_closed]] show ?thesis by (rule eff_valid_conseq) auto
  qed
  have none: "eff_post ?H (eff_ret acc) (advanced acc)" by (auto simp: eff_valid_def advanced_def)
  have some: "eff_post (\<lambda>s. executed_result r s \<and> ?H s) (eff_ret (case r of None \<Rightarrow> acc
       | Some (od, rests) \<Rightarrow> let acc' = acc\<lparr>sa_executed := sa_executed acc @ [od]\<rparr> in
           if rests then acc'\<lparr>sa_reserved_orders := n, sa_reserved_notional := q\<rparr> else acc')) (advanced acc)" for r n q
    by (cases r) (auto simp: eff_valid_def advanced_def ids_def holds_all_def executed_in_def Let_def split: if_splits)
  show ?thesis
    unfolding submit_intent_def
  proof (intro eff_valid_bind[OF eff_post_keeps[OF l_run_order_gate]] eff_valid_bind[OF eff_post_keeps[OF l_simple(3)]])
    fix passed :: "PreparedOrder option"
    show "eff_post ?H (case passed of None \<Rightarrow> eff_ret acc | Some prepared \<Rightarrow>
         eff_bind (eff_gets xs_env) (\<lambda>env.
         eff_bind (submit_prepared x intent prepared (order_id_for x env ctx intent prepared i) ctx) (\<lambda>outcome.
         eff_ret (case outcome of None \<Rightarrow> acc
           | Some (od, rests) \<Rightarrow> let acc' = acc\<lparr>sa_executed := sa_executed acc @ [od]\<rparr> in
               if rests then acc'\<lparr>sa_reserved_orders := sa_reserved_orders acc + 1,
                   sa_reserved_notional := dadd (sa_reserved_notional acc) (po_notional prepared)\<rparr> else acc')))) (advanced acc)"
    proof (cases passed)
      case (Some prepared)
      show ?thesis
        unfolding Some option.case
        by (intro eff_valid_bind[OF eff_post_keeps[OF eff_keeps_gets]] eff_valid_bind[OF sub] some)
    qed (simp add: none)
  qed
qed

lemma submit_orders_post:
  assumes "notify_ok x"
  shows "eff_post (linv (holds_all (ids acc))) (submit_orders x ctx em ios acc)
     (\<lambda>acc' s. linv (holds_all (ids acc')) s \<and> length (sa_executed acc') \<le> length (sa_executed acc) + length ios
        \<and> (ios \<noteq> [] \<and> length (sa_executed acc') = length (sa_executed acc) + length ios \<longrightarrow> verified_state s))"
proof (induction ios arbitrary: acc)
  case (Cons io ios)
  show ?case
  proof (rule eff_postI)
    fix s acc' s'
    assume s: "linv (holds_all (ids acc)) s" and run: "submit_orders x ctx em (io # ios) acc s = (Inr acc', s')"
    show "linv (holds_all (ids acc')) s' \<and> length (sa_executed acc') \<le> length (sa_executed acc) + length (io # ios)
        \<and> (io # ios \<noteq> [] \<and> length (sa_executed acc') = length (sa_executed acc) + length (io # ios) \<longrightarrow> verified_state s')"
    proof (cases "\<not> em \<and> kill_switch_active (worker_of x s)")
      case True
      then show ?thesis using run s by (auto simp: eff_bind_Inr)
    next
      case False
      obtain acc1 s1 where one: "submit_intent x ctx em (fst io) (snd io) acc s = (Inr acc1, s1)"
        and more: "submit_orders x ctx em ios acc1 s1 = (Inr acc', s')"
        using run False by (auto simp: eff_bind_gets eff_bind_Inr split: if_splits)
      have a: "advanced acc acc1 s1" by (rule eff_valid_Inr[OF submit_intent_post[OF assms] s one])
      then have "linv (holds_all (ids acc1)) s1" by (simp add: advanced_def)
      note later = eff_valid_Inr[OF Cons.IH this more]
      show ?thesis
      proof (cases ios)
        case Nil
        then show ?thesis using a more later by (auto simp: advanced_def)
      next
        case (Cons a' ios')
        then show ?thesis using a later by (auto simp: advanced_def)
      qed
    qed
  qed
qed (simp add: eff_valid_def)

section \<open>Property\<close>


end
