(* ===== verification/ExecutionWitnesses.thy ===== *)
theory ExecutionWitnesses
  imports ExecutionVerified
begin

text \<open>
  Concrete runs of the execution adapter at which the hypotheses of its properties hold: a Mainnet
  desk whose order request is sent and rejected by the exchange, and a Testnet desk whose closing
  order is accepted and reconciled.
\<close>

section \<open>A rejected order\<close>

text \<open>The world of this desk is the list of the requests it has received.\<close>

definition logging_desk :: "rest_call list Exec" where
  "logging_desk = \<lparr>xv_venue = \<lparr>vn_env = MAINNET, vn_portfolio_margin = False,
     vn_request = (\<lambda>call w. (Inl (case call of PostOrder _ \<Rightarrow> BinanceDefinitiveRejection (- 2019) | _ \<Rightarrow> RestFailure ''unexpected call''), w @ [call])),
     vn_clock = (\<lambda>_. 0)\<rparr>, xv_environ = sample_env, xv_clock = (\<lambda>_ _. 0), xv_digest = (\<lambda>_. ''0''), xv_worker = (\<lambda>_. sample_worker),
     xv_preflight_only = False, xv_lease_required = True, xv_lease = Some (\<lambda>w. (Inr (), w)), xv_barrier = Some (\<lambda>_ w. (Inr True, w)),
     xv_notify = None\<rparr>"

definition logging_state :: "rest_call list ExecState" where
  "logging_state = \<lparr>xs_adapter = sample_adapter [],
     xs_recon = \<lparr>rc_ledger = ledger (sample_adapter []), rc_status = ''IN_SYNC'', rc_diffs = [], rc_authentication_failed = False,
       rc_unattributed = [], rc_recovered_trade_ids = {}, rc_window_start = None, rc_window_end = None, rc_world = []\<rparr>,
     xs_market_price = Map.empty, xs_market_bid = Map.empty, xs_market_ask = [''ETHUSDC'' \<mapsto> Fin 10], xs_submission_attempts = 0,
     xs_order_event_at = Map.empty, xs_emergency = EmergencyUnknown, xs_epoch = 0\<rparr>"

lemma logging_view: "adapter_view (logging_state\<lparr>xs_epoch := n\<rparr>) = sample_adapter []"
  by (simp add: adapter_view_def logging_state_def sample_adapter_def)

lemma logging_worker: "worker_of logging_desk (logging_state\<lparr>xs_epoch := n\<rparr>) = sample_worker"
  unfolding worker_of_def logging_view by (simp add: logging_desk_def sample_worker_def)

lemma logging_worker_gate:
  "worker_gate logging_desk (sample_execution_decision NEW_RISK) (logging_state\<lparr>xs_epoch := n\<rparr>)
     = (Inr True, logging_state\<lparr>xs_epoch := Suc n\<rparr>)"
proof -
  have "xv_environ logging_desk = sample_env" "xv_clock logging_desk m = (\<lambda>_. 0)" for m by (simp_all add: logging_desk_def)
  then show ?thesis using sample_decision_passes
    by (simp add: worker_gate_def now_of_def logging_worker gate_passed_def)
qed

definition rejected_request :: PreparedOrder where
  "rejected_request = \<lparr>po_symbol = ''ETHUSDC'', po_order_type = ''MARKET'', po_quantity = 1, po_price = None,
     po_estimated_price = 10, po_notional = 10\<rparr>"

lemma logging_order_gate:
  "run_order_gate logging_desk (sample_order BUY False) NEW_RISK 0 0 None True False (logging_state\<lparr>xs_epoch := n\<rparr>)
     = (Inr (Inr rejected_request), logging_state\<lparr>xs_epoch := Suc (Suc n)\<rparr>)"
proof -
  have x: "xv_environ logging_desk = sample_env" "xv_clock logging_desk k = (\<lambda>_. 0)" for k by (simp_all add: logging_desk_def)
  have ask: "discovery_request sample_env (\<lambda>_. 0) (sample_adapter []) (sample_order BUY False) NEW_RISK False = Some (''ETHUSDC'', Some BUY)"
    using sample_gate_parts(1)
    by (simp add: discovery_request_def is_risk_increasing_def sample_gate_parts(2-6)) (simp add: sample_order_def)
  have "cached_price logging_desk 0 ''ETHUSDC'' (Some BUY) (logging_state\<lparr>xs_epoch := k\<rparr>) = Inl (Some (Fin 10))" for k
    by (simp add: cached_price_def x market_data_max_age_def logging_state_def sample_adapter_def has_authoritative_market_sample_def
        environment_label_def sample_gate_parts(1) is_fresh_def age_seconds_def split: option.split decimal.split)
  then have fresh: "get_fresh_market_price logging_desk ''ETHUSDC'' (Some BUY) (logging_state\<lparr>xs_epoch := k\<rparr>)
      = (Inr (Some (Fin 10)), logging_state\<lparr>xs_epoch := Suc k\<rparr>)" for k
    by (simp add: get_fresh_market_price_def now_of_def x Let_def sample_gate_parts(1))
  have "order_gate_check sample_env (\<lambda>_. 0) (\<lambda>_ _ _. (Some (Fin 10), sample_adapter [])) (sample_adapter []) (sample_order BUY False)
      NEW_RISK 0 0 None True False
    = order_gate_check sample_env (\<lambda>_. 0) sample_discover (sample_adapter []) (sample_order BUY False) NEW_RISK 0 0 None True False"
    by (simp add: order_gate_check_def order_gate_price_def sample_order_def sample_discover_def)
  then show ?thesis
    using sample_gate_passes by (simp add: run_order_gate_def now_of_def x logging_view ask fresh rejected_request_def)
qed

lemma logging_submission:
  "\<exists>s'. submit_prepared logging_desk (sample_order BUY False) rejected_request cid (context_of (sample_execution_decision NEW_RISK))
       (logging_state\<lparr>xs_epoch := n\<rparr>) = (Inr None, s')
     \<and> rc_world (xs_recon s') = [PostOrder (order_request False (sample_order BUY False) rejected_request cid)]"
proof -
  have x: "xv_lease logging_desk = Some (\<lambda>w. (Inr (), w))" "xv_barrier logging_desk = Some (\<lambda>_ w. (Inr True, w))" "xv_notify logging_desk = None"
    "vn_request (xv_venue logging_desk) (PostOrder p) w = (Inl (BinanceDefinitiveRejection (- 2019)), w @ [PostOrder p])" for p w
    by (simp_all add: logging_desk_def)
  have s: "rc_world (xs_recon logging_state) = []" "ad_hedge_mode (xs_adapter logging_state) = False"
    by (simp_all add: logging_state_def sample_adapter_def)
  have "oc_risk (context_of (sample_execution_decision NEW_RISK)) = NEW_RISK" by (simp add: context_of_def sample_execution_decision_def)
  then show ?thesis
    by (simp add: submit_prepared_def Let_def now_of_def before_submission_def durable_barrier_def x on_world_def s
        with_ledger_def assert_execution_lease_def is_risk_increasing_def submit_request_def rest_def recon_def request_def
        submission_failed_def notify_submission_result_def eff_catch_def)
qed


theorem private_event_blocks_decisions_witness:
  "\<exists>r s'. on_ws_event logging_desk (JObject [(''e'', JStr ''ACCOUNT_UPDATE'')]) logging_state = (r, s')
     \<and> decision_gate_check sample_env (\<lambda>_. 0) (worker_of logging_desk logging_state) (sample_execution_decision NEW_RISK) = Inr ()
     \<and> decision_gate_check sample_env (\<lambda>_. 0) (worker_of logging_desk s') (sample_execution_decision NEW_RISK) \<noteq> Inr ()"
proof -
  have event: "account_event [(''e'', JStr ''ACCOUNT_UPDATE'')]" by (simp add: account_event_def json_get_def)
  have before: "worker_of logging_desk logging_state = sample_worker"
    using logging_worker[of 0] by (simp add: logging_state_def)
  obtain r s' where run: "on_ws_event logging_desk (JObject [(''e'', JStr ''ACCOUNT_UPDATE'')]) logging_state = (r, s')" by fastforce
  show ?thesis
    using private_event_blocks_decisions[OF event run, of sample_env "\<lambda>_. 0" "sample_execution_decision NEW_RISK"]
      sample_decision_passes run before by auto
qed

section \<open>A closing order that is accepted\<close>

definition closing_order :: OrderIntent where
  "closing_order = (sample_order SELL True)\<lparr>oi_symbol := ''ETHUSDT''\<rparr>"

definition closing_decision :: "reason ExecutionDecision" where
  "closing_decision = (sample_execution_decision CLOSE)\<lparr>ed_symbol := ''ETHUSDT'', ed_orders := [closing_order]\<rparr>"

text \<open>The exchange answers the order request and lists the order with the same object.\<close>

definition listed_fields :: jfields where
  "listed_fields = [(''symbol'', JStr ''ETHUSDT''), (''orderId'', JStr ''7''), (''clientOrderId'', JStr ''B-1''), (''status'', JStr ''NEW''),
     (''side'', JStr ''SELL''), (''positionSide'', JStr ''BOTH''), (''origQty'', JStr ''1''), (''reduceOnly'', JBool True),
     (''type'', JStr ''MARKET''), (''price'', JStr ''0'')]"

definition closing_desk :: "unit Exec" where
  "closing_desk = \<lparr>xv_venue = \<lparr>vn_env = TESTNET, vn_portfolio_margin = False,
     vn_request = (\<lambda>call w. (case call of GetPositionRisk \<Rightarrow> Inr (JList [JObject sample_exchange_position])
        | GetOpenOrders \<Rightarrow> Inr (JList [JObject listed_fields]) | GetAccount \<Rightarrow> Inr sample_account | GetTrades _ \<Rightarrow> Inr (JList [])
        | PostOrder _ \<Rightarrow> Inr (JObject listed_fields) | _ \<Rightarrow> Inl (RestFailure ''unexpected call''), w)),
     vn_clock = (\<lambda>_. 0)\<rparr>,
     xv_environ = [''BINANCE_TESTNET_API_KEY'' \<mapsto> ''k'', ''BINANCE_TESTNET_API_SECRET'' \<mapsto> ''s'', ''BINANCE_TESTNET'' \<mapsto> ''true''],
     xv_clock = (\<lambda>_ _. 0), xv_digest = (\<lambda>_. ''0''), xv_worker = (\<lambda>_. sample_worker\<lparr>execution_mode := WM_TESTNET\<rparr>),
     xv_preflight_only = False, xv_lease_required = True, xv_lease = None, xv_barrier = None, xv_notify = None\<rparr>"

definition closing_adapter :: BinanceAdapter where
  "closing_adapter = (sample_adapter [])\<lparr>ad_env := TESTNET, safety_limits := (limit_defaults TESTNET)\<lparr>allowed_symbols := {''ETHUSDT''}\<rparr>,
     symbol_rules := [''ETHUSDT'' \<mapsto> sample_symbol_rules], ad_last_market_event_at := [''ETHUSDT'' \<mapsto> Aware 0],
     last_market_event_source := [''ETHUSDT'' \<mapsto> ''BINANCE_TESTNET_WS''], last_market_event_venue := [''ETHUSDT'' \<mapsto> ''BINANCE_TESTNET''],
     last_market_event_market_type := [''ETHUSDT'' \<mapsto> ''USDM_FUTURES''], ledger := known_ledger\<rparr>"

definition closing_state :: "unit ExecState" where
  "closing_state = \<lparr>xs_adapter = closing_adapter, xs_recon = (sample_state known_ledger)\<lparr>rc_status := ''IN_SYNC''\<rparr>,
     xs_market_price = Map.empty, xs_market_bid = [''ETHUSDT'' \<mapsto> Fin 10], xs_market_ask = Map.empty, xs_submission_attempts = 0,
     xs_order_event_at = Map.empty, xs_emergency = EmergencyUnknown, xs_epoch = 0\<rparr>"

lemma closing_text: "upper ''ETHUSDT'' = ''ETHUSDT''" "upper ''MARKET'' = ''MARKET''" "upper ''SUBMIT_ORDER'' = ''SUBMIT_ORDER''"
  "upper ''NEW'' = ''NEW''" "upper ''SELL'' = ''SELL''" "upper ''BOTH'' = ''BOTH''"
  by (simp_all add: string_eval)

lemma closing_view: "adapter_view (closing_state\<lparr>xs_epoch := n\<rparr>) = closing_adapter"
  by (simp add: adapter_view_def closing_state_def closing_adapter_def sample_adapter_def sample_state_def)

lemma closing_worker_gate:
  "worker_gate closing_desk closing_decision (closing_state\<lparr>xs_epoch := n\<rparr>) = (Inr True, closing_state\<lparr>xs_epoch := Suc n\<rparr>)"
proof -
  have env: "testnet_configured (xv_environ closing_desk)"
    by (simp add: testnet_configured_def closing_desk_def env_text_set_def env_flag_def string_eval)
  have w: "worker_of closing_desk (closing_state\<lparr>xs_epoch := m\<rparr>)
      = sample_worker\<lparr>execution_mode := WM_TESTNET, execution_adapter := Some closing_adapter\<rparr>" for m
    unfolding worker_of_def closing_view by (simp add: closing_desk_def)
  have "decision_gate_check (xv_environ closing_desk) clock (worker_of closing_desk (closing_state\<lparr>xs_epoch := m\<rparr>)) closing_decision = Inr ()" for clock m
    unfolding w using env
    by (simp add: decision_gate_check_def decision_gate_worker_def sample_worker_def closing_adapter_def sample_adapter_def
        closing_decision_def sample_execution_decision_def disabled_strategy_reason_def is_risk_increasing_def closing_text)
  then show ?thesis by (simp add: worker_gate_def now_of_def gate_passed_def)
qed

definition closing_request :: PreparedOrder where
  "closing_request = \<lparr>po_symbol = ''ETHUSDT'', po_order_type = ''MARKET'', po_quantity = 1, po_price = None,
     po_estimated_price = 10, po_notional = 10\<rparr>"

lemma closing_order_gate:
  "run_order_gate closing_desk closing_order CLOSE 0 0 None True False (closing_state\<lparr>xs_epoch := n\<rparr>)
     = (Inr (Inr closing_request), closing_state\<lparr>xs_epoch := Suc (Suc n)\<rparr>)"
proof -
  let ?env = "xv_environ closing_desk"
  have x: "xv_clock closing_desk k = (\<lambda>_. 0)" for k by (simp add: closing_desk_def)
  have parts: "order_gate_entry ?env closing_adapter CLOSE False = Inr ()" "order_gate_intent closing_adapter closing_order = Inr sample_symbol_rules"
    "order_gate_quantity sample_symbol_rules closing_order = Inr 1" "order_gate_notional sample_symbol_rules closing_order 1 (Fin 10) = Inr 10"
    subgoal by (simp add: order_gate_entry_def closing_adapter_def sample_adapter_def)
    subgoal by (simp add: order_gate_intent_def closing_adapter_def sample_adapter_def closing_order_def sample_order_def closing_text
        is_ready_for_def sample_symbol_rules_def rules_init_def)
    subgoal by (simp add: order_gate_quantity_def closing_order_def sample_order_def normalize_quantity_def sample_symbol_rules_def rules_init_def)
    subgoal by (simp add: order_gate_notional_def closing_order_def sample_order_def min_notional_for_def max_notional_for_def sample_symbol_rules_def
        rules_init_def closing_text)
    done
  have od: "oi_symbol closing_order = ''ETHUSDT''" "oi_order_type closing_order = MARKET" "oi_time_in_force closing_order = GTC"
    "oi_price closing_order = None" "oi_side closing_order = SELL" by (simp_all add: closing_order_def sample_order_def)
  have ask: "discovery_request ?env (\<lambda>_. 0) closing_adapter closing_order CLOSE False = Some (''ETHUSDT'', Some SELL)"
    by (simp add: discovery_request_def is_risk_increasing_def parts od closing_text)
  have "cached_price closing_desk 0 ''ETHUSDT'' (Some SELL) (closing_state\<lparr>xs_epoch := k\<rparr>) = Inl (Some (Fin 10))" for k
    by (simp add: cached_price_def market_data_max_age_def closing_state_def closing_adapter_def sample_adapter_def has_authoritative_market_sample_def
        environment_label_def closing_text is_fresh_def age_seconds_def split: option.split decimal.split)
  then have fresh: "get_fresh_market_price closing_desk ''ETHUSDT'' (Some SELL) (closing_state\<lparr>xs_epoch := k\<rparr>)
      = (Inr (Some (Fin 10)), closing_state\<lparr>xs_epoch := Suc k\<rparr>)" for k
    by (simp add: get_fresh_market_price_def now_of_def x Let_def closing_text)
  have "reducible_exposure SELL BOTH ''ETHUSDT'' [known_position] = 1"
    by (simp add: reducible_exposure_def reduces_position_def known_position_def closing_text)
  then have "order_gate_reduction closing_adapter closing_order CLOSE True 1 = Inr ()"
    by (simp add: order_gate_reduction_def closing_adapter_def known_ledger_def closing_order_def sample_order_def
        is_risk_increasing_def is_risk_reducing_def closing_text)
  then have "order_gate_check ?env (\<lambda>_. 0) (\<lambda>_ _ _. (Some (Fin 10), closing_adapter)) closing_adapter closing_order CLOSE 0 0 None True False
      = Inr closing_request"
    by (simp add: order_gate_check_def is_risk_increasing_def parts order_gate_price_def od closing_text closing_request_def)
  then show ?thesis by (simp add: run_order_gate_def now_of_def x closing_view ask fresh)
qed

definition listed_order :: ExecutionOrder where
  "listed_order = (planned_order closing_order closing_request ''B-1'' (context_of closing_decision) 0)\<lparr>eo_status := ''NEW'',
     eo_exchange_order_id := Some ''7''\<rparr>"

lemma listed_get:
  "json_get listed_fields ''symbol'' = JStr ''ETHUSDT''" "json_get listed_fields ''orderId'' = JStr ''7''"
  "json_get listed_fields ''clientOrderId'' = JStr ''B-1''" "json_get listed_fields ''status'' = JStr ''NEW''"
  "json_get listed_fields ''side'' = JStr ''SELL''" "json_get listed_fields ''positionSide'' = JStr ''BOTH''"
  "json_get listed_fields ''origQty'' = JStr ''1''" "json_get listed_fields ''reduceOnly'' = JBool True"
  "json_get listed_fields ''type'' = JStr ''MARKET''" "json_get listed_fields ''price'' = JStr ''0''"
  "json_get listed_fields ''avgPrice'' = JNull" "map_of listed_fields ''reduceOnly'' = Some (JBool True)"
  by (simp_all add: listed_fields_def json_get_def)

lemma listed_response:
  "order_from_response closing_order (JObject listed_fields) closing_request ''B-1'' (context_of closing_decision) False 0 = Inr listed_order"
proof -
  have "response_checks closing_order listed_fields closing_request ''B-1'' False = Inr 10"
    by (simp add: response_checks_def listed_get json_missing_def closing_text ambiguous_unless_def check_def echo_ok_def closing_order_def
        sample_order_def closing_request_def order_statuses_def terminal_statuses_def no_price_def Let_def)
  then show ?thesis
    by (simp add: order_from_response_def listed_get json_or_def json_truthy.simps closing_text)
      (simp add: listed_order_def planned_order_def closing_order_def sample_order_def closing_request_def prepared_price_def
        context_of_def closing_decision_def sample_execution_decision_def)
qed

lemma listed_get_or:
  "json_get_or listed_fields ''symbol'' d = JStr ''ETHUSDT''" "json_get_or listed_fields ''status'' d = JStr ''NEW''"
  "json_get_or listed_fields ''side'' d = JStr ''SELL''" "json_get_or listed_fields ''positionSide'' d = JStr ''BOTH''"
  "json_get_or listed_fields ''reduceOnly'' d = JBool True" "json_get_or listed_fields ''type'' d = JStr ''MARKET''"
  by (simp_all add: listed_fields_def json_get_or_def)

lemma listed_order_fields:
  "eo_client_order_id listed_order = ''B-1''" "eo_exchange_order_id listed_order = Some ''7''" "eo_status listed_order = ''NEW''"
  "eo_symbol listed_order = ''ETHUSDT''" "exchange_id listed_order = ''7''" "eo_side listed_order = SELL" "eo_position_side listed_order = BOTH"
  "eo_reduce_only listed_order" "eo_quantity listed_order = 1"
  by (simp_all add: listed_order_def planned_order_def closing_request_def closing_order_def sample_order_def exchange_id_def)

lemma listed_compare: "compare_open_order listed_order listed_fields = []"
  by (simp add: compare_open_order_def upper_field_def listed_get listed_get_or add_diff_def listed_order_fields closing_text
      positive_number_def Let_def)

abbreviation closing_venue :: "unit Venue" where
  "closing_venue \<equiv> xv_venue closing_desk"

lemma closing_venue_clock [simp]: "closing_venue\<lparr>vn_clock := xv_clock closing_desk e\<rparr> = closing_venue"
  by (simp add: closing_desk_def)

lemma closing_answers [simp]:
  "request closing_venue GetPositionRisk s = (Inr (JList [JObject sample_exchange_position]), s)"
  "request closing_venue GetOpenOrders s = (Inr (JList [JObject listed_fields]), s)" "request closing_venue GetAccount s = (Inr sample_account, s)"
  "request closing_venue (GetTrades sy) s = (Inr (JList []), s)" "request closing_venue (PostOrder p) s = (Inr (JObject listed_fields), s)"
  "vn_env closing_venue = TESTNET" "\<not> vn_portfolio_margin closing_venue" "vn_clock closing_venue = (\<lambda>_. 0)"
  by (simp_all add: request_def closing_desk_def)

lemma closing_fetch:
  assumes "rc_window_start s = None" "rc_window_end s = None"
  shows "\<exists>snap. fetch_and_validate closing_venue s = (Inr ([JObject sample_exchange_position], [JObject listed_fields], snap), s)"
proof -
  have "fetch_reconciliation_snapshot_inputs closing_venue s = (Inr (sample_account, [JObject sample_exchange_position], [JObject listed_fields]), s)"
    by (simp add: fetch_reconciliation_snapshot_inputs_def)
  moreover obtain snap where "build_account_snapshot sample_account [JObject sample_exchange_position] (environment_label TESTNET)
     \<lparr>dp_realized = None, dp_known = True, dp_asset = ''UNKNOWN'', dp_includes_fees = False,
     dp_includes_funding = False, dp_window_start = None, dp_window_end = None\<rparr> None ''ETHUSDC'' (Aware 0) = Inr snap"
    using sample_snapshot(1) by blast
  ultimately show ?thesis
    using assms by (simp add: fetch_and_validate_def validate_mainnet_scope_def read_daily_realized_pnl_def daily_of_def)
qed

lemma closing_collect:
  assumes "rc_ledger s = upsert_order listed_order known_ledger" "rc_unattributed s = []"
  shows "collect_diffs closing_venue [JObject sample_exchange_position] [JObject listed_fields] s = (Inr [], s)"
proof -
  have os: "open_order_fields (JObject listed_fields) = Inr listed_fields"
    by (simp add: open_order_fields_def listed_get json_missing_def)
  have l: "orders (rc_ledger s) = [(''B-1'', listed_order)]" "positions (rc_ledger s) = [known_position]" "fills (rc_ledger s) = []"
    unfolding assms(1) by (simp_all add: upsert_order_def known_ledger_def ledger_init_def listed_order_fields)
  have m: "local_position_map (rc_ledger s) = [((''ETHUSDT'', ''BOTH''), 1)]"
    by (simp add: local_position_map_def l known_position_def closing_text)
  have checked: "check_local_order closing_venue [(''7'', listed_fields)] [(''B-1'', listed_fields)] listed_order
      \<lparr>da_diffs = [], da_positions = {}, da_reductions = [], da_orders = []\<rparr> s
    = (Inr \<lparr>da_diffs = [], da_positions = {}, da_reductions = [], da_orders = [listed_order]\<rparr>, s)"
    by (simp add: check_local_order_def matching_open_order_def listed_order_fields check_open_order_def listed_compare closing_text
        keep_order_def add_diffs_def)
  have known: "check_exchange_order (rc_ledger s) ''7'' listed_fields = Inr []"
    by (simp add: check_exchange_order_def listed_get json_truthy.simps get_order_by_client_id_def l listed_order_fields closing_text)
  show ?thesis
    using l m checked known assms(2)
    by (simp add: collect_diffs_def os index_orders_def listed_get json_truthy.simps get_all_orders_def as_fields_def sample_position_map
        drop_recovered_def position_diffs_def fill_diffs_def listed_order_fields closing_text Let_def)
qed

lemma closing_compare:
  assumes "rc_ledger s = upsert_order listed_order known_ledger"
  shows "recover_and_compare closing_venue [JObject sample_exchange_position] [JObject sample_exchange_position] [JObject listed_fields] s
    = (Inr [], s\<lparr>rc_unattributed := []\<rparr>)"
proof -
  have sy: "symbols_of [JObject listed_fields] = Inr {''ETHUSDT''}"
    by (auto simp: symbols_of_def as_fields_def listed_get json_truthy.simps)
  have ods: "get_all_orders (upsert_order listed_order known_ledger) = [listed_order]"
    by (simp add: get_all_orders_def upsert_order_def known_ledger_def ledger_init_def)
  have id: "resolve_order_id closing_venue listed_order s1 = (Inr (), s1)" for s1
    by (simp add: resolve_order_id_def listed_order_fields)
  have trades: "recover_recent_trades closing_venue {''ETHUSDT''} s1 = (Inr (), s1\<lparr>rc_unattributed := []\<rparr>)" for s1
    by (simp add: recover_recent_trades_def closing_text as_list_def insert_Diff_if)
  show ?thesis
    using closing_collect[of "s\<lparr>rc_unattributed := []\<rparr>"] assms known_symbols_of(2)
    by (simp add: recover_and_compare_def sy ods id listed_order_fields insert_Diff_if trades)
qed

lemma closing_reconcile:
  assumes "rc_ledger s = upsert_order listed_order known_ledger" "rc_window_start s = None" "rc_window_end s = None"
  shows "\<exists>s'. reconcile closing_venue s = (''IN_SYNC'', s') \<and> rc_status s' = ''IN_SYNC'' \<and> \<not> rc_authentication_failed s'
    \<and> get_order_by_client_id (rc_ledger s') ''B-1'' = Some listed_order"
proof -
  have b: "rc_ledger (begin_run s) = upsert_order listed_order known_ledger" "rc_window_start (begin_run s) = None"
    "rc_window_end (begin_run s) = None" "\<not> rc_authentication_failed (begin_run s)"
    using assms by (simp_all add: begin_run_def set_status_def)
  obtain snap where "fetch_and_validate closing_venue (begin_run s)
      = (Inr ([JObject sample_exchange_position], [JObject listed_fields], snap), begin_run s)" using closing_fetch[OF b(2,3)] by blast
  moreover obtain l where "replace_positions [Raw (JObject sample_exchange_position)] False (upsert_order listed_order known_ledger) = Inr l"
      "orders l = orders (upsert_order listed_order known_ledger)"
    using sample_raw_position by (auto simp: replace_positions_def)
  ultimately show ?thesis
    using closing_compare[OF b(1)] b known_symbols_of(1)
    by (simp add: reconcile_def assms(1) reconcile_body_def on_ledger_res_def on_ledger_def set_status_def)
      (simp add: upsert_order_def known_ledger_def ledger_init_def listed_order_fields get_order_by_client_id_def
        update_balances_def set_account_snapshot_def)
qed

lemma closing_post:
  assumes "rc_ledger (xs_recon s) = upsert_order listed_order known_ledger" "rc_window_start (xs_recon s) = None"
    "rc_window_end (xs_recon s) = None" "private_stream_healthy (xs_adapter s)" "authenticated (xs_adapter s)"
  shows "\<exists>s'. post_mutation_reconcile closing_desk listed_order response s = (Inr True, s') \<and> current_order listed_order s' = listed_order"
proof -
  obtain r where rec: "reconcile closing_venue (xs_recon (set_last_status ''UNKNOWN'' s)) = (''IN_SYNC'', r)"
      "\<not> rc_authentication_failed r" "get_order_by_client_id (rc_ledger r) ''B-1'' = Some listed_order"
    using closing_reconcile[of "xs_recon (set_last_status ''UNKNOWN'' s)"] assms(1-3) by (auto simp: set_last_status_def)
  let ?s = "(set_last_status ''UNKNOWN'' s)\<lparr>xs_recon := r, xs_epoch := Suc (xs_epoch s)\<rparr>"
  have run: "reconciled closing_desk (set_last_status ''UNKNOWN'' s) = (Inr ''IN_SYNC'', ?s)"
    using rec(1) by (simp add: reconciled_def recon_def) (simp add: set_last_status_def)
  have "verified_now ''IN_SYNC'' ?s" using assms(4,5) rec(2) by (simp add: verified_now_def adapter_view_def set_last_status_def)
  then have "eff_bind (reconciled closing_desk) (\<lambda>r. eff_bind (eff_gets (verified_now r)) settle) (set_last_status ''UNKNOWN'' s)
      = (Inr True, set_state READY ?s)" using run by (simp add: settle_def)
  moreover have "current_order listed_order (set_state READY ?s) = listed_order"
    using rec(3) by (simp add: current_order_def set_state_def listed_order_fields)
  ultimately show ?thesis by (simp add: post_mutation_reconcile_def executed_status_def listed_order_fields closing_text)
qed

lemma closing_submission:
  "\<exists>s'. submit_prepared closing_desk closing_order closing_request ''B-1'' (context_of closing_decision) (closing_state\<lparr>xs_epoch := n\<rparr>)
       = (Inr (Some (listed_order, True)), s') \<and> current_order listed_order s' = listed_order"
proof -
  have ctx: "oc_risk (context_of closing_decision) = CLOSE"
    by (simp add: context_of_def closing_decision_def sample_execution_decision_def)
  have x: "xv_barrier closing_desk = None" "xv_notify closing_desk = None" "xv_clock closing_desk = (\<lambda>_ _. 0)"
    by (simp_all add: closing_desk_def)
  let ?planned = "planned_order closing_order closing_request ''B-1'' (context_of closing_decision) 0"
  let ?s = "closing_state\<lparr>xs_epoch := Suc n, xs_recon := (xs_recon closing_state)\<lparr>rc_ledger := upsert_order ?planned known_ledger\<rparr>\<rparr>"
  let ?s2 = "closing_state\<lparr>xs_submission_attempts := Suc (xs_submission_attempts closing_state), xs_epoch := Suc (Suc (Suc n)),
      xs_recon := (xs_recon closing_state)\<lparr>rc_ledger := upsert_order listed_order (upsert_order ?planned known_ledger)\<rparr>\<rparr>"
  have before: "before_submission closing_desk ?planned CLOSE (closing_state\<lparr>xs_epoch := Suc n\<rparr>) = (Inr True, ?s)"
    by (simp add: before_submission_def durable_barrier_def x is_risk_increasing_def with_ledger_def assert_execution_lease_def)
      (simp add: closing_state_def sample_state_def)
  have "upsert_order listed_order (upsert_order ?planned known_ledger) = upsert_order listed_order known_ledger"
    by (simp add: upsert_order_def known_ledger_def ledger_init_def listed_order_fields) (simp add: planned_order_def)
  then obtain s' where s': "post_mutation_reconcile closing_desk listed_order (JObject listed_fields) ?s2 = (Inr True, s')"
      "current_order listed_order s' = listed_order"
    using closing_post[of ?s2 "JObject listed_fields"]
    by (auto simp: closing_state_def sample_state_def closing_adapter_def sample_adapter_def)
  have post: "rest closing_desk (PostOrder p) s1 = (Inr (JObject listed_fields), s1\<lparr>xs_epoch := Suc (xs_epoch s1)\<rparr>)" for p s1
    by (simp add: rest_def recon_def)
  have "submit_request closing_desk closing_order closing_request ''B-1'' (context_of closing_decision) ?s = (Inr (Some (listed_order, True)), s')"
    using s' listed_response
    by (simp add: submit_request_def eff_bind_gets post now_of_def x with_ledger_def notify_submission_result_def listed_order_fields)
  then show ?thesis using s'(2) by (simp add: submit_prepared_def Let_def now_of_def x ctx before)
qed


end
