(* ===== verification/Outbox.thy ===== *)
theory Outbox
  imports Effects Calendar
begin

text \<open>
  The transactional outbox (\<open>PersistenceRepository\<close> and the entity repositories of
  \<open>persistence/postgres/repositories.py\<close>, with the tables of \<open>infra/postgres/init_schema.sql\<close>): observations are
  appended as events, and a dispatcher applies one event per transaction to the tables of orders,
  fills, positions and snapshots. A failed transaction is rolled back and the event rescheduled.

  The database may fail at any point of a dispatch (\<open>fault\<close>). A transaction is one step, so that
  \<open>SKIP LOCKED\<close> never skips. The payload of an event holds the entity itself: that \<open>model_validate\<close> reads
  what \<open>model_dump\<close> wrote is not modelled. Numeric columns hold values exactly; columns that no
  statement of the program writes, constant ones and copies are left out.
\<close>

section \<open>Tables\<close>

record instrument_row =
  ir_venue :: string
  ir_market_type :: MarketType
  ir_base_asset :: string
  ir_quote_asset :: string
  ir_price_precision :: int
  ir_quantity_precision :: int
  ir_tick_size :: rat
  ir_step_size :: rat
  ir_min_notional :: rat
  ir_is_active :: bool

record order_row =
  or_exchange_order_id :: "string option"
  or_symbol :: string
  or_venue :: string
  or_side :: OrderSide
  or_order_type :: string
  or_price :: rat
  or_quantity :: rat
  or_status :: string
  or_time_in_force :: TimeInForce
  or_position_side :: PositionSide
  or_created_at :: int
  or_updated_at :: int

record fill_row =
  fr_fill_id :: string
  fr_client_order_id :: string
  fr_exchange_order_id :: string
  fr_symbol :: string
  fr_side :: OrderSide
  fr_position_side :: PositionSide
  fr_price :: rat
  fr_quantity :: rat
  fr_fee :: rat
  fr_fee_asset :: string
  fr_is_maker :: bool
  fr_executed_at :: int

datatype position_direction = PD_LONG | PD_SHORT | PD_FLAT

record position_row =
  pr_direction :: position_direction
  pr_quantity :: rat
  pr_entry_price :: rat
  pr_mark_price :: rat
  pr_liquidation_price :: "rat option"
  pr_unrealized_pnl :: rat
  pr_leverage :: rat
  pr_margin_type :: string
  pr_updated_at :: int

record snapshot_row =
  sr_timestamp :: int
  sr_total_equity :: decimal
  sr_free_margin :: decimal
  sr_used_margin :: decimal
  sr_margin_utilization_pct :: decimal
  sr_effective_leverage :: decimal
  sr_current_drawdown_pct :: decimal
  sr_risk_state :: "RiskState option"
  sr_kill_switch_active :: bool
  sr_reasons :: "string list \<times> string list \<times> decimal \<times> bool"

text \<open>Tables with a unique key are maps: fills by venue and trade, positions by venue, symbol and side.\<close>

record tables =
  tb_instruments :: "string \<rightharpoonup> instrument_row"
  tb_orders :: "string \<rightharpoonup> order_row"
  tb_fills :: "string \<times> string \<rightharpoonup> fill_row"
  tb_positions :: "string \<times> string \<times> PositionSide \<rightharpoonup> position_row"
  tb_snapshots :: "snapshot_row list"

datatype db_error =
    InstrumentRulesUnavailable string | ForeignKeyViolation | UniqueViolation | UnsupportedEventType | EntityInvalid
  | DatabaseDown | EntityRaised pyerr

type_synonym 'a db = "(tables, db_error, 'a) eff"

section \<open>Events\<close>

record risk_entity =
  rk_timestamp :: datetime
  rk_snapshot :: RiskSnapshot
  rk_realized_known :: bool
  rk_hard_violations :: "string list"
  rk_soft_violations :: "string list"

text \<open>The time of a fill or a position is the one that the repository stores.\<close>

datatype entity =
    OrderEntity ExecutionOrder | FillEntity ExchangeFill datetime | PositionEntity ExchangePosition datetime | RiskEntity risk_entity

record event =
  pv_event_id :: string
  pv_event_type :: string
  pv_idempotency_key :: string
  pv_aggregate_type :: string
  pv_aggregate_id :: string
  pv_created_at :: int
  pv_entity :: entity
  pv_instrument :: "Instrument option"

datatype outbox_status = OB_PENDING | OB_PROCESSING | OB_PROCESSED

record outbox_row =
  ob_event :: event
  ob_status :: outbox_status
  ob_attempt_count :: nat
  ob_next_attempt_at :: int
  ob_claimed_at :: "int option"
  ob_processed_at :: "int option"
  ob_last_error :: "db_error option"

abbreviation ob_id :: "outbox_row \<Rightarrow> string" where "ob_id r \<equiv> pv_event_id (ob_event r)"

record database =
  db_outbox :: "outbox_row list"
  db_tables :: tables

definition database_init :: database where
  "database_init = \<lparr>db_outbox = [], db_tables = \<lparr>tb_instruments = Map.empty, tb_orders = Map.empty, tb_fills = Map.empty,
     tb_positions = Map.empty, tb_snapshots = []\<rparr>\<rparr>"

section \<open>Repositories\<close>

definition utc_datetime :: "datetime \<Rightarrow> int db" where
  "utc_datetime t = (case t of Aware us \<Rightarrow> eff_ret us | Naive us \<Rightarrow> eff_raise (EntityRaised (ValueError ''persistence timestamps must be timezone-aware'')))"

definition ensure_instrument :: "Instrument \<Rightarrow> unit db" where
  "ensure_instrument i =
     (if \<not> ins_is_trading_enabled i then eff_raise (InstrumentRulesUnavailable (ins_symbol i))
      else if ins_tick_size i \<le> 0 \<or> ins_step_size i \<le> 0 \<or> ins_min_notional i \<le> 0 then eff_raise (InstrumentRulesUnavailable (ins_symbol i))
      else eff_modify (\<lambda>t. t\<lparr>tb_instruments := (tb_instruments t)(ins_symbol i \<mapsto>
        \<lparr>ir_venue = ins_venue i, ir_market_type = ins_market_type i, ir_base_asset = ins_base_asset i, ir_quote_asset = ins_quote_asset i,
         ir_price_precision = ins_price_precision i, ir_quantity_precision = ins_quantity_precision i, ir_tick_size = ins_tick_size i,
         ir_step_size = ins_step_size i, ir_min_notional = ins_min_notional i, ir_is_active = ins_is_trading_enabled i\<rparr>)\<rparr>))"

definition references_instrument :: "string \<Rightarrow> unit db" where
  "references_instrument symbol = eff_bind (eff_gets tb_instruments) (\<lambda>t. eff_check (t symbol \<noteq> None) ForeignKeyViolation)"

text \<open>A row is inserted, or the row with the key is updated; the symbol and the side of an order stay.\<close>

definition save_order :: "ExecutionOrder \<Rightarrow> Instrument \<Rightarrow> unit db" where
  "save_order od i =
     eff_bind (ensure_instrument i) (\<lambda>_.
     eff_bind (utc_datetime (eo_timestamp od)) (\<lambda>stamp.
     eff_bind (references_instrument (eo_symbol od)) (\<lambda>_.
     eff_modify (\<lambda>t. t\<lparr>tb_orders := (tb_orders t)(eo_client_order_id od \<mapsto>
       (case tb_orders t (eo_client_order_id od) of
          None \<Rightarrow> \<lparr>or_exchange_order_id = eo_exchange_order_id od, or_symbol = eo_symbol od, or_venue = ins_venue i, or_side = eo_side od,
            or_order_type = eo_order_type od, or_price = eo_price od, or_quantity = eo_quantity od, or_status = eo_status od,
            or_time_in_force = eo_time_in_force od, or_position_side = eo_position_side od, or_created_at = stamp, or_updated_at = stamp\<rparr>
        | Some r \<Rightarrow> r\<lparr>or_exchange_order_id := eo_exchange_order_id od, or_venue := ins_venue i, or_status := eo_status od,
            or_price := eo_price od, or_quantity := eo_quantity od, or_time_in_force := eo_time_in_force od,
            or_position_side := eo_position_side od, or_updated_at := stamp\<rparr>))\<rparr>))))"

definition fill_storage_id :: "(string \<Rightarrow> string) \<Rightarrow> ExchangeFill \<Rightarrow> Instrument \<Rightarrow> string" where
  "fill_storage_id digest f i = digest (ins_venue i @ '':'' @ upper (ef_symbol f) @ '':'' @ exchange_trade_id f)"

text \<open>The conflict key is venue and trade; the update keeps the identifier, the symbol and the side.\<close>

definition write_fill :: "(string \<Rightarrow> string) \<Rightarrow> ExchangeFill \<Rightarrow> Instrument \<Rightarrow> int \<Rightarrow> unit db" where
  "write_fill digest f i stamp =
     eff_bind (eff_gets tb_fills) (\<lambda>fs.
     let k = (ins_venue i, exchange_trade_id f) in
     case fs k of
       None \<Rightarrow>
         if fill_storage_id digest f i \<in> fr_fill_id ` ran fs then eff_raise UniqueViolation
         else eff_modify (\<lambda>t. t\<lparr>tb_fills := fs(k \<mapsto>
           \<lparr>fr_fill_id = fill_storage_id digest f i, fr_client_order_id = ef_client_order_id f, fr_exchange_order_id = ef_exchange_order_id f,
            fr_symbol = ef_symbol f, fr_side = ef_side f, fr_position_side = ef_position_side f, fr_price = ef_price f, fr_quantity = ef_quantity f,
            fr_fee = ef_commission f, fr_fee_asset = ef_commission_asset f, fr_is_maker = ef_maker f, fr_executed_at = stamp\<rparr>)\<rparr>)
     | Some r \<Rightarrow> eff_modify (\<lambda>t. t\<lparr>tb_fills := fs(k \<mapsto>
         r\<lparr>fr_client_order_id := ef_client_order_id f, fr_exchange_order_id := ef_exchange_order_id f, fr_position_side := ef_position_side f,
           fr_price := ef_price f, fr_quantity := ef_quantity f, fr_fee := ef_commission f, fr_fee_asset := ef_commission_asset f,
           fr_is_maker := ef_maker f, fr_executed_at := stamp\<rparr>)\<rparr>))"

definition save_fill :: "(string \<Rightarrow> string) \<Rightarrow> ExchangeFill \<Rightarrow> datetime \<Rightarrow> Instrument \<Rightarrow> unit db" where
  "save_fill digest f time i =
     eff_bind (ensure_instrument i) (\<lambda>_.
     eff_bind (utc_datetime time) (\<lambda>stamp.
     eff_bind (references_instrument (ef_symbol f)) (\<lambda>_.
     eff_bind (eff_gets tb_orders) (\<lambda>ods.
     eff_bind (eff_check (ods (ef_client_order_id f) \<noteq> None) ForeignKeyViolation) (\<lambda>_.
     write_fill digest f i stamp)))))"

definition save_position :: "ExchangePosition \<Rightarrow> datetime \<Rightarrow> Instrument \<Rightarrow> unit db" where
  "save_position p time i =
     eff_bind (ensure_instrument i) (\<lambda>_.
     eff_bind (utc_datetime time) (\<lambda>stamp.
     eff_bind (references_instrument (ep_symbol p)) (\<lambda>_.
     eff_modify (\<lambda>t. t\<lparr>tb_positions := (tb_positions t)((ins_venue i, ep_symbol p, ep_position_side p) \<mapsto>
       \<lparr>pr_direction = (if ep_quantity p > 0 then PD_LONG else if ep_quantity p < 0 then PD_SHORT else PD_FLAT),
        pr_quantity = ep_quantity p, pr_entry_price = ep_entry_price p,
        pr_mark_price = (case ep_mark_price p of Some q \<Rightarrow> q | None \<Rightarrow> 0), pr_liquidation_price = ep_liquidation_price p,
        pr_unrealized_pnl = ep_unrealized_pnl p, pr_leverage = ep_leverage p, pr_margin_type = ep_margin_type p, pr_updated_at = stamp\<rparr>)\<rparr>))))"

definition hundredth :: "decimal \<Rightarrow> decimal" where
  "hundredth d = (case d of Fin x \<Rightarrow> Fin (ddiv x 100) | _ \<Rightarrow> d)"

definition one_minus :: "decimal \<Rightarrow> decimal" where
  "one_minus d = (case d of Fin x \<Rightarrow> Fin (dsub 1 x) | Inf b \<Rightarrow> Inf (\<not> b) | NaN \<Rightarrow> NaN)"

definition save_snapshot :: "risk_entity \<Rightarrow> unit db" where
  "save_snapshot k =
     (let s = rk_snapshot k; equity = portfolio_equity s; margin = rs_margin_utilization_pct s in
      eff_bind (utc_datetime (rk_timestamp k)) (\<lambda>stamp.
      eff_bind (eff_lift EntityRaised (decimal_mul equity (one_minus (hundredth margin)))) (\<lambda>free.
      eff_bind (eff_lift EntityRaised (decimal_mul equity margin)) (\<lambda>used.
      eff_modify (\<lambda>t. t\<lparr>tb_snapshots := tb_snapshots t @
        [\<lparr>sr_timestamp = stamp, sr_total_equity = equity, sr_free_margin = free, sr_used_margin = hundredth used,
          sr_margin_utilization_pct = margin, sr_effective_leverage = rs_effective_leverage s,
          sr_current_drawdown_pct = current_drawdown_pct s, sr_risk_state = risk_state s,
          sr_kill_switch_active = (''KILL_SWITCH'' \<in> upper ` set (rk_hard_violations k)),
          sr_reasons = (rk_hard_violations k, rk_soft_violations k, realized_pnl_24h s, rk_realized_known k)\<rparr>]\<rparr>)))))"

text \<open>The instrument of the payload, else the one that the worker's rules give.\<close>

definition event_instrument :: "(string \<Rightarrow> Instrument option) \<Rightarrow> event \<Rightarrow> string \<Rightarrow> Instrument db" where
  "event_instrument provider ev symbol =
     (case pv_instrument ev of
        Some i \<Rightarrow> eff_ret i
      | None \<Rightarrow> (case provider symbol of Some i \<Rightarrow> eff_ret i | None \<Rightarrow> eff_raise (InstrumentRulesUnavailable symbol)))"

definition apply_event :: "(string \<Rightarrow> string) \<Rightarrow> (string \<Rightarrow> Instrument option) \<Rightarrow> event \<Rightarrow> unit db" where
  "apply_event digest provider ev =
     (if pv_event_type ev = ''ORDER'' then
        (case pv_entity ev of
           OrderEntity od \<Rightarrow> eff_bind (event_instrument provider ev (eo_symbol od)) (save_order od)
         | _ \<Rightarrow> eff_raise EntityInvalid)
      else if pv_event_type ev = ''FILL'' then
        (case pv_entity ev of
           FillEntity f stamp \<Rightarrow> eff_bind (event_instrument provider ev (ef_symbol f)) (save_fill digest f stamp)
         | _ \<Rightarrow> eff_raise EntityInvalid)
      else if pv_event_type ev = ''POSITION'' then
        (case pv_entity ev of
           PositionEntity p stamp \<Rightarrow> eff_bind (event_instrument provider ev (ep_symbol p)) (save_position p stamp)
         | _ \<Rightarrow> eff_raise EntityInvalid)
      else if pv_event_type ev = ''RISK_SNAPSHOT'' then
        (case pv_entity ev of RiskEntity k \<Rightarrow> save_snapshot k | _ \<Rightarrow> eff_raise EntityInvalid)
      else eff_raise UnsupportedEventType)"

section \<open>The outbox\<close>

text \<open>\<open>ON CONFLICT DO NOTHING\<close>: the key is the identifier, or the type with the idempotency key.\<close>

definition append_outbox :: "event \<Rightarrow> database \<Rightarrow> database" where
  "append_outbox ev d =
     (if list_ex (\<lambda>r. ob_id r = pv_event_id ev
          \<or> pv_event_type (ob_event r) = pv_event_type ev \<and> pv_idempotency_key (ob_event r) = pv_idempotency_key ev) (db_outbox d)
      then d
      else d\<lparr>db_outbox := db_outbox d @ [\<lparr>ob_event = ev, ob_status = OB_PENDING, ob_attempt_count = 0, ob_next_attempt_at = pv_created_at ev,
        ob_claimed_at = None, ob_processed_at = None, ob_last_error = None\<rparr>]\<rparr>)"

definition pending_count :: "database \<Rightarrow> nat" where
  "pending_count d = length (filter (\<lambda>r. ob_status r \<in> {OB_PENDING, OB_PROCESSING}) (db_outbox d))"

text \<open>Claims older than five minutes are given up.\<close>

definition reclaim :: "int \<Rightarrow> outbox_row \<Rightarrow> outbox_row" where
  "reclaim now r =
     (if ob_status r = OB_PROCESSING \<and> (case ob_claimed_at r of None \<Rightarrow> True | Some c \<Rightarrow> c \<le> now - seconds 300)
      then r\<lparr>ob_status := OB_PENDING, ob_claimed_at := None\<rparr> else r)"

definition due :: "int \<Rightarrow> outbox_row \<Rightarrow> bool" where
  "due now r \<longleftrightarrow> ob_status r = OB_PENDING \<and> ob_next_attempt_at r \<le> now"

text \<open>\<open>ORDER BY created_at, event_id\<close>.\<close>

definition earlier :: "outbox_row \<Rightarrow> outbox_row \<Rightarrow> bool" where
  "earlier a b \<longleftrightarrow> pv_created_at (ob_event a) < pv_created_at (ob_event b)
     \<or> pv_created_at (ob_event a) = pv_created_at (ob_event b) \<and> ord.lexordp_eq (<) (map of_char (ob_id a) :: nat list) (map of_char (ob_id b))"

definition next_due :: "int \<Rightarrow> outbox_row list \<Rightarrow> outbox_row option" where
  "next_due now rs = foldl (\<lambda>best r. case best of None \<Rightarrow> Some r | Some b \<Rightarrow> if earlier b r then Some b else Some r) None (filter (due now) rs)"

definition update_event :: "string \<Rightarrow> (outbox_row \<Rightarrow> outbox_row) \<Rightarrow> outbox_row list \<Rightarrow> outbox_row list" where
  "update_event i f rs = map (\<lambda>r. if ob_id r = i then f r else r) rs"

definition claimed_row :: "int \<Rightarrow> outbox_row \<Rightarrow> outbox_row" where
  "claimed_row now r = r\<lparr>ob_status := OB_PROCESSING, ob_claimed_at := Some now, ob_attempt_count := Suc (ob_attempt_count r)\<rparr>"

definition processed_row :: "int \<Rightarrow> outbox_row \<Rightarrow> outbox_row" where
  "processed_row now r = r\<lparr>ob_status := OB_PROCESSED, ob_claimed_at := None, ob_processed_at := Some now, ob_last_error := None\<rparr>"

text \<open>The delay of the next attempt, in microseconds.\<close>

definition backoff :: "nat \<Rightarrow> int" where
  "backoff n = seconds (min 300 (max 1 (2 ^ n)))"

definition retried_row :: "int \<Rightarrow> db_error \<Rightarrow> outbox_row \<Rightarrow> outbox_row" where
  "retried_row now e r =
     (if ob_status r = OB_PENDING
      then r\<lparr>ob_status := OB_PENDING, ob_claimed_at := None, ob_attempt_count := Suc (ob_attempt_count r),
        ob_next_attempt_at := now + backoff (ob_attempt_count r), ob_last_error := Some e\<rparr>
      else r)"

definition mark_retry :: "int \<Rightarrow> string \<Rightarrow> db_error \<Rightarrow> database \<Rightarrow> database" where
  "mark_retry now i e d = d\<lparr>db_outbox := update_event i (retried_row now e) (db_outbox d)\<rparr>"

text \<open>Where the database fails: nowhere, before the event is claimed, after that, or after that and
  again when the retry is recorded.\<close>

datatype fault = NoFault | FaultBeforeClaim | FaultInTransaction | FaultTwice

text \<open>The transaction: the row it claimed and its outcome with the database to commit.\<close>

definition dispatch_transaction ::
  "(string \<Rightarrow> string) \<Rightarrow> (string \<Rightarrow> Instrument option) \<Rightarrow> fault \<Rightarrow> int \<Rightarrow> database \<Rightarrow> outbox_row option \<times> (db_error + database)" where
  "dispatch_transaction digest provider flt now d =
     (if flt = FaultBeforeClaim then (None, Inl DatabaseDown)
      else
        (let rows = map (reclaim now) (db_outbox d) in
         case next_due now rows of
           None \<Rightarrow> (None, Inr (d\<lparr>db_outbox := rows\<rparr>))
         | Some r \<Rightarrow>
             (Some r,
              if flt \<noteq> NoFault then Inl DatabaseDown
              else (case apply_event digest provider (ob_event r) (db_tables d) of
                  (Inl e, _) \<Rightarrow> Inl e
                | (Inr _, t) \<Rightarrow> Inr \<lparr>db_outbox = update_event (ob_id r) (\<lambda>q. processed_row now (claimed_row now q)) rows, db_tables = t\<rparr>))))"

definition dispatch_one ::
  "(string \<Rightarrow> string) \<Rightarrow> (string \<Rightarrow> Instrument option) \<Rightarrow> fault \<Rightarrow> int \<Rightarrow> (database, db_error, bool) eff" where
  "dispatch_one digest provider flt now d =
     (case dispatch_transaction digest provider flt now d of
        (r, Inr d') \<Rightarrow> (Inr (r \<noteq> None), d')
      | (None, Inl e) \<Rightarrow> (Inl e, d)
      | (Some r, Inl e) \<Rightarrow> if flt = FaultTwice then (Inl DatabaseDown, d) else (Inl e, mark_retry now (ob_id r) e d))"

section \<open>Runs\<close>

datatype outbox_op = OAppend event | ODispatch fault int

text \<open>The event that a step applies to the tables, if it commits.\<close>

definition applied_by :: "(string \<Rightarrow> string) \<Rightarrow> (string \<Rightarrow> Instrument option) \<Rightarrow> outbox_op \<Rightarrow> database \<Rightarrow> event option" where
  "applied_by digest provider op d =
     (case op of
        OAppend ev \<Rightarrow> None
      | ODispatch flt now \<Rightarrow>
          (case dispatch_transaction digest provider flt now d of (Some r, Inr _) \<Rightarrow> Some (ob_event r) | _ \<Rightarrow> None))"

definition outbox_step :: "(string \<Rightarrow> string) \<Rightarrow> (string \<Rightarrow> Instrument option) \<Rightarrow> outbox_op \<Rightarrow> database \<Rightarrow> database" where
  "outbox_step digest provider op d =
     (case op of OAppend ev \<Rightarrow> append_outbox ev d | ODispatch flt now \<Rightarrow> snd (dispatch_one digest provider flt now d))"

fun outbox_run :: "(string \<Rightarrow> string) \<Rightarrow> (string \<Rightarrow> Instrument option) \<Rightarrow> outbox_op list \<Rightarrow> database \<Rightarrow> event list \<times> database" where
  "outbox_run digest provider [] d = ([], d)"
| "outbox_run digest provider (op # ops) d =
     (case outbox_run digest provider ops (outbox_step digest provider op d) of
        (evs, d') \<Rightarrow> ((case applied_by digest provider op d of None \<Rightarrow> evs | Some ev \<Rightarrow> ev # evs), d'))"

text \<open>The tables after a sequence of events, \<open>None\<close> if one of them cannot be applied.\<close>

fun replay :: "(string \<Rightarrow> string) \<Rightarrow> (string \<Rightarrow> Instrument option) \<Rightarrow> event list \<Rightarrow> tables \<Rightarrow> tables option" where
  "replay digest provider [] t = Some t"
| "replay digest provider (ev # evs) t =
     (case apply_event digest provider ev t of (Inl _, _) \<Rightarrow> None | (Inr _, t') \<Rightarrow> replay digest provider evs t')"

section \<open>What a step does\<close>

text \<open>A claim is never visible outside its transaction: it is committed as processed or rolled back.\<close>

definition outbox_ok :: "database \<Rightarrow> bool" where
  "outbox_ok d \<longleftrightarrow> distinct (map ob_id (db_outbox d)) \<and> (\<forall>r \<in> set (db_outbox d). ob_status r \<noteq> OB_PROCESSING)"

definition processed :: "database \<Rightarrow> event set" where
  "processed d = ob_event ` {r \<in> set (db_outbox d). ob_status r = OB_PROCESSED}"

lemma outbox_ok_init [simp]: "outbox_ok database_init"
  by (simp add: outbox_ok_def database_init_def)

lemma reclaim_idle: "\<forall>r \<in> set rs. ob_status r \<noteq> OB_PROCESSING \<Longrightarrow> map (reclaim now) rs = rs"
  by (rule map_idI) (simp add: reclaim_def)

lemma best_foldl:
  assumes "foldl (\<lambda>best r. case best of None \<Rightarrow> Some r | Some b \<Rightarrow> if lt b r then Some b else Some r) o' rs = res"
  shows "res = None \<longleftrightarrow> o' = None \<and> rs = []" "res = Some r \<Longrightarrow> o' = Some r \<or> r \<in> set rs"
  using assms
  by (induction rs arbitrary: o') (auto split: option.splits if_splits)

lemma next_due_Some: "next_due now rs = Some r \<Longrightarrow> r \<in> set rs \<and> due now r"
  unfolding next_due_def using best_foldl(2)[of earlier None "filter (due now) rs" "Some r" r] by auto

lemma next_due_None: "next_due now rs = None \<longleftrightarrow> filter (due now) rs = []"
  unfolding next_due_def using best_foldl(1)[of earlier None "filter (due now) rs"] by auto

lemma update_event_ids [simp]: "(\<And>r. ob_event (f r) = ob_event r) \<Longrightarrow> map ob_event (update_event i f rs) = map ob_event rs"
  by (induction rs) (auto simp: update_event_def)

lemma row_events [simp]:
  "ob_event (retried_row now e r) = ob_event r" "ob_event (processed_row now (claimed_row now r)) = ob_event r"
  "ob_status (processed_row now r) = OB_PROCESSED" "ob_status (retried_row now e r) = ob_status r"
  by (simp_all add: retried_row_def processed_row_def claimed_row_def)

lemma outbox_ok_frame:
  assumes "outbox_ok d" "map ob_event (db_outbox d') = map ob_event (db_outbox d)" "\<forall>r \<in> set (db_outbox d'). ob_status r \<noteq> OB_PROCESSING"
  shows "outbox_ok d'"
proof -
  have "map pv_event_id (map ob_event (db_outbox d')) = map pv_event_id (map ob_event (db_outbox d))" by (simp only: assms(2))
  then show ?thesis using assms(1,3) by (simp add: outbox_ok_def comp_def)
qed

lemma update_event_set: "set (update_event i f rs) = {r \<in> set rs. ob_id r \<noteq> i} \<union> f ` {r \<in> set rs. ob_id r = i}"
  by (auto simp: update_event_def)

lemma single_id:
  assumes "outbox_ok d" "r \<in> set (db_outbox d)" "q \<in> set (db_outbox d)" "ob_id q = ob_id r"
  shows "q = r"
  using assms by (auto simp: outbox_ok_def distinct_map inj_on_def)

lemma mark_retry_ok:
  assumes "outbox_ok d"
  shows "outbox_ok (mark_retry now i e d)" "processed (mark_retry now i e d) = processed d"
    "ob_event ` set (db_outbox (mark_retry now i e d)) = ob_event ` set (db_outbox d)" "db_tables (mark_retry now i e d) = db_tables d"
proof -
  have ev: "map ob_event (db_outbox (mark_retry now i e d)) = map ob_event (db_outbox d)" by (simp add: mark_retry_def)
  then show "ob_event ` set (db_outbox (mark_retry now i e d)) = ob_event ` set (db_outbox d)" by (metis list.set_map)
  have st: "\<forall>r \<in> set (db_outbox (mark_retry now i e d)). ob_status r \<noteq> OB_PROCESSING"
    using assms by (auto simp: outbox_ok_def mark_retry_def update_event_def)
  from outbox_ok_frame[OF assms ev this] show "outbox_ok (mark_retry now i e d)" .
  show "processed (mark_retry now i e d) = processed d"
  proof -
    have "{r \<in> set (update_event i (retried_row now e) (db_outbox d)). ob_status r = OB_PROCESSED} = {r \<in> set (db_outbox d). ob_status r = OB_PROCESSED}"
      by (auto simp: update_event_set retried_row_def)
    then show ?thesis by (simp add: processed_def mark_retry_def)
  qed
qed (simp add: mark_retry_def)

text \<open>A dispatch applies a pending event, or leaves the tables and the processed events alone.\<close>

lemma dispatch_cases:
  assumes "outbox_ok d"
  obtains (idle) "dispatch_one digest provider flt now d = (Inr False, d)" "next_due now (db_outbox d) = None"
      "applied_by digest provider (ODispatch flt now) d = None"
  | (down) e where "dispatch_one digest provider flt now d = (Inl e, d)" "flt \<noteq> NoFault"
      "applied_by digest provider (ODispatch flt now) d = None"
  | (retried) r e where "next_due now (db_outbox d) = Some r" "dispatch_one digest provider flt now d = (Inl e, mark_retry now (ob_id r) e d)"
      "applied_by digest provider (ODispatch flt now) d = None"
      "flt \<noteq> NoFault \<or> (\<exists>t. apply_event digest provider (ob_event r) (db_tables d) = (Inl e, t))"
  | (applied) r t where "next_due now (db_outbox d) = Some r" "apply_event digest provider (ob_event r) (db_tables d) = (Inr (), t)"
      "dispatch_one digest provider flt now d = (Inr True,
         \<lparr>db_outbox = update_event (ob_id r) (\<lambda>q. processed_row now (claimed_row now q)) (db_outbox d), db_tables = t\<rparr>)"
      "applied_by digest provider (ODispatch flt now) d = Some (ob_event r)"
proof -
  have rows: "map (reclaim now) (db_outbox d) = db_outbox d" using assms by (intro reclaim_idle) (simp add: outbox_ok_def)
  show thesis
  proof (cases "next_due now (db_outbox d)")
    case None
    then show ?thesis using rows idle down
      by (cases "flt = FaultBeforeClaim") (auto simp: dispatch_one_def dispatch_transaction_def applied_by_def Let_def)
  next
    case (Some r)
    show ?thesis
    proof (cases flt)
      case NoFault
      obtain x t where a: "apply_event digest provider (ob_event r) (db_tables d) = (x, t)" by fastforce
      show ?thesis
      proof (cases x)
        case (Inl e)
        then show ?thesis using Some rows a NoFault by (intro retried[of r e]) (simp_all add: dispatch_one_def dispatch_transaction_def applied_by_def Let_def)
      next
        case (Inr u)
        then show ?thesis using Some rows a NoFault by (intro applied[of r t]) (simp_all add: dispatch_one_def dispatch_transaction_def applied_by_def Let_def)
      qed
    qed (use Some rows retried[of r DatabaseDown] down[of DatabaseDown] in
        \<open>auto simp: dispatch_one_def dispatch_transaction_def applied_by_def Let_def\<close>)
  qed
qed

lemma applied_ok:
  fixes now :: int and t :: tables
  assumes "outbox_ok d" "r \<in> set (db_outbox d)" "ob_status r = OB_PENDING"
  defines "d' \<equiv> \<lparr>db_outbox = update_event (ob_id r) (\<lambda>q. processed_row now (claimed_row now q)) (db_outbox d), db_tables = t\<rparr>"
  shows "outbox_ok d'" "processed d' = insert (ob_event r) (processed d)" "pv_event_id (ob_event r) \<notin> pv_event_id ` processed d"
    "ob_event ` set (update_event (ob_id r) (\<lambda>q. processed_row now (claimed_row now q)) (db_outbox d)) = ob_event ` set (db_outbox d)"
proof -
  have ev: "map ob_event (db_outbox d') = map ob_event (db_outbox d)" by (simp add: d'_def)
  then have "set (map ob_event (db_outbox d')) = set (map ob_event (db_outbox d))" by (simp only:)
  then show "ob_event ` set (update_event (ob_id r) (\<lambda>q. processed_row now (claimed_row now q)) (db_outbox d)) = ob_event ` set (db_outbox d)"
    by (simp only: list.set_map d'_def database.select_convs)
  have st: "\<forall>r \<in> set (db_outbox d'). ob_status r \<noteq> OB_PROCESSING" using assms(1) by (auto simp: d'_def outbox_ok_def update_event_def)
  from outbox_ok_frame[OF assms(1) ev this] show "outbox_ok d'" .
  note one = single_id[OF assms(1,2)]
  show "pv_event_id (ob_event r) \<notin> pv_event_id ` processed d"
  proof
    assume "pv_event_id (ob_event r) \<in> pv_event_id ` processed d"
    then obtain q where q: "q \<in> set (db_outbox d)" "ob_status q = OB_PROCESSED" "ob_id q = ob_id r" by (auto simp: processed_def)
    then show False using one assms(3) by fastforce
  qed
  have "{q \<in> set (db_outbox d'). ob_status q = OB_PROCESSED} = insert (processed_row now (claimed_row now r)) {q \<in> set (db_outbox d). ob_status q = OB_PROCESSED}"
    using one assms(2,3) by (fastforce simp: d'_def update_event_set)
  then show "processed d' = insert (ob_event r) (processed d)" by (simp add: processed_def)
qed

lemma append_ok:
  assumes "outbox_ok d"
  shows "outbox_ok (append_outbox ev d)" "processed (append_outbox ev d) = processed d" "db_tables (append_outbox ev d) = db_tables d"
    "ob_event ` set (db_outbox d) \<subseteq> ob_event ` set (db_outbox (append_outbox ev d))"
  using assms by (auto simp: append_outbox_def outbox_ok_def processed_def list_ex_iff)

text \<open>One step of a run, as every proof below uses it.\<close>

lemma outbox_step_ok:
  assumes "outbox_ok d"
  shows "outbox_ok (outbox_step digest provider op d)"
    "case applied_by digest provider op d of
       None \<Rightarrow> processed (outbox_step digest provider op d) = processed d \<and> db_tables (outbox_step digest provider op d) = db_tables d
     | Some ev \<Rightarrow> processed (outbox_step digest provider op d) = insert ev (processed d) \<and> pv_event_id ev \<notin> pv_event_id ` processed d
         \<and> apply_event digest provider ev (db_tables d) = (Inr (), db_tables (outbox_step digest provider op d))"
    "ob_event ` set (db_outbox d) \<subseteq> ob_event ` set (db_outbox (outbox_step digest provider op d))"
proof -
  have "outbox_ok (outbox_step digest provider op d) \<and>
    (case applied_by digest provider op d of
       None \<Rightarrow> processed (outbox_step digest provider op d) = processed d \<and> db_tables (outbox_step digest provider op d) = db_tables d
     | Some ev \<Rightarrow> processed (outbox_step digest provider op d) = insert ev (processed d) \<and> pv_event_id ev \<notin> pv_event_id ` processed d
         \<and> apply_event digest provider ev (db_tables d) = (Inr (), db_tables (outbox_step digest provider op d)))
    \<and> ob_event ` set (db_outbox d) \<subseteq> ob_event ` set (db_outbox (outbox_step digest provider op d))"
  proof (cases op)
    case (OAppend ev)
    then show ?thesis using append_ok[OF assms, of ev] by (simp add: outbox_step_def applied_by_def)
  next
    case (ODispatch flt now)
    show ?thesis
      using assms
    proof (cases rule: dispatch_cases[where digest = digest and provider = provider and flt = flt and now = now])
      case (retried r e)
      then show ?thesis using mark_retry_ok[OF assms, of now "ob_id r" e] by (simp add: outbox_step_def ODispatch)
    next
      case (applied r t)
      have r: "r \<in> set (db_outbox d)" "ob_status r = OB_PENDING" using next_due_Some[OF applied(1)] by (auto simp: due_def)
      show ?thesis using applied by (simp add: outbox_step_def ODispatch applied_ok[OF assms r])
    qed (use assms in \<open>simp_all add: outbox_step_def ODispatch\<close>)
  qed
  then show "outbox_ok (outbox_step digest provider op d)"
    "case applied_by digest provider op d of
       None \<Rightarrow> processed (outbox_step digest provider op d) = processed d \<and> db_tables (outbox_step digest provider op d) = db_tables d
     | Some ev \<Rightarrow> processed (outbox_step digest provider op d) = insert ev (processed d) \<and> pv_event_id ev \<notin> pv_event_id ` processed d
         \<and> apply_event digest provider ev (db_tables d) = (Inr (), db_tables (outbox_step digest provider op d))"
    "ob_event ` set (db_outbox d) \<subseteq> ob_event ` set (db_outbox (outbox_step digest provider op d))" by blast+
qed

section \<open>Properties\<close>

lemma outbox_run_ok:
  assumes "outbox_ok d" "outbox_run digest provider ops d = (evs, d')"
  shows "outbox_ok d' \<and> distinct (map pv_event_id evs) \<and> processed d' = processed d \<union> set evs
    \<and> pv_event_id ` set evs \<inter> pv_event_id ` processed d = {} \<and> replay digest provider evs (db_tables d) = Some (db_tables d')
    \<and> ob_event ` set (db_outbox d) \<subseteq> ob_event ` set (db_outbox d')"
  using assms
proof (induction ops arbitrary: d evs)
  case (Cons op ops)
  let ?d1 = "outbox_step digest provider op d"
  obtain evs1 where run: "outbox_run digest provider ops ?d1 = (evs1, d')"
    "evs = (case applied_by digest provider op d of None \<Rightarrow> evs1 | Some ev \<Rightarrow> ev # evs1)"
    using Cons.prems(2) by (auto split: prod.splits)
  note step = outbox_step_ok[OF Cons.prems(1), of digest provider op]
  note ih = Cons.IH[OF step(1) run(1)]
  show ?case
  proof (cases "applied_by digest provider op d")
    case None
    then show ?thesis using step(2) ih run(2) order_trans[OF step(3)] by simp
  next
    case (Some ev)
    then have s: "processed ?d1 = insert ev (processed d)" "pv_event_id ev \<notin> pv_event_id ` processed d"
      "apply_event digest provider ev (db_tables d) = (Inr (), db_tables ?d1)" using step(2) by simp_all
    have evs: "evs = ev # evs1" using run(2) Some by simp
    have fresh: "pv_event_id ev \<notin> pv_event_id ` set evs1" using ih s(1) by (metis disjoint_iff image_eqI insertI1)
    have "pv_event_id ` set evs1 \<inter> pv_event_id ` processed d = {}" using ih s(1) by (simp add: disjoint_iff)
    then show ?thesis using fresh ih s order_trans[OF step(3)] unfolding evs by simp
  qed
qed simp

lemma outbox_run_kept:
  assumes "outbox_ok d" "outbox_run digest provider ops d = (evs, d')" "OAppend ev \<in> set ops"
  shows "\<exists>r \<in> set (db_outbox d'). ob_id r = pv_event_id ev
    \<or> pv_event_type (ob_event r) = pv_event_type ev \<and> pv_idempotency_key (ob_event r) = pv_idempotency_key ev"
  using assms
proof (induction ops arbitrary: d evs)
  case (Cons op ops)
  let ?d1 = "outbox_step digest provider op d" and ?same = "\<lambda>e. pv_event_id e = pv_event_id ev
    \<or> pv_event_type e = pv_event_type ev \<and> pv_idempotency_key e = pv_idempotency_key ev"
  obtain evs1 where run: "outbox_run digest provider ops ?d1 = (evs1, d')" using Cons.prems(2) by (auto split: prod.splits)
  note ok = outbox_step_ok(1)[OF Cons.prems(1)]
  show ?case
  proof (cases "op = OAppend ev")
    case True
    then have "\<exists>e \<in> ob_event ` set (db_outbox ?d1). ?same e"
      by (auto simp: outbox_step_def append_outbox_def list_ex_iff)
    moreover have "ob_event ` set (db_outbox ?d1) \<subseteq> ob_event ` set (db_outbox d')" using outbox_run_ok[OF ok run] by simp
    ultimately show ?thesis by (metis (no_types, lifting) imageE subsetD)
  next
    case False
    then have "OAppend ev \<in> set ops" using Cons.prems(3) by simp
    from Cons.IH[OF ok run this] show ?thesis .
  qed
qed simp


text \<open>What dispatches at one time do to a row.\<close>

definition touched :: "int \<Rightarrow> outbox_row \<Rightarrow> outbox_row \<Rightarrow> bool" where
  "touched now r r' \<longleftrightarrow> r' = r \<or> due now r \<and> \<not> due now r' \<and> (r' = processed_row now (claimed_row now r) \<or> (\<exists>e. r' = retried_row now e r))"

lemma backoff_bounds: "seconds 1 \<le> backoff n" "backoff n \<le> seconds 300"
  by (auto simp: backoff_def seconds_def)

lemma touched_rows:
  assumes "due now r"
  shows "touched now r (processed_row now (claimed_row now r))" "touched now r (retried_row now e r)"
  using assms backoff_bounds(1)[of "ob_attempt_count r"]
  by (auto simp: touched_def due_def processed_row_def retried_row_def seconds_def)

lemma touched_trans: "touched now r r' \<Longrightarrow> touched now r' r'' \<Longrightarrow> touched now r r''"
  unfolding touched_def by blast

lemma update_touched:
  assumes "distinct (map ob_id rs)" "r \<in> set rs" "due now r" "touched now r (f r)" "\<not> due now (f r)"
  shows "list_all2 (touched now) rs (update_event (ob_id r) f rs)"
    "Suc (length (filter (due now) (update_event (ob_id r) f rs))) = length (filter (due now) rs)"
proof -
  have "r' = r" if "r' \<in> set rs" "ob_id r' = ob_id r" for r' using assms(1,2) that by (auto simp: distinct_map inj_on_def)
  then show "list_all2 (touched now) rs (update_event (ob_id r) f rs)"
    using assms(4) unfolding update_event_def list_all2_map2 by (intro list.rel_refl_strong) (auto simp: touched_def)
  show "Suc (length (filter (due now) (update_event (ob_id r) f rs))) = length (filter (due now) rs)"
    using assms(1,2,3,5)
  proof (induction rs)
    case (Cons q qs)
    show ?case
    proof (cases "q = r")
      case True
      then have "ob_id r \<notin> ob_id ` set qs" using Cons.prems(1) by simp
      then have "\<forall>q' \<in> set qs. ob_id q' \<noteq> ob_id r" by (metis image_eqI)
      then have "update_event (ob_id r) f qs = qs" by (auto simp: update_event_def intro: map_idI)
      then show ?thesis using True Cons.prems(3,4) by (simp add: update_event_def)
    next
      case False
      then have "r \<in> set qs" "ob_id q \<noteq> ob_id r" using Cons.prems(1,2) by auto
      then show ?thesis using Cons.IH Cons.prems(1,3,4) by (simp add: update_event_def)
    qed
  qed simp
qed

lemma dispatch_progress:
  fixes now :: int and digest :: "string \<Rightarrow> string" and provider :: "string \<Rightarrow> Instrument option"
  assumes "outbox_ok d"
  defines "d' \<equiv> outbox_step digest provider (ODispatch NoFault now) d"
  shows "list_all2 (touched now) (db_outbox d) (db_outbox d')"
    "length (filter (due now) (db_outbox d')) = length (filter (due now) (db_outbox d)) - 1"
proof -
  have ids: "distinct (map ob_id (db_outbox d))" using assms(1) by (simp add: outbox_ok_def)
  have "list_all2 (touched now) (db_outbox d) (db_outbox d')
    \<and> length (filter (due now) (db_outbox d')) = length (filter (due now) (db_outbox d)) - 1"
    using assms(1)
  proof (cases rule: dispatch_cases[where digest = digest and provider = provider and flt = NoFault and now = now])
    case idle
    then show ?thesis by (simp add: d'_def outbox_step_def next_due_None list.rel_refl touched_def)
  next
    case (retried r e)
    then have r: "r \<in> set (db_outbox d)" "due now r" using next_due_Some by blast+
    have "\<not> due now (retried_row now e r)" using r(2) backoff_bounds(1)[of "ob_attempt_count r"]
      by (auto simp: due_def retried_row_def seconds_def)
    from update_touched[where f = "retried_row now e", OF ids r touched_rows(2)[OF r(2)] this] show ?thesis
      using retried by (auto simp: d'_def outbox_step_def mark_retry_def)
  next
    case (applied r t)
    then have r: "r \<in> set (db_outbox d)" "due now r" using next_due_Some by blast+
    have "\<not> due now (processed_row now (claimed_row now r))" by (simp add: due_def)
    from update_touched[where f = "\<lambda>q. processed_row now (claimed_row now q)", OF ids r touched_rows(1)[OF r(2)] this] show ?thesis
      using applied by (auto simp: d'_def outbox_step_def)
  qed simp
  then show "list_all2 (touched now) (db_outbox d) (db_outbox d')"
    "length (filter (due now) (db_outbox d')) = length (filter (due now) (db_outbox d)) - 1" by blast+
qed

lemma dispatches_progress:
  assumes "outbox_ok d" "outbox_run digest provider (replicate n (ODispatch NoFault now)) d = (evs, d')"
  shows "list_all2 (touched now) (db_outbox d) (db_outbox d') \<and> length (filter (due now) (db_outbox d')) = length (filter (due now) (db_outbox d)) - n"
  using assms
proof (induction n arbitrary: d evs)
  case 0
  then show ?case by (simp add: list.rel_refl touched_def)
next
  case (Suc n)
  let ?d1 = "outbox_step digest provider (ODispatch NoFault now) d"
  obtain evs1 where run: "outbox_run digest provider (replicate n (ODispatch NoFault now)) ?d1 = (evs1, d')"
    using Suc.prems(2) by (auto split: prod.splits)
  have ih: "list_all2 (touched now) (db_outbox ?d1) (db_outbox d')" "length (filter (due now) (db_outbox d')) = length (filter (due now) (db_outbox ?d1)) - n"
    using Suc.IH[OF outbox_step_ok(1)[OF Suc.prems(1)] run] by blast+
  show ?case using list_all2_trans[OF touched_trans dispatch_progress(1)[OF Suc.prems(1)] ih(1)] ih(2) dispatch_progress(2)[OF Suc.prems(1), where digest = digest and provider = provider and now = now]
    by simp
qed


section \<open>Examples\<close>

definition sample_instrument :: "string \<Rightarrow> Instrument" where
  "sample_instrument symbol = \<lparr>ins_symbol = symbol, ins_venue = ''BINANCE_MAINNET'', ins_market_type = USDM_FUTURES, ins_base_asset = ''ETH'',
     ins_quote_asset = ''USDC'', ins_tick_size = 1 / 100, ins_step_size = 1 / 1000, ins_min_notional = 20, ins_price_precision = 2,
     ins_quantity_precision = 3, ins_is_trading_enabled = True\<rparr>"

definition sample_observation :: "string \<Rightarrow> int \<Rightarrow> ExecutionOrder" where
  "sample_observation status stamp = \<lparr>eo_symbol = ''ETHUSDC'', eo_side = BUY, eo_quantity = 1, eo_price = 2000, eo_order_type = ''LIMIT'',
     eo_client_order_id = ''BAI-1'', eo_status = status, eo_exchange_order_id = Some ''42'', eo_timestamp = Aware stamp,
     eo_market_type = USDM_FUTURES, eo_position_side = BOTH, eo_reduce_only = False, eo_time_in_force = GTC, eo_strategy_id = ''grid'',
     eo_decision_id = None, eo_target_exposure_id = None, eo_source_intent_ids = [], eo_risk_class = NEW_RISK\<rparr>"

definition sample_outbox_event :: "string \<Rightarrow> string \<Rightarrow> int \<Rightarrow> entity \<Rightarrow> string \<Rightarrow> event" where
  "sample_outbox_event kind i stamp e symbol = \<lparr>pv_event_id = i, pv_event_type = kind, pv_idempotency_key = i, pv_aggregate_type = kind,
     pv_aggregate_id = i, pv_created_at = stamp, pv_entity = e, pv_instrument = Some (sample_instrument symbol)\<rparr>"

definition sample_new :: event where
  "sample_new = sample_outbox_event ''ORDER'' ''e1'' 1 (OrderEntity (sample_observation ''NEW'' 1)) ''ETHUSDC''"

definition sample_filled :: event where
  "sample_filled = sample_outbox_event ''ORDER'' ''e2'' 2 (OrderEntity (sample_observation ''FILLED'' 2)) ''ETHUSDC''"

definition sample_pending :: "event \<Rightarrow> nat \<Rightarrow> int \<Rightarrow> db_error option \<Rightarrow> outbox_row" where
  "sample_pending ev n stamp e = \<lparr>ob_event = ev, ob_status = OB_PENDING, ob_attempt_count = n, ob_next_attempt_at = stamp,
     ob_claimed_at = None, ob_processed_at = None, ob_last_error = e\<rparr>"

lemma sample_ids: "pv_event_id sample_new = ''e1''" "pv_event_id sample_filled = ''e2''" "pv_created_at sample_new = 1" "pv_created_at sample_filled = 2"
  "pv_event_type sample_new = ''ORDER''" "pv_event_type sample_filled = ''ORDER''"
  "pv_idempotency_key sample_new = ''e1''" "pv_idempotency_key sample_filled = ''e2''"
  by (simp_all add: sample_new_def sample_filled_def sample_outbox_event_def)

lemma sample_apply:
  assumes "ev = sample_outbox_event ''ORDER'' i stamp (OrderEntity (sample_observation status stamp)) ''ETHUSDC''"
  shows "\<exists>t'. apply_event digest provider ev t = (Inr (), t') \<and> map_option or_status (tb_orders t' ''BAI-1'') = Some status"
  unfolding assms
  by (simp add: apply_event_def sample_outbox_event_def event_instrument_def save_order_def ensure_instrument_def sample_instrument_def
      utc_datetime_def references_instrument_def sample_observation_def split: option.split)

lemmas outbox_sample_steps = outbox_step_def applied_by_def dispatch_one_def dispatch_transaction_def next_due_def due_def
  reclaim_def mark_retry_def update_event_def retried_row_def processed_row_def claimed_row_def backoff_def seconds_def Let_def earlier_def
  sample_pending_def sample_ids

definition sample_outbox_ops :: "outbox_op list" where
  "sample_outbox_ops = [OAppend sample_new, OAppend sample_filled, ODispatch FaultInTransaction 10, ODispatch NoFault 10, ODispatch NoFault 2000000]"

lemma sample_appends:
  "outbox_step digest provider (OAppend sample_filled) (outbox_step digest provider (OAppend sample_new) database_init)
     = database_init\<lparr>db_outbox := [sample_pending sample_new 0 1 None, sample_pending sample_filled 0 2 None]\<rparr>"
  by (simp add: outbox_step_def append_outbox_def database_init_def sample_pending_def sample_ids)

lemma sample_failure:
  "outbox_step digest provider (ODispatch FaultInTransaction 10)
       (database_init\<lparr>db_outbox := [sample_pending sample_new 0 1 None, sample_pending sample_filled 0 2 None]\<rparr>)
     = database_init\<lparr>db_outbox := [sample_pending sample_new (Suc 0) 1000010 (Some DatabaseDown), sample_pending sample_filled 0 2 None]\<rparr>"
  "applied_by digest provider (ODispatch FaultInTransaction 10)
       (database_init\<lparr>db_outbox := [sample_pending sample_new 0 1 None, sample_pending sample_filled 0 2 None]\<rparr>) = None"
  by (simp_all add: outbox_sample_steps)

lemma sample_newer:
  assumes "apply_event digest provider sample_filled (db_tables database_init) = (Inr (), t)"
  defines "d \<equiv> database_init\<lparr>db_outbox := [sample_pending sample_new (Suc 0) 1000010 (Some DatabaseDown), sample_pending sample_filled 0 2 None]\<rparr>"
  shows "outbox_step digest provider (ODispatch NoFault 10) d
     = \<lparr>db_outbox = [sample_pending sample_new (Suc 0) 1000010 (Some DatabaseDown), processed_row 10 (claimed_row 10 (sample_pending sample_filled 0 2 None))], db_tables = t\<rparr>"
    "applied_by digest provider (ODispatch NoFault 10) d = Some sample_filled"
  using assms(1) by (simp_all add: d_def outbox_sample_steps)

lemma sample_older:
  assumes "apply_event digest provider sample_new t = (Inr (), t')"
  defines "d \<equiv> \<lparr>db_outbox = [sample_pending sample_new (Suc 0) 1000010 (Some DatabaseDown), processed_row 10 (claimed_row 10 (sample_pending sample_filled 0 2 None))], db_tables = t\<rparr>"
  shows "db_tables (outbox_step digest provider (ODispatch NoFault 2000000) d) = t'"
    "applied_by digest provider (ODispatch NoFault 2000000) d = Some sample_new"
  using assms(1) by (simp_all add: d_def outbox_sample_steps)

text \<open>A retried event overwrites a newer observation: the order is filled, its later event was applied,
  and the row says that it is new.\<close>

theorem retried_event_overwrites_newer:
  "\<exists>d. outbox_run digest provider sample_outbox_ops database_init = ([sample_filled, sample_new], d)
     \<and> map_option or_status (tb_orders (db_tables d) ''BAI-1'') = Some ''NEW''"
proof -
  obtain t where t: "apply_event digest provider sample_filled (db_tables database_init) = (Inr (), t)"
    using sample_apply[OF sample_filled_def] by blast
  obtain t' where t': "apply_event digest provider sample_new t = (Inr (), t')" "map_option or_status (tb_orders t' ''BAI-1'') = Some ''NEW''"
    using sample_apply[OF sample_new_def] by blast
  have append: "applied_by digest provider (OAppend ev) d = None" for ev d by (simp add: applied_by_def)
  show ?thesis
    using t'(2) by (simp add: sample_outbox_ops_def append sample_appends sample_failure sample_newer[OF t] sample_older[OF t'(1)])
qed



lemma save_fill_row:
  assumes "save_fill digest f time i t = (Inr (), t')"
  shows "\<exists>r. tb_fills t' = (tb_fills t)((ins_venue i, exchange_trade_id f) \<mapsto> r) \<and> fr_quantity r = ef_quantity f \<and> fr_client_order_id r = ef_client_order_id f
    \<and> (case tb_fills t (ins_venue i, exchange_trade_id f) of None \<Rightarrow> fr_symbol r = ef_symbol f \<and> fr_side r = ef_side f
        | Some q \<Rightarrow> fr_symbol r = fr_symbol q \<and> fr_side r = fr_side q)"
proof -
  have "\<exists>t1 stamp. write_fill digest f i stamp t1 = (Inr (), t') \<and> tb_fills t1 = tb_fills t"
    using assms by (auto simp: save_fill_def ensure_instrument_def utc_datetime_def references_instrument_def eff_bind_def split: if_splits datetime.splits;
        (intro exI conjI, assumption, simp)+)
  then obtain t1 stamp where t1: "tb_fills t1 = tb_fills t" "write_fill digest f i stamp t1 = (Inr (), t')" by blast
  show ?thesis
  proof (cases "tb_fills t (ins_venue i, exchange_trade_id f)")
    case None
    then show ?thesis using t1(2) by (auto simp: write_fill_def t1(1) Let_def split: if_splits)
  next
    case (Some q)
    then show ?thesis using t1(2) by (auto simp: write_fill_def t1(1) Let_def)
  qed
qed

text \<open>Two fills of different symbols with the same trade identifier share a row, which ends up with the
  symbol of the one and the quantity of the other.\<close>

theorem colliding_fills_share_row:
  assumes "save_fill digest f time i t = (Inr (), t1)" "save_fill digest f' time' i' t1 = (Inr (), t2)"
    "ins_venue i' = ins_venue i" "exchange_trade_id f' = exchange_trade_id f" "tb_fills t (ins_venue i, exchange_trade_id f) = None"
  shows "\<exists>r. tb_fills t2 = (tb_fills t)((ins_venue i, exchange_trade_id f) \<mapsto> r) \<and> fr_symbol r = ef_symbol f \<and> fr_side r = ef_side f
    \<and> fr_quantity r = ef_quantity f' \<and> fr_client_order_id r = ef_client_order_id f'"
  using save_fill_row[OF assms(1)] save_fill_row[OF assms(2)] assms(3-5) by auto

end
