(* ===== verification/Launch.thy ===== *)
theory Launch
  imports Effects
begin

text \<open>
  The durable launch sessions of Mainnet (\<open>PersistenceRepository\<close> in \<open>persistence/postgres/repositories.py\<close>
  with the table of \<open>infra/postgres/init_schema.sql\<close>): a staged session admits one risk-increasing order,
  after which a review converts it into an autonomous session. A table is the list of its rows; a
  statement that would violate a constraint of the table raises and changes nothing. Time stamps other
  than \<open>updated_at\<close> are left out. The properties concern arbitrary sequences of operations by any number
  of workers.
\<close>

section \<open>Rows and constraints\<close>

datatype launch_policy = STAGED_FIRST_ORDER | AUTONOMOUS_AFTER_REVIEW

datatype launch_state = LS_ACTIVE | LS_PAUSED_NEW_RISK | LS_RECONCILIATION_REQUIRED | LS_AUTONOMOUS_ACTIVE | LS_REAUTH_REQUIRED | LS_CLOSED

record launch_row =
  lr_launch_id :: string
  lr_approval_id :: string
  lr_image_digest :: string
  lr_symbol :: string
  lr_policy :: launch_policy
  lr_max_orders :: "int option"
  lr_reserved :: int
  lr_submitted :: int
  lr_state :: launch_state
  lr_continuation :: "string option"
  lr_updated_at :: int

type_synonym launch_table = "launch_row list"

datatype launch_error = LaunchValueError string | LaunchRuntimeError string | ConstraintViolation

type_synonym 'a launch = "(launch_table, launch_error, 'a) eff"

definition open_launch :: "launch_row \<Rightarrow> bool" where
  "open_launch r = (lr_state r \<noteq> LS_CLOSED)"

definition row_constraints :: "launch_row \<Rightarrow> bool" where
  "row_constraints r =
     ((lr_policy r = STAGED_FIRST_ORDER \<and> lr_max_orders r = Some 1 \<or> lr_policy r = AUTONOMOUS_AFTER_REVIEW \<and> lr_max_orders r = None)
      \<and> lr_reserved r \<ge> 0 \<and> (\<forall>m \<in> set_option (lr_max_orders r). lr_reserved r \<le> m)
      \<and> lr_submitted r \<ge> 0 \<and> (\<forall>m \<in> set_option (lr_max_orders r). lr_submitted r \<le> m))"

definition launch_constraints :: "launch_table \<Rightarrow> bool" where
  "launch_constraints t =
     (distinct (map lr_launch_id t) \<and> distinct (map lr_approval_id t)
      \<and> distinct (map lr_symbol (filter open_launch t))
      \<and> distinct (map lr_continuation (filter (\<lambda>r. lr_continuation r \<noteq> None) t))
      \<and> list_all row_constraints t)"

section \<open>Statements\<close>

text \<open>\<open>UPDATE ... SET f WHERE p RETURNING\<close>: the rows that were updated.\<close>

definition update_rows :: "(launch_row \<Rightarrow> bool) \<Rightarrow> (launch_row \<Rightarrow> launch_row) \<Rightarrow> launch_row list launch" where
  "update_rows p f t =
     (let t' = map (\<lambda>r. if p r then f r else r) t in
      if launch_constraints t' then (Inr (map f (filter p t)), t') else (Inl ConstraintViolation, t))"

text \<open>\<open>INSERT ... ON CONFLICT (approval_id) DO NOTHING\<close>.\<close>

definition insert_row :: "launch_row \<Rightarrow> unit launch" where
  "insert_row r t =
     (if lr_approval_id r \<in> set (map lr_approval_id t) then (Inr (), t)
      else if launch_constraints (t @ [r]) then (Inr (), t @ [r]) else (Inl ConstraintViolation, t))"

definition select_row :: "(launch_row \<Rightarrow> bool) \<Rightarrow> launch_row option launch" where
  "select_row p = eff_gets (find p)"

section \<open>Operations\<close>

definition is_hex :: "char \<Rightarrow> bool" where
  "is_hex c = (c \<in> set ''0123456789abcdefABCDEF'')"

text \<open>\<open>.+@sha256:[0-9a-f]{64}\<close>, in either case; a digest is one line.\<close>

definition immutable_image :: "string \<Rightarrow> bool" where
  "immutable_image s =
     (let n = length s - 64; m = n - 8 in
      length s > 72 \<and> list_all is_hex (drop n s) \<and> lower (take 8 (drop m s)) = ''@sha256:'' \<and> CHR 0x0A \<notin> set (take m s))"

definition closable :: "launch_state \<Rightarrow> bool" where
  "closable st = (st \<in> {LS_ACTIVE, LS_PAUSED_NEW_RISK, LS_RECONCILIATION_REQUIRED, LS_REAUTH_REQUIRED})"

text \<open>Sessions of the symbol that belong to another approval and have not submitted an order are closed.\<close>

definition unused_launch :: "string \<Rightarrow> string \<Rightarrow> launch_row \<Rightarrow> bool" where
  "unused_launch symbol approval_id r =
     (lr_symbol r = upper symbol \<and> lr_approval_id r \<noteq> approval_id \<and> closable (lr_state r) \<and> lr_submitted r = 0)"

definition new_session :: "string \<Rightarrow> string \<Rightarrow> string \<Rightarrow> string \<Rightarrow> launch_policy \<Rightarrow> int \<Rightarrow> int \<Rightarrow> launch_row" where
  "new_session launch_id approval_id image_digest symbol policy max_orders now =
     \<lparr>lr_launch_id = launch_id, lr_approval_id = approval_id, lr_image_digest = image_digest, lr_symbol = upper symbol,
      lr_policy = policy, lr_max_orders = Some max_orders, lr_reserved = 0, lr_submitted = 0, lr_state = LS_ACTIVE,
      lr_continuation = None, lr_updated_at = now\<rparr>"

definition open_session :: "launch_row \<Rightarrow> launch_row launch" where
  "open_session new =
     eff_bind (select_row (\<lambda>r. lr_symbol r = lr_symbol new \<and> lr_approval_id r \<noteq> lr_approval_id new \<and> open_launch r \<and> lr_submitted r > 0)) (\<lambda>unreviewed.
     eff_bind (eff_check (unreviewed = None) (LaunchRuntimeError ''submitted order pending review'')) (\<lambda>_.
     eff_bind (eff_catch (insert_row new) (\<lambda>_. eff_raise (LaunchRuntimeError ''submitted order pending review''))) (\<lambda>_.
     eff_bind (select_row (\<lambda>r. lr_approval_id r = lr_approval_id new)) (\<lambda>found.
     case found of
       None \<Rightarrow> eff_raise (LaunchRuntimeError ''could not be read after creation'')
     | Some row \<Rightarrow>
         if lr_launch_id row = lr_launch_id new \<and> lr_image_digest row = lr_image_digest new
            \<and> upper (lr_symbol row) = lr_symbol new \<and> lr_policy row = lr_policy new
         then eff_ret row else eff_raise (LaunchRuntimeError ''does not match release approval'')))))"

definition create_mainnet_launch_session ::
  "string \<Rightarrow> string \<Rightarrow> string \<Rightarrow> string \<Rightarrow> launch_policy \<Rightarrow> int \<Rightarrow> int \<Rightarrow> launch_row launch" where
  "create_mainnet_launch_session launch_id approval_id image_digest symbol policy max_orders now =
     (if launch_id = [] \<or> approval_id = [] \<or> image_digest = [] then eff_raise (LaunchValueError ''launch session identity is incomplete'')
      else if \<not> immutable_image image_digest then eff_raise (LaunchValueError ''immutable image digest'')
      else if upper symbol \<noteq> ''ETHUSDC'' \<or> policy \<noteq> STAGED_FIRST_ORDER then eff_raise (LaunchValueError ''bounded to ETHUSDC staged launch'')
      else if max_orders \<noteq> 1 then eff_raise (LaunchValueError ''exactly one risk-increasing order'')
      else
        eff_bind (update_rows (unused_launch symbol approval_id) (\<lambda>r. r\<lparr>lr_state := LS_CLOSED, lr_updated_at := now\<rparr>)) (\<lambda>_.
        open_session (new_session launch_id approval_id image_digest symbol policy max_orders now)))"

definition reserve_mainnet_risk_order :: "string \<Rightarrow> int \<Rightarrow> bool launch" where
  "reserve_mainnet_risk_order launch_id now =
     eff_bind (update_rows
       (\<lambda>r. lr_launch_id r = launch_id
          \<and> (lr_policy r = STAGED_FIRST_ORDER \<and> lr_state r = LS_ACTIVE \<and> lr_submitted r = 0
               \<and> (\<exists>m \<in> set_option (lr_max_orders r). lr_reserved r < m)
             \<or> lr_policy r = AUTONOMOUS_AFTER_REVIEW \<and> lr_state r = LS_AUTONOMOUS_ACTIVE))
       (\<lambda>r. r\<lparr>lr_reserved := lr_reserved r + 1, lr_updated_at := now\<rparr>)) (\<lambda>rows. eff_ret (rows \<noteq> []))"

definition release_mainnet_risk_order_reservation :: "string \<Rightarrow> int \<Rightarrow> bool launch" where
  "release_mainnet_risk_order_reservation launch_id now =
     eff_bind (update_rows
       (\<lambda>r. lr_launch_id r = launch_id \<and> lr_state r \<in> {LS_ACTIVE, LS_AUTONOMOUS_ACTIVE} \<and> lr_reserved r > lr_submitted r)
       (\<lambda>r. r\<lparr>lr_reserved := lr_reserved r - 1, lr_updated_at := now\<rparr>)) (\<lambda>rows. eff_ret (length rows = 1))"

definition mark_mainnet_risk_order_submitted :: "string \<Rightarrow> int \<Rightarrow> bool launch" where
  "mark_mainnet_risk_order_submitted launch_id now =
     eff_bind (update_rows
       (\<lambda>r. lr_launch_id r = launch_id \<and> lr_state r \<in> {LS_ACTIVE, LS_AUTONOMOUS_ACTIVE} \<and> lr_reserved r > lr_submitted r
          \<and> (\<forall>m \<in> set_option (lr_max_orders r). lr_submitted r < m))
       (\<lambda>r. r\<lparr>lr_submitted := lr_submitted r + 1,
          lr_state := (if lr_policy r = STAGED_FIRST_ORDER then LS_PAUSED_NEW_RISK else LS_AUTONOMOUS_ACTIVE),
          lr_updated_at := now\<rparr>)) (\<lambda>rows. eff_ret (rows \<noteq> []))"

definition mark_mainnet_launch_reconciliation_required :: "string \<Rightarrow> int \<Rightarrow> bool launch" where
  "mark_mainnet_launch_reconciliation_required launch_id now =
     eff_bind (update_rows
       (\<lambda>r. lr_launch_id r = launch_id \<and> lr_state r \<in> {LS_ACTIVE, LS_PAUSED_NEW_RISK, LS_AUTONOMOUS_ACTIVE})
       (\<lambda>r. r\<lparr>lr_state := LS_RECONCILIATION_REQUIRED, lr_updated_at := now\<rparr>)) (\<lambda>rows. eff_ret (length rows = 1))"

definition mark_mainnet_launch_reconciled :: "string \<Rightarrow> int \<Rightarrow> bool launch" where
  "mark_mainnet_launch_reconciled launch_id now =
     eff_bind (update_rows
       (\<lambda>r. lr_launch_id r = launch_id \<and> lr_state r = LS_RECONCILIATION_REQUIRED \<and> lr_submitted r \<ge> 1 \<and> lr_reserved r \<ge> lr_submitted r)
       (\<lambda>r. r\<lparr>lr_state := (if lr_policy r = STAGED_FIRST_ORDER then LS_PAUSED_NEW_RISK else LS_REAUTH_REQUIRED),
          lr_updated_at := now\<rparr>)) (\<lambda>rows. eff_ret (length rows = 1))"

definition awaits_continuation :: "launch_row \<Rightarrow> bool" where
  "awaits_continuation r =
     (lr_policy r = STAGED_FIRST_ORDER \<and> lr_state r = LS_PAUSED_NEW_RISK \<and> lr_submitted r = 1 \<and> lr_reserved r \<ge> lr_submitted r
        \<and> lr_continuation r = None
      \<or> lr_policy r = AUTONOMOUS_AFTER_REVIEW \<and> lr_state r = LS_REAUTH_REQUIRED \<and> lr_submitted r \<ge> 1)"

definition activate_mainnet_autonomous :: "string \<Rightarrow> string \<Rightarrow> string \<Rightarrow> int \<Rightarrow> launch_row option launch" where
  "activate_mainnet_autonomous launch_id continuation_approval_id image_digest now =
     (if launch_id = [] \<or> continuation_approval_id = [] then eff_raise (LaunchValueError ''continuation identity is incomplete'')
      else if \<not> immutable_image image_digest then eff_raise (LaunchValueError ''immutable image digest'')
      else
        eff_bind (update_rows
          (\<lambda>r. lr_launch_id r = launch_id \<and> lr_image_digest r = image_digest \<and> lr_symbol r = ''ETHUSDC'' \<and> awaits_continuation r)
          (\<lambda>r. r\<lparr>lr_policy := AUTONOMOUS_AFTER_REVIEW, lr_max_orders := None, lr_continuation := Some continuation_approval_id,
             lr_state := LS_AUTONOMOUS_ACTIVE, lr_updated_at := now\<rparr>)) (\<lambda>rows.
        eff_ret (case rows of [] \<Rightarrow> None | r # _ \<Rightarrow> Some r)))"

definition mark_mainnet_launches_reauth_required :: "string \<Rightarrow> int \<Rightarrow> nat launch" where
  "mark_mainnet_launches_reauth_required symbol now =
     eff_bind (update_rows
       (\<lambda>r. lr_symbol r = upper symbol \<and> lr_policy r = AUTONOMOUS_AFTER_REVIEW \<and> lr_state r = LS_AUTONOMOUS_ACTIVE)
       (\<lambda>r. r\<lparr>lr_state := LS_REAUTH_REQUIRED, lr_updated_at := now\<rparr>)) (\<lambda>rows. eff_ret (length rows))"

definition get_mainnet_launch :: "string \<Rightarrow> launch_row option launch" where
  "get_mainnet_launch launch_id = select_row (\<lambda>r. lr_launch_id r = launch_id)"

text \<open>\<open>ORDER BY updated_at DESC LIMIT 1\<close>; rows with equal stamps come in any order.\<close>

definition get_active_mainnet_launch :: "string \<Rightarrow> launch_row option launch" where
  "get_active_mainnet_launch symbol =
     eff_gets (\<lambda>t. foldl (\<lambda>best r. case best of None \<Rightarrow> Some r
         | Some b \<Rightarrow> if lr_updated_at b < lr_updated_at r then Some r else Some b) None
       (filter (\<lambda>r. lr_symbol r = upper symbol \<and> open_launch r) t))"

section \<open>Runs\<close>

datatype launch_op =
    LCreate string string string string launch_policy int
  | LReserve string | LRelease string | LSubmitted string | LReconciliationRequired string | LReconciled string
  | LActivate string string string | LReauth string

text \<open>Whether an operation reports success; an exception is a failure.\<close>

definition succeeded :: "launch_error + bool \<Rightarrow> bool" where
  "succeeded r = (r = Inr True)"

fun launch_step :: "launch_op \<Rightarrow> int \<Rightarrow> launch_table \<Rightarrow> (launch_error + bool) \<times> launch_table" where
  "launch_step (LCreate l a d s p m) now = eff_bind (create_mainnet_launch_session l a d s p m now) (\<lambda>_. eff_ret True)"
| "launch_step (LReserve l) now = reserve_mainnet_risk_order l now"
| "launch_step (LRelease l) now = release_mainnet_risk_order_reservation l now"
| "launch_step (LSubmitted l) now = mark_mainnet_risk_order_submitted l now"
| "launch_step (LReconciliationRequired l) now = mark_mainnet_launch_reconciliation_required l now"
| "launch_step (LReconciled l) now = mark_mainnet_launch_reconciled l now"
| "launch_step (LActivate l c d) now = eff_bind (activate_mainnet_autonomous l c d now) (\<lambda>r. eff_ret (r \<noteq> None))"
| "launch_step (LReauth s) now = eff_bind (mark_mainnet_launches_reauth_required s now) (\<lambda>n. eff_ret (n > 0))"

text \<open>The operations of a run that succeeded, in order, and the table.\<close>

fun launch_run :: "(int \<times> launch_op) list \<Rightarrow> launch_table \<Rightarrow> launch_op list \<times> launch_table" where
  "launch_run [] t = ([], t)"
| "launch_run ((now, op) # ops) t =
     (case launch_step op now t of (r, t') \<Rightarrow>
      case launch_run ops t' of (done_ops, t'') \<Rightarrow> ((if succeeded r then op # done_ops else done_ops), t''))"

section \<open>What a statement does\<close>

text \<open>What holds of every row beyond the constraints of the table.\<close>

definition launch_ok :: "launch_row \<Rightarrow> bool" where
  "launch_ok r \<longleftrightarrow> lr_submitted r \<le> lr_reserved r
     \<and> (case lr_policy r of
          STAGED_FIRST_ORDER \<Rightarrow> lr_continuation r = None \<and> lr_state r \<notin> {LS_AUTONOMOUS_ACTIVE, LS_REAUTH_REQUIRED}
            \<and> (lr_submitted r > 0 \<longrightarrow> lr_state r \<in> {LS_PAUSED_NEW_RISK, LS_RECONCILIATION_REQUIRED})
        | AUTONOMOUS_AFTER_REVIEW \<Rightarrow> lr_continuation r \<noteq> None \<and> lr_submitted r > 0
            \<and> lr_state r \<in> {LS_AUTONOMOUS_ACTIVE, LS_RECONCILIATION_REQUIRED, LS_REAUTH_REQUIRED})"

definition table_ok :: "launch_table \<Rightarrow> bool" where
  "table_ok t \<longleftrightarrow> launch_constraints t \<and> list_all launch_ok t"

lemma table_ok_Nil [simp]: "table_ok []"
  by (simp add: table_ok_def launch_constraints_def)

lemma update_rows_cases:
  obtains (changed) "update_rows p f t = (Inr (map f (filter p t)), map (\<lambda>r. if p r then f r else r) t)"
    "launch_constraints (map (\<lambda>r. if p r then f r else r) t)"
  | (refused) "update_rows p f t = (Inl ConstraintViolation, t)"
  by (cases "launch_constraints (map (\<lambda>r. if p r then f r else r) t)") (auto simp: update_rows_def Let_def)

lemma update_rows_ok:
  assumes "table_ok t" "\<And>r. launch_ok r \<Longrightarrow> row_constraints r \<Longrightarrow> p r \<Longrightarrow> launch_ok (f r)"
  shows "table_ok (snd (update_rows p f t))"
  by (cases rule: update_rows_cases[of p f t])
    (use assms in \<open>auto simp: table_ok_def list_all_iff launch_constraints_def\<close>)

text \<open>A column of the row with a given identifier, zero without a row.\<close>

definition of_launch :: "(launch_row \<Rightarrow> int) \<Rightarrow> string \<Rightarrow> launch_table \<Rightarrow> int" where
  "of_launch c l t = (case find (\<lambda>r. lr_launch_id r = l) t of Some r \<Rightarrow> c r | None \<Rightarrow> 0)"

lemma find_map_id:
  "(\<And>r. lr_launch_id (g r) = lr_launch_id r) \<Longrightarrow> find (\<lambda>r. lr_launch_id r = l) (map g t) = map_option g (find (\<lambda>r. lr_launch_id r = l) t)"
  by (induction t) auto

lemma find_by_id:
  assumes "launch_constraints t"
  shows "find (\<lambda>r. lr_launch_id r = l) t = Some r \<longleftrightarrow> r \<in> set t \<and> lr_launch_id r = l"
proof -
  have "distinct (map lr_launch_id t)" using assms by (simp add: launch_constraints_def)
  then show ?thesis by (induction t) auto
qed

lemma find_by_id_None: "find (\<lambda>r. lr_launch_id r = l) t = None \<longleftrightarrow> l \<notin> lr_launch_id ` set t"
  by (induction t) auto

text \<open>An update that is restricted to one session: whether it hit, and what became of the session.\<close>

lemma update_one:
  assumes "launch_constraints t" "\<And>r. p r \<Longrightarrow> lr_launch_id r = l" "\<And>r. lr_launch_id (f r) = lr_launch_id r"
    "update_rows p f t = (Inr rows, t')"
  shows "rows = (case find (\<lambda>r. lr_launch_id r = l) t of Some r \<Rightarrow> if p r then [f r] else [] | None \<Rightarrow> [])"
    and "find (\<lambda>r. lr_launch_id r = k) t' = map_option (\<lambda>r. if p r then f r else r) (find (\<lambda>r. lr_launch_id r = k) t)"
proof -
  have d: "distinct (map lr_launch_id t)" using assms(1) by (simp add: launch_constraints_def)
  have run: "rows = map f (filter p t)" "t' = map (\<lambda>r. if p r then f r else r) t"
    using assms(4) by (cases rule: update_rows_cases[of p f t]; auto)+
  have "filter p t = (case find (\<lambda>r. lr_launch_id r = l) t of Some r \<Rightarrow> if p r then [r] else [] | None \<Rightarrow> [])"
    using d
  proof (induction t)
    case (Cons r t)
    have "filter p t = []" if "lr_launch_id r = l" using Cons.prems assms(2) that by (metis distinct.simps(2) filter_False image_eqI list.simps(9) set_map)
    then show ?case using Cons assms(2) by (auto split: option.splits)
  qed simp
  then show "rows = (case find (\<lambda>r. lr_launch_id r = l) t of Some r \<Rightarrow> if p r then [f r] else [] | None \<Rightarrow> [])"
    by (auto simp: run split: option.splits)
  show "find (\<lambda>r. lr_launch_id r = k) t' = map_option (\<lambda>r. if p r then f r else r) (find (\<lambda>r. lr_launch_id r = k) t)"
    unfolding run(2) by (rule find_map_id) (simp add: assms(3))
qed

lemma insert_row_cases:
  obtains (known) "insert_row r t = (Inr (), t)" | (added) "insert_row r t = (Inr (), t @ [r])" "launch_constraints (t @ [r])"
  | (refused) "insert_row r t = (Inl ConstraintViolation, t)"
  by (cases "lr_approval_id r \<in> set (map lr_approval_id t)"; cases "launch_constraints (t @ [r])") (auto simp: insert_row_def)

text \<open>A creation leaves every other session as it was, except that unused ones may be closed.\<close>

definition close_unused :: "string \<Rightarrow> string \<Rightarrow> int \<Rightarrow> launch_row \<Rightarrow> launch_row" where
  "close_unused symbol approval_id now r =
     (if unused_launch symbol approval_id r then r\<lparr>lr_state := LS_CLOSED, lr_updated_at := now\<rparr> else r)"

lemma open_session_cases:
  "snd (open_session r t) = t \<or> snd (open_session r t) = t @ [r] \<and> launch_constraints (t @ [r])"
  by (cases rule: insert_row_cases[of r t]) (auto simp: open_session_def select_row_def split: option.splits)

lemma create_cases:
  obtains (same) "snd (create_mainnet_launch_session l a d s p m now t) = t"
  | (closed) "snd (create_mainnet_launch_session l a d s p m now t) = map (close_unused s a now) t"
    "launch_constraints (map (close_unused s a now) t)"
  | (opened) r where "r = new_session l a d s STAGED_FIRST_ORDER 1 now"
    "snd (create_mainnet_launch_session l a d s p m now t) = map (close_unused s a now) t @ [r]"
    "launch_constraints (map (close_unused s a now) t @ [r])"
proof (cases "l \<noteq> [] \<and> a \<noteq> [] \<and> d \<noteq> [] \<and> immutable_image d \<and> upper s = ''ETHUSDC'' \<and> p = STAGED_FIRST_ORDER \<and> m = 1")
  case True
  let ?r = "new_session l a d s STAGED_FIRST_ORDER 1 now" and ?f = "\<lambda>r. r\<lparr>lr_state := LS_CLOSED, lr_updated_at := now\<rparr>"
  have close: "map (\<lambda>r. if unused_launch s a r then ?f r else r) t = map (close_unused s a now) t" by (simp add: close_unused_def)
  have run: "create_mainnet_launch_session l a d s p m now
      = eff_bind (update_rows (unused_launch s a) ?f) (\<lambda>_. open_session ?r)"
    using True by (simp add: create_mainnet_launch_session_def)
  show thesis
  proof (cases rule: update_rows_cases[of "unused_launch s a" ?f t])
    case refused
    then show thesis using same by (simp add: run)
  next
    case changed
    then have "snd (create_mainnet_launch_session l a d s p m now t) = snd (open_session ?r (map (close_unused s a now) t))"
      by (simp add: run close)
    then show thesis using open_session_cases[of ?r "map (close_unused s a now) t"] changed(2) closed opened[OF refl] by (auto simp: close)
  qed
qed (rule same, auto simp: create_mainnet_launch_session_def)

lemma close_unused_simps [simp]:
  "lr_launch_id (close_unused s a now r) = lr_launch_id r" "lr_reserved (close_unused s a now r) = lr_reserved r"
  "lr_submitted (close_unused s a now r) = lr_submitted r" "lr_policy (close_unused s a now r) = lr_policy r"
  "lr_symbol (close_unused s a now r) = lr_symbol r" "lr_continuation (close_unused s a now r) = lr_continuation r"
  by (simp_all add: close_unused_def)

lemma close_unused_ok: "launch_ok r \<Longrightarrow> launch_ok (close_unused s a now r)"
  by (auto simp: launch_ok_def close_unused_def unused_launch_def split: launch_policy.splits)

lemma bind_ret_snd [simp]: "snd (eff_bind m (\<lambda>x. eff_ret (g x)) t) = snd (m t)"
  by (simp add: eff_bind_def split: prod.split sum.split)

lemma create_session_ok:
  assumes "table_ok t"
  shows "table_ok (snd (create_mainnet_launch_session l a d s p m now t))"
  by (cases rule: create_cases[of l a d s p m now t])
    (use assms in \<open>auto simp: table_ok_def list_all_iff close_unused_ok, auto simp: new_session_def launch_ok_def\<close>)

lemma launch_step_ok: "table_ok t \<Longrightarrow> table_ok (snd (launch_step op now t))"
proof (cases op)
  case (LActivate l c d)
  assume "table_ok t"
  then show ?thesis
    unfolding LActivate launch_step.simps bind_ret_snd activate_mainnet_autonomous_def
    by (auto intro!: update_rows_ok simp: launch_ok_def awaits_continuation_def)
qed (auto intro!: update_rows_ok simp: launch_ok_def row_constraints_def reserve_mainnet_risk_order_def
  release_mainnet_risk_order_reservation_def mark_mainnet_risk_order_submitted_def mark_mainnet_launch_reconciliation_required_def
  mark_mainnet_launch_reconciled_def mark_mainnet_launches_reauth_required_def create_session_ok split: launch_policy.splits)

lemma launch_run_ok: "table_ok t \<Longrightarrow> table_ok (snd (launch_run ops t))"
proof (induction ops t rule: launch_run.induct)
  case (2 now op ops t)
  obtain r t' where "launch_step op now t = (r, t')" by fastforce
  moreover from this have "table_ok t'" using launch_step_ok[OF 2(2), of op now] by simp
  ultimately show ?case using 2(1) by (fastforce split: prod.split)
qed simp

text \<open>An operation on one session either succeeds, hits its row and nothing else, or leaves all rows.\<close>

abbreviation find_launch :: "string \<Rightarrow> launch_table \<Rightarrow> launch_row option" where
  "find_launch l \<equiv> find (\<lambda>r. lr_launch_id r = l)"

lemma single_update:
  assumes "launch_constraints t" "\<And>r. p r \<Longrightarrow> lr_launch_id r = l" "\<And>r. lr_launch_id (f r) = lr_launch_id r"
    "eff_bind (update_rows p f) (\<lambda>rows. eff_ret (g rows)) t = (res, t')" "\<not> g []" "\<And>r. g [r]"
  shows "succeeded res \<and> (\<exists>r. find_launch l t = Some r \<and> p r \<and> find_launch l t' = Some (f r)) \<or> \<not> succeeded res \<and> find_launch l t' = find_launch l t"
    and "k \<noteq> l \<Longrightarrow> find_launch k t' = find_launch k t"
proof -
  have "(succeeded res \<and> (\<exists>r. find_launch l t = Some r \<and> p r \<and> find_launch l t' = Some (f r)) \<or> \<not> succeeded res \<and> find_launch l t' = find_launch l t)
      \<and> (k \<noteq> l \<longrightarrow> find_launch k t' = find_launch k t)"
  proof (cases "update_rows p f t")
    case (Pair u t1)
    show ?thesis
    proof (cases u)
      case (Inl e)
      then have "t' = t" "\<not> succeeded res" using assms(4) Pair
        by (cases rule: update_rows_cases[of p f t]; auto simp: succeeded_def)+
      then show ?thesis by simp
    next
      case (Inr rows)
      then have run: "res = Inr (g rows)" "t' = t1" "update_rows p f t = (Inr rows, t')" using assms(4) Pair by auto
      note u = update_one[OF assms(1-3) run(3)]
      have other: "\<not> p r" if "find_launch k t = Some r" "k \<noteq> l" for r
        using that assms(2) by (auto simp: find_Some_iff)
      show ?thesis
        using assms(5,6) other
        by (cases "find_launch k t"; cases "find_launch l t"; cases "k = l") (auto simp: run(1) u succeeded_def)
    qed
  qed
  then show "succeeded res \<and> (\<exists>r. find_launch l t = Some r \<and> p r \<and> find_launch l t' = Some (f r)) \<or> \<not> succeeded res \<and> find_launch l t' = find_launch l t"
    "k \<noteq> l \<Longrightarrow> find_launch k t' = find_launch k t" by blast+
qed

text \<open>What a step does to a session: its counters count successes, its policy changes only by an
  activation, and a slot is granted only when the session admits one.\<close>

definition admits_order :: "launch_row \<Rightarrow> bool" where
  "admits_order r = (lr_policy r = STAGED_FIRST_ORDER \<and> lr_submitted r = 0 \<and> lr_reserved r = 0
     \<or> lr_policy r = AUTONOMOUS_AFTER_REVIEW \<and> lr_state r = LS_AUTONOMOUS_ACTIVE)"

definition tally :: "bool \<Rightarrow> int" where
  "tally b = (if b then 1 else 0)"

definition row_step :: "string \<Rightarrow> launch_op \<Rightarrow> bool \<Rightarrow> launch_row \<Rightarrow> launch_row \<Rightarrow> bool" where
  "row_step k op ok r r' \<longleftrightarrow>
     lr_reserved r' = lr_reserved r + tally (ok \<and> op = LReserve k) - tally (ok \<and> op = LRelease k)
     \<and> lr_submitted r' = lr_submitted r + tally (ok \<and> op = LSubmitted k)
     \<and> lr_symbol r' = lr_symbol r
     \<and> (ok \<and> op = LReserve k \<longrightarrow> admits_order r)
     \<and> ((\<forall>c d. \<not> (ok \<and> op = LActivate k c d)) \<longrightarrow> lr_policy r' = lr_policy r
         \<and> (lr_state r' = LS_AUTONOMOUS_ACTIVE \<longrightarrow> lr_state r = LS_AUTONOMOUS_ACTIVE))"

lemma row_step_refl: "(ok \<longrightarrow> op \<noteq> LReserve k \<and> op \<noteq> LRelease k \<and> op \<noteq> LSubmitted k) \<Longrightarrow> row_step k op ok r r"
  by (auto simp: row_step_def tally_def)

lemmas session_updates = reserve_mainnet_risk_order_def release_mainnet_risk_order_reservation_def mark_mainnet_risk_order_submitted_def
  mark_mainnet_launch_reconciliation_required_def mark_mainnet_launch_reconciled_def

lemma create_row:
  assumes "launch_constraints t" "find_launch k t = Some r"
  shows "\<exists>r'. find_launch k (snd (create_mainnet_launch_session l a d s p m now t)) = Some r' \<and> row_step k (LCreate l a d s p m) ok r r'"
proof -
  have closed: "find_launch k (map (close_unused s a now) t) = Some (close_unused s a now r)"
    using assms(2) by (subst find_map_id) simp_all
  moreover have "row_step k (LCreate l a d s p m) ok r (close_unused s a now r)"
    by (auto simp: row_step_def tally_def) (simp_all add: close_unused_def split: if_splits)
  moreover have "find_launch k (ys @ [x]) = Some r'" if "find_launch k ys = Some r'" for ys x r'
    using that by (induction ys) auto
  ultimately show ?thesis
    by (cases rule: create_cases[of l a d s p m now t]) (use assms(2) row_step_refl in fastforce)+
qed

lemma bind_ret_ret: "eff_bind (eff_bind m (\<lambda>x. eff_ret (g x))) (\<lambda>y. eff_ret (h y)) = eff_bind m (\<lambda>x. eff_ret (h (g x)))"
  by (rule ext) (simp add: eff_bind_def split: prod.split sum.split)

lemma activate_step:
  assumes "l \<noteq> []" "c \<noteq> []" "immutable_image d"
  shows "launch_step (LActivate l c d) now
    = eff_bind (update_rows (\<lambda>r. lr_launch_id r = l \<and> lr_image_digest r = d \<and> lr_symbol r = ''ETHUSDC'' \<and> awaits_continuation r)
       (\<lambda>r. r\<lparr>lr_policy := AUTONOMOUS_AFTER_REVIEW, lr_max_orders := None, lr_continuation := Some c,
          lr_state := LS_AUTONOMOUS_ACTIVE, lr_updated_at := now\<rparr>)) (\<lambda>rows. eff_ret (rows \<noteq> []))"
proof -
  have "(case rows of [] \<Rightarrow> None | r # _ \<Rightarrow> Some r) \<noteq> None \<longleftrightarrow> rows \<noteq> []" for rows :: "launch_row list" by (cases rows) auto
  then show ?thesis using assms by (auto simp: activate_mainnet_autonomous_def bind_ret_ret fun_eq_iff)
qed

lemma activate_refused: "l = [] \<or> c = [] \<or> \<not> immutable_image d \<Longrightarrow> launch_step (LActivate l c d) now t = (res, t') \<Longrightarrow> t' = t \<and> \<not> succeeded res"
  by (auto simp: activate_mainnet_autonomous_def succeeded_def split: if_splits)

lemma activate_row:
  assumes "launch_constraints t" "launch_step (LActivate l c d) now t = (res, t')"
  shows "succeeded res \<and> (\<exists>r. find_launch l t = Some r \<and> awaits_continuation r \<and> find_launch l t' = Some (r\<lparr>lr_policy := AUTONOMOUS_AFTER_REVIEW,
        lr_max_orders := None, lr_continuation := Some c, lr_state := LS_AUTONOMOUS_ACTIVE, lr_updated_at := now\<rparr>))
      \<or> \<not> succeeded res \<and> find_launch l t' = find_launch l t" and "k \<noteq> l \<Longrightarrow> find_launch k t' = find_launch k t"
proof -
  let ?p = "\<lambda>r. lr_launch_id r = l \<and> lr_image_digest r = d \<and> lr_symbol r = ''ETHUSDC'' \<and> awaits_continuation r"
  let ?f = "\<lambda>r. r\<lparr>lr_policy := AUTONOMOUS_AFTER_REVIEW, lr_max_orders := None, lr_continuation := Some c,
          lr_state := LS_AUTONOMOUS_ACTIVE, lr_updated_at := now\<rparr>"
  consider "l = [] \<or> c = [] \<or> \<not> immutable_image d" | "\<not> (l = [] \<or> c = [] \<or> \<not> immutable_image d)" by blast
  then have "(succeeded res \<and> (\<exists>r. find_launch l t = Some r \<and> ?p r \<and> find_launch l t' = Some (?f r)) \<or> \<not> succeeded res \<and> find_launch l t' = find_launch l t)
      \<and> (k \<noteq> l \<longrightarrow> find_launch k t' = find_launch k t)"
  proof cases
    case 1
    then show ?thesis using activate_refused[OF 1 assms(2)] by simp
  next
    case 2
    then have "eff_bind (update_rows ?p ?f) (\<lambda>rows. eff_ret (rows \<noteq> [])) t = (res, t')"
      using assms(2) activate_step[of l c d now] by simp
    note u = single_update[OF assms(1) _ _ this]
    have "succeeded res \<and> (\<exists>r. find_launch l t = Some r \<and> ?p r \<and> find_launch l t' = Some (?f r)) \<or> \<not> succeeded res \<and> find_launch l t' = find_launch l t"
      by (rule u(1)) auto
    moreover have "find_launch k t' = find_launch k t" if "k \<noteq> l" by (rule u(2)[OF _ _ _ _ that]) auto
    ultimately show ?thesis by blast
  qed
  then show "succeeded res \<and> (\<exists>r. find_launch l t = Some r \<and> awaits_continuation r \<and> find_launch l t' = Some (?f r))
      \<or> \<not> succeeded res \<and> find_launch l t' = find_launch l t" "k \<noteq> l \<Longrightarrow> find_launch k t' = find_launch k t" by blast+
qed

lemma reauth_row:
  assumes "launch_step (LReauth s) now t = (res, t')"
  shows "find_launch k t' = find_launch k t \<or> find_launch k t' = map_option (\<lambda>r. if lr_symbol r = upper s \<and> lr_policy r = AUTONOMOUS_AFTER_REVIEW
      \<and> lr_state r = LS_AUTONOMOUS_ACTIVE then r\<lparr>lr_state := LS_REAUTH_REQUIRED, lr_updated_at := now\<rparr> else r) (find_launch k t)"
proof -
  let ?p = "\<lambda>r. lr_symbol r = upper s \<and> lr_policy r = AUTONOMOUS_AFTER_REVIEW \<and> lr_state r = LS_AUTONOMOUS_ACTIVE"
  let ?f = "\<lambda>r. r\<lparr>lr_state := LS_REAUTH_REQUIRED, lr_updated_at := now\<rparr>"
  have "snd (launch_step (LReauth s) now t) = snd (update_rows ?p ?f t)" by (simp add: mark_mainnet_launches_reauth_required_def)
  then have "t' = snd (update_rows ?p ?f t)" unfolding assms by (simp only: snd_conv)
  then show ?thesis
    by (cases rule: update_rows_cases[of ?p ?f t]) (simp_all add: find_map_id)
qed

lemma session_step:
  assumes "launch_constraints t" "find_launch k t = Some r"
    and run: "eff_bind (update_rows p f) (\<lambda>rows. eff_ret (g rows)) t = (res, t')"
    and "\<And>r. p r \<Longrightarrow> lr_launch_id r = l" "\<And>r. lr_launch_id (f r) = lr_launch_id r" "\<not> g []" "\<And>r. g [r]"
    and "op \<in> {LReserve l, LRelease l, LSubmitted l, LReconciliationRequired l, LReconciled l}"
    and "k = l \<Longrightarrow> p r \<Longrightarrow> row_step k op True r (f r)"
  shows "\<exists>r'. find_launch k t' = Some r' \<and> row_step k op (succeeded res) r r'"
proof (cases "k = l")
  case True
  have "succeeded res \<and> (\<exists>r. find_launch l t = Some r \<and> p r \<and> find_launch l t' = Some (f r)) \<or> \<not> succeeded res \<and> find_launch l t' = find_launch l t"
    by (rule single_update(1)[OF assms(1,4,5) run assms(6,7)])
  then show ?thesis using assms(2,9) True row_step_refl[of False op k r] by auto
next
  case False
  then have "find_launch k t' = Some r" using single_update(2)[OF assms(1,4,5) run assms(6,7) False] assms(2) by simp
  then show ?thesis using False assms(8) by (auto intro!: row_step_refl)
qed

lemma launch_step_row:
  assumes "table_ok t" "launch_step op now t = (res, t')" "find_launch k t = Some r"
  shows "\<exists>r'. find_launch k t' = Some r' \<and> row_step k op (succeeded res) r r'"
proof -
  have c: "launch_constraints t" and ok: "launch_ok r" "row_constraints r" and id: "lr_launch_id r = k"
    using assms(1,3) by (auto simp: table_ok_def list_all_iff launch_constraints_def find_Some_iff)
  note step = session_step[OF c assms(3)] and run = assms(2)
  show ?thesis
  proof (cases op)
    case (LCreate l a d s p m)
    have "snd (launch_step op now t) = snd (create_mainnet_launch_session l a d s p m now t)" unfolding LCreate launch_step.simps by (rule bind_ret_snd)
    then have "t' = snd (create_mainnet_launch_session l a d s p m now t)" unfolding run by simp
    then show ?thesis using create_row[OF c assms(3)] LCreate by simp
  next
    case (LReserve l)
    show ?thesis
      by (rule step[OF run[unfolded LReserve launch_step.simps reserve_mainnet_risk_order_def], of l])
        (use ok LReserve in \<open>auto simp: row_step_def tally_def admits_order_def row_constraints_def\<close>)
  next
    case (LRelease l)
    show ?thesis
      by (rule step[OF run[unfolded LRelease launch_step.simps release_mainnet_risk_order_reservation_def], of l])
        (use ok LRelease in \<open>auto simp: row_step_def tally_def\<close>)
  next
    case (LSubmitted l)
    show ?thesis
      by (rule step[OF run[unfolded LSubmitted launch_step.simps mark_mainnet_risk_order_submitted_def], of l])
        (use ok LSubmitted in \<open>auto simp: row_step_def tally_def launch_ok_def split: launch_policy.splits\<close>)
  next
    case (LReconciliationRequired l)
    show ?thesis
      by (rule step[OF run[unfolded LReconciliationRequired launch_step.simps mark_mainnet_launch_reconciliation_required_def], of l])
        (use ok LReconciliationRequired in \<open>auto simp: row_step_def tally_def\<close>)
  next
    case (LReconciled l)
    show ?thesis
      by (rule step[OF run[unfolded LReconciled launch_step.simps mark_mainnet_launch_reconciled_def], of l])
        (use ok LReconciled in \<open>auto simp: row_step_def tally_def\<close>)
  next
    case (LActivate l a d)
    then show ?thesis
      using activate_row(1)[OF c run[unfolded LActivate]] activate_row(2)[OF c run[unfolded LActivate], of k] assms(3)
        row_step_refl[of "succeeded res" op k r]
      by (cases "k = l") (auto simp: row_step_def tally_def)
  next
    case (LReauth s)
    then show ?thesis
      using reauth_row[OF run[unfolded LReauth], of k] assms(3) row_step_refl[of "succeeded res" op k r]
      by (auto simp: row_step_def tally_def)
  qed
qed

definition fresh_launch :: "launch_row \<Rightarrow> bool" where
  "fresh_launch r = (lr_reserved r = 0 \<and> lr_submitted r = 0 \<and> lr_policy r = STAGED_FIRST_ORDER)"

lemma session_step_new:
  assumes "launch_constraints t" "find_launch k t = None"
    and run: "eff_bind (update_rows p f) (\<lambda>rows. eff_ret (g rows)) t = (res, t')"
    and "\<And>r. p r \<Longrightarrow> lr_launch_id r = l" "\<And>r. lr_launch_id (f r) = lr_launch_id r" "\<not> g []" "\<And>r. g [r]"
  shows "(succeeded res \<longrightarrow> l \<noteq> k) \<and> find_launch k t' = None"
  using single_update(1)[OF assms(1,4,5) run assms(6,7)] single_update(2)[OF assms(1,4,5) run assms(6,7), of k] assms(2) by (cases "k = l") auto

lemma launch_step_new:
  assumes "table_ok t" "launch_step op now t = (res, t')" "find_launch k t = None"
  shows "\<not> (succeeded res \<and> op \<in> {LReserve k, LRelease k, LSubmitted k}) \<and> (\<forall>r. find_launch k t' = Some r \<longrightarrow> fresh_launch r)"
proof -
  have c: "launch_constraints t" using assms(1) by (simp add: table_ok_def)
  note run = assms(2) and new = session_step_new[OF c assms(3)]
  show ?thesis
  proof (cases op)
    case (LCreate l a d s p m)
    have "find_launch k (map (close_unused s a now) t) = None" using assms(3) by (subst find_map_id) simp_all
    moreover have "fresh_launch r" if "find_launch k (ys @ [new_session l a d s STAGED_FIRST_ORDER 1 now]) = Some r" "find_launch k ys = None" for ys r
      using that by (induction ys) (auto simp: fresh_launch_def new_session_def split: if_splits)
    moreover have "snd (launch_step op now t) = snd (create_mainnet_launch_session l a d s p m now t)" unfolding LCreate launch_step.simps by (rule bind_ret_snd)
    then have "t' = snd (create_mainnet_launch_session l a d s p m now t)" unfolding run by simp
    ultimately have "\<forall>r. find_launch k t' = Some r \<longrightarrow> fresh_launch r"
      by (cases rule: create_cases[of l a d s p m now t]) (use assms(3) in auto)
    then show ?thesis using LCreate by simp
  next
    case (LActivate l a d)
    then show ?thesis
      using activate_row(1)[OF c run[unfolded LActivate]] activate_row(2)[OF c run[unfolded LActivate], of k] assms(3) by (cases "k = l") auto
  next
    case (LReauth s)
    then show ?thesis using reauth_row[OF run[unfolded LReauth], of k] assms(3) by auto
  next
    case (LReserve l)
    show ?thesis using new[OF run[unfolded LReserve launch_step.simps reserve_mainnet_risk_order_def], of l] LReserve by auto
  next
    case (LRelease l)
    show ?thesis using new[OF run[unfolded LRelease launch_step.simps release_mainnet_risk_order_reservation_def], of l] LRelease by auto
  next
    case (LSubmitted l)
    show ?thesis using new[OF run[unfolded LSubmitted launch_step.simps mark_mainnet_risk_order_submitted_def], of l] LSubmitted by auto
  next
    case (LReconciliationRequired l)
    show ?thesis
      using new[OF run[unfolded LReconciliationRequired launch_step.simps mark_mainnet_launch_reconciliation_required_def], of l]
        LReconciliationRequired by auto
  next
    case (LReconciled l)
    show ?thesis using new[OF run[unfolded LReconciled launch_step.simps mark_mainnet_launch_reconciled_def], of l] LReconciled by auto
  qed
qed

text \<open>A run, one step at a time.\<close>

lemma launch_run_Cons:
  assumes "launch_run ((now, op) # ops) t = (ds, t'')" "table_ok t"
  obtains res t' ds' where "launch_step op now t = (res, t')" "table_ok t'" "launch_run ops t' = (ds', t'')"
    "ds = (if succeeded res then op # ds' else ds')"
proof -
  obtain res t' where s: "launch_step op now t = (res, t')" by fastforce
  obtain ds' where r: "launch_run ops t' = (ds', t'')" "ds = (if succeeded res then op # ds' else ds')"
    using assms(1) s by (auto split: prod.splits)
  from s have "table_ok t'" using launch_step_ok[OF assms(2), of op now] by simp
  then show thesis using that s r by blast
qed

lemma launch_run_counts:
  assumes "table_ok t" "launch_run ops t = (ds, t')"
  shows "of_launch lr_reserved k t' = of_launch lr_reserved k t + int (count_list ds (LReserve k)) - int (count_list ds (LRelease k))"
    and "of_launch lr_submitted k t' = of_launch lr_submitted k t + int (count_list ds (LSubmitted k))"
  using assms
proof (induction ops arbitrary: t ds)
  case (Cons nop ops)
  obtain now op where [simp]: "nop = (now, op)" by fastforce
  {
    case 1
    obtain res t1 ds' where s: "launch_step op now t = (res, t1)" "table_ok t1" "launch_run ops t1 = (ds', t')"
      "ds = (if succeeded res then op # ds' else ds')" using launch_run_Cons 1 by (metis \<open>nop = (now, op)\<close>)
    then show ?case
      using Cons(1)[OF s(2,3)] launch_step_row[OF 1(1) s(1), of k] launch_step_new[OF 1(1) s(1), of k]
      by (cases "find_launch k t"; cases "find_launch k t1")
        (auto simp: of_launch_def row_step_def tally_def fresh_launch_def split: if_splits)
  }
  {
    case 2
    obtain res t1 ds' where s: "launch_step op now t = (res, t1)" "table_ok t1" "launch_run ops t1 = (ds', t')"
      "ds = (if succeeded res then op # ds' else ds')" using launch_run_Cons 2 by (metis \<open>nop = (now, op)\<close>)
    then show ?case
      using Cons(2)[OF s(2,3)] launch_step_row[OF 2(1) s(1), of k] launch_step_new[OF 2(1) s(1), of k]
      by (cases "find_launch k t"; cases "find_launch k t1")
        (auto simp: of_launch_def row_step_def tally_def fresh_launch_def split: if_splits)
  }
qed simp_all

section \<open>Properties\<close>

text \<open>A session that admits no order, whatever happens to it, until it is activated.\<close>

definition spent :: "launch_row \<Rightarrow> bool" where
  "spent r = (lr_policy r = STAGED_FIRST_ORDER \<and> lr_submitted r > 0 \<or> lr_policy r = AUTONOMOUS_AFTER_REVIEW \<and> lr_state r \<noteq> LS_AUTONOMOUS_ACTIVE)"

lemma spent_stays:
  assumes "table_ok t" "launch_run ops t = (ds, t')" "find_launch k t = Some r" "spent r" "\<forall>c d. LActivate k c d \<notin> set ds"
  shows "LReserve k \<notin> set ds"
  using assms
proof (induction ops arbitrary: t ds r)
  case (Cons nop ops)
  obtain now op where nop: "nop = (now, op)" by fastforce
  obtain res t1 ds' where s: "launch_step op now t = (res, t1)" "table_ok t1" "launch_run ops t1 = (ds', t')"
    "ds = (if succeeded res then op # ds' else ds')" using launch_run_Cons Cons.prems(1,2) nop by metis
  obtain r1 where r1: "find_launch k t1 = Some r1" "row_step k op (succeeded res) r r1" using launch_step_row[OF Cons.prems(1) s(1) Cons.prems(3)] by blast
  have quiet: "\<forall>c d. \<not> (succeeded res \<and> op = LActivate k c d)" "\<forall>c d. LActivate k c d \<notin> set ds'" using Cons.prems(5) s(4) by (auto split: if_splits)
  then have "spent r1" using r1(2) Cons.prems(4) by (auto simp: row_step_def spent_def tally_def)
  then have "LReserve k \<notin> set ds'" using Cons.IH[OF s(2,3) r1(1) _ quiet(2)] by blast
  moreover have "\<not> (succeeded res \<and> op = LReserve k)" using r1(2) Cons.prems(4) by (auto simp: row_step_def spent_def admits_order_def)
  ultimately show ?case using s(4) by auto
qed simp

definition staged :: "launch_row option \<Rightarrow> bool" where
  "staged o' = (\<forall>r. o' = Some r \<longrightarrow> lr_policy r = STAGED_FIRST_ORDER)"

lemma staged_step:
  assumes "table_ok t" "launch_step op now t = (res, t1)" "staged (find_launch k t)" "\<forall>c d. \<not> (succeeded res \<and> op = LActivate k c d)"
  shows "staged (find_launch k t1)"
proof (cases "find_launch k t")
  case None
  then show ?thesis using launch_step_new[OF assms(1,2)] by (auto simp: staged_def fresh_launch_def)
next
  case (Some r)
  obtain r' where "find_launch k t1 = Some r'" "row_step k op (succeeded res) r r'" using launch_step_row[OF assms(1,2) Some] by blast
  then show ?thesis using assms(3,4) Some by (auto simp: staged_def row_step_def)
qed

lemma staged_run:
  assumes "table_ok t" "launch_run ops t = (ds, t')" "staged (find_launch k t)" "\<forall>c d. LActivate k c d \<notin> set ds"
  shows "staged (find_launch k t') \<and> (\<forall>a b. ds = a @ LSubmitted k # b \<longrightarrow> LReserve k \<notin> set b)"
  using assms
proof (induction ops arbitrary: t ds)
  case (Cons nop ops)
  obtain now op where nop: "nop = (now, op)" by fastforce
  obtain res t1 ds' where s: "launch_step op now t = (res, t1)" "table_ok t1" "launch_run ops t1 = (ds', t')"
    "ds = (if succeeded res then op # ds' else ds')" using launch_run_Cons Cons.prems(1,2) nop by metis
  have quiet: "\<forall>c d. \<not> (succeeded res \<and> op = LActivate k c d)" "\<forall>c d. LActivate k c d \<notin> set ds'" using Cons.prems(4) s(4) by (auto split: if_splits)
  have st: "staged (find_launch k t1)" by (rule staged_step[OF Cons.prems(1) s(1) Cons.prems(3) quiet(1)])
  note ih = Cons.IH[OF s(2,3) st quiet(2)]
  have "LReserve k \<notin> set ds'" if sub: "succeeded res" "op = LSubmitted k"
  proof -
    obtain r where r: "find_launch k t = Some r" using launch_step_new[OF Cons.prems(1) s(1), of k] sub by (cases "find_launch k t") auto
    obtain r1 where r1: "find_launch k t1 = Some r1" "row_step k op True r r1" using launch_step_row[OF Cons.prems(1) s(1) r] sub(1) by auto
    have "lr_submitted r \<ge> 0" using r Cons.prems(1)
      by (auto simp: table_ok_def launch_constraints_def list_all_iff row_constraints_def find_Some_iff)
    then have "spent r1" using r1 sub(2) st by (auto simp: spent_def staged_def row_step_def tally_def)
    then show ?thesis using spent_stays[OF s(2,3) r1(1) _ quiet(2)] by blast
  qed
  then show ?case using ih s(4) by (auto simp: Cons_eq_append_conv split: if_splits)
qed simp

text \<open>
  C24: A staged launch sends one order. However many workers drive the launch table and in whatever order,
  as long as a session has not been activated by a continuation approval, at most one of its slots is
  granted and not released, at most one order is marked as submitted, and after that no slot is granted
  any more. A repeated ARM does not reset the counters: over any run they equal the number of operations
  that succeeded.
\<close>

theorem staged_launch_sends_one_order:
  assumes "launch_run ops [] = (ds, t)" "\<forall>c d. LActivate k c d \<notin> set ds"
  shows "count_list ds (LReserve k) \<le> count_list ds (LRelease k) + 1 \<and> count_list ds (LSubmitted k) \<le> 1
    \<and> (\<forall>a b. ds = a @ LSubmitted k # b \<longrightarrow> LReserve k \<notin> set b)
    \<and> of_launch lr_submitted k t = int (count_list ds (LSubmitted k))
    \<and> of_launch lr_reserved k t = int (count_list ds (LReserve k)) - int (count_list ds (LRelease k))"
proof -
  have "staged (find_launch k [])" by (simp add: staged_def)
  note run = staged_run[OF table_ok_Nil assms(1) this assms(2)]
  have ok: "table_ok t" using launch_run_ok[OF table_ok_Nil, of ops] assms(1) by simp
  have "of_launch lr_reserved k t \<le> 1 \<and> of_launch lr_submitted k t \<le> 1"
  proof (cases "find_launch k t")
    case (Some r)
    then have "row_constraints r" using ok by (auto simp: table_ok_def launch_constraints_def list_all_iff find_Some_iff)
    then show ?thesis using run Some by (auto simp: of_launch_def staged_def row_constraints_def)
  qed (simp add: of_launch_def)
  then show ?thesis
    using launch_run_counts[OF table_ok_Nil assms(1), of k] run by (auto simp: of_launch_def)
qed

lemma reauth_never_refused:
  assumes "launch_constraints t"
  shows "launch_constraints (map (\<lambda>r. if lr_symbol r = upper s \<and> lr_policy r = AUTONOMOUS_AFTER_REVIEW \<and> lr_state r = LS_AUTONOMOUS_ACTIVE
      then r\<lparr>lr_state := LS_REAUTH_REQUIRED, lr_updated_at := now\<rparr> else r) t)" (is "launch_constraints (map ?f t)")
proof -
  have f: "lr_launch_id (?f r) = lr_launch_id r" "lr_approval_id (?f r) = lr_approval_id r" "lr_symbol (?f r) = lr_symbol r"
    "lr_continuation (?f r) = lr_continuation r" "open_launch (?f r) = open_launch r" "row_constraints (?f r) = row_constraints r" for r
    by (auto simp: open_launch_def row_constraints_def)
  show ?thesis using assms unfolding launch_constraints_def
    by (simp add: filter_map comp_def f list_all_iff del: if_image_distrib)
qed

lemma fenced_row:
  assumes "table_ok t" "launch_step (LReauth s) now t = (res, t1)" "find_launch k t = Some r" "lr_symbol r = upper s" "lr_policy r = AUTONOMOUS_AFTER_REVIEW"
  shows "\<exists>r1. find_launch k t1 = Some r1 \<and> spent r1"
proof -
  let ?p = "\<lambda>r. lr_symbol r = upper s \<and> lr_policy r = AUTONOMOUS_AFTER_REVIEW \<and> lr_state r = LS_AUTONOMOUS_ACTIVE"
  let ?f = "\<lambda>r. r\<lparr>lr_state := LS_REAUTH_REQUIRED, lr_updated_at := now\<rparr>"
  have c: "launch_constraints (map (\<lambda>r. if ?p r then ?f r else r) t)" using assms(1) by (intro reauth_never_refused) (simp add: table_ok_def)
  have "snd (launch_step (LReauth s) now t) = snd (update_rows ?p ?f t)" by (simp add: mark_mainnet_launches_reauth_required_def)
  then have "t1 = map (\<lambda>r. if ?p r then ?f r else r) t" unfolding assms(2) using c by (simp add: update_rows_def)
  then have "find_launch k t1 = Some (if ?p r then ?f r else r)" using assms(3) by (simp add: find_map_id)
  then show ?thesis using assms(4,5) by (auto simp: spent_def)
qed

text \<open>
  C25: A restart fences off autonomous launches. After the fence of a symbol, whatever operations follow,
  an autonomous session of the symbol is granted no slot unless it is activated again by a continuation
  approval.
\<close>

theorem restart_fences_autonomous_launch:
  assumes "table_ok t" "launch_step (LReauth s) now t = (res, t1)" "find_launch k t = Some r" "lr_symbol r = upper s"
    "lr_policy r = AUTONOMOUS_AFTER_REVIEW" "launch_run ops t1 = (ds, t2)" "\<forall>c d. LActivate k c d \<notin> set ds"
  shows "LReserve k \<notin> set ds"
proof -
  obtain r1 where "find_launch k t1 = Some r1" "spent r1" using fenced_row[OF assms(1-5)] by blast
  moreover have "table_ok (snd (launch_step (LReauth s) now t))" by (rule launch_step_ok[OF assms(1)])
  then have "table_ok t1" unfolding assms(2) by (simp only: snd_conv)
  ultimately show ?thesis using spent_stays assms(6,7) by blast
qed

section \<open>Examples\<close>

definition sample_digest :: string where
  "sample_digest = ''worker@sha256:'' @ replicate 64 CHR ''a''"

lemma sample_digest_ok: "immutable_image sample_digest" "sample_digest \<noteq> []"
  by (simp_all add: sample_digest_def immutable_image_def is_hex_def Let_def string_eval eval_nat_numeral)

definition sample_create :: launch_op where
  "sample_create = LCreate ''launch-1'' ''approval-1'' sample_digest ''ETHUSDC'' STAGED_FIRST_ORDER 1"

lemma sample_upper: "upper ''ETHUSDC'' = ''ETHUSDC''"
  by (simp add: string_eval)

definition sample_row :: "launch_policy \<Rightarrow> int option \<Rightarrow> int \<Rightarrow> int \<Rightarrow> launch_state \<Rightarrow> string option \<Rightarrow> int \<Rightarrow> launch_row" where
  "sample_row p m reserved submitted st c now = \<lparr>lr_launch_id = ''launch-1'', lr_approval_id = ''approval-1'', lr_image_digest = sample_digest,
     lr_symbol = ''ETHUSDC'', lr_policy = p, lr_max_orders = m, lr_reserved = reserved, lr_submitted = submitted, lr_state = st,
     lr_continuation = c, lr_updated_at = now\<rparr>"

lemma sample_constraints: "launch_constraints [sample_row p m reserved submitted st c now] = row_constraints (sample_row p m reserved submitted st c now)"
  by (simp add: launch_constraints_def sample_row_def)

lemma sample_steps:
  "launch_step sample_create 0 [] = (Inr True, [sample_row STAGED_FIRST_ORDER (Some 1) 0 0 LS_ACTIVE None 0])"
  "launch_step (LReserve ''launch-1'') 1 [sample_row STAGED_FIRST_ORDER (Some 1) 0 0 LS_ACTIVE None 0]
     = (Inr True, [sample_row STAGED_FIRST_ORDER (Some 1) 1 0 LS_ACTIVE None 1])"
  "launch_step (LSubmitted ''launch-1'') 2 [sample_row STAGED_FIRST_ORDER (Some 1) 1 0 LS_ACTIVE None 1]
     = (Inr True, [sample_row STAGED_FIRST_ORDER (Some 1) 1 1 LS_PAUSED_NEW_RISK None 2])"
  "launch_step (LActivate ''launch-1'' ''continue-1'' sample_digest) 3 [sample_row STAGED_FIRST_ORDER (Some 1) 1 1 LS_PAUSED_NEW_RISK None 2]
     = (Inr True, [sample_row AUTONOMOUS_AFTER_REVIEW None 1 1 LS_AUTONOMOUS_ACTIVE (Some ''continue-1'') 3])"
  "launch_step (LReauth ''ETHUSDC'') 4 [sample_row AUTONOMOUS_AFTER_REVIEW None 1 1 LS_AUTONOMOUS_ACTIVE (Some ''continue-1'') 3]
     = (Inr True, [sample_row AUTONOMOUS_AFTER_REVIEW None 1 1 LS_REAUTH_REQUIRED (Some ''continue-1'') 4])"
  "launch_step (LActivate ''launch-1'' ''continue-1'' sample_digest) 5 [sample_row AUTONOMOUS_AFTER_REVIEW None 1 1 LS_REAUTH_REQUIRED (Some ''continue-1'') 4]
     = (Inr True, [sample_row AUTONOMOUS_AFTER_REVIEW None 1 1 LS_AUTONOMOUS_ACTIVE (Some ''continue-1'') 5])"
  subgoal
    by (simp add: sample_create_def create_mainnet_launch_session_def sample_digest_ok sample_upper update_rows_def open_session_def select_row_def
        insert_row_def new_session_def launch_constraints_def row_constraints_def) (simp add: sample_row_def)
  subgoal by (simp add: reserve_mainnet_risk_order_def update_rows_def sample_row_def launch_constraints_def row_constraints_def)
  subgoal by (simp add: mark_mainnet_risk_order_submitted_def update_rows_def sample_row_def launch_constraints_def row_constraints_def)
  subgoal by (simp add: activate_mainnet_autonomous_def sample_digest_ok update_rows_def sample_row_def awaits_continuation_def launch_constraints_def row_constraints_def)
  subgoal by (simp add: mark_mainnet_launches_reauth_required_def sample_upper update_rows_def sample_row_def launch_constraints_def row_constraints_def)
  subgoal by (simp add: activate_mainnet_autonomous_def sample_digest_ok update_rows_def sample_row_def awaits_continuation_def launch_constraints_def row_constraints_def)
  done

lemma sample_run:
  "launch_run [(0, sample_create), (1, LReserve ''launch-1''), (2, LSubmitted ''launch-1'')] []
     = ([sample_create, LReserve ''launch-1'', LSubmitted ''launch-1''], [sample_row STAGED_FIRST_ORDER (Some 1) 1 1 LS_PAUSED_NEW_RISK None 2])"
  by (simp add: sample_steps succeeded_def del: launch_step.simps)

theorem staged_launch_sends_one_order_witness:
  "count_list [sample_create, LReserve ''launch-1'', LSubmitted ''launch-1''] (LSubmitted ''launch-1'') \<le> 1
    \<and> of_launch lr_submitted ''launch-1'' [sample_row STAGED_FIRST_ORDER (Some 1) 1 1 LS_PAUSED_NEW_RISK None 2] = 1"
  using staged_launch_sends_one_order[OF sample_run, of "''launch-1''"] by (simp add: sample_create_def of_launch_def sample_row_def)

definition sample_autonomous :: launch_row where
  "sample_autonomous = sample_row AUTONOMOUS_AFTER_REVIEW None 1 1 LS_AUTONOMOUS_ACTIVE (Some ''continue-1'') 3"

lemma sample_autonomous_ok: "table_ok [sample_autonomous]" "find_launch ''launch-1'' [sample_autonomous] = Some sample_autonomous"
  "lr_symbol sample_autonomous = upper ''ETHUSDC''" "lr_policy sample_autonomous = AUTONOMOUS_AFTER_REVIEW"
  by (simp_all add: table_ok_def sample_autonomous_def sample_row_def launch_constraints_def row_constraints_def launch_ok_def sample_upper)

lemma sample_fenced_run:
  "launch_run [(5, LReserve ''launch-1'')] [sample_row AUTONOMOUS_AFTER_REVIEW None 1 1 LS_REAUTH_REQUIRED (Some ''continue-1'') 4]
     = ([], [sample_row AUTONOMOUS_AFTER_REVIEW None 1 1 LS_REAUTH_REQUIRED (Some ''continue-1'') 4])"
  by (simp add: reserve_mainnet_risk_order_def update_rows_def sample_row_def launch_constraints_def row_constraints_def succeeded_def)

theorem restart_fences_autonomous_launch_witness:
  "LReserve ''launch-1'' \<notin> set (fst (launch_run [(5, LReserve ''launch-1'')] (snd (launch_step (LReauth ''ETHUSDC'') 4 [sample_autonomous]))))"
  using restart_fences_autonomous_launch[OF sample_autonomous_ok(1) sample_steps(5)[folded sample_autonomous_def] sample_autonomous_ok(2,3,4) sample_fenced_run]
  by (simp only: sample_steps(5)[folded sample_autonomous_def] snd_conv sample_fenced_run fst_conv) simp

text \<open>
  A spent approval reactivates a launch. The fence of a restart does not outlast a second activation
  with the same continuation approval: the session that approval activated before the restart is active
  again after it, although the documentation asks for a fresh approval.
\<close>

theorem spent_approval_reactivates:
  "\<exists>t. launch_run [(0, sample_create), (1, LReserve ''launch-1''), (2, LSubmitted ''launch-1''), (3, LActivate ''launch-1'' ''continue-1'' sample_digest),
        (4, LReauth ''ETHUSDC''), (5, LActivate ''launch-1'' ''continue-1'' sample_digest)] []
     = ([sample_create, LReserve ''launch-1'', LSubmitted ''launch-1'', LActivate ''launch-1'' ''continue-1'' sample_digest,
        LReauth ''ETHUSDC'', LActivate ''launch-1'' ''continue-1'' sample_digest], t)
     \<and> map lr_state t = [LS_AUTONOMOUS_ACTIVE]"
  by (simp add: sample_steps succeeded_def del: launch_step.simps) (simp add: sample_row_def)

end
