(* ===== verification/Persistence.thy ===== *)
theory Persistence
  imports Outbox Launch
begin

text \<open>
  The persistence manager (\<open>PersistenceManager\<close> in \<open>persistence/manager.py\<close>): a bounded queue of events in
  front of the outbox, the synchronous barrier before an order, the writer and the dispatcher, and the
  guarded access to the launch sessions. A statement that the manager sends may be delivered, lost,
  executed without an acknowledgement, or hang until the caller gives up; the list \<open>st_net\<close> holds what
  will happen to the next statements, and all later ones are delivered. The steps of the writer and of
  the dispatcher are operations of their own, to be interleaved with the others.
\<close>

section \<open>State\<close>

datatype persistence_mode = PM_DISABLED | PM_OPTIONAL | PM_REQUIRED

datatype manager_state = MS_STOPPED | MS_DISABLED | MS_READY | MS_DEGRADED | MS_FAILED

text \<open>The number is the monotonic clock when the failure is noticed; the flag of \<open>Hangs\<close> says whether the
  statement was executed nevertheless.\<close>

datatype net = Delivered | Lost int | Unacked int | Hangs bool

record PersistenceManager =
  pm_mode :: persistence_mode
  pm_capacity :: nat
  pm_connected :: bool
  pm_accepting :: bool
  pm_repository :: bool
  pm_queue :: "event list"
  pm_state :: manager_state
  pm_stop_deadline :: "int option"
  pm_failed :: nat
  pm_dropped :: nat
  pm_disabled :: nat
  pm_retries :: nat
  pm_unflushed :: nat
  pm_pending :: "nat option"
  pm_launch_session :: "launch_row option"

record store =
  st_manager :: PersistenceManager
  st_db :: database
  st_launches :: launch_table
  st_net :: "net list"

datatype store_error = StoreDown | StoreTimeout | StoreRuntime string | StoreLaunch launch_error | StoreValue pyerr

type_synonym 'a store_eff = "(store, store_error, 'a) eff"

definition manager_init :: "persistence_mode \<Rightarrow> nat \<Rightarrow> PersistenceManager" where
  "manager_init mode capacity = \<lparr>pm_mode = mode, pm_capacity = capacity, pm_connected = False, pm_accepting = False, pm_repository = False,
     pm_queue = [], pm_state = MS_STOPPED, pm_stop_deadline = None, pm_failed = 0, pm_dropped = 0, pm_disabled = 0, pm_retries = 0,
     pm_unflushed = 0, pm_pending = None, pm_launch_session = None\<rparr>"

definition manage :: "(PersistenceManager \<Rightarrow> PersistenceManager) \<Rightarrow> store \<Rightarrow> store" where
  "manage f s = s\<lparr>st_manager := f (st_manager s)\<rparr>"

text \<open>What happens to the next statement.\<close>

definition next_net :: "store \<Rightarrow> net" where
  "next_net s = (case st_net s of [] \<Rightarrow> Delivered | n # _ \<Rightarrow> n)"

definition pop_net :: "store \<Rightarrow> store" where
  "pop_net s = s\<lparr>st_net := tl (st_net s)\<rparr>"

definition manager_record_failure :: "PersistenceManager \<Rightarrow> PersistenceManager" where
  "manager_record_failure m = m\<lparr>pm_failed := Suc (pm_failed m), pm_retries := Suc (pm_retries m), pm_state := MS_DEGRADED\<rparr>"

definition drop_write :: "PersistenceManager \<Rightarrow> PersistenceManager" where
  "drop_write m = m\<lparr>pm_failed := Suc (pm_failed m), pm_dropped := Suc (pm_dropped m)\<rparr>"

definition readiness_durable :: "PersistenceManager \<Rightarrow> bool" where
  "readiness_durable m \<longleftrightarrow> pm_connected m \<and> pm_state m = MS_READY"

definition readiness_ready :: "PersistenceManager \<Rightarrow> bool" where
  "readiness_ready m \<longleftrightarrow> pm_mode m = PM_DISABLED \<or> readiness_durable m"

definition validate_execution_mode :: "string \<Rightarrow> PersistenceManager \<Rightarrow> store_error + unit" where
  "validate_execution_mode mode m =
     (if upper mode \<in> {''LIVE'', ''SMALL_LIVE''} \<and> pm_mode m \<noteq> PM_REQUIRED then Inl (StoreRuntime ''requires REQUIRED persistence'') else Inr ())"

section \<open>Events\<close>

text \<open>\<open>datetime.isoformat()\<close> of a time in UTC.\<close>

definition isoformat_utc :: "int \<Rightarrow> string" where
  "isoformat_utc us =
     (let secs = us div 1000000; micro = us mod 1000000; sod = secs mod 86400; (y, mo, da) = civil_from_days (secs div 86400) in
      show_padded 4 (nat y) @ ''-'' @ show_padded 2 (nat mo) @ ''-'' @ show_padded 2 (nat da) @ ''T'' @ show_padded 2 (nat (sod div 3600)) @ '':''
      @ show_padded 2 (nat (sod div 60 mod 60)) @ '':'' @ show_padded 2 (nat (sod mod 60))
      @ (if micro = 0 then [] else ''.'' @ show_padded 6 (nat micro)) @ ''+00:00'')"

definition event_id :: "(string \<Rightarrow> string) \<Rightarrow> string \<Rightarrow> string \<Rightarrow> string" where
  "event_id digest event_type key = event_type @ ''-'' @ take 32 (digest (event_type @ '':'' @ key))"

definition build_event ::
  "(string \<Rightarrow> string) \<Rightarrow> entity \<Rightarrow> string \<Rightarrow> string \<Rightarrow> string \<Rightarrow> int \<Rightarrow> Instrument option \<Rightarrow> event" where
  "build_event digest e event_type key aggregate_id created i =
     \<lparr>pv_event_id = event_id digest event_type key, pv_event_type = event_type, pv_idempotency_key = key, pv_aggregate_type = event_type,
      pv_aggregate_id = aggregate_id, pv_created_at = created, pv_entity = e, pv_instrument = i\<rparr>"

definition utc_of :: "datetime \<Rightarrow> int store_eff" where
  "utc_of t = (case t of Aware us \<Rightarrow> eff_ret us | Naive us \<Rightarrow> eff_raise (StoreValue (ValueError ''persistence timestamps must be timezone-aware'')))"

type_synonym rules_provider = "string \<Rightarrow> pyerr + Instrument option"

text \<open>A provider that raises counts as a dropped write of its own.\<close>

definition instrument_for :: "rules_provider option \<Rightarrow> string \<Rightarrow> Instrument option store_eff" where
  "instrument_for provider symbol =
     (case provider of
        None \<Rightarrow> eff_ret None
      | Some f \<Rightarrow> (case f (upper symbol) of
            Inl _ \<Rightarrow> eff_bind (eff_modify (manage drop_write)) (\<lambda>_. eff_ret None)
          | Inr i \<Rightarrow> eff_ret i))"

definition require_instrument :: "rules_provider option \<Rightarrow> string \<Rightarrow> Instrument option store_eff" where
  "require_instrument provider symbol =
     eff_bind (instrument_for provider symbol) (\<lambda>i.
     if i = None then eff_bind (eff_modify (manage drop_write)) (\<lambda>_. eff_ret None) else eff_ret i)"

definition order_event :: "(string \<Rightarrow> string) \<Rightarrow> rules_provider option \<Rightarrow> ExecutionOrder \<Rightarrow> event option store_eff" where
  "order_event digest provider od =
     eff_bind (require_instrument provider (eo_symbol od)) (\<lambda>i.
     case i of
       None \<Rightarrow> eff_ret None
     | Some _ \<Rightarrow>
         eff_bind (utc_of (eo_timestamp od)) (\<lambda>stamp.
         eff_ret (Some (build_event digest (OrderEntity od) ''ORDER''
           (eo_client_order_id od @ '':'' @ eo_status od @ '':'' @ isoformat_utc stamp) (eo_client_order_id od) stamp i))))"

section \<open>The queue\<close>

definition enqueue_event :: "event \<Rightarrow> bool store_eff" where
  "enqueue_event ev =
     eff_bind (eff_gets st_manager) (\<lambda>m.
     if pm_mode m = PM_DISABLED then eff_bind (eff_modify (manage (\<lambda>m. m\<lparr>pm_disabled := Suc (pm_disabled m)\<rparr>))) (\<lambda>_. eff_ret False)
     else if \<not> pm_accepting m \<or> \<not> pm_connected m then
       eff_bind (eff_modify (manage (\<lambda>m. m\<lparr>pm_dropped := Suc (pm_dropped m)\<rparr>))) (\<lambda>_. eff_ret False)
     else if length (pm_queue m) \<ge> pm_capacity m then
       eff_bind (eff_modify (manage (\<lambda>m. (drop_write m)\<lparr>pm_state := (if pm_mode m = PM_REQUIRED then MS_DEGRADED else pm_state m)\<rparr>))) (\<lambda>_.
       eff_ret False)
     else eff_bind (eff_modify (manage (\<lambda>m. m\<lparr>pm_queue := pm_queue m @ [ev]\<rparr>))) (\<lambda>_. eff_ret True))"

definition enqueue_order :: "(string \<Rightarrow> string) \<Rightarrow> rules_provider option \<Rightarrow> ExecutionOrder \<Rightarrow> bool store_eff" where
  "enqueue_order digest provider od =
     eff_bind (order_event digest provider od) (\<lambda>ev. case ev of None \<Rightarrow> eff_ret False | Some e \<Rightarrow> enqueue_event e)"

definition enqueue_fill :: "(string \<Rightarrow> string) \<Rightarrow> rules_provider option \<Rightarrow> ExchangeFill \<Rightarrow> datetime \<Rightarrow> bool store_eff" where
  "enqueue_fill digest provider f time =
     eff_bind (require_instrument provider (ef_symbol f)) (\<lambda>i.
     case i of
       None \<Rightarrow> eff_ret False
     | Some ins \<Rightarrow>
         let key = ins_venue ins @ '':'' @ upper (ef_symbol f) @ '':'' @ exchange_trade_id f in
         eff_bind (utc_of time) (\<lambda>stamp. enqueue_event (build_event digest (FillEntity f time) ''FILL'' key key stamp i)))"

definition position_venue :: "ExchangePosition \<Rightarrow> Instrument \<Rightarrow> string" where
  "position_venue p i = (let v = upper (strip (ep_source p)) in if v = [] \<or> v = ''UNKNOWN'' then ins_venue i else v)"

text \<open>A closed position without an instrument is skipped without being counted.\<close>

definition enqueue_position :: "(string \<Rightarrow> string) \<Rightarrow> rules_provider option \<Rightarrow> ExchangePosition \<Rightarrow> datetime \<Rightarrow> bool store_eff" where
  "enqueue_position digest provider p time =
     eff_bind (if ep_quantity p = 0 then instrument_for provider (ep_symbol p) else require_instrument provider (ep_symbol p)) (\<lambda>i.
     case i of
       None \<Rightarrow> eff_ret False
     | Some ins \<Rightarrow>
         eff_bind (utc_of time) (\<lambda>stamp.
         let aggregate = position_venue p ins @ '':'' @ upper (ep_symbol p) @ '':'' @ position_side_value (ep_position_side p) in
         enqueue_event (build_event digest (PositionEntity p time) ''POSITION'' (aggregate @ '':'' @ isoformat_utc stamp) aggregate stamp i)))"

definition enqueue_risk_snapshot :: "(string \<Rightarrow> string) \<Rightarrow> risk_entity \<Rightarrow> bool store_eff" where
  "enqueue_risk_snapshot digest k =
     eff_bind (utc_of (rk_timestamp k)) (\<lambda>stamp.
     enqueue_event (build_event digest (RiskEntity k) ''RISK_SNAPSHOT'' (''portfolio:'' @ isoformat_utc stamp) ''portfolio'' stamp None))"

section \<open>Writing to the outbox\<close>

definition acknowledged :: "store \<Rightarrow> store" where
  "acknowledged s = manage (\<lambda>m. m\<lparr>pm_connected := True, pm_state := MS_READY\<rparr>) s"

definition write_event :: "event \<Rightarrow> store \<Rightarrow> store" where
  "write_event ev s = s\<lparr>st_db := append_outbox ev (st_db s)\<rparr>"

definition deadline_passed :: "int \<Rightarrow> store \<Rightarrow> bool" where
  "deadline_passed t s = (case pm_stop_deadline (st_manager s) of None \<Rightarrow> False | Some dl \<Rightarrow> t \<ge> dl)"

text \<open>The loop of \<open>_append_with_retry\<close>; it recurs on what happens to the statements.\<close>

fun append_retries :: "event \<Rightarrow> net list \<Rightarrow> unit store_eff" where
  "append_retries ev [] s = (Inr (), acknowledged (write_event ev s))"
| "append_retries ev (n # ns) s =
     (let s1 = s\<lparr>st_net := ns\<rparr> in
      case n of
        Delivered \<Rightarrow> (Inr (), acknowledged (write_event ev s1))
      | Lost t \<Rightarrow> (let s2 = manage manager_record_failure s1 in if deadline_passed t s2 then (Inl StoreDown, s2) else append_retries ev ns s2)
      | Unacked t \<Rightarrow> (let s2 = manage manager_record_failure (write_event ev s1) in
          if deadline_passed t s2 then (Inl StoreDown, s2) else append_retries ev ns s2)
      | Hangs executed \<Rightarrow> (Inl StoreTimeout, if executed then write_event ev s1 else s1))"

definition append_with_retry :: "event \<Rightarrow> unit store_eff" where
  "append_with_retry ev s =
     (if \<not> pm_repository (st_manager s) then (Inl (StoreRuntime ''persistence repository is not initialized''), s)
      else append_retries ev (st_net s) s)"

definition refresh_pending_count :: "unit store_eff" where
  "refresh_pending_count s =
     (if \<not> pm_repository (st_manager s) then (Inr (), manage (\<lambda>m. m\<lparr>pm_pending := None\<rparr>) s)
      else if next_net s = Delivered
        then (Inr (), manage (\<lambda>m. m\<lparr>pm_pending := Some (pending_count (st_db s))\<rparr>) (pop_net s))
        else (Inr (), manage manager_record_failure (pop_net s)))"

definition ensure_order_durable :: "(string \<Rightarrow> string) \<Rightarrow> rules_provider option \<Rightarrow> ExecutionOrder \<Rightarrow> bool store_eff" where
  "ensure_order_durable digest provider od =
     eff_bind (eff_gets st_manager) (\<lambda>m.
     if pm_mode m = PM_DISABLED then eff_bind (eff_modify (manage (\<lambda>m. m\<lparr>pm_disabled := Suc (pm_disabled m)\<rparr>))) (\<lambda>_. eff_ret False)
     else if \<not> pm_accepting m \<or> \<not> pm_connected m \<or> \<not> pm_repository m then
       eff_bind (eff_modify (manage (\<lambda>m. m\<lparr>pm_dropped := Suc (pm_dropped m)\<rparr>))) (\<lambda>_. eff_ret False)
     else
       eff_bind (order_event digest provider od) (\<lambda>ev.
       case ev of
         None \<Rightarrow> eff_ret False
       | Some e \<Rightarrow>
           eff_catch (eff_bind (append_with_retry e) (\<lambda>_. eff_bind refresh_pending_count (\<lambda>_. eff_ret True)))
             (\<lambda>_. eff_bind (eff_modify (manage (\<lambda>m. m\<lparr>pm_state := MS_DEGRADED\<rparr>))) (\<lambda>_. eff_ret False))))"

text \<open>One turn of the writer: whether it wrote the event it took from the queue.\<close>

definition outbox_writer :: "bool store_eff" where
  "outbox_writer =
     eff_bind (eff_gets (\<lambda>s. pm_queue (st_manager s))) (\<lambda>q.
     case q of
       [] \<Rightarrow> eff_ret False
     | ev # rest \<Rightarrow>
         eff_bind (eff_modify (manage (\<lambda>m. m\<lparr>pm_queue := rest\<rparr>))) (\<lambda>_.
         eff_catch (eff_bind (append_with_retry ev) (\<lambda>_. eff_ret True))
           (\<lambda>_. eff_bind (eff_modify (manage (\<lambda>m. m\<lparr>pm_unflushed := Suc (pm_unflushed m)\<rparr>))) (\<lambda>_. eff_ret False))))"

definition rules_of :: "rules_provider option \<Rightarrow> string \<Rightarrow> Instrument option" where
  "rules_of provider symbol = (case provider of None \<Rightarrow> None | Some f \<Rightarrow> (case f symbol of Inl _ \<Rightarrow> None | Inr i \<Rightarrow> i))"

text \<open>One turn of the dispatcher; \<open>first_idle\<close> says that the turn before found an event.\<close>

definition outbox_dispatcher :: "(string \<Rightarrow> string) \<Rightarrow> rules_provider option \<Rightarrow> fault \<Rightarrow> int \<Rightarrow> bool \<Rightarrow> bool store_eff" where
  "outbox_dispatcher digest provider flt now first_idle s =
     (if \<not> pm_repository (st_manager s) then (Inr False, s)
      else (case dispatch_one digest (rules_of provider) flt now (st_db s) of
          (Inl e, d) \<Rightarrow> (Inr False, manage manager_record_failure (s\<lparr>st_db := d\<rparr>))
        | (Inr found, d) \<Rightarrow>
            eff_bind (if found \<or> first_idle then refresh_pending_count else eff_ret ()) (\<lambda>_. eff_ret found) (s\<lparr>st_db := d\<rparr>)))"

section \<open>Start and stop\<close>

definition manager_start :: "bool \<Rightarrow> bool store_eff" where
  "manager_start connects =
     eff_bind (eff_gets st_manager) (\<lambda>m.
     if pm_mode m = PM_DISABLED then eff_bind (eff_modify (manage (\<lambda>m. m\<lparr>pm_state := MS_DISABLED, pm_accepting := True\<rparr>))) (\<lambda>_. eff_ret True)
     else if connects then
       eff_bind (eff_modify (manage (\<lambda>m. m\<lparr>pm_stop_deadline := None, pm_repository := True, pm_connected := True, pm_accepting := True,
         pm_state := MS_READY\<rparr>))) (\<lambda>_. eff_bind refresh_pending_count (\<lambda>_. eff_ret True))
     else
       eff_bind (eff_modify (manage (\<lambda>m. m\<lparr>pm_stop_deadline := None, pm_repository := False, pm_connected := False,
         pm_accepting := (pm_mode m = PM_OPTIONAL), pm_state := (if pm_mode m = PM_OPTIONAL then MS_DEGRADED else MS_FAILED)\<rparr>))) (\<lambda>_.
       if pm_mode m = PM_REQUIRED then eff_raise StoreDown else eff_ret False))"

text \<open>\<open>stop\<close> before and after the writer and the dispatcher have ended.\<close>

definition manager_begin_stop :: "int \<Rightarrow> unit store_eff" where
  "manager_begin_stop deadline =
     eff_modify (manage (\<lambda>m. if pm_mode m = PM_DISABLED then m\<lparr>pm_accepting := False, pm_state := MS_STOPPED\<rparr>
       else m\<lparr>pm_accepting := False, pm_stop_deadline := Some deadline\<rparr>))"

definition manager_end_stop :: "unit store_eff" where
  "manager_end_stop =
     eff_bind (eff_gets st_manager) (\<lambda>m.
     if pm_mode m = PM_DISABLED then eff_ret ()
     else
       eff_bind (eff_modify (manage (\<lambda>m. m\<lparr>pm_unflushed := pm_unflushed m + length (pm_queue m)\<rparr>))) (\<lambda>_.
       eff_bind refresh_pending_count (\<lambda>_.
       eff_modify (manage (\<lambda>m. m\<lparr>pm_connected := False, pm_state := MS_STOPPED\<rparr>)))))"

section \<open>Launch sessions\<close>

definition require_durable_launch_repository :: "unit store_eff" where
  "require_durable_launch_repository =
     eff_bind (eff_gets st_manager) (\<lambda>m.
     eff_check (pm_mode m = PM_REQUIRED \<and> pm_connected m \<and> pm_repository m \<and> readiness_durable m)
       (StoreRuntime ''Mainnet launch requires durable REQUIRED persistence''))"

definition launch_statement :: "'a launch \<Rightarrow> 'a store_eff" where
  "launch_statement f s =
     (let s1 = pop_net s; run = f (st_launches s); s2 = s1\<lparr>st_launches := snd run\<rparr> in
      case next_net s of
        Delivered \<Rightarrow> (map_sum StoreLaunch id (fst run), s2)
      | Lost t \<Rightarrow> (Inl StoreDown, s1)
      | Unacked t \<Rightarrow> (Inl StoreDown, s2)
      | Hangs executed \<Rightarrow> (Inl StoreTimeout, if executed then s2 else s1))"

definition note_session :: "launch_row option \<Rightarrow> unit store_eff" where
  "note_session r = eff_modify (manage (\<lambda>m. m\<lparr>pm_launch_session := r\<rparr>))"

definition note_active_session :: "unit store_eff" where
  "note_active_session = eff_bind (launch_statement (get_active_mainnet_launch ''ETHUSDC'')) note_session"

definition manager_create_launch :: "string \<Rightarrow> string \<Rightarrow> string \<Rightarrow> int \<Rightarrow> launch_row store_eff" where
  "manager_create_launch approval_id image_digest symbol now =
     eff_bind require_durable_launch_repository (\<lambda>_.
     eff_bind (launch_statement (create_mainnet_launch_session (''launch-'' @ approval_id) approval_id image_digest symbol STAGED_FIRST_ORDER 1 now)) (\<lambda>r.
     eff_bind (note_session (Some r)) (\<lambda>_. eff_ret r)))"

definition manager_reserve :: "string \<Rightarrow> int \<Rightarrow> bool store_eff" where
  "manager_reserve launch_id now =
     eff_bind require_durable_launch_repository (\<lambda>_.
     eff_bind (launch_statement (reserve_mainnet_risk_order launch_id now)) (\<lambda>reserved.
     eff_bind (if reserved then note_active_session else eff_ret ()) (\<lambda>_. eff_ret reserved)))"

definition manager_release :: "string \<Rightarrow> int \<Rightarrow> bool store_eff" where
  "manager_release launch_id now =
     eff_bind require_durable_launch_repository (\<lambda>_.
     eff_bind (launch_statement (release_mainnet_risk_order_reservation launch_id now)) (\<lambda>released.
     eff_bind note_active_session (\<lambda>_. eff_ret released)))"

definition manager_mark_submitted :: "string \<Rightarrow> int \<Rightarrow> bool store_eff" where
  "manager_mark_submitted launch_id now =
     eff_bind require_durable_launch_repository (\<lambda>_.
     eff_bind (launch_statement (mark_mainnet_risk_order_submitted launch_id now)) (\<lambda>marked.
     if \<not> marked then eff_ret False else eff_bind note_active_session (\<lambda>_. eff_ret True)))"

definition manager_reconciliation_required :: "string \<Rightarrow> int \<Rightarrow> bool store_eff" where
  "manager_reconciliation_required launch_id now =
     eff_bind require_durable_launch_repository (\<lambda>_.
     eff_bind (launch_statement (mark_mainnet_launch_reconciliation_required launch_id now)) (\<lambda>marked.
     eff_bind note_active_session (\<lambda>_. eff_ret marked)))"

definition manager_reconciled :: "string \<Rightarrow> int \<Rightarrow> bool store_eff" where
  "manager_reconciled launch_id now =
     eff_bind require_durable_launch_repository (\<lambda>_.
     eff_bind (launch_statement (mark_mainnet_launch_reconciled launch_id now)) (\<lambda>marked.
     eff_bind note_active_session (\<lambda>_. eff_ret marked)))"

definition manager_get_session :: "string option \<Rightarrow> launch_row option store_eff" where
  "manager_get_session launch_id =
     eff_bind require_durable_launch_repository (\<lambda>_.
     eff_bind (launch_statement (case launch_id of
         None \<Rightarrow> get_active_mainnet_launch ''ETHUSDC''
       | Some l \<Rightarrow> if l = [] then get_active_mainnet_launch ''ETHUSDC'' else get_mainnet_launch l)) (\<lambda>r.
     eff_bind (note_session r) (\<lambda>_. eff_ret r)))"

definition manager_activate :: "string \<Rightarrow> string \<Rightarrow> string \<Rightarrow> int \<Rightarrow> launch_row option store_eff" where
  "manager_activate launch_id continuation_approval_id image_digest now =
     eff_bind require_durable_launch_repository (\<lambda>_.
     eff_bind (launch_statement (activate_mainnet_autonomous launch_id continuation_approval_id image_digest now)) (\<lambda>r.
     eff_bind (note_session r) (\<lambda>_. eff_ret r)))"

definition manager_reauth_required :: "int \<Rightarrow> nat store_eff" where
  "manager_reauth_required now =
     eff_bind require_durable_launch_repository (\<lambda>_.
     eff_bind (launch_statement (mark_mainnet_launches_reauth_required ''ETHUSDC'' now)) (\<lambda>changed.
     eff_bind note_active_session (\<lambda>_. eff_ret changed)))"

section \<open>The books of the queue\<close>

text \<open>The counters between two states: \<open>a\<close> events accepted, \<open>w\<close> written, \<open>l\<close> lost, \<open>f\<close> refused_write.\<close>

definition booked :: "nat \<Rightarrow> nat \<Rightarrow> nat \<Rightarrow> nat \<Rightarrow> store \<Rightarrow> store \<Rightarrow> bool" where
  "booked a w l f s s' \<longleftrightarrow>
     (let m = st_manager s; m' = st_manager s' in
      pm_capacity m' = pm_capacity m
      \<and> (length (pm_queue m) \<le> pm_capacity m \<longrightarrow> length (pm_queue m') \<le> pm_capacity m)
      \<and> length (pm_queue m) + a = length (pm_queue m') + w + l
      \<and> pm_unflushed m + l \<le> pm_unflushed m'
      \<and> pm_dropped m + pm_disabled m + f \<le> pm_dropped m' + pm_disabled m')"

lemma booked_trans: "booked a w l f s s' \<Longrightarrow> booked a' w' l' f' s' s'' \<Longrightarrow> booked (a + a') (w + w') (l + l') (f + f') s s''"
  by (auto simp: booked_def Let_def)

lemma booked_idle: "booked 0 0 0 0 s s' \<Longrightarrow> booked a w l f s' s'' \<Longrightarrow> booked a w l f s s''"
  "booked a w l f s s' \<Longrightarrow> booked 0 0 0 0 s' s'' \<Longrightarrow> booked a w l f s s''"
  using booked_trans[of 0 0 0 0 s s' a w l f s''] booked_trans[of a w l f s s' 0 0 0 0 s''] by simp_all

lemma booked_refl [simp]: "booked 0 0 0 0 s s"
  by (simp add: booked_def)

lemmas booked_eval = booked_def manage_def Let_def

lemma booked_frame:
  "booked 0 0 0 0 s (s\<lparr>st_net := ns\<rparr>)" "booked 0 0 0 0 s (manage manager_record_failure s)" "booked 0 0 0 0 s (write_event ev s)"
  "booked 0 0 0 0 s (acknowledged s)" "booked 0 0 0 0 s (pop_net s)" "booked 0 0 0 0 s (s\<lparr>st_db := d\<rparr>)" "booked 0 0 0 1 s (manage drop_write s)"
  by (simp_all add: booked_eval manager_record_failure_def write_event_def acknowledged_def pop_net_def drop_write_def)

lemma append_retries_booked: "append_retries ev ns s = (r, s') \<Longrightarrow> booked 0 0 0 0 s s'"
proof (induction ev ns s arbitrary: r s' rule: append_retries.induct)
  case (1 ev s)
  then show ?case by (auto intro: booked_idle(1)[OF booked_frame(3) booked_frame(4)])
next
  case (2 ev n ns s)
  let ?s1 = "s\<lparr>st_net := ns\<rparr>"
  have wr: "booked 0 0 0 0 s (write_event ev ?s1)" by (rule booked_idle(1)[OF booked_frame(1) booked_frame(3)])
  have failed: "booked 0 0 0 0 s (manage manager_record_failure ?s1)" "booked 0 0 0 0 s (manage manager_record_failure (write_event ev ?s1))"
    by (rule booked_idle(1)[OF booked_frame(1) booked_frame(2)], rule booked_idle(1)[OF wr booked_frame(2)])
  show ?case
  proof (cases n)
    case Delivered
    then show ?thesis using 2(3) booked_idle(1)[OF wr booked_frame(4)] by auto
  next
    case (Lost t)
    then show ?thesis using 2(3) failed(1) booked_idle(1)[OF failed(1) 2(1)[OF refl Lost refl]] by (auto simp: Let_def split: if_splits)
  next
    case (Unacked t)
    then show ?thesis using 2(3) failed(2) booked_idle(1)[OF failed(2) 2(2)[OF refl Unacked refl]] by (auto simp: Let_def split: if_splits)
  next
    case (Hangs b)
    then show ?thesis using 2(3) wr booked_frame(1)[of s ns] by (auto simp: Let_def split: if_splits)
  qed
qed

lemma append_booked: "append_with_retry ev s = (r, s') \<Longrightarrow> booked 0 0 0 0 s s'"
  using append_retries_booked by (auto simp: append_with_retry_def split: if_splits)

lemma refresh_booked: "refresh_pending_count s = (r, s') \<Longrightarrow> r = Inr () \<and> booked 0 0 0 0 s s'"
  by (auto simp: refresh_pending_count_def booked_eval manager_record_failure_def pop_net_def split: if_splits)

lemma enqueue_booked:
  "enqueue_event ev s = (r, s') \<Longrightarrow> (r = Inr True \<and> booked 1 0 0 0 s s') \<or> (r = Inr False \<and> booked 0 0 0 1 s s')"
  by (auto simp: enqueue_event_def booked_eval drop_write_def split: if_splits)

lemma instrument_for_booked: "instrument_for provider symbol s = (r, s') \<Longrightarrow> (\<exists>i. r = Inr i) \<and> booked 0 0 0 0 s s'"
  by (auto simp: instrument_for_def booked_eval drop_write_def split: option.splits sum.splits)

lemma require_instrument_booked:
  assumes "require_instrument provider symbol s = (r, s')"
  shows "(r = Inr None \<and> booked 0 0 0 1 s s') \<or> (\<exists>i. r = Inr (Some i) \<and> booked 0 0 0 0 s s')"
proof -
  obtain i s1 where i: "instrument_for provider symbol s = (Inr i, s1)" "booked 0 0 0 0 s s1"
    using instrument_for_booked by (metis surj_pair)
  show ?thesis
  proof (cases i)
    case None
    then show ?thesis using assms i(1) booked_idle(1)[OF i(2) booked_frame(7)] by (simp add: require_instrument_def)
  next
    case (Some a)
    then show ?thesis using assms i by (auto simp: require_instrument_def)
  qed
qed

lemma utc_of_same [simp]: "snd (utc_of t s) = s"
  by (cases t) (simp_all add: utc_of_def)

text \<open>What an enqueueing operation books, by its result; an exception books nothing.\<close>

definition enqueued :: "store_error + bool \<Rightarrow> store \<Rightarrow> store \<Rightarrow> bool" where
  "enqueued r s s' \<longleftrightarrow> (r = Inr True \<and> booked 1 0 0 0 s s') \<or> (r = Inr False \<and> booked 0 0 0 1 s s') \<or> ((\<exists>e. r = Inl e) \<and> booked 0 0 0 0 s s')"

lemma utc_then_booked:
  assumes "booked 0 0 0 0 s s1" "eff_bind (utc_of t) (\<lambda>stamp. enqueue_event (ev stamp)) s1 = (r, s')"
  shows "enqueued r s s'"
proof (cases t)
  case (Aware us)
  then have "enqueue_event (ev us) s1 = (r, s')" using assms(2) by (simp add: utc_of_def)
  from enqueue_booked[OF this] show ?thesis using booked_idle(1)[OF assms(1)] by (auto simp: enqueued_def)
next
  case (Naive us)
  then show ?thesis using assms by (auto simp: utc_of_def enqueued_def)
qed

lemma require_then_booked:
  assumes "eff_bind (require_instrument provider symbol) (\<lambda>i. case i of None \<Rightarrow> eff_ret False
      | Some ins \<Rightarrow> eff_bind (utc_of t) (\<lambda>stamp. enqueue_event (ev i ins stamp))) s = (r, s')"
  shows "enqueued r s s'"
proof -
  obtain q s1 where q: "require_instrument provider symbol s = (q, s1)" by fastforce
  from require_instrument_booked[OF q] show ?thesis
  proof
    assume "q = Inr None \<and> booked 0 0 0 1 s s1"
    then show ?thesis using assms q by (simp add: enqueued_def)
  next
    assume "\<exists>i. q = Inr (Some i) \<and> booked 0 0 0 0 s s1"
    then obtain i where i: "q = Inr (Some i)" "booked 0 0 0 0 s s1" by blast
    then show ?thesis using assms q utc_then_booked[OF i(2), of t "ev (Some i) i" r s'] by simp
  qed
qed

lemma enqueue_order_alt:
  "enqueue_order digest provider od = eff_bind (require_instrument provider (eo_symbol od)) (\<lambda>i. case i of None \<Rightarrow> eff_ret False
     | Some ins \<Rightarrow> eff_bind (utc_of (eo_timestamp od)) (\<lambda>stamp. enqueue_event (build_event digest (OrderEntity od) ''ORDER''
           (eo_client_order_id od @ '':'' @ eo_status od @ '':'' @ isoformat_utc stamp) (eo_client_order_id od) stamp i)))"
  by (rule ext) (auto simp: enqueue_order_def order_event_def eff_bind_def split: prod.split sum.split option.split)

lemma enqueue_operations:
  "enqueue_order digest provider od s = (r, s') \<Longrightarrow> enqueued r s s'"
  "enqueue_fill digest provider f time s = (r, s') \<Longrightarrow> enqueued r s s'"
  "enqueue_risk_snapshot digest k s = (r, s') \<Longrightarrow> enqueued r s s'"
  "ep_quantity p \<noteq> 0 \<Longrightarrow> enqueue_position digest provider p time s = (r, s') \<Longrightarrow> enqueued r s s'"
  unfolding enqueue_order_alt enqueue_fill_def enqueue_risk_snapshot_def enqueue_position_def Let_def
  by (rule require_then_booked, assumption, rule require_then_booked, assumption, rule utc_then_booked[OF booked_refl], assumption,
      rule require_then_booked, simp)

lemma order_event_booked:
  assumes "order_event digest provider od s = (r, s')"
  shows "booked 0 0 0 (if r = Inr None then 1 else 0) s s'"
proof -
  obtain q s1 where q: "require_instrument provider (eo_symbol od) s = (q, s1)" by fastforce
  from require_instrument_booked[OF q] show ?thesis
    using assms q by (auto simp: order_event_def utc_of_def eff_bind_def split: datetime.splits)
qed

lemma booked_weaken: "booked a w l f s s' \<Longrightarrow> f' \<le> f \<Longrightarrow> booked a w l f' s s'"
  by (auto simp: booked_def Let_def)

lemma ensure_booked: "ensure_order_durable digest provider od s = (r, s') \<Longrightarrow> booked 0 0 0 0 s s'"
proof -
  assume run: "ensure_order_durable digest provider od s = (r, s')"
  let ?m = "st_manager s"
  show ?thesis
  proof (cases "pm_mode ?m = PM_DISABLED \<or> \<not> pm_accepting ?m \<or> \<not> pm_connected ?m \<or> \<not> pm_repository ?m")
    case True
    then show ?thesis using run by (auto simp: ensure_order_durable_def booked_eval split: if_splits)
  next
    case False
    obtain q s1 where q: "order_event digest provider od s = (q, s1)" by fastforce
    have b1: "booked 0 0 0 0 s s1" using order_event_booked[OF q] booked_weaken by (metis le0)
    show ?thesis
    proof (cases "\<exists>e. q = Inr (Some e)")
      case True
      then obtain e where e: "q = Inr (Some e)" by blast
      obtain a s2 where a: "append_with_retry e s1 = (a, s2)" by fastforce
      have b2: "booked 0 0 0 0 s s2" using booked_idle(1)[OF b1 append_booked[OF a]] .
      obtain c s3 where c: "refresh_pending_count s2 = (c, s3)" by fastforce
      have b3: "c = Inr ()" "booked 0 0 0 0 s s3" using refresh_booked[OF c] booked_idle(1)[OF b2] by blast+
      have d: "booked 0 0 0 0 s2 (manage (\<lambda>m. m\<lparr>pm_state := MS_DEGRADED\<rparr>) s2)" by (simp add: booked_eval)
      show ?thesis
        using run False q e a c b3 booked_idle(1)[OF b2 d] by (cases a) (auto simp: ensure_order_durable_def eff_catch_def eff_bind_def)
    next
      case False': False
      then show ?thesis using run False q b1 by (auto simp: ensure_order_durable_def eff_bind_def split: sum.splits option.splits)
    qed
  qed
qed

lemma writer_booked:
  assumes "outbox_writer s = (r, s')"
  shows "(r = Inr True \<and> booked 0 1 0 0 s s') \<or> (r = Inr False \<and> (pm_queue (st_manager s) = [] \<and> s' = s \<or> booked 0 0 1 0 s s'))"
proof (cases "pm_queue (st_manager s)")
  case Nil
  then show ?thesis using assms by (auto simp: outbox_writer_def)
next
  case (Cons ev rest)
  let ?s1 = "manage (\<lambda>m. m\<lparr>pm_queue := rest\<rparr>) s"
  obtain a s2 where a: "append_with_retry ev ?s1 = (a, s2)" by fastforce
  have b: "booked 0 0 0 0 ?s1 s2" using append_booked[OF a] .
  show ?thesis
  proof (cases a)
    case (Inl e)
    then have "r = Inr False" "s' = manage (\<lambda>m. m\<lparr>pm_unflushed := Suc (pm_unflushed m)\<rparr>) s2" using assms Cons a by (auto simp: outbox_writer_def)
    then show ?thesis using b Cons by (auto simp: booked_eval)
  next
    case (Inr u)
    then have "r = Inr True" "s' = s2" using assms Cons a by (auto simp: outbox_writer_def)
    then show ?thesis using b Cons by (auto simp: booked_eval)
  qed
qed

lemma dispatcher_booked: "outbox_dispatcher digest provider flt now first s = (r, s') \<Longrightarrow> booked 0 0 0 0 s s'"
  using booked_frame(6)[of s] booked_idle(1)[OF booked_frame(6)[of s] booked_frame(2)]
  by (auto simp: outbox_dispatcher_def eff_bind_def split: if_splits prod.splits sum.splits dest!: refresh_booked intro: booked_idle(1))

lemma position_booked: "enqueue_position digest provider p time s = (r, s') \<Longrightarrow> enqueued r s s' \<or> r = Inr False \<and> ep_quantity p = 0 \<and> booked 0 0 0 0 s s'"
proof (cases "ep_quantity p = 0")
  case True
  assume run: "enqueue_position digest provider p time s = (r, s')"
  obtain q s1 where q: "instrument_for provider (ep_symbol p) s = (Inr q, s1)" "booked 0 0 0 0 s s1"
    using instrument_for_booked by (metis surj_pair)
  show ?thesis
  proof (cases q)
    case None
    then show ?thesis using run q True by (simp add: enqueue_position_def)
  next
    case (Some i)
    then show ?thesis using run q True by (auto simp: enqueue_position_def Let_def dest!: utc_then_booked[OF q(2)])
  qed
qed (use enqueue_operations(4) in blast)

lemma start_stop_booked:
  "manager_start connects s = (r, s') \<Longrightarrow> booked 0 0 0 0 s s'"
  "manager_begin_stop deadline s = (r', s') \<Longrightarrow> booked 0 0 0 0 s s'"
  "manager_end_stop s = (r', s') \<Longrightarrow> booked 0 0 0 0 s s'"
  subgoal by (auto simp: manager_start_def eff_bind_def refresh_pending_count_def booked_eval manager_record_failure_def pop_net_def split: if_splits)
  subgoal by (auto simp: manager_begin_stop_def booked_eval)
  subgoal by (auto simp: manager_end_stop_def eff_bind_def refresh_pending_count_def booked_eval manager_record_failure_def pop_net_def split: if_splits)
  done

section \<open>Runs\<close>

datatype manager_op =
    MOrder ExecutionOrder | MFill ExchangeFill datetime | MPosition ExchangePosition datetime | MRisk risk_entity
  | MEnsure ExecutionOrder | MWrite | MDispatch fault int bool | MStart bool | MBeginStop int | MEndStop | MNet "net list"

text \<open>\<open>MNet\<close> is a change of the weather: what will happen to the next statements.\<close>

fun manager_step :: "(string \<Rightarrow> string) \<Rightarrow> rules_provider option \<Rightarrow> manager_op \<Rightarrow> bool store_eff" where
  "manager_step digest provider (MOrder od) = enqueue_order digest provider od"
| "manager_step digest provider (MFill f time) = enqueue_fill digest provider f time"
| "manager_step digest provider (MPosition p time) = enqueue_position digest provider p time"
| "manager_step digest provider (MRisk k) = enqueue_risk_snapshot digest k"
| "manager_step digest provider (MEnsure od) = ensure_order_durable digest provider od"
| "manager_step digest provider MWrite = outbox_writer"
| "manager_step digest provider (MDispatch flt now first) = outbox_dispatcher digest provider flt now first"
| "manager_step digest provider (MStart connects) = manager_start connects"
| "manager_step digest provider (MBeginStop deadline) = eff_bind (manager_begin_stop deadline) (\<lambda>_. eff_ret True)"
| "manager_step digest provider MEndStop = eff_bind manager_end_stop (\<lambda>_. eff_ret True)"
| "manager_step digest provider (MNet ns) = eff_bind (eff_modify (\<lambda>s. s\<lparr>st_net := ns\<rparr>)) (\<lambda>_. eff_ret True)"

fun manager_run :: "(string \<Rightarrow> string) \<Rightarrow> rules_provider option \<Rightarrow> manager_op list \<Rightarrow> store \<Rightarrow> (manager_op \<times> (store_error + bool)) list \<times> store" where
  "manager_run digest provider [] s = ([], s)"
| "manager_run digest provider (op # ops) s =
     (case manager_step digest provider op s of (r, s') \<Rightarrow>
      case manager_run digest provider ops s' of (rs, s'') \<Rightarrow> ((op, r) # rs, s''))"

definition is_enqueue :: "manager_op \<Rightarrow> bool" where
  "is_enqueue op = (case op of MOrder _ \<Rightarrow> True | MFill _ _ \<Rightarrow> True | MPosition _ _ \<Rightarrow> True | MRisk _ \<Rightarrow> True | _ \<Rightarrow> False)"

lemma is_enqueue_MWrite [simp]: "\<not> is_enqueue MWrite"
  by (simp add: is_enqueue_def)

abbreviation accepted :: "manager_op \<times> (store_error + bool) \<Rightarrow> bool" where
  "accepted x \<equiv> is_enqueue (fst x) \<and> snd x = Inr True"

abbreviation written :: "manager_op \<times> (store_error + bool) \<Rightarrow> bool" where
  "written x \<equiv> fst x = MWrite \<and> snd x = Inr True"

text \<open>Refusals that have to be counted: all but those of a closed position.\<close>

definition refused_write :: "manager_op \<times> (store_error + bool) \<Rightarrow> bool" where
  "refused_write x \<longleftrightarrow> is_enqueue (fst x) \<and> snd x = Inr False \<and> (case fst x of MPosition p _ \<Rightarrow> ep_quantity p \<noteq> 0 | _ \<Rightarrow> True)"

lemma manager_step_booked:
  assumes "manager_step digest provider op s = (r, s')"
  shows "\<exists>l. booked (of_bool (accepted (op, r))) (of_bool (written (op, r))) l (of_bool (refused_write (op, r))) s s'"
proof (cases op)
  case (MPosition p time)
  then show ?thesis using position_booked[of digest provider p time s r s'] assms
    by (auto simp: enqueued_def is_enqueue_def refused_write_def intro: booked_weaken)
next
  case MWrite
  then show ?thesis using writer_booked[of s r s'] assms by (auto simp: refused_write_def intro: exI[of _ 0])
next
  case (MEnsure od)
  then show ?thesis using assms ensure_booked[of digest provider od s r s'] by (auto simp: is_enqueue_def refused_write_def)
next
  case (MNet ns)
  then show ?thesis using assms booked_frame(1)[of s ns] by (auto simp: is_enqueue_def refused_write_def)
next
  case (MBeginStop t)
  then show ?thesis using assms start_stop_booked(2)[of t s] by (auto simp: is_enqueue_def refused_write_def eff_bind_def split: prod.splits sum.splits)
next
  case MEndStop
  then show ?thesis using assms start_stop_booked(3)[of s] by (auto simp: is_enqueue_def refused_write_def eff_bind_def split: prod.splits sum.splits)
qed (use assms enqueue_operations dispatcher_booked start_stop_booked(1) in \<open>fastforce simp: enqueued_def is_enqueue_def refused_write_def\<close>)+


section \<open>The barrier before an order\<close>

definition in_outbox :: "event \<Rightarrow> database \<Rightarrow> bool" where
  "in_outbox ev d \<longleftrightarrow> (\<exists>r \<in> set (db_outbox d). ob_id r = pv_event_id ev
     \<or> pv_event_type (ob_event r) = pv_event_type ev \<and> pv_idempotency_key (ob_event r) = pv_idempotency_key ev)"

lemma in_outbox_append: "in_outbox ev (append_outbox ev d)"
  by (auto simp: in_outbox_def append_outbox_def list_ex_iff)

lemma in_outbox_run:
  assumes "outbox_ok d" "outbox_run digest rules ops d = (evs, d')" "in_outbox ev d"
  shows "in_outbox ev d'"
proof -
  have "in_outbox ev d \<longleftrightarrow> (\<exists>e \<in> ob_event ` set (db_outbox d). pv_event_id e = pv_event_id ev
     \<or> pv_event_type e = pv_event_type ev \<and> pv_idempotency_key e = pv_idempotency_key ev)" for d by (auto simp: in_outbox_def)
  moreover have "ob_event ` set (db_outbox d) \<subseteq> ob_event ` set (db_outbox d')" using outbox_run_ok[OF assms(1,2)] by blast
  ultimately show ?thesis using assms(3) by blast
qed

lemma frame_db [simp]:
  "st_db (manage f s) = st_db s" "st_db (acknowledged s) = st_db s" "st_db (pop_net s) = st_db s"
  by (simp_all add: manage_def acknowledged_def pop_net_def)

lemma append_retries_writes:
  assumes "outbox_ok (st_db s)" "append_retries ev ns s = (r, s')"
  shows "outbox_ok (st_db s') \<and> (r = Inr () \<longrightarrow> in_outbox ev (st_db s'))"
  using assms
proof (induction ev ns s arbitrary: r s' rule: append_retries.induct)
  case (1 ev s)
  then show ?case by (auto simp: write_event_def append_ok in_outbox_append)
next
  case (2 ev n ns s)
  show ?case
  proof (cases n)
    case Delivered
    then show ?thesis using 2(3,4) by (auto simp: write_event_def append_ok in_outbox_append)
  next
    case (Lost t)
    then show ?thesis using 2(3,4) 2(1)[OF refl Lost refl] by (auto simp: Let_def split: if_splits)
  next
    case (Unacked t)
    have "outbox_ok (append_outbox ev (st_db s))" using append_ok(1)[OF 2(3)] .
    then show ?thesis using 2(4) 2(2)[OF refl Unacked refl] Unacked by (auto simp: Let_def write_event_def split: if_splits)
  next
    case (Hangs b)
    then show ?thesis using 2(3,4) by (auto simp: write_event_def append_ok Let_def split: if_splits)
  qed
qed

lemma refresh_db: "refresh_pending_count s = (r, s') \<Longrightarrow> st_db s' = st_db s"
  by (auto simp: refresh_pending_count_def split: if_splits)

lemma order_event_db:
  assumes "order_event digest provider od s = (r, s')"
  shows "st_db s' = st_db s" "r = Inr (Some e) \<Longrightarrow> \<exists>us i. eo_timestamp od = Aware us \<and> e = build_event digest (OrderEntity od) ''ORDER''
     (eo_client_order_id od @ '':'' @ eo_status od @ '':'' @ isoformat_utc us) (eo_client_order_id od) us (Some i)"
  using assms
  by (auto simp: order_event_def require_instrument_def instrument_for_def utc_of_def eff_bind_def
      split: option.splits sum.splits prod.splits datetime.splits if_splits)

lemma ensure_order_durable_True:
  assumes "ensure_order_durable digest provider od s = (Inr True, s')"
  obtains e s1 s2 where "order_event digest provider od s = (Inr (Some e), s1)" "append_retries e (st_net s1) s1 = (Inr (), s2)" "st_db s' = st_db s2"
proof -
  let ?m = "st_manager s"
  have m: "\<not> (pm_mode ?m = PM_DISABLED \<or> \<not> pm_accepting ?m \<or> \<not> pm_connected ?m \<or> \<not> pm_repository ?m)"
    using assms by (auto simp: ensure_order_durable_def split: if_splits)
  obtain q s1 where q: "order_event digest provider od s = (q, s1)" by fastforce
  with m assms obtain e where e: "q = Inr (Some e)"
    by (auto simp: ensure_order_durable_def eff_bind_def split: sum.splits option.splits)
  obtain a s2 where a: "append_with_retry e s1 = (a, s2)" by fastforce
  with m assms q e have "a = Inr ()" by (cases a) (auto simp: ensure_order_durable_def eff_catch_def eff_bind_def)
  moreover obtain c s3 where c: "refresh_pending_count s2 = (c, s3)" by fastforce
  ultimately have "s' = s3" "c = Inr ()" using m assms q e a refresh_booked[OF c] by (auto simp: ensure_order_durable_def eff_catch_def eff_bind_def)
  then show thesis using that[of e s1 s2] q e a \<open>a = Inr ()\<close> refresh_db[OF c] by (auto simp: append_with_retry_def split: if_splits)
qed

text \<open>
  C28: The barrier is durable. When the manager reports an order as durable, however often the statement was
  lost or executed without acknowledgement before, the outbox holds the event of exactly this
  observation of the order, and it stays there whatever is appended and dispatched later.
\<close>

theorem durable_order_survives:
  assumes "outbox_ok (st_db s)" "ensure_order_durable digest provider od s = (Inr True, s')" "outbox_run digest' rules ops (st_db s') = (evs, d)"
  shows "\<exists>us key. eo_timestamp od = Aware us \<and> key = eo_client_order_id od @ '':'' @ eo_status od @ '':'' @ isoformat_utc us
    \<and> (\<exists>r \<in> set (db_outbox d). ob_id r = event_id digest ''ORDER'' key
         \<or> pv_event_type (ob_event r) = ''ORDER'' \<and> pv_idempotency_key (ob_event r) = key)"
  using assms(2)
proof (cases rule: ensure_order_durable_True)
  case (1 e s1 s2)
  have db: "st_db s1 = st_db s" using order_event_db(1)[OF 1(1)] .
  obtain us i where e: "eo_timestamp od = Aware us" "e = build_event digest (OrderEntity od) ''ORDER''
     (eo_client_order_id od @ '':'' @ eo_status od @ '':'' @ isoformat_utc us) (eo_client_order_id od) us (Some i)"
    using order_event_db(2)[OF 1(1) refl] by blast
  have "outbox_ok (st_db s2) \<and> in_outbox e (st_db s2)" using append_retries_writes[of s1 e] 1(2) assms(1) db by simp
  then have "in_outbox e d" using in_outbox_run assms(3) 1(3) by metis
  then show ?thesis using e by (auto simp: in_outbox_def build_event_def)
qed

definition sample_store :: "net list \<Rightarrow> store" where
  "sample_store ns = \<lparr>st_manager = (manager_init PM_REQUIRED 2)\<lparr>pm_connected := True, pm_accepting := True, pm_repository := True, pm_state := MS_READY\<rparr>,
     st_db = database_init, st_launches = [], st_net = ns\<rparr>"

definition sample_provider :: "rules_provider option" where
  "sample_provider = Some (\<lambda>symbol. Inr (Some (sample_instrument symbol)))"

lemma sample_barrier:
  "\<exists>s'. ensure_order_durable id sample_provider (sample_observation ''PENDING'' 1) (sample_store [Lost 1, Unacked 2]) = (Inr True, s')"
  by (simp add: ensure_order_durable_def order_event_def require_instrument_def instrument_for_def sample_provider_def sample_store_def
      manager_init_def sample_observation_def utc_of_def append_with_retry_def deadline_passed_def manage_def manager_record_failure_def write_event_def
      acknowledged_def refresh_pending_count_def next_net_def eff_catch_def eff_bind_def Let_def)

theorem durable_order_survives_witness:
  "\<exists>s'. ensure_order_durable id sample_provider (sample_observation ''PENDING'' 1) (sample_store [Lost 1, Unacked 2]) = (Inr True, s')
    \<and> db_outbox (st_db s') \<noteq> []"
proof -
  obtain s' where s': "ensure_order_durable id sample_provider (sample_observation ''PENDING'' 1) (sample_store [Lost 1, Unacked 2]) = (Inr True, s')"
    using sample_barrier by blast
  have ok: "outbox_ok (st_db (sample_store [Lost 1, Unacked 2]))" by (simp add: sample_store_def)
  have "outbox_run id (\<lambda>_. None) [] (st_db s') = ([], st_db s')" by simp
  from durable_order_survives[OF ok s' this] s' show ?thesis by (metis empty_iff empty_set)
qed

definition sample_risk_entity :: risk_entity where
  "sample_risk_entity = \<lparr>rk_timestamp = Aware 1, rk_snapshot = \<lparr>portfolio_equity = Fin 1000, rs_unrealized_pnl = Fin 0, realized_pnl_24h = Fin 0,
     rs_margin_utilization_pct = Fin 10, rs_effective_leverage = Fin 1, current_drawdown_pct = Fin 0, liquidation_distance_pct = None,
     risk_state = None\<rparr>, rk_realized_known = False, rk_hard_violations = [], rk_soft_violations = []\<rparr>"


end
