(* ===== verification/Worker.thy ===== *)
theory Worker
  imports ExecutionSafety Persistence
begin

text \<open>
  The controls of the trading worker (\<open>TradingWorkerApp\<close> in \<open>main.py\<close>): the derived engine state, the pause,
  the kill switch, reconciliation, the callbacks that it installs in the execution adapter, and the
  execution of a decision. The worker's state is part of the world in which the adapter runs, next to
  the store of the persistence manager and the outside; the callbacks are computations over this world.
  Operations that use the adapter are computations over the adapter's state. What an operation awaits
  changes the outside only: no other coroutine runs in between.
\<close>

section \<open>State\<close>

text \<open>The worker's own view of the adapter, and the launch it acts for. \<open>wc_adapter\<close> says that an adapter is
  attached; the flags that the gates read are in \<open>TradingWorker\<close>.\<close>

record worker_control =
  wc_adapter :: bool
  wc_connection_state :: ConnectionState
  wc_authenticated :: bool
  wc_private_stream_healthy :: bool
  wc_reconciliation_status :: string
  wc_configured :: bool
  wc_launch_id :: "string option"
  wc_launch_session :: "launch_row option"

record 'o floor =
  fl_worker :: TradingWorker
  fl_control :: worker_control
  fl_store :: store
  fl_outside :: 'o

text \<open>What the worker does not own: the REST client, lease, clocks and digest of the adapter, the clock of
  the database, the exchange rules it gives to persistence, and whether the adapter is authorised to
  trade when a callback asks for it.\<close>

record 'o trading =
  tr_exec :: "'o Exec"
  tr_now :: "'o \<Rightarrow> int"
  tr_rules :: "rules_provider option"
  tr_authorized :: "'o \<Rightarrow> bool"

type_synonym ('o, 'a) ground = "('o floor, rec_error, 'a) eff"

definition on_outside :: "('o \<Rightarrow> 'r \<times> 'o) \<Rightarrow> 'o floor \<Rightarrow> 'r \<times> 'o floor" where
  "on_outside f w = (case f (fl_outside w) of (r, out) \<Rightarrow> (r, w\<lparr>fl_outside := out\<rparr>))"

text \<open>Exceptions of persistence are ordinary exceptions for their callers.\<close>

definition on_store :: "'a store_eff \<Rightarrow> ('o, 'a) ground" where
  "on_store m w = (case m (fl_store w) of (r, st) \<Rightarrow> (map_sum (\<lambda>_. Py (RuntimeError ''persistence'')) id r, w\<lparr>fl_store := st\<rparr>))"

definition change_worker :: "(TradingWorker \<Rightarrow> TradingWorker) \<Rightarrow> 'o floor \<Rightarrow> 'o floor" where
  "change_worker f w = w\<lparr>fl_worker := f (fl_worker w)\<rparr>"

definition change_control :: "(worker_control \<Rightarrow> worker_control) \<Rightarrow> 'o floor \<Rightarrow> 'o floor" where
  "change_control f w = w\<lparr>fl_control := f (fl_control w)\<rparr>"

section \<open>The engine state\<close>

definition derive_engine_state :: "TradingWorker \<Rightarrow> worker_control \<Rightarrow> bool \<Rightarrow> WorkerEngineState" where
  "derive_engine_state w c authorized =
     (if kill_switch_active w then ES_EMERGENCY
      else if \<not> wc_configured c then DISARMED
      else if execution_mode w \<in> {WM_TESTNET, WM_LIVE}
           \<and> (wc_connection_state c \<noteq> READY \<or> \<not> wc_authenticated c \<or> \<not> authorized \<or> \<not> wc_private_stream_healthy c
              \<or> wc_reconciliation_status c \<noteq> ''IN_SYNC'') then ES_DEGRADED
      else if recovery_only w then ES_RECOVERY_ONLY
      else if pause_new_risk w then PAUSED_NEW_RISK
      else ARMED)"

definition refresh_engine_state :: "bool \<Rightarrow> 'o floor \<Rightarrow> 'o floor" where
  "refresh_engine_state authorized w =
     change_worker (\<lambda>k. k\<lparr>engine_state := derive_engine_state k (fl_control w) (wc_adapter (fl_control w) \<and> authorized)\<rparr>) w"

definition set_pause :: "bool \<Rightarrow> 'o floor \<Rightarrow> 'o floor" where
  "set_pause b = change_worker (\<lambda>k. k\<lparr>pause_new_risk := b\<rparr>)"

definition set_killed :: "bool \<Rightarrow> 'o floor \<Rightarrow> 'o floor" where
  "set_killed b = change_worker (\<lambda>k. k\<lparr>kill_switch_active := b\<rparr>)"

section \<open>The launch session\<close>

definition set_mainnet_launch_session :: "launch_row option \<Rightarrow> 'o floor \<Rightarrow> 'o floor" where
  "set_mainnet_launch_session session =
     change_control (\<lambda>c. c\<lparr>wc_launch_session := session,
       wc_launch_id := (case session of None \<Rightarrow> None | Some r \<Rightarrow> if lr_launch_id r = [] then None else Some (lr_launch_id r))\<rparr>)"

definition launch_policy_is :: "launch_policy \<Rightarrow> worker_control \<Rightarrow> bool" where
  "launch_policy_is p c = (case wc_launch_session c of None \<Rightarrow> False | Some r \<Rightarrow> lr_policy r = p)"

definition launch_state_is :: "launch_state \<Rightarrow> worker_control \<Rightarrow> bool" where
  "launch_state_is st c = (case wc_launch_session c of None \<Rightarrow> False | Some r \<Rightarrow> lr_state r = st)"

definition fence_autonomous_launch :: "'o trading \<Rightarrow> ('o, bool) ground" where
  "fence_autonomous_launch tr =
     eff_bind (eff_gets id) (\<lambda>w.
     let c = fl_control w in
     if \<not> (execution_mode (fl_worker w) = WM_LIVE \<and> launch_policy_is AUTONOMOUS_AFTER_REVIEW c \<and> launch_state_is LS_AUTONOMOUS_ACTIVE c)
     then eff_ret True
     else
       eff_catch
         (eff_bind (on_store (manager_reauth_required (tr_now tr (fl_outside w)))) (\<lambda>_.
          eff_bind (on_store (manager_get_session (wc_launch_id c))) (\<lambda>session.
          eff_bind (eff_check (case session of None \<Rightarrow> False | Some r \<Rightarrow> lr_state r = LS_REAUTH_REQUIRED)
            (Py (RuntimeError ''durable launch fence was not read back''))) (\<lambda>_.
          eff_bind (eff_modify (set_mainnet_launch_session session)) (\<lambda>_. eff_ret True)))))
         (\<lambda>_. eff_bind (eff_modify (set_mainnet_launch_session None)) (\<lambda>_. eff_ret False)))"

section \<open>Callbacks of the adapter\<close>

definition pause_and_refuse :: "'o trading \<Rightarrow> ('o, bool) ground" where
  "pause_and_refuse tr =
     eff_bind (eff_modify (\<lambda>w. refresh_engine_state (tr_authorized tr (fl_outside w)) (set_pause True w))) (\<lambda>_. eff_ret False)"

definition before_order_submission :: "'o trading \<Rightarrow> ExecutionOrder \<Rightarrow> ('o, bool) ground" where
  "before_order_submission tr od =
     eff_bind (on_store (ensure_order_durable (xv_digest (tr_exec tr)) (tr_rules tr) od)) (\<lambda>durable.
     eff_bind (eff_gets id) (\<lambda>w.
     let c = fl_control w in
     if \<not> is_risk_increasing (eo_risk_class od) \<or> execution_mode (fl_worker w) \<noteq> WM_LIVE
     then eff_ret (durable \<or> \<not> is_risk_increasing (eo_risk_class od))
     else if \<not> durable then pause_and_refuse tr
     else (case wc_launch_id c of
         None \<Rightarrow> pause_and_refuse tr
       | Some launch_id \<Rightarrow>
           if launch_policy_is AUTONOMOUS_AFTER_REVIEW c \<and> \<not> launch_state_is LS_AUTONOMOUS_ACTIVE c then pause_and_refuse tr
           else
             eff_bind (eff_catch (on_store (manager_reserve launch_id (tr_now tr (fl_outside w)))) (\<lambda>_. eff_ret False)) (\<lambda>reserved.
             if reserved then eff_ret True else pause_and_refuse tr))))"

text \<open>The order could not be marked: the local kill switch, without a change of the engine state.\<close>

definition submission_mark_failed :: "'o floor \<Rightarrow> 'o floor" where
  "submission_mark_failed w =
     change_control (\<lambda>c. c\<lparr>wc_connection_state := DEGRADED, wc_reconciliation_status := ''UNKNOWN''\<rparr>) (set_killed True w)"

definition order_confirmed :: "'o trading \<Rightarrow> string \<Rightarrow> ('o, unit) ground" where
  "order_confirmed tr launch_id =
     eff_bind (eff_gets (\<lambda>w. tr_now tr (fl_outside w))) (\<lambda>now.
     eff_bind (on_store (manager_mark_submitted launch_id now)) (\<lambda>marked.
     if \<not> marked then eff_modify submission_mark_failed
     else
       eff_bind (eff_gets (\<lambda>w. \<not> launch_policy_is AUTONOMOUS_AFTER_REVIEW (fl_control w))) (\<lambda>is_staged.
       if is_staged then
         eff_bind (eff_modify (set_pause True)) (\<lambda>_.
         eff_bind (eff_catch
           (eff_bind (on_store (manager_get_session (Some launch_id))) (\<lambda>session.
            if session = None then eff_ret () else eff_modify (set_mainnet_launch_session session)))
           (\<lambda>_. eff_ret ())) (\<lambda>_.
         eff_modify (\<lambda>w. refresh_engine_state (tr_authorized tr (fl_outside w)) w)))
       else eff_modify (\<lambda>w. refresh_engine_state (tr_authorized tr (fl_outside w)) (set_pause False w)))))"

definition on_order_submission_result :: "'o trading \<Rightarrow> ExecutionOrder \<Rightarrow> string \<Rightarrow> ('o, unit) ground" where
  "on_order_submission_result tr od outcome =
     eff_bind (eff_gets id) (\<lambda>w.
     case wc_launch_id (fl_control w) of
       None \<Rightarrow> eff_ret ()
     | Some launch_id \<Rightarrow>
         if execution_mode (fl_worker w) \<noteq> WM_LIVE \<or> \<not> is_risk_increasing (eo_risk_class od) then eff_ret ()
         else if upper outcome = ''REJECTED'' then
           eff_bind (on_store (manager_release launch_id (tr_now tr (fl_outside w)))) (\<lambda>_. eff_ret ())
         else if upper outcome = ''CONFIRMED'' then order_confirmed tr launch_id
         else
           eff_bind (on_store (manager_reconciliation_required launch_id (tr_now tr (fl_outside w)))) (\<lambda>_.
           eff_modify (\<lambda>w. change_control (\<lambda>c. c\<lparr>wc_connection_state := DEGRADED, wc_reconciliation_status := ''UNKNOWN''\<rparr>) (set_pause True w))))"

text \<open>The adapter as the worker builds it. The notifications of the ledger, which queue events for the outbox,
  are left out.\<close>

definition trading_exec :: "'o trading \<Rightarrow> 'o floor Exec" where
  "trading_exec tr =
     (let x = tr_exec tr in
      \<lparr>xv_venue = \<lparr>vn_env = vn_env (xv_venue x), vn_portfolio_margin = vn_portfolio_margin (xv_venue x),
         vn_request = (\<lambda>c. on_outside (vn_request (xv_venue x) c)), vn_clock = vn_clock (xv_venue x)\<rparr>,
       xv_environ = xv_environ x, xv_clock = xv_clock x, xv_digest = xv_digest x, xv_worker = fl_worker,
       xv_preflight_only = xv_preflight_only x, xv_lease_required = xv_lease_required x,
       xv_lease = map_option on_outside (xv_lease x),
       xv_barrier = Some (before_order_submission tr), xv_notify = Some (on_order_submission_result tr)\<rparr>)"

section \<open>Operations of the worker\<close>

abbreviation floor_of :: "'o floor ExecState \<Rightarrow> 'o floor" where
  "floor_of s \<equiv> rc_world (xs_recon s)"

text \<open>A change of the worker that refreshes the engine state with the adapter's authorisation.\<close>

definition then_refresh :: "('o floor \<Rightarrow> 'o floor) \<Rightarrow> ('o floor, unit) exec" where
  "then_refresh f =
     eff_bind (eff_gets (\<lambda>s. trade_authorized (xs_adapter s))) (\<lambda>a.
     on_world (\<lambda>w. (Inr (), refresh_engine_state a (f w))))"

definition sync_adapter_state :: "('o floor, unit) exec" where
  "sync_adapter_state =
     eff_bind (eff_gets (\<lambda>s. wc_adapter (fl_control (floor_of s)))) (\<lambda>attached.
     if \<not> attached then eff_ret ()
     else
       eff_bind (eff_modify (\<lambda>s. if rc_authentication_failed (xs_recon s) then invalidate_authentication s else s)) (\<lambda>_.
       eff_bind (eff_gets adapter_view) (\<lambda>a.
       then_refresh (change_control (\<lambda>c. c\<lparr>wc_connection_state := connection_state a, wc_authenticated := authenticated a,
         wc_private_stream_healthy := private_stream_healthy a, wc_reconciliation_status := reconciliation_status a\<rparr>)))))"

text \<open>The state of the launch after a reconciliation; a failure leaves the fence in place.\<close>

definition clear_ambiguity_fence :: "'o trading \<Rightarrow> ('o, unit) ground" where
  "clear_ambiguity_fence tr =
     eff_bind (eff_gets id) (\<lambda>w.
     case wc_launch_id (fl_control w) of
       None \<Rightarrow> eff_ret ()
     | Some launch_id \<Rightarrow>
         eff_catch
           (eff_bind (on_store (manager_reconciled launch_id (tr_now tr (fl_outside w)))) (\<lambda>_.
            eff_bind (on_store (manager_get_session (Some launch_id))) (\<lambda>session.
            eff_modify (set_mainnet_launch_session session))))
           (\<lambda>_. eff_ret ()))"

definition trigger_reconciliation :: "'o trading \<Rightarrow> ('o floor, string) exec" where
  "trigger_reconciliation tr =
     eff_bind (eff_gets floor_of) (\<lambda>w.
     if wc_adapter (fl_control w) then
       eff_bind (reconciled (trading_exec tr)) (\<lambda>res.
       eff_bind (on_world (\<lambda>w. (Inr (), change_control (\<lambda>c. c\<lparr>wc_reconciliation_status := res\<rparr>) w))) (\<lambda>_.
       eff_bind sync_adapter_state (\<lambda>_.
       eff_bind (if res = ''IN_SYNC'' then on_world (clear_ambiguity_fence tr) else eff_ret ()) (\<lambda>_. eff_ret res))))
     else if execution_mode (fl_worker w) \<in> {WM_TESTNET, WM_LIVE} then
       eff_bind (on_world (\<lambda>w. (Inr (), change_control (\<lambda>c. c\<lparr>wc_authenticated := False, wc_private_stream_healthy := False,
         wc_reconciliation_status := ''UNKNOWN'', wc_connection_state := DISCONNECTED\<rparr>) w))) (\<lambda>_. eff_ret ''UNKNOWN'')
     else
       eff_bind (on_world (\<lambda>w. (Inr (), change_control (\<lambda>c. c\<lparr>wc_reconciliation_status := ''SIMULATED_SYNC'', wc_connection_state := READY,
         wc_private_stream_healthy := False, wc_authenticated := False\<rparr>) w))) (\<lambda>_. eff_ret ''SIMULATED_SYNC''))"

definition resume_allowed :: "worker_control \<Rightarrow> bool" where
  "resume_allowed c =
     (launch_policy_is AUTONOMOUS_AFTER_REVIEW c \<and> launch_state_is LS_AUTONOMOUS_ACTIVE c
      \<or> launch_policy_is STAGED_FIRST_ORDER c \<and> launch_state_is LS_ACTIVE c
        \<and> (case wc_launch_session c of None \<Rightarrow> True | Some r \<Rightarrow> lr_submitted r = 0))"

definition set_pause_new_risk :: "bool \<Rightarrow> ('o floor, bool) exec" where
  "set_pause_new_risk active =
     eff_bind (eff_gets floor_of) (\<lambda>w.
     if \<not> active \<and> execution_mode (fl_worker w) = WM_LIVE \<and> \<not> resume_allowed (fl_control w)
     then eff_bind (then_refresh (set_pause True)) (\<lambda>_. eff_ret False)
     else eff_bind (then_refresh (set_pause active)) (\<lambda>_. eff_ret True))"

definition set_recovery_only :: "bool \<Rightarrow> ('o floor, unit) exec" where
  "set_recovery_only active = then_refresh (change_worker (\<lambda>k. k\<lparr>recovery_only := active\<rparr>))"

datatype switch_result = SwitchConfirmed | SwitchPartial | SwitchUnknown | SwitchCancellation cancel_result

definition verified_adapter :: "'o floor ExecState \<Rightarrow> bool" where
  "verified_adapter s \<longleftrightarrow> private_stream_healthy (adapter_view s) \<and> authenticated (adapter_view s)"

definition release_kill_switch :: "'o trading \<Rightarrow> ('o floor, switch_result) exec" where
  "release_kill_switch tr =
     eff_catch
       (eff_bind (rest (trading_exec tr) GetOpenOrders) (\<lambda>open_orders.
        case open_orders of
          JList [] \<Rightarrow>
            eff_bind (trigger_reconciliation tr) (\<lambda>res.
            eff_bind (eff_gets verified_adapter) (\<lambda>verified.
            if res \<noteq> ''IN_SYNC'' \<or> \<not> verified then eff_ret SwitchPartial
            else eff_bind (then_refresh (set_killed False)) (\<lambda>_. eff_ret SwitchConfirmed)))
        | JList (_ # _) \<Rightarrow> eff_ret SwitchPartial
        | _ \<Rightarrow> eff_ret SwitchUnknown))
       (\<lambda>e. if e = BinanceAuthenticationError then eff_bind (eff_modify invalidate_authentication) (\<lambda>_. eff_ret SwitchUnknown)
            else eff_ret SwitchUnknown)"

text \<open>The local block comes first; then the launch is fenced and the open orders are cancelled.\<close>

definition activate_kill_switch :: "'o trading \<Rightarrow> ('o floor, switch_result) exec" where
  "activate_kill_switch tr =
     eff_bind (on_world (\<lambda>w. (Inr (), change_worker (\<lambda>k. k\<lparr>kill_switch_active := True, pause_new_risk := True, engine_state := ES_EMERGENCY\<rparr>) w))) (\<lambda>_.
     eff_bind (on_world (fence_autonomous_launch tr)) (\<lambda>_.
     eff_bind (eff_gets floor_of) (\<lambda>w.
     let mode = execution_mode (fl_worker w); attached = wc_adapter (fl_control w) in
     if mode = WM_PAPER \<and> \<not> attached then eff_ret SwitchConfirmed
     else if mode \<notin> {WM_TESTNET, WM_LIVE} \<or> \<not> attached then eff_ret SwitchUnknown
     else
       eff_bind (eff_modify (set_last_status ''UNKNOWN'')) (\<lambda>_.
       eff_bind (with_ledger (set_account_snapshot None)) (\<lambda>_.
       eff_bind (cancel_all_open_orders (trading_exec tr) True) (\<lambda>cancellation.
       eff_bind (eff_catch (trigger_reconciliation tr)
         (\<lambda>e. if e = BinanceAuthenticationError then eff_bind (eff_modify invalidate_authentication) (\<lambda>_. eff_ret ''UNKNOWN'')
              else eff_ret ''UNKNOWN'')) (\<lambda>res.
       eff_bind (eff_gets verified_adapter) (\<lambda>verified.
       eff_ret (if cancellation \<noteq> CancelConfirmed then SwitchCancellation cancellation
                else if res \<noteq> ''IN_SYNC'' \<or> \<not> verified then SwitchPartial else SwitchConfirmed)))))))))"

definition set_kill_switch :: "'o trading \<Rightarrow> bool \<Rightarrow> ('o floor, switch_result) exec" where
  "set_kill_switch tr active =
     (if active then activate_kill_switch tr
      else
        eff_bind (eff_gets floor_of) (\<lambda>w.
        let mode = execution_mode (fl_worker w); attached = wc_adapter (fl_control w) in
        if \<not> kill_switch_active (fl_worker w) then eff_bind (then_refresh id) (\<lambda>_. eff_ret SwitchConfirmed)
        else if mode = WM_PAPER \<and> \<not> attached then eff_bind (then_refresh (set_killed False)) (\<lambda>_. eff_ret SwitchConfirmed)
        else if mode \<notin> {WM_TESTNET, WM_LIVE} \<or> \<not> attached then eff_ret SwitchUnknown
        else release_kill_switch tr))"

definition fail_closed_after_execution_error :: "'o trading \<Rightarrow> ('o floor, switch_result) exec" where
  "fail_closed_after_execution_error tr =
     eff_bind (on_world (\<lambda>w. (Inr (), change_control (\<lambda>c. c\<lparr>wc_connection_state := DEGRADED, wc_reconciliation_status := ''UNKNOWN''\<rparr>)
       (set_pause True w)))) (\<lambda>_.
     eff_bind (eff_gets (\<lambda>s. wc_adapter (fl_control (floor_of s)))) (\<lambda>attached.
     eff_bind (if attached then eff_bind (eff_modify (\<lambda>s. set_last_status ''UNKNOWN'' (set_state DEGRADED s))) (\<lambda>_.
         with_ledger (set_account_snapshot None)) else eff_ret ()) (\<lambda>_.
     eff_bind (eff_catch (set_kill_switch tr True)
       (\<lambda>_. eff_bind (on_world (\<lambda>w. (Inr (), set_killed True w))) (\<lambda>_. eff_ret SwitchUnknown))) (\<lambda>result.
     eff_bind (then_refresh (set_killed True)) (\<lambda>_. eff_ret result)))))"

definition worker_view :: "'o trading \<Rightarrow> 'o floor ExecState \<Rightarrow> TradingWorker" where
  "worker_view tr s =
     (if wc_adapter (fl_control (floor_of s)) then worker_of (trading_exec tr) s
      else (fl_worker (floor_of s))\<lparr>execution_adapter := None\<rparr>)"

definition execute_manual_decision :: "'o trading \<Rightarrow> 'r ExecutionDecision \<Rightarrow> ('o floor, ExecutionOrder list) exec" where
  "execute_manual_decision tr d =
     eff_bind (now_of (trading_exec tr)) (\<lambda>clock.
     eff_bind (eff_gets (worker_view tr)) (\<lambda>k.
     eff_bind (gate_passed (decision_gate_check (xv_environ (tr_exec tr)) clock k d)) (\<lambda>allowed.
     eff_bind (eff_gets (\<lambda>s. wc_adapter (fl_control (floor_of s)))) (\<lambda>attached.
     if allowed = None \<or> \<not> attached then eff_raise (Py (RuntimeError ''Decision execution gate blocked manual order''))
     else
       eff_bind (execute_decision (trading_exec tr) True d) (\<lambda>executed.
       eff_bind (eff_gets (\<lambda>s. connection_state (xs_adapter s) = READY \<and> rc_status (xs_recon s) = ''IN_SYNC'')) (\<lambda>settled.
       if settled then eff_ret executed
       else eff_bind (fail_closed_after_execution_error tr) (\<lambda>_. eff_ret executed)))))))"

text \<open>The part of \<open>handle_market_event\<close> that acts on a decision, once autonomous execution is enabled and the
  orders have been clamped: an exception fails closed.\<close>

definition execute_autonomously :: "'o trading \<Rightarrow> 'r ExecutionDecision \<Rightarrow> ('o floor, unit) exec" where
  "execute_autonomously tr d =
     eff_bind (now_of (trading_exec tr)) (\<lambda>clock.
     eff_bind (eff_gets (worker_view tr)) (\<lambda>k.
     eff_bind (gate_passed (decision_gate_check (xv_environ (tr_exec tr)) clock k d)) (\<lambda>allowed.
     if allowed = None then eff_ret ()
     else
       eff_catch (eff_bind (execute_manual_decision tr d) (\<lambda>_. eff_ret ()))
         (\<lambda>_. eff_bind (fail_closed_after_execution_error tr) (\<lambda>_. eff_ret ())))))"

definition cancel_worker_order :: "'o trading \<Rightarrow> string \<Rightarrow> string \<Rightarrow> ('o floor, bool) exec" where
  "cancel_worker_order tr symbol client_order_id =
     eff_bind (eff_gets floor_of) (\<lambda>w.
     if execution_mode (fl_worker w) \<notin> {WM_TESTNET, WM_LIVE} \<or> \<not> wc_adapter (fl_control w) then eff_ret False
     else cancel_order (trading_exec tr) True symbol client_order_id)"

definition amend_worker_order ::
  "'o trading \<Rightarrow> string \<Rightarrow> string \<Rightarrow> decimal \<Rightarrow> decimal \<Rightarrow> string \<Rightarrow> ('o floor, ExecutionOrder option) exec" where
  "amend_worker_order tr symbol client_order_id new_price new_qty side =
     eff_bind (eff_gets floor_of) (\<lambda>w.
     if execution_mode (fl_worker w) \<notin> {WM_TESTNET, WM_LIVE} \<or> \<not> wc_adapter (fl_control w) then eff_ret None
     else modify_order (trading_exec tr) True symbol client_order_id new_price new_qty side)"

definition worker_emergency_flatten :: "'o trading \<Rightarrow> string option \<Rightarrow> ('o floor, ExecutionOrder list) exec" where
  "worker_emergency_flatten tr symbol =
     eff_bind (eff_gets floor_of) (\<lambda>w.
     if execution_mode (fl_worker w) \<notin> {WM_TESTNET, WM_LIVE} \<or> \<not> wc_adapter (fl_control w)
     then eff_raise (Py (RuntimeError ''Emergency flatten is available only for an active adapter''))
     else eff_bind (then_refresh (set_pause True)) (\<lambda>_. emergency_flatten (trading_exec tr) True symbol))"

text \<open>The adapter is closed and detached; the session keeps its last value. The hedge mode of the governor
  is not part of the floor.\<close>

definition disarm :: "'o trading \<Rightarrow> ('o floor, unit) exec" where
  "disarm tr =
     eff_bind (on_world (fence_autonomous_launch tr)) (\<lambda>_.
     on_world (\<lambda>w. (Inr (), change_worker (\<lambda>k. k\<lparr>market_data_healthy := False, pause_new_risk := False, recovery_only := False,
         engine_state := (if kill_switch_active k then ES_EMERGENCY else DISARMED)\<rparr>)
       (change_control (\<lambda>c. c\<lparr>wc_adapter := False, wc_connection_state := DISCONNECTED, wc_private_stream_healthy := False,
         wc_authenticated := False, wc_reconciliation_status := ''DISCONNECTED'', wc_configured := False, wc_launch_id := None\<rparr>) w))))"

end
