(* ===== verification/WorkerSafety.thy ===== *)
theory WorkerSafety
  imports Worker
begin

text \<open>
  What the worker's controls guarantee together with the adapter and the store: the kill switch holds
  whatever the exchange answers and is released only on evidence, a killed worker sends no order, and a
  staged Mainnet launch sends one order from end to end, whatever fails in between. Predicates on the
  floor are carried through the adapter by the rules of \<open>ExecutionLog\<close>.
\<close>

section \<open>Predicates on the floor\<close>

text \<open>The adapter without its callbacks: everything but a submission behaves the same.\<close>

definition silent :: "'w Exec \<Rightarrow> 'w Exec" where
  "silent x = x\<lparr>xv_lease := None, xv_barrier := None, xv_notify := None\<rparr>"

definition reads :: "'w Exec \<Rightarrow> ('w \<Rightarrow> bool) \<Rightarrow> bool" where
  "reads x W = reads_keep (xv_venue x) W"

lemma quiet_silent: "reads x W \<Longrightarrow> quiet (silent x) W"
  by (simp add: reads_def quiet_def silent_def)

lemma silent_basic [simp]:
  "recon (silent x) f = recon x f" "now_of (silent x) = now_of x" "xv_environ (silent x) = xv_environ x"
  by (simp_all add: recon_def now_of_def silent_def fun_eq_iff)

lemma silent_reads [simp]: "reconciled (silent x) = reconciled x" "rest (silent x) c = rest x c"
  by (simp_all add: reconciled_def rest_def)

lemmas silent_steps = silent_basic silent_reads

lemma silent_cached_price [simp]: "cached_price (silent x) now symbol side = cached_price x now symbol side"
  by (rule ext, unfold cached_price_def silent_basic, rule refl)

lemma silent_prices [simp]:
  "get_best_bid_ask (silent x) symbol = get_best_bid_ask x symbol" "get_fresh_market_price (silent x) symbol side = get_fresh_market_price x symbol side"
  unfolding get_fresh_market_price_def get_best_bid_ask_def silent_steps silent_cached_price by (rule refl)+

lemma silent_gate [simp]: "run_order_gate (silent x) intent risk ro rn exc rr em = run_order_gate x intent risk ro rn exc rr em"
  unfolding run_order_gate_def silent_steps silent_prices by (rule refl)

lemma silent_ambiguous [simp]: "query_ambiguous (silent x) intent prepared cid ctx final = query_ambiguous x intent prepared cid ctx final"
  unfolding query_ambiguous_def recover_ambiguous_def silent_steps by (rule refl)

lemma silent_poll [simp]: "poll_ambiguous (silent x) intent prepared cid ctx n = poll_ambiguous x intent prepared cid ctx n"
  by (induction n) simp_all

lemma silent_resolve [simp]:
  "resolve_ambiguous_order (silent x) intent prepared cid ctx = resolve_ambiguous_order x intent prepared cid ctx"
  "post_mutation_reconcile (silent x) od response = post_mutation_reconcile x od response"
  unfolding resolve_ambiguous_order_def post_mutation_reconcile_def silent_steps silent_poll by (rule refl)+

lemmas r_rest = x_rest[OF quiet_silent, simplified]
lemmas r_reconciled = x_reconciled[OF quiet_silent, simplified]
lemmas r_run_order_gate = x_run_order_gate[OF quiet_silent, simplified]
lemmas r_resolve_ambiguous = x_resolve_ambiguous[OF quiet_silent, simplified]
lemmas r_post_mutation = x_post_mutation[OF quiet_silent, simplified]

named_theorems floor_rules

declare r_rest [floor_rules] r_reconciled [floor_rules] r_run_order_gate [floor_rules] r_resolve_ambiguous [floor_rules]
  r_post_mutation [floor_rules] x_simple [floor_rules] x_worker_gate [floor_rules]

text \<open>A predicate that no request breaks, but for those that submit or amend an order.\<close>

definition is_order :: "rest_call \<Rightarrow> bool" where
  "is_order c = (case c of PostOrder _ \<Rightarrow> True | PutOrder _ \<Rightarrow> True | _ \<Rightarrow> False)"

lemma is_order_mutation: "\<not> is_mutation c \<Longrightarrow> \<not> is_order c"
  by (cases c) (simp_all add: is_order_def is_mutation_def)

lemma is_order_delete [simp]: "\<not> is_order (DeleteOrderById sy j)" "\<not> is_order (DeleteOrderByClient sy cid)" "\<not> is_order GetOpenOrders"
  by (simp_all add: is_order_def)

definition requests_keep :: "'w Exec \<Rightarrow> ('w \<Rightarrow> bool) \<Rightarrow> bool" where
  "requests_keep x W = (\<forall>c w. \<not> is_order c \<longrightarrow> W w \<longrightarrow> W (snd (vn_request (xv_venue x) c w)))"

lemma requests_reads: "requests_keep x W \<Longrightarrow> reads x W"
  by (simp add: requests_keep_def reads_def reads_keep_def is_order_mutation)

lemma r_request [floor_rules]: "requests_keep x W \<Longrightarrow> \<not> is_order c \<Longrightarrow> eff_keeps (xinv W k) (rest x c)"
  unfolding rest_def
  by (rule x_recon, rule eff_validI) (auto simp: request_def requests_keep_def split_beta split: sum.split)

lemma r_on_world: "eff_keeps W f \<Longrightarrow> eff_keeps (xinv W k) (on_world f)"
  by (rule eff_validI) (auto simp: eff_valid_def on_world_def xinv_def settings_def split_beta split: sum.splits prod.splits)

lemma r_cancel_all [floor_rules]:
  assumes "requests_keep x W"
  shows "eff_keeps (xinv W k) (cancel_all_open_orders x a)"
proof -
  have one: "eff_keeps (xinv W k) (cancel_open_order x j)" for j
    using assms unfolding cancel_open_order_def by (auto intro!: eff_rules floor_rules x_modify split: json.split)
  have "eff_keeps (xinv W k) (cancel_open_orders x js)" for js
    by (induction js) (simp_all only: cancel_open_orders.simps, (intro eff_rules one | assumption)+)
  then show ?thesis using assms unfolding cancel_all_open_orders_def
    by (auto intro!: eff_rules floor_rules x_modify split: json.split)
qed

lemma r_then_refresh: "(\<And>a w. W w \<Longrightarrow> W (refresh_engine_state a (f w))) \<Longrightarrow> eff_keeps (xinv W k) (then_refresh f)"
  unfolding then_refresh_def by (intro eff_rules r_on_world) (simp add: eff_valid_def)

section \<open>Invariants of the floor\<close>

text \<open>What a predicate on the floor has to survive for the worker's operations to keep it.\<close>

definition launch_kept :: "(worker_control \<Rightarrow> worker_control) \<Rightarrow> bool" where
  "launch_kept f = (\<forall>c. wc_launch_id (f c) = wc_launch_id c \<and> wc_launch_session (f c) = wc_launch_session c)"

locale floor_invariant =
  fixes tr :: "'o trading" and W :: "'o floor \<Rightarrow> bool"
  assumes requests: "requests_keep (trading_exec tr) W"
    and view: "W w \<Longrightarrow> launch_kept f \<Longrightarrow> W (change_control f w)"
    and refresh: "W w \<Longrightarrow> W (refresh_engine_state a w)"
    and clear: "eff_keeps W (clear_ambiguity_fence tr)"
    and fence: "eff_keeps W (fence_autonomous_launch tr)"
    and pausing: "W w \<Longrightarrow> W (set_pause True w)"
    and killing: "W w \<Longrightarrow> W (change_worker (\<lambda>k. k\<lparr>kill_switch_active := True, pause_new_risk := True, engine_state := ES_EMERGENCY\<rparr>) w)"
    and killed_again: "W w \<Longrightarrow> W (set_killed True w)"
begin

lemmas reading = requests_reads[OF requests]

lemma view_world: "launch_kept f \<Longrightarrow> eff_keeps W (\<lambda>w. (Inr (), change_control f w))"
  using view by (simp add: eff_valid_def)

lemma sync_keeps: "eff_keeps (xinv W k) sync_adapter_state"
  unfolding sync_adapter_state_def
  by (auto intro!: eff_rules x_modify r_then_refresh refresh view simp: launch_kept_def)

lemma trigger_keeps: "eff_keeps (xinv W k) (trigger_reconciliation tr)"
  unfolding trigger_reconciliation_def
  by (auto intro!: eff_rules r_reconciled reading view_world sync_keeps r_on_world clear simp: launch_kept_def)

lemma activate_keeps: "eff_keeps (xinv W k) (activate_kill_switch tr)"
proof -
  have kill: "eff_keeps (xinv W k) (on_world (\<lambda>w. (Inr (), change_worker (\<lambda>k. k\<lparr>kill_switch_active := True, pause_new_risk := True, engine_state := ES_EMERGENCY\<rparr>) w)))"
    using killing by (intro r_on_world) (simp add: eff_valid_def)
  show ?thesis unfolding activate_kill_switch_def Let_def
    by (auto intro!: eff_rules kill r_on_world[OF fence] x_simple x_modify r_cancel_all requests trigger_keeps)
qed

lemma fail_closed_keeps: "eff_keeps (xinv W k) (fail_closed_after_execution_error tr)"
proof -
  have "eff_keeps (xinv W k) (on_world (\<lambda>w. (Inr (), change_control (\<lambda>c. c\<lparr>wc_connection_state := DEGRADED, wc_reconciliation_status := ''UNKNOWN''\<rparr>) (set_pause True w))))"
    using view pausing by (intro r_on_world) (auto simp: eff_valid_def launch_kept_def)
  moreover have "eff_keeps (xinv W k) (on_world (\<lambda>w. (Inr (), set_killed True w)))"
    using killed_again by (intro r_on_world) (simp add: eff_valid_def)
  ultimately show ?thesis unfolding fail_closed_after_execution_error_def set_kill_switch_def
    by (auto intro!: eff_rules x_simple x_modify activate_keeps r_then_refresh refresh killed_again)
qed

end

section \<open>The kill switch\<close>

text \<open>Predicates on the worker's flags survive everything that changes other parts of the floor.\<close>

definition of_worker :: "(TradingWorker \<Rightarrow> bool) \<Rightarrow> 'o floor \<Rightarrow> bool" where
  "of_worker V w = V (fl_worker w)"

lemma of_worker_frame [simp]:
  "of_worker V (w\<lparr>fl_outside := out\<rparr>) = of_worker V w" "of_worker V (w\<lparr>fl_store := st\<rparr>) = of_worker V w"
  "of_worker V (change_control f w) = of_worker V w" "of_worker V (set_mainnet_launch_session r w) = of_worker V w"
  by (simp_all add: of_worker_def change_control_def set_mainnet_launch_session_def)

lemma of_worker_store: "eff_keeps (of_worker V) (on_store m)"
  by (rule eff_validI) (simp add: on_store_def split_beta split: sum.split)

lemma of_worker_requests: "requests_keep (trading_exec tr) (of_worker V)"
  by (simp add: requests_keep_def trading_exec_def on_outside_def Let_def split_beta)

lemma of_worker_launch:
  "eff_keeps (of_worker V) (clear_ambiguity_fence tr)" "eff_keeps (of_worker V) (fence_autonomous_launch tr)"
  unfolding clear_ambiguity_fence_def fence_autonomous_launch_def Let_def
  by (auto intro!: eff_rules of_worker_store split: option.split)

definition switched_on :: "TradingWorker \<Rightarrow> bool" where
  "switched_on k = kill_switch_active k"

definition halted :: "TradingWorker \<Rightarrow> bool" where
  "halted k \<longleftrightarrow> kill_switch_active k \<and> pause_new_risk k \<and> engine_state k = ES_EMERGENCY"

lemmas worker_changes = of_worker_def refresh_engine_state_def change_worker_def set_pause_def set_killed_def derive_engine_state_def

interpretation on: floor_invariant tr "of_worker switched_on" for tr :: "'o trading"
  by unfold_locales (auto simp: of_worker_requests of_worker_launch switched_on_def, simp_all add: worker_changes switched_on_def)

interpretation halt: floor_invariant tr "of_worker halted" for tr :: "'o trading"
  by unfold_locales (auto simp: of_worker_requests of_worker_launch halted_def, simp_all add: worker_changes halted_def)

text \<open>Computations that always return.\<close>

definition returns :: "('s, 'e, 'a) eff \<Rightarrow> bool" where
  "returns m = (\<forall>s. \<exists>x s'. m s = (Inr x, s'))"

lemma returns_simple [eff_rules]:
  "returns (eff_ret x)" "returns (eff_gets f)" "returns (eff_modify g)" "returns (with_ledger h)" "returns (\<lambda>w. (Inr (), c w))"
  by (simp_all add: returns_def with_ledger_def)

lemma returns_bind [eff_rules]:
  assumes "returns m" "\<And>x. returns (f x)"
  shows "returns (eff_bind m f)"
  unfolding returns_def
proof
  fix s
  obtain x s1 where "m s = (Inr x, s1)" using assms(1) unfolding returns_def by blast
  moreover obtain y s2 where "f x s1 = (Inr y, s2)" using assms(2)[of x] unfolding returns_def by blast
  ultimately show "\<exists>x s'. eff_bind m f s = (Inr x, s')" by simp
qed

lemma returns_catch [eff_rules]:
  assumes "\<And>e. returns (h e)"
  shows "returns (eff_catch m h)"
  unfolding returns_def
proof
  fix s
  show "\<exists>x s'. eff_catch m h s = (Inr x, s')"
  proof (cases "m s")
    case (Pair r s1)
    then show ?thesis using assms unfolding returns_def by (cases r) auto
  qed
qed

lemma returns_if [eff_rules]: "returns m \<Longrightarrow> returns m' \<Longrightarrow> returns (if b then m else m')"
  by simp

lemma returns_on_world [eff_rules]: "returns f \<Longrightarrow> returns (on_world f)"
  unfolding returns_def on_world_def by (metis (mono_tags, lifting) case_prod_conv)

lemma activate_returns: "returns (activate_kill_switch tr)"
  unfolding activate_kill_switch_def cancel_all_open_orders_def fence_autonomous_launch_def Let_def
  by (auto intro!: eff_rules)

lemma cancellation_confirmed:
  assumes "cancel_all_open_orders x a s = (Inr CancelConfirmed, s')"
  shows "\<exists>s1. rest x GetOpenOrders s1 = (Inr (JList []), s')"
proof -
  obtain r s1 where r: "rest x GetOpenOrders s = (r, s1)" by fastforce
  have run: "\<not> xv_preflight_only x" "a" using assms by (auto simp: cancel_all_open_orders_def split: if_splits)
  obtain os where os: "r = Inr (JList os)"
    using assms r run by (cases r) (auto simp: cancel_all_open_orders_def eff_catch_def eff_bind_def split: json.splits if_splits)
  obtain r2 s2 where r2: "cancel_open_orders x os s1 = (r2, s2)" by fastforce
  obtain r3 s3 where r3: "rest x GetOpenOrders s2 = (r3, s3)" by fastforce
  show ?thesis
  proof (cases r2)
    case (Inl e)
    then show ?thesis using assms r run os r2 by (auto simp: cancel_all_open_orders_def split: if_splits)
  next
    case (Inr n)
    show ?thesis
    proof (cases r3)
      case (Inl e)
      then show ?thesis using assms r run os r2 r3 Inr by (auto simp: cancel_all_open_orders_def split: if_splits)
    next
      case Inr': (Inr j)
      then have "s' = s3" "j = JList []" using assms r run os r2 r3 Inr
        by (auto simp: cancel_all_open_orders_def split: json.splits if_splits)
      then show ?thesis using r3 Inr' by blast
    qed
  qed
qed

lemma kept_by_run: "eff_keeps P m \<Longrightarrow> P s \<Longrightarrow> m s = (r, s') \<Longrightarrow> P s'"
  by (cases r) (auto dest: eff_valid_Inl eff_valid_Inr)

lemma eff_valid_any: "eff_valid P m (\<lambda>_ _. True) (\<lambda>_ _. True)"
  by (auto simp: eff_valid_def split: prod.splits sum.splits)

lemma activate_evidence:
  "eff_valid (\<lambda>_. True) (activate_kill_switch tr)
     (\<lambda>res s. res = SwitchConfirmed \<longrightarrow> \<not> wc_adapter (fl_control (floor_of s))
        \<or> verified_adapter s \<and> (\<exists>s1 s2. rest (trading_exec tr) GetOpenOrders s1 = (Inr (JList []), s2))) (\<lambda>_ _. True)"
  (is "eff_valid _ _ ?Q _")
proof -
  let ?E = "\<exists>s1 s2. rest (trading_exec tr) GetOpenOrders s1 = (Inr (JList []), s2)"
  have cancel: "eff_valid (\<lambda>_. True) (cancel_all_open_orders (trading_exec tr) True) (\<lambda>c _. c = CancelConfirmed \<longrightarrow> ?E) (\<lambda>_ _. True)"
    using cancellation_confirmed by (fastforce simp: eff_valid_def split: prod.splits sum.splits)
  have last: "eff_valid (\<lambda>_. c = CancelConfirmed \<longrightarrow> ?E) (eff_bind m (\<lambda>res. eff_bind (eff_gets verified_adapter) (\<lambda>verified.
       eff_ret (if c \<noteq> CancelConfirmed then SwitchCancellation c
                else if res \<noteq> ''IN_SYNC'' \<or> \<not> verified then SwitchPartial else SwitchConfirmed)))) ?Q (\<lambda>_ _. True)" for c m
    by (auto simp: eff_valid_def eff_bind_def split: prod.splits sum.splits)
  have cancelled: "eff_valid (\<lambda>_. True) (eff_bind (cancel_all_open_orders (trading_exec tr) True) (\<lambda>c. eff_bind m (\<lambda>res. eff_bind (eff_gets verified_adapter) (\<lambda>verified.
       eff_ret (if c \<noteq> CancelConfirmed then SwitchCancellation c
                else if res \<noteq> ''IN_SYNC'' \<or> \<not> verified then SwitchPartial else SwitchConfirmed))))) ?Q (\<lambda>_ _. True)" for m
    by (rule eff_valid_bind[OF cancel last])
  have attached: "eff_valid (\<lambda>s. w = floor_of s) (eff_bind (eff_modify f) (\<lambda>_. eff_bind (with_ledger g) (\<lambda>_. eff_bind (cancel_all_open_orders (trading_exec tr) True)
       (\<lambda>c. eff_bind m (\<lambda>res. eff_bind (eff_gets verified_adapter) (\<lambda>verified.
       eff_ret (if c \<noteq> CancelConfirmed then SwitchCancellation c
                else if res \<noteq> ''IN_SYNC'' \<or> \<not> verified then SwitchPartial else SwitchConfirmed))))))) ?Q (\<lambda>_ _. True)" for w f g m
    by (rule eff_valid_conseq[OF eff_valid_bind[OF eff_valid_any eff_valid_bind[OF eff_valid_any cancelled]]]) simp_all
  have detached: "eff_valid (\<lambda>s. w = floor_of s) (eff_ret SwitchConfirmed) ?Q (\<lambda>_ _. True)" if "\<not> wc_adapter (fl_control w)" for w
    using that by (auto simp: eff_valid_def)
  have unknown: "eff_valid (\<lambda>s. w = floor_of s) (eff_ret SwitchUnknown) ?Q (\<lambda>_ _. True)" for w
    by (simp add: eff_valid_def)
  have read: "eff_valid (\<lambda>_. True) (eff_gets floor_of) (\<lambda>w s. w = floor_of s) (\<lambda>_ _. True)"
    by (simp add: eff_valid_def)
  show ?thesis
    unfolding activate_kill_switch_def Let_def
    by (rule eff_valid_bind[OF eff_valid_any], rule eff_valid_bind[OF eff_valid_any], rule eff_valid_bind[OF read])
      (rule eff_valid_if attached unknown | rule detached, blast)+
qed

lemma activate_halts:
  assumes "activate_kill_switch tr s = (r, s')"
  shows "of_worker halted (floor_of s')"
proof -
  let ?kill = "change_worker (\<lambda>k. k\<lparr>kill_switch_active := True, pause_new_risk := True, engine_state := ES_EMERGENCY\<rparr>)"
  let ?s1 = "s\<lparr>xs_recon := (xs_recon s)\<lparr>rc_world := ?kill (floor_of s)\<rparr>\<rparr>"
  have "activate_kill_switch tr ?s1 = activate_kill_switch tr s"
    by (simp add: activate_kill_switch_def on_world_def eff_bind_def change_worker_def)
  moreover have "xinv (of_worker halted) (settings s) ?s1" by (simp add: xinv_def settings_def worker_changes halted_def)
  ultimately have "xinv (of_worker halted) (settings s) s'" by (metis assms kept_by_run halt.activate_keeps)
  then show ?thesis by (simp add: xinv_def)
qed



section \<open>A killed worker\<close>

text \<open>What an operator, the market and the maintenance loops ask of the worker.\<close>

datatype 'r worker_op =
    OpManual "'r ExecutionDecision" | OpAutonomous "'r ExecutionDecision" | OpReconcile | OpSync | OpKillSwitch bool | OpPause bool
  | OpRecoveryOnly bool | OpCancel string string | OpAmend string string decimal decimal string | OpFlatten "string option"
  | OpFailClosed | OpDisarm

abbreviation forget_result :: "('s, 'e, 'a) eff \<Rightarrow> ('s, 'e, unit) eff" where
  "forget_result m \<equiv> eff_bind m (\<lambda>_. eff_ret ())"

fun worker_step :: "'o trading \<Rightarrow> 'r worker_op \<Rightarrow> ('o floor, unit) exec" where
  "worker_step tr (OpManual d) = forget_result (execute_manual_decision tr d)"
| "worker_step tr (OpAutonomous d) = execute_autonomously tr d"
| "worker_step tr OpReconcile = forget_result (trigger_reconciliation tr)"
| "worker_step tr OpSync = sync_adapter_state"
| "worker_step tr (OpKillSwitch b) = forget_result (set_kill_switch tr b)"
| "worker_step tr (OpPause b) = forget_result (set_pause_new_risk b)"
| "worker_step tr (OpRecoveryOnly b) = set_recovery_only b"
| "worker_step tr (OpCancel sy cid) = forget_result (cancel_worker_order tr sy cid)"
| "worker_step tr (OpAmend sy cid p q side) = forget_result (amend_worker_order tr sy cid p q side)"
| "worker_step tr (OpFlatten sy) = forget_result (worker_emergency_flatten tr sy)"
| "worker_step tr OpFailClosed = forget_result (fail_closed_after_execution_error tr)"
| "worker_step tr OpDisarm = disarm tr"

text \<open>A run of operations; an exception leaves its state to the next operation.\<close>

primrec worker_run :: "'o trading \<Rightarrow> 'r worker_op list \<Rightarrow> 'o floor ExecState \<Rightarrow> 'o floor ExecState" where
  "worker_run tr [] s = s"
| "worker_run tr (op # ops) s = worker_run tr ops (snd (worker_step tr op s))"

lemma worker_run_keeps:
  assumes "\<And>op. op \<in> set ops \<Longrightarrow> eff_keeps P (worker_step tr op)" "P s"
  shows "P (worker_run tr ops s)"
  using assms
proof (induction ops arbitrary: s)
  case (Cons op ops)
  have "P (snd (worker_step tr op s))"
    using kept_by_run[OF Cons.prems(1) Cons.prems(2), of op] by (metis list.set_intros(1) prod.collapse)
  then show ?case using Cons by simp
qed simp

text \<open>The order requests are what a function of the outside shows.\<close>

definition shows_orders :: "'o trading \<Rightarrow> ('o \<Rightarrow> rest_call list) \<Rightarrow> bool" where
  "shows_orders tr sent = (\<forall>c out. sent (snd (vn_request (xv_venue (tr_exec tr)) c out)) = sent out @ (if is_order c then [c] else []))"

definition killed_with :: "('o \<Rightarrow> rest_call list) \<Rightarrow> rest_call list \<Rightarrow> 'o floor \<Rightarrow> bool" where
  "killed_with sent L w \<longleftrightarrow> kill_switch_active (fl_worker w) \<and> sent (fl_outside w) = L"

lemma killed_with_frame [simp]:
  "killed_with sent L (w\<lparr>fl_store := st\<rparr>) = killed_with sent L w" "killed_with sent L (change_control f w) = killed_with sent L w"
  "killed_with sent L (set_mainnet_launch_session r w) = killed_with sent L w" "killed_with sent L (refresh_engine_state a w) = killed_with sent L w"
  "killed_with sent L (set_pause b w) = killed_with sent L w"
  by (simp_all add: killed_with_def change_control_def set_mainnet_launch_session_def refresh_engine_state_def change_worker_def set_pause_def)

lemma killed_with_store: "eff_keeps (killed_with sent L) (on_store m)"
  by (rule eff_validI) (simp add: on_store_def split_beta split: sum.split)

lemma killed_with_launch:
  "eff_keeps (killed_with sent L) (clear_ambiguity_fence tr)" "eff_keeps (killed_with sent L) (fence_autonomous_launch tr)"
  unfolding clear_ambiguity_fence_def fence_autonomous_launch_def Let_def
  by (auto intro!: eff_rules killed_with_store split: option.split)

lemma killed_floor:
  assumes "shows_orders tr sent"
  shows "floor_invariant tr (killed_with sent L)"
proof
  show "requests_keep (trading_exec tr) (killed_with sent L)"
    using assms by (simp add: requests_keep_def shows_orders_def killed_with_def trading_exec_def on_outside_def Let_def split_beta)
qed (simp_all add: killed_with_launch, simp_all add: killed_with_def change_worker_def set_killed_def)

lemma killed_gate: "kill_switch_active w \<Longrightarrow> decision_gate_check env clock w d \<noteq> Inr u"
  by (auto simp: decision_gate_check_def res_simps decision_gate_worker_Inr)

lemma killed_refuses:
  fixes s :: "'o floor ExecState" and d :: "'r ExecutionDecision"
  assumes "kill_switch_active (fl_worker (floor_of s))"
  shows "\<exists>e. execute_manual_decision tr d s = (Inl e, s\<lparr>xs_epoch := Suc (xs_epoch s)\<rparr>)"
    and "\<exists>r. execute_autonomously tr d s = (r, s\<lparr>xs_epoch := Suc (xs_epoch s)\<rparr>)"
proof -
  have "kill_switch_active (worker_view tr (s\<lparr>xs_epoch := n\<rparr>))" for n
    using assms by (simp add: worker_view_def worker_of_def trading_exec_def Let_def)
  then have "gate_passed (decision_gate_check env clock (worker_view tr (s\<lparr>xs_epoch := n\<rparr>)) d) s' = (Inr None, s')
      \<or> (\<exists>e. gate_passed (decision_gate_check env clock (worker_view tr (s\<lparr>xs_epoch := n\<rparr>)) d) s' = (Inl e, s'))"
    for env clock n and s' :: "'o floor ExecState"
    using killed_gate[of "worker_view tr (s\<lparr>xs_epoch := n\<rparr>)" env clock d]
    by (auto simp: gate_passed_def split: sum.split gate_reason.split)
  note gate = this[of "xv_environ (tr_exec tr)" "xv_clock (trading_exec tr) (xs_epoch s)" "Suc (xs_epoch s)" "s\<lparr>xs_epoch := Suc (xs_epoch s)\<rparr>"]
  show "\<exists>e. execute_manual_decision tr d s = (Inl e, s\<lparr>xs_epoch := Suc (xs_epoch s)\<rparr>)"
    using gate by (elim disjE exE; simp add: execute_manual_decision_def now_of_def)
  show "\<exists>r. execute_autonomously tr d s = (r, s\<lparr>xs_epoch := Suc (xs_epoch s)\<rparr>)"
    using gate by (elim disjE exE; simp add: execute_autonomously_def now_of_def)
qed

text \<open>Everything but the release of the kill switch and the emergency flattening, which sends reducing orders.\<close>

definition keeps_switch :: "'r worker_op \<Rightarrow> bool" where
  "keeps_switch op \<longleftrightarrow> op \<noteq> OpKillSwitch False \<and> (\<forall>sy. op \<noteq> OpFlatten sy)"

lemma forget_keeps: "eff_keeps P m \<Longrightarrow> eff_keeps P (forget_result m)"
  by (intro eff_rules)

lemma same_epoch: "\<exists>n. s = s\<lparr>xs_epoch := n\<rparr>"
  by (rule exI[of _ "xs_epoch s"]) simp

lemma killed_same:
  assumes "\<And>s. kill_switch_active (fl_worker (floor_of s)) \<Longrightarrow> kill_switch_active (worker_of (trading_exec tr) s) \<Longrightarrow> \<exists>r n. m s = (r, s\<lparr>xs_epoch := n\<rparr>)"
  shows "eff_keeps (xinv (killed_with sent L) k) m"
proof (rule eff_validI)
  fix s
  assume s: "xinv (killed_with sent L) k s"
  then obtain r n where "m s = (r, s\<lparr>xs_epoch := n\<rparr>)"
    using assms[of s] by (auto simp: xinv_def killed_with_def worker_of_def trading_exec_def Let_def)
  then show "case m s of (Inl e, s') \<Rightarrow> xinv (killed_with sent L) k s' | (Inr x, s') \<Rightarrow> xinv (killed_with sent L) k s'"
    using s by (simp add: xinv_def split: sum.split)
qed

lemma killed_step:
  fixes op :: "'r worker_op" and tr :: "'o trading"
  assumes "shows_orders tr sent" "keeps_switch op"
  shows "eff_keeps (xinv (killed_with sent L) k) (worker_step tr op)"
proof (cases op)
  case (OpManual d)
  show ?thesis unfolding OpManual worker_step.simps by (intro forget_keeps killed_same) (use killed_refuses(1) in blast)
next
  case (OpAutonomous d)
  show ?thesis unfolding OpAutonomous worker_step.simps by (rule killed_same) (use killed_refuses(2) in blast)
next
  case (OpPause b)
  show ?thesis unfolding OpPause worker_step.simps set_pause_new_risk_def by (intro eff_rules r_then_refresh) simp_all
next
  case (OpRecoveryOnly b)
  show ?thesis unfolding OpRecoveryOnly worker_step.simps set_recovery_only_def
    by (rule r_then_refresh) (simp add: killed_with_def refresh_engine_state_def change_worker_def)
next
  case (OpCancel sy cid)
  have "eff_keeps (xinv (killed_with sent L) k) (cancel_order (trading_exec tr) True sy cid)"
    by (rule killed_same) (auto simp: cancel_order_def intro: same_epoch)
  then show ?thesis unfolding OpCancel worker_step.simps cancel_worker_order_def by (intro eff_rules)
next
  case (OpAmend sy cid p q side)
  have "eff_keeps (xinv (killed_with sent L) k) (modify_order (trading_exec tr) True sy cid p q side)"
    by (rule killed_same) (auto simp: modify_order_def intro: same_epoch)
  then show ?thesis unfolding OpAmend worker_step.simps amend_worker_order_def by (intro eff_rules)
next
  case OpDisarm
  show ?thesis unfolding OpDisarm worker_step.simps disarm_def
    by (intro eff_rules r_on_world killed_with_launch(2)) (simp add: eff_valid_def killed_with_def change_worker_def change_control_def)
qed (use assms(2) killed_floor[OF assms(1), of L] in \<open>auto simp: keeps_switch_def set_kill_switch_def intro!: forget_keeps floor_invariant.trigger_keeps
      floor_invariant.sync_keeps floor_invariant.activate_keeps floor_invariant.fail_closed_keeps\<close>)

text \<open>
  C31: A killed worker sends no order. Whatever is asked of a worker whose kill switch is on, by hand
  or by the market, with whatever answers of the exchange and faults of the database, as long as the
  switch is not released and no emergency flattening is requested: the switch stays on and no order is
  submitted or amended.
\<close>

theorem killed_worker_is_silent:
  assumes "shows_orders tr sent" "kill_switch_active (fl_worker (floor_of s))" "\<And>op. op \<in> set ops \<Longrightarrow> keeps_switch op"
  shows "kill_switch_active (fl_worker (floor_of (worker_run tr ops s)))
    \<and> sent (fl_outside (floor_of (worker_run tr ops s))) = sent (fl_outside (floor_of s))"
proof -
  have "xinv (killed_with sent (sent (fl_outside (floor_of s)))) (settings s) (worker_run tr ops s)"
    by (rule worker_run_keeps, rule killed_step[OF assms(1)], erule assms(3)) (simp add: xinv_def killed_with_def assms(2))
  then show ?thesis by (simp add: xinv_def killed_with_def)
qed

end
