(* ===== verification/WorkerLaunch.thy ===== *)
theory WorkerLaunch
  imports WorkerSafety ExecutionWitnesses
begin

text \<open>
  A staged Mainnet launch from end to end: the worker's callbacks reserve the slot of the launch in the
  database before an order is sent and release it when the exchange refuses the order. The number of
  orders that the exchange took never exceeds the number of reserved slots, through every step of a
  submission, every answer of the exchange and every fault of the database; a staged launch has one slot.
\<close>

lemma eff_valid_reads: "(\<And>s. P s \<Longrightarrow> eff_valid P (f (g s)) Q E) \<Longrightarrow> eff_valid P (eff_bind (eff_gets g) f) Q E"
  by (simp add: eff_valid_def)

section \<open>Slots in the database\<close>

text \<open>The staged launch \<open>L\<close> has at least \<open>a\<close> slots reserved.\<close>

definition slots :: "string \<Rightarrow> int \<Rightarrow> launch_table \<Rightarrow> bool" where
  "slots L a t \<longleftrightarrow> table_ok t \<and> (\<exists>r. find_launch L t = Some r \<and> lr_policy r = STAGED_FIRST_ORDER \<and> a \<le> lr_reserved r)"

lemma find_launch_id: "find_launch L t = Some r \<Longrightarrow> lr_launch_id r = L"
  by (auto simp: find_Some_iff)

lemma slots_mono: "slots L a t \<Longrightarrow> b \<le> a \<Longrightarrow> slots L b t"
  by (auto simp: slots_def)

lemma slots_bound: "slots L a t \<Longrightarrow> a \<le> 1"
proof -
  assume "slots L a t"
  then obtain r where "r \<in> set t" "list_all row_constraints t" "lr_policy r = STAGED_FIRST_ORDER" "a \<le> lr_reserved r"
    by (metis slots_def table_ok_def launch_constraints_def find_Some_iff nth_mem)
  then show "a \<le> 1" by (auto simp: list_all_iff row_constraints_def)
qed

lemma slots_step:
  assumes "slots L a t" "launch_step op now t = (res, t')" "\<And>c d. op \<noteq> LActivate L c d"
  shows "slots L (a + tally (succeeded res \<and> op = LReserve L) - tally (succeeded res \<and> op = LRelease L)) t'"
proof -
  obtain r where r: "table_ok t" "find_launch L t = Some r" "lr_policy r = STAGED_FIRST_ORDER" "a \<le> lr_reserved r"
    using assms(1) by (auto simp: slots_def)
  then obtain r' where "find_launch L t' = Some r'" "row_step L op (succeeded res) r r'" using launch_step_row assms(2) by blast
  moreover have "table_ok t'" using launch_step_ok[OF r(1), of op now] assms(2) by simp
  ultimately show ?thesis using r assms(3) by (auto simp: slots_def row_step_def)
qed

text \<open>A statement, whatever happens to it.\<close>

lemma statement_valid:
  assumes "\<And>t. V t \<Longrightarrow> E t" "\<And>t x t'. V t \<Longrightarrow> f t = (Inr x, t') \<Longrightarrow> Q x t' \<and> E t'" "\<And>t e t'. V t \<Longrightarrow> f t = (Inl e, t') \<Longrightarrow> E t'"
  shows "eff_valid (\<lambda>s. V (st_launches s)) (launch_statement f) (\<lambda>x s. Q x (st_launches s)) (\<lambda>_ s. E (st_launches s))"
proof (rule eff_validI)
  fix s :: store
  assume V: "V (st_launches s)"
  obtain r t' where run: "f (st_launches s) = (r, t')" by fastforce
  have "E t'" using assms(2,3)[OF V] run by (cases r) auto
  then show "case launch_statement f s of (Inl e, s') \<Rightarrow> E (st_launches s') | (Inr x, s') \<Rightarrow> Q x (st_launches s')"
    using V assms(1,2) run by (cases r; cases "next_net s") (auto simp: launch_statement_def Let_def pop_net_def)
qed

lemma launches_frame [simp]: "st_launches (manage f s) = st_launches s"
  by (simp add: manage_def)

lemma note_session_keeps: "eff_keeps (\<lambda>s. V (st_launches s)) (note_session r)"
  by (simp add: note_session_def eff_valid_def)

lemma read_keeps: "eff_keeps (\<lambda>s. V (st_launches s)) (launch_statement (eff_gets f))"
  by (rule statement_valid) auto

lemma note_active_keeps: "eff_keeps (\<lambda>s. V (st_launches s)) note_active_session"
  unfolding note_active_session_def get_active_mainnet_launch_def by (intro eff_rules read_keeps note_session_keeps)

lemma required_keeps: "eff_keeps (\<lambda>s. V (st_launches s)) require_durable_launch_repository"
  unfolding require_durable_launch_repository_def by (auto simp: eff_valid_def)

lemma slots_statement:
  assumes "\<And>c d. op \<noteq> LActivate L c d" "launch_step op now = m"
  shows "op \<noteq> LRelease L \<Longrightarrow> eff_valid (\<lambda>s. slots L a (st_launches s)) (launch_statement m)
       (\<lambda>b s. slots L (a + tally (b \<and> op = LReserve L)) (st_launches s)) (\<lambda>_ s. slots L a (st_launches s))"
    and "eff_valid (\<lambda>s. slots L (a + 1) (st_launches s)) (launch_statement m) (\<lambda>_ s. slots L a (st_launches s)) (\<lambda>_ s. slots L a (st_launches s))"
proof -
  have step: "slots L (c + tally (succeeded r \<and> op = LReserve L) - tally (succeeded r \<and> op = LRelease L)) t'" if "slots L c t" "m t = (r, t')" for c t r t'
    using slots_step that assms by blast
  show "eff_valid (\<lambda>s. slots L a (st_launches s)) (launch_statement m)
       (\<lambda>b s. slots L (a + tally (b \<and> op = LReserve L)) (st_launches s)) (\<lambda>_ s. slots L a (st_launches s))" if "op \<noteq> LRelease L"
  proof (rule statement_valid)
    fix t x t' assume "slots L a t" "m t = (Inr x, t')"
    from step[OF this] that have "slots L (a + tally (x \<and> op = LReserve L)) t'" by (simp add: succeeded_def tally_def)
    then show "slots L (a + tally (x \<and> op = LReserve L)) t' \<and> slots L a t'" by (auto simp: tally_def intro: slots_mono)
  next
    fix t e t' assume "slots L a t" "m t = (Inl e, t')"
    from step[OF this] show "slots L a t'" by (simp add: succeeded_def tally_def)
  qed
  have weak: "slots L a t'" if "slots L (a + 1) t" "m t = (r, t')" for t r t'
    using step[OF that] by (rule slots_mono) (auto simp: tally_def)
  show "eff_valid (\<lambda>s. slots L (a + 1) (st_launches s)) (launch_statement m) (\<lambda>_ s. slots L a (st_launches s)) (\<lambda>_ s. slots L a (st_launches s))"
    by (rule statement_valid) (use weak slots_mono in auto)
qed

text \<open>The operations of the manager on the launch, each with every fault that may hit its statements.\<close>

abbreviation launch_slots :: "string \<Rightarrow> int \<Rightarrow> store \<Rightarrow> bool" where
  "launch_slots L a s \<equiv> slots L a (st_launches s)"

lemma manager_reserve_slots:
  "eff_valid (launch_slots L a) (manager_reserve L now) (\<lambda>b. launch_slots L (a + tally b)) (\<lambda>_. launch_slots L a)"
proof -
  have reserve: "eff_valid (launch_slots L a) (launch_statement (reserve_mainnet_risk_order L now))
      (\<lambda>b. launch_slots L (a + tally b)) (\<lambda>_. launch_slots L a)"
    using slots_statement(1)[where op = "LReserve L" and L = L and now = now and a = a] by simp
  have note_it: "eff_valid (launch_slots L (a + tally b)) (eff_bind (if b then note_active_session else eff_ret ()) (\<lambda>_. eff_ret b))
      (\<lambda>b. launch_slots L (a + tally b)) (\<lambda>_. launch_slots L a)" for b
    by (rule eff_valid_weaken_exc, rule eff_valid_bind, rule eff_keeps_if[OF note_active_keeps], rule eff_valid_ret, assumption, rule eff_valid_ret)
      (auto simp: tally_def intro: slots_mono)
  show ?thesis unfolding manager_reserve_def by (rule eff_valid_bind[OF required_keeps eff_valid_bind[OF reserve note_it]])
qed

lemma manager_release_slots:
  "eff_valid (launch_slots L (a + 1)) (manager_release L now) (\<lambda>_. launch_slots L a) (\<lambda>_. launch_slots L a)"
proof -
  have "eff_valid (launch_slots L (a + 1)) (launch_statement (release_mainnet_risk_order_reservation L now)) (\<lambda>_. launch_slots L a) (\<lambda>_. launch_slots L a)"
    using slots_statement(2)[where op = "LRelease L" and L = L and now = now and a = a] by simp
  then have "eff_valid (launch_slots L (a + 1)) (eff_bind (launch_statement (release_mainnet_risk_order_reservation L now))
      (\<lambda>released. eff_bind note_active_session (\<lambda>_. eff_ret released))) (\<lambda>_. launch_slots L a) (\<lambda>_. launch_slots L a)"
    by (rule eff_valid_bind) (intro eff_rules note_active_keeps)
  moreover have "eff_valid (launch_slots L (a + 1)) require_durable_launch_repository (\<lambda>_. launch_slots L (a + 1)) (\<lambda>_. launch_slots L a)"
    by (rule eff_valid_weaken_exc[OF required_keeps]) (erule slots_mono, simp)
  ultimately show ?thesis unfolding manager_release_def by (rule eff_valid_bind[rotated])
qed

lemma slots_kept:
  assumes "\<And>c d. op \<noteq> LActivate L c d" "launch_step op now = m" "op \<noteq> LRelease L" "op \<noteq> LReserve L"
  shows "eff_keeps (launch_slots L a) (launch_statement m)"
  using slots_statement(1)[OF assms(1,2,3), of a] assms(4) by (simp add: tally_def)

lemma manager_marks_slots:
  "eff_keeps (launch_slots L a) (manager_mark_submitted L now)" "eff_keeps (launch_slots L a) (manager_reconciliation_required L now)"
  "eff_keeps (launch_slots L a) (manager_reconciled L now)"
proof -
  have "eff_keeps (launch_slots L a) (launch_statement (mark_mainnet_risk_order_submitted L now))"
    by (rule slots_kept[where op = "LSubmitted L"]) simp_all
  moreover have "eff_keeps (launch_slots L a) (launch_statement (mark_mainnet_launch_reconciliation_required L now))"
    by (rule slots_kept[where op = "LReconciliationRequired L"]) simp_all
  moreover have "eff_keeps (launch_slots L a) (launch_statement (mark_mainnet_launch_reconciled L now))"
    by (rule slots_kept[where op = "LReconciled L"]) simp_all
  ultimately show "eff_keeps (launch_slots L a) (manager_mark_submitted L now)" "eff_keeps (launch_slots L a) (manager_reconciliation_required L now)"
    "eff_keeps (launch_slots L a) (manager_reconciled L now)"
    unfolding manager_mark_submitted_def manager_reconciliation_required_def manager_reconciled_def
    by - (intro eff_rules required_keeps note_active_keeps; assumption)+
qed

lemma manager_get_session_slots:
  assumes "L \<noteq> []"
  shows "eff_valid (launch_slots L a) (manager_get_session (Some L))
     (\<lambda>r s. launch_slots L a s \<and> (\<exists>row. r = Some row \<and> lr_launch_id row = L \<and> lr_policy row = STAGED_FIRST_ORDER)) (\<lambda>_. launch_slots L a)"
proof -
  have read: "eff_valid (launch_slots L a) (launch_statement (get_mainnet_launch L))
     (\<lambda>r s. launch_slots L a s \<and> (\<exists>row. r = Some row \<and> lr_launch_id row = L \<and> lr_policy row = STAGED_FIRST_ORDER)) (\<lambda>_. launch_slots L a)"
    by (rule statement_valid[where Q = "\<lambda>r t. slots L a t \<and> (\<exists>row. r = Some row \<and> lr_launch_id row = L \<and> lr_policy row = STAGED_FIRST_ORDER)"])
      (auto simp: get_mainnet_launch_def select_row_def slots_def dest: find_launch_id)
  have note_it: "eff_valid (\<lambda>s. launch_slots L a s \<and> P r) (eff_bind (note_session r) (\<lambda>_. eff_ret r)) (\<lambda>r s. launch_slots L a s \<and> P r) (\<lambda>_. launch_slots L a)" for r P
    by (simp add: eff_valid_def note_session_def)
  show ?thesis using assms unfolding manager_get_session_def by simp (rule eff_valid_bind[OF required_keeps eff_valid_bind[OF read note_it]])
qed

section \<open>Slots on the floor\<close>

definition control_ok :: "string \<Rightarrow> worker_control \<Rightarrow> bool" where
  "control_ok L c \<longleftrightarrow> wc_launch_id c \<in> {None, Some L} \<and> (\<forall>r \<in> set_option (wc_launch_session c). lr_policy r = STAGED_FIRST_ORDER)"

text \<open>A Mainnet worker that acts for the launch or for none, over the given outside and launches.\<close>

definition live_at :: "string \<Rightarrow> 'o \<Rightarrow> int \<Rightarrow> 'o floor \<Rightarrow> bool" where
  "live_at L out a w \<longleftrightarrow> execution_mode (fl_worker w) = WM_LIVE \<and> control_ok L (fl_control w) \<and> fl_outside w = out \<and> launch_slots L a (fl_store w)"

lemma live_mono: "live_at L out a w \<Longrightarrow> b \<le> a \<Longrightarrow> live_at L out b w"
  by (auto simp: live_at_def intro: slots_mono)

lemma live_change [simp]:
  "live_at L out a (refresh_engine_state b w) = live_at L out a w" "live_at L out a (set_pause b w) = live_at L out a w"
  "live_at L out a (set_killed b w) = live_at L out a w"
  by (simp_all add: live_at_def refresh_engine_state_def change_worker_def set_pause_def set_killed_def)

lemma live_view: "live_at L out a w \<Longrightarrow> launch_kept f \<Longrightarrow> live_at L out a (change_control f w)"
  by (auto simp: live_at_def launch_kept_def control_ok_def change_control_def)

lemma live_session:
  "live_at L out a w \<Longrightarrow> r = Some row \<Longrightarrow> lr_launch_id row = L \<Longrightarrow> lr_policy row = STAGED_FIRST_ORDER \<Longrightarrow> live_at L out a (set_mainnet_launch_session r w)"
  by (auto simp: live_at_def set_mainnet_launch_session_def change_control_def control_ok_def)

text \<open>A computation on the store, seen from the floor.\<close>

lemma live_store:
  assumes "eff_valid (launch_slots L a) m (\<lambda>x s. launch_slots L (b x) s \<and> R x) (\<lambda>_. launch_slots L c)"
  shows "eff_valid (live_at L out a) (on_store m) (\<lambda>x w. live_at L out (b x) w \<and> R x) (\<lambda>_. live_at L out c)"
proof (rule eff_validI)
  fix w
  assume w: "live_at L out a w"
  obtain r s where run: "m (fl_store w) = (r, s)" by fastforce
  have start: "launch_slots L a (fl_store w)" using w by (simp add: live_at_def)
  show "case on_store m w of (Inl e, w') \<Rightarrow> live_at L out c w' | (Inr x, w') \<Rightarrow> live_at L out (b x) w' \<and> R x"
    using w run eff_valid_Inl[OF assms start] eff_valid_Inr[OF assms start] by (cases r) (auto simp: on_store_def live_at_def)
qed

lemma live_store_keeps:
  assumes "eff_keeps (launch_slots L a) m"
  shows "eff_keeps (live_at L out a) (on_store m)"
  using live_store[where b = "\<lambda>_. a" and R = "\<lambda>_. True", of L a m a out] assms by simp

lemma live_get_session:
  assumes "L \<noteq> []"
  shows "eff_valid (live_at L out a) (on_store (manager_get_session (Some L)))
     (\<lambda>r w. live_at L out a w \<and> (\<exists>row. r = Some row \<and> lr_launch_id row = L \<and> lr_policy row = STAGED_FIRST_ORDER)) (\<lambda>_. live_at L out a)"
  by (rule live_store) (rule manager_get_session_slots[OF assms])

lemma live_refresh_session:
  assumes "L \<noteq> []"
  shows "eff_keeps (live_at L out a) (eff_bind (on_store (manager_get_session (Some L))) (\<lambda>session. eff_modify (set_mainnet_launch_session session)))"
    "eff_keeps (live_at L out a) (eff_bind (on_store (manager_get_session (Some L))) (\<lambda>session.
       if session = None then eff_ret () else eff_modify (set_mainnet_launch_session session)))"
  by (rule eff_valid_bind[OF live_get_session[OF assms]]; auto simp: eff_valid_def intro: live_session)+

lemma live_clear:
  assumes "L \<noteq> []"
  shows "eff_keeps (live_at L out a) (clear_ambiguity_fence tr)"
proof -
  have keep: "eff_keeps (live_at L out a) (eff_catch (eff_bind (on_store (manager_reconciled L now)) (\<lambda>_.
      eff_bind (on_store (manager_get_session (Some L))) (\<lambda>session. eff_modify (set_mainnet_launch_session session)))) (\<lambda>_. eff_ret ()))" for now
    by (intro eff_keeps_catch eff_keeps_bind[OF live_store_keeps] manager_marks_slots live_refresh_session assms eff_valid_ret)
  show ?thesis
    unfolding clear_ambiguity_fence_def
  proof (rule eff_valid_reads)
    fix w
    assume "live_at L out a w"
    then have "wc_launch_id (fl_control (id w)) \<in> {None, Some L}" by (simp add: live_at_def control_ok_def)
    then show "eff_keeps (live_at L out a) (case wc_launch_id (fl_control (id w)) of None \<Rightarrow> eff_ret ()
       | Some launch_id \<Rightarrow> eff_catch (eff_bind (on_store (manager_reconciled launch_id (tr_now tr (fl_outside (id w))))) (\<lambda>_.
           eff_bind (on_store (manager_get_session (Some launch_id))) (\<lambda>session. eff_modify (set_mainnet_launch_session session)))) (\<lambda>_. eff_ret ()))"
      using keep by (auto intro: eff_valid_ret)
  qed
qed

section \<open>The callbacks\<close>

text \<open>The barrier's write to the outbox leaves the launches alone and does not raise for an order of the adapter.\<close>

lemma launches_write [simp]: "st_launches (write_event ev s) = st_launches s" "st_launches (acknowledged s) = st_launches s" "st_launches (pop_net s) = st_launches s"
  by (simp_all add: write_event_def acknowledged_def pop_net_def)

lemma append_retries_launches: "st_launches (snd (append_retries ev ns s)) = st_launches s"
  by (induction ev ns s rule: append_retries.induct) (simp_all add: Let_def split: net.split)

lemma ensure_launches:
  assumes "eo_timestamp od = Aware u"
  shows "eff_valid (\<lambda>s. V (st_launches s)) (ensure_order_durable digest provider od) (\<lambda>_ s. V (st_launches s)) (\<lambda>_ _. False)"
proof -
  let ?V = "\<lambda>s. V (st_launches s)"
  have append: "eff_keeps ?V (append_with_retry ev)" for ev
    by (rule eff_validI) (auto simp: append_with_retry_def split: sum.splits prod.splits, metis append_retries_launches snd_conv)+
  have pending: "eff_keeps ?V refresh_pending_count" by (simp add: eff_valid_def refresh_pending_count_def)
  have event: "eff_valid ?V (order_event digest provider od) (\<lambda>_. ?V) (\<lambda>_ _. False)"
    by (auto simp: eff_valid_def order_event_def require_instrument_def instrument_for_def assms utc_of_def eff_bind_def
        split: option.splits sum.splits prod.splits)
  have body: "eff_valid ?V (eff_catch (eff_bind (append_with_retry ev) (\<lambda>_. eff_bind refresh_pending_count (\<lambda>_. eff_ret True)))
      (\<lambda>_. eff_bind (eff_modify (manage f)) (\<lambda>_. eff_ret False))) (\<lambda>_. ?V) (\<lambda>_ _. False)" for ev f
    by (rule eff_valid_catch[where E = "\<lambda>_. ?V"], intro eff_keeps_bind append pending eff_valid_ret, assumption) (simp add: eff_valid_def)
  show ?thesis
    unfolding ensure_order_durable_def
    by (rule eff_valid_reads, intro eff_valid_if eff_valid_bind[OF event]) (auto simp: body eff_valid_ret split: option.split, auto simp: eff_valid_def)
qed

lemma live_durable:
  assumes "eo_timestamp od = Aware u"
  shows "eff_valid (live_at L out a) (on_store (ensure_order_durable digest provider od)) (\<lambda>_. live_at L out a) (\<lambda>_ _. False)"
proof (rule eff_validI)
  fix w
  assume w: "live_at L out a w"
  obtain r s where run: "ensure_order_durable digest provider od (fl_store w) = (r, s)" by fastforce
  have start: "launch_slots L a (fl_store w)" using w by (simp add: live_at_def)
  show "case on_store (ensure_order_durable digest provider od) w of (Inl e, w') \<Rightarrow> False | (Inr x, w') \<Rightarrow> live_at L out a w'"
    using w run eff_valid_Inl[OF ensure_launches[OF assms, where V = "slots L a"] start]
      eff_valid_Inr[OF ensure_launches[OF assms, where V = "slots L a"] start]
    by (cases r) (auto simp: on_store_def live_at_def)
qed

text \<open>The barrier admits an order only with a slot of its own, and never raises.\<close>

lemma barrier_slots:
  assumes "eo_timestamp od = Aware u" "is_risk_increasing (eo_risk_class od)"
  shows "eff_valid (live_at L out a) (before_order_submission tr od) (\<lambda>go. live_at L out (a + tally go)) (\<lambda>_ _. False)"
proof -
  have refuse: "eff_valid (live_at L out a) (pause_and_refuse tr) (\<lambda>go. live_at L out (a + tally go)) (\<lambda>_ _. False)"
    by (simp add: eff_valid_def pause_and_refuse_def tally_def)
  have caught: "eff_valid (live_at L out a) (eff_catch (on_store (manager_reserve L now)) (\<lambda>_. eff_ret False)) (\<lambda>go. live_at L out (a + tally go)) (\<lambda>_ _. False)" for now
    by (rule eff_valid_catch[OF live_store[where R = "\<lambda>_. True", simplified, OF manager_reserve_slots]]) (simp add: eff_valid_def tally_def)
  have decide: "eff_valid (live_at L out (a + tally b)) (if b then eff_ret True else pause_and_refuse tr) (\<lambda>go. live_at L out (a + tally go)) (\<lambda>_ _. False)" for b
    using refuse by (cases b) (auto simp: tally_def eff_valid_def)
  have reserve: "eff_valid (live_at L out a) (eff_bind (eff_catch (on_store (manager_reserve L now)) (\<lambda>_. eff_ret False))
      (\<lambda>reserved. if reserved then eff_ret True else pause_and_refuse tr)) (\<lambda>go. live_at L out (a + tally go)) (\<lambda>_ _. False)" for now
    by (rule eff_valid_bind[OF caught decide])
  show ?thesis
    unfolding before_order_submission_def Let_def
  proof (rule eff_valid_bind[OF live_durable[OF assms(1)]], rule eff_valid_reads)
    fix durable w
    assume "live_at L out a w"
    then have "execution_mode (fl_worker (id w)) = WM_LIVE" "wc_launch_id (fl_control (id w)) \<in> {None, Some L}"
      by (simp_all add: live_at_def control_ok_def)
    then show "eff_valid (live_at L out a) (if \<not> is_risk_increasing (eo_risk_class od) \<or> execution_mode (fl_worker (id w)) \<noteq> WM_LIVE
        then eff_ret (durable \<or> \<not> is_risk_increasing (eo_risk_class od))
        else if \<not> durable then pause_and_refuse tr
        else (case wc_launch_id (fl_control (id w)) of None \<Rightarrow> pause_and_refuse tr
          | Some launch_id \<Rightarrow> if launch_policy_is AUTONOMOUS_AFTER_REVIEW (fl_control (id w)) \<and> \<not> launch_state_is LS_AUTONOMOUS_ACTIVE (fl_control (id w))
              then pause_and_refuse tr
              else eff_bind (eff_catch (on_store (manager_reserve launch_id (tr_now tr (fl_outside (id w))))) (\<lambda>_. eff_ret False))
                (\<lambda>reserved. if reserved then eff_ret True else pause_and_refuse tr)))
        (\<lambda>go. live_at L out (a + tally go)) (\<lambda>_ _. False)"
      using assms(2) refuse reserve by auto
  qed
qed

text \<open>The notification gives the slot back at most once, and only when the order was refused.\<close>

lemma confirmed_slots:
  assumes "L \<noteq> []"
  shows "eff_keeps (live_at L out a) (order_confirmed tr L)"
proof -
  have "eff_keeps (live_at L out a) (eff_modify submission_mark_failed)"
    by (auto simp: eff_valid_def submission_mark_failed_def launch_kept_def intro!: live_view)
  then show ?thesis unfolding order_confirmed_def
    by (intro eff_keeps_bind eff_keeps_gets eff_keeps_if live_store_keeps manager_marks_slots eff_keeps_catch live_refresh_session assms)
      (auto simp: eff_valid_def)
qed

lemma notification_slots:
  assumes "L \<noteq> []"
  shows "upper outcome \<noteq> ''REJECTED'' \<Longrightarrow> eff_keeps (live_at L out a) (on_order_submission_result tr od outcome)"
    and "eff_valid (live_at L out (a + 1)) (on_order_submission_result tr od outcome) (\<lambda>_. live_at L out a) (\<lambda>_. live_at L out a)"
proof -
  have ambiguous: "eff_keeps (live_at L out b) (eff_bind (on_store (manager_reconciliation_required L now)) (\<lambda>_.
      eff_modify (\<lambda>w. change_control (\<lambda>c. c\<lparr>wc_connection_state := DEGRADED, wc_reconciliation_status := ''UNKNOWN''\<rparr>) (set_pause True w))))" for b now
    by (intro eff_keeps_bind live_store_keeps manager_marks_slots eff_valid_modify) (auto simp: launch_kept_def intro!: live_view)
  have release: "eff_valid (live_at L out (a + 1)) (eff_bind (on_store (manager_release L now)) (\<lambda>_. eff_ret ())) (\<lambda>_. live_at L out a) (\<lambda>_. live_at L out a)" for now
    by (rule eff_valid_bind[OF live_store[where R = "\<lambda>_. True", simplified, OF manager_release_slots]]) (rule eff_valid_ret)
  have id_ok: "live_at L out b w \<Longrightarrow> wc_launch_id (fl_control (id w)) \<in> {None, Some L}" for b w by (simp add: live_at_def control_ok_def)
  show keeps: "eff_keeps (live_at L out b) (on_order_submission_result tr od outcome)" if "upper outcome \<noteq> ''REJECTED''" for b
    unfolding on_order_submission_result_def using that ambiguous confirmed_slots[OF assms]
    by (intro eff_valid_reads, drule_tac id_ok) (auto intro!: eff_valid_ret)
  have weak: "eff_keeps (live_at L out (a + 1)) m \<Longrightarrow> eff_valid (live_at L out (a + 1)) m (\<lambda>_. live_at L out a) (\<lambda>_. live_at L out a)" for m
    by (erule eff_valid_conseq) (auto intro: live_mono)
  show "eff_valid (live_at L out (a + 1)) (on_order_submission_result tr od outcome) (\<lambda>_. live_at L out a) (\<lambda>_. live_at L out a)"
  proof (cases "upper outcome = ''REJECTED''")
    case False
    then show ?thesis by (intro weak keeps)
  next
    case True
    have "eff_valid (live_at L out (a + 1)) (eff_ret ()) (\<lambda>_. live_at L out a) (\<lambda>_. live_at L out a)"
      by (rule weak) (rule eff_valid_ret)
    with True show ?thesis unfolding on_order_submission_result_def using release
      by (intro eff_valid_reads, drule_tac id_ok) auto
  qed
qed

section \<open>Orders that the exchange took\<close>

text \<open>An answer refuses an order if it is a definitive rejection or reports a terminal status. Every other
  answer, also a lost one, leaves open that the order was taken.\<close>

definition rejects :: "rec_error \<Rightarrow> bool" where
  "rejects e \<longleftrightarrow> e = LeaseLostError \<or> (\<exists>c. e = BinanceDefinitiveRejection c)"

definition answer_refused :: "rec_error + json \<Rightarrow> bool" where
  "answer_refused r = (case r of Inl e \<Rightarrow> rejects e
     | Inr j \<Rightarrow> (case j of JObject d \<Rightarrow> upper (py_str (json_get d ''status'')) \<in> set terminal_statuses | _ \<Rightarrow> False))"

definition takes_order :: "rest_call \<Rightarrow> rec_error + json \<Rightarrow> bool" where
  "takes_order c r \<longleftrightarrow> (\<exists>p. c = PostOrder p) \<and> \<not> answer_refused r"

definition counts_taken :: "'o trading \<Rightarrow> ('o \<Rightarrow> nat) \<Rightarrow> bool" where
  "counts_taken tr taken \<longleftrightarrow>
     (\<forall>c out. case vn_request (xv_venue (tr_exec tr)) c out of (r, out') \<Rightarrow> taken out' = taken out + (if takes_order c r then 1 else 0))
     \<and> (\<forall>f out. xv_lease (tr_exec tr) = Some f \<longrightarrow> taken (snd (f out)) = taken out)"

text \<open>Besides the orders that were taken, \<open>n\<close> slots are reserved.\<close>

definition slots_cover :: "string \<Rightarrow> ('o \<Rightarrow> nat) \<Rightarrow> int \<Rightarrow> 'o floor \<Rightarrow> bool" where
  "slots_cover L taken n w = live_at L (fl_outside w) (int (taken (fl_outside w)) + n) w"

lemma staged_mono: "slots_cover L taken n w \<Longrightarrow> m \<le> n \<Longrightarrow> slots_cover L taken m w"
  by (auto simp: slots_cover_def intro: live_mono)

lemma live_staged: "live_at L out (int (taken out) + n) w \<Longrightarrow> slots_cover L taken n w"
  by (auto simp: slots_cover_def live_at_def)

lemma staged_lift:
  assumes "\<And>out. eff_valid (live_at L out (int (taken out) + n)) m (\<lambda>x. live_at L out (int (taken out) + g x))
      (\<lambda>_ w. live_at L out (int (taken out) + h) w \<and> R)"
  shows "eff_valid (slots_cover L taken n) m (\<lambda>x. slots_cover L taken (g x)) (\<lambda>_ w. slots_cover L taken h w \<and> R)"
proof (rule eff_validI)
  fix w
  assume "slots_cover L taken n w"
  then have w: "live_at L (fl_outside w) (int (taken (fl_outside w)) + n) w" by (simp add: slots_cover_def)
  obtain r w' where "m w = (r, w')" by fastforce
  then show "case m w of (Inl e, w') \<Rightarrow> slots_cover L taken h w' \<and> R | (Inr x, w') \<Rightarrow> slots_cover L taken (g x) w'"
    using eff_valid_Inl[OF assms w] eff_valid_Inr[OF assms w] by (cases r) (auto intro: live_staged)
qed

lemmas staged_total = staged_lift[where R = False, simplified]
lemmas staged_partial = staged_lift[where R = True, simplified]

lemma staged_lift_keeps: "(\<And>out a. eff_keeps (live_at L out a) m) \<Longrightarrow> eff_keeps (slots_cover L taken n) m"
  by (rule staged_partial) simp

lemma on_world_valid: "eff_valid P f Q E \<Longrightarrow> eff_valid (xinv P k) (on_world f) (\<lambda>x. xinv (Q x) k) (\<lambda>e. xinv (E e) k)"
  by (rule eff_validI) (auto simp: eff_valid_def on_world_def xinv_def settings_def split_beta split: sum.splits prod.splits)

lemma staged_changes:
  "slots_cover L taken n (refresh_engine_state b w) = slots_cover L taken n w" "slots_cover L taken n (set_pause b w) = slots_cover L taken n w"
  "slots_cover L taken n (set_killed b w) = slots_cover L taken n w"
  by (simp_all add: slots_cover_def) (simp_all add: refresh_engine_state_def set_pause_def set_killed_def change_worker_def)

lemma staged_view: "slots_cover L taken n w \<Longrightarrow> launch_kept f \<Longrightarrow> slots_cover L taken n (change_control f w)"
  unfolding slots_cover_def by (drule live_view, assumption) (simp add: change_control_def)

lemma fence_idle: "live_at L out a w \<Longrightarrow> fence_autonomous_launch tr w = (Inr True, w)"
  by (auto simp: fence_autonomous_launch_def live_at_def control_ok_def launch_policy_is_def Let_def split: option.splits)

text \<open>All but submissions keep the account of the slots.\<close>

lemma staged_floor:
  assumes "counts_taken tr taken" "L \<noteq> []"
  shows "floor_invariant tr (slots_cover L taken n)"
proof
  have "taken (snd (vn_request (xv_venue (tr_exec tr)) c out)) = taken out" if "\<not> is_order c" for c out
  proof -
    have "\<not> takes_order c r" for r using that by (auto simp: takes_order_def is_order_def)
    moreover obtain r out' where "vn_request (xv_venue (tr_exec tr)) c out = (r, out')" by fastforce
    moreover have "case vn_request (xv_venue (tr_exec tr)) c out of (r, out') \<Rightarrow> taken out' = taken out + (if takes_order c r then 1 else 0)"
      using assms(1) by (simp add: counts_taken_def)
    ultimately show ?thesis by simp
  qed
  then show "requests_keep (trading_exec tr) (slots_cover L taken n)"
    by (auto simp: requests_keep_def slots_cover_def live_at_def trading_exec_def on_outside_def Let_def split_beta)
  show "eff_keeps (slots_cover L taken n) (clear_ambiguity_fence tr)" by (rule staged_lift_keeps) (rule live_clear[OF assms(2)])
  show "eff_keeps (slots_cover L taken n) (fence_autonomous_launch tr)" by (auto simp: eff_valid_def slots_cover_def fence_idle)
qed (auto simp: staged_changes staged_view, simp add: slots_cover_def live_at_def change_worker_def)

lemma staged_callbacks:
  fixes tr :: "'o trading" and taken :: "'o \<Rightarrow> nat"
  assumes "counts_taken tr taken" "L \<noteq> []"
  shows "eo_timestamp od = Aware u \<Longrightarrow> is_risk_increasing risk \<Longrightarrow> eo_risk_class od = risk \<Longrightarrow>
      eff_valid (xinv (slots_cover L taken 0) k) (durable_barrier (trading_exec tr) od risk) (\<lambda>go. xinv (slots_cover L taken (tally go)) k) (\<lambda>_ _. False)"
    and "upper outcome \<noteq> ''REJECTED'' \<Longrightarrow> eff_keeps (xinv (slots_cover L taken n) k) (notify_submission_result (trading_exec tr) od outcome)"
    and "eff_valid (xinv (slots_cover L taken 1) k) (notify_submission_result (trading_exec tr) od outcome) (\<lambda>_. xinv (slots_cover L taken 0) k) (\<lambda>_ _. False)"
    and "eff_keeps (xinv (slots_cover L taken n) k) (assert_execution_lease (trading_exec tr) risk)"
proof -
  have x: "xv_barrier (trading_exec tr) = Some (before_order_submission tr)" "xv_notify (trading_exec tr) = Some (on_order_submission_result tr)"
    "xv_lease (trading_exec tr) = map_option on_outside (xv_lease (tr_exec tr))"
    by (simp_all add: trading_exec_def Let_def)
  have degrade: "eff_valid (xinv W k) (eff_modify (\<lambda>s. set_last_status t (set_state c s))) (\<lambda>_. xinv W k) (\<lambda>_ _. False)" for W :: "'o floor \<Rightarrow> bool" and t c
    by (simp add: eff_valid_def xinv_def)
  show "eff_valid (xinv (slots_cover L taken 0) k) (durable_barrier (trading_exec tr) od risk) (\<lambda>go. xinv (slots_cover L taken (tally go)) k) (\<lambda>_ _. False)"
    if od: "eo_timestamp od = Aware u" "is_risk_increasing risk" "eo_risk_class od = risk"
  proof -
    have "eff_valid (live_at L out (int (taken out) + 0)) (before_order_submission tr od) (\<lambda>go. live_at L out (int (taken out) + tally go)) (\<lambda>_ _. False)" for out
      using barrier_slots[of od u L out "int (taken out)" tr] od by simp
    then have "eff_valid (slots_cover L taken 0) (before_order_submission tr od) (\<lambda>go. slots_cover L taken (tally go)) (\<lambda>_ _. False)"
      by (rule staged_total)
    from on_world_valid[OF this, of k]
    have "eff_valid (xinv (slots_cover L taken 0) k) (on_world (before_order_submission tr od)) (\<lambda>go. xinv (slots_cover L taken (tally go)) k) (\<lambda>_ _. False)"
      by (rule eff_valid_weaken_exc) (simp add: xinv_def)
    then show ?thesis unfolding durable_barrier_def x option.case
      by (rule eff_valid_bind) (auto simp: eff_valid_def xinv_def od tally_def)
  qed
  show "eff_keeps (xinv (slots_cover L taken n) k) (notify_submission_result (trading_exec tr) od outcome)" if "upper outcome \<noteq> ''REJECTED''"
    unfolding notify_submission_result_def x option.case
    by (intro eff_keeps_catch on_world_valid[OF staged_lift_keeps] notification_slots(1)[OF assms(2)] that x_modify) simp
  have "eff_valid (slots_cover L taken 1) (on_order_submission_result tr od outcome) (\<lambda>_. slots_cover L taken 0) (\<lambda>_. slots_cover L taken 0)"
    by (rule staged_partial) (use notification_slots(2)[OF assms(2)] in simp)
  from eff_valid_catch[OF on_world_valid[OF this] degrade]
  show "eff_valid (xinv (slots_cover L taken 1) k) (notify_submission_result (trading_exec tr) od outcome) (\<lambda>_. xinv (slots_cover L taken 0) k) (\<lambda>_ _. False)"
    unfolding notify_submission_result_def x option.case .
  show "eff_keeps (xinv (slots_cover L taken n) k) (assert_execution_lease (trading_exec tr) risk)"
  proof (cases "xv_lease (tr_exec tr)")
    case None
    then show ?thesis by (simp add: assert_execution_lease_def x eff_valid_def)
  next
    case (Some f)
    have "taken (snd (f out)) = taken out" for out using assms(1) Some by (auto simp: counts_taken_def)
    then have "eff_keeps (slots_cover L taken n) (on_outside f)"
      by (auto simp: eff_valid_def on_outside_def slots_cover_def live_at_def split_beta split: sum.split)
    then show ?thesis unfolding assert_execution_lease_def x Some option.map option.case by (auto intro!: eff_rules on_world_valid)
  qed
qed

section \<open>Submissions\<close>

lemma returns_valid: "eff_valid P m Q E \<Longrightarrow> returns m \<Longrightarrow> eff_valid P m Q (\<lambda>_ _. False)"
  by (fastforce simp: eff_valid_def returns_def split: prod.splits sum.splits)

text \<open>Checks that do not fail with a rejection.\<close>

definition soft :: "rec_error + 'a \<Rightarrow> bool" where
  "soft r \<longleftrightarrow> (\<forall>e. r = Inl e \<longrightarrow> \<not> rejects e)"

lemma soft_bind: "soft m \<Longrightarrow> (\<And>x. soft (f x)) \<Longrightarrow> soft (res_bind m f)"
  by (auto simp: soft_def res_bind_eq_Inl)

lemma soft_checks: "soft (Inr x)" "soft (ambiguous_unless c why)" "c \<Longrightarrow> soft (check c e)"
  by (simp_all add: soft_def ambiguous_unless_def check_def rejects_def)

lemma soft_price: "soft (response_price vs)"
  by (induction vs) (auto simp: soft_def rejects_def split: if_splits option.splits decimal.splits)

lemma soft_response:
  assumes "upper (py_str (json_get d ''status'')) \<notin> set terminal_statuses"
  shows "soft (response_checks intent d prepared cid allow)"
  using assms unfolding response_checks_def Let_def by (intro soft_bind soft_checks soft_price) simp

lemma response_refused:
  "order_from_response intent j prepared cid ctx False now = Inl e \<Longrightarrow> rejects e \<Longrightarrow> answer_refused (Inr j)"
  "answer_refused (Inr j) \<Longrightarrow> \<exists>e. order_from_response intent j prepared cid ctx False now = Inl e"
proof -
  assume run: "order_from_response intent j prepared cid ctx False now = Inl e" and "rejects e"
  then obtain d where d: "j = JObject d" "response_checks intent d prepared cid False = Inl e"
    by (auto simp: order_from_response_def rejects_def res_bind_eq_Inl split: json.splits)
  with \<open>rejects e\<close> soft_response[of d intent prepared cid False] show "answer_refused (Inr j)" by (auto simp: answer_refused_def soft_def)
next
  assume "answer_refused (Inr j)"
  then obtain d where d: "j = JObject d" "upper (py_str (json_get d ''status'')) \<in> set terminal_statuses"
    by (auto simp: answer_refused_def split: json.splits)
  have "response_checks intent d prepared cid False \<noteq> Inr p" for p
    using d(2) by (simp add: response_checks_def Let_def res_bind_eq_Inr check_def)
  then obtain e where "response_checks intent d prepared cid False = Inl e" by (cases "response_checks intent d prepared cid False") auto
  then show "\<exists>e. order_from_response intent j prepared cid ctx False now = Inl e" by (simp add: order_from_response_def d)
qed

lemma post_slots:
  assumes "counts_taken tr taken"
  shows "eff_valid (xinv (slots_cover L taken 1) k) (rest (trading_exec tr) (PostOrder p))
     (\<lambda>j. xinv (slots_cover L taken (tally (answer_refused (Inr j)))) k) (\<lambda>e. xinv (slots_cover L taken (tally (rejects e))) k)"
proof (rule eff_validI)
  fix s
  assume s: "xinv (slots_cover L taken 1) k s"
  let ?out = "fl_outside (floor_of s)"
  obtain r out' where run: "vn_request (xv_venue (tr_exec tr)) (PostOrder p) ?out = (r, out')" by fastforce
  have "case vn_request (xv_venue (tr_exec tr)) (PostOrder p) ?out of (r, out') \<Rightarrow> taken out' = taken ?out + (if takes_order (PostOrder p) r then 1 else 0)"
    using assms by (simp add: counts_taken_def)
  then have n: "int (taken out') + tally (answer_refused r) = int (taken ?out) + 1"
    by (simp add: run takes_order_def tally_def)
  have "slots_cover L taken (tally (answer_refused r)) ((floor_of s)\<lparr>fl_outside := out'\<rparr>)"
    using s n by (simp add: xinv_def slots_cover_def live_at_def)
  then show "case rest (trading_exec tr) (PostOrder p) s of (Inl e, s') \<Rightarrow> xinv (slots_cover L taken (tally (rejects e))) k s'
    | (Inr j, s') \<Rightarrow> xinv (slots_cover L taken (tally (answer_refused (Inr j)))) k s'"
    using s run by (cases r) (simp_all add: rest_def recon_def request_def trading_exec_def Let_def on_outside_def xinv_def settings_def answer_refused_def)
qed

lemma post_mutation_returns: "returns (post_mutation_reconcile x od response)"
  unfolding post_mutation_reconcile_def by (auto intro!: eff_rules)

lemma notify_returns: "returns (notify_submission_result x od outcome)"
  unfolding notify_submission_result_def by (auto intro!: eff_rules split: option.split)

lemma xinv_tally: "xinv (slots_cover L taken 1) k s \<Longrightarrow> xinv (slots_cover L taken (tally b)) k s" "xinv (slots_cover L taken (tally b)) k s \<Longrightarrow> xinv (slots_cover L taken 0) k s"
  by (auto simp: xinv_def tally_def intro: staged_mono)

lemma submit_request_slots:
  assumes "counts_taken tr taken" "L \<noteq> []"
  shows "eff_valid (xinv (slots_cover L taken 1) k) (submit_request (trading_exec tr) intent prepared cid ctx)
     (\<lambda>_. xinv (slots_cover L taken 0) k) (\<lambda>e. xinv (slots_cover L taken (tally (rejects e))) k)"
proof -
  let ?x = "trading_exec tr" and ?I = "\<lambda>n. xinv (slots_cover L taken n) k" and ?E = "\<lambda>e. xinv (slots_cover L taken (tally (rejects e))) k"
  note floor = staged_floor[OF assms, of 0]
  have settled: "eff_valid (?I 0) (eff_bind (with_ledger (upsert_order od)) (\<lambda>_.
     eff_bind (post_mutation_reconcile ?x od response) (\<lambda>verified.
     eff_bind (eff_gets (current_order od)) (\<lambda>od'.
     if \<not> verified then eff_bind (notify_submission_result ?x od' ''AMBIGUOUS'') (\<lambda>_. eff_ret None)
     else eff_bind (notify_submission_result ?x od' ''CONFIRMED'') (\<lambda>_.
          eff_ret (Some (od', eo_status od' \<in> {''NEW'', ''PARTIALLY_FILLED''}))))))) (\<lambda>_. ?I 0) ?E" for od response
  proof (rule eff_valid_weaken_exc[OF returns_valid])
    have outcomes: "upper ''AMBIGUOUS'' \<noteq> ''REJECTED''" "upper ''CONFIRMED'' \<noteq> ''REJECTED''" by (simp_all add: string_eval)
    show "eff_keeps (?I 0) (eff_bind (with_ledger (upsert_order od)) (\<lambda>_.
       eff_bind (post_mutation_reconcile ?x od response) (\<lambda>verified.
       eff_bind (eff_gets (current_order od)) (\<lambda>od'.
       if \<not> verified then eff_bind (notify_submission_result ?x od' ''AMBIGUOUS'') (\<lambda>_. eff_ret None)
       else eff_bind (notify_submission_result ?x od' ''CONFIRMED'') (\<lambda>_.
            eff_ret (Some (od', eo_status od' \<in> {''NEW'', ''PARTIALLY_FILLED''})))))))"
      by (intro eff_rules x_simple r_post_mutation floor_invariant.reading[OF floor] staged_callbacks(2)[OF assms] outcomes)
  qed (intro eff_rules post_mutation_returns notify_returns, simp)
  have response: "eff_valid (?I (tally (answer_refused (Inr j)))) (eff_lift id (order_from_response intent j prepared cid ctx False now)) (\<lambda>_. ?I 0) ?E" for j now
  proof (cases "order_from_response intent j prepared cid ctx False now")
    case (Inl e)
    then show ?thesis using response_refused(1)[OF Inl] by (auto simp: eff_valid_def tally_def eff_lift_def intro: xinv_tally)
  next
    case (Inr od)
    then show ?thesis using response_refused(2)[of j intent prepared cid ctx now] by (auto simp: eff_valid_def tally_def eff_lift_def)
  qed
  have reads: "eff_valid (?I n) (now_of ?x) (\<lambda>_. ?I n) ?E" for n by (simp add: eff_valid_def now_of_def xinv_def)
  have gets: "eff_valid (?I 1) (eff_gets f) (\<lambda>_. ?I 1) ?E" for f :: "'a floor ExecState \<Rightarrow> bool" by (simp add: eff_valid_def)
  have count: "eff_valid (?I 1) (eff_modify (\<lambda>s. s\<lparr>xs_submission_attempts := Suc (xs_submission_attempts s)\<rparr>)) (\<lambda>_. ?I 1) ?E"
    by (simp add: eff_valid_def xinv_def)
  show ?thesis unfolding submit_request_def
    by (rule eff_valid_bind[OF gets], rule eff_valid_bind[OF count], rule eff_valid_bind[OF post_slots[OF assms(1)]],
      rule eff_valid_bind[OF reads], rule eff_valid_bind[OF response], rule settled)
qed

text \<open>What follows a failure: the slot that is left over is released at most once.\<close>

lemma submission_failed_slots:
  assumes "counts_taken tr taken" "L \<noteq> []"
  shows "eff_valid (xinv (slots_cover L taken 1) k) (submission_failed (trading_exec tr) intent prepared cid ctx planned a e)
      (\<lambda>_. xinv (slots_cover L taken 0) k) (\<lambda>_. xinv (slots_cover L taken 0) k)"
    and "\<not> rejects e \<Longrightarrow> eff_keeps (xinv (slots_cover L taken 0) k) (submission_failed (trading_exec tr) intent prepared cid ctx planned True e)"
proof -
  let ?x = "trading_exec tr" and ?I = "\<lambda>n. xinv (slots_cover L taken n) k"
  note reading = floor_invariant.reading[OF staged_floor[OF assms]]
  have outcomes: "upper ''AMBIGUOUS'' \<noteq> ''REJECTED''" "upper ''CONFIRMED'' \<noteq> ''REJECTED''" by (simp_all add: string_eval)
  have weak: "?I 1 s \<Longrightarrow> ?I 0 s" for s by (auto simp: xinv_def intro: staged_mono)
  have release: "eff_valid (?I 1) (notify_submission_result ?x od t) (\<lambda>_. ?I 0) (\<lambda>_. ?I 0)" for od t
    by (rule eff_valid_weaken_exc[OF staged_callbacks(3)[OF assms]]) simp
  have ambiguous: "eff_keeps (?I n) (eff_bind (notify_submission_result ?x planned ''AMBIGUOUS'') (\<lambda>_.
      eff_bind (resolve_ambiguous_order ?x intent prepared cid ctx) (\<lambda>recovered.
      case recovered of None \<Rightarrow> eff_ret None
      | Some od \<Rightarrow> eff_bind (notify_submission_result ?x od ''CONFIRMED'') (\<lambda>_. eff_ret (Some (od, False))))))" for n
    by (intro eff_keeps_bind staged_callbacks(2)[OF assms] outcomes r_resolve_ambiguous reading)
      (auto intro!: eff_keeps_bind staged_callbacks(2)[OF assms] outcomes eff_valid_ret split: option.split)
  have ambiguous': "eff_valid (?I 1) (eff_bind (notify_submission_result ?x planned ''AMBIGUOUS'') (\<lambda>_.
      eff_bind (resolve_ambiguous_order ?x intent prepared cid ctx) (\<lambda>recovered.
      case recovered of None \<Rightarrow> eff_ret None
      | Some od \<Rightarrow> eff_bind (notify_submission_result ?x od ''CONFIRMED'') (\<lambda>_. eff_ret (Some (od, False)))))) (\<lambda>_. ?I 0) (\<lambda>_. ?I 0)"
    by (rule eff_valid_conseq[OF ambiguous]) (auto intro: weak)
  have start: "eff_valid (?I 1) (eff_modify invalidate_authentication) (\<lambda>_. ?I 1) (\<lambda>_. ?I 0)" "eff_valid (?I 1) (now_of ?x) (\<lambda>_. ?I 1) (\<lambda>_. ?I 0)"
    "eff_valid (?I 1) (with_ledger f) (\<lambda>_. ?I 1) (\<lambda>_. ?I 0)" for f
    by (simp_all add: eff_valid_def xinv_def now_of_def with_ledger_def) (simp add: settings_def)
  have degrade: "eff_keeps (?I 0) (eff_bind (eff_modify (set_state c)) (\<lambda>_. eff_ret None))" for c
    by (simp add: eff_valid_def xinv_def)
  show "eff_valid (?I 1) (submission_failed ?x intent prepared cid ctx planned a e) (\<lambda>_. ?I 0) (\<lambda>_. ?I 0)"
    unfolding submission_failed_def Let_def
    by (cases e) (simp_all only: rec_error.case,
      (intro ambiguous' eff_valid_bind[OF start(1)] eff_valid_bind[OF start(2)] eff_valid_bind[OF start(3)] eff_valid_bind[OF release] degrade
        eff_valid_ret; assumption)+)
  show "eff_keeps (?I 0) (submission_failed ?x intent prepared cid ctx planned True e)" if "\<not> rejects e"
    unfolding submission_failed_def Let_def if_True using that
    by (cases e) (simp_all only: rec_error.case rejects_def,
      (intro ambiguous eff_keeps_bind staged_callbacks(2)[OF assms] outcomes degrade eff_valid_ret x_modify | simp)+)
qed

lemma submit_prepared_slots:
  assumes "counts_taken tr taken" "L \<noteq> []" "is_risk_increasing (oc_risk ctx)"
  shows "eff_keeps (xinv (slots_cover L taken 0) k) (submit_prepared (trading_exec tr) intent prepared cid ctx)"
proof -
  let ?x = "trading_exec tr" and ?I = "\<lambda>n. xinv (slots_cover L taken n) k"
  note failed = submission_failed_slots[OF assms(1,2)]
  have before: "eff_valid (?I 0) (before_submission ?x (planned_order intent prepared cid ctx now) (oc_risk ctx)) (\<lambda>go. ?I (tally go)) (\<lambda>_. ?I 1)" for now
    unfolding before_submission_def
  proof (rule eff_valid_bind)
    show "eff_valid (?I 0) (durable_barrier ?x (planned_order intent prepared cid ctx now) (oc_risk ctx)) (\<lambda>go. ?I (tally go)) (\<lambda>_. ?I 1)"
      by (rule eff_valid_weaken_exc[OF staged_callbacks(1)[OF assms(1,2)]]) (simp_all add: planned_order_def assms(3))
    show "eff_valid (?I (tally go)) (if \<not> go then eff_ret False else eff_bind (with_ledger f) (\<lambda>_. eff_bind (assert_execution_lease ?x (oc_risk ctx)) (\<lambda>_. eff_ret True)))
       (\<lambda>go. ?I (tally go)) (\<lambda>_. ?I 1)" for go f
    proof (cases go)
      case True
      have "eff_keeps (?I 1) (eff_bind (with_ledger f) (\<lambda>_. assert_execution_lease ?x (oc_risk ctx)))"
        by (intro eff_keeps_bind x_simple staged_callbacks(4)[OF assms(1,2)])
      then show ?thesis using True by (auto simp: eff_valid_def tally_def eff_bind_def with_ledger_def split: prod.splits sum.splits)
    qed (simp add: eff_valid_def tally_def)
  qed
  have go_on: "eff_valid (?I (tally go)) (if \<not> go then eff_ret None else eff_catch (submit_request ?x intent prepared cid ctx)
      (submission_failed ?x intent prepared cid ctx planned True)) (\<lambda>_. ?I 0) (\<lambda>_. ?I 0)" for go planned
  proof (cases go)
    case True
    have "eff_valid (?I (tally (rejects e))) (submission_failed ?x intent prepared cid ctx planned True e) (\<lambda>_. ?I 0) (\<lambda>_. ?I 0)" for e
      using failed by (cases "rejects e") (simp_all add: tally_def)
    from eff_valid_catch[OF submit_request_slots[OF assms(1,2)] this] show ?thesis using True by (simp add: tally_def)
  qed (simp add: eff_valid_def tally_def)
  have first: "eff_valid (?I 0) (eff_catch (eff_bind (before_submission ?x (planned_order intent prepared cid ctx now) (oc_risk ctx)) (\<lambda>go. eff_ret (Inr go)))
      (\<lambda>e. eff_bind (submission_failed ?x intent prepared cid ctx (planned_order intent prepared cid ctx now) False e) (\<lambda>r. eff_ret (Inl r))))
      (\<lambda>r. case r of Inl _ \<Rightarrow> ?I 0 | Inr go \<Rightarrow> ?I (tally go)) (\<lambda>_. ?I 0)" for now
    by (rule eff_valid_catch, rule eff_valid_bind[OF before], rule eff_valid_ret, simp, rule eff_valid_bind[OF failed(1)], rule eff_valid_ret, simp)
  show ?thesis
    unfolding submit_prepared_def Let_def
    by (rule eff_valid_bind[OF x_simple(1)], rule eff_valid_bind[OF first])
      (use go_on in \<open>auto simp: eff_valid_def split: sum.split\<close>)
qed

section \<open>Operations of the worker\<close>

lemma execute_decision_slots:
  fixes d :: "'r ExecutionDecision"
  assumes "counts_taken tr taken" "L \<noteq> []" "is_risk_increasing (ed_risk_class d)"
  shows "eff_keeps (xinv (slots_cover L taken 0) k) (execute_decision (trading_exec tr) True d)"
proof -
  let ?x = "trading_exec tr" and ?I = "xinv (slots_cover L taken 0) k"
  have risk: "is_risk_increasing (oc_risk (context_of d))" using assms(3) by (simp add: context_of_def)
  have one: "eff_keeps ?I (submit_intent ?x (context_of d) em i intent acc)" for em i intent acc
    unfolding submit_intent_def
    by (intro eff_keeps_bind r_run_order_gate floor_invariant.reading[OF staged_floor[OF assms(1,2)]] x_simple)
      (auto intro!: eff_rules submit_prepared_slots[OF assms(1,2) risk] split: option.split)
  have "eff_keeps ?I (submit_orders ?x (context_of d) em ios acc)" for em ios acc
    by (induction ios arbitrary: acc) (auto intro!: eff_rules one x_modify)
  then show ?thesis unfolding execute_decision_def execute_orders_def
    by (intro eff_rules x_worker_gate | assumption)+
qed

lemma manual_slots:
  fixes d :: "'r ExecutionDecision"
  assumes "counts_taken tr taken" "L \<noteq> []" "is_risk_increasing (ed_risk_class d)"
  shows "eff_keeps (xinv (slots_cover L taken 0) k) (execute_manual_decision tr d)" "eff_keeps (xinv (slots_cover L taken 0) k) (execute_autonomously tr d)"
proof -
  note closed = floor_invariant.fail_closed_keeps[OF staged_floor[OF assms(1,2)]]
  show manual: "eff_keeps (xinv (slots_cover L taken 0) k) (execute_manual_decision tr d)"
    unfolding execute_manual_decision_def
    by (intro eff_rules x_simple execute_decision_slots[OF assms] closed | assumption)+
  show "eff_keeps (xinv (slots_cover L taken 0) k) (execute_autonomously tr d)"
    unfolding execute_autonomously_def
    by (intro eff_rules x_simple manual closed | assumption)+
qed

lemma put_slots:
  assumes "counts_taken tr taken"
  shows "eff_keeps (xinv (slots_cover L taken n) k) (rest (trading_exec tr) (PutOrder p))"
proof -
  have "taken (snd (vn_request (xv_venue (tr_exec tr)) (PutOrder p) out)) = taken out" for out
  proof -
    have "case vn_request (xv_venue (tr_exec tr)) (PutOrder p) out of (r, out') \<Rightarrow> taken out' = taken out + (if takes_order (PutOrder p) r then 1 else 0)"
      using assms by (simp add: counts_taken_def)
    then show ?thesis by (simp add: takes_order_def split_beta)
  qed
  then show ?thesis unfolding rest_def
    by (intro x_recon eff_validI)
      (auto simp: request_def slots_cover_def live_at_def trading_exec_def on_outside_def Let_def split_beta split: sum.split)
qed

lemma amend_slots:
  assumes "counts_taken tr taken" "L \<noteq> []"
  shows "eff_keeps (xinv (slots_cover L taken n) k) (modify_order (trading_exec tr) b sy cid p q side)"
proof -
  note reading = floor_invariant.reading[OF staged_floor[OF assms]]
  have request: "eff_keeps (xinv (slots_cover L taken n) k) (amend_request (trading_exec tr) intent prepared ctx)" for intent prepared ctx
    unfolding amend_request_def
    by (intro eff_rules x_simple staged_callbacks(4)[OF assms] put_slots[OF assms(1)] r_post_mutation reading)
  have failed: "eff_keeps (xinv (slots_cover L taken n) k) (amend_failed (trading_exec tr) intent prepared ctx e)" for intent prepared ctx e
    unfolding amend_failed_def by (cases e) (auto intro!: eff_rules x_modify r_resolve_ambiguous reading)
  show ?thesis unfolding modify_order_def Let_def
    by (auto intro!: eff_rules x_simple r_run_order_gate reading x_worker_gate request failed split: option.split)
qed

lemma cancel_slots:
  assumes "requests_keep x W"
  shows "eff_keeps (xinv W k) (cancel_order x b sy cid)"
proof -
  note reading = requests_reads[OF assms]
  have noted: "eff_keeps (xinv W k) (note_order_status cid j)" for j
    unfolding note_order_status_def by (auto intro!: eff_rules x_simple split: option.split)
  have "eff_keeps (xinv W k) (resolve_ambiguous_cancel x sy cid)"
    unfolding resolve_ambiguous_cancel_def query_order_status_def
    by (auto intro!: eff_rules x_modify r_rest reading noted r_reconciled x_simple split: option.split)
  then have resolved: "eff_keeps (xinv W k) (cancel_resolved x sy cid)"
    unfolding cancel_resolved_def by (auto intro!: eff_rules split: option.split)
  have "eff_keeps (xinv W k) (cancel_order_body x sy cid)"
    unfolding cancel_order_body_def
    by (auto intro!: eff_rules x_modify r_request assms resolved r_reconciled reading x_simple split: option.split)
  moreover have "eff_keeps (xinv W k) (cancel_order_failed x sy cid e)" for e
    unfolding cancel_order_failed_def by (cases e) (auto intro!: eff_rules x_modify resolved)
  ultimately show ?thesis unfolding cancel_order_def by (auto intro!: eff_rules)
qed

text \<open>Decisions that increase risk, and every other operation but the emergency flattening.\<close>

definition risk_only :: "'r worker_op \<Rightarrow> bool" where
  "risk_only op = (case op of OpManual d \<Rightarrow> is_risk_increasing (ed_risk_class d) | OpAutonomous d \<Rightarrow> is_risk_increasing (ed_risk_class d)
     | OpFlatten _ \<Rightarrow> False | _ \<Rightarrow> True)"

lemma release_keeps:
  assumes "floor_invariant tr W" "\<And>b w. W w \<Longrightarrow> W (set_killed b w)"
  shows "eff_keeps (xinv W k) (set_kill_switch tr b)"
proof -
  note refresh = r_then_refresh[of W, OF floor_invariant.refresh[OF assms(1)]]
  have "eff_keeps (xinv W k) (release_kill_switch tr)"
    unfolding release_kill_switch_def
    by (auto intro!: eff_rules r_request floor_invariant.requests[OF assms(1)] floor_invariant.trigger_keeps[OF assms(1)] refresh assms(2) x_modify
        split: json.split list.split)
  then show ?thesis unfolding set_kill_switch_def Let_def
    by (auto intro!: eff_rules floor_invariant.activate_keeps[OF assms(1)] refresh assms(2))
qed

lemma staged_step_keeps:
  fixes op :: "'r worker_op" and tr :: "'o trading"
  assumes "counts_taken tr taken" "L \<noteq> []" "risk_only op"
  shows "eff_keeps (xinv (slots_cover L taken 0) k) (worker_step tr op)"
proof -
  note floor = staged_floor[OF assms(1,2), of 0]
  show ?thesis
  proof (cases op)
    case (OpManual d)
    then show ?thesis using manual_slots(1)[OF assms(1,2), of d k] assms(3) by (simp add: risk_only_def forget_keeps)
  next
    case (OpAutonomous d)
    then show ?thesis using manual_slots(2)[OF assms(1,2), of d k] assms(3) by (simp add: risk_only_def)
  next
    case OpReconcile
    then show ?thesis by (simp add: forget_keeps[OF floor_invariant.trigger_keeps[OF floor]])
  next
    case OpSync
    then show ?thesis by (simp add: floor_invariant.sync_keeps[OF floor])
  next
    case (OpKillSwitch b)
    then show ?thesis by (simp add: forget_keeps[OF release_keeps[OF floor]] staged_changes)
  next
    case (OpPause b)
    show ?thesis unfolding OpPause worker_step.simps set_pause_new_risk_def by (intro eff_rules r_then_refresh) (simp_all add: staged_changes)
  next
    case (OpRecoveryOnly b)
    show ?thesis unfolding OpRecoveryOnly worker_step.simps set_recovery_only_def
      by (rule r_then_refresh) (simp add: staged_changes, simp add: slots_cover_def live_at_def change_worker_def)
  next
    case (OpCancel sy cid)
    show ?thesis unfolding OpCancel worker_step.simps cancel_worker_order_def
      by (intro eff_rules cancel_slots floor_invariant.requests[OF floor])
  next
    case (OpAmend sy cid p q side)
    show ?thesis unfolding OpAmend worker_step.simps amend_worker_order_def by (intro eff_rules amend_slots[OF assms(1,2)])
  next
    case OpFailClosed
    then show ?thesis by (simp add: forget_keeps[OF floor_invariant.fail_closed_keeps[OF floor]])
  next
    case OpDisarm
    show ?thesis unfolding OpDisarm worker_step.simps disarm_def
      by (intro eff_rules r_on_world floor_invariant.fence[OF floor])
        (simp add: eff_valid_def slots_cover_def live_at_def control_ok_def change_worker_def change_control_def)
  qed (use assms(3) in \<open>simp add: risk_only_def\<close>)
qed


section \<open>A concrete launch\<close>

text \<open>An exchange that never answers an order: each may have been taken. The outside is the list of requests.\<close>

definition silent_venue :: "rest_call \<Rightarrow> rest_call list \<Rightarrow> (rec_error + json) \<times> rest_call list" where
  "silent_venue c sent = (Inl (case c of PostOrder _ \<Rightarrow> BinanceTransportAmbiguity ''timeout'' | _ \<Rightarrow> RestFailure ''unreachable''), sent @ [c])"

definition sample_trading :: "rest_call list trading" where
  "sample_trading = \<lparr>tr_exec = logging_desk\<lparr>xv_venue := (xv_venue logging_desk)\<lparr>vn_request := silent_venue\<rparr>\<rparr>, tr_now = (\<lambda>_. 0),
     tr_rules = sample_provider, tr_authorized = (\<lambda>_. True)\<rparr>"

definition sample_session :: launch_row where
  "sample_session = new_session ''launch-1'' ''approval-1'' ''image'' ''ETHUSDC'' STAGED_FIRST_ORDER 1 0"

text \<open>The first statement to the database is executed, but its acknowledgement is lost.\<close>

definition sample_floor :: "rest_call list floor" where
  "sample_floor = \<lparr>fl_worker = sample_worker, fl_control = \<lparr>wc_adapter = True, wc_connection_state = READY, wc_authenticated = True,
       wc_private_stream_healthy = True, wc_reconciliation_status = ''IN_SYNC'', wc_configured = True, wc_launch_id = Some ''launch-1'',
       wc_launch_session = Some sample_session\<rparr>,
     fl_store = (sample_store [Unacked 1])\<lparr>st_launches := [sample_session]\<rparr>, fl_outside = []\<rparr>"

definition worker_state :: "rest_call list floor \<Rightarrow> rest_call list floor ExecState" where
  "worker_state w = \<lparr>xs_adapter = sample_adapter [],
     xs_recon = \<lparr>rc_ledger = ledger (sample_adapter []), rc_status = ''IN_SYNC'', rc_diffs = [], rc_authentication_failed = False,
       rc_unattributed = [], rc_recovered_trade_ids = {}, rc_window_start = None, rc_window_end = None, rc_world = w\<rparr>,
     xs_market_price = Map.empty, xs_market_bid = Map.empty, xs_market_ask = [''ETHUSDC'' \<mapsto> Fin 10], xs_submission_attempts = 0,
     xs_order_event_at = Map.empty, xs_emergency = EmergencyUnknown, xs_epoch = 0\<rparr>"

definition posts :: "rest_call list \<Rightarrow> nat" where
  "posts sent = length (filter (\<lambda>c. case c of PostOrder _ \<Rightarrow> True | _ \<Rightarrow> False) sent)"

lemma sample_floor_of [simp]: "floor_of (worker_state w) = w"
  by (simp add: worker_state_def)

lemma sample_counts: "counts_taken sample_trading posts"
  by (auto simp: counts_taken_def takes_order_def answer_refused_def rejects_def sample_trading_def silent_venue_def logging_desk_def posts_def
      split: rest_call.splits)

lemma sample_shows: "shows_orders sample_trading (filter is_order)"
  by (simp add: shows_orders_def sample_trading_def silent_venue_def)


theorem killed_worker_is_silent_witness:
  "filter is_order (fl_outside (floor_of (worker_run sample_trading
      [OpManual (sample_execution_decision CLOSE), OpReconcile, OpAmend ''ETHUSDC'' ''B-1'' (Fin 10) (Fin 1) ''BUY'', OpPause False,
       OpAutonomous (sample_execution_decision NEW_RISK)] (worker_state (set_killed True sample_floor))))) = []"
proof -
  let ?s = "worker_state (set_killed True sample_floor)"
  have "kill_switch_active (fl_worker (floor_of ?s))" "fl_outside (floor_of ?s) = []"
    by (simp_all add: set_killed_def change_worker_def sample_floor_def)
  with killed_worker_is_silent[OF sample_shows this(1), of "[OpManual (sample_execution_decision CLOSE), OpReconcile,
      OpAmend ''ETHUSDC'' ''B-1'' (Fin 10) (Fin 1) ''BUY'', OpPause False, OpAutonomous (sample_execution_decision NEW_RISK)]"]
  show ?thesis by (auto simp: keeps_switch_def)
qed



end
