(* ===== verification/Spec2Isabelle.thy ===== *)
theory Spec2Isabelle
  imports Lease Allocator Governor SymbolRules SafetyLimits Ledger Gates QueueService ReconcileSafety ExecutionWitnesses Persistence WorkerLaunch
begin

text \<open>
  \<^bold>\<open>Blessing AI: the trading worker and the durable job queue.\<close>

  The program has two independent parts. The \<^emph>\<open>trading worker\<close> (\<open>src/apps/trading_worker\<close>) runs a tick:
  the market state is classified, strategy engines propose intents, the meta allocator nets them into
  one target, exposure recovery holds the target back in a drawdown, the risk governor turns it into a
  decision with orders, and the Binance adapter sends the orders after the decision gate and the order
  gate have passed. A ledger mirrors orders, fills and positions of the exchange, reconciliation
  compares the two, and a fenced lease makes sure that one worker trades a scope. The \<^emph>\<open>job queue\<close>
  (\<open>src/apps/agy_queue\<close>) stores jobs for agents in SQLite or JSONL and hands them to workers.

  \<^bold>\<open>Foundations.\<close>
  \<^item> \<open>Prelude\<close>: exceptions \<open>pyerr\<close>, results \<open>'a res\<close> with \<open>res_bind\<close>, ordered dictionaries as association
    lists, strings, \<open>upper\<close>, \<open>strip\<close>, numbers as text.
  \<^item> \<open>Rounding\<close>, \<open>Decimals\<close>: correct rounding to \<open>p\<close> digits; \<open>Decimal\<close> with 28 digits (\<open>dadd\<close>, \<open>dmul\<close>,
    \<open>ddiv\<close>, quantisation, parsing) and \<open>float\<close> with 53 bits. Exponents are unbounded: overflow and
    underflow of either type do not occur in the model.
  \<^item> \<open>Calendar\<close>, \<open>Json\<close>: instants as microseconds, naive and aware times; JSON values with Python's
    truth, \<open>str\<close>, \<open>get\<close> and \<open>Decimal(str(x))\<close>. The \<open>str\<close> of a container is abbreviated.
  \<^item> \<open>Effects\<close>: computations over a state that may raise and keep the state changes made before; a
    Hoare-style judgement \<open>eff_valid\<close> and the rules \<open>eff_rules\<close> with which reconciliation is proved.
  \<^item> \<open>Domain\<close>: the enumerations and records of \<open>domain/enums.py\<close> and \<open>domain/models.py\<close>.

  \<^bold>\<open>Decision pipeline.\<close>
  \<^item> \<open>Strategies\<close> (\<open>engines/market_state.py\<close> and the grid, trend, shock and funding-carry engines): the
    classifier returns a distribution; the locale \<open>strategy_engine\<close> states what an engine promises and is
    interpreted for all four; the grid never scales up against its position.
  \<^item> \<open>Allocator\<close> (\<open>meta_allocator.py\<close>): intents are validated, netted and scaled to the cap; composed with
    the engines, the allocation of a tick succeeds.
  \<^item> \<open>Recovery\<close> (\<open>exposure_recovery.py\<close>), \<open>Governor\<close> (\<open>risk_governor.py\<close>): in a toxic drawdown nothing adds
    risk, new risk stays within the limits, orders move the position towards the target, reductions stay
    available, identifiers are unique.

  \<^bold>\<open>Venue.\<close>
  \<^item> \<open>SymbolRules\<close> (\<open>symbol_rules.py\<close>): parsing of filters, flooring of quantities, directed rounding of
    prices, notional and percent-price filters.
  \<^item> \<open>SafetyLimits\<close> (\<open>config.py\<close>, \<open>models.py\<close>): limits from the environment never widen the Mainnet caps.
  \<^item> \<open>Ledger\<close> (\<open>ledger.py\<close>, the grid depth of \<open>main.py\<close>): well-formedness of every reachable ledger, fills
    without duplicates, lineage of orders, when the cached depth is stale.
  \<^item> \<open>Gates\<close> (\<open>gates.py\<close>, the freshness checks of \<open>execution.py\<close>): what a decision and an order that pass
    satisfy, and that a pause never blocks a reduction.
  \<^item> \<open>Snapshot\<close>, \<open>Reconciliation\<close>, \<open>ReconcileSafety\<close> (\<open>reconciliation.py\<close>): the account snapshot, recovery of
    fills, the comparison, bootstrap and reconcile over an arbitrary REST client; what \<open>IN_SYNC\<close> means, that
    every other outcome fails closed, that foreign exposure is not adopted.
  \<^item> \<open>Execution\<close> (\<open>execution.py\<close>): the adapter as computations over its state, which contains the reconciler, the
    ledger and the outside world: market samples, submission behind the durable barrier and the lease,
    ambiguity resolution, cancellation, amendment, emergency flattening, private stream events, connection.
    \<open>ExecutionLog\<close> observes the requests through the world and shows that everything but a mutation only
    reads; \<open>ExecutionSafety\<close> states what precedes every order request and that account events block
    decisions; \<open>ExecutionVerified\<close> shows that an order reported as executed is verified;
    \<open>ExecutionWitnesses\<close> has concrete runs.
  \<^item> \<open>Lease\<close> (\<open>execution_lease.py\<close>): the in-memory and the PostgreSQL store as interpretations of the locale
    \<open>fenced_lease\<close>; tokens increase, stale handles are fenced off, unexpired leases are protected.
  \<^item> \<open>Launch\<close> (the launch sessions of \<open>persistence/postgres/repositories.py\<close> with their table in
    \<open>init_schema.sql\<close>): statements that violate a constraint change nothing; over any interleaving a staged
    session sends one order, a restart fences autonomous sessions, and a spent approval lifts the fence again.
  \<^item> \<open>Outbox\<close> (the other repositories of the file): events are appended, dispatched and retried over a database
    that may fail anywhere; every event is applied exactly once and the outbox drains, but a retried event
    may overwrite a newer one and fills of two symbols may share a row.
  \<^item> \<open>Persistence\<close> (\<open>persistence/manager.py\<close>): the bounded queue and its books, and that the barrier before an
    order is durable.
  \<^item> \<open>Worker\<close> (the controls of \<open>TradingWorkerApp\<close> in \<open>main.py\<close>): engine state, pause, kill switch, reconciliation,
    the callbacks of the adapter and the execution of a decision. The worker, the store and the outside form
    the floor, which is the world of the adapter. \<open>WorkerSafety\<close> has the locale \<open>floor_invariant\<close> for predicates on
    the floor and shows that the kill switch holds, that its release needs evidence and that a killed worker
    sends no order; \<open>WorkerLaunch\<close> composes worker, adapter, manager and launch table: a staged launch sends
    one order from end to end.

  \<^bold>\<open>Job queue.\<close>
  \<^item> \<open>Redaction\<close> (\<open>security.py\<close>), \<open>QueueModel\<close> (\<open>models.py\<close>): data, serialised form, redaction.
  \<^item> \<open>QueueSpec\<close>: the abstract queue \<open>spec_run\<close> and the locale \<open>queue_store\<close>, whose assumption is that a
    backend refines it; \<open>JsonlQueue\<close> and \<open>SqliteQueue\<close> (\<open>storage.py\<close>) interpret the locale.
  \<^item> \<open>QueueService\<close> (\<open>service.py\<close>, the error path of \<open>worker.py\<close>): the properties of the queue for both
    backends, submission and authorisation.

  \<^bold>\<open>Bounds.\<close> Loops of the source are structural recursions, except \<open>scale10\<close>, which has a measure, and
  the income pages, whose bound of 100 pages is the source's own. No fuel is used elsewhere.

  \<^bold>\<open>Idealisations.\<close> Strings are ASCII. Texts of refusals and log lines are constructors or left out.
  Clocks, hashes, the lease check, git, agent sessions and the REST client are
  parameters without assumptions on their answers, but for those that a property names; the callbacks of the
  worker are parameters of the adapter and definitions of \<open>Worker\<close>. A method runs without interleaving with other coroutines; one
  SQL statement or transaction is one step. Time stamps of the queue have the form of \<open>utc_iso\<close>.

  \<^bold>\<open>Not modelled.\<close> Transport and I/O (\<open>rest_client.py\<close>, \<open>user_stream.py\<close>, \<open>public_ws.py\<close>, the
  PostgreSQL client and the loading of a ledger from it, the HTTP server, the dashboard), ARM, the continuation and the event loop of \<open>main.py\<close>, backtests
  and research tools, preflight and release checks, and the agent session driver. They move data in and
  out or report on it; the decisions that a trade depends on are in the parts above.
\<close>

end
